(* ===== verification/Py_Prelude.thy ===== *)
theory Py_Prelude
  imports Main "HOL-Library.Char_ord" "HOL-Library.List_Lexorder" "HOL-Library.Product_Lexorder"
    "HOL-Library.AList" "HOL-Library.Multiset"
begin

text \<open>
  Shared vocabulary of the development: raised exceptions as values, the dynamic values of the
  JSON dictionaries the services exchange, ASCII strings with the string methods the sources call,
  timestamps, insertion-ordered dictionaries, and the two generic interfaces (choosing a best
  candidate, simulating one loop by another) that several components rely on.
\<close>

named_theorems py_simps \<open>evaluation of the Python vocabulary\<close>

subsection \<open>Exceptions\<close>

datatype pyerr =
    ValueError string
  | TypeError string
  | AttributeError string
  | RuntimeError string
  | OverflowError string
  | AssertionError string
  | MultipleResultsFound string
  | IntegrityError string
  | NoResultFound string

type_synonym 'a res = "pyerr + 'a"

text \<open>A raised exception skips the rest of the function, as \<open>Inl\<close> does under \<open>bindR\<close>.\<close>

fun bindR :: "'a res \<Rightarrow> ('a \<Rightarrow> 'b res) \<Rightarrow> 'b res" where
  "bindR (Inl e) f = Inl e"
| "bindR (Inr x) f = f x"

lemma bindR_eq_Inr [simp]: "bindR m f = Inr y \<longleftrightarrow> (\<exists>x. m = Inr x \<and> f x = Inr y)"
  by (cases m) auto

lemma bindR_eq_Inl: "bindR m f = Inl e \<longleftrightarrow> m = Inl e \<or> (\<exists>x. m = Inr x \<and> f x = Inl e)"
  by (cases m) auto

lemma bindR_assoc: "bindR (bindR m f) g = bindR m (\<lambda>x. bindR (f x) g)"
  by (cases m) auto

text \<open>A loop body that may raise, run over a list with its state.\<close>

fun foldR :: "('x \<Rightarrow> 's \<Rightarrow> 's res) \<Rightarrow> 'x list \<Rightarrow> 's \<Rightarrow> 's res" where
  "foldR f [] s = Inr s"
| "foldR f (x # xs) s = bindR (f x s) (foldR f xs)"

fun mapR :: "('x \<Rightarrow> 'y res) \<Rightarrow> 'x list \<Rightarrow> 'y list res" where
  "mapR f [] = Inr []"
| "mapR f (x # xs) = bindR (f x) (\<lambda>y. bindR (mapR f xs) (\<lambda>ys. Inr (y # ys)))"

lemma foldR_append: "foldR f (xs @ ys) s = bindR (foldR f xs s) (foldR f ys)"
proof (induction xs arbitrary: s)
  case (Cons x xs)
  then show ?case by (cases "f x s") auto
qed simp

lemma foldR_invariant:
  assumes "foldR f xs s = Inr t" and "P s"
    and "\<And>x s s'. x \<in> set xs \<Longrightarrow> P s \<Longrightarrow> f x s = Inr s' \<Longrightarrow> P s'"
  shows "P t"
  using assms by (induction xs arbitrary: s) auto

lemma mapR_Inr_length: "mapR f xs = Inr ys \<Longrightarrow> length ys = length xs"
  by (induction xs arbitrary: ys) auto

lemma mapR_Inr_mem:
  "mapR f xs = Inr ys \<Longrightarrow> y \<in> set ys \<Longrightarrow> \<exists>x \<in> set xs. f x = Inr y"
  by (induction xs arbitrary: ys) auto

subsection \<open>Timestamps\<close>

text \<open>
  A Python \<open>datetime\<close> is its wall-clock reading in microseconds since 1970-01-01T00:00 and its
  UTC offset in microseconds, \<open>None\<close> when it is naive. After conversion to UTC only the instant is
  left; a separate type keeps the two apart.
\<close>

datatype pydatetime = DT (dt_wall: int) (dt_tz: "int option")

datatype instant = UTC (utc_us: int)

instantiation instant :: linorder
begin

definition less_eq_instant :: "instant \<Rightarrow> instant \<Rightarrow> bool" where
  "less_eq_instant a b \<longleftrightarrow> utc_us a \<le> utc_us b"

definition less_instant :: "instant \<Rightarrow> instant \<Rightarrow> bool" where
  "less_instant a b \<longleftrightarrow> utc_us a < utc_us b"

instance
  by standard (auto simp: less_eq_instant_def less_instant_def intro: instant.expand)

end

lemma instant_le [simp]: "UTC a \<le> UTC b \<longleftrightarrow> a \<le> b"
  by (simp add: less_eq_instant_def)

lemma instant_less [simp]: "UTC a < UTC b \<longleftrightarrow> a < b"
  by (simp add: less_instant_def)

text \<open>The range of \<open>datetime\<close>: years 1 to 9999.\<close>

definition min_us :: int where "min_us = -62135596800000000"
definition max_us :: int where "max_us = 253402300799999999"

definition in_range_us :: "int \<Rightarrow> bool" where
  "in_range_us u \<longleftrightarrow> min_us \<le> u \<and> u \<le> max_us"

text \<open>\<open>value.astimezone(UTC)\<close> of an aware value with offset \<open>off\<close>.\<close>

definition astimezone :: "int \<Rightarrow> int \<Rightarrow> instant res" where
  "astimezone wall off =
     (if in_range_us (wall - off) then Inr (UTC (wall - off)) else Inl (OverflowError ''date value out of range''))"

text \<open>\<open>datetime + timedelta(milliseconds=ms)\<close>, with both overflow checks.\<close>

definition add_ms :: "instant \<Rightarrow> int \<Rightarrow> instant res" where
  "add_ms t ms =
     (if \<bar>ms div 86400000\<bar> > 999999999 then Inl (OverflowError ''days; must have magnitude <= 999999999'')
      else if in_range_us (utc_us t + ms * 1000) then Inr (UTC (utc_us t + ms * 1000))
      else Inl (OverflowError ''date value out of range''))"

text \<open>
  \<open>normalize_utc\<close> of \<open>utils/time.py\<close>, which every projection applies: a naive value is read as UTC. Two aware
  values compare by the same reading.
\<close>

definition aware_us :: "pydatetime \<Rightarrow> int" where
  "aware_us d = (case dt_tz d of None \<Rightarrow> dt_wall d | Some off \<Rightarrow> dt_wall d - off)"

definition normalize_utc :: "pydatetime option \<Rightarrow> instant option" where
  "normalize_utc v = map_option (\<lambda>d. UTC (aware_us d)) v"

lemma add_ms_value: "add_ms t ms = Inr u \<Longrightarrow> u = UTC (utc_us t + ms * 1000)"
  by (simp add: add_ms_def split: if_splits)

subsection \<open>ASCII strings\<close>

text \<open>
  Strings of the model are ASCII: \<open>len(s.encode())\<close> is then \<open>length s\<close>, and the orders of code
  points and of \<open>string\<close> agree.
\<close>

definition is_space :: "char \<Rightarrow> bool" where
  "is_space c \<longleftrightarrow> (let n = (of_char c :: nat) in n = 32 \<or> (9 \<le> n \<and> n \<le> 13) \<or> (28 \<le> n \<and> n \<le> 31))"

definition py_strip :: "string \<Rightarrow> string" where
  "py_strip s = rev (dropWhile is_space (rev (dropWhile is_space s)))"

definition lower_char :: "char \<Rightarrow> char" where
  "lower_char c = (let n = (of_char c :: nat) in if 65 \<le> n \<and> n \<le> 90 then char_of (n + 32) else c)"

definition upper_char :: "char \<Rightarrow> char" where
  "upper_char c = (let n = (of_char c :: nat) in if 97 \<le> n \<and> n \<le> 122 then char_of (n - 32) else c)"

definition py_lower :: "string \<Rightarrow> string" where
  "py_lower s = map lower_char s"

definition py_upper :: "string \<Rightarrow> string" where
  "py_upper s = map upper_char s"

fun dec_nat :: "nat \<Rightarrow> string" where
  "dec_nat n = (if n < 10 then [char_of (48 + n)] else dec_nat (n div 10) @ [char_of (48 + n mod 10)])"

declare dec_nat.simps [simp del]

definition dec_int :: "int \<Rightarrow> string" where
  "dec_int i = (if i < 0 then CHR ''-'' # dec_nat (nat (- i)) else dec_nat (nat i))"

definition zpad :: "nat \<Rightarrow> string \<Rightarrow> string" where
  "zpad w s = replicate (w - length s) (CHR ''0'') @ s"

lemma strip_hd: "py_strip s = c # t \<Longrightarrow> \<not> is_space c"
proof -
  assume h: "py_strip s = c # t"
  let ?d = "dropWhile is_space s"
  have "py_strip s @ drop (length (py_strip s)) ?d = ?d"
  proof -
    have "rev ?d = takeWhile is_space (rev ?d) @ dropWhile is_space (rev ?d)" by simp
    then have "?d = rev (dropWhile is_space (rev ?d)) @ rev (takeWhile is_space (rev ?d))"
      by (metis rev_append rev_rev_ident)
    then show ?thesis by (metis append_eq_conv_conj py_strip_def)
  qed
  with h have "?d \<noteq> [] \<and> hd ?d = c" by (metis append_Cons list.distinct(1) list.sel(1))
  then show ?thesis using hd_dropWhile[of is_space s] by auto
qed

lemma strip_last: "py_strip s = t @ [c] \<Longrightarrow> \<not> is_space c"
proof -
  assume "py_strip s = t @ [c]"
  then have "rev (py_strip s) = c # rev t" by simp
  then have "dropWhile is_space (rev (dropWhile is_space s)) = c # rev t"
    by (simp only: py_strip_def rev_rev_ident)
  then show ?thesis by (metis hd_dropWhile list.distinct(1) list.sel(1))
qed

lemma strip_id:
  assumes "s = [] \<or> (\<not> is_space (hd s) \<and> \<not> is_space (last s))"
  shows "py_strip s = s"
proof (cases "s = []")
  case True
  then show ?thesis by (simp add: py_strip_def)
next
  case False
  then have "dropWhile is_space s = s" using assms by (cases s) auto
  moreover have "dropWhile is_space (rev s) = rev s"
    using False assms by (cases "rev s") (auto simp: last_conv_nth hd_rev[symmetric])
  ultimately show ?thesis by (simp add: py_strip_def)
qed

lemma strip_strip [simp]: "py_strip (py_strip s) = py_strip s"
proof (rule strip_id)
  show "py_strip s = [] \<or> \<not> is_space (hd (py_strip s)) \<and> \<not> is_space (last (py_strip s))"
  proof (cases "py_strip s = []")
    case False
    then have "\<not> is_space (hd (py_strip s))" using strip_hd by (metis list.exhaust_sel)
    moreover have "\<not> is_space (last (py_strip s))"
      using False strip_last by (metis append_butlast_last_id)
    ultimately show ?thesis by simp
  qed simp
qed

text \<open>\<open>(value or "").strip() or None\<close> on an optional string.\<close>

definition clean :: "string option \<Rightarrow> string option" where
  "clean v = (case v of None \<Rightarrow> None
     | Some s \<Rightarrow> (if py_strip s = [] then None else Some (py_strip s)))"

text \<open>\<open>value or None\<close> on an optional string: the empty string is false.\<close>

definition or_none :: "string option \<Rightarrow> string option" where
  "or_none v = (case v of None \<Rightarrow> None | Some s \<Rightarrow> (if s = [] then None else Some s))"

lemma clean_None [simp]: "clean None = None"
  by (simp add: clean_def)

lemma clean_clean [simp]: "clean (clean v) = clean v"
  by (auto simp: clean_def split: option.splits)

lemma clean_nonempty: "clean v = Some s \<Longrightarrow> s \<noteq> [] \<and> py_strip s = s"
  by (auto simp: clean_def split: option.splits if_splits)

subsection \<open>Calendar rendering\<close>

text \<open>
  \<open>datetime.isoformat\<close>: the proleptic Gregorian date of a day count, then the time of day. The
  day-count arithmetic counts years from March, so that the leap day is the last of its year.
\<close>

definition civil_from_days :: "int \<Rightarrow> int \<times> int \<times> int" where
  "civil_from_days days =
     (let z = days + 719468;
          era = z div 146097;
          doe = z mod 146097;
          yoe = (doe - doe div 1460 + doe div 36524 - doe div 146096) div 365;
          doy = doe - (365 * yoe + yoe div 4 - yoe div 100);
          mp = (5 * doy + 2) div 153;
          d = doy - (153 * mp + 2) div 5 + 1;
          m = (if mp < 10 then mp + 3 else mp - 9);
          y = yoe + era * 400
      in (if m \<le> 2 then y + 1 else y, m, d))"

definition pad_int :: "nat \<Rightarrow> int \<Rightarrow> string" where
  "pad_int w i = zpad w (dec_int i)"

definition iso_date :: "int \<Rightarrow> string" where
  "iso_date us = (case civil_from_days (us div 86400000000) of
     (y, m, d) \<Rightarrow> pad_int 4 y @ ''-'' @ pad_int 2 m @ ''-'' @ pad_int 2 d)"

definition iso_clock :: "int \<Rightarrow> string" where
  "iso_clock us = (let t = us mod 86400000000 div 1000000 in
     pad_int 2 (t div 3600) @ '':'' @ pad_int 2 (t mod 3600 div 60) @ '':'' @ pad_int 2 (t mod 60))"

definition iso_frac :: "int \<Rightarrow> string" where
  "iso_frac us = ''.'' @ pad_int 6 (us mod 1000000)"

definition iso_offset :: "int option \<Rightarrow> string" where
  "iso_offset tz = (case tz of None \<Rightarrow> [] | Some off \<Rightarrow>
     (let a = \<bar>off\<bar> in
      (if off < 0 then ''-'' else ''+'') @ pad_int 2 (a div 3600000000) @ '':'' @
      pad_int 2 (a mod 3600000000 div 60000000) @
      (if a mod 60000000 = 0 then []
       else '':'' @ pad_int 2 (a mod 60000000 div 1000000) @
         (if a mod 1000000 = 0 then [] else iso_frac a))))"

text \<open>\<open>isoformat(timespec="microseconds")\<close>, \<open>isoformat()\<close> and \<open>str()\<close>.\<close>

definition isoformat_us :: "instant \<Rightarrow> string" where
  "isoformat_us t = iso_date (utc_us t) @ ''T'' @ iso_clock (utc_us t) @ iso_frac (utc_us t) @ ''+00:00''"

definition iso_with_sep :: "string \<Rightarrow> pydatetime \<Rightarrow> string" where
  "iso_with_sep sep d = iso_date (dt_wall d) @ sep @ iso_clock (dt_wall d) @
     (if dt_wall d mod 1000000 = 0 then [] else iso_frac (dt_wall d)) @ iso_offset (dt_tz d)"

subsection \<open>Dynamic values\<close>

text \<open>
  The values of JSON objects and of catalog rows. A dictionary is its items in insertion order
  (string keys, pairwise different); a float is its \<open>repr\<close> text. A \<open>datetime\<close> is a column of a
  row, never nested in a JSON value, so the rendering of a container that holds one is not used.
\<close>

datatype pyval =
    PNone
  | PBool bool
  | PInt int
  | PFloat string
  | PStr string
  | PList "pyval list"
  | PDict "(string \<times> pyval) list"
  | PDatetime pydatetime

type_synonym pydict = "(string \<times> pyval) list"

text \<open>\<open>d.get(k)\<close>\<close>

definition dget :: "pydict \<Rightarrow> string \<Rightarrow> pyval" where
  "dget d k = (case map_of d k of None \<Rightarrow> PNone | Some v \<Rightarrow> v)"

fun truthy :: "pyval \<Rightarrow> bool" where
  "truthy PNone = False"
| "truthy (PBool b) = b"
| "truthy (PInt i) = (i \<noteq> 0)"
| "truthy (PFloat r) = (r \<noteq> ''0.0'' \<and> r \<noteq> ''-0.0'')"
| "truthy (PStr s) = (s \<noteq> [])"
| "truthy (PList xs) = (xs \<noteq> [])"
| "truthy (PDict d) = (d \<noteq> [])"
| "truthy (PDatetime _) = True"

text \<open>\<open>a or b\<close>\<close>

definition py_or :: "pyval \<Rightarrow> pyval \<Rightarrow> pyval" where
  "py_or a b = (if truthy a then a else b)"

fun hashable :: "pyval \<Rightarrow> bool" where
  "hashable (PList _) = False"
| "hashable (PDict _) = False"
| "hashable _ = True"

text \<open>\<open>v == n\<close> for an integer literal: Python compares numbers across their types.\<close>

fun eq_int :: "pyval \<Rightarrow> int \<Rightarrow> bool" where
  "eq_int (PInt i) n = (i = n)"
| "eq_int (PBool b) n = ((if b then 1 else 0) = n)"
| "eq_int (PFloat r) n = (r = dec_int n @ ''.0'' \<or> (n = 0 \<and> r = ''-0.0''))"
| "eq_int _ _ = False"

definition hex_digit :: "nat \<Rightarrow> char" where
  "hex_digit n = (if n < 10 then char_of (48 + n) else char_of (87 + n))"

text \<open>\<open>repr\<close> of a string: single quotes unless it holds one and no double quote.\<close>

definition repr_char :: "char \<Rightarrow> char \<Rightarrow> string" where
  "repr_char q c = (let n = (of_char c :: nat); bs = char_of (92 :: nat) in
     if c = q \<or> c = bs then [bs, c]
     else if n = 10 then [bs, CHR ''n''] else if n = 13 then [bs, CHR ''r'']
     else if n = 9 then [bs, CHR ''t'']
     else if n < 32 \<or> n = 127 then [bs, CHR ''x'', hex_digit (n div 16), hex_digit (n mod 16)]
     else [c])"

definition repr_str :: "string \<Rightarrow> string" where
  "repr_str s = (let sq = char_of (39 :: nat); dq = char_of (34 :: nat);
       q = (if sq \<in> set s \<and> dq \<notin> set s then dq else sq)
     in q # concat (map (repr_char q) s) @ [q])"

fun join :: "string \<Rightarrow> string list \<Rightarrow> string" where
  "join sep [] = []"
| "join sep [x] = x"
| "join sep (x # y # xs) = x @ sep @ join sep (y # xs)"

fun py_repr :: "pyval \<Rightarrow> string" and py_repr_item :: "string \<times> pyval \<Rightarrow> string" where
  "py_repr PNone = ''None''"
| "py_repr (PBool b) = (if b then ''True'' else ''False'')"
| "py_repr (PInt i) = dec_int i"
| "py_repr (PFloat r) = r"
| "py_repr (PStr s) = repr_str s"
| "py_repr (PList xs) = ''['' @ join '', '' (map py_repr xs) @ '']''"
| "py_repr (PDict d) = ''{'' @ join '', '' (map py_repr_item d) @ ''}''"
| "py_repr (PDatetime d) = ''datetime.datetime('' @ iso_with_sep '' '' d @ '')''"
| "py_repr_item (k, v) = repr_str k @ '': '' @ py_repr v"

definition py_str :: "pyval \<Rightarrow> string" where
  "py_str v = (case v of PStr s \<Rightarrow> s | PDatetime d \<Rightarrow> iso_with_sep '' '' d | _ \<Rightarrow> py_repr v)"

text \<open>\<open>str(value or "").strip() or None\<close>, the normalisation every projection applies.\<close>

definition py_text :: "pyval \<Rightarrow> string option" where
  "py_text v = (let s = py_strip (py_str (py_or v (PStr []))) in if s = [] then None else Some s)"

definition is_str :: "pyval \<Rightarrow> bool" where
  "is_str v = (case v of PStr _ \<Rightarrow> True | _ \<Rightarrow> False)"

fun opt_str :: "string option \<Rightarrow> pyval" where
  "opt_str None = PNone"
| "opt_str (Some s) = PStr s"

lemma dget_Nil [simp]: "dget [] k = PNone"
  by (simp add: dget_def)

lemma dget_Cons [simp]: "dget ((k', v) # d) k = (if k = k' then v else dget d k)"
  by (simp add: dget_def)

lemma text_PNone [simp]: "py_text PNone = None"
  by (simp add: py_text_def py_or_def py_str_def py_strip_def)

lemma text_PStr: "py_text (PStr s) = clean (Some s)"
  by (simp add: py_text_def py_or_def py_str_def clean_def py_strip_def)

lemma text_opt_str: "py_text (opt_str v) = clean v"
  by (cases v) (simp_all add: text_PStr)

lemma text_nonempty: "py_text v = Some s \<Longrightarrow> s \<noteq> [] \<and> py_strip s = s"
  by (auto simp: py_text_def Let_def split: if_splits)

subsection \<open>Choosing a best candidate\<close>

text \<open>
  Several components choose one row out of many: Python's \<open>max(candidates, key=...)\<close> keeps the first
  maximum, \<open>sorted(rows, key=...)[-1]\<close> the last. Their clients need only what both promise.
\<close>

locale best_choice =
  fixes key :: "'a \<Rightarrow> 'k::linorder"
    and pick :: "'a list \<Rightarrow> 'a option"
  assumes pick_Nil: "pick [] = None"
    and pick_best: "xs \<noteq> [] \<Longrightarrow> \<exists>x \<in> set xs. pick xs = Some x \<and> (\<forall>y \<in> set xs. key y \<le> key x)"
begin

lemma pick_None_iff: "pick xs = None \<longleftrightarrow> xs = []"
  using pick_Nil pick_best by fastforce

lemma pick_mem: "pick xs = Some x \<Longrightarrow> x \<in> set xs"
  using pick_Nil pick_best by (cases "xs = []") fastforce+

lemma pick_max: "pick xs = Some x \<Longrightarrow> y \<in> set xs \<Longrightarrow> key y \<le> key x"
  using pick_best by (cases "xs = []") fastforce+

text \<open>With different keys the choice does not depend on the order of the rows.\<close>

lemma pick_set_eq:
  assumes "inj_on key (set xs)" and "set xs = set ys"
  shows "pick xs = pick ys"
proof (cases "pick xs")
  case None
  then show ?thesis using assms(2) by (metis pick_None_iff set_empty)
next
  case (Some x)
  then obtain y where y: "pick ys = Some y"
    using assms(2) by (metis not_None_eq pick_None_iff set_empty)
  have "key x = key y"
    using Some y assms(2) by (metis order_antisym pick_max pick_mem)
  then have "x = y"
    using Some y assms by (metis inj_onD pick_mem)
  with Some y show ?thesis by simp
qed

end

text \<open>\<open>max(xs, key=k)\<close>: the first element whose key is greatest.\<close>

fun max_by :: "('a \<Rightarrow> 'k::linorder) \<Rightarrow> 'a list \<Rightarrow> 'a option" where
  "max_by k [] = None"
| "max_by k (x # xs) = (case max_by k xs of None \<Rightarrow> Some x
     | Some y \<Rightarrow> (if k x < k y then Some y else Some x))"

text \<open>\<open>sorted(xs, key=k)[-1]\<close>: the last element of the stable sort.\<close>

definition last_sorted :: "('a \<Rightarrow> 'k::linorder) \<Rightarrow> 'a list \<Rightarrow> 'a option" where
  "last_sorted k xs = (if xs = [] then None else Some (last (sort_key k xs)))"

lemma max_by_best: "xs \<noteq> [] \<Longrightarrow> \<exists>x \<in> set xs. max_by k xs = Some x \<and> (\<forall>y \<in> set xs. k y \<le> k x)"
proof (induction xs)
  case (Cons x xs)
  show ?case
  proof (cases "xs = []")
    case False
    then obtain z where "z \<in> set xs" "max_by k xs = Some z" "\<forall>y \<in> set xs. k y \<le> k z"
      using Cons.IH by blast
    then show ?thesis by (auto split: option.splits)
  qed simp
qed simp

lemma last_sorted_best:
  assumes "xs \<noteq> []"
  shows "\<exists>x \<in> set xs. last_sorted k xs = Some x \<and> (\<forall>y \<in> set xs. k y \<le> k x)"
proof -
  let ?s = "sort_key k xs"
  have ne: "?s \<noteq> []" using assms by (metis set_empty set_sort)
  have srt: "sorted (map k (butlast ?s @ [last ?s]))"
    using ne by (simp del: map_append)
  have "k y \<le> k (last ?s)" if "y \<in> set xs" for y
  proof -
    have "y \<in> set (butlast ?s @ [last ?s])" using that ne by simp
    with srt show ?thesis by (auto simp: sorted_append)
  qed
  moreover have "last ?s \<in> set xs" using ne by (metis last_in_set set_sort)
  ultimately show ?thesis using assms by (auto simp: last_sorted_def)
qed

interpretation max_choice: best_choice k "max_by k" for k
  by unfold_locales (simp_all add: max_by_best)

interpretation last_choice: best_choice k "last_sorted k" for k
  by unfold_locales (simp add: last_sorted_def, rule last_sorted_best)

subsection \<open>Simulating one loop by another\<close>

text \<open>
  An optimised loop runs on another representation of the state. When related states step to
  related states and raise the same exception, the loops agree.
\<close>

locale loop_simulation =
  fixes rel :: "'s \<Rightarrow> 't \<Rightarrow> bool"
    and stepA :: "'x \<Rightarrow> 's \<Rightarrow> 's res"
    and stepB :: "'x \<Rightarrow> 't \<Rightarrow> 't res"
    and ok :: "'x \<Rightarrow> bool"
  assumes sim: "ok x \<Longrightarrow> rel s t \<Longrightarrow> rel_sum (=) rel (stepA x s) (stepB x t)"
begin

lemma sim_Inl: "ok x \<Longrightarrow> rel s t \<Longrightarrow> stepA x s = Inl e \<longleftrightarrow> stepB x t = Inl e"
  using sim[of x s t] by (cases "stepA x s"; cases "stepB x t") auto

lemma foldR_sim:
  "\<forall>x \<in> set xs. ok x \<Longrightarrow> rel s t \<Longrightarrow> rel_sum (=) rel (foldR stepA xs s) (foldR stepB xs t)"
proof (induction xs arbitrary: s t)
  case (Cons x xs)
  have h: "rel_sum (=) rel (stepA x s) (stepB x t)" using Cons.prems by (intro sim) auto
  show ?case
  proof (cases "stepA x s")
    case (Inl e)
    with h show ?thesis by (cases "stepB x t") auto
  next
    case (Inr s')
    with h obtain t' where "stepB x t = Inr t'" "rel s' t'" by (cases "stepB x t") auto
    with Inr Cons show ?thesis by simp
  qed
qed simp

end

end
