(* ===== verification/Sha256.thy ===== *)
theory Sha256
  imports Py_Prelude "HOL-Library.Word"
begin

text \<open>
  \<open>hashlib.sha256(s.encode()).hexdigest()\<close> of a string of bytes (FIPS 180-4), on 32-bit words with
  wrap-around addition. The development relies on its shape only: 64 lowercase hexadecimal digits.
\<close>

unbundle bit_operations_syntax

definition rotr :: "nat \<Rightarrow> 32 word \<Rightarrow> 32 word" where
  "rotr n w = drop_bit n w OR push_bit (32 - n) w"

definition sha_K :: "32 word list" where
  "sha_K =
     [1116352408, 1899447441, 3049323471, 3921009573, 961987163, 1508970993, 2453635748, 2870763221,
      3624381080, 310598401, 607225278, 1426881987, 1925078388, 2162078206, 2614888103, 3248222580,
      3835390401, 4022224774, 264347078, 604807628, 770255983, 1249150122, 1555081692, 1996064986,
      2554220882, 2821834349, 2952996808, 3210313671, 3336571891, 3584528711, 113926993, 338241895,
      666307205, 773529912, 1294757372, 1396182291, 1695183700, 1986661051, 2177026350, 2456956037,
      2730485921, 2820302411, 3259730800, 3345764771, 3516065817, 3600352804, 4094571909, 275423344,
      430227734, 506948616, 659060556, 883997877, 958139571, 1322822218, 1537002063, 1747873779,
      1955562222, 2024104815, 2227730452, 2361852424, 2428436474, 2756734187, 3204031479, 3329325298]"

definition sha_H0 :: "32 word list" where
  "sha_H0 = [1779033703, 3144134277, 1013904242, 2773480762, 1359893119, 2600822924, 528734635, 1541459225]"

definition byte_at :: "int \<Rightarrow> nat \<Rightarrow> int" where
  "byte_at n i = (n div 256 ^ i) mod 256"

definition sha_pad :: "int list \<Rightarrow> int list" where
  "sha_pad m = m @ [128] @ replicate ((119 - length m mod 64) mod 64) 0
     @ map (byte_at (8 * int (length m))) [7, 6, 5, 4, 3, 2, 1, 0]"

fun be_words :: "int list \<Rightarrow> 32 word list" where
  "be_words (a # b # c # d # r) = of_int (((a * 256 + b) * 256 + c) * 256 + d) # be_words r"
| "be_words _ = []"

fun blocks :: "nat \<Rightarrow> 'a list \<Rightarrow> 'a list list" where
  "blocks 0 xs = []"
| "blocks (Suc n) xs = (if xs = [] then [] else take 16 xs # blocks n (drop 16 xs))"

definition sched_word :: "32 word list \<Rightarrow> nat \<Rightarrow> 32 word" where
  "sched_word w t =
     (let x = w ! (t - 15); y = w ! (t - 2);
          s0 = rotr 7 x XOR rotr 18 x XOR drop_bit 3 x;
          s1 = rotr 17 y XOR rotr 19 y XOR drop_bit 10 y
      in w ! (t - 16) + s0 + w ! (t - 7) + s1)"

definition schedule :: "32 word list \<Rightarrow> 32 word list" where
  "schedule blk = fold (\<lambda>t w. w @ [sched_word w t]) [16..<64] blk"

fun sha_round :: "32 word \<times> 32 word \<Rightarrow> 32 word list \<Rightarrow> 32 word list" where
  "sha_round (k, w) [a, b, c, d, e, f, g, h] =
     (let S1 = rotr 6 e XOR rotr 11 e XOR rotr 25 e;
          ch = (e AND f) XOR (NOT e AND g);
          t1 = h + S1 + ch + k + w;
          S0 = rotr 2 a XOR rotr 13 a XOR rotr 22 a;
          maj = (a AND b) XOR (a AND c) XOR (b AND c);
          t2 = S0 + maj
      in [t1 + t2, a, b, c, d + t1, e, f, g])"
| "sha_round _ s = s"

definition compress :: "32 word list \<Rightarrow> 32 word list \<Rightarrow> 32 word list" where
  "compress blk h = map2 (+) h (fold sha_round (zip sha_K (schedule blk)) h)"

definition hex_word :: "32 word \<Rightarrow> string" where
  "hex_word w = map (\<lambda>i. hex_digit (nat (uint w div 16 ^ i mod 16))) [7, 6, 5, 4, 3, 2, 1, 0]"

definition sha256_hexdigest :: "string \<Rightarrow> string" where
  "sha256_hexdigest s =
     (let ws = be_words (sha_pad (map of_char s))
      in concat (map hex_word (fold compress (blocks (length ws) ws) sha_H0)))"

text \<open>\<open>re.compile(r"^[0-9a-f]{64}$").fullmatch(s)\<close>: \<open>fullmatch\<close> admits no trailing newline.\<close>

definition is_sha256 :: "string \<Rightarrow> bool" where
  "is_sha256 s \<longleftrightarrow> length s = 64 \<and> list_all (\<lambda>c. c \<in> set (map hex_digit [0..<16])) s"

lemma length_round: "length h = 8 \<Longrightarrow> length (sha_round kw h) = 8"
  by (cases "(kw, h)" rule: sha_round.cases) (simp_all add: Let_def)

lemma length_rounds: "length h = 8 \<Longrightarrow> length (fold sha_round kws h) = 8"
  by (induction kws arbitrary: h) (simp_all add: length_round)

lemma length_compress: "length h = 8 \<Longrightarrow> length (compress blk h) = 8"
  by (simp add: compress_def length_rounds)

lemma length_digest: "length h = 8 \<Longrightarrow> length (fold compress bs h) = 8"
  by (induction bs arbitrary: h) (simp_all add: length_compress)

lemma length_concat_hex: "length (concat (map hex_word ws)) = 8 * length ws"
  by (induction ws) (simp_all add: hex_word_def)

lemma hex_word_chars: "set (hex_word w) \<subseteq> set (map hex_digit [0..<16])"
proof -
  have "nat (uint w div 16 ^ i mod 16) \<in> set [0..<16]" for i by (simp add: nat_less_iff)
  then show ?thesis unfolding hex_word_def set_map by blast
qed

lemma sha256_shape: "is_sha256 (sha256_hexdigest s)"
proof -
  have "length (sha256_hexdigest s) = 64"
    using length_digest[of sha_H0] by (simp add: sha256_hexdigest_def Let_def length_concat_hex sha_H0_def)
  moreover have "\<forall>c \<in> set (sha256_hexdigest s). c \<in> set (map hex_digit [0..<16])"
    unfolding sha256_hexdigest_def Let_def set_concat set_map[where f = hex_word]
    using hex_word_chars by blast
  ultimately show ?thesis by (simp add: is_sha256_def list_all_iff)
qed

end
