(* ===== verification/Machine_Evidence.thy ===== *)
theory Machine_Evidence
  imports Sha256
begin

text \<open>
  \<open>machine_evidence.py\<close>: the canonical JSON and content hash of a fact, and the validation of the
  identities a machine sends with its facts. Two parsers of the Python standard library and the local
  time zone are arguments of the definitions (\<open>pylib\<close>), so the theorems hold for all their behaviours.
\<close>

record pylib =
  lib_fromisoformat :: "string \<Rightarrow> pydatetime res"
  lib_json_loads :: "string \<Rightarrow> pyval res"
  lib_local_offset :: "int \<Rightarrow> int"

text \<open>\<open>dt.astimezone(UTC)\<close>: a naive value is read in the local zone.\<close>

definition to_utc :: "pylib \<Rightarrow> pydatetime \<Rightarrow> instant res" where
  "to_utc lib d = astimezone (dt_wall d)
     (case dt_tz d of Some off \<Rightarrow> off | None \<Rightarrow> lib_local_offset lib (dt_wall d))"

text \<open>\<open>s.replace(old, new)\<close> for a non-empty \<open>old\<close>\<close>

function py_replace :: "string \<Rightarrow> string \<Rightarrow> string \<Rightarrow> string" where
  "py_replace old new [] = []"
| "py_replace old new (c # s) =
     (if old \<noteq> [] \<and> take (length old) (c # s) = old then new @ py_replace old new (drop (length old) (c # s))
      else c # py_replace old new s)"
  by pat_completeness auto
termination by (relation "measure (\<lambda>(old, new, s). length s)") auto

definition MAX_REDUCER_EVIDENCE_FACTS :: nat where "MAX_REDUCER_EVIDENCE_FACTS = 256"
definition MIN_CANONICAL_INTEGER :: int where "MIN_CANONICAL_INTEGER = - (2 ^ 63)"
definition MAX_CANONICAL_INTEGER :: int where "MAX_CANONICAL_INTEGER = 2 ^ 64 - 1"

definition CANONICAL_TIMESTAMP_FIELDS :: "string list" where
  "CANONICAL_TIMESTAMP_FIELDS =
     [''observed_at'', ''valid_until'', ''source_mtime'', ''hook_observed_at'', ''claimed_at'', ''response_at'']"

definition SUBJECT_PREFIX :: "(string \<times> string) list" where
  "SUBJECT_PREFIX =
     [(''run'', ''run:''), (''process'', ''process:''), (''activity'', ''run:''), (''control'', ''connection:''),
      (''transcript'', ''thread:''), (''readiness'', ''readiness:''), (''continuation'', ''resume:'')]"

definition AUTHORITY_CLASS :: "(string \<times> string) list" where
  "AUTHORITY_CLASS =
     [(''run'', ''exact_process_exit''), (''process'', ''exact_process_identity''),
      (''activity'', ''provider_runtime''), (''control'', ''provider_control''),
      (''transcript'', ''source_cursor''), (''readiness'', ''operation_proof''),
      (''continuation'', ''retained_launch_contract'')]"

definition GRANTED_OPERATIONS :: "string list" where
  "GRANTED_OPERATIONS = [''send_input'', ''interrupt'', ''terminate'', ''tail_output'', ''resume'']"

definition RUN_EXIT_AUTHORITY :: "(string \<times> string \<times> string) list" where
  "RUN_EXIT_AUTHORITY =
     [(''codex'', ''app_server'', ''codex_bridge_scan''), (''claude'', ''provider'', ''claude_channel_scan''),
      (''opencode'', ''provider'', ''opencode_server_scan''), (''cursor'', ''launcher'', ''cursor_helm_scan''),
      (''antigravity'', ''provider'', ''antigravity_hook_scan'')]"

record evidence_identity =
  ei_family :: string
  ei_fact_index :: int
  ei_subject_key :: string
  ei_source :: string
  ei_source_epoch :: string
  ei_source_seq :: "int option"
  ei_dedupe_key :: string
  ei_evidence_hash :: string
  ei_value :: pydict

subsection \<open>Canonical values\<close>

definition is_digit :: "char \<Rightarrow> bool" where
  "is_digit c \<longleftrightarrow> (let n = (of_char c :: nat) in 48 \<le> n \<and> n \<le> 57)"

text \<open>A shape: the letter \<open>d\<close> stands for a digit, any other character for itself.\<close>

definition shaped :: "string \<Rightarrow> string \<Rightarrow> bool" where
  "shaped p s = list_all2 (\<lambda>c x. if c = CHR ''d'' then is_digit x else x = c) p s"

definition rfc3339 :: "string \<Rightarrow> bool" where
  "rfc3339 s =
     (let rest = drop 19 s;
          frac = (case rest of [] \<Rightarrow> Some []
            | c # r \<Rightarrow> if c = CHR ''.''
                then (if takeWhile is_digit r = [] then None else Some (dropWhile is_digit r)) else Some rest)
      in shaped ''dddd-dd-ddTdd:dd:dd'' (take 19 s) \<and>
         (case frac of None \<Rightarrow> False
          | Some z \<Rightarrow> z = ''Z'' \<or> shaped ''+dd:dd'' z \<or> shaped ''-dd:dd'' z))"

definition canonical_timestamp :: "pylib \<Rightarrow> string \<Rightarrow> string res" where
  "canonical_timestamp lib s =
     (case bindR (lib_fromisoformat lib (py_replace ''Z'' ''+00:00'' s)) (to_utc lib) of
        Inr t \<Rightarrow> Inr (py_replace ''+00:00'' ''Z'' (isoformat_us t))
      | Inl (ValueError _) \<Rightarrow> Inr s
      | Inl (OverflowError _) \<Rightarrow> Inr s
      | Inl e \<Rightarrow> Inl e)"

fun canonical_value :: "pylib \<Rightarrow> string option \<Rightarrow> pyval \<Rightarrow> pyval res"
  and canonical_list :: "pylib \<Rightarrow> string option \<Rightarrow> pyval list \<Rightarrow> pyval list res"
  and canonical_items :: "pylib \<Rightarrow> (string \<times> pyval) list \<Rightarrow> (string \<times> pyval) list res" where
  "canonical_value lib field (PDict d) = bindR (canonical_items lib d) (\<lambda>d'. Inr (PDict d'))"
| "canonical_value lib field (PList xs) = bindR (canonical_list lib field xs) (\<lambda>ys. Inr (PList ys))"
| "canonical_value lib field (PFloat r) = Inl (ValueError ''floating-point machine evidence is not canonical'')"
| "canonical_value lib field (PInt i) =
     (if MIN_CANONICAL_INTEGER \<le> i \<and> i \<le> MAX_CANONICAL_INTEGER then Inr (PInt i)
      else Inl (ValueError ''machine evidence integer is outside the serde_json range''))"
| "canonical_value lib field (PStr s) =
     (if (case field of None \<Rightarrow> False | Some f \<Rightarrow> f \<in> set CANONICAL_TIMESTAMP_FIELDS) \<and> rfc3339 s
      then bindR (canonical_timestamp lib s) (\<lambda>t. Inr (PStr t)) else Inr (PStr s))"
| "canonical_value lib field PNone = Inr PNone"
| "canonical_value lib field (PBool b) = Inr (PBool b)"
| "canonical_value lib field (PDatetime d) = Inr (PDatetime d)"
| "canonical_list lib field [] = Inr []"
| "canonical_list lib field (x # xs) =
     bindR (canonical_value lib field x) (\<lambda>y. bindR (canonical_list lib field xs) (\<lambda>ys. Inr (y # ys)))"
| "canonical_items lib [] = Inr []"
| "canonical_items lib ((k, v) # d) =
     bindR (canonical_value lib (Some k) v) (\<lambda>w. bindR (canonical_items lib d) (\<lambda>d'. Inr ((k, w) # d')))"

text \<open>\<open>json.dumps(..., sort_keys=True, separators=(",", ":"), ensure_ascii=False)\<close>\<close>

definition json_char :: "char \<Rightarrow> string" where
  "json_char c = (let n = (of_char c :: nat); bs = char_of (92 :: nat) in
     if n = 34 \<or> n = 92 then [bs, c]
     else if n = 10 then [bs, CHR ''n''] else if n = 13 then [bs, CHR ''r'']
     else if n = 9 then [bs, CHR ''t''] else if n = 8 then [bs, CHR ''b''] else if n = 12 then [bs, CHR ''f'']
     else if n < 32 then [bs] @ ''u00'' @ [hex_digit (n div 16), hex_digit (n mod 16)]
     else [c])"

definition json_str :: "string \<Rightarrow> string" where
  "json_str s = [char_of (34 :: nat)] @ concat (map json_char s) @ [char_of (34 :: nat)]"

fun json_dumps :: "pyval \<Rightarrow> string res"
  and json_dumps_list :: "pyval list \<Rightarrow> string list res"
  and json_dumps_items :: "(string \<times> pyval) list \<Rightarrow> (string \<times> string) list res" where
  "json_dumps PNone = Inr ''null''"
| "json_dumps (PBool b) = Inr (if b then ''true'' else ''false'')"
| "json_dumps (PInt i) = Inr (dec_int i)"
| "json_dumps (PFloat r) = Inr r"
| "json_dumps (PStr s) = Inr (json_str s)"
| "json_dumps (PList xs) = bindR (json_dumps_list xs) (\<lambda>ss. Inr (''['' @ join '','' ss @ '']''))"
| "json_dumps (PDict d) = bindR (json_dumps_items d) (\<lambda>ps.
     Inr (''{'' @ join '','' (map (\<lambda>(k, s). json_str k @ '':'' @ s) (sort_key fst ps)) @ ''}''))"
| "json_dumps (PDatetime d) = Inl (TypeError ''Object of type datetime is not JSON serializable'')"
| "json_dumps_list [] = Inr []"
| "json_dumps_list (x # xs) = bindR (json_dumps x) (\<lambda>s. bindR (json_dumps_list xs) (\<lambda>ss. Inr (s # ss)))"
| "json_dumps_items [] = Inr []"
| "json_dumps_items ((k, v) # d) =
     bindR (json_dumps v) (\<lambda>s. bindR (json_dumps_items d) (\<lambda>ps. Inr ((k, s) # ps)))"

definition canonical_value_json :: "pylib \<Rightarrow> pydict \<Rightarrow> string res" where
  "canonical_value_json lib value = bindR (canonical_value lib None (PDict value)) json_dumps"

definition canonical_evidence_hash :: "pylib \<Rightarrow> pydict \<Rightarrow> string res" where
  "canonical_evidence_hash lib value = bindR (canonical_value_json lib value) (\<lambda>j. Inr (sha256_hexdigest j))"

definition stable_component :: "string \<Rightarrow> string" where
  "stable_component value = sha256_hexdigest value"

subsection \<open>Identities\<close>

definition guard :: "bool \<Rightarrow> string \<Rightarrow> unit res" where
  "guard ok msg = (if ok then Inr () else Inl (ValueError msg))"

definition required_component :: "pydict \<Rightarrow> string \<Rightarrow> bool \<Rightarrow> string res" where
  "required_component value field allow_colon = (case dget value field of
       PStr c \<Rightarrow>
         (if py_strip c = [] then Inl (ValueError (''machine evidence reducer identity requires '' @ field))
          else if \<not> allow_colon \<and> CHR '':'' \<in> set c
            then Inl (ValueError (''machine evidence reducer identity '' @ field @ '' cannot contain colon''))
          else Inr c)
     | _ \<Rightarrow> Inl (ValueError (''machine evidence reducer identity requires '' @ field)))"

definition positive_pid :: "pydict \<Rightarrow> int option" where
  "positive_pid value = (case dget value ''pid'' of PInt n \<Rightarrow> (if n \<le> 0 then None else Some n) | _ \<Rightarrow> None)"

text \<open>\<open>v in {...}\<close> for a set of strings: an unhashable value raises.\<close>

definition in_str_set :: "pyval \<Rightarrow> string list \<Rightarrow> bool res" where
  "in_str_set v xs = (if hashable v then Inr (case v of PStr s \<Rightarrow> s \<in> set xs | _ \<Rightarrow> False)
     else Inl (TypeError ''unhashable type''))"

definition str_list :: "pyval \<Rightarrow> string list option" where
  "str_list v = (case v of
       PList xs \<Rightarrow> (if list_all is_str xs then Some (map (\<lambda>x. case x of PStr s \<Rightarrow> s | _ \<Rightarrow> []) xs) else None)
     | _ \<Rightarrow> None)"

text \<open>\<open>ops == sorted(set(ops))\<close> and every entry supported.\<close>

definition valid_grants :: "string list \<Rightarrow> bool" where
  "valid_grants ops \<longleftrightarrow> ops = sort (remdups ops) \<and> list_all (\<lambda>x. x \<in> set GRANTED_OPERATIONS) ops"

definition validate_run_authority :: "pydict \<Rightarrow> unit res" where
  "validate_run_authority value =
     bindR (required_component value ''session_id'' False) (\<lambda>_.
     bindR (required_component value ''run_id'' False) (\<lambda>_.
     bindR (guard (dget value ''state'' = PStr ''ended'' \<and> dget value ''end_reason'' = PStr ''process_gone'')
       ''machine evidence run must be an exact process_gone terminal'') (\<lambda>_.
     bindR (required_component value ''provider'' False) (\<lambda>provider.
     bindR (required_component value ''process_role'' False) (\<lambda>process_role.
     bindR (required_component value ''source'' False) (\<lambda>source.
     bindR (guard (map_of RUN_EXIT_AUTHORITY provider = Some (process_role, source))
       ''machine evidence run source is not the provider execution-owner authority'') (\<lambda>_.
     bindR (required_component value ''process_start_time'' True) (\<lambda>_.
     bindR (required_component value ''boot_id'' True) (\<lambda>_.
     guard (positive_pid value \<noteq> None) ''machine evidence run requires a positive pid'')))))))))"

definition validate_continuation_authority :: "pydict \<Rightarrow> unit res" where
  "validate_continuation_authority value =
     bindR (required_component value ''session_id'' False) (\<lambda>_.
     bindR (in_str_set (dget value ''contract_state'') [''valid'', ''invalid'']) (\<lambda>known.
     bindR (guard known ''machine evidence continuation requires a valid contract state'') (\<lambda>_.
     if dget value ''contract_state'' = PStr ''valid'' then
       bindR (required_component value ''provider_session_id'' True) (\<lambda>_.
       bindR (required_component value ''cwd'' True) (\<lambda>_.
       guard (dget value ''unavailable_reason'' = PNone)
         ''valid continuation evidence cannot carry an unavailable reason''))
     else guard (is_str (dget value ''unavailable_reason''))
         ''invalid continuation evidence requires an unavailable reason'')))"

definition validate_control_authority :: "pydict \<Rightarrow> unit res" where
  "validate_control_authority value =
     bindR (required_component value ''run_id'' False) (\<lambda>_.
     case str_list (dget value ''granted_operations'') of
       None \<Rightarrow> Inl (ValueError ''machine evidence control granted_operations must be a string list'')
     | Some ops \<Rightarrow> guard (valid_grants ops)
         ''machine evidence control granted_operations must be sorted, unique, and supported'')"

definition validate_v3_authority :: "string \<Rightarrow> pydict \<Rightarrow> unit res" where
  "validate_v3_authority family value =
     bindR (guard (\<exists>expected \<in> set_option (map_of AUTHORITY_CLASS family). dget value ''authority_class'' = PStr expected)
       (''machine evidence '' @ family @ '' authority_class must be '' @
          (case map_of AUTHORITY_CLASS family of Some e \<Rightarrow> e | None \<Rightarrow> []))) (\<lambda>_.
     if family = ''run'' then validate_run_authority value
     else if family = ''continuation'' then validate_continuation_authority value
     else if family \<noteq> ''control'' then Inr ()
     else validate_control_authority value)"

definition complete_scope :: "string \<Rightarrow> pyval \<Rightarrow> bool" where
  "complete_scope boot_id v = (case v of
       PDict scope \<Rightarrow> dget scope ''scope'' = PStr ''managed_state_files''
         \<and> dget scope ''source'' = PStr ''managed_provider_scan''
         \<and> dget scope ''complete'' = PBool True \<and> dget scope ''machine_boot_id'' = PStr boot_id
     | _ \<Rightarrow> False)"

definition validate_run_snapshot_scope :: "pydict \<Rightarrow> pydict \<Rightarrow> unit res" where
  "validate_run_snapshot_scope evidence value =
     bindR (required_component value ''boot_id'' True) (\<lambda>boot_id.
     guard (case dget evidence ''process_snapshot_scopes'' of
              PList scopes \<Rightarrow> list_ex (complete_scope boot_id) scopes | _ \<Rightarrow> False)
       ''machine evidence run requires a complete managed-process snapshot on the same boot'')"

text \<open>\<open>s.split(":", n)\<close>\<close>

fun split_colon :: "nat \<Rightarrow> string \<Rightarrow> string list" where
  "split_colon 0 s = [s]"
| "split_colon (Suc n) s = (let h = takeWhile (\<lambda>c. c \<noteq> CHR '':'') s in
     if length h = length s then [s] else h # split_colon n (drop (Suc (length h)) s))"

definition validate_process_key :: "string \<Rightarrow> pydict \<Rightarrow> unit res" where
  "validate_process_key subject_key value =
     bindR (required_component value ''provider'' False) (\<lambda>provider.
     bindR (required_component value ''boot_id'' True) (\<lambda>boot_id.
     bindR (required_component value ''process_start_time'' True) (\<lambda>process_start.
     case positive_pid value of
       None \<Rightarrow> Inl (ValueError ''process reducer identity requires a positive pid'')
     | Some pid \<Rightarrow>
       (let generation = stable_component (provider @ '':'' @ dec_int pid @ '':'' @ process_start);
            parts = split_colon 5 subject_key
        in guard (length parts = 6 \<and> parts ! 2 = provider \<and> parts ! 3 = stable_component boot_id
             \<and> parts ! 4 = dec_int pid \<and> parts ! 5 = generation \<and> is_sha256 (parts ! 1))
           ''process reducer identity does not match its fact''))))"

definition expected_subject_key :: "string \<Rightarrow> pydict \<Rightarrow> string res" where
  "expected_subject_key family value =
     (if family = ''run'' \<or> family = ''activity''
        then bindR (required_component value ''run_id'' False) (\<lambda>r. Inr (''run:'' @ r))
      else if family = ''control''
        then bindR (required_component value ''connection_id'' False) (\<lambda>c.
             bindR (required_component value ''lease_generation'' False) (\<lambda>l.
             Inr (''connection:'' @ c @ '':'' @ l)))
      else if family = ''transcript''
        then bindR (required_component value ''provider'' False) (\<lambda>p.
             bindR (required_component value ''provider_session_id'' True) (\<lambda>i.
             Inr (''thread:'' @ p @ '':'' @ stable_component i)))
      else if family = ''readiness''
        then bindR (required_component value ''session_id'' False) (\<lambda>s.
             bindR (required_component value ''operation'' False) (\<lambda>q.
             Inr (''readiness:'' @ s @ '':'' @ q)))
      else bindR (required_component value ''session_id'' False) (\<lambda>s. Inr (''resume:'' @ s)))"

definition validate_subject_key :: "string \<Rightarrow> string \<Rightarrow> pydict \<Rightarrow> unit res" where
  "validate_subject_key family subject_key value =
     (if family = ''process'' then validate_process_key subject_key value
      else bindR (expected_subject_key family value) (\<lambda>expected.
           guard (subject_key = expected) (''machine evidence '' @ family @ '' identity does not match its fact'')))"

definition as_dict :: "pyval \<Rightarrow> pydict option" where
  "as_dict v = (case v of PDict d \<Rightarrow> Some d | _ \<Rightarrow> None)"

type_synonym families = "(string \<times> pyval) list"

definition families_of :: "pydict \<Rightarrow> families" where
  "families_of evidence = map (\<lambda>(f, _). (f, dget evidence f)) SUBJECT_PREFIX"

text \<open>The reference of an identity to a fact: a known family and a non-negative index.\<close>

definition fact_reference :: "families \<Rightarrow> pydict \<Rightarrow> (string \<times> int) res" where
  "fact_reference fams identity =
     bindR (in_str_set (dget identity ''fact_family'') (map fst fams)) (\<lambda>known.
     case (dget identity ''fact_family'', dget identity ''fact_index'') of
       (PStr f, PInt i) \<Rightarrow> (if known \<and> 0 \<le> i then Inr (f, i)
          else Inl (ValueError ''machine evidence identity has an invalid fact reference''))
     | _ \<Rightarrow> Inl (ValueError ''machine evidence identity has an invalid fact reference''))"

definition referenced_fact :: "families \<Rightarrow> string \<Rightarrow> int \<Rightarrow> pydict res" where
  "referenced_fact fams family i = (case map_of fams family of
       Some (PList rows) \<Rightarrow>
         (if int (length rows) \<le> i then Inl (ValueError ''machine evidence identity references a missing fact'')
          else case rows ! nat i of PDict d \<Rightarrow> Inr d
            | _ \<Rightarrow> Inl (ValueError ''machine evidence fact must be an object''))
     | _ \<Rightarrow> Inl (ValueError ''machine evidence identity references a missing fact''))"

definition identity_epoch :: "pydict \<Rightarrow> string res" where
  "identity_epoch identity = (case dget identity ''source_epoch'' of
       PNone \<Rightarrow> Inr []
     | PStr e \<Rightarrow> (if length e > 255 then Inl (ValueError ''machine evidence source_epoch must be a bounded string or null'')
                 else Inr e)
     | _ \<Rightarrow> Inl (ValueError ''machine evidence source_epoch must be a bounded string or null''))"

definition identity_seq :: "pydict \<Rightarrow> int option res" where
  "identity_seq identity =
     bindR (case dget identity ''source_seq'' of
          PNone \<Rightarrow> Inr None
        | PInt n \<Rightarrow> (if n < 0 then Inl (ValueError ''machine evidence source_seq must be non-negative or null'')
                    else Inr (Some n))
        | _ \<Rightarrow> Inl (ValueError ''machine evidence source_seq must be non-negative or null'')) (\<lambda>seq.
     bindR (guard (dget identity ''sequenced'' = PBool (seq \<noteq> None))
       ''machine evidence sequence declaration is inconsistent'') (\<lambda>_. Inr seq))"

definition sha_field :: "pydict \<Rightarrow> string \<Rightarrow> string res" where
  "sha_field identity field = (case dget identity field of
       PStr s \<Rightarrow> (if is_sha256 s then Inr s
          else Inl (ValueError (''machine evidence '' @ field @ '' must be lowercase sha256'')))
     | _ \<Rightarrow> Inl (ValueError (''machine evidence '' @ field @ '' must be lowercase sha256'')))"

definition starts_with :: "string \<Rightarrow> string \<Rightarrow> bool" where
  "starts_with p s \<longleftrightarrow> take (length p) s = p"

definition identity_subject :: "string \<Rightarrow> pydict \<Rightarrow> pydict \<Rightarrow> string res" where
  "identity_subject family identity value = (case dget identity ''subject_key'' of
       PStr k \<Rightarrow>
         bindR (guard (\<exists>p \<in> set_option (map_of SUBJECT_PREFIX family). starts_with p k)
           (''machine evidence '' @ family @ '' subject is not reducer-grade'')) (\<lambda>_.
         bindR (validate_subject_key family k value) (\<lambda>_. Inr k))
     | _ \<Rightarrow> Inl (ValueError (''machine evidence '' @ family @ '' subject is not reducer-grade'')))"

definition identity_source :: "pydict \<Rightarrow> pydict \<Rightarrow> string res" where
  "identity_source identity value = (case dget identity ''source'' of
       PStr s \<Rightarrow> (if dget value ''source'' = PStr s then Inr s
          else Inl (ValueError ''machine evidence identity source does not match its fact''))
     | _ \<Rightarrow> Inl (ValueError ''machine evidence identity source does not match its fact''))"

text \<open>The loop state of the identity loop: the references seen, and the identities validated.\<close>

type_synonym identity_state = "(string \<times> int) list \<times> evidence_identity list"

definition validate_identity :: "pylib \<Rightarrow> families \<Rightarrow> pyval \<Rightarrow> identity_state \<Rightarrow> identity_state res" where
  "validate_identity lib fams v st = (case v of
       PDict identity \<Rightarrow>
         bindR (fact_reference fams identity) (\<lambda>(family, i).
         if (family, i) \<in> set (fst st) then Inl (ValueError ''machine evidence identity is duplicated'')
         else
           bindR (referenced_fact fams family i) (\<lambda>value.
           bindR (identity_source identity value) (\<lambda>source.
           bindR (identity_subject family identity value) (\<lambda>subject.
           bindR (identity_epoch identity) (\<lambda>epoch.
           bindR (identity_seq identity) (\<lambda>seq.
           bindR (sha_field identity ''dedupe_key'') (\<lambda>dedupe.
           bindR (sha_field identity ''evidence_hash'') (\<lambda>h.
           bindR (canonical_evidence_hash lib value) (\<lambda>actual.
           bindR (guard (actual = h) ''machine evidence evidence_hash does not match canonical fact content'') (\<lambda>_.
           Inr ((family, i) # fst st, snd st @
             [\<lparr>ei_family = family, ei_fact_index = i, ei_subject_key = subject, ei_source = source,
               ei_source_epoch = epoch, ei_source_seq = seq, ei_dedupe_key = dedupe,
               ei_evidence_hash = h, ei_value = value\<rparr>])))))))))))
     | _ \<Rightarrow> Inl (ValueError ''machine evidence identity must be an object''))"

definition validate_v3_row :: "pydict \<Rightarrow> string \<Rightarrow> pyval \<Rightarrow> unit \<Rightarrow> unit res" where
  "validate_v3_row evidence family v u = (case v of
       PDict value \<Rightarrow>
         bindR (validate_v3_authority family value) (\<lambda>_.
         if family = ''run'' then validate_run_snapshot_scope evidence value else Inr ())
     | _ \<Rightarrow> Inl (ValueError ''machine evidence fact must be an object''))"

definition validate_v3_family :: "pydict \<Rightarrow> string \<times> pyval \<Rightarrow> unit \<Rightarrow> unit res" where
  "validate_v3_family evidence fr u = (case snd fr of
       PList rows \<Rightarrow> foldR (validate_v3_row evidence (fst fr)) rows u | _ \<Rightarrow> Inr u)"

definition validate_machine_evidence_identities :: "pylib \<Rightarrow> pyval \<Rightarrow> evidence_identity list res" where
  "validate_machine_evidence_identities lib evidence = (case evidence of
       PDict ev \<Rightarrow>
         (let version = dget ev ''schema_version'' in
          if \<not> hashable version then Inl (TypeError ''unhashable type'')
          else if \<not> (eq_int version 2 \<or> eq_int version 3) then Inr []
          else case dget ev ''identities'' of
            PList identities \<Rightarrow>
              (if length identities > MAX_REDUCER_EVIDENCE_FACTS
               then Inl (ValueError ''machine evidence identities must contain at most 256 rows'')
               else
                 let fams = families_of ev in
                 bindR (if eq_int version 3 then foldR (validate_v3_family ev) fams () else Inr ()) (\<lambda>_.
                 bindR (foldR (validate_identity lib fams) identities ([], [])) (\<lambda>st. Inr (snd st))))
          | _ \<Rightarrow> Inl (ValueError ''machine evidence identities must contain at most 256 rows''))
     | _ \<Rightarrow> Inr [])"

subsection \<open>Lemmas\<close>

lemma guard_Inr [simp]: "guard ok msg = Inr u \<longleftrightarrow> ok"
  by (simp add: guard_def)

text \<open>What one accepted identity guarantees of its fact.\<close>

definition identity_ok :: "pylib \<Rightarrow> families \<Rightarrow> evidence_identity \<Rightarrow> bool" where
  "identity_ok lib fams e \<longleftrightarrow>
     referenced_fact fams (ei_family e) (ei_fact_index e) = Inr (ei_value e) \<and>
     dget (ei_value e) ''source'' = PStr (ei_source e) \<and>
     canonical_evidence_hash lib (ei_value e) = Inr (ei_evidence_hash e) \<and>
     is_sha256 (ei_dedupe_key e) \<and> is_sha256 (ei_evidence_hash e) \<and>
     validate_subject_key (ei_family e) (ei_subject_key e) (ei_value e) = Inr () \<and>
     length (ei_source_epoch e) \<le> 255 \<and> (\<forall>n \<in> set_option (ei_source_seq e). 0 \<le> n)"

lemma sha_field_Inr: "sha_field d k = Inr s \<Longrightarrow> is_sha256 s"
  by (auto simp: sha_field_def split: pyval.splits if_splits)

lemma identity_epoch_Inr: "identity_epoch d = Inr e \<Longrightarrow> length e \<le> 255"
  by (auto simp: identity_epoch_def split: pyval.splits if_splits)

lemma identity_seq_Inr: "identity_seq d = Inr q \<Longrightarrow> (\<forall>n \<in> set_option q. 0 \<le> n)"
  by (auto simp: identity_seq_def split: pyval.splits if_splits)

lemma identity_source_Inr: "identity_source d v = Inr s \<Longrightarrow> dget v ''source'' = PStr s"
  by (auto simp: identity_source_def split: pyval.splits if_splits)

lemma identity_subject_Inr: "identity_subject f d v = Inr k \<Longrightarrow> validate_subject_key f k v = Inr ()"
  by (auto simp: identity_subject_def split: pyval.splits if_splits)

text \<open>The invariant of the identity loop.\<close>

definition identities_inv :: "pylib \<Rightarrow> families \<Rightarrow> identity_state \<Rightarrow> bool" where
  "identities_inv lib fams st \<longleftrightarrow>
     list_all (identity_ok lib fams) (snd st) \<and>
     map (\<lambda>e. (ei_family e, ei_fact_index e)) (snd st) = rev (fst st) \<and> distinct (fst st)"

lemma validate_identity_inv:
  assumes "validate_identity lib fams v st = Inr st'" and "identities_inv lib fams st"
  shows "identities_inv lib fams st'"
proof -
  obtain identity family i val source subject epoch seq dedupe h where v: "v = PDict identity"
    and new: "(family, i) \<notin> set (fst st)"
    and parts: "referenced_fact fams family i = Inr val" "identity_source identity val = Inr source"
      "identity_subject family identity val = Inr subject" "identity_epoch identity = Inr epoch"
      "identity_seq identity = Inr seq" "sha_field identity ''dedupe_key'' = Inr dedupe"
      "sha_field identity ''evidence_hash'' = Inr h" "canonical_evidence_hash lib val = Inr h"
    and st': "st' = ((family, i) # fst st, snd st @
       [\<lparr>ei_family = family, ei_fact_index = i, ei_subject_key = subject, ei_source = source,
         ei_source_epoch = epoch, ei_source_seq = seq, ei_dedupe_key = dedupe,
         ei_evidence_hash = h, ei_value = val\<rparr>])"
    using assms(1) by (auto simp: validate_identity_def split: pyval.splits prod.splits if_splits)
  note facts = parts identity_source_Inr[OF parts(2)] identity_subject_Inr[OF parts(3)]
    identity_epoch_Inr[OF parts(4)] identity_seq_Inr[OF parts(5)] sha_field_Inr[OF parts(6)] sha_field_Inr[OF parts(7)]
  show ?thesis
    using assms(2) new facts by (simp add: identities_inv_def identity_ok_def st')
qed

subsection \<open>Properties\<close>

text \<open>
  (C7) Every identity that validation lets through is bound to its fact: it references an existing fact
  object of its family, its source and subject key are those of the fact, its hash is the canonical
  content hash of the fact, its keys are lowercase SHA-256, and no two identities reference one fact.
  At most 256 identities come out.
\<close>

theorem validated_identities_bound:
  assumes "validate_machine_evidence_identities lib (PDict ev) = Inr es"
  shows "list_all (identity_ok lib (families_of ev)) es \<and>
    distinct (map (\<lambda>e. (ei_family e, ei_fact_index e)) es) \<and> length es \<le> 256"
proof (cases "eq_int (dget ev ''schema_version'') 2 \<or> eq_int (dget ev ''schema_version'') 3")
  case False
  then have "es = []"
    using assms by (auto simp: validate_machine_evidence_identities_def Let_def split: if_splits)
  then show ?thesis by simp
next
  case True
  then obtain ids st where ids: "length ids \<le> 256" "es = snd st"
    and fold: "foldR (validate_identity lib (families_of ev)) ids ([], []) = Inr st"
    using assms
    by (auto simp: validate_machine_evidence_identities_def Let_def MAX_REDUCER_EVIDENCE_FACTS_def not_less
        split: if_splits pyval.splits)
  have inv: "identities_inv lib (families_of ev) st"
    by (rule foldR_invariant[OF fold]) (auto simp: identities_inv_def[of _ _ "([], [])"] intro: validate_identity_inv)
  have "length (snd st) \<le> length ids + length (snd ([] :: (string \<times> int) list, [] :: evidence_identity list))"
    using fold
  proof (induction ids arbitrary: st rule: rev_induct)
    case (snoc v vs)
    then obtain mid where "foldR (validate_identity lib (families_of ev)) vs ([], []) = Inr mid"
      "validate_identity lib (families_of ev) v mid = Inr st"
      by (auto simp: foldR_append)
    with snoc.IH show ?case
      by (fastforce simp: validate_identity_def split: pyval.splits prod.splits if_splits)
  qed auto
  then show ?thesis using inv ids by (auto simp: identities_inv_def)
qed

text \<open>A library that parses one timestamp (in ISO basic form), a fact and an identity that validate.\<close>

definition sample_lib :: pylib where
  "sample_lib = \<lparr>lib_fromisoformat = (\<lambda>s. if s = ''20240501T000000+00:00'' then Inr (DT 1714521600000000 (Some 0))
       else Inl (ValueError ''Invalid isoformat string'')),
     lib_json_loads = (\<lambda>_. Inl (ValueError ''Expecting value'')), lib_local_offset = (\<lambda>_. 0)\<rparr>"

definition sample_fact :: pydict where
  "sample_fact = [(''session_id'', PStr ''s1''), (''run_id'', PStr ''r1''), (''source'', PStr ''scan''),
     (''authority_class'', PStr ''provider_runtime''), (''kind'', PStr ''running''),
     (''observed_at'', PStr ''20240501T000000Z'')]"

definition sample_json :: string where
  "sample_json = (case canonical_value_json sample_lib sample_fact of Inr j \<Rightarrow> j | Inl _ \<Rightarrow> [])"

definition sample_identity :: pydict where
  "sample_identity = [(''fact_family'', PStr ''activity''), (''fact_index'', PInt 0), (''source'', PStr ''scan''),
     (''subject_key'', PStr ''run:r1''), (''source_seq'', PInt 7), (''sequenced'', PBool True),
     (''dedupe_key'', PStr (sha256_hexdigest ''d1'')), (''evidence_hash'', PStr (sha256_hexdigest sample_json))]"

definition sample_evidence :: pydict where
  "sample_evidence = [(''schema_version'', PInt 3), (''identities'', PList [PDict sample_identity]),
     (''activity'', PList [PDict sample_fact])]"

lemma sample_canonical: "canonical_value_json sample_lib sample_fact = Inr sample_json"
  by code_simp

lemma sample_hash: "canonical_evidence_hash sample_lib sample_fact = Inr (sha256_hexdigest sample_json)"
  by (simp add: canonical_evidence_hash_def sample_canonical)

definition sample_validated :: evidence_identity where
  "sample_validated = \<lparr>ei_family = ''activity'', ei_fact_index = 0, ei_subject_key = ''run:r1'', ei_source = ''scan'',
     ei_source_epoch = [], ei_source_seq = Some 7, ei_dedupe_key = sha256_hexdigest ''d1'',
     ei_evidence_hash = sha256_hexdigest sample_json, ei_value = sample_fact\<rparr>"

lemma sample_families: "map_of (families_of sample_evidence) ''activity'' = Some (PList [PDict sample_fact])"
  "map fst (families_of sample_evidence) = map fst SUBJECT_PREFIX"
  by (simp_all add: families_of_def SUBJECT_PREFIX_def sample_evidence_def)

lemma sample_subject: "identity_subject ''activity'' sample_identity sample_fact = Inr ''run:r1''"
proof -
  have "validate_subject_key ''activity'' ''run:r1'' sample_fact = Inr ()" by code_simp
  then show ?thesis
    by (simp add: identity_subject_def sample_identity_def SUBJECT_PREFIX_def starts_with_def)
qed

lemma sample_identity_validates:
  "validate_identity sample_lib (families_of sample_evidence) (PDict sample_identity) ([], []) =
   Inr ([(''activity'', 0)], [sample_validated])"
proof -
  have "fact_reference (families_of sample_evidence) sample_identity = Inr (''activity'', 0)"
    by (simp add: fact_reference_def sample_families sample_identity_def in_str_set_def SUBJECT_PREFIX_def)
  moreover have "referenced_fact (families_of sample_evidence) ''activity'' 0 = Inr sample_fact"
    by (simp add: referenced_fact_def sample_families)
  moreover have "identity_source sample_identity sample_fact = Inr ''scan''"
    "identity_epoch sample_identity = Inr []" "identity_seq sample_identity = Inr (Some 7)"
    "sha_field sample_identity ''dedupe_key'' = Inr (sha256_hexdigest ''d1'')"
    "sha_field sample_identity ''evidence_hash'' = Inr (sha256_hexdigest sample_json)"
    by (simp_all add: identity_source_def identity_epoch_def identity_seq_def sha_field_def sha256_shape
        sample_identity_def sample_fact_def guard_def)
  ultimately show ?thesis
    by (simp add: validate_identity_def sample_subject sample_hash guard_def sample_validated_def)
qed

lemma sample_validates:
  "validate_machine_evidence_identities sample_lib (PDict sample_evidence) = Inr [sample_validated]"
proof -
  have "foldR (validate_v3_family sample_evidence) (families_of sample_evidence) () = Inr ()"
    by (simp add: families_of_def SUBJECT_PREFIX_def sample_evidence_def validate_v3_family_def
        validate_v3_row_def validate_v3_authority_def AUTHORITY_CLASS_def sample_fact_def guard_def)
  moreover have "dget sample_evidence ''schema_version'' = PInt 3"
    "dget sample_evidence ''identities'' = PList [PDict sample_identity]"
    by (simp_all add: sample_evidence_def)
  ultimately show ?thesis
    by (simp add: validate_machine_evidence_identities_def sample_identity_validates MAX_REDUCER_EVIDENCE_FACTS_def)
qed

theorem validated_identities_bound_witness:
  "\<exists>es. validate_machine_evidence_identities sample_lib (PDict sample_evidence) = Inr es \<and> es \<noteq> [] \<and>
     list_all (identity_ok sample_lib (families_of sample_evidence)) es"
  using validated_identities_bound[OF sample_validates] sample_validates by blast

end
