(* ===== verification/Fact_Store.thy ===== *)
theory Fact_Store
  imports Machine_Evidence
begin

text \<open>
  The tables of \<open>catalogd/models.py\<close> that the reducer owns (\<open>FactHead\<close>, \<open>FactReceipt\<close>,
  \<open>FactConflict\<close>, the \<open>catalog_meta\<close> singleton) and the SQL statements of \<open>catalogd/fact_reducer.py\<close>
  on them. A table is the list of its rows; the four key columns of a candidate (family, subject key,
  source, source epoch) are one value, ordered like the tuple; a child row is its integer primary key with its columns.
  SQLite keeps the wall clock of a \<open>datetime\<close> and drops its zone, and it refuses an integer over 63 bits.
\<close>

datatype candidate = Candidate (cd_family: string) (cd_subject_key: string) (cd_source: string) (cd_source_epoch: string)

definition candidate_tuple :: "candidate \<Rightarrow> string \<times> string \<times> string \<times> string" where
  "candidate_tuple c = (cd_family c, cd_subject_key c, cd_source c, cd_source_epoch c)"

lemma candidate_tuple_inj [simp]: "candidate_tuple a = candidate_tuple b \<longleftrightarrow> a = b"
  by (auto simp: candidate_tuple_def intro: candidate.expand)

instantiation candidate :: linorder
begin

definition less_eq_candidate :: "candidate \<Rightarrow> candidate \<Rightarrow> bool" where
  "less_eq_candidate a b \<longleftrightarrow> candidate_tuple a \<le> candidate_tuple b"

definition less_candidate :: "candidate \<Rightarrow> candidate \<Rightarrow> bool" where
  "less_candidate a b \<longleftrightarrow> candidate_tuple a < candidate_tuple b"

instance
  by standard (auto simp: less_eq_candidate_def less_candidate_def less_le_not_le intro: order_trans)

end

record head_row =
  hr_key :: candidate
  hr_session_id :: "string option"
  hr_ordering_mode :: string
  hr_source_seq :: "int option"
  hr_evidence_hash :: string
  hr_observed_at :: "int option"
  hr_valid_until :: "int option"
  hr_value_json :: string
  hr_raw_locator :: "string option"
  hr_updated_commit_seq :: int
  hr_received_at :: int

record receipt =
  rc_key :: candidate
  rc_position_key :: string
  rc_source_seq :: "int option"
  rc_dedupe_key :: string
  rc_evidence_hash :: string
  rc_received_at :: int
  rc_commit_seq :: int

record conflict =
  cx_key :: candidate
  cx_position_key :: string
  cx_source_seq :: "int option"
  cx_conflict_kind :: string
  cx_existing_hash :: string
  cx_incoming_hash :: string
  cx_detected_at :: int
  cx_commit_seq :: int

type_synonym 'r rows = "(int \<times> 'r) list"

record catalog =
  cat_heads :: "head_row list"
  cat_receipts :: "receipt rows"
  cat_conflicts :: "conflict rows"
  cat_commit_seq :: int
  cat_updated_at :: string

definition family_of :: "candidate \<Rightarrow> string" where
  "family_of c = cd_family c"

subsection \<open>Statements\<close>

text \<open>A bound integer parameter: the driver raises on more than 63 bits.\<close>

definition bind_int :: "int option \<Rightarrow> int option res" where
  "bind_int v = (case v of
       Some n \<Rightarrow> (if - (2 ^ 63) \<le> n \<and> n < 2 ^ 63 then Inr v
                  else Inl (OverflowError ''Python int too large to convert to SQLite INTEGER''))
     | None \<Rightarrow> Inr v)"

text \<open>A fresh integer primary key is one more than the greatest in the table.\<close>

definition next_id :: "'r rows \<Rightarrow> int" where
  "next_id t = fold max (map fst t) 0 + 1"

definition insert_row :: "'r \<Rightarrow> 'r rows \<Rightarrow> 'r rows" where
  "insert_row r t = t @ [(next_id t, r)]"

text \<open>\<open>INSERT ... ON CONFLICT (candidate) DO UPDATE\<close> of all other columns.\<close>

definition upsert :: "head_row \<Rightarrow> head_row list \<Rightarrow> head_row list" where
  "upsert h hs = (if hr_key h \<in> hr_key ` set hs then map (\<lambda>x. if hr_key x = hr_key h then h else x) hs
     else hs @ [h])"

definition select_head :: "candidate \<Rightarrow> head_row list \<Rightarrow> head_row option" where
  "select_head c hs = find (\<lambda>h. hr_key h = c) hs"

definition select_dedupe :: "candidate \<Rightarrow> string \<Rightarrow> receipt rows \<Rightarrow> string option" where
  "select_dedupe c k t = map_option (rc_evidence_hash \<circ> snd)
     (find (\<lambda>(_, r). rc_key r = c \<and> rc_dedupe_key r = k) t)"

definition select_position :: "candidate \<Rightarrow> string \<Rightarrow> receipt rows \<Rightarrow> string option" where
  "select_position c k t = map_option (rc_evidence_hash \<circ> snd)
     (find (\<lambda>(_, r). rc_key r = c \<and> rc_position_key r = k) t)"

definition conflict_exists :: "candidate \<Rightarrow> string \<Rightarrow> string \<Rightarrow> conflict rows \<Rightarrow> bool" where
  "conflict_exists c pos h t = list_ex (\<lambda>(_, x). cx_key x = c \<and> cx_position_key x = pos \<and> cx_incoming_hash x = h) t"

text \<open>\<open>_prune_candidate_rows\<close>: keep the rows of one candidate with the \<open>keep\<close> greatest ids.\<close>

definition prune_candidate_rows :: "('r \<Rightarrow> candidate) \<Rightarrow> nat \<Rightarrow> candidate \<Rightarrow> 'r rows \<Rightarrow> 'r rows" where
  "prune_candidate_rows key keep c t =
     (let keep_ids = take keep (rev (sort (map fst (filter (\<lambda>(_, r). key r = c) t))))
      in filter (\<lambda>(i, r). \<not> (key r = c \<and> i \<notin> set keep_ids)) t)"

text \<open>\<open>_prune_candidate_rows_setwise\<close>: the window function ranks a row among those of its candidate.\<close>

definition row_rank :: "('r \<Rightarrow> candidate) \<Rightarrow> 'r rows \<Rightarrow> int \<Rightarrow> candidate \<Rightarrow> nat" where
  "row_rank key t i c = Suc (length (filter (\<lambda>(j, s). key s = c \<and> i < j) t))"

definition prune_candidate_rows_setwise ::
  "('r \<Rightarrow> candidate) \<Rightarrow> nat \<Rightarrow> candidate list \<Rightarrow> 'r rows \<Rightarrow> 'r rows" where
  "prune_candidate_rows_setwise key keep cs t =
     (if cs = [] then t
      else let doomed = map fst (filter (\<lambda>(i, r). key r \<in> set cs \<and> row_rank key t i (key r) > keep) t)
           in filter (\<lambda>(i, _). i \<notin> set doomed) t)"

definition MAX_HEADS_PER_FAMILY :: nat where "MAX_HEADS_PER_FAMILY = 2048"
definition MAX_RECEIPTS_PER_CANDIDATE :: nat where "MAX_RECEIPTS_PER_CANDIDATE = 16"
definition MAX_CONFLICTS_PER_CANDIDATE :: nat where "MAX_CONFLICTS_PER_CANDIDATE = 8"

definition head_order :: "head_row \<Rightarrow> int \<times> string \<times> string \<times> string" where
  "head_order h = (- hr_updated_commit_seq h, cd_subject_key (hr_key h), cd_source (hr_key h), cd_source_epoch (hr_key h))"

definition keep_candidates :: "string \<Rightarrow> head_row list \<Rightarrow> candidate list" where
  "keep_candidates family hs =
     map hr_key (take MAX_HEADS_PER_FAMILY (sort_key head_order (filter (\<lambda>h. family_of (hr_key h) = family) hs)))"

definition kept :: "string \<Rightarrow> candidate list \<Rightarrow> candidate \<Rightarrow> bool" where
  "kept family keep c \<longleftrightarrow> \<not> (family_of c = family \<and> c \<notin> set keep)"

definition prune_fact_family :: "string \<Rightarrow> catalog \<Rightarrow> catalog" where
  "prune_fact_family family cat =
     (let keep = keep_candidates family (cat_heads cat)
      in cat\<lparr>cat_receipts := filter (\<lambda>(_, r). kept family keep (rc_key r)) (cat_receipts cat),
             cat_conflicts := filter (\<lambda>(_, x). kept family keep (cx_key x)) (cat_conflicts cat),
             cat_heads := filter (\<lambda>h. kept family keep (hr_key h)) (cat_heads cat)\<rparr>)"

definition head_count :: "string \<Rightarrow> head_row list \<Rightarrow> nat" where
  "head_count family hs = length (filter (\<lambda>h. family_of (hr_key h) = family) hs)"

definition current_commit_seq :: "catalog \<Rightarrow> int" where
  "current_commit_seq cat = cat_commit_seq cat"

definition advance_commit_seq :: "instant \<Rightarrow> catalog \<Rightarrow> int \<times> catalog" where
  "advance_commit_seq at cat =
     (let n = cat_commit_seq cat + 1
      in (n, cat\<lparr>cat_commit_seq := n, cat_updated_at := iso_with_sep ''T'' (DT (utc_us at) (Some 0))\<rparr>))"

subsection \<open>Identifiers\<close>

lemma fold_max_start: "a \<le> fold max xs (a :: int)"
proof (induction xs arbitrary: a)
  case (Cons x xs)
  have "max x a \<le> fold max xs (max x a)" by (rule Cons)
  then show ?case by simp
qed simp

lemma fold_max_mem: "x \<in> set xs \<Longrightarrow> x \<le> fold max xs (a :: int)"
proof (induction xs arbitrary: a)
  case (Cons y ys)
  then show ?case using fold_max_start[of "max y a" ys] by auto
qed simp

lemma next_id_fresh: "i \<in> fst ` set t \<Longrightarrow> i < next_id t"
  using fold_max_mem[of i "map fst t" 0] by (simp add: next_id_def)

lemma insert_row_distinct: "distinct (map fst t) \<Longrightarrow> distinct (map fst (insert_row r t))"
  using next_id_fresh[of "next_id t" t] by (auto simp: insert_row_def)

subsection \<open>Heads by candidate\<close>

lemma upsert_map_keys:
  "map hr_key (upsert h hs) = (if hr_key h \<in> hr_key ` set hs then map hr_key hs else map hr_key hs @ [hr_key h])"
  by (simp add: upsert_def)

lemma upsert_keys: "hr_key ` set (upsert h hs) = insert (hr_key h) (hr_key ` set hs)"
  using arg_cong[OF upsert_map_keys[of h hs], of set] by (auto split: if_splits)

lemma upsert_distinct: "distinct (map hr_key hs) \<Longrightarrow> distinct (map hr_key (upsert h hs))"
  by (simp add: upsert_map_keys)

lemma find_append: "find P (xs @ ys) = (case find P xs of Some x \<Rightarrow> Some x | None \<Rightarrow> find P ys)"
  by (induction xs) auto

lemma find_replace:
  "find (\<lambda>x. hr_key x = c) (map (\<lambda>x. if hr_key x = hr_key h then h else x) hs) =
   (if c = hr_key h then (if c \<in> hr_key ` set hs then Some h else None) else find (\<lambda>x. hr_key x = c) hs)"
  by (induction hs) (simp_all add: eq_commute)

lemma find_key_None: "c \<notin> hr_key ` set hs \<Longrightarrow> find (\<lambda>x. hr_key x = c) hs = None"
  by (auto simp: find_None_iff simp del: split_paired_All)

lemma select_upsert: "select_head c (upsert h hs) = (if c = hr_key h then Some h else select_head c hs)"
  by (simp add: select_head_def upsert_def find_replace find_append find_key_None split: option.splits)

lemma select_head_None: "select_head c hs = None \<longleftrightarrow> c \<notin> hr_key ` set hs"
  by (auto simp: select_head_def find_None_iff)

lemma select_head_Some: "select_head c hs = Some h \<Longrightarrow> h \<in> set hs \<and> hr_key h = c"
  by (auto simp: select_head_def find_Some_iff)

lemma select_head_distinct:
  "distinct (map hr_key hs) \<Longrightarrow> h \<in> set hs \<Longrightarrow> select_head (hr_key h) hs = Some h"
  by (induction hs) (auto simp: select_head_def image_iff)

lemma replace_replace:
  "hr_key p = hr_key h \<Longrightarrow>
   map (\<lambda>x. if hr_key x = hr_key h then h else x) (map (\<lambda>x. if hr_key x = hr_key p then p else x) hs) =
   map (\<lambda>x. if hr_key x = hr_key h then h else x) hs"
  by simp

lemma replace_absent: "hr_key h \<notin> hr_key ` set hs \<Longrightarrow> map (\<lambda>x. if hr_key x = hr_key h then h else x) hs = hs"
  by (induction hs) auto

lemma upsert_same: "hr_key p = hr_key h \<Longrightarrow> upsert h (upsert p hs) = upsert h hs"
  using replace_replace[of p h hs] replace_absent[of h hs] upsert_keys[of p hs]
  by (simp add: upsert_def[of h "upsert p hs"]) (simp add: upsert_def)

lemma replace_swap:
  "hr_key b \<noteq> hr_key h \<Longrightarrow>
   map (\<lambda>x. if hr_key x = hr_key h then h else x) (map (\<lambda>x. if hr_key x = hr_key b then b else x) hs) =
   map (\<lambda>x. if hr_key x = hr_key b then b else x) (map (\<lambda>x. if hr_key x = hr_key h then h else x) hs)"
  by simp

lemma upsert_swap:
  assumes "hr_key h \<in> hr_key ` set hs" and "hr_key b \<noteq> hr_key h"
  shows "upsert h (upsert b hs) = upsert b (upsert h hs)"
proof -
  have in_h: "hr_key h \<in> hr_key ` set (upsert b hs)" using assms by (simp add: upsert_keys)
  have b: "hr_key b \<in> hr_key ` set (upsert h hs) \<longleftrightarrow> hr_key b \<in> hr_key ` set hs"
    using assms(2) by (simp add: upsert_keys)
  show ?thesis
    unfolding upsert_def[of h "upsert b hs"] upsert_def[of b "upsert h hs"]
    using in_h b assms replace_swap[OF assms(2), of hs] by (simp add: upsert_def)
qed

lemma fold_upsert_replace:
  assumes "hr_key h \<in> hr_key ` set hs" and "hr_key h \<notin> hr_key ` set ps"
  shows "upsert h (fold upsert ps hs) = fold upsert ps (upsert h hs)"
  using assms
proof (induction ps arbitrary: hs)
  case (Cons b ps)
  then have "upsert h (fold upsert ps (upsert b hs)) = fold upsert ps (upsert h (upsert b hs))"
    by (simp add: upsert_keys)
  also have "upsert h (upsert b hs) = upsert b (upsert h hs)"
    using Cons.prems by (intro upsert_swap) auto
  finally show ?case by simp
qed simp

text \<open>A dictionary of pending rows, written at the end, equals writing every row at once.\<close>

lemma fold_upsert_upsert:
  "distinct (map hr_key ps) \<Longrightarrow> fold upsert (upsert h ps) hs = upsert h (fold upsert ps hs)"
proof (cases "hr_key h \<in> hr_key ` set ps")
  case True
  assume d: "distinct (map hr_key ps)"
  obtain a p b where ps: "ps = a @ p # b" and p: "hr_key p = hr_key h"
    using True by (metis (no_types, lifting) imageE split_list)
  have notin: "hr_key h \<notin> hr_key ` set a" "hr_key h \<notin> hr_key ` set b"
    using d p by (auto simp: ps)
  then have "map (\<lambda>x. if hr_key x = hr_key h then h else x) a = a"
    "map (\<lambda>x. if hr_key x = hr_key h then h else x) b = b"
    by (simp_all add: replace_absent del: map_eq_conv)
  then have "upsert h ps = a @ h # b" using True p by (simp add: upsert_def ps)
  moreover have "upsert h (fold upsert (p # b) xs) = fold upsert (h # b) xs" for xs
    using notin p fold_upsert_replace[of h "upsert p xs" b] by (simp add: upsert_keys upsert_same)
  ultimately show ?thesis by (simp add: ps)
next
  case False
  then show ?thesis by (simp add: upsert_def[of h ps])
qed

subsection \<open>Receipts and conflicts by candidate\<close>

lemma select_dedupe_insert:
  "select_dedupe (rc_key r) (rc_dedupe_key r) t = None \<Longrightarrow>
   select_dedupe c k (insert_row r t) =
     (if c = rc_key r \<and> k = rc_dedupe_key r then Some (rc_evidence_hash r) else select_dedupe c k t)"
  by (auto simp: select_dedupe_def insert_row_def find_append split: option.splits)

lemma select_position_insert:
  "select_position (rc_key r) (rc_position_key r) t = None \<Longrightarrow>
   select_position c k (insert_row r t) =
     (if c = rc_key r \<and> k = rc_position_key r then Some (rc_evidence_hash r) else select_position c k t)"
  by (auto simp: select_position_def insert_row_def find_append split: option.splits)

lemma conflict_exists_insert:
  "conflict_exists c p h (insert_row x t) \<longleftrightarrow>
   (c = cx_key x \<and> p = cx_position_key x \<and> h = cx_incoming_hash x) \<or> conflict_exists c p h t"
  by (auto simp: conflict_exists_def insert_row_def list_ex_iff)

end
