(* ===== verification/Fact_Reducer.thy ===== *)
theory Fact_Reducer
  imports Fact_Store
begin

text \<open>
  \<open>catalogd/fact_reducer.py\<close>: the reducer that folds a batch of machine facts into the fact tables,
  in its row-wise form (one decision and its writes per fact) and its set-wise form (the decision state
  loaded once, folded in memory, written back in bulk). Both are written out; only what the two Python
  functions share is shared. A transaction that raises leaves no catalog.
\<close>

definition MAX_REDUCER_FACTS :: nat where "MAX_REDUCER_FACTS = 256"
definition MAX_VALUE_JSON_BYTES :: nat where "MAX_VALUE_JSON_BYTES = 4 * 1024"
definition MAX_RAW_LOCATOR_BYTES :: nat where "MAX_RAW_LOCATOR_BYTES = 1024"

record reducer_fact =
  fc_family :: string
  fc_subject_key :: string
  fc_source :: string
  fc_source_epoch :: string
  fc_source_seq :: "int option"
  fc_dedupe_key :: string
  fc_evidence_hash :: string
  fc_value :: pydict
  fc_observed_at :: "pydatetime option"
  fc_session_id :: "string option"
  fc_valid_until :: "pydatetime option"
  fc_raw_locator :: "string option"

record reducer_result =
  rr_commit_seq :: int
  rr_changed_heads :: nat
  rr_duplicates :: nat
  rr_stale :: nat
  rr_conflicts :: nat

subsection \<open>Facts\<close>

definition parse_wire_datetime :: "pylib \<Rightarrow> pyval \<Rightarrow> string \<Rightarrow> bool \<Rightarrow> pydatetime option res" where
  "parse_wire_datetime lib v field nullable =
     (let bad = Inl (ValueError (''machine evidence '' @ field @ '' must be an RFC3339 string'')) in
      case v of
        PNone \<Rightarrow> (if nullable then Inr None else bad)
      | PStr s \<Rightarrow> (case bindR (lib_fromisoformat lib (py_replace ''Z'' ''+00:00'' s)) (to_utc lib) of
            Inr t \<Rightarrow> Inr (Some (DT (utc_us t) (Some 0)))
          | Inl (ValueError _) \<Rightarrow> bad
          | Inl e \<Rightarrow> Inl e)
      | _ \<Rightarrow> bad)"

definition str_or_none :: "pyval \<Rightarrow> string option" where
  "str_or_none v = (case v of PStr s \<Rightarrow> Some s | _ \<Rightarrow> None)"

definition fact_of_identity :: "pylib \<Rightarrow> evidence_identity \<Rightarrow> reducer_fact res" where
  "fact_of_identity lib e =
     (let v = ei_value e in
      bindR (parse_wire_datetime lib (dget v ''observed_at'') ''observed_at'' False) (\<lambda>observed_at.
      bindR (parse_wire_datetime lib (dget v ''valid_until'') ''valid_until'' True) (\<lambda>valid_until.
      Inr \<lparr>fc_family = ei_family e, fc_subject_key = ei_subject_key e, fc_source = ei_source e,
           fc_source_epoch = ei_source_epoch e, fc_source_seq = ei_source_seq e,
           fc_dedupe_key = ei_dedupe_key e, fc_evidence_hash = ei_evidence_hash e, fc_value = v,
           fc_observed_at = observed_at, fc_session_id = str_or_none (dget v ''session_id''),
           fc_valid_until = valid_until, fc_raw_locator = str_or_none (dget v ''raw_locator'')\<rparr>)))"

definition reducer_facts_from_machine_evidence :: "pylib \<Rightarrow> pyval \<Rightarrow> reducer_fact list res" where
  "reducer_facts_from_machine_evidence lib evidence = (case evidence of
       PDict ev \<Rightarrow> (if \<not> eq_int (dget ev ''schema_version'') 3 then Inr []
         else bindR (validate_machine_evidence_identities lib evidence) (mapR (fact_of_identity lib)))
     | _ \<Rightarrow> Inr [])"

definition aware :: "pydatetime \<Rightarrow> string \<Rightarrow> instant res" where
  "aware d field = (case dt_tz d of
       None \<Rightarrow> Inl (ValueError (field @ '' must include a timezone''))
     | Some off \<Rightarrow> astimezone (dt_wall d) off)"

definition check_aware :: "pydatetime option \<Rightarrow> string \<Rightarrow> unit res" where
  "check_aware d field = (case d of None \<Rightarrow> Inr () | Some v \<Rightarrow> bindR (aware v field) (\<lambda>_. Inr ()))"

definition validate_fact :: "pylib \<Rightarrow> reducer_fact \<Rightarrow> reducer_fact res" where
  "validate_fact lib f =
     bindR (guard (fc_family f \<noteq> [] \<and> length (fc_family f) \<le> 32) ''fact family is missing or too long'') (\<lambda>_.
     bindR (guard (fc_subject_key f \<noteq> [] \<and> length (fc_subject_key f) \<le> 1024) ''fact subject_key is missing or too long'') (\<lambda>_.
     bindR (guard (fc_source f \<noteq> [] \<and> length (fc_source f) \<le> 64) ''fact source is missing or too long'') (\<lambda>_.
     bindR (guard (case fc_session_id f of None \<Rightarrow> True | Some s \<Rightarrow> py_strip s \<noteq> [] \<and> length s \<le> 255)
       ''fact session_id is empty or too long'') (\<lambda>_.
     bindR (guard (length (fc_source_epoch f) \<le> 255) ''fact source_epoch is too long'') (\<lambda>_.
     bindR (guard (case fc_source_seq f of None \<Rightarrow> True | Some n \<Rightarrow> 0 \<le> n) ''fact source_seq must be non-negative'') (\<lambda>_.
     bindR (guard (is_sha256 (fc_dedupe_key f)) ''fact dedupe_key must be lowercase sha256'') (\<lambda>_.
     bindR (guard (is_sha256 (fc_evidence_hash f)) ''fact evidence_hash must be lowercase sha256'') (\<lambda>_.
     bindR (canonical_evidence_hash lib (fc_value f)) (\<lambda>h.
     bindR (guard (h = fc_evidence_hash f) ''fact evidence_hash does not match canonical value'') (\<lambda>_.
     bindR (canonical_value_json lib (fc_value f)) (\<lambda>j.
     bindR (guard (length j \<le> MAX_VALUE_JSON_BYTES) ''fact value exceeds reducer bound'') (\<lambda>_.
     bindR (guard (case fc_raw_locator f of None \<Rightarrow> True | Some l \<Rightarrow> length l \<le> MAX_RAW_LOCATOR_BYTES)
       ''fact raw_locator exceeds reducer bound'') (\<lambda>_.
     bindR (check_aware (fc_observed_at f) ''observed_at'') (\<lambda>_.
     bindR (check_aware (fc_valid_until f) ''valid_until'') (\<lambda>_.
     Inr f)))))))))))))))"

definition candidate_key :: "reducer_fact \<Rightarrow> candidate" where
  "candidate_key f = Candidate (fc_family f) (fc_subject_key f) (fc_source f) (fc_source_epoch f)"

definition ordering_mode :: "reducer_fact \<Rightarrow> string" where
  "ordering_mode f = (if fc_source_seq f \<noteq> None then ''sequenced'' else ''observed_at'')"

definition position_key :: "pylib \<Rightarrow> reducer_fact \<Rightarrow> string res" where
  "position_key lib f = (case fc_source_seq f of
       Some n \<Rightarrow> Inr (''seq:'' @ pad_int 20 n)
     | None \<Rightarrow> (case fc_observed_at f of
         None \<Rightarrow> Inl (ValueError ''unsequenced fact requires observed_at'')
       | Some d \<Rightarrow> bindR (to_utc lib d) (\<lambda>t. Inr (''time:'' @ isoformat_us t))))"

subsection \<open>Preparing a batch\<close>

text \<open>
  \<open>grouped\<close> is a dictionary of dictionaries, in insertion order. The order of its keys is that of the
  five-tuple (candidate, position key), the order of an inner dictionary that of the evidence hash.
\<close>

type_synonym group_key = "candidate \<times> string"
type_synonym groups = "(group_key \<times> (string \<times> reducer_fact) list) list"

definition group_values :: "groups \<Rightarrow> group_key \<Rightarrow> (string \<times> reducer_fact) list" where
  "group_values g k = (case map_of g k of None \<Rightarrow> [] | Some vs \<Rightarrow> vs)"

definition group_fact :: "pylib \<Rightarrow> reducer_fact \<Rightarrow> groups \<times> nat \<Rightarrow> (groups \<times> nat) res" where
  "group_fact lib raw st =
     bindR (validate_fact lib raw) (\<lambda>fact.
     bindR (position_key lib fact) (\<lambda>pos.
     let key = (candidate_key fact, pos); values = group_values (fst st) key
     in if fc_evidence_hash fact \<in> fst ` set values then Inr (fst st, snd st + 1)
        else Inr (AList.update key (values @ [(fc_evidence_hash fact, fact)]) (fst st), snd st)))"

type_synonym prepared = "(reducer_fact \<times> string) list"
type_synonym batch_conflicts = "(reducer_fact \<times> reducer_fact) list"

definition group_order :: "(string \<times> reducer_fact) list \<Rightarrow> reducer_fact list" where
  "group_order vs = map snd (sort_key fst vs)"

definition finish_group ::
  "pylib \<Rightarrow> group_key \<times> (string \<times> reducer_fact) list \<Rightarrow> ((reducer_fact \<times> string) \<times> batch_conflicts) res" where
  "finish_group lib g =
     (let ordered = group_order (snd g); winner = hd ordered in
      bindR (canonical_value_json lib (fc_value winner)) (\<lambda>j.
      Inr ((winner, j), map (\<lambda>incoming. (winner, incoming)) (tl ordered))))"

definition prepare_batch :: "pylib \<Rightarrow> reducer_fact list \<Rightarrow> (prepared \<times> nat \<times> batch_conflicts) res" where
  "prepare_batch lib facts =
     bindR (foldR (group_fact lib) facts ([], 0)) (\<lambda>(grouped, duplicates).
     bindR (mapR (finish_group lib) (sort_key fst grouped)) (\<lambda>ps.
     Inr (map fst ps, duplicates, concat (map snd ps))))"

subsection \<open>State of a run\<close>

record env =
  ev_lib :: pylib
  ev_received_at :: instant
  ev_override :: "int option"

text \<open>
  The database and the local variables of a run. Of \<open>touched_candidates\<close> only the keys are read
  (a value is used for its key columns).
\<close>

record loop =
  lp_cat :: catalog
  lp_alloc :: "int option"
  lp_changed :: nat
  lp_duplicates :: nat
  lp_stale :: nat
  lp_conflicts :: nat
  lp_touched :: "candidate list"

definition commit_seq :: "env \<Rightarrow> 'a loop_scheme \<Rightarrow> int \<times> 'a loop_scheme" where
  "commit_seq env lp = (case lp_alloc lp of
       Some n \<Rightarrow> (n, lp)
     | None \<Rightarrow> (case ev_override env of
         Some n \<Rightarrow> (n, lp\<lparr>lp_alloc := Some n\<rparr>)
       | None \<Rightarrow> (let a = advance_commit_seq (ev_received_at env) (lp_cat lp)
                  in (fst a, lp\<lparr>lp_alloc := Some (fst a), lp_cat := snd a\<rparr>))))"

definition touch :: "candidate \<Rightarrow> 'a loop_scheme \<Rightarrow> 'a loop_scheme" where
  "touch c lp = lp\<lparr>lp_touched := (if c \<in> set (lp_touched lp) then lp_touched lp else lp_touched lp @ [c])\<rparr>"

definition add_duplicate :: "'a loop_scheme \<Rightarrow> 'a loop_scheme" where
  "add_duplicate lp = lp\<lparr>lp_duplicates := lp_duplicates lp + 1\<rparr>"

definition add_stale :: "'a loop_scheme \<Rightarrow> 'a loop_scheme" where
  "add_stale lp = lp\<lparr>lp_stale := lp_stale lp + 1\<rparr>"

text \<open>What a fact meets: the outcomes of the loop body, with the colliding hash and the conflict kind.\<close>

datatype verdict = Accept | Stale | Duplicate | Conflict string string

definition same_or_conflict :: "reducer_fact \<Rightarrow> string \<Rightarrow> string \<Rightarrow> verdict" where
  "same_or_conflict f existing kind = (if existing = fc_evidence_hash f then Duplicate else Conflict existing kind)"

definition head_values :: "env \<Rightarrow> reducer_fact \<Rightarrow> string \<Rightarrow> int \<Rightarrow> head_row" where
  "head_values env f j seq =
     \<lparr>hr_key = candidate_key f, hr_session_id = fc_session_id f, hr_ordering_mode = ordering_mode f,
      hr_source_seq = fc_source_seq f, hr_evidence_hash = fc_evidence_hash f,
      hr_observed_at = map_option dt_wall (fc_observed_at f), hr_valid_until = map_option dt_wall (fc_valid_until f),
      hr_value_json = j, hr_raw_locator = fc_raw_locator f, hr_updated_commit_seq = seq,
      hr_received_at = utc_us (ev_received_at env)\<rparr>"

definition receipt_values :: "env \<Rightarrow> reducer_fact \<Rightarrow> string \<Rightarrow> int \<Rightarrow> receipt" where
  "receipt_values env f pos seq =
     \<lparr>rc_key = candidate_key f, rc_position_key = pos, rc_source_seq = fc_source_seq f,
      rc_dedupe_key = fc_dedupe_key f, rc_evidence_hash = fc_evidence_hash f,
      rc_received_at = utc_us (ev_received_at env), rc_commit_seq = seq\<rparr>"

definition conflict_values :: "env \<Rightarrow> reducer_fact \<Rightarrow> string \<Rightarrow> string \<Rightarrow> string \<Rightarrow> int \<Rightarrow> conflict" where
  "conflict_values env f existing pos kind seq =
     \<lparr>cx_key = candidate_key f, cx_position_key = pos, cx_source_seq = fc_source_seq f,
      cx_conflict_kind = kind, cx_existing_hash = existing, cx_incoming_hash = fc_evidence_hash f,
      cx_detected_at = utc_us (ev_received_at env), cx_commit_seq = seq\<rparr>"

subsection \<open>The row-wise reducer\<close>

definition record_conflict ::
  "env \<Rightarrow> reducer_fact \<Rightarrow> string \<Rightarrow> string \<Rightarrow> string \<Rightarrow> loop \<Rightarrow> loop res" where
  "record_conflict env f existing pos kind lp =
     (if conflict_exists (candidate_key f) pos (fc_evidence_hash f) (cat_conflicts (lp_cat lp)) then Inr lp
      else case commit_seq env lp of (seq, lp1) \<Rightarrow>
        bindR (bind_int (fc_source_seq f)) (\<lambda>_.
        Inr (lp1\<lparr>lp_cat := (lp_cat lp1)\<lparr>cat_conflicts :=
                    insert_row (conflict_values env f existing pos kind seq) (cat_conflicts (lp_cat lp1))\<rparr>,
                 lp_conflicts := lp_conflicts lp1 + 1\<rparr>)))"

text \<open>\<open>_sqlite_datetime\<close> reads the stored wall clock back as UTC.\<close>

definition rowwise_head_verdict :: "reducer_fact \<Rightarrow> head_row \<Rightarrow> verdict res" where
  "rowwise_head_verdict f h =
     (if hr_ordering_mode h \<noteq> ordering_mode f then Inr (Conflict (hr_evidence_hash h) ''ordering_mode_change'')
      else if ordering_mode f = ''sequenced'' then
        (case hr_source_seq h of
           None \<Rightarrow> Inl (TypeError ''int() argument must not be NoneType'')
         | Some head_seq \<Rightarrow> (case fc_source_seq f of
             None \<Rightarrow> Inl (AssertionError [])
           | Some n \<Rightarrow> (if n < head_seq then Inr Stale
               else if n = head_seq then Inr (same_or_conflict f (hr_evidence_hash h) ''head_position_reuse'')
               else Inr Accept)))
      else (case fc_observed_at f of
             None \<Rightarrow> Inl (AssertionError [])
           | Some d \<Rightarrow> (case map_option UTC (hr_observed_at h) of
               None \<Rightarrow> Inr Accept
             | Some head_observed \<Rightarrow> (if UTC (aware_us d) < head_observed then Inr Stale
                 else if UTC (aware_us d) = head_observed
                   then Inr (same_or_conflict f (hr_evidence_hash h) ''head_position_reuse'')
                 else Inr Accept))))"

definition rowwise_verdict :: "catalog \<Rightarrow> reducer_fact \<Rightarrow> string \<Rightarrow> verdict res" where
  "rowwise_verdict cat f pos =
     (case select_dedupe (candidate_key f) (fc_dedupe_key f) (cat_receipts cat) of
        Some h \<Rightarrow> Inr (same_or_conflict f h ''dedupe_key_reuse'')
      | None \<Rightarrow> (case select_position (candidate_key f) pos (cat_receipts cat) of
          Some h \<Rightarrow> Inr (same_or_conflict f h ''source_position_reuse'')
        | None \<Rightarrow> (case select_head (candidate_key f) (cat_heads cat) of
            None \<Rightarrow> Inr Accept
          | Some h \<Rightarrow> rowwise_head_verdict f h)))"

definition rowwise_accept :: "env \<Rightarrow> reducer_fact \<Rightarrow> string \<Rightarrow> string \<Rightarrow> loop \<Rightarrow> loop res" where
  "rowwise_accept env f j pos lp = (case commit_seq env lp of (seq, lp1) \<Rightarrow>
     bindR (bind_int (fc_source_seq f)) (\<lambda>_.
     Inr (touch (candidate_key f)
       (lp1\<lparr>lp_cat := (lp_cat lp1)\<lparr>cat_heads := upsert (head_values env f j seq) (cat_heads (lp_cat lp1)),
                                   cat_receipts := insert_row (receipt_values env f pos seq) (cat_receipts (lp_cat lp1))\<rparr>,
            lp_changed := lp_changed lp1 + 1\<rparr>))))"

definition rowwise_step :: "env \<Rightarrow> reducer_fact \<times> string \<Rightarrow> loop \<Rightarrow> loop res" where
  "rowwise_step env fj lp = (case fj of (f, j) \<Rightarrow>
     bindR (position_key (ev_lib env) f) (\<lambda>pos.
     bindR (rowwise_verdict (lp_cat lp) f pos) (\<lambda>v. case v of
         Duplicate \<Rightarrow> Inr (add_duplicate lp)
       | Stale \<Rightarrow> Inr (add_stale lp)
       | Conflict existing kind \<Rightarrow>
           bindR (record_conflict env f existing pos kind lp) (\<lambda>lp1. Inr (touch (candidate_key f) lp1))
       | Accept \<Rightarrow> rowwise_accept env f j pos lp)))"

definition rowwise_batch_conflict :: "env \<Rightarrow> reducer_fact \<times> reducer_fact \<Rightarrow> loop \<Rightarrow> loop res" where
  "rowwise_batch_conflict env wi lp = (case wi of (winner, incoming) \<Rightarrow>
     bindR (position_key (ev_lib env) incoming) (\<lambda>pos.
     bindR (record_conflict env incoming (fc_evidence_hash winner) pos ''same_batch_position_reuse'' lp) (\<lambda>lp1.
     Inr (touch (candidate_key incoming) lp1))))"

definition touched_families :: "candidate list \<Rightarrow> string list" where
  "touched_families cs = sort (remdups (map family_of cs))"

definition rowwise_prune :: "candidate list \<Rightarrow> catalog \<Rightarrow> catalog" where
  "rowwise_prune touched cat =
     fold prune_fact_family (touched_families touched)
       (fold (\<lambda>c cat. cat\<lparr>cat_receipts := prune_candidate_rows rc_key MAX_RECEIPTS_PER_CANDIDATE c (cat_receipts cat),
                          cat_conflicts := prune_candidate_rows cx_key MAX_CONFLICTS_PER_CANDIDATE c (cat_conflicts cat)\<rparr>)
         touched cat)"

definition result_of :: "int \<Rightarrow> 'a loop_scheme \<Rightarrow> reducer_result" where
  "result_of current lp =
     \<lparr>rr_commit_seq = (case lp_alloc lp of Some n \<Rightarrow> n | None \<Rightarrow> current), rr_changed_heads = lp_changed lp,
      rr_duplicates = lp_duplicates lp, rr_stale = lp_stale lp, rr_conflicts = lp_conflicts lp\<rparr>"

definition start_loop :: "catalog \<Rightarrow> nat \<Rightarrow> loop" where
  "start_loop cat duplicates = \<lparr>lp_cat = cat, lp_alloc = None, lp_changed = 0, lp_duplicates = duplicates,
     lp_stale = 0, lp_conflicts = 0, lp_touched = []\<rparr>"

definition check_override :: "int option \<Rightarrow> int \<Rightarrow> unit res" where
  "check_override override current = guard (case override of None \<Rightarrow> True | Some n \<Rightarrow> n = current)
     ''reducer commit_seq_override must equal the current catalog commit''"

definition reduce_fact_batch ::
  "pylib \<Rightarrow> reducer_fact list \<Rightarrow> pydatetime \<Rightarrow> int option \<Rightarrow> catalog \<Rightarrow> (reducer_result \<times> catalog) res" where
  "reduce_fact_batch lib facts received_at override cat =
     bindR (guard (length facts \<le> MAX_REDUCER_FACTS) ''reducer batch exceeds 256 facts'') (\<lambda>_.
     bindR (aware received_at ''received_at'') (\<lambda>at.
     bindR (prepare_batch lib facts) (\<lambda>(prepared, duplicates, batch_conflicts).
     bindR (check_override override (current_commit_seq cat)) (\<lambda>_.
     let env = \<lparr>ev_lib = lib, ev_received_at = at, ev_override = override\<rparr> in
     bindR (foldR (rowwise_step env) prepared (start_loop cat duplicates)) (\<lambda>lp.
     bindR (foldR (rowwise_batch_conflict env) batch_conflicts lp) (\<lambda>lp.
     Inr (result_of (current_commit_seq cat) lp, rowwise_prune (lp_touched lp) (lp_cat lp))))))))"

end
