(* ===== verification/Fact_Setwise.thy ===== *)
theory Fact_Setwise
  imports Fact_Reducer
begin

text \<open>
  \<open>reduce_fact_batch_setwise\<close> of \<open>catalogd/fact_reducer.py\<close>: three reads build the in-memory indices, the
  fold decides on them and collects pending rows, three bulk writes and the set-wise pruning end the
  batch. The timing log at the end of the function has no effect on the catalog and is left out.
\<close>

text \<open>An entry of \<open>head_index\<close>.\<close>

record head_view =
  hv_ordering_mode :: string
  hv_source_seq :: "int option"
  hv_evidence_hash :: string
  hv_observed_at :: "instant option"

record setwise = loop +
  sw_dedupe_index :: "candidate \<Rightarrow> string \<Rightarrow> string option"
  sw_position_index :: "candidate \<Rightarrow> string \<Rightarrow> string option"
  sw_head_index :: "candidate \<Rightarrow> head_view option"
  sw_known_conflicts :: "(candidate \<times> string \<times> string) list"
  sw_pending_heads :: "head_row list"
  sw_pending_receipts :: "receipt list"
  sw_pending_conflicts :: "conflict list"

subsection \<open>The three reads\<close>

definition index_put :: "candidate \<Rightarrow> string \<Rightarrow> string \<Rightarrow> (candidate \<Rightarrow> string \<Rightarrow> string option) \<Rightarrow> candidate \<Rightarrow> string \<Rightarrow> string option" where
  "index_put c k v ix = ix(c := (ix c)(k := Some v))"

definition load_dedupe :: "candidate list \<Rightarrow> receipt rows \<Rightarrow> candidate \<Rightarrow> string \<Rightarrow> string option" where
  "load_dedupe cs t = fold (\<lambda>(_, r). index_put (rc_key r) (rc_dedupe_key r) (rc_evidence_hash r))
     (filter (\<lambda>(_, r). rc_key r \<in> set cs) t) (\<lambda>_ _. None)"

definition load_position :: "candidate list \<Rightarrow> receipt rows \<Rightarrow> candidate \<Rightarrow> string \<Rightarrow> string option" where
  "load_position cs t = fold (\<lambda>(_, r). index_put (rc_key r) (rc_position_key r) (rc_evidence_hash r))
     (filter (\<lambda>(_, r). rc_key r \<in> set cs) t) (\<lambda>_ _. None)"

definition view_of_head :: "head_row \<Rightarrow> head_view" where
  "view_of_head h = \<lparr>hv_ordering_mode = hr_ordering_mode h, hv_source_seq = hr_source_seq h,
     hv_evidence_hash = hr_evidence_hash h, hv_observed_at = map_option UTC (hr_observed_at h)\<rparr>"

definition load_heads :: "candidate list \<Rightarrow> head_row list \<Rightarrow> candidate \<Rightarrow> head_view option" where
  "load_heads cs hs = fold (\<lambda>h ix. ix(hr_key h := Some (view_of_head h)))
     (filter (\<lambda>h. hr_key h \<in> set cs) hs) (\<lambda>_. None)"

definition load_conflicts :: "candidate list \<Rightarrow> conflict rows \<Rightarrow> (candidate \<times> string \<times> string) list" where
  "load_conflicts cs t = map (\<lambda>(_, x). (cx_key x, cx_position_key x, cx_incoming_hash x))
     (filter (\<lambda>(_, x). cx_key x \<in> set cs) t)"

definition start_setwise :: "candidate list \<Rightarrow> catalog \<Rightarrow> nat \<Rightarrow> setwise" where
  "start_setwise cs cat duplicates = loop.extend (start_loop cat duplicates)
     \<lparr>sw_dedupe_index = load_dedupe cs (cat_receipts cat), sw_position_index = load_position cs (cat_receipts cat),
      sw_head_index = load_heads cs (cat_heads cat), sw_known_conflicts = load_conflicts cs (cat_conflicts cat),
      sw_pending_heads = [], sw_pending_receipts = [], sw_pending_conflicts = []\<rparr>"

subsection \<open>The fold\<close>

definition note_conflict :: "env \<Rightarrow> reducer_fact \<Rightarrow> string \<Rightarrow> string \<Rightarrow> string \<Rightarrow> setwise \<Rightarrow> setwise" where
  "note_conflict env f existing pos kind sw =
     (let marker = (candidate_key f, pos, fc_evidence_hash f) in
      if marker \<in> set (sw_known_conflicts sw) then sw
      else case commit_seq env sw of (seq, sw1) \<Rightarrow>
        sw1\<lparr>sw_known_conflicts := marker # sw_known_conflicts sw1,
            sw_pending_conflicts := sw_pending_conflicts sw1 @ [conflict_values env f existing pos kind seq],
            lp_conflicts := lp_conflicts sw1 + 1\<rparr>)"

definition setwise_head_verdict :: "reducer_fact \<Rightarrow> head_view \<Rightarrow> verdict res" where
  "setwise_head_verdict f h =
     (if hv_ordering_mode h \<noteq> ordering_mode f then Inr (Conflict (hv_evidence_hash h) ''ordering_mode_change'')
      else if ordering_mode f = ''sequenced'' then
        (case hv_source_seq h of
           None \<Rightarrow> Inl (TypeError ''int() argument must not be NoneType'')
         | Some head_seq \<Rightarrow> (case fc_source_seq f of
             None \<Rightarrow> Inl (AssertionError [])
           | Some n \<Rightarrow> (if n < head_seq then Inr Stale
               else if n = head_seq then Inr (same_or_conflict f (hv_evidence_hash h) ''head_position_reuse'')
               else Inr Accept)))
      else (case fc_observed_at f of
             None \<Rightarrow> Inl (AssertionError [])
           | Some d \<Rightarrow> (case hv_observed_at h of
               None \<Rightarrow> Inr Accept
             | Some head_observed \<Rightarrow> (if UTC (aware_us d) < head_observed then Inr Stale
                 else if UTC (aware_us d) = head_observed
                   then Inr (same_or_conflict f (hv_evidence_hash h) ''head_position_reuse'')
                 else Inr Accept))))"

definition setwise_verdict :: "setwise \<Rightarrow> reducer_fact \<Rightarrow> string \<Rightarrow> verdict res" where
  "setwise_verdict sw f pos =
     (case sw_dedupe_index sw (candidate_key f) (fc_dedupe_key f) of
        Some h \<Rightarrow> Inr (same_or_conflict f h ''dedupe_key_reuse'')
      | None \<Rightarrow> (case sw_position_index sw (candidate_key f) pos of
          Some h \<Rightarrow> Inr (same_or_conflict f h ''source_position_reuse'')
        | None \<Rightarrow> (case sw_head_index sw (candidate_key f) of
            None \<Rightarrow> Inr Accept
          | Some h \<Rightarrow> setwise_head_verdict f h)))"

definition view_of_fact :: "reducer_fact \<Rightarrow> head_view" where
  "view_of_fact f = \<lparr>hv_ordering_mode = ordering_mode f, hv_source_seq = fc_source_seq f,
     hv_evidence_hash = fc_evidence_hash f,
     hv_observed_at = map_option (\<lambda>d. UTC (aware_us d)) (fc_observed_at f)\<rparr>"

definition setwise_accept :: "env \<Rightarrow> reducer_fact \<Rightarrow> string \<Rightarrow> string \<Rightarrow> setwise \<Rightarrow> setwise" where
  "setwise_accept env f j pos sw = (case commit_seq env sw of (seq, sw1) \<Rightarrow>
     let c = candidate_key f in
     touch c
       (sw1\<lparr>sw_pending_heads := upsert (head_values env f j seq) (sw_pending_heads sw1),
            sw_pending_receipts := sw_pending_receipts sw1 @ [receipt_values env f pos seq],
            sw_dedupe_index := index_put c (fc_dedupe_key f) (fc_evidence_hash f) (sw_dedupe_index sw1),
            sw_position_index := index_put c pos (fc_evidence_hash f) (sw_position_index sw1),
            sw_head_index := (sw_head_index sw1)(c := Some (view_of_fact f)),
            lp_changed := lp_changed sw1 + 1\<rparr>))"

definition setwise_step :: "env \<Rightarrow> reducer_fact \<times> string \<Rightarrow> setwise \<Rightarrow> setwise res" where
  "setwise_step env fj sw = (case fj of (f, j) \<Rightarrow>
     bindR (position_key (ev_lib env) f) (\<lambda>pos.
     bindR (setwise_verdict sw f pos) (\<lambda>v. case v of
         Duplicate \<Rightarrow> Inr (add_duplicate sw)
       | Stale \<Rightarrow> Inr (add_stale sw)
       | Conflict existing kind \<Rightarrow> Inr (touch (candidate_key f) (note_conflict env f existing pos kind sw))
       | Accept \<Rightarrow> Inr (setwise_accept env f j pos sw))))"

definition setwise_batch_conflict :: "env \<Rightarrow> reducer_fact \<times> reducer_fact \<Rightarrow> setwise \<Rightarrow> setwise res" where
  "setwise_batch_conflict env wi sw = (case wi of (winner, incoming) \<Rightarrow>
     bindR (position_key (ev_lib env) incoming) (\<lambda>pos.
     Inr (touch (candidate_key incoming)
       (note_conflict env incoming (fc_evidence_hash winner) pos ''same_batch_position_reuse'' sw))))"

subsection \<open>The three writes and the pruning\<close>

definition bind_all :: "int option list \<Rightarrow> unit res" where
  "bind_all vs = foldR (\<lambda>v _. bindR (bind_int v) (\<lambda>_. Inr ())) vs ()"

definition bulk_write :: "setwise \<Rightarrow> catalog res" where
  "bulk_write sw =
     (let cat = lp_cat sw in
      bindR (bind_all (map hr_source_seq (sw_pending_heads sw))) (\<lambda>_.
      bindR (bind_all (map rc_source_seq (sw_pending_receipts sw))) (\<lambda>_.
      bindR (bind_all (map cx_source_seq (sw_pending_conflicts sw))) (\<lambda>_.
      Inr (cat\<lparr>cat_heads := fold upsert (sw_pending_heads sw) (cat_heads cat),
               cat_receipts := fold insert_row (sw_pending_receipts sw) (cat_receipts cat),
               cat_conflicts := fold insert_row (sw_pending_conflicts sw) (cat_conflicts cat)\<rparr>)))))"

definition prune_family_if_full :: "string \<Rightarrow> catalog \<Rightarrow> catalog" where
  "prune_family_if_full family cat =
     (if head_count family (cat_heads cat) > MAX_HEADS_PER_FAMILY then prune_fact_family family cat else cat)"

definition setwise_prune :: "candidate list \<Rightarrow> catalog \<Rightarrow> catalog" where
  "setwise_prune touched cat =
     (let pruned = sort touched;
          cat1 = cat\<lparr>cat_receipts := prune_candidate_rows_setwise rc_key MAX_RECEIPTS_PER_CANDIDATE pruned (cat_receipts cat)\<rparr>;
          cat2 = cat1\<lparr>cat_conflicts := prune_candidate_rows_setwise cx_key MAX_CONFLICTS_PER_CANDIDATE pruned (cat_conflicts cat1)\<rparr>
      in fold prune_family_if_full (touched_families touched) cat2)"

definition batch_candidates :: "prepared \<Rightarrow> batch_conflicts \<Rightarrow> candidate list" where
  "batch_candidates prepared conflicts =
     sort (remdups (map (\<lambda>(f, _). candidate_key f) prepared @ map (\<lambda>(_, i). candidate_key i) conflicts))"

definition reduce_fact_batch_setwise ::
  "pylib \<Rightarrow> reducer_fact list \<Rightarrow> pydatetime \<Rightarrow> int option \<Rightarrow> catalog \<Rightarrow> (reducer_result \<times> catalog) res" where
  "reduce_fact_batch_setwise lib facts received_at override cat =
     bindR (guard (length facts \<le> MAX_REDUCER_FACTS) ''reducer batch exceeds 256 facts'') (\<lambda>_.
     bindR (aware received_at ''received_at'') (\<lambda>at.
     bindR (prepare_batch lib facts) (\<lambda>(prepared, duplicates, batch_conflicts).
     bindR (check_override override (current_commit_seq cat)) (\<lambda>_.
     let env = \<lparr>ev_lib = lib, ev_received_at = at, ev_override = override\<rparr>;
         cs = batch_candidates prepared batch_conflicts
     in if cs = [] then Inr (result_of (current_commit_seq cat) (start_loop cat duplicates), cat)
        else
          bindR (foldR (setwise_step env) prepared (start_setwise cs cat duplicates)) (\<lambda>sw.
          bindR (foldR (setwise_batch_conflict env) batch_conflicts sw) (\<lambda>sw.
          bindR (bulk_write sw) (\<lambda>cat1.
          Inr (result_of (current_commit_seq cat) sw, setwise_prune (lp_touched sw) cat1))))))))"

end
