(* ===== verification/Fact_Retention.thy ===== *)
theory Fact_Retention
  imports Fact_Setwise
begin

text \<open>
  Retention: both pruning routines keep, for every candidate they are given, the rows with the greatest
  ids, and leave all other rows alone. The contract is a locale; the row-wise and the set-wise routine
  are instances on both child tables, which makes them equal. The family sweep keeps at most the bound
  of heads and removes the children of a removed head with it.
\<close>

subsection \<open>Rank in a descending list\<close>

lemma take_descending:
  "sorted_wrt (>) ys \<Longrightarrow> x \<in> set ys \<Longrightarrow> x \<in> set (take n ys) \<longleftrightarrow> length (filter (\<lambda>y. x < y) ys) < n"
  for ys :: "int list"
proof (induction ys arbitrary: n)
  case (Cons y ys)
  show ?case
  proof (cases n)
    case (Suc m)
    show ?thesis
    proof (cases "x = y")
      case True
      then have "filter (\<lambda>z. x < z) ys = []" using Cons.prems(1) by (auto simp: filter_empty_conv)
      then show ?thesis using True Suc by simp
    next
      case False
      then have "x \<in> set ys" "x < y" using Cons.prems by auto
      then show ?thesis using Cons Suc False by auto
    qed
  qed simp
qed simp

lemma descending_ids: "distinct xs \<Longrightarrow> sorted_wrt (>) (rev (sort xs))"
  for xs :: "int list"
  using strict_sorted_iff[of "sort xs"] by (simp add: sorted_wrt_rev)

lemma top_ids_rank:
  fixes xs :: "int list"
  assumes "distinct xs" and "x \<in> set xs"
  shows "x \<in> set (take n (rev (sort xs))) \<longleftrightarrow> length (filter (\<lambda>y. x < y) xs) < n"
proof -
  have "mset (rev (sort xs)) = mset xs" by simp
  then have "length (filter (\<lambda>y. x < y) (rev (sort xs))) = length (filter (\<lambda>y. x < y) xs)"
    by (metis mset_filter size_mset)
  then show ?thesis using take_descending[OF descending_ids[OF assms(1)], of x n] assms(2) by simp
qed

lemma row_rank_ids:
  "row_rank key t i c = Suc (length (filter (\<lambda>j. i < j) (map fst (filter (\<lambda>(_, r). key r = c) t))))"
  by (induction t) (auto simp: row_rank_def)

subsection \<open>The retention contract\<close>

definition retained :: "('r \<Rightarrow> candidate) \<Rightarrow> nat \<Rightarrow> candidate set \<Rightarrow> 'r rows \<Rightarrow> int \<times> 'r \<Rightarrow> bool" where
  "retained key keep C t row \<longleftrightarrow> (key (snd row) \<in> C \<longrightarrow> row_rank key t (fst row) (key (snd row)) \<le> keep)"

locale candidate_retention =
  fixes key :: "'r \<Rightarrow> candidate"
    and keep :: nat
    and prune :: "candidate list \<Rightarrow> 'r rows \<Rightarrow> 'r rows"
  assumes prune_spec: "distinct (map fst t) \<Longrightarrow> prune cs t = filter (retained key keep (set cs) t) t"
begin

lemma prune_subset: "distinct (map fst t) \<Longrightarrow> set (prune cs t) \<subseteq> set t"
  by (simp add: prune_spec)

lemma prune_distinct: "distinct (map fst t) \<Longrightarrow> distinct (map f t) \<Longrightarrow> distinct (map f (prune cs t))"
  by (simp add: prune_spec distinct_map_filter)

lemma prune_others:
  assumes "distinct (map fst t)" and "c \<notin> set cs"
  shows "filter (\<lambda>(_, r). key r = c) (prune cs t) = filter (\<lambda>(_, r). key r = c) t"
  using assms by (auto simp: prune_spec retained_def intro!: filter_cong)

lemma prune_bound:
  assumes d: "distinct (map fst t)" and "c \<in> set cs"
  shows "length (filter (\<lambda>(_, r). key r = c) (prune cs t)) \<le> keep"
proof -
  let ?ids = "map fst (filter (\<lambda>(_, r). key r = c) t)"
  let ?out = "filter (\<lambda>(_, r). key r = c) (prune cs t)"
  have dist: "distinct ?ids" "distinct (map fst ?out)"
    using d by (simp_all add: distinct_map_filter prune_spec)
  have "i \<in> set (take keep (rev (sort ?ids)))" if i: "i \<in> set (map fst ?out)" for i
  proof -
    obtain r where r: "(i, r) \<in> set t" "key r = c" "row_rank key t i c \<le> keep"
      using i assms by (auto simp: prune_spec[OF d] retained_def)
    then have "i \<in> set ?ids" by force
    then show ?thesis using r(3) by (simp add: row_rank_ids top_ids_rank[OF dist(1)])
  qed
  then have "set (map fst ?out) \<subseteq> set (take keep (rev (sort ?ids)))" by blast
  then have "card (set (map fst ?out)) \<le> length (take keep (rev (sort ?ids)))"
    by (meson card_length card_mono finite_set order_trans)
  also have "\<dots> \<le> keep" by simp
  finally show ?thesis using distinct_card[OF dist(2)] by simp
qed

end

lemma prune_candidate_spec:
  assumes "distinct (map fst t)"
  shows "prune_candidate_rows key keep c t = filter (retained key keep {c} t) t"
proof -
  let ?ids = "map fst (filter (\<lambda>(_, r). key r = c) t)"
  have d: "distinct ?ids" using assms by (simp add: distinct_map_filter)
  have "i \<in> set (take keep (rev (sort ?ids))) \<longleftrightarrow> row_rank key t i c \<le> keep" if "(i, r) \<in> set t" "key r = c" for i r
  proof -
    have "i \<in> set ?ids" using that by force
    then show ?thesis by (simp add: row_rank_ids top_ids_rank[OF d] Suc_le_eq)
  qed
  then show ?thesis
    unfolding prune_candidate_rows_def Let_def by (intro filter_cong) (auto simp: retained_def)
qed

lemma row_rank_filter:
  "(\<And>j s. (j, s) \<in> set t \<Longrightarrow> key s = c \<Longrightarrow> P (j, s)) \<Longrightarrow> row_rank key (filter P t) i c = row_rank key t i c"
  unfolding row_rank_def filter_filter by (intro arg_cong[where f = Suc] arg_cong[where f = length] filter_cong) auto

lemma fold_prune_spec:
  assumes "distinct cs" and "distinct (map fst t)"
  shows "fold (prune_candidate_rows key keep) cs t = filter (retained key keep (set cs) t) t"
  using assms
proof (induction cs arbitrary: t)
  case Nil
  then show ?case by (simp add: retained_def)
next
  case (Cons c cs)
  let ?t = "prune_candidate_rows key keep c t"
  have t: "?t = filter (retained key keep {c} t) t" using Cons.prems prune_candidate_spec by blast
  have rank: "row_rank key ?t i c' = row_rank key t i c'" if "c' \<noteq> c" for i c'
    unfolding t using that by (intro row_rank_filter) (simp add: retained_def)
  have "fold (prune_candidate_rows key keep) (c # cs) t = filter (retained key keep (set cs) ?t) ?t"
    using Cons by (simp add: t distinct_map_filter)
  also have "\<dots> = filter (retained key keep (set cs) t) ?t"
  proof (intro filter_cong refl)
    fix row :: "int \<times> 'a"
    have "key (snd row) \<in> set cs \<Longrightarrow> key (snd row) \<noteq> c" using Cons.prems(1) by auto
    then show "retained key keep (set cs) ?t row = retained key keep (set cs) t row"
      using rank[of "key (snd row)"] by (auto simp: retained_def)
  qed
  also have "\<dots> = filter (retained key keep (set (c # cs)) t) t"
    unfolding t filter_filter by (intro filter_cong refl) (auto simp: retained_def)
  finally show ?case .
qed

lemma prune_setwise_spec:
  assumes "distinct (map fst t)"
  shows "prune_candidate_rows_setwise key keep cs t = filter (retained key keep (set cs) t) t"
proof (cases "cs = []")
  case True
  then show ?thesis by (simp add: prune_candidate_rows_setwise_def retained_def)
next
  case False
  have "i \<in> fst ` set (filter (\<lambda>(i, r). key r \<in> set cs \<and> row_rank key t i (key r) > keep) t) \<longleftrightarrow>
      \<not> retained key keep (set cs) t (i, r)" if "(i, r) \<in> set t" for i r
  proof
    assume "i \<in> fst ` set (filter (\<lambda>(i, r). key r \<in> set cs \<and> row_rank key t i (key r) > keep) t)"
    then obtain s where "(i, s) \<in> set t" "key s \<in> set cs \<and> row_rank key t i (key s) > keep" by auto
    moreover have "s = r" using that calculation(1) assms by (metis eq_key_imp_eq_value)
    ultimately show "\<not> retained key keep (set cs) t (i, r)" by (simp add: retained_def)
  qed (use that in \<open>force simp: retained_def\<close>)
  then show ?thesis
    using False unfolding prune_candidate_rows_setwise_def Let_def set_map
    by (simp only: if_False) (intro filter_cong refl, auto)
qed

text \<open>The two routines on both child tables. The row-wise one runs over a duplicate-free list.\<close>

interpretation rowwise_receipts: candidate_retention rc_key MAX_RECEIPTS_PER_CANDIDATE
  "\<lambda>cs. fold (prune_candidate_rows rc_key MAX_RECEIPTS_PER_CANDIDATE) (remdups cs)"
  by unfold_locales (simp add: fold_prune_spec)

interpretation rowwise_conflicts: candidate_retention cx_key MAX_CONFLICTS_PER_CANDIDATE
  "\<lambda>cs. fold (prune_candidate_rows cx_key MAX_CONFLICTS_PER_CANDIDATE) (remdups cs)"
  by unfold_locales (simp add: fold_prune_spec)

interpretation setwise_receipts: candidate_retention rc_key MAX_RECEIPTS_PER_CANDIDATE
  "prune_candidate_rows_setwise rc_key MAX_RECEIPTS_PER_CANDIDATE"
  by unfold_locales (rule prune_setwise_spec)

interpretation setwise_conflicts: candidate_retention cx_key MAX_CONFLICTS_PER_CANDIDATE
  "prune_candidate_rows_setwise cx_key MAX_CONFLICTS_PER_CANDIDATE"
  by unfold_locales (rule prune_setwise_spec)

lemma prune_routines_agree:
  "distinct cs \<Longrightarrow> distinct (map fst t) \<Longrightarrow>
   fold (prune_candidate_rows key keep) cs t = prune_candidate_rows_setwise key keep cs' t"
  if "set cs' = set cs"
  using that by (simp add: fold_prune_spec prune_setwise_spec)

subsection \<open>The family sweep\<close>

lemma keep_candidates_all:
  assumes "head_count family hs \<le> MAX_HEADS_PER_FAMILY"
  shows "set (keep_candidates family hs) = hr_key ` {h \<in> set hs. family_of (hr_key h) = family}"
  using assms by (simp add: keep_candidates_def head_count_def)

lemma keep_candidates_subset:
  "set (keep_candidates family hs) \<subseteq> hr_key ` {h \<in> set hs. family_of (hr_key h) = family}"
  unfolding keep_candidates_def using set_take_subset[of MAX_HEADS_PER_FAMILY
      "sort_key head_order (filter (\<lambda>h. family_of (hr_key h) = family) hs)"] by auto

lemma length_keep_candidates: "length (keep_candidates family hs) \<le> MAX_HEADS_PER_FAMILY"
  by (simp add: keep_candidates_def)

lemma prune_family_heads:
  assumes "distinct (map hr_key (cat_heads cat))"
  shows "head_count family (cat_heads (prune_fact_family family cat)) \<le> MAX_HEADS_PER_FAMILY"
proof -
  let ?out = "filter (\<lambda>h. family_of (hr_key h) = family) (cat_heads (prune_fact_family family cat))"
  have "set (map hr_key ?out) \<subseteq> set (keep_candidates family (cat_heads cat))"
    by (auto simp: prune_fact_family_def kept_def Let_def)
  then have "card (set (map hr_key ?out)) \<le> length (keep_candidates family (cat_heads cat))"
    by (meson card_length card_mono finite_set order_trans)
  moreover have "distinct (map hr_key ?out)"
    using assms by (simp add: prune_fact_family_def Let_def distinct_map_filter)
  ultimately show ?thesis
    using distinct_card[of "map hr_key ?out"] length_keep_candidates[of family "cat_heads cat"]
    by (simp add: head_count_def)
qed

lemma filter_twice_count: "length (filter P (filter Q xs)) \<le> length (filter P xs)"
  by (induction xs) auto

lemma prune_family_count: "head_count g (cat_heads (prune_fact_family f cat)) \<le> head_count g (cat_heads cat)"
  by (simp add: prune_fact_family_def Let_def head_count_def filter_twice_count del: filter_filter)

text \<open>A sweep of a family within its bound removes nothing, when no child row is without its head.\<close>

definition children_have_heads :: "catalog \<Rightarrow> bool" where
  "children_have_heads cat \<longleftrightarrow>
     (\<forall>(_, r) \<in> set (cat_receipts cat). rc_key r \<in> hr_key ` set (cat_heads cat)) \<and>
     (\<forall>(_, x) \<in> set (cat_conflicts cat). cx_key x \<in> hr_key ` set (cat_heads cat))"

lemma prune_family_noop:
  assumes "children_have_heads cat" and "head_count family (cat_heads cat) \<le> MAX_HEADS_PER_FAMILY"
  shows "prune_fact_family family cat = cat"
proof -
  let ?keep = "keep_candidates family (cat_heads cat)"
  have kept: "kept family ?keep c" if "c \<in> hr_key ` set (cat_heads cat)" for c
    using that keep_candidates_all[OF assms(2)] by (auto simp: kept_def)
  have "filter (\<lambda>(_, r). kept family ?keep (rc_key r)) (cat_receipts cat) = cat_receipts cat"
    "filter (\<lambda>(_, x). kept family ?keep (cx_key x)) (cat_conflicts cat) = cat_conflicts cat"
    "filter (\<lambda>h. kept family ?keep (hr_key h)) (cat_heads cat) = cat_heads cat"
    using assms(1) kept by (auto simp: children_have_heads_def intro!: filter_True)
  then show ?thesis by (simp add: prune_fact_family_def Let_def)
qed

lemma prune_family_children: "children_have_heads cat \<Longrightarrow> children_have_heads (prune_fact_family family cat)"
  by (fastforce simp: children_have_heads_def prune_fact_family_def Let_def)

lemma prune_if_full_eq: "children_have_heads cat \<Longrightarrow> prune_family_if_full family cat = prune_fact_family family cat"
  using prune_family_noop[of cat family] by (simp add: prune_family_if_full_def)

lemma fold_prune_if_full:
  "children_have_heads cat \<Longrightarrow> fold prune_family_if_full fs cat = fold prune_fact_family fs cat"
  by (induction fs arbitrary: cat) (simp_all add: prune_if_full_eq prune_family_children)

end
