(* ===== verification/Fact_Equivalence.thy ===== *)
theory Fact_Equivalence
  imports Fact_Retention
begin

text \<open>
  The set-wise reducer equals the row-wise reducer. The in-memory state of the set-wise fold represents
  the tables the row-wise loop has written (\<open>sim\<close>); every step keeps the representation, so the loops
  agree by the simulation locale, the bulk writes produce the same tables, and both prunings agree by
  the retention contract.
\<close>

subsection \<open>The representation\<close>

definition same_counters :: "loop \<Rightarrow> setwise \<Rightarrow> bool" where
  "same_counters lp sw \<longleftrightarrow> lp_alloc sw = lp_alloc lp \<and> lp_changed sw = lp_changed lp \<and>
     lp_duplicates sw = lp_duplicates lp \<and> lp_stale sw = lp_stale lp \<and> lp_conflicts sw = lp_conflicts lp \<and>
     lp_touched sw = lp_touched lp"

definition same_tables :: "catalog \<Rightarrow> catalog \<Rightarrow> setwise \<Rightarrow> bool" where
  "same_tables base cat sw \<longleftrightarrow>
     lp_cat sw = base\<lparr>cat_commit_seq := cat_commit_seq cat, cat_updated_at := cat_updated_at cat\<rparr> \<and>
     cat_heads cat = fold upsert (sw_pending_heads sw) (cat_heads base) \<and>
     cat_receipts cat = fold insert_row (sw_pending_receipts sw) (cat_receipts base) \<and>
     cat_conflicts cat = fold insert_row (sw_pending_conflicts sw) (cat_conflicts base) \<and>
     distinct (map hr_key (sw_pending_heads sw))"

definition same_index :: "candidate list \<Rightarrow> catalog \<Rightarrow> setwise \<Rightarrow> bool" where
  "same_index cs cat sw \<longleftrightarrow>
     (\<forall>c \<in> set cs. (\<forall>k. sw_dedupe_index sw c k = select_dedupe c k (cat_receipts cat)) \<and>
       (\<forall>k. sw_position_index sw c k = select_position c k (cat_receipts cat)) \<and>
       sw_head_index sw c = map_option view_of_head (select_head c (cat_heads cat)) \<and>
       (\<forall>p h. (c, p, h) \<in> set (sw_known_conflicts sw) \<longleftrightarrow> conflict_exists c p h (cat_conflicts cat)))"

definition fits :: "int option \<Rightarrow> bool" where
  "fits v \<longleftrightarrow> bind_int v = Inr v"

definition pending_fit :: "setwise \<Rightarrow> bool" where
  "pending_fit sw \<longleftrightarrow> (\<forall>v \<in> hr_source_seq ` set (sw_pending_heads sw) \<union> rc_source_seq ` set (sw_pending_receipts sw)
      \<union> cx_source_seq ` set (sw_pending_conflicts sw). fits v)"

definition sim :: "catalog \<Rightarrow> candidate list \<Rightarrow> loop \<Rightarrow> setwise \<Rightarrow> bool" where
  "sim base cs lp sw \<longleftrightarrow> same_counters lp sw \<and> same_tables base (lp_cat lp) sw \<and> same_index cs (lp_cat lp) sw \<and> pending_fit sw"

text \<open>The facts of the wire carry UTC times and sequence numbers that SQLite can store.\<close>

definition utc_fact :: "reducer_fact \<Rightarrow> bool" where
  "utc_fact f \<longleftrightarrow> (\<forall>d \<in> set_option (fc_observed_at f). dt_tz d = Some 0)"

definition storable :: "reducer_fact \<Rightarrow> bool" where
  "storable f \<longleftrightarrow> utc_fact f \<and> fits (fc_source_seq f)"

subsection \<open>Loading the indices\<close>

lemma fold_index_put:
  "fold (\<lambda>(_, r). index_put (key r) (col r) (val r)) t ix c k =
   (case find (\<lambda>(_, r). key r = c \<and> col r = k) (rev t) of Some (_, r) \<Rightarrow> Some (val r) | None \<Rightarrow> ix c k)"
proof (induction t arbitrary: ix)
  case (Cons row t)
  obtain i r where row: "row = (i, r)" by force
  have "index_put (key r) (col r) (val r) ix c k = (if key r = c \<and> col r = k then Some (val r) else ix c k)"
    by (simp add: index_put_def)
  then show ?case using Cons[of "index_put (key r) (col r) (val r) ix"] by (simp add: row find_append split: option.splits)
qed simp

lemma find_rev_unique:
  "distinct (map f t) \<Longrightarrow> (\<And>x y. P x \<Longrightarrow> P y \<Longrightarrow> f x = f y) \<Longrightarrow> find P (rev t) = find P t"
proof (induction t)
  case (Cons x t)
  show ?case
  proof (cases "P x")
    case True
    have "\<not> P y" if "y \<in> set t" for y
    proof
      assume "P y"
      then have "f y = f x" using Cons.prems(2) True by blast
      then show False using that Cons.prems(1) by (metis distinct.simps(2) imageI list.map(2) set_map)
    qed
    then have "find P (rev t) = None" by (simp add: find_None_iff)
    then show ?thesis using True by (simp add: find_append)
  next
    case False
    have "find P (rev t) = find P t" using Cons.prems(1) by (intro Cons.IH Cons.prems(2)) simp
    then show ?thesis using False by (simp add: find_append split: option.splits)
  qed
qed simp

lemma find_filter: "(\<And>x. P x \<Longrightarrow> Q x) \<Longrightarrow> find P (filter Q t) = find P t"
  by (induction t) auto

lemma load_unique:
  assumes "distinct (map (\<lambda>(_, r). (key r, col r)) t)" and "c \<in> C"
  shows "fold (\<lambda>(_, r). index_put (key r) (col r) (val r)) (filter (\<lambda>(_, r). key r \<in> C) t) (\<lambda>_ _. None) c k =
    map_option (val \<circ> snd) (find (\<lambda>(_, r). key r = c \<and> col r = k) t)"
proof -
  let ?P = "\<lambda>(_, r). key r = c \<and> col r = k" and ?t = "filter (\<lambda>(_, r). key r \<in> C) t"
  have "find ?P (rev ?t) = find ?P ?t"
    using assms(1) by (intro find_rev_unique[where f = "\<lambda>(_, r). (key r, col r)"]) (auto simp: distinct_map_filter)
  also have "\<dots> = find ?P t" using assms(2) by (intro find_filter) auto
  finally show ?thesis unfolding fold_index_put by (auto split: option.splits)
qed

lemma load_heads_select:
  assumes "distinct (map hr_key hs)" and "c \<in> set cs"
  shows "load_heads cs hs c = map_option view_of_head (select_head c hs)"
proof -
  have "fold (\<lambda>h ix. ix(hr_key h := Some (view_of_head h))) t ix c =
      (case find (\<lambda>h. hr_key h = c) (rev t) of Some h \<Rightarrow> Some (view_of_head h) | None \<Rightarrow> ix c)" for t ix
    by (induction t arbitrary: ix) (auto simp: find_append split: option.splits)
  moreover have "find (\<lambda>h. hr_key h = c) (rev (filter (\<lambda>h. hr_key h \<in> set cs) hs)) = select_head c hs"
    using assms find_rev_unique[of hr_key "filter (\<lambda>h. hr_key h \<in> set cs) hs" "\<lambda>h. hr_key h = c"]
      find_filter[of "\<lambda>h. hr_key h = c" "\<lambda>h. hr_key h \<in> set cs" hs]
    by (simp add: select_head_def distinct_map_filter)
  ultimately show ?thesis by (simp add: load_heads_def split: option.splits)
qed

lemma load_conflicts_mem: "c \<in> set cs \<Longrightarrow> (c, p, h) \<in> set (load_conflicts cs t) \<longleftrightarrow> conflict_exists c p h t"
  by (auto simp: load_conflicts_def conflict_exists_def list_ex_iff)

text \<open>What the database constraints promise: the unique keys of the tables.\<close>

definition unique_keys :: "catalog \<Rightarrow> bool" where
  "unique_keys cat \<longleftrightarrow> distinct (map hr_key (cat_heads cat)) \<and>
     distinct (map fst (cat_receipts cat)) \<and> distinct (map fst (cat_conflicts cat)) \<and>
     distinct (map (\<lambda>(_, r). (rc_key r, rc_dedupe_key r)) (cat_receipts cat)) \<and>
     distinct (map (\<lambda>(_, r). (rc_key r, rc_position_key r)) (cat_receipts cat)) \<and>
     distinct (map (\<lambda>(_, x). (cx_key x, cx_position_key x, cx_incoming_hash x)) (cat_conflicts cat))"

lemma sim_start: "unique_keys cat \<Longrightarrow> sim cat cs (start_loop cat d) (start_setwise cs cat d)"
  by (simp add: sim_def same_counters_def same_tables_def same_index_def pending_fit_def start_setwise_def
      start_loop_def loop.extend_def load_heads_select load_conflicts_mem unique_keys_def
      load_dedupe_def load_position_def select_dedupe_def select_position_def load_unique)

subsection \<open>Steps\<close>

lemma view_of_head_simps [simp]:
  "hv_ordering_mode (view_of_head h) = hr_ordering_mode h" "hv_source_seq (view_of_head h) = hr_source_seq h"
  "hv_evidence_hash (view_of_head h) = hr_evidence_hash h"
  "hv_observed_at (view_of_head h) = map_option UTC (hr_observed_at h)"
  by (simp_all add: view_of_head_def)

lemma head_verdict_view: "setwise_head_verdict f (view_of_head h) = rowwise_head_verdict f h"
  unfolding setwise_head_verdict_def rowwise_head_verdict_def view_of_head_simps by (rule refl)

lemma verdict_sim:
  "sim base cs lp sw \<Longrightarrow> candidate_key f \<in> set cs \<Longrightarrow> setwise_verdict sw f pos = rowwise_verdict (lp_cat lp) f pos"
  by (simp add: sim_def same_index_def setwise_verdict_def rowwise_verdict_def head_verdict_view split: option.splits)

lemma commit_sim:
  assumes "sim base cs lp sw"
  obtains n lp' sw' where "commit_seq env lp = (n, lp')" "commit_seq env sw = (n, sw')" "sim base cs lp' sw'"
    "cat_conflicts (lp_cat lp') = cat_conflicts (lp_cat lp)" "cat_receipts (lp_cat lp') = cat_receipts (lp_cat lp)"
    "cat_heads (lp_cat lp') = cat_heads (lp_cat lp)"
    "sw_known_conflicts sw' = sw_known_conflicts sw" "sw_pending_conflicts sw' = sw_pending_conflicts sw"
proof -
  have tables: "lp_alloc sw = lp_alloc lp" "cat_commit_seq (lp_cat sw) = cat_commit_seq (lp_cat lp)"
    using assms by (simp_all add: sim_def same_counters_def same_tables_def)
  show thesis
  proof (cases "lp_alloc lp")
    case (Some n)
    then show ?thesis using that assms tables by (simp add: commit_seq_def)
  next
    case None
    show ?thesis
    proof (cases "ev_override env")
      case (Some n)
      then show ?thesis
        using that[of n "lp\<lparr>lp_alloc := Some n\<rparr>" "sw\<lparr>lp_alloc := Some n\<rparr>"] assms tables None
        by (simp add: commit_seq_def sim_def same_counters_def same_tables_def same_index_def pending_fit_def)
    next
      case no: None
      let ?n = "cat_commit_seq (lp_cat lp) + 1" and ?u = "iso_with_sep ''T'' (DT (utc_us (ev_received_at env)) (Some 0))"
      show ?thesis
        using that[of ?n "lp\<lparr>lp_alloc := Some ?n, lp_cat := (lp_cat lp)\<lparr>cat_commit_seq := ?n, cat_updated_at := ?u\<rparr>\<rparr>"
            "sw\<lparr>lp_alloc := Some ?n, lp_cat := (lp_cat sw)\<lparr>cat_commit_seq := ?n, cat_updated_at := ?u\<rparr>\<rparr>"] assms tables None no
        by (simp add: commit_seq_def advance_commit_seq_def Let_def sim_def same_counters_def same_tables_def
            same_index_def pending_fit_def)
    qed
  qed
qed

lemma touch_sim: "sim base cs lp sw \<Longrightarrow> sim base cs (touch c lp) (touch c sw)"
  by (simp add: sim_def same_counters_def same_tables_def same_index_def pending_fit_def touch_def)

lemma counters_sim:
  "sim base cs lp sw \<Longrightarrow> sim base cs (add_duplicate lp) (add_duplicate sw)"
  "sim base cs lp sw \<Longrightarrow> sim base cs (add_stale lp) (add_stale sw)"
  by (simp_all add: sim_def same_counters_def same_tables_def same_index_def pending_fit_def
      add_duplicate_def add_stale_def)

lemma conflict_sim:
  assumes s: "sim base cs lp sw" and c: "candidate_key f \<in> set cs" and fit: "fits (fc_source_seq f)"
  shows "\<exists>lp'. record_conflict env f ex pos kind lp = Inr lp' \<and> sim base cs lp' (note_conflict env f ex pos kind sw)"
proof -
  have known: "(candidate_key f, pos, fc_evidence_hash f) \<in> set (sw_known_conflicts sw) \<longleftrightarrow>
      conflict_exists (candidate_key f) pos (fc_evidence_hash f) (cat_conflicts (lp_cat lp))"
    using s c by (simp add: sim_def same_index_def)
  show ?thesis
  proof (cases "conflict_exists (candidate_key f) pos (fc_evidence_hash f) (cat_conflicts (lp_cat lp))")
    case True
    then show ?thesis using s known by (simp add: record_conflict_def note_conflict_def)
  next
    case False
    obtain n lp1 sw1 where cs1: "commit_seq env lp = (n, lp1)" "commit_seq env sw = (n, sw1)" "sim base cs lp1 sw1"
      by (rule commit_sim[OF s])
    have bind: "bind_int (fc_source_seq f) = Inr (fc_source_seq f)" using fit by (simp add: fits_def)
    let ?x = "conflict_values env f ex pos kind n"
    let ?lp = "lp1\<lparr>lp_cat := (lp_cat lp1)\<lparr>cat_conflicts := insert_row ?x (cat_conflicts (lp_cat lp1))\<rparr>,
        lp_conflicts := lp_conflicts lp1 + 1\<rparr>"
    have "record_conflict env f ex pos kind lp = Inr ?lp"
      using False by (simp add: record_conflict_def cs1 bind)
    moreover have "sim base cs ?lp (note_conflict env f ex pos kind sw)"
      using False cs1 known fit
      by (simp add: note_conflict_def sim_def same_counters_def same_tables_def same_index_def pending_fit_def
          conflict_exists_insert conflict_values_def)
    ultimately show ?thesis by blast
  qed
qed

lemma rowwise_accept_only_new:
  "rowwise_verdict cat f pos = Inr Accept \<Longrightarrow>
   select_dedupe (candidate_key f) (fc_dedupe_key f) (cat_receipts cat) = None \<and>
   select_position (candidate_key f) pos (cat_receipts cat) = None"
  by (auto simp: rowwise_verdict_def same_or_conflict_def split: option.splits if_splits)

lemma view_of_stored: "utc_fact f \<Longrightarrow> view_of_head (head_values env f j n) = view_of_fact f"
  by (cases "fc_observed_at f") (simp_all add: view_of_head_def head_values_def view_of_fact_def utc_fact_def aware_us_def)

lemma accept_sim:
  assumes s: "sim base cs lp sw" and c: "candidate_key f \<in> set cs" and ok: "storable f"
    and v: "rowwise_verdict (lp_cat lp) f pos = Inr Accept"
  shows "\<exists>lp'. rowwise_accept env f j pos lp = Inr lp' \<and> sim base cs lp' (setwise_accept env f j pos sw)"
proof -
  obtain n lp1 sw1 where cs1: "commit_seq env lp = (n, lp1)" "commit_seq env sw = (n, sw1)" "sim base cs lp1 sw1"
    and rc: "cat_receipts (lp_cat lp1) = cat_receipts (lp_cat lp)"
    by (rule commit_sim[OF s])
  let ?h = "head_values env f j n" and ?r = "receipt_values env f pos n" and ?c = "candidate_key f"
  have bind: "bind_int (fc_source_seq f) = Inr (fc_source_seq f)" and fit: "fits (fc_source_seq f)"
    using ok by (simp_all add: storable_def fits_def)
  have key: "hr_key ?h = ?c" "rc_key ?r = ?c" "rc_dedupe_key ?r = fc_dedupe_key f" "rc_position_key ?r = pos"
    "rc_evidence_hash ?r = fc_evidence_hash f" "hr_source_seq ?h = fc_source_seq f" "rc_source_seq ?r = fc_source_seq f"
    by (simp_all add: head_values_def receipt_values_def)
  have none: "select_dedupe (rc_key ?r) (rc_dedupe_key ?r) (cat_receipts (lp_cat lp1)) = None"
    "select_position (rc_key ?r) (rc_position_key ?r) (cat_receipts (lp_cat lp1)) = None"
    using rowwise_accept_only_new[OF v] by (simp_all add: key rc)
  let ?lp = "lp1\<lparr>lp_cat := (lp_cat lp1)\<lparr>cat_heads := upsert ?h (cat_heads (lp_cat lp1)),
      cat_receipts := insert_row ?r (cat_receipts (lp_cat lp1))\<rparr>, lp_changed := lp_changed lp1 + 1\<rparr>"
  let ?sw = "sw1\<lparr>sw_pending_heads := upsert ?h (sw_pending_heads sw1),
      sw_pending_receipts := sw_pending_receipts sw1 @ [?r],
      sw_dedupe_index := index_put ?c (fc_dedupe_key f) (fc_evidence_hash f) (sw_dedupe_index sw1),
      sw_position_index := index_put ?c pos (fc_evidence_hash f) (sw_position_index sw1),
      sw_head_index := (sw_head_index sw1)(?c := Some (view_of_fact f)), lp_changed := lp_changed sw1 + 1\<rparr>"
  have utc: "utc_fact f" using ok by (simp add: storable_def)
  have "same_counters ?lp ?sw" using cs1(3) by (simp add: sim_def same_counters_def)
  moreover have "same_tables base (lp_cat ?lp) ?sw"
    using cs1(3) by (simp add: sim_def same_tables_def fold_upsert_upsert upsert_distinct)
  moreover have "same_index cs (lp_cat ?lp) ?sw"
    using cs1(3) none
    by (auto simp: sim_def same_index_def select_dedupe_insert select_position_insert select_upsert key
        index_put_def view_of_stored[OF utc])
  moreover have "pending_fit ?sw"
    using cs1(3) fit by (auto simp: sim_def pending_fit_def key upsert_def split: if_splits)
  ultimately have "sim base cs ?lp ?sw" by (simp add: sim_def)
  moreover have "rowwise_accept env f j pos lp = Inr (touch ?c ?lp)"
    "setwise_accept env f j pos sw = touch ?c ?sw"
    by (simp_all add: rowwise_accept_def setwise_accept_def cs1 bind Let_def)
  ultimately show ?thesis using touch_sim by auto
qed

definition step_ok :: "candidate list \<Rightarrow> reducer_fact \<times> string \<Rightarrow> bool" where
  "step_ok cs fj \<longleftrightarrow> candidate_key (fst fj) \<in> set cs \<and> storable (fst fj)"

lemma step_sim:
  assumes ok: "step_ok cs fj" and s: "sim base cs lp sw"
  shows "rel_sum (=) (sim base cs) (rowwise_step env fj lp) (setwise_step env fj sw)"
proof -
  obtain f j where fj: "fj = (f, j)" by force
  have c: "candidate_key f \<in> set cs" and st: "storable f" using ok fj by (simp_all add: step_ok_def)
  show ?thesis
  proof (cases "position_key (ev_lib env) f")
    case (Inl e)
    then show ?thesis by (simp add: rowwise_step_def setwise_step_def fj)
  next
    case (Inr pos)
    show ?thesis
    proof (cases "rowwise_verdict (lp_cat lp) f pos")
      case (Inl e)
      then show ?thesis using verdict_sim[OF s c] Inr by (simp add: rowwise_step_def setwise_step_def fj)
    next
      case v: (Inr v)
      note steps = rowwise_step_def setwise_step_def fj Inr v verdict_sim[OF s c]
      show ?thesis
      proof (cases v)
        case Accept
        then show ?thesis using accept_sim[OF s c st, of pos env j] v steps by auto
      next
        case Stale
        then show ?thesis using counters_sim[OF s] by (simp add: steps)
      next
        case Duplicate
        then show ?thesis using counters_sim[OF s] by (simp add: steps)
      next
        case (Conflict ex kind)
        obtain lp' where "record_conflict env f ex pos kind lp = Inr lp'"
          "sim base cs lp' (note_conflict env f ex pos kind sw)"
          using conflict_sim[OF s c, of env ex pos kind] st by (auto simp: storable_def)
        then show ?thesis using Conflict touch_sim by (simp add: steps)
      qed
    qed
  qed
qed

definition conflict_ok :: "candidate list \<Rightarrow> reducer_fact \<times> reducer_fact \<Rightarrow> bool" where
  "conflict_ok cs wi \<longleftrightarrow> candidate_key (snd wi) \<in> set cs \<and> fits (fc_source_seq (snd wi))"

lemma batch_conflict_sim:
  assumes ok: "conflict_ok cs wi" and s: "sim base cs lp sw"
  shows "rel_sum (=) (sim base cs) (rowwise_batch_conflict env wi lp) (setwise_batch_conflict env wi sw)"
proof -
  obtain w f where wi: "wi = (w, f)" by force
  show ?thesis
  proof (cases "position_key (ev_lib env) f")
    case (Inl e)
    then show ?thesis by (simp add: rowwise_batch_conflict_def setwise_batch_conflict_def wi)
  next
    case (Inr pos)
    obtain lp' where "record_conflict env f (fc_evidence_hash w) pos ''same_batch_position_reuse'' lp = Inr lp'"
      "sim base cs lp' (note_conflict env f (fc_evidence_hash w) pos ''same_batch_position_reuse'' sw)"
      using conflict_sim[OF s, of f env "fc_evidence_hash w" pos "''same_batch_position_reuse''"] ok
      by (auto simp: conflict_ok_def wi)
    then show ?thesis
      using touch_sim Inr by (simp add: rowwise_batch_conflict_def setwise_batch_conflict_def wi)
  qed
qed

text \<open>The two loops of the reducers, as instances of the simulation of loops.\<close>

interpretation fold_sim: loop_simulation "sim base cs" "rowwise_step env" "setwise_step env" "step_ok cs"
  for base cs env
  by unfold_locales (rule step_sim)

interpretation batch_sim: loop_simulation "sim base cs" "rowwise_batch_conflict env" "setwise_batch_conflict env" "conflict_ok cs"
  for base cs env
  by unfold_locales (rule batch_conflict_sim)

end
