(* ===== verification/Fact_Invariants.thy ===== *)
theory Fact_Invariants
  imports Fact_Equivalence
begin

text \<open>
  The invariant of the fact tables (unique keys, no child row without its head, sequenced heads carry
  a sequence number and no others do), its preservation by every step of the row-wise reducer, what a step may change
  (\<open>frame\<close>), and the shape of a prepared batch.
\<close>

definition heads_typed :: "catalog \<Rightarrow> bool" where
  "heads_typed cat \<longleftrightarrow> (\<forall>h \<in> set (cat_heads cat). hr_ordering_mode h = ''sequenced'' \<longleftrightarrow> hr_source_seq h \<noteq> None)"

definition wf_catalog :: "catalog \<Rightarrow> bool" where
  "wf_catalog cat \<longleftrightarrow> unique_keys cat \<and> children_have_heads cat \<and> heads_typed cat"

definition head_keys :: "catalog \<Rightarrow> candidate set" where
  "head_keys cat = hr_key ` set (cat_heads cat)"

definition loop_inv :: "loop \<Rightarrow> bool" where
  "loop_inv lp \<longleftrightarrow> wf_catalog (lp_cat lp) \<and> distinct (lp_touched lp)"

subsection \<open>Writes keep the invariant\<close>

lemma select_dedupe_None:
  "select_dedupe c k t = None \<longleftrightarrow> (c, k) \<notin> set (map (\<lambda>(_, r). (rc_key r, rc_dedupe_key r)) t)"
  by (force simp: select_dedupe_def find_None_iff)

lemma select_position_None:
  "select_position c k t = None \<longleftrightarrow> (c, k) \<notin> set (map (\<lambda>(_, r). (rc_key r, rc_position_key r)) t)"
  by (force simp: select_position_def find_None_iff)

lemma conflict_exists_iff:
  "conflict_exists c p h t \<longleftrightarrow>
   (c, p, h) \<in> set (map (\<lambda>(_, x). (cx_key x, cx_position_key x, cx_incoming_hash x)) t)"
  by (force simp: conflict_exists_def list_ex_iff)

lemma wf_add_conflict:
  assumes "wf_catalog cat" and "cx_key x \<in> head_keys cat"
    and "\<not> conflict_exists (cx_key x) (cx_position_key x) (cx_incoming_hash x) (cat_conflicts cat)"
  shows "wf_catalog (cat\<lparr>cat_conflicts := insert_row x (cat_conflicts cat)\<rparr>)"
  using assms insert_row_distinct[of "cat_conflicts cat" x]
  by (auto simp: wf_catalog_def unique_keys_def children_have_heads_def heads_typed_def head_keys_def
      insert_row_def conflict_exists_iff)

lemma wf_accept:
  assumes wf: "wf_catalog cat" and key: "rc_key r = hr_key h"
    and "select_dedupe (rc_key r) (rc_dedupe_key r) (cat_receipts cat) = None"
    and "select_position (rc_key r) (rc_position_key r) (cat_receipts cat) = None"
    and typed: "hr_ordering_mode h = ''sequenced'' \<longleftrightarrow> hr_source_seq h \<noteq> None"
  shows "wf_catalog (cat\<lparr>cat_heads := upsert h (cat_heads cat), cat_receipts := insert_row r (cat_receipts cat)\<rparr>)"
proof -
  let ?cat = "cat\<lparr>cat_heads := upsert h (cat_heads cat), cat_receipts := insert_row r (cat_receipts cat)\<rparr>"
  have "unique_keys ?cat"
    using wf assms(3,4) insert_row_distinct[of "cat_receipts cat" r]
    by (auto simp: wf_catalog_def unique_keys_def upsert_distinct select_dedupe_None select_position_None insert_row_def)
  moreover have "children_have_heads ?cat"
    using wf key by (auto simp: wf_catalog_def children_have_heads_def upsert_keys insert_row_def)
  moreover have "heads_typed ?cat"
    using wf typed by (auto simp: wf_catalog_def heads_typed_def upsert_def split: if_splits)
  ultimately show ?thesis by (simp add: wf_catalog_def)
qed

lemma commit_seq_cat:
  assumes "commit_seq env lp = (n, lp')"
  shows "cat_heads (lp_cat lp') = cat_heads (lp_cat lp)" "cat_receipts (lp_cat lp') = cat_receipts (lp_cat lp)"
    "cat_conflicts (lp_cat lp') = cat_conflicts (lp_cat lp)" "lp_touched lp' = lp_touched lp"
    "lp_changed lp' = lp_changed lp" "lp_duplicates lp' = lp_duplicates lp" "lp_stale lp' = lp_stale lp"
    "lp_conflicts lp' = lp_conflicts lp" "lp_alloc lp' = Some n"
  using assms by (auto simp: commit_seq_def advance_commit_seq_def Let_def split: option.splits)

lemma wf_commit: "wf_catalog (lp_cat lp) \<Longrightarrow> commit_seq env lp = (n, lp') \<Longrightarrow> wf_catalog (lp_cat lp')"
  using commit_seq_cat[of env lp n lp']
  by (simp add: wf_catalog_def unique_keys_def children_have_heads_def heads_typed_def)

text \<open>Every outcome but acceptance meets a candidate that has a head.\<close>

lemma verdict_has_head:
  assumes "wf_catalog cat" and "rowwise_verdict cat f pos = Inr v" and "v \<noteq> Accept"
  shows "candidate_key f \<in> head_keys cat"
proof -
  have child: "\<And>i r. (i, r) \<in> set (cat_receipts cat) \<Longrightarrow> rc_key r \<in> head_keys cat"
    using assms(1) by (auto simp: wf_catalog_def children_have_heads_def head_keys_def)
  show ?thesis
  proof (cases "select_dedupe (candidate_key f) (fc_dedupe_key f) (cat_receipts cat)")
    case (Some h)
    then show ?thesis using child by (auto simp: select_dedupe_def find_Some_iff) (metis nth_mem)
  next
    case no_dedupe: None
    show ?thesis
    proof (cases "select_position (candidate_key f) pos (cat_receipts cat)")
      case (Some h)
      then show ?thesis using child by (auto simp: select_position_def find_Some_iff) (metis nth_mem)
    next
      case None
      then have "select_head (candidate_key f) (cat_heads cat) \<noteq> None"
        using assms(2,3) no_dedupe
        by (cases "select_head (candidate_key f) (cat_heads cat)") (simp_all add: rowwise_verdict_def)
      then show ?thesis by (simp add: select_head_None head_keys_def)
    qed
  qed
qed

subsection \<open>Steps\<close>

text \<open>
  The outcome of recording a conflict: nothing, or one new conflict row of the candidate under an
  allocated commit.
\<close>

lemma record_conflict_cases:
  assumes "record_conflict env f ex pos kind lp = Inr lp'"
  obtains (known) "lp' = lp"
      "conflict_exists (candidate_key f) pos (fc_evidence_hash f) (cat_conflicts (lp_cat lp))"
    | (new) n lp1 where "commit_seq env lp = (n, lp1)"
      "\<not> conflict_exists (candidate_key f) pos (fc_evidence_hash f) (cat_conflicts (lp_cat lp))"
      "lp' = lp1\<lparr>lp_cat := (lp_cat lp1)\<lparr>cat_conflicts :=
          insert_row (conflict_values env f ex pos kind n) (cat_conflicts (lp_cat lp1))\<rparr>,
        lp_conflicts := lp_conflicts lp1 + 1\<rparr>"
  using assms by (auto simp: record_conflict_def split: if_splits prod.splits)

lemma record_conflict_inv:
  assumes "record_conflict env f ex pos kind lp = Inr lp'" and "loop_inv lp" and "candidate_key f \<in> head_keys (lp_cat lp)"
  shows "loop_inv lp' \<and> cat_heads (lp_cat lp') = cat_heads (lp_cat lp)"
  using assms(1)
proof (cases rule: record_conflict_cases)
  case known
  then show ?thesis using assms by simp
next
  case (new n lp1)
  have "wf_catalog (lp_cat lp1)" using assms(2) new(1) wf_commit by (auto simp: loop_inv_def)
  then show ?thesis
    using assms(2,3) new wf_add_conflict[of "lp_cat lp1" "conflict_values env f ex pos kind n"] commit_seq_cat[OF new(1)]
    by (simp add: loop_inv_def head_keys_def conflict_values_def)
qed

lemma accept_inv:
  assumes "rowwise_accept env f j pos lp = Inr lp'" and "loop_inv lp" and "rowwise_verdict (lp_cat lp) f pos = Inr Accept"
  shows "loop_inv lp' \<and> head_keys (lp_cat lp') = insert (candidate_key f) (head_keys (lp_cat lp))"
proof -
  obtain n lp1 where c: "commit_seq env lp = (n, lp1)" by force
  let ?h = "head_values env f j n" and ?r = "receipt_values env f pos n"
  have lp': "lp' = touch (candidate_key f) (lp1\<lparr>lp_cat := (lp_cat lp1)\<lparr>cat_heads := upsert ?h (cat_heads (lp_cat lp1)),
      cat_receipts := insert_row ?r (cat_receipts (lp_cat lp1))\<rparr>, lp_changed := lp_changed lp1 + 1\<rparr>)"
    using assms(1) by (auto simp: rowwise_accept_def c)
  have "wf_catalog (lp_cat lp')"
    using wf_accept[of "lp_cat lp1" ?r ?h] wf_commit[OF _ c] assms(2) rowwise_accept_only_new[OF assms(3)] commit_seq_cat[OF c]
    by (simp add: lp' touch_def loop_inv_def receipt_values_def head_values_def ordering_mode_def)
  then show ?thesis
    using assms(2) commit_seq_cat[OF c]
    by (simp add: lp' touch_def loop_inv_def head_keys_def upsert_keys) (simp add: head_values_def)
qed

lemma touch_inv: "loop_inv lp \<Longrightarrow> loop_inv (touch c lp)" "lp_cat (touch c lp) = lp_cat lp"
  by (simp_all add: loop_inv_def touch_def)

lemma step_inv:
  assumes "rowwise_step env (f, j) lp = Inr lp'" and inv: "loop_inv lp"
  shows "loop_inv lp' \<and> head_keys (lp_cat lp) \<subseteq> head_keys (lp_cat lp') \<and> candidate_key f \<in> head_keys (lp_cat lp')"
proof -
  obtain pos v where v: "rowwise_verdict (lp_cat lp) f pos = Inr v"
    and step: "(case v of Duplicate \<Rightarrow> Inr (add_duplicate lp) | Stale \<Rightarrow> Inr (add_stale lp)
       | Conflict ex kind \<Rightarrow> bindR (record_conflict env f ex pos kind lp) (\<lambda>lp1. Inr (touch (candidate_key f) lp1))
       | Accept \<Rightarrow> rowwise_accept env f j pos lp) = Inr lp'"
    using assms(1) by (auto simp: rowwise_step_def)
  show ?thesis
  proof (cases v)
    case Accept
    then show ?thesis using accept_inv[OF _ inv, of env f j pos lp'] v step by auto
  next
    case (Conflict ex kind)
    have "candidate_key f \<in> head_keys (lp_cat lp)"
      using verdict_has_head[OF _ v] inv Conflict by (simp add: loop_inv_def)
    then show ?thesis
      using step Conflict record_conflict_inv[OF _ inv] by (auto simp: head_keys_def touch_inv)
  next
    case Stale
    then show ?thesis
      using step verdict_has_head[OF _ v] inv by (auto simp: loop_inv_def add_stale_def)
  next
    case Duplicate
    then show ?thesis
      using step verdict_has_head[OF _ v] inv by (auto simp: loop_inv_def add_duplicate_def)
  qed
qed

lemma fold_steps_inv:
  assumes "foldR (rowwise_step env) ps lp = Inr lp'" and "loop_inv lp"
  shows "loop_inv lp' \<and> head_keys (lp_cat lp) \<subseteq> head_keys (lp_cat lp') \<and>
    (\<lambda>(f, _). candidate_key f) ` set ps \<subseteq> head_keys (lp_cat lp')"
  using assms
proof (induction ps arbitrary: lp)
  case (Cons p ps)
  obtain f j where p: "p = (f, j)" by force
  obtain mid where mid: "rowwise_step env (f, j) lp = Inr mid" "foldR (rowwise_step env) ps mid = Inr lp'"
    using Cons.prems p by auto
  show ?case using step_inv[OF mid(1)] Cons.IH[OF mid(2)] Cons.prems(2) p by auto
qed simp

lemma fold_conflicts_inv:
  assumes "foldR (rowwise_batch_conflict env) bs lp = Inr lp'" and "loop_inv lp"
    and "(\<lambda>(_, i). candidate_key i) ` set bs \<subseteq> head_keys (lp_cat lp)"
  shows "loop_inv lp' \<and> cat_heads (lp_cat lp') = cat_heads (lp_cat lp)"
  using assms
proof (induction bs arbitrary: lp)
  case (Cons b bs)
  obtain w i where b: "b = (w, i)" by force
  obtain nxt where nxt: "rowwise_batch_conflict env (w, i) lp = Inr nxt"
    "foldR (rowwise_batch_conflict env) bs nxt = Inr lp'"
    using Cons.prems(1) by (auto simp: b)
  obtain pos mid where mid:
    "record_conflict env i (fc_evidence_hash w) pos ''same_batch_position_reuse'' lp = Inr mid"
    "foldR (rowwise_batch_conflict env) bs (touch (candidate_key i) mid) = Inr lp'"
    using nxt by (auto simp: rowwise_batch_conflict_def[of env "(w, i)"])
  have m: "loop_inv mid \<and> cat_heads (lp_cat mid) = cat_heads (lp_cat lp)"
    using record_conflict_inv[OF mid(1)] Cons.prems by (auto simp: b)
  then show ?case
    using Cons.IH[OF mid(2)] Cons.prems(3) by (auto simp: touch_inv head_keys_def)
qed simp

subsection \<open>Pruning\<close>

lemma fold_prune_children:
  "fold (\<lambda>c cat. cat\<lparr>cat_receipts := P c (cat_receipts cat), cat_conflicts := Q c (cat_conflicts cat)\<rparr>) cs cat =
   cat\<lparr>cat_receipts := fold P cs (cat_receipts cat), cat_conflicts := fold Q cs (cat_conflicts cat)\<rparr>"
  by (induction cs arbitrary: cat) simp_all

lemma wf_filter:
  "wf_catalog cat \<Longrightarrow>
   wf_catalog (cat\<lparr>cat_receipts := filter P (cat_receipts cat), cat_conflicts := filter Q (cat_conflicts cat)\<rparr>)"
  by (simp add: wf_catalog_def unique_keys_def children_have_heads_def heads_typed_def distinct_map_filter)

lemma wf_prune_candidates:
  assumes wf: "wf_catalog cat" and d: "distinct cs"
  shows "wf_catalog (cat\<lparr>cat_receipts := fold (prune_candidate_rows rc_key MAX_RECEIPTS_PER_CANDIDATE) cs (cat_receipts cat),
     cat_conflicts := fold (prune_candidate_rows cx_key MAX_CONFLICTS_PER_CANDIDATE) cs (cat_conflicts cat)\<rparr>)"
proof -
  have ids: "distinct (map fst (cat_receipts cat))" "distinct (map fst (cat_conflicts cat))"
    using wf by (simp_all add: wf_catalog_def unique_keys_def)
  show ?thesis by (simp add: fold_prune_spec[OF d] ids wf_filter[OF wf])
qed

lemma wf_prune_family: "wf_catalog cat \<Longrightarrow> wf_catalog (prune_fact_family family cat)"
  using prune_family_children[of cat family]
  by (auto simp: wf_catalog_def unique_keys_def heads_typed_def prune_fact_family_def Let_def distinct_map_filter)

lemma wf_prune_families: "wf_catalog cat \<Longrightarrow> wf_catalog (fold prune_fact_family fs cat)"
  by (induction fs arbitrary: cat) (simp_all add: wf_prune_family)

lemma wf_rowwise_prune: "wf_catalog cat \<Longrightarrow> distinct cs \<Longrightarrow> wf_catalog (rowwise_prune cs cat)"
  unfolding rowwise_prune_def fold_prune_children by (intro wf_prune_families wf_prune_candidates)

lemma prunes_agree:
  assumes "wf_catalog cat" and "distinct cs"
  shows "setwise_prune cs cat = rowwise_prune cs cat"
proof -
  let ?cat = "cat\<lparr>cat_receipts := fold (prune_candidate_rows rc_key MAX_RECEIPTS_PER_CANDIDATE) cs (cat_receipts cat),
     cat_conflicts := fold (prune_candidate_rows cx_key MAX_CONFLICTS_PER_CANDIDATE) cs (cat_conflicts cat)\<rparr>"
  have ids: "distinct (map fst (cat_receipts cat))" "distinct (map fst (cat_conflicts cat))"
    using assms(1) by (simp_all add: wf_catalog_def unique_keys_def)
  have "children_have_heads ?cat"
    using wf_prune_candidates[OF assms] by (simp add: wf_catalog_def)
  then show ?thesis
    unfolding setwise_prune_def rowwise_prune_def fold_prune_children Let_def
    by (simp add: fold_prune_if_full[symmetric] prune_routines_agree[where cs' = "sort cs", OF _ assms(2) ids(1)]
        prune_routines_agree[where cs' = "sort cs", OF _ assms(2) ids(2)])
qed

subsection \<open>The shape of a prepared batch\<close>

text \<open>Every group holds validated facts of its candidate and position, under their own hashes.\<close>

definition group_ok :: "pylib \<Rightarrow> reducer_fact list \<Rightarrow> group_key \<times> (string \<times> reducer_fact) list \<Rightarrow> bool" where
  "group_ok lib facts g \<longleftrightarrow> snd g \<noteq> [] \<and> distinct (map fst (snd g)) \<and>
     (\<forall>(h, f) \<in> set (snd g). f \<in> set facts \<and> fc_evidence_hash f = h \<and> validate_fact lib f = Inr f \<and>
        candidate_key f = fst (fst g) \<and> position_key lib f = Inr (snd (fst g)))"

definition groups_ok :: "pylib \<Rightarrow> reducer_fact list \<Rightarrow> groups \<Rightarrow> bool" where
  "groups_ok lib facts gs \<longleftrightarrow> distinct (map fst gs) \<and> (\<forall>g \<in> set gs. group_ok lib facts g)"

lemma validate_fact_same: "validate_fact lib f = Inr g \<Longrightarrow> g = f"
  by (auto simp: validate_fact_def)

lemma set_update_subset: "set (AList.update k v xs) \<subseteq> insert (k, v) (set xs)"
  by (induction xs) auto

lemma groups_ok_update:
  assumes "groups_ok lib facts gs" and "group_ok lib facts (k, vs)"
  shows "groups_ok lib facts (AList.update k vs gs)"
proof -
  have "group_ok lib facts g" if "g \<in> set (AList.update k vs gs)" for g
    using subsetD[OF set_update_subset that] assms by (auto simp: groups_ok_def simp del: split_paired_All)
  then show ?thesis using assms(1) by (simp add: groups_ok_def distinct_update)
qed

lemma group_fact_ok:
  assumes "group_fact lib f st = Inr st'" and "f \<in> set facts" and ok: "groups_ok lib facts (fst st)"
  shows "groups_ok lib facts (fst st')"
proof -
  obtain pos where v: "validate_fact lib f = Inr f" "position_key lib f = Inr pos"
    using assms(1) validate_fact_same by (fastforce simp: group_fact_def)
  let ?k = "(candidate_key f, pos)" and ?vs = "group_values (fst st) (candidate_key f, pos)"
  have vs: "distinct (map fst ?vs) \<and> (\<forall>(h, g) \<in> set ?vs. g \<in> set facts \<and> fc_evidence_hash g = h \<and>
      validate_fact lib g = Inr g \<and> candidate_key g = candidate_key f \<and> position_key lib g = Inr pos)"
  proof (cases "map_of (fst st) ?k")
    case (Some w)
    then have "group_ok lib facts (?k, w)" using ok by (auto simp: groups_ok_def dest: map_of_SomeD)
    then show ?thesis using Some by (simp add: group_values_def group_ok_def)
  qed (simp add: group_values_def)
  show ?thesis
  proof (cases "fc_evidence_hash f \<in> fst ` set ?vs")
    case True
    then show ?thesis using assms v by (auto simp: group_fact_def Let_def)
  next
    case False
    let ?new = "AList.update ?k (?vs @ [(fc_evidence_hash f, f)]) (fst st)"
    have "st' = (?new, snd st)" using assms(1) v False by (simp add: group_fact_def Let_def)
    moreover have "group_ok lib facts (?k, ?vs @ [(fc_evidence_hash f, f)])"
      using vs False v assms(2) by (auto simp: group_ok_def)
    ultimately show ?thesis using groups_ok_update[OF ok] by simp
  qed
qed

lemma group_facts_ok:
  assumes "foldR (group_fact lib) facts ([], 0) = Inr st"
  shows "groups_ok lib facts (fst st)"
  by (rule foldR_invariant[OF assms]) (auto simp: groups_ok_def[of _ _ "[]"] intro: group_fact_ok)

lemma group_order_set: "set (group_order vs) = snd ` set vs"
  by (simp add: group_order_def)

lemma finish_group_ok:
  assumes "finish_group lib g = Inr ((w, j), bs)" and "group_ok lib facts g"
  shows "w \<in> set facts \<and> validate_fact lib w = Inr w \<and> canonical_value_json lib (fc_value w) = Inr j \<and>
    position_key lib w = Inr (snd (fst g)) \<and>
    (\<forall>(w', i) \<in> set bs. w' = w \<and> i \<in> set facts \<and> candidate_key i = candidate_key w \<and>
       position_key lib i = Inr (snd (fst g)))"
proof -
  have ne: "group_order (snd g) \<noteq> []"
    using assms(2) by (metis group_ok_def group_order_set image_is_empty set_empty)
  have all: "f \<in> set facts \<and> validate_fact lib f = Inr f \<and> candidate_key f = fst (fst g) \<and>
      position_key lib f = Inr (snd (fst g))"
    if "f \<in> set (group_order (snd g))" for f
    using that assms(2) by (auto simp: group_order_set group_ok_def)
  have "w = hd (group_order (snd g))" "bs = map (\<lambda>i. (w, i)) (tl (group_order (snd g)))"
    "canonical_value_json lib (fc_value w) = Inr j"
    using assms(1) by (auto simp: finish_group_def Let_def)
  then show ?thesis
    using all[of w] all ne by (auto simp: list.set_sel(2) hd_in_set)
qed

lemma prepare_batch_ok:
  assumes "prepare_batch lib facts = Inr (ps, d, bs)"
  shows "(\<forall>(f, j) \<in> set ps. f \<in> set facts \<and> validate_fact lib f = Inr f \<and> canonical_value_json lib (fc_value f) = Inr j \<and>
      (\<exists>pos. position_key lib f = Inr pos)) \<and>
    (\<forall>(w, i) \<in> set bs. i \<in> set facts \<and> candidate_key i \<in> (\<lambda>(f, _). candidate_key f) ` set ps \<and>
      (\<exists>pos. position_key lib i = Inr pos))"
proof -
  obtain gs out where g: "foldR (group_fact lib) facts ([], 0) = Inr (gs, d)"
    and out: "mapR (finish_group lib) (sort_key fst gs) = Inr out"
    and ps: "ps = map fst out" and bs: "bs = concat (map snd out)"
    using assms by (auto simp: prepare_batch_def)
  have ok: "\<And>x. x \<in> set gs \<Longrightarrow> group_ok lib facts x"
    using group_facts_ok[OF g] by (simp add: groups_ok_def)
  have each: "\<exists>g \<in> set gs. finish_group lib g = Inr ((w, j), cs)" if "((w, j), cs) \<in> set out" for w j cs
    using mapR_Inr_mem[OF out that] by simp
  have "f \<in> set facts \<and> validate_fact lib f = Inr f \<and> canonical_value_json lib (fc_value f) = Inr j \<and>
      (\<exists>pos. position_key lib f = Inr pos)" if fj: "(f, j) \<in> set ps" for f j
  proof -
    obtain cs where "((f, j), cs) \<in> set out" using fj by (auto simp: ps)
    then obtain g where "g \<in> set gs" "finish_group lib g = Inr ((f, j), cs)" using each by blast
    then show ?thesis using finish_group_ok[OF _ ok, of g f j cs] by blast
  qed
  moreover have "i \<in> set facts \<and> candidate_key i \<in> (\<lambda>(f, _). candidate_key f) ` set ps \<and> (\<exists>pos. position_key lib i = Inr pos)"
    if wi: "(w, i) \<in> set bs" for w i
  proof -
    obtain v j cs where m: "((v, j), cs) \<in> set out" "(w, i) \<in> set cs" using wi by (force simp: bs)
    then obtain g where g: "g \<in> set gs" "finish_group lib g = Inr ((v, j), cs)" using each by blast
    have "i \<in> set facts" "candidate_key i = candidate_key v" "\<exists>pos. position_key lib i = Inr pos"
      using finish_group_ok[OF g(2) ok[OF g(1)]] m(2) by auto
    then show ?thesis using m(1) by (force simp: ps)
  qed
  ultimately show ?thesis by blast
qed

end
