(* ===== verification/Fact_Steps.thy ===== *)
theory Fact_Steps
  imports Fact_Invariants
begin

text \<open>
  A run of the row-wise reducer as a state machine: five kinds of steps on the tables and counters.
  Invariants of runs (what commit a run allocates, what an untouched candidate keeps, that no head
  goes back) are proved once by induction over the steps.
\<close>

text \<open>A head that replaces another has the same ordering mode and a later position in it.\<close>

definition head_advances :: "head_row \<Rightarrow> head_row \<Rightarrow> bool" where
  "head_advances old new \<longleftrightarrow> hr_ordering_mode new = hr_ordering_mode old \<and>
     (if hr_ordering_mode old = ''sequenced''
      then (\<exists>a b. hr_source_seq old = Some a \<and> hr_source_seq new = Some b \<and> a < b)
      else (\<exists>b. hr_observed_at new = Some b \<and> (\<forall>a. hr_observed_at old = Some a \<longrightarrow> a < b)))"

inductive reducer_step :: "env \<Rightarrow> loop \<Rightarrow> loop \<Rightarrow> bool" for env :: env where
  skip_duplicate: "reducer_step env lp (add_duplicate lp)"
| skip_stale: "reducer_step env lp (add_stale lp)"
| known_conflict: "reducer_step env lp (touch c lp)"
| new_conflict: "commit_seq env lp = (n, lp1) \<Longrightarrow>
    reducer_step env lp (touch (cx_key x) (lp1\<lparr>lp_cat := (lp_cat lp1)\<lparr>cat_conflicts :=
      insert_row x (cat_conflicts (lp_cat lp1))\<rparr>, lp_conflicts := lp_conflicts lp1 + 1\<rparr>))"
| accept: "commit_seq env lp = (n, lp1) \<Longrightarrow> rc_key r = hr_key h \<Longrightarrow>
    (\<And>old. select_head (hr_key h) (cat_heads (lp_cat lp)) = Some old \<Longrightarrow> head_advances old h) \<Longrightarrow>
    reducer_step env lp (touch (hr_key h) (lp1\<lparr>lp_cat := (lp_cat lp1)\<lparr>cat_heads := upsert h (cat_heads (lp_cat lp1)),
      cat_receipts := insert_row r (cat_receipts (lp_cat lp1))\<rparr>, lp_changed := lp_changed lp1 + 1\<rparr>))"

inductive_cases reducer_stepE: "reducer_step env lp lp'"

subsection \<open>The loops make such steps\<close>

lemma record_conflict_step:
  assumes "record_conflict env f ex pos kind lp = Inr lp'"
  shows "reducer_step env lp (touch (candidate_key f) lp')"
  using assms
proof (cases rule: record_conflict_cases)
  case known
  then show ?thesis by (simp add: known_conflict)
next
  case (new n lp1)
  have "cx_key (conflict_values env f ex pos kind n) = candidate_key f" by (simp add: conflict_values_def)
  then show ?thesis using new_conflict[OF new(1), of "conflict_values env f ex pos kind n"] new(3) by simp
qed

lemma accept_advances:
  assumes "rowwise_verdict cat f pos = Inr Accept" and "select_head (candidate_key f) (cat_heads cat) = Some old"
    and "heads_typed cat" and "utc_fact f"
  shows "head_advances old (head_values env f j n)"
proof -
  have v: "rowwise_head_verdict f old = Inr Accept"
    using assms(1,2) by (auto simp: rowwise_verdict_def same_or_conflict_def split: option.splits if_splits)
  have mode: "hr_ordering_mode old = ordering_mode f"
    using v by (auto simp: rowwise_head_verdict_def split: if_splits)
  have "aware_us d = dt_wall d" if "fc_observed_at f = Some d" for d
    using that assms(4) by (simp add: utc_fact_def aware_us_def)
  then show ?thesis
    using v mode
    by (auto simp: rowwise_head_verdict_def head_advances_def head_values_def same_or_conflict_def
        split: if_splits option.splits)
qed

lemma rowwise_step_reducer:
  assumes "rowwise_step env (f, j) lp = Inr lp'" and "wf_catalog (lp_cat lp)" and "utc_fact f"
  shows "reducer_step env lp lp'"
proof -
  obtain pos v where v: "rowwise_verdict (lp_cat lp) f pos = Inr v"
    and step: "(case v of Duplicate \<Rightarrow> Inr (add_duplicate lp) | Stale \<Rightarrow> Inr (add_stale lp)
       | Conflict ex kind \<Rightarrow> bindR (record_conflict env f ex pos kind lp) (\<lambda>lp1. Inr (touch (candidate_key f) lp1))
       | Accept \<Rightarrow> rowwise_accept env f j pos lp) = Inr lp'"
    using assms(1) by (auto simp: rowwise_step_def)
  show ?thesis
  proof (cases v)
    case Accept
    obtain n lp1 where c: "commit_seq env lp = (n, lp1)" by force
    let ?h = "head_values env f j n" and ?r = "receipt_values env f pos n"
    have lp': "lp' = touch (hr_key ?h) (lp1\<lparr>lp_cat := (lp_cat lp1)\<lparr>cat_heads := upsert ?h (cat_heads (lp_cat lp1)),
        cat_receipts := insert_row ?r (cat_receipts (lp_cat lp1))\<rparr>, lp_changed := lp_changed lp1 + 1\<rparr>)"
      using step Accept by (auto simp: rowwise_accept_def c head_values_def)
    show ?thesis unfolding lp'
    proof (rule accept[OF c])
      show "rc_key ?r = hr_key ?h" by (simp add: receipt_values_def head_values_def)
      show "head_advances old ?h" if "select_head (hr_key ?h) (cat_heads (lp_cat lp)) = Some old" for old
        using accept_advances[of "lp_cat lp" f pos old env j n] that v Accept assms(2,3)
        by (simp add: wf_catalog_def head_values_def)
    qed
  next
    case (Conflict ex kind)
    then show ?thesis using step record_conflict_step by auto
  qed (use step in \<open>auto intro: reducer_step.intros\<close>)
qed

lemma batch_conflict_reducer:
  "rowwise_batch_conflict env wi lp = Inr lp' \<Longrightarrow> reducer_step env lp lp'"
  using record_conflict_step by (auto simp: rowwise_batch_conflict_def split: prod.splits)

lemma fold_steps_reducer:
  assumes "foldR (rowwise_step env) ps lp = Inr lp'" and "loop_inv lp" and "\<forall>(f, _) \<in> set ps. utc_fact f"
  shows "(reducer_step env)\<^sup>*\<^sup>* lp lp'"
  using assms
proof (induction ps arbitrary: lp)
  case (Cons p ps)
  obtain f j where p: "p = (f, j)" by force
  obtain mid where mid: "rowwise_step env (f, j) lp = Inr mid" "foldR (rowwise_step env) ps mid = Inr lp'"
    using Cons.prems p by auto
  have "reducer_step env lp mid"
    using rowwise_step_reducer[OF mid(1)] Cons.prems p by (auto simp: loop_inv_def)
  moreover have "(reducer_step env)\<^sup>*\<^sup>* mid lp'"
    using Cons.IH[OF mid(2)] step_inv[OF mid(1)] Cons.prems by auto
  ultimately show ?case by (rule converse_rtranclp_into_rtranclp)
qed simp

lemma fold_conflicts_reducer:
  "foldR (rowwise_batch_conflict env) bs lp = Inr lp' \<Longrightarrow> (reducer_step env)\<^sup>*\<^sup>* lp lp'"
  by (induction bs arbitrary: lp) (auto intro: converse_rtranclp_into_rtranclp batch_conflict_reducer)

subsection \<open>Invariants of runs\<close>

lemma touch_simps [simp]:
  "lp_cat (touch c lp) = lp_cat lp" "lp_alloc (touch c lp) = lp_alloc lp" "lp_changed (touch c lp) = lp_changed lp"
  "lp_conflicts (touch c lp) = lp_conflicts lp" "set (lp_touched (touch c lp)) = insert c (set (lp_touched lp))"
  by (auto simp: touch_def)

lemma skip_simps [simp]:
  "lp_cat (add_duplicate lp) = lp_cat lp" "lp_alloc (add_duplicate lp) = lp_alloc lp"
  "lp_changed (add_duplicate lp) = lp_changed lp" "lp_conflicts (add_duplicate lp) = lp_conflicts lp"
  "lp_touched (add_duplicate lp) = lp_touched lp"
  "lp_cat (add_stale lp) = lp_cat lp" "lp_alloc (add_stale lp) = lp_alloc lp"
  "lp_changed (add_stale lp) = lp_changed lp" "lp_conflicts (add_stale lp) = lp_conflicts lp"
  "lp_touched (add_stale lp) = lp_touched lp"
  by (simp_all add: add_duplicate_def add_stale_def)

text \<open>A run writes nothing before it allocates its commit, and allocates at most one.\<close>

definition run_commit :: "env \<Rightarrow> catalog \<Rightarrow> int" where
  "run_commit env base = (case ev_override env of Some n \<Rightarrow> n | None \<Rightarrow> cat_commit_seq base + 1)"

definition catalog_commit :: "env \<Rightarrow> catalog \<Rightarrow> int" where
  "catalog_commit env base = (case ev_override env of Some n \<Rightarrow> cat_commit_seq base | None \<Rightarrow> cat_commit_seq base + 1)"

definition commit_inv :: "env \<Rightarrow> catalog \<Rightarrow> loop \<Rightarrow> bool" where
  "commit_inv env base lp \<longleftrightarrow> (case lp_alloc lp of
       None \<Rightarrow> lp_cat lp = base \<and> lp_changed lp = 0 \<and> lp_conflicts lp = 0
     | Some n \<Rightarrow> n = run_commit env base \<and> cat_commit_seq (lp_cat lp) = catalog_commit env base \<and>
         lp_changed lp + lp_conflicts lp > 0)"

lemma commit_seq_inv:
  "commit_inv env base lp \<Longrightarrow> commit_seq env lp = (n, lp1) \<Longrightarrow>
   lp_alloc lp1 = Some n \<and> n = run_commit env base \<and> cat_commit_seq (lp_cat lp1) = catalog_commit env base"
  by (auto simp: commit_inv_def commit_seq_def run_commit_def catalog_commit_def advance_commit_seq_def Let_def
      split: option.splits)

lemma commit_inv_step: "reducer_step env lp lp' \<Longrightarrow> commit_inv env base lp \<Longrightarrow> commit_inv env base lp'"
proof (induction rule: reducer_step.induct)
  case (new_conflict lp n lp1 x)
  then show ?case using commit_seq_inv[OF new_conflict(2,1)] by (simp add: commit_inv_def)
next
  case (accept lp n lp1 r h)
  then show ?case using commit_seq_inv[OF accept(4,1)] by (simp add: commit_inv_def)
qed (simp_all add: commit_inv_def split: option.splits)

text \<open>Rows of an untouched candidate, and the head count of an untouched family, stay as they were.\<close>

definition rows_of :: "('r \<Rightarrow> candidate) \<Rightarrow> candidate \<Rightarrow> 'r rows \<Rightarrow> 'r rows" where
  "rows_of key c t = filter (\<lambda>(_, r). key r = c) t"

definition frame :: "catalog \<Rightarrow> loop \<Rightarrow> bool" where
  "frame base lp \<longleftrightarrow>
     (\<forall>c. c \<notin> set (lp_touched lp) \<longrightarrow> rows_of rc_key c (cat_receipts (lp_cat lp)) = rows_of rc_key c (cat_receipts base) \<and>
        rows_of cx_key c (cat_conflicts (lp_cat lp)) = rows_of cx_key c (cat_conflicts base)) \<and>
     (\<forall>g. g \<notin> family_of ` set (lp_touched lp) \<longrightarrow> head_count g (cat_heads (lp_cat lp)) = head_count g (cat_heads base))"

lemma rows_of_insert: "rows_of key c (insert_row x t) = rows_of key c t @ (if key x = c then [(next_id t, x)] else [])"
  by (simp add: rows_of_def insert_row_def)

lemma head_count_upsert: "g \<noteq> family_of (hr_key h) \<Longrightarrow> head_count g (upsert h hs) = head_count g hs"
proof -
  assume "g \<noteq> family_of (hr_key h)"
  then have g: "family_of (hr_key h) \<noteq> g" by simp
  have "length (filter (\<lambda>x. family_of (hr_key x) = g) (map (\<lambda>x. if hr_key x = hr_key h then h else x) xs)) =
      length (filter (\<lambda>x. family_of (hr_key x) = g) xs)" for xs
    using g by (induction xs) auto
  then show ?thesis using g by (simp add: head_count_def upsert_def del: filter_map)
qed

lemma frame_step: "reducer_step env lp lp' \<Longrightarrow> frame base lp \<Longrightarrow> frame base lp'"
proof (induction rule: reducer_step.induct)
  case (new_conflict lp n lp1 x)
  then show ?case using commit_seq_cat[OF new_conflict(1)] by (simp add: frame_def rows_of_insert)
next
  case (accept lp n lp1 r h)
  then show ?case
    using commit_seq_cat[OF accept(1)] by (simp add: frame_def rows_of_insert head_count_upsert)
qed (simp_all add: frame_def)

text \<open>No head goes back.\<close>

definition head_kept_or_advanced :: "head_row \<Rightarrow> head_row \<Rightarrow> bool" where
  "head_kept_or_advanced old new \<longleftrightarrow> new = old \<or> head_advances old new"

definition heads_monotone :: "catalog \<Rightarrow> catalog \<Rightarrow> bool" where
  "heads_monotone cat cat' \<longleftrightarrow> (\<forall>c old. select_head c (cat_heads cat) = Some old \<longrightarrow>
     (\<exists>new. select_head c (cat_heads cat') = Some new \<and> head_kept_or_advanced old new))"

lemma head_advances_trans: "head_advances a b \<Longrightarrow> head_advances b c \<Longrightarrow> head_advances a c"
  by (auto simp: head_advances_def split: if_splits)

lemma heads_monotone_step:
  assumes "reducer_step env lp lp'" and "heads_monotone base (lp_cat lp)"
  shows "heads_monotone base (lp_cat lp')"
  using assms
proof (induction rule: reducer_step.induct)
  case (new_conflict lp n lp1 x)
  then show ?case using commit_seq_cat[OF new_conflict(1)] by (simp add: heads_monotone_def)
next
  case (accept lp n lp1 r h)
  have "\<exists>new. (if c = hr_key h then Some h else select_head c (cat_heads (lp_cat lp))) = Some new \<and> head_kept_or_advanced old new"
    if "select_head c (cat_heads base) = Some old" for c old
  proof -
    obtain mid where mid: "select_head c (cat_heads (lp_cat lp)) = Some mid" "head_kept_or_advanced old mid"
      using accept.prems \<open>select_head c (cat_heads base) = Some old\<close> by (auto simp: heads_monotone_def)
    then show ?thesis
      using accept(3)[of mid] head_advances_trans[of old mid h] by (auto simp: head_kept_or_advanced_def)
  qed
  then show ?case using commit_seq_cat[OF accept(1)] by (simp add: heads_monotone_def select_upsert)
qed simp_all

lemma run_invariants:
  assumes "(reducer_step env)\<^sup>*\<^sup>* (start_loop cat d) lp"
  shows "commit_inv env cat lp" and "frame cat lp" and "heads_monotone cat (lp_cat lp)"
  using assms
proof (induction rule: rtranclp_induct)
  case base
  {
    case 1 show ?case by (simp add: commit_inv_def start_loop_def)
  next
    case 2 show ?case by (simp add: frame_def start_loop_def)
  next
    case 3 show ?case by (simp add: heads_monotone_def head_kept_or_advanced_def start_loop_def)
  }
next
  case (step y z)
  {
    case 1 show ?case using step commit_inv_step by blast
  next
    case 2 show ?case using step frame_step by blast
  next
    case 3 show ?case using step heads_monotone_step by blast
  }
qed

end
