(* ===== verification/Fact_Properties.thy ===== *)
theory Fact_Properties
  imports Fact_Steps
begin

text \<open>
  The properties of the reducer: the two reducers agree, the tables stay well formed and bounded, a
  batch commits at most once and only when it writes, heads never go back, valid batches are reduced.
\<close>

subsection \<open>Running a batch\<close>

text \<open>A successful row-wise batch, taken apart.\<close>

lemma reduce_parts:
  assumes "reduce_fact_batch lib facts received_at override cat = Inr (res, cat')"
  obtains at ps d bs env lp1 lp where
    "length facts \<le> MAX_REDUCER_FACTS" "aware received_at ''received_at'' = Inr at"
    "prepare_batch lib facts = Inr (ps, d, bs)" "check_override override (current_commit_seq cat) = Inr ()"
    "env = \<lparr>ev_lib = lib, ev_received_at = at, ev_override = override\<rparr>"
    "foldR (rowwise_step env) ps (start_loop cat d) = Inr lp1"
    "foldR (rowwise_batch_conflict env) bs lp1 = Inr lp"
    "res = result_of (current_commit_seq cat) lp" "cat' = rowwise_prune (lp_touched lp) (lp_cat lp)"
  using assms by (auto simp: reduce_fact_batch_def Let_def)

lemma start_inv: "wf_catalog cat \<Longrightarrow> loop_inv (start_loop cat d)"
  by (simp add: loop_inv_def start_loop_def)

lemma loops_inv:
  assumes "prepare_batch lib facts = Inr (ps, d, bs)" and "wf_catalog cat"
    and "foldR (rowwise_step env) ps (start_loop cat d) = Inr lp1" and "foldR (rowwise_batch_conflict env) bs lp1 = Inr lp"
  shows "loop_inv lp"
proof -
  have "loop_inv lp1 \<and> (\<lambda>(f, _). candidate_key f) ` set ps \<subseteq> head_keys (lp_cat lp1)"
    using fold_steps_inv[OF assms(3) start_inv[OF assms(2)]] by simp
  moreover have "(\<lambda>(_, i). candidate_key i) ` set bs \<subseteq> (\<lambda>(f, _). candidate_key f) ` set ps"
    using prepare_batch_ok[OF assms(1)] by auto
  ultimately show ?thesis using fold_conflicts_inv[OF assms(4)] by blast
qed

lemma loops_run:
  assumes "prepare_batch lib facts = Inr (ps, d, bs)" and "wf_catalog cat" and "\<forall>f \<in> set facts. utc_fact f"
    and "foldR (rowwise_step env) ps (start_loop cat d) = Inr lp1" and "foldR (rowwise_batch_conflict env) bs lp1 = Inr lp"
  shows "(reducer_step env)\<^sup>*\<^sup>* (start_loop cat d) lp"
proof -
  have "\<forall>(f, _) \<in> set ps. utc_fact f" using prepare_batch_ok[OF assms(1)] assms(3) by fastforce
  then show ?thesis
    using fold_steps_reducer[OF assms(4) start_inv[OF assms(2)]] fold_conflicts_reducer[OF assms(5)] by auto
qed

subsection \<open>The two reducers agree\<close>

lemma bind_all_fits: "(\<And>v. v \<in> set vs \<Longrightarrow> fits v) \<Longrightarrow> bind_all vs = Inr ()"
  by (induction vs) (simp_all add: bind_all_def fits_def)

lemma bulk_write_sim: "sim base cs lp sw \<Longrightarrow> bulk_write sw = Inr (lp_cat lp)"
proof -
  assume s: "sim base cs lp sw"
  have "bind_all (map hr_source_seq (sw_pending_heads sw)) = Inr ()"
    "bind_all (map rc_source_seq (sw_pending_receipts sw)) = Inr ()"
    "bind_all (map cx_source_seq (sw_pending_conflicts sw)) = Inr ()"
    using s by (auto simp: sim_def pending_fit_def intro!: bind_all_fits)
  then show ?thesis
    using s by (simp add: bulk_write_def Let_def sim_def same_tables_def)
qed

lemma batch_candidates_mem:
  "(f, j) \<in> set ps \<Longrightarrow> candidate_key f \<in> set (batch_candidates ps bs)"
  "(w, i) \<in> set bs \<Longrightarrow> candidate_key i \<in> set (batch_candidates ps bs)"
  by (force simp: batch_candidates_def)+

lemma batch_candidates_Nil: "batch_candidates ps bs = [] \<longleftrightarrow> ps = [] \<and> bs = []"
proof -
  have "batch_candidates ps bs = [] \<longleftrightarrow>
      set (map (\<lambda>(f, _). candidate_key f) ps @ map (\<lambda>(_, i). candidate_key i) bs) = {}"
    unfolding batch_candidates_def by (subst set_empty[symmetric]) simp
  then show ?thesis by simp
qed

text \<open>From related states the ends of the two reducers agree, errors included.\<close>

lemma setwise_tail:
  assumes wf: "wf_catalog cat" and prep: "prepare_batch lib facts = Inr (ps, d, bs)" and ok: "\<forall>f \<in> set facts. storable f"
    and cs: "cs = batch_candidates ps bs"
  shows "bindR (foldR (setwise_step env) ps (start_setwise cs cat d)) (\<lambda>sw.
      bindR (foldR (setwise_batch_conflict env) bs sw) (\<lambda>sw. bindR (bulk_write sw) (\<lambda>cat1.
        Inr (result_of n sw, setwise_prune (lp_touched sw) cat1)))) =
    bindR (foldR (rowwise_step env) ps (start_loop cat d)) (\<lambda>lp.
      bindR (foldR (rowwise_batch_conflict env) bs lp) (\<lambda>lp. Inr (result_of n lp, rowwise_prune (lp_touched lp) (lp_cat lp))))"
proof -
  have okp: "\<forall>x \<in> set ps. step_ok cs x"
    using prepare_batch_ok[OF prep] ok batch_candidates_mem(1)[of _ _ ps bs]
    by (fastforce simp: step_ok_def cs)
  have okb: "\<forall>x \<in> set bs. conflict_ok cs x"
    using prepare_batch_ok[OF prep] ok batch_candidates_mem(2)[of _ _ bs ps]
    by (fastforce simp: conflict_ok_def cs storable_def)
  have start: "sim cat cs (start_loop cat d) (start_setwise cs cat d)"
    using sim_start wf by (simp add: wf_catalog_def)
  have rel: "rel_sum (=) (sim cat cs) (foldR (rowwise_step env) ps (start_loop cat d)) (foldR (setwise_step env) ps (start_setwise cs cat d))"
    by (rule fold_sim.foldR_sim[OF okp start])
  show ?thesis
  proof (cases "foldR (rowwise_step env) ps (start_loop cat d)")
    case (Inl e)
    then show ?thesis using rel by (cases "foldR (setwise_step env) ps (start_setwise cs cat d)") simp_all
  next
    case (Inr lp1)
    then obtain sw1 where sw1: "foldR (setwise_step env) ps (start_setwise cs cat d) = Inr sw1" "sim cat cs lp1 sw1"
      using rel by (cases "foldR (setwise_step env) ps (start_setwise cs cat d)") simp_all
    have rel2: "rel_sum (=) (sim cat cs) (foldR (rowwise_batch_conflict env) bs lp1) (foldR (setwise_batch_conflict env) bs sw1)"
      by (rule batch_sim.foldR_sim[OF okb sw1(2)])
    show ?thesis
    proof (cases "foldR (rowwise_batch_conflict env) bs lp1")
      case (Inl e)
      then show ?thesis using rel2 Inr sw1 by (cases "foldR (setwise_batch_conflict env) bs sw1") simp_all
    next
      case lp: (Inr lp)
      then obtain sw where sw: "foldR (setwise_batch_conflict env) bs sw1 = Inr sw" "sim cat cs lp sw"
        using rel2 by (cases "foldR (setwise_batch_conflict env) bs sw1") simp_all
      have inv: "loop_inv lp" by (rule loops_inv[OF prep wf Inr lp])
      have "result_of n sw = result_of n lp" "lp_touched sw = lp_touched lp"
        using sw(2) by (simp_all add: sim_def same_counters_def result_of_def)
      then show ?thesis
        using Inr lp sw1 sw bulk_write_sim[OF sw(2)] prunes_agree[of "lp_cat lp" "lp_touched lp"] inv
        by (simp add: loop_inv_def)
    qed
  qed
qed

lemma reducers_agree:
  assumes "wf_catalog cat" and "\<forall>f \<in> set facts. storable f"
  shows "reduce_fact_batch_setwise lib facts received_at override cat = reduce_fact_batch lib facts received_at override cat"
proof (cases "prepare_batch lib facts")
  case (Inl e)
  then show ?thesis
    by (cases "aware received_at ''received_at''")
       (simp_all add: reduce_fact_batch_def reduce_fact_batch_setwise_def guard_def)
next
  case (Inr prep)
  obtain ps d bs where prep: "prepare_batch lib facts = Inr (ps, d, bs)"
    using Inr by (metis prod_cases3)
  show ?thesis
  proof (cases "batch_candidates ps bs = []")
    case True
    then have "ps = [] \<and> bs = []" by (simp add: batch_candidates_Nil)
    then show ?thesis
      using True by (simp add: reduce_fact_batch_def reduce_fact_batch_setwise_def prep Let_def
          rowwise_prune_def start_loop_def touched_families_def)
  next
    case False
    then show ?thesis
      unfolding reduce_fact_batch_def reduce_fact_batch_setwise_def prep bindR.simps prod.case Let_def
      by (simp only: setwise_tail[OF assms(1) prep assms(2) refl] if_False)
  qed
qed

subsection \<open>Properties\<close>

text \<open>
  (C2) The set-wise reducer is the row-wise reducer: on well-formed tables and a batch whose facts carry
  UTC observation times and storable sequence numbers, both return the same result and leave the same
  rows, ids and commit in every table, and both raise the same exception when they raise.
\<close>

theorem setwise_equals_rowwise:
  assumes "wf_catalog cat" and "\<forall>f \<in> set facts. storable f"
  shows "reduce_fact_batch_setwise lib facts received_at override cat = reduce_fact_batch lib facts received_at override cat"
  using assms by (rule reducers_agree)

text \<open>The retention bounds of the tables.\<close>

definition bounded_catalog :: "catalog \<Rightarrow> bool" where
  "bounded_catalog cat \<longleftrightarrow>
     (\<forall>c. length (rows_of rc_key c (cat_receipts cat)) \<le> MAX_RECEIPTS_PER_CANDIDATE \<and>
          length (rows_of cx_key c (cat_conflicts cat)) \<le> MAX_CONFLICTS_PER_CANDIDATE) \<and>
     (\<forall>g. head_count g (cat_heads cat) \<le> MAX_HEADS_PER_FAMILY)"

lemma fold_family_rows:
  "length (rows_of rc_key c (cat_receipts (fold prune_fact_family fs cat))) \<le> length (rows_of rc_key c (cat_receipts cat)) \<and>
   length (rows_of cx_key c (cat_conflicts (fold prune_fact_family fs cat))) \<le> length (rows_of cx_key c (cat_conflicts cat)) \<and>
   head_count g (cat_heads (fold prune_fact_family fs cat)) \<le> head_count g (cat_heads cat)"
proof (induction fs arbitrary: cat)
  case (Cons f fs)
  have "length (rows_of rc_key c (cat_receipts (prune_fact_family f cat))) \<le> length (rows_of rc_key c (cat_receipts cat))"
    "length (rows_of cx_key c (cat_conflicts (prune_fact_family f cat))) \<le> length (rows_of cx_key c (cat_conflicts cat))"
    by (simp_all add: rows_of_def prune_fact_family_def Let_def filter_twice_count del: filter_filter)
  moreover have "head_count g (cat_heads (prune_fact_family f cat)) \<le> head_count g (cat_heads cat)"
    by (rule prune_family_count)
  ultimately show ?case using Cons[of "prune_fact_family f cat"] by auto
qed simp

lemma fold_family_bound:
  assumes "wf_catalog cat" and "g \<in> set fs"
  shows "head_count g (cat_heads (fold prune_fact_family fs cat)) \<le> MAX_HEADS_PER_FAMILY"
  using assms
proof (induction fs arbitrary: cat)
  case (Cons f fs)
  show ?case
  proof (cases "g \<in> set fs")
    case True
    then show ?thesis using Cons wf_prune_family by simp
  next
    case False
    then have "g = f" using Cons.prems by simp
    then have "head_count g (cat_heads (prune_fact_family f cat)) \<le> MAX_HEADS_PER_FAMILY"
      using Cons.prems(1) prune_family_heads by (simp add: wf_catalog_def unique_keys_def)
    moreover have "head_count g (cat_heads (fold prune_fact_family fs (prune_fact_family f cat))) \<le>
        head_count g (cat_heads (prune_fact_family f cat))"
      using fold_family_rows by blast
    ultimately show ?thesis by simp
  qed
qed simp

lemma candidate_prune_rows:
  assumes "distinct cs" and "distinct (map fst t)" and "\<And>c. c \<notin> set cs \<Longrightarrow> length (rows_of key c t) \<le> keep"
    and "candidate_retention key keep (\<lambda>cs. fold (prune_candidate_rows key keep) (remdups cs))"
  shows "length (rows_of key c (fold (prune_candidate_rows key keep) cs t)) \<le> keep"
proof (cases "c \<in> set cs")
  case True
  then show ?thesis
    using candidate_retention.prune_bound[OF assms(4,2) True] by (simp add: rows_of_def distinct_remdups_id[OF assms(1)])
next
  case False
  then show ?thesis
    using candidate_retention.prune_others[OF assms(4,2) False] assms(3)[OF False]
    by (simp add: rows_of_def distinct_remdups_id[OF assms(1)])
qed

lemma bounded_rowwise_prune:
  assumes wf: "wf_catalog (lp_cat lp)" and d: "distinct (lp_touched lp)" and fr: "frame cat lp" and b: "bounded_catalog cat"
  shows "bounded_catalog (rowwise_prune (lp_touched lp) (lp_cat lp))"
proof -
  let ?cs = "lp_touched lp" and ?cat = "lp_cat lp"
  let ?mid = "?cat\<lparr>cat_receipts := fold (prune_candidate_rows rc_key MAX_RECEIPTS_PER_CANDIDATE) ?cs (cat_receipts ?cat),
     cat_conflicts := fold (prune_candidate_rows cx_key MAX_CONFLICTS_PER_CANDIDATE) ?cs (cat_conflicts ?cat)\<rparr>"
  have ids: "distinct (map fst (cat_receipts ?cat))" "distinct (map fst (cat_conflicts ?cat))"
    using wf by (simp_all add: wf_catalog_def unique_keys_def)
  have "length (rows_of rc_key c (cat_receipts ?mid)) \<le> MAX_RECEIPTS_PER_CANDIDATE" for c
    using candidate_prune_rows[OF d ids(1) _ rowwise_receipts.candidate_retention_axioms] fr b
    by (simp add: frame_def bounded_catalog_def)
  moreover have "length (rows_of cx_key c (cat_conflicts ?mid)) \<le> MAX_CONFLICTS_PER_CANDIDATE" for c
    using candidate_prune_rows[OF d ids(2) _ rowwise_conflicts.candidate_retention_axioms] fr b
    by (simp add: frame_def bounded_catalog_def)
  moreover have "head_count g (cat_heads (fold prune_fact_family (touched_families ?cs) ?mid)) \<le> MAX_HEADS_PER_FAMILY" for g
  proof (cases "g \<in> family_of ` set ?cs")
    case True
    then show ?thesis using fold_family_bound[OF wf_prune_candidates[OF wf d]] by (simp add: touched_families_def)
  next
    case False
    have "head_count g (cat_heads (fold prune_fact_family (touched_families ?cs) ?mid)) \<le> head_count g (cat_heads ?mid)"
      using fold_family_rows by blast
    also have "\<dots> \<le> MAX_HEADS_PER_FAMILY" using False fr b by (simp add: frame_def bounded_catalog_def)
    finally show ?thesis .
  qed
  ultimately show ?thesis
    unfolding bounded_catalog_def rowwise_prune_def fold_prune_children
    by (meson fold_family_rows order_trans)
qed

text \<open>
  (C6) A batch keeps the tables well formed and bounded: unique keys and ids, every receipt and conflict
  under a head, at most 16 receipts and 8 conflicts per candidate and 2048 heads per family, whatever
  the batch writes.
\<close>

theorem reducer_keeps_tables_bounded:
  assumes "wf_catalog cat" and "bounded_catalog cat" and "\<forall>f \<in> set facts. utc_fact f"
    and "reduce_fact_batch lib facts received_at override cat = Inr (res, cat')"
  shows "wf_catalog cat' \<and> bounded_catalog cat'"
proof -
  obtain at ps d bs env lp1 lp where prep: "prepare_batch lib facts = Inr (ps, d, bs)"
    and f: "foldR (rowwise_step env) ps (start_loop cat d) = Inr lp1" "foldR (rowwise_batch_conflict env) bs lp1 = Inr lp"
    and cat': "cat' = rowwise_prune (lp_touched lp) (lp_cat lp)"
    by (rule reduce_parts[OF assms(4)])
  have "loop_inv lp" by (rule loops_inv[OF prep assms(1) f])
  moreover have "frame cat lp" by (rule run_invariants(2)[OF loops_run[OF prep assms(1,3) f]])
  ultimately show ?thesis
    using wf_rowwise_prune bounded_rowwise_prune assms(2) by (simp add: loop_inv_def cat')
qed

text \<open>A candidate prune and a family sweep of bounded tables change nothing.\<close>

lemma row_rank_bound: "(i, r) \<in> set t \<Longrightarrow> row_rank key t i (key r) \<le> length (rows_of key (key r) t)"
proof -
  assume m: "(i, r) \<in> set t"
  have "filter (\<lambda>(j, s). key s = key r \<and> i < j) t = filter (\<lambda>(j, s). i < j) (rows_of key (key r) t)"
    by (simp add: rows_of_def) (rule filter_cong, auto)
  moreover have "length (filter (\<lambda>(j, s). i < j) (rows_of key (key r) t)) < length (rows_of key (key r) t)"
    by (rule length_filter_less[of "(i, r)"]) (use m in \<open>auto simp: rows_of_def\<close>)
  ultimately show ?thesis by (simp add: row_rank_def)
qed

lemma prune_bounded_id:
  assumes "distinct cs" and "distinct (map fst t)" and "\<And>c. length (rows_of key c t) \<le> keep"
  shows "fold (prune_candidate_rows key keep) cs t = t"
proof -
  have "retained key keep (set cs) t row" if "row \<in> set t" for row
    using row_rank_bound[of "fst row" "snd row" t key] that assms(3)[of "key (snd row)"]
    by (auto simp: retained_def)
  then show ?thesis by (simp add: fold_prune_spec[OF assms(1,2)])
qed

lemma rowwise_prune_bounded_id:
  assumes "wf_catalog cat" and "bounded_catalog cat" and "distinct cs"
  shows "rowwise_prune cs cat = cat"
proof -
  have ids: "distinct (map fst (cat_receipts cat))" "distinct (map fst (cat_conflicts cat))"
    using assms(1) by (simp_all add: wf_catalog_def unique_keys_def)
  have "prune_fact_family g cat = cat" for g
    using assms prune_family_noop by (simp add: wf_catalog_def bounded_catalog_def)
  then have "fold prune_fact_family fs cat = cat" for fs by (induction fs) simp_all
  then show ?thesis
    using prune_bounded_id[OF assms(3) ids(1)] prune_bounded_id[OF assms(3) ids(2)] assms(2)
    unfolding rowwise_prune_def fold_prune_children by (simp add: bounded_catalog_def)
qed

lemma fold_family_commit: "cat_commit_seq (fold prune_fact_family fs cat) = cat_commit_seq cat"
  by (induction fs arbitrary: cat) (simp_all add: prune_fact_family_def Let_def)

lemma rowwise_prune_commit: "cat_commit_seq (rowwise_prune cs cat) = cat_commit_seq cat"
  unfolding rowwise_prune_def fold_prune_children by (simp add: fold_family_commit)

text \<open>
  A batch commits once, and only if it writes: without an override, the reported commit is the
  commit of the catalog, it is one more than before exactly when a head changed or a conflict was
  recorded, and a batch that changes no head and records no conflict leaves the catalog as it was.
\<close>

theorem commit_advances_with_writes:
  assumes "wf_catalog cat" and "bounded_catalog cat" and "\<forall>f \<in> set facts. utc_fact f"
    and "reduce_fact_batch lib facts received_at None cat = Inr (res, cat')"
  shows "rr_commit_seq res = cat_commit_seq cat' \<and>
    cat_commit_seq cat' = cat_commit_seq cat + (if rr_changed_heads res + rr_conflicts res > 0 then 1 else 0) \<and>
    (rr_changed_heads res + rr_conflicts res = 0 \<longrightarrow> cat' = cat)"
proof -
  obtain at ps d bs env lp1 lp where prep: "prepare_batch lib facts = Inr (ps, d, bs)"
    and env: "env = \<lparr>ev_lib = lib, ev_received_at = at, ev_override = None\<rparr>"
    and f: "foldR (rowwise_step env) ps (start_loop cat d) = Inr lp1" "foldR (rowwise_batch_conflict env) bs lp1 = Inr lp"
    and res: "res = result_of (current_commit_seq cat) lp"
    and cat': "cat' = rowwise_prune (lp_touched lp) (lp_cat lp)"
    by (rule reduce_parts[OF assms(4)])
  have inv: "loop_inv lp" by (rule loops_inv[OF prep assms(1) f])
  have c: "commit_inv env cat lp" by (rule run_invariants(1)[OF loops_run[OF prep assms(1,3) f]])
  show ?thesis
  proof (cases "lp_alloc lp")
    case None
    then have "lp_cat lp = cat" "lp_changed lp = 0" "lp_conflicts lp = 0" using c by (simp_all add: commit_inv_def)
    moreover have "cat' = cat"
      using rowwise_prune_bounded_id[OF assms(1,2)] inv \<open>lp_cat lp = cat\<close> by (simp add: cat' loop_inv_def)
    ultimately show ?thesis using None by (simp add: res result_of_def current_commit_seq_def)
  next
    case (Some n)
    then show ?thesis
      using c by (auto simp: commit_inv_def run_commit_def catalog_commit_def env res result_of_def cat' rowwise_prune_commit)
  qed
qed

lemma select_filter_key: "select_head c (filter (\<lambda>h. P (hr_key h)) hs) = (if P c then select_head c hs else None)"
  by (induction hs) (auto simp: select_head_def)

lemma select_pruned_family:
  "select_head c (cat_heads (prune_fact_family g cat)) \<in> {None, select_head c (cat_heads cat)}"
  by (simp add: prune_fact_family_def Let_def select_filter_key)

lemma select_pruned_families:
  "select_head c (cat_heads (fold prune_fact_family gs cat)) \<in> {None, select_head c (cat_heads cat)}"
proof (induction gs arbitrary: cat)
  case (Cons g gs)
  have "select_head c (cat_heads (fold prune_fact_family gs (prune_fact_family g cat))) \<in>
      {None, select_head c (cat_heads (prune_fact_family g cat))}" by (rule Cons)
  then show ?case using select_pruned_family[of c g cat] by auto
qed simp

text \<open>
  (C3) A head never goes back: a candidate that has a head before and after a batch has the same head,
  or one of the same ordering mode whose sequence number (for unsequenced sources: observation time)
  is strictly greater. A replayed or late fact cannot replace a newer one.
\<close>

theorem heads_never_regress:
  assumes "wf_catalog cat" and "\<forall>f \<in> set facts. utc_fact f"
    and "reduce_fact_batch lib facts received_at override cat = Inr (res, cat')"
    and "select_head c (cat_heads cat) = Some old" and "select_head c (cat_heads cat') = Some new"
  shows "new = old \<or> head_advances old new"
proof -
  obtain at ps d bs env lp1 lp where prep: "prepare_batch lib facts = Inr (ps, d, bs)"
    and f: "foldR (rowwise_step env) ps (start_loop cat d) = Inr lp1" "foldR (rowwise_batch_conflict env) bs lp1 = Inr lp"
    and cat': "cat' = rowwise_prune (lp_touched lp) (lp_cat lp)"
    by (rule reduce_parts[OF assms(3)])
  have "heads_monotone cat (lp_cat lp)" by (rule run_invariants(3)[OF loops_run[OF prep assms(1,2) f]])
  then obtain mid where mid: "select_head c (cat_heads (lp_cat lp)) = Some mid" "head_kept_or_advanced old mid"
    using assms(4) by (auto simp: heads_monotone_def)
  let ?pruned = "(lp_cat lp)\<lparr>cat_receipts := fold (prune_candidate_rows rc_key MAX_RECEIPTS_PER_CANDIDATE) (lp_touched lp) (cat_receipts (lp_cat lp)),
     cat_conflicts := fold (prune_candidate_rows cx_key MAX_CONFLICTS_PER_CANDIDATE) (lp_touched lp) (cat_conflicts (lp_cat lp))\<rparr>"
  have "cat' = fold prune_fact_family (touched_families (lp_touched lp)) ?pruned"
    unfolding cat' rowwise_prune_def fold_prune_children ..
  then have "select_head c (cat_heads cat') \<in> {None, select_head c (cat_heads ?pruned)}"
    by (simp only: select_pruned_families)
  then have "new = mid" using assms(5) mid(1) by simp
  then show ?thesis using mid(2) by (simp add: head_kept_or_advanced_def)
qed

subsection \<open>Valid batches are reduced\<close>

definition reducible :: "pylib \<Rightarrow> reducer_fact \<Rightarrow> bool" where
  "reducible lib f \<longleftrightarrow> validate_fact lib f = Inr f \<and> (\<exists>pos. position_key lib f = Inr pos)"

lemma group_facts_total: "\<forall>f \<in> set facts. reducible lib f \<Longrightarrow> \<exists>st'. foldR (group_fact lib) facts st = Inr st'"
proof (induction facts arbitrary: st)
  case (Cons f facts)
  obtain pos where "validate_fact lib f = Inr f" "position_key lib f = Inr pos"
    using Cons.prems by (auto simp: reducible_def)
  then have "\<exists>st1. group_fact lib f st = Inr st1" by (simp add: group_fact_def Let_def del: split_paired_Ex)
  then show ?case using Cons by auto
qed simp

lemma finish_total: "group_ok lib facts g \<Longrightarrow> \<exists>y. finish_group lib g = Inr y"
proof -
  assume ok: "group_ok lib facts g"
  then have "group_order (snd g) \<noteq> []" by (metis group_ok_def group_order_set image_is_empty set_empty)
  then have "hd (group_order (snd g)) \<in> snd ` set (snd g)" using group_order_set hd_in_set by metis
  then have "validate_fact lib (hd (group_order (snd g))) = Inr (hd (group_order (snd g)))"
    using ok by (auto simp: group_ok_def)
  then show ?thesis by (auto simp: validate_fact_def finish_group_def Let_def)
qed

lemma mapR_total: "(\<And>x. x \<in> set xs \<Longrightarrow> \<exists>y. f x = Inr y) \<Longrightarrow> \<exists>ys. mapR f xs = Inr ys"
proof (induction xs)
  case (Cons x xs)
  obtain y where "f x = Inr y" using Cons.prems by auto
  moreover obtain ys where "mapR f xs = Inr ys" using Cons by auto
  ultimately show ?case by simp
qed simp

lemma prepare_total: "\<forall>f \<in> set facts. reducible lib f \<Longrightarrow> \<exists>p. prepare_batch lib facts = Inr p"
proof -
  assume "\<forall>f \<in> set facts. reducible lib f"
  then obtain st where st: "foldR (group_fact lib) facts ([], 0) = Inr st" using group_facts_total by blast
  have "\<exists>y. finish_group lib g = Inr y" if "g \<in> set (sort_key fst (fst st))" for g
    using that finish_total group_facts_ok[OF st] unfolding groups_ok_def set_sort by blast
  then obtain out where "mapR (finish_group lib) (sort_key fst (fst st)) = Inr out"
    using mapR_total by blast
  then show ?thesis using st by (cases st) (simp add: prepare_batch_def)
qed

lemma verdict_total:
  assumes "wf_catalog cat" and "position_key lib f = Inr pos'"
  shows "\<exists>v. rowwise_verdict cat f pos = Inr v"
proof -
  have "\<exists>v. rowwise_head_verdict f h = Inr v" if "h \<in> set (cat_heads cat)" for h
    using that assms
    by (auto simp: rowwise_head_verdict_def wf_catalog_def heads_typed_def position_key_def ordering_mode_def
        split: option.splits)
  then show ?thesis
    using select_head_Some[of "candidate_key f" "cat_heads cat"] by (auto simp: rowwise_verdict_def split: option.splits)
qed

lemma record_conflict_total: "fits (fc_source_seq f) \<Longrightarrow> \<exists>lp'. record_conflict env f ex pos kind lp = Inr lp'"
  by (simp add: record_conflict_def fits_def split: prod.splits)

lemma step_total:
  assumes "wf_catalog (lp_cat lp)" and "fits (fc_source_seq f)" and "position_key (ev_lib env) f = Inr pos"
  shows "\<exists>lp'. rowwise_step env (f, j) lp = Inr lp'"
proof -
  obtain v where "rowwise_verdict (lp_cat lp) f pos = Inr v" using verdict_total[OF assms(1,3)] by blast
  then show ?thesis
    using assms(2,3) record_conflict_total[OF assms(2), of env _ pos _ lp]
    by (cases v) (auto simp: rowwise_step_def rowwise_accept_def fits_def split: prod.splits)
qed

lemma fold_steps_total:
  assumes "loop_inv lp" and "\<forall>(f, _) \<in> set ps. fits (fc_source_seq f) \<and> (\<exists>pos. position_key (ev_lib env) f = Inr pos)"
  shows "\<exists>lp'. foldR (rowwise_step env) ps lp = Inr lp'"
  using assms
proof (induction ps arbitrary: lp)
  case (Cons p ps)
  obtain f j where p: "p = (f, j)" by force
  obtain pos where "position_key (ev_lib env) f = Inr pos" "fits (fc_source_seq f)" using Cons.prems p by auto
  then obtain mid where "rowwise_step env (f, j) lp = Inr mid"
    using step_total[of lp f env pos j] Cons.prems(1) by (auto simp: loop_inv_def)
  then show ?case using Cons.IH[of mid] step_inv Cons.prems(2) p Cons.prems(1) by auto
qed simp

lemma fold_conflicts_total:
  "\<forall>(_, i) \<in> set bs. fits (fc_source_seq i) \<and> (\<exists>pos. position_key (ev_lib env) i = Inr pos) \<Longrightarrow>
   \<exists>lp'. foldR (rowwise_batch_conflict env) bs lp = Inr lp'"
proof (induction bs arbitrary: lp)
  case (Cons b bs)
  obtain w i where b: "b = (w, i)" by force
  obtain nxt where "rowwise_batch_conflict env (w, i) lp = Inr nxt"
    using Cons.prems b record_conflict_total[of i env "fc_evidence_hash w"] by (fastforce simp: rowwise_batch_conflict_def)
  then show ?case using Cons b by simp
qed simp

lemma reduce_total:
  assumes "wf_catalog cat" and "length facts \<le> MAX_REDUCER_FACTS" and "\<forall>f \<in> set facts. reducible lib f \<and> fits (fc_source_seq f)"
    and "aware received_at ''received_at'' = Inr at" and "override \<in> {None, Some (cat_commit_seq cat)}"
  shows "\<exists>out. reduce_fact_batch lib facts received_at override cat = Inr out"
proof -
  obtain ps d bs where prep: "prepare_batch lib facts = Inr (ps, d, bs)"
    using prepare_total assms(3) by (metis prod_cases3)
  let ?env = "\<lparr>ev_lib = lib, ev_received_at = at, ev_override = override\<rparr>"
  have "check_override override (current_commit_seq cat) = Inr ()"
    using assms(5) by (auto simp: check_override_def current_commit_seq_def)
  moreover obtain lp1 where "foldR (rowwise_step ?env) ps (start_loop cat d) = Inr lp1"
    using fold_steps_total[OF start_inv[OF assms(1)], of ps ?env d] prepare_batch_ok[OF prep] assms(3) by fastforce
  moreover obtain lp where "foldR (rowwise_batch_conflict ?env) bs lp1 = Inr lp"
    using fold_conflicts_total[of bs ?env lp1] prepare_batch_ok[OF prep] assms(3) by fastforce
  ultimately show ?thesis
    using assms(2,4) prep by (simp add: reduce_fact_batch_def Let_def)
qed

text \<open>
  (C8) The reducers return: on well-formed tables, every batch of at most 256 facts that each pass validation,
  have a position, and carry a storable sequence number is reduced by the row-wise reducer and by the setwise one,
  with the same result and the same tables.
\<close>

theorem valid_batch_is_reduced:
  assumes "wf_catalog cat" and "length facts \<le> 256" and "\<forall>f \<in> set facts. reducible lib f \<and> storable f"
    and "aware received_at ''received_at'' = Inr at"
  shows "\<exists>res cat'. reduce_fact_batch lib facts received_at None cat = Inr (res, cat') \<and>
    reduce_fact_batch_setwise lib facts received_at None cat = Inr (res, cat')"
proof -
  have "\<forall>f \<in> set facts. reducible lib f \<and> fits (fc_source_seq f)" using assms(3) by (simp add: storable_def)
  then have "\<exists>res cat'. reduce_fact_batch lib facts received_at None cat = Inr (res, cat')"
    using reduce_total[OF assms(1) _ _ assms(4), of facts lib None] assms(2) by (auto simp: MAX_REDUCER_FACTS_def)
  moreover have "\<forall>f \<in> set facts. storable f" using assms(3) by blast
  ultimately show ?thesis by (simp only: reducers_agree[OF assms(1)] conj_absorb)
qed

subsection \<open>Accounting\<close>

definition total :: "loop \<Rightarrow> nat" where
  "total lp = lp_changed lp + lp_duplicates lp + lp_stale lp + lp_conflicts lp"

lemma total_step: "reducer_step env lp lp' \<Longrightarrow> total lp' \<le> total lp + 1"
proof (induction rule: reducer_step.induct)
  case (new_conflict lp n lp1 x)
  then show ?case using commit_seq_cat[OF new_conflict(1)] by (simp add: total_def touch_def)
next
  case (accept lp n lp1 r h)
  then show ?case using commit_seq_cat[OF accept(1)] by (simp add: total_def touch_def)
qed (simp_all add: total_def touch_def add_duplicate_def add_stale_def)

lemma total_steps:
  assumes "foldR (rowwise_step env) ps lp = Inr lp'" and "loop_inv lp" and "\<forall>(f, _) \<in> set ps. utc_fact f"
  shows "total lp' \<le> total lp + length ps"
  using assms
proof (induction ps arbitrary: lp)
  case (Cons p ps)
  obtain f j where p: "p = (f, j)" by force
  obtain mid where mid: "rowwise_step env (f, j) lp = Inr mid" "foldR (rowwise_step env) ps mid = Inr lp'"
    using Cons.prems p by auto
  have "total mid \<le> total lp + 1"
    using total_step[OF rowwise_step_reducer[OF mid(1)]] Cons.prems p by (simp add: loop_inv_def)
  moreover have "total lp' \<le> total mid + length ps"
    using Cons.IH[OF mid(2)] step_inv[OF mid(1)] Cons.prems by auto
  ultimately show ?case by simp
qed simp

lemma total_conflicts:
  "foldR (rowwise_batch_conflict env) bs lp = Inr lp' \<Longrightarrow> total lp' \<le> total lp + length bs"
proof (induction bs arbitrary: lp)
  case (Cons b bs)
  then obtain mid where mid: "rowwise_batch_conflict env b lp = Inr mid" "foldR (rowwise_batch_conflict env) bs mid = Inr lp'"
    by auto
  then show ?case using total_step[OF batch_conflict_reducer[OF mid(1)]] Cons.IH[OF mid(2)] by simp
qed simp

text \<open>Grouping loses no fact: it is in a group or counted as a duplicate.\<close>

definition grouped_count :: "groups \<Rightarrow> nat" where
  "grouped_count gs = sum_list (map (\<lambda>g. length (snd g)) gs)"

lemma grouped_count_update:
  "distinct (map fst gs) \<Longrightarrow>
   grouped_count (AList.update k (group_values gs k @ [x]) gs) = grouped_count gs + 1"
proof -
  have "distinct (map fst gs) \<Longrightarrow> map_of gs k = Some vs \<Longrightarrow>
      grouped_count (AList.update k (vs @ [x]) gs) = grouped_count gs + 1" for vs
    by (induction gs) (auto simp: grouped_count_def)
  moreover have "map_of gs k = None \<Longrightarrow> grouped_count (AList.update k [x] gs) = grouped_count gs + 1"
    by (induction gs) (auto simp: grouped_count_def split: if_splits)
  ultimately show "distinct (map fst gs) \<Longrightarrow> ?thesis" by (auto simp: group_values_def split: option.splits)
qed

lemma group_fact_count:
  assumes "group_fact lib f st = Inr st'" and "distinct (map fst (fst st))"
  shows "grouped_count (fst st') + snd st' = grouped_count (fst st) + snd st + 1"
  using assms by (auto simp: group_fact_def Let_def grouped_count_update split: if_splits)

lemma group_facts_count:
  assumes "foldR (group_fact lib) facts ([], 0) = Inr st"
  shows "grouped_count (fst st) + snd st = length facts"
  using assms
proof (induction facts arbitrary: st rule: rev_induct)
  case Nil
  then show ?case by (auto simp: grouped_count_def)
next
  case (snoc f facts)
  obtain mid where mid: "foldR (group_fact lib) facts ([], 0) = Inr mid" "group_fact lib f mid = Inr st"
    using snoc.prems by (auto simp: foldR_append)
  have "distinct (map fst (fst mid))" using group_facts_ok[OF mid(1)] by (simp add: groups_ok_def)
  then show ?case using group_fact_count[OF mid(2)] snoc.IH[OF mid(1)] by simp
qed

lemma finish_count:
  assumes "mapR (finish_group lib) gs = Inr out" and "\<forall>g \<in> set gs. group_ok lib facts g"
  shows "length out + length (concat (map snd out)) = grouped_count gs"
  using assms
proof (induction gs arbitrary: out)
  case (Cons g gs)
  obtain y ys where y: "finish_group lib g = Inr y" "mapR (finish_group lib) gs = Inr ys" "out = y # ys"
    using Cons.prems by auto
  have "length (group_order (snd g)) = length (snd g)" "snd g \<noteq> []"
    using Cons.prems(2) by (simp_all add: group_order_def group_ok_def)
  then have "Suc (length (snd y)) = length (snd g)"
    using y(1) by (auto simp: finish_group_def Let_def)
  then show ?case using Cons.IH[OF y(2)] Cons.prems(2) y(3) by (simp add: grouped_count_def)
qed (simp add: grouped_count_def)

lemma prepare_count:
  assumes "prepare_batch lib facts = Inr (ps, d, bs)"
  shows "length ps + d + length bs = length facts"
proof -
  obtain gs out where g: "foldR (group_fact lib) facts ([], 0) = Inr (gs, d)"
    and out: "mapR (finish_group lib) (sort_key fst gs) = Inr out"
    and ps: "ps = map fst out" and bs: "bs = concat (map snd out)"
    using assms by (auto simp: prepare_batch_def)
  have "grouped_count (sort_key fst gs) = grouped_count gs"
    by (simp add: grouped_count_def sum_mset_sum_list[symmetric])
  moreover have "length out + length (concat (map snd out)) = grouped_count (sort_key fst gs)"
    using finish_count[OF out, of facts] group_facts_ok[OF g] by (simp add: groups_ok_def)
  ultimately show ?thesis using group_facts_count[OF g] by (simp add: ps bs)
qed

text \<open>
  The counts of a result account for the batch: changed heads, duplicates, stale facts and new
  conflicts together never exceed the number of facts, so no fact is counted twice.
\<close>

theorem result_counts_facts_once:
  assumes "wf_catalog cat" and "\<forall>f \<in> set facts. utc_fact f"
    and "reduce_fact_batch lib facts received_at override cat = Inr (res, cat')"
  shows "rr_changed_heads res + rr_duplicates res + rr_stale res + rr_conflicts res \<le> length facts"
proof -
  obtain at ps d bs env lp1 lp where prep: "prepare_batch lib facts = Inr (ps, d, bs)"
    and f: "foldR (rowwise_step env) ps (start_loop cat d) = Inr lp1" "foldR (rowwise_batch_conflict env) bs lp1 = Inr lp"
    and res: "res = result_of (current_commit_seq cat) lp"
    by (rule reduce_parts[OF assms(3)])
  have "\<forall>(f, _) \<in> set ps. utc_fact f" using prepare_batch_ok[OF prep] assms(2) by fastforce
  then have "total lp1 \<le> d + length ps"
    using total_steps[OF f(1) start_inv[OF assms(1)]] by (simp add: total_def start_loop_def)
  then show ?thesis
    using total_conflicts[OF f(2)] prepare_count[OF prep] by (simp add: res result_of_def total_def)
qed

end
