(* ===== verification/Fact_Samples.thy ===== *)
theory Fact_Samples
  imports Fact_Properties
begin

text \<open>
  The path from machine evidence to the tables (its facts are always in UTC), the independence of a
  prepared batch of the order of its facts, and concrete runs that witness the reducer properties.
\<close>

subsection \<open>Facts from evidence\<close>

lemma parse_wire_utc: "parse_wire_datetime lib v field nullable = Inr (Some d) \<Longrightarrow> dt_tz d = Some 0"
  by (auto simp: parse_wire_datetime_def Let_def split: pyval.splits sum.splits pyerr.splits if_splits)

lemma fact_of_identity_utc: "fact_of_identity lib e = Inr f \<Longrightarrow> utc_fact f"
  by (auto simp: fact_of_identity_def utc_fact_def Let_def dest: parse_wire_utc)

lemma evidence_facts_utc:
  assumes "reducer_facts_from_machine_evidence lib ev = Inr facts"
  shows "\<forall>f \<in> set facts. utc_fact f"
proof
  fix f
  assume f: "f \<in> set facts"
  then obtain es where "mapR (fact_of_identity lib) es = Inr facts"
    using assms by (auto simp: reducer_facts_from_machine_evidence_def split: pyval.splits if_splits)
  then show "utc_fact f" using f fact_of_identity_utc by (auto dest: mapR_Inr_mem)
qed

text \<open>
  For every machine evidence the wire delivers, the production path may use either reducer: the
  facts extracted from evidence carry UTC observation times, so with storable sequence numbers both
  reducers give the same result and the same tables, or raise the same exception.
\<close>

theorem evidence_reducers_agree:
  assumes "reducer_facts_from_machine_evidence lib (PDict ev) = Inr facts"
    and "wf_catalog cat" and "\<forall>f \<in> set facts. fits (fc_source_seq f)"
  shows "reduce_fact_batch_setwise lib facts received_at override cat = reduce_fact_batch lib facts received_at override cat"
proof -
  have "\<forall>f \<in> set facts. storable f" using evidence_facts_utc[OF assms(1)] assms(3) by (simp add: storable_def)
  then show ?thesis using assms(2) reducers_agree by blast
qed

subsection \<open>The order of a batch does not matter\<close>

definition fact_slot :: "pylib \<Rightarrow> reducer_fact \<Rightarrow> group_key" where
  "fact_slot lib f = (candidate_key f, case position_key lib f of Inr pos \<Rightarrow> pos | Inl _ \<Rightarrow> [])"

text \<open>Facts that share candidate, position and content hash are the same fact.\<close>

definition consistent :: "pylib \<Rightarrow> reducer_fact list \<Rightarrow> bool" where
  "consistent lib facts \<longleftrightarrow> (\<forall>f \<in> set facts. \<forall>g \<in> set facts.
     fact_slot lib f = fact_slot lib g \<and> fc_evidence_hash f = fc_evidence_hash g \<longrightarrow> f = g)"

definition slot_facts :: "pylib \<Rightarrow> reducer_fact list \<Rightarrow> group_key \<Rightarrow> (string \<times> reducer_fact) set" where
  "slot_facts lib facts k = {(fc_evidence_hash f, f) | f. f \<in> set facts \<and> fact_slot lib f = k}"

lemma group_values_mem: "x \<in> set (group_values gs k) \<Longrightarrow> \<exists>vs. map_of gs k = Some vs \<and> x \<in> set vs"
  by (cases "map_of gs k") (simp_all add: group_values_def)

lemma group_values_update: "group_values (AList.update k vs gs) k' = (if k' = k then vs else group_values gs k')"
  by (simp add: group_values_def update_conv')

lemma group_fact_covers:
  assumes "group_fact lib f st = Inr st'"
  shows "fc_evidence_hash f \<in> fst ` set (group_values (fst st') (fact_slot lib f)) \<and>
    (\<forall>k. fst ` set (group_values (fst st) k) \<subseteq> fst ` set (group_values (fst st') k)) \<and> reducible lib f"
proof -
  obtain pos where v: "validate_fact lib f = Inr f" "position_key lib f = Inr pos"
    using assms validate_fact_same by (fastforce simp: group_fact_def)
  then show ?thesis
    using assms by (auto simp: group_fact_def Let_def fact_slot_def group_values_update reducible_def split: if_splits)
qed

lemma group_facts_cover:
  assumes "foldR (group_fact lib) facts ([], 0) = Inr st"
  shows "\<forall>f \<in> set facts. fc_evidence_hash f \<in> fst ` set (group_values (fst st) (fact_slot lib f)) \<and> reducible lib f"
  using assms
proof (induction facts arbitrary: st rule: rev_induct)
  case (snoc f facts)
  obtain mid where mid: "foldR (group_fact lib) facts ([], 0) = Inr mid" "group_fact lib f mid = Inr st"
    using snoc.prems by (auto simp: foldR_append)
  show ?case
  proof
    fix g
    assume "g \<in> set (facts @ [f])"
    then consider "g = f" | "g \<in> set facts" by auto
    then show "fc_evidence_hash g \<in> fst ` set (group_values (fst st) (fact_slot lib g)) \<and> reducible lib g"
      using group_fact_covers[OF mid(2)] snoc.IH[OF mid(1)] by cases blast+
  qed
qed simp

lemma group_values_slot:
  assumes "foldR (group_fact lib) facts ([], 0) = Inr st" and "consistent lib facts"
  shows "set (group_values (fst st) k) = slot_facts lib facts k"
proof -
  have ok: "groups_ok lib facts (fst st)" by (rule group_facts_ok[OF assms(1)])
  have mem: "f \<in> set facts \<and> fc_evidence_hash f = h \<and> fact_slot lib f = k" if hf: "(h, f) \<in> set (group_values (fst st) k)" for h f
  proof -
    obtain vs where "map_of (fst st) k = Some vs" "(h, f) \<in> set vs"
      using group_values_mem[OF hf] by blast
    then have "group_ok lib facts (k, vs)" using ok by (auto simp: groups_ok_def dest: map_of_SomeD)
    then show ?thesis using \<open>(h, f) \<in> set vs\<close> by (auto simp: group_ok_def fact_slot_def)
  qed
  have "(fc_evidence_hash f, f) \<in> set (group_values (fst st) k)" if f: "f \<in> set facts" "fact_slot lib f = k" for f
  proof -
    obtain g where g: "(fc_evidence_hash f, g) \<in> set (group_values (fst st) k)"
      using group_facts_cover[OF assms(1)] f by fastforce
    then have "g = f" using mem[OF g] assms(2) f by (auto simp: consistent_def)
    then show ?thesis using g by simp
  qed
  then show ?thesis using mem by (auto simp: slot_facts_def)
qed

lemma group_keys:
  assumes "foldR (group_fact lib) facts ([], 0) = Inr st"
  shows "fst ` set (fst st) = fact_slot lib ` set facts"
proof -
  have ok: "groups_ok lib facts (fst st)" by (rule group_facts_ok[OF assms])
  have "k \<in> fact_slot lib ` set facts" if kv: "(k, vs) \<in> set (fst st)" for k vs
  proof -
    have g: "group_ok lib facts (k, vs)" using ok kv by (auto simp: groups_ok_def)
    then obtain h f where "(h, f) \<in> set vs" by (cases vs) (auto simp: group_ok_def)
    then have "f \<in> set facts" "fact_slot lib f = k" using g by (auto simp: group_ok_def fact_slot_def)
    then show ?thesis by blast
  qed
  moreover have "fact_slot lib f \<in> fst ` set (fst st)" if "f \<in> set facts" for f
  proof -
    have "fc_evidence_hash f \<in> fst ` set (group_values (fst st) (fact_slot lib f))"
      using group_facts_cover[OF assms] that by blast
    then have "map_of (fst st) (fact_slot lib f) \<noteq> None" using group_values_mem by fastforce
    then show ?thesis by (metis map_of_eq_None_iff)
  qed
  ultimately show ?thesis by force
qed

lemma sort_keyed_eq:
  assumes "distinct (map fst xs)" and "distinct (map fst ys)" and "set xs = set ys"
  shows "sort_key fst xs = sort_key fst ys"
proof (rule map_sorted_distinct_set_unique[of fst])
  show "inj_on fst (set (sort_key fst xs) \<union> set (sort_key fst ys))"
    using assms by (simp add: distinct_map)
qed (use assms in \<open>simp_all add: distinct_map\<close>)

text \<open>The groups in order, each in its order: what the rest of the preparation reads.\<close>

lemma sorted_groups:
  assumes "distinct (map fst gs)"
  shows "map (\<lambda>g. F (snd g)) (sort_key fst gs) = map (\<lambda>k. F (group_values gs k)) (map fst (sort_key fst gs))"
proof -
  have "group_values gs (fst g) = snd g" if "g \<in> set gs" for g
  proof -
    have "map_of gs (fst g) = Some (snd g)" by (simp add: that assms)
    then show ?thesis by (simp add: group_values_def)
  qed
  then show ?thesis by (simp add: comp_def)
qed

lemma group_values_distinct: "groups_ok lib facts gs \<Longrightarrow> distinct (map fst (group_values gs k))"
  by (auto simp: group_values_def groups_ok_def group_ok_def split: option.splits dest!: map_of_SomeD)

lemma group_orders_eq:
  assumes g: "foldR (group_fact lib) facts ([], 0) = Inr st" and g': "foldR (group_fact lib) facts' ([], 0) = Inr st'"
    and s: "set facts = set facts'" and c: "consistent lib facts"
  shows "map (\<lambda>g. group_order (snd g)) (sort_key fst (fst st)) = map (\<lambda>g. group_order (snd g)) (sort_key fst (fst st'))"
proof -
  have c': "consistent lib facts'" using c s by (simp add: consistent_def)
  have ok: "groups_ok lib facts (fst st)" "groups_ok lib facts' (fst st')"
    using group_facts_ok g g' by blast+
  have d: "distinct (map fst (fst st))" "distinct (map fst (fst st'))" using ok by (simp_all add: groups_ok_def)
  have "set (group_values (fst st) k) = set (group_values (fst st') k)" for k
    using group_values_slot[OF g c] group_values_slot[OF g' c'] s by (simp add: slot_facts_def)
  then have order: "group_order (group_values (fst st) k) = group_order (group_values (fst st') k)" for k
    unfolding group_order_def using sort_keyed_eq[OF group_values_distinct[OF ok(1)] group_values_distinct[OF ok(2)]] by metis
  have "set (map fst (sort_key fst (fst st))) = set (map fst (sort_key fst (fst st')))"
    using group_keys[OF g] group_keys[OF g'] s by simp
  moreover have "distinct (map fst (sort_key fst (fst st)))" "distinct (map fst (sort_key fst (fst st')))"
    using d by (simp_all add: distinct_map)
  ultimately have "map fst (sort_key fst (fst st)) = map fst (sort_key fst (fst st'))"
    by (intro sorted_distinct_set_unique) simp_all
  then show ?thesis by (simp only: sorted_groups[OF d(1)] sorted_groups[OF d(2)] order)
qed

lemma mapR_cong_map:
  "map h xs = map h ys \<Longrightarrow> (\<And>x y. h x = h y \<Longrightarrow> f x = f y) \<Longrightarrow> mapR f xs = mapR f ys"
proof (induction xs arbitrary: ys)
  case (Cons x xs)
  obtain y zs where ys: "ys = y # zs" "h x = h y" "map h xs = map h zs" using Cons.prems(1) by (cases ys) auto
  have "f x = f y" by (rule Cons.prems(2)[OF ys(2)])
  moreover have "mapR f xs = mapR f zs" by (rule Cons.IH[OF ys(3) Cons.prems(2)])
  ultimately show ?case by (simp add: ys(1))
qed simp

lemma prepare_order:
  assumes "prepare_batch lib facts = Inr out" and p: "mset facts = mset facts'" and c: "consistent lib facts"
  shows "prepare_batch lib facts' = Inr out"
proof -
  obtain ps d bs where out: "out = (ps, d, bs)" by (metis prod_cases3)
  obtain gs res where g: "foldR (group_fact lib) facts ([], 0) = Inr (gs, d)"
    and res: "mapR (finish_group lib) (sort_key fst gs) = Inr res" "ps = map fst res" "bs = concat (map snd res)"
    using assms(1) out by (auto simp: prepare_batch_def)
  have s: "set facts = set facts'" using p mset_eq_setD by blast
  obtain st' where g': "foldR (group_fact lib) facts' ([], 0) = Inr st'"
    using group_facts_total[of facts' lib] group_facts_cover[OF g] s by blast
  have orders: "map (\<lambda>g. group_order (snd g)) (sort_key fst gs) = map (\<lambda>g. group_order (snd g)) (sort_key fst (fst st'))"
    using group_orders_eq[OF g g' s c] by simp
  have fin: "mapR (finish_group lib) (sort_key fst (fst st')) = Inr res"
    using mapR_cong_map[OF orders, of "finish_group lib"] res(1) by (simp add: finish_group_def)
  have prep': "prepare_batch lib facts' = Inr (ps, snd st', bs)"
    using g' fin res by (cases st') (simp add: prepare_batch_def)
  have prep: "prepare_batch lib facts = Inr (ps, d, bs)" using assms(1) out by simp
  have "snd st' = d"
    using prepare_count[OF prep] prepare_count[OF prep'] mset_eq_length[OF p] by simp
  then show ?thesis using prep' out by simp
qed

text \<open>
  The order in which a machine lists its facts does not matter: when facts with the same candidate,
  position and content hash are the same fact, a reordered batch gives the same result and the same
  tables.
\<close>

theorem reducer_ignores_batch_order:
  assumes "reduce_fact_batch lib facts received_at override cat = Inr out"
    and "mset facts = mset facts'" and "consistent lib facts"
  shows "reduce_fact_batch lib facts' received_at override cat = Inr out"
proof -
  obtain prep where prep: "prepare_batch lib facts = Inr prep"
    using assms(1) by (auto simp: reduce_fact_batch_def)
  have "prepare_batch lib facts' = prepare_batch lib facts" using prepare_order[OF prep assms(2,3)] prep by simp
  then show ?thesis
    using assms(1) mset_eq_length[OF assms(2)] by (simp add: reduce_fact_batch_def)
qed

subsection \<open>Concrete runs\<close>

definition empty_catalog :: catalog where
  "empty_catalog = \<lparr>cat_heads = [], cat_receipts = [], cat_conflicts = [], cat_commit_seq = 41, cat_updated_at = []\<rparr>"

definition sample_reducer_fact :: reducer_fact where
  "sample_reducer_fact = \<lparr>fc_family = ''activity'', fc_subject_key = ''run:r1'', fc_source = ''scan'', fc_source_epoch = [],
     fc_source_seq = Some 7, fc_dedupe_key = sha256_hexdigest ''d1'', fc_evidence_hash = sha256_hexdigest sample_json,
     fc_value = sample_fact, fc_observed_at = Some (DT 1714521600000000 (Some 0)), fc_session_id = Some ''s1'',
     fc_valid_until = None, fc_raw_locator = None\<rparr>"

definition sample_second_fact :: reducer_fact where
  "sample_second_fact = sample_reducer_fact\<lparr>fc_source_seq := Some 8, fc_dedupe_key := sha256_hexdigest ''d2''\<rparr>"

definition sample_received :: pydatetime where
  "sample_received = DT 1714521601000000 (Some 0)"

lemma empty_wf: "wf_catalog empty_catalog" "bounded_catalog empty_catalog"
  by (simp_all add: wf_catalog_def unique_keys_def children_have_heads_def heads_typed_def bounded_catalog_def
      rows_of_def head_count_def empty_catalog_def)

lemma sample_from_evidence:
  "reducer_facts_from_machine_evidence sample_lib (PDict sample_evidence) = Inr [sample_reducer_fact]"
proof -
  have "parse_wire_datetime sample_lib (dget sample_fact ''observed_at'') ''observed_at'' False =
      Inr (Some (DT 1714521600000000 (Some 0)))"
    "parse_wire_datetime sample_lib (dget sample_fact ''valid_until'') ''valid_until'' True = Inr None"
    "str_or_none (dget sample_fact ''session_id'') = Some ''s1''" "str_or_none (dget sample_fact ''raw_locator'') = None"
    "eq_int (dget sample_evidence ''schema_version'') 3"
    by (code_simp, code_simp, code_simp, code_simp, simp add: sample_evidence_def)
  then show ?thesis
    by (simp add: reducer_facts_from_machine_evidence_def sample_validates fact_of_identity_def sample_validated_def
        sample_reducer_fact_def)
qed

lemma sample_storable: "storable sample_reducer_fact"
  by (simp add: storable_def utc_fact_def fits_def bind_int_def sample_reducer_fact_def)

lemma sample_reducible: "reducible sample_lib sample_reducer_fact"
proof -
  have "length sample_json \<le> MAX_VALUE_JSON_BYTES" by code_simp
  moreover have "py_strip ''s1'' = ''s1''" by code_simp
  moreover have "in_range_us 1714521600000000" by code_simp
  ultimately have "validate_fact sample_lib sample_reducer_fact = Inr sample_reducer_fact"
    by (simp add: validate_fact_def sample_reducer_fact_def guard_def sha256_shape sample_hash sample_canonical
        check_aware_def aware_def astimezone_def)
  then show ?thesis by (simp add: reducible_def position_key_def sample_reducer_fact_def)
qed

lemma sample_received_aware: "aware sample_received ''received_at'' = Inr (UTC 1714521601000000)"
  by code_simp

lemma sample_reduces:
  "\<exists>res cat'. reduce_fact_batch sample_lib [sample_reducer_fact] sample_received None empty_catalog = Inr (res, cat')"
  using reduce_total[OF empty_wf(1) _ _ sample_received_aware, of "[sample_reducer_fact]" sample_lib None]
    sample_reducible sample_storable by (simp add: MAX_REDUCER_FACTS_def storable_def)

theorem setwise_equals_rowwise_witness:
  "reduce_fact_batch_setwise sample_lib [sample_reducer_fact] sample_received None empty_catalog =
   reduce_fact_batch sample_lib [sample_reducer_fact] sample_received None empty_catalog"
  using setwise_equals_rowwise[OF empty_wf(1), of "[sample_reducer_fact]"] sample_storable by simp

theorem evidence_reducers_agree_witness:
  "\<exists>facts. reducer_facts_from_machine_evidence sample_lib (PDict sample_evidence) = Inr facts \<and> facts \<noteq> [] \<and>
     reduce_fact_batch_setwise sample_lib facts sample_received None empty_catalog =
     reduce_fact_batch sample_lib facts sample_received None empty_catalog"
  using evidence_reducers_agree[OF sample_from_evidence empty_wf(1)] sample_from_evidence sample_storable
  by (auto simp: storable_def)

theorem reducer_keeps_tables_bounded_witness:
  "\<exists>res cat'. reduce_fact_batch sample_lib [sample_reducer_fact] sample_received None empty_catalog = Inr (res, cat') \<and>
     bounded_catalog cat'"
proof -
  obtain res cat' where r: "reduce_fact_batch sample_lib [sample_reducer_fact] sample_received None empty_catalog = Inr (res, cat')"
    using sample_reduces by blast
  have "\<forall>f \<in> set [sample_reducer_fact]. utc_fact f" using sample_storable by (simp add: storable_def)
  from reducer_keeps_tables_bounded[OF empty_wf this r] r show ?thesis by blast
qed

theorem commit_advances_with_writes_witness:
  "\<exists>res cat'. reduce_fact_batch sample_lib [sample_reducer_fact] sample_received None empty_catalog = Inr (res, cat') \<and>
     rr_commit_seq res = cat_commit_seq cat'"
proof -
  obtain res cat' where r: "reduce_fact_batch sample_lib [sample_reducer_fact] sample_received None empty_catalog = Inr (res, cat')"
    using sample_reduces by blast
  have "\<forall>f \<in> set [sample_reducer_fact]. utc_fact f" using sample_storable by (simp add: storable_def)
  from commit_advances_with_writes[OF empty_wf this r] r show ?thesis by blast
qed

theorem valid_batch_is_reduced_witness:
  "\<exists>res cat'. reduce_fact_batch sample_lib [sample_reducer_fact] sample_received None empty_catalog = Inr (res, cat') \<and>
     reduce_fact_batch_setwise sample_lib [sample_reducer_fact] sample_received None empty_catalog = Inr (res, cat')"
  using valid_batch_is_reduced[OF empty_wf(1), of "[sample_reducer_fact]" sample_lib, OF _ _ sample_received_aware]
    sample_reducible sample_storable by simp

theorem result_counts_facts_once_witness:
  "\<exists>res cat'. reduce_fact_batch sample_lib [sample_reducer_fact] sample_received None empty_catalog = Inr (res, cat') \<and>
     rr_changed_heads res + rr_duplicates res + rr_stale res + rr_conflicts res \<le> 1"
proof -
  obtain res cat' where r: "reduce_fact_batch sample_lib [sample_reducer_fact] sample_received None empty_catalog = Inr (res, cat')"
    using sample_reduces by blast
  have "\<forall>f \<in> set [sample_reducer_fact]. utc_fact f" using sample_storable by (simp add: storable_def)
  from result_counts_facts_once[OF empty_wf(1) this r] r show ?thesis by auto
qed

lemma sample_second: "reducible sample_lib sample_second_fact" "storable sample_second_fact"
  using sample_reducible sample_storable
  by (auto simp: reducible_def storable_def utc_fact_def fits_def bind_int_def position_key_def sample_second_fact_def
      sample_reducer_fact_def validate_fact_def guard_def sha256_shape)

theorem reducer_ignores_batch_order_witness:
  "\<exists>out. reduce_fact_batch sample_lib [sample_reducer_fact, sample_second_fact] sample_received None empty_catalog = Inr out \<and>
     reduce_fact_batch sample_lib [sample_second_fact, sample_reducer_fact] sample_received None empty_catalog = Inr out"
proof -
  let ?batch = "[sample_reducer_fact, sample_second_fact]"
  obtain out where r: "reduce_fact_batch sample_lib ?batch sample_received None empty_catalog = Inr out"
    using reduce_total[OF empty_wf(1) _ _ sample_received_aware, of ?batch sample_lib None]
      sample_reducible sample_storable sample_second by (auto simp: MAX_REDUCER_FACTS_def storable_def)
  have "''seq:'' @ pad_int 20 7 \<noteq> ''seq:'' @ pad_int 20 8" by code_simp
  then have "fact_slot sample_lib sample_reducer_fact \<noteq> fact_slot sample_lib sample_second_fact"
    by (simp add: fact_slot_def position_key_def sample_second_fact_def sample_reducer_fact_def)
  then have "consistent sample_lib ?batch" by (auto simp: consistent_def)
  from reducer_ignores_batch_order[OF r _ this, of "[sample_second_fact, sample_reducer_fact]"] r show ?thesis by simp
qed

text \<open>A catalog whose head for the candidate has sequence number 3, and the batch that replaces it.\<close>

definition sample_old_head :: head_row where
  "sample_old_head = \<lparr>hr_key = Candidate ''activity'' ''run:r1'' ''scan'' [], hr_session_id = Some ''s1'',
     hr_ordering_mode = ''sequenced'', hr_source_seq = Some 3, hr_evidence_hash = [], hr_observed_at = None,
     hr_valid_until = None, hr_value_json = ''{}'', hr_raw_locator = None, hr_updated_commit_seq = 40, hr_received_at = 0\<rparr>"

definition sample_catalog :: catalog where
  "sample_catalog = empty_catalog\<lparr>cat_heads := [sample_old_head]\<rparr>"

lemma sample_catalog_wf: "wf_catalog sample_catalog"
  by (simp add: wf_catalog_def unique_keys_def children_have_heads_def heads_typed_def sample_catalog_def
      empty_catalog_def sample_old_head_def)

definition sample_env :: env where
  "sample_env = \<lparr>ev_lib = sample_lib, ev_received_at = UTC 1714521601000000, ev_override = None\<rparr>"

definition sample_new_head :: head_row where
  "sample_new_head = head_values sample_env sample_reducer_fact sample_json 42"

lemma sample_prepared: "prepare_batch sample_lib [sample_reducer_fact] = Inr ([(sample_reducer_fact, sample_json)], 0, [])"
  using sample_reducible
  by (auto simp: prepare_batch_def group_fact_def group_values_def finish_group_def group_order_def reducible_def
      Let_def) (simp add: sample_reducer_fact_def sample_canonical)

lemma sample_replaces:
  "\<exists>res cat'. reduce_fact_batch sample_lib [sample_reducer_fact] sample_received None sample_catalog = Inr (res, cat') \<and>
     select_head (hr_key sample_old_head) (cat_heads cat') = Some sample_new_head"
proof -
  let ?pos = "''seq:'' @ pad_int 20 7"
  let ?r = "receipt_values sample_env sample_reducer_fact ?pos 42"
  have pos: "position_key (ev_lib sample_env) sample_reducer_fact = Inr ?pos"
    by (simp add: position_key_def sample_env_def sample_reducer_fact_def)
  have verdict: "rowwise_verdict sample_catalog sample_reducer_fact ?pos = Inr Accept"
    by (simp add: rowwise_verdict_def select_dedupe_def select_position_def select_head_def rowwise_head_verdict_def
        sample_catalog_def empty_catalog_def sample_old_head_def sample_reducer_fact_def candidate_key_def ordering_mode_def)
  obtain lp where step: "rowwise_step sample_env (sample_reducer_fact, sample_json) (start_loop sample_catalog 0) = Inr lp"
    and heads: "cat_heads (lp_cat lp) = [sample_new_head]" and touched: "lp_touched lp = [hr_key sample_old_head]"
    using pos verdict
    by (auto simp: rowwise_step_def start_loop_def rowwise_accept_def commit_seq_def sample_env_def advance_commit_seq_def
        bind_int_def sample_new_head_def sample_catalog_def empty_catalog_def touch_def Let_def upsert_def
        sample_old_head_def head_values_def candidate_key_def sample_reducer_fact_def)
  have key: "hr_key sample_new_head = hr_key sample_old_head"
    by (simp add: sample_new_head_def head_values_def candidate_key_def sample_reducer_fact_def sample_old_head_def)
  let ?c = "rowwise_prune (lp_touched lp) (lp_cat lp)"
  have "cat_heads ?c = [sample_new_head]"
    unfolding rowwise_prune_def fold_prune_children touched touched_families_def
    by (simp add: prune_fact_family_def Let_def heads kept_def keep_candidates_def MAX_HEADS_PER_FAMILY_def key)
  then have "select_head (hr_key sample_old_head) (cat_heads ?c) = Some sample_new_head"
    by (simp add: select_head_def key)
  then show ?thesis
    using step sample_prepared sample_received_aware
    by (simp add: reduce_fact_batch_def MAX_REDUCER_FACTS_def check_override_def Let_def sample_env_def[symmetric])
qed

theorem heads_never_regress_witness:
  "sample_new_head = sample_old_head \<or> head_advances sample_old_head sample_new_head"
proof -
  obtain res cat' where r: "reduce_fact_batch sample_lib [sample_reducer_fact] sample_received None sample_catalog = Inr (res, cat')"
    and new: "select_head (hr_key sample_old_head) (cat_heads cat') = Some sample_new_head"
    using sample_replaces by blast
  have old: "select_head (hr_key sample_old_head) (cat_heads sample_catalog) = Some sample_old_head"
    by (simp add: select_head_def sample_catalog_def)
  have "\<forall>f \<in> set [sample_reducer_fact]. utc_fact f" using sample_storable by (simp add: storable_def)
  from heads_never_regress[OF sample_catalog_wf this r old new] show ?thesis .
qed

end
