(* ===== verification/Fact_Reads.thy ===== *)
theory Fact_Reads
  imports Fact_Store
begin

text \<open>
  The reads of \<open>catalogd/fact_reducer.py\<close>: the heads of one subject, of one session, the bounded recent heads
  of one session, and the page of many sessions in one query. Rows are the rows of the table; a query
  without \<open>ORDER BY\<close> returns them in table order.
\<close>

definition read_fact_heads :: "string \<Rightarrow> string \<Rightarrow> catalog \<Rightarrow> int \<times> head_row list" where
  "read_fact_heads family subject_key cat =
     (current_commit_seq cat,
      sort_key (\<lambda>h. (cd_source (hr_key h), cd_source_epoch (hr_key h)))
        (filter (\<lambda>h. cd_family (hr_key h) = family \<and> cd_subject_key (hr_key h) = subject_key) (cat_heads cat)))"

definition bad_session_id :: "string \<Rightarrow> bool" where
  "bad_session_id session_id \<longleftrightarrow> session_id = [] \<or> length session_id > 255"

definition read_session_fact_heads :: "string \<Rightarrow> catalog \<Rightarrow> (int \<times> head_row list) res" where
  "read_session_fact_heads session_id cat =
     bindR (guard (\<not> bad_session_id session_id) ''session_id is missing or too long'') (\<lambda>_.
     Inr (current_commit_seq cat, filter (\<lambda>h. hr_session_id h = Some session_id) (cat_heads cat)))"

text \<open>\<open>ORDER BY updated_commit_seq DESC, family, subject_key, source, source_epoch\<close>\<close>

definition recent_order :: "head_row \<Rightarrow> int \<times> candidate" where
  "recent_order h = (- hr_updated_commit_seq h, hr_key h)"

definition read_bounded_session_fact_heads ::
  "string \<Rightarrow> string list \<Rightarrow> int \<Rightarrow> catalog \<Rightarrow> (int \<times> head_row list \<times> bool) res" where
  "read_bounded_session_fact_heads session_id families limit cat =
     bindR (guard (\<not> bad_session_id session_id) ''session_id is missing or too long'') (\<lambda>_.
     bindR (guard (families \<noteq> [] \<and> limit > 0) ''fact head families and limit are required'') (\<lambda>_.
     bindR (bind_int (Some (limit + 1))) (\<lambda>_.
     let rows = take (nat (limit + 1)) (sort_key recent_order
           (filter (\<lambda>h. hr_session_id h = Some session_id \<and> cd_family (hr_key h) \<in> set families) (cat_heads cat)))
     in Inr (current_commit_seq cat, take (nat limit) rows, int (length rows) > limit))))"

definition page_order :: "head_row \<Rightarrow> string \<times> int \<times> candidate" where
  "page_order h = (case hr_session_id h of Some s \<Rightarrow> s | None \<Rightarrow> [], - hr_updated_commit_seq h, hr_key h)"

text \<open>One row of the page: appended to the heads of its session, or its session noted as truncated.\<close>

definition page_row ::
  "int \<Rightarrow> head_row \<Rightarrow> (string \<times> head_row list) list \<times> string set \<Rightarrow> (string \<times> head_row list) list \<times> string set" where
  "page_row limit_per_session row st =
     (let session_id = (case hr_session_id row of Some s \<Rightarrow> s | None \<Rightarrow> ''None'');
          heads = (case map_of (fst st) session_id of Some hs \<Rightarrow> hs | None \<Rightarrow> [])
      in if int (length heads) < limit_per_session
         then (AList.update session_id (heads @ [row]) (fst st), snd st)
         else (fst st, insert session_id (snd st)))"

definition read_bounded_sessions_fact_heads ::
  "string list \<Rightarrow> string list \<Rightarrow> int \<Rightarrow> catalog \<Rightarrow> (int \<times> (string \<times> head_row list) list \<times> string set) res" where
  "read_bounded_sessions_fact_heads session_ids families limit_per_session cat =
     bindR (guard (length session_ids \<le> 200 \<and> \<not> list_ex bad_session_id session_ids)
       ''session_ids must contain at most 200 bounded identifiers'') (\<lambda>_.
     bindR (guard (families \<noteq> [] \<and> limit_per_session > 0) ''fact head families and limit_per_session are required'') (\<lambda>_.
     let grouped = fold (\<lambda>s d. AList.update s [] d) session_ids [];
         rows = sort_key page_order (filter (\<lambda>h. (case hr_session_id h of Some s \<Rightarrow> s \<in> set session_ids | None \<Rightarrow> False)
            \<and> cd_family (hr_key h) \<in> set families) (cat_heads cat));
         page = fold (page_row limit_per_session) rows (grouped, {})
     in Inr (if session_ids = [] then (current_commit_seq cat, grouped, {})
             else (current_commit_seq cat, fst page, snd page))))"

subsection \<open>Lemmas\<close>

lemma sort_key_cong_order:
  assumes "\<And>x y. x \<in> set xs \<Longrightarrow> y \<in> set xs \<Longrightarrow> f x \<le> f y \<longleftrightarrow> g x \<le> g y"
  shows "sort_key f xs = sort_key g xs"
  using assms
proof (induction xs)
  case (Cons x xs)
  have "insort_key f x ys = insort_key g x ys" if "set ys \<subseteq> set xs" for ys
    using that Cons.prems by (induction ys) auto
  moreover have "sort_key f xs = sort_key g xs" using Cons by simp
  ultimately show ?case by (simp add: sort_key_def set_sort[unfolded sort_key_def])
qed simp

text \<open>The heads of one session among the rows of a page are exactly the rows the one-session query orders.\<close>

lemma page_rows_of_session:
  assumes "sid \<in> set session_ids"
  shows "filter (\<lambda>h. hr_session_id h = Some sid) (sort_key page_order
      (filter (\<lambda>h. (case hr_session_id h of Some s \<Rightarrow> s \<in> set session_ids | None \<Rightarrow> False) \<and> P h) hs))
    = sort_key recent_order (filter (\<lambda>h. hr_session_id h = Some sid \<and> P h) hs)"
proof -
  have "(\<lambda>h. (case hr_session_id h of Some s \<Rightarrow> s \<in> set session_ids | None \<Rightarrow> False) \<and> P h \<and> hr_session_id h = Some sid)
      = (\<lambda>h. hr_session_id h = Some sid \<and> P h)"
    using assms by auto
  moreover have "sort_key page_order (filter (\<lambda>h. hr_session_id h = Some sid \<and> P h) hs)
      = sort_key recent_order (filter (\<lambda>h. hr_session_id h = Some sid \<and> P h) hs)"
    by (rule sort_key_cong_order) (auto simp: page_order_def recent_order_def less_eq_prod_def)
  ultimately show ?thesis by (simp add: filter_sort)
qed

lemma grouped_start: "map_of (fold (\<lambda>s d. AList.update s [] d) ids d) sid
    = (if sid \<in> set ids then Some [] else map_of d sid)"
  by (induction ids arbitrary: d) (auto simp: update_conv')

lemma page_fold:
  assumes "\<forall>r \<in> set rows. \<exists>s. hr_session_id r = Some s \<and> s \<in> dom (map_of g)" and "0 \<le> n"
    and "map_of g sid = Some hs" and "int (length hs) \<le> n"
  shows "map_of (fst (fold (page_row n) rows (g, tr))) sid
      = Some (take (nat n) (hs @ filter (\<lambda>h. hr_session_id h = Some sid) rows))
    \<and> (sid \<in> snd (fold (page_row n) rows (g, tr)) \<longleftrightarrow>
        sid \<in> tr \<or> int (length (hs @ filter (\<lambda>h. hr_session_id h = Some sid) rows)) > n)"
  using assms
proof (induction rows arbitrary: g tr hs)
  case (Cons r rows)
  obtain s rs where s: "hr_session_id r = Some s" "map_of g s = Some rs" using Cons.prems(1) by auto
  show ?case
  proof (cases "int (length rs) < n")
    case True
    have step: "page_row n r (g, tr) = (AList.update s (rs @ [r]) g, tr)"
      using s True by (simp add: page_row_def)
    have dom: "\<forall>x \<in> set rows. \<exists>s'. hr_session_id x = Some s' \<and> s' \<in> dom (map_of (AList.update s (rs @ [r]) g))"
      using Cons.prems(1) by (fastforce simp: update_conv' dom_def)
    show ?thesis
    proof (cases "sid = s")
      case True
      then have "hs = rs" using Cons.prems(3) s by simp
      then show ?thesis
        using Cons.IH[OF dom Cons.prems(2), of "rs @ [r]" tr] True s step \<open>int (length rs) < n\<close>
        by (simp add: update_conv')
    next
      case False
      then show ?thesis
        using Cons.IH[OF dom Cons.prems(2), of hs tr] Cons.prems(3,4) s step
        by (simp add: update_conv')
    qed
  next
    case False
    have step: "page_row n r (g, tr) = (g, insert s tr)"
      using s False by (simp add: page_row_def)
    have ih: "map_of (fst (fold (page_row n) rows (g, insert s tr))) sid
      = Some (take (nat n) (hs @ filter (\<lambda>h. hr_session_id h = Some sid) rows))
    \<and> (sid \<in> snd (fold (page_row n) rows (g, insert s tr)) \<longleftrightarrow>
        sid \<in> insert s tr \<or> int (length (hs @ filter (\<lambda>h. hr_session_id h = Some sid) rows)) > n)"
      using Cons.IH[of g hs "insert s tr"] Cons.prems by simp
    show ?thesis
    proof (cases "sid = s")
      case True
      then have "hs = rs" using Cons.prems(3) s by simp
      then have "int (length hs) = n" using False Cons.prems(4) by simp
      then show ?thesis using ih step True s by (auto simp: nat_int)
    next
      case False
      then show ?thesis using ih step s by simp
    qed
  qed
qed auto

lemma take_limit: "n > 0 \<Longrightarrow> take (nat n) (take (nat (n + 1)) xs) = take (nat n) xs"
  "n > 0 \<Longrightarrow> int (length (take (nat (n + 1)) xs)) > n \<longleftrightarrow> int (length xs) > n"
  by (simp_all add: min_def) linarith

lemma bounded_read_Inr:
  "read_bounded_session_fact_heads sid families n cat = Inr r \<longleftrightarrow>
     \<not> bad_session_id sid \<and> families \<noteq> [] \<and> n > 0 \<and> n + 1 < 2 ^ 63
     \<and> r = (current_commit_seq cat,
          take (nat n) (sort_key recent_order
            (filter (\<lambda>h. hr_session_id h = Some sid \<and> cd_family (hr_key h) \<in> set families) (cat_heads cat))),
          int (length (filter (\<lambda>h. hr_session_id h = Some sid \<and> cd_family (hr_key h) \<in> set families) (cat_heads cat))) > n)"
  by (auto simp: read_bounded_session_fact_heads_def bind_int_def Let_def guard_def take_limit simp del: length_take
      split: if_splits)

text \<open>
  The batched read is the one-session read: for every requested session the page holds exactly the heads
  \<open>read_bounded_session_fact_heads\<close> returns, at the same commit, and marks the session truncated exactly when
  that read does.
\<close>

theorem bounded_page_agrees:
  assumes "read_bounded_sessions_fact_heads session_ids families n cat = Inr (commit, page, truncated)"
    and "sid \<in> set session_ids" and "n + 1 < 2 ^ 63"
  shows "\<exists>heads. map_of page sid = Some heads
     \<and> read_bounded_session_fact_heads sid families n cat = Inr (commit, heads, sid \<in> truncated)"
proof -
  let ?all = "\<lambda>h. (case hr_session_id h of Some s \<Rightarrow> s \<in> set session_ids | None \<Rightarrow> False) \<and> cd_family (hr_key h) \<in> set families"
  let ?rows = "sort_key page_order (filter ?all (cat_heads cat))"
  let ?start = "fold (\<lambda>s d. AList.update s [] d) session_ids []"
  let ?one = "sort_key recent_order (filter (\<lambda>h. hr_session_id h = Some sid \<and> cd_family (hr_key h) \<in> set families) (cat_heads cat))"
  have g: "length session_ids \<le> 200" "\<not> list_ex bad_session_id session_ids" "families \<noteq> []" "n > 0"
    and res: "commit = current_commit_seq cat" "page = fst (fold (page_row n) ?rows (?start, {}))"
      "truncated = snd (fold (page_row n) ?rows (?start, {}))"
    using assms(1,2) by (auto simp: read_bounded_sessions_fact_heads_def Let_def split: if_splits)
  have dom: "\<forall>r \<in> set ?rows. \<exists>s. hr_session_id r = Some s \<and> s \<in> dom (map_of ?start)"
    by (auto simp: grouped_start split: option.splits)
  have "map_of ?start sid = Some []" using assms(2) by (simp add: grouped_start)
  from page_fold[OF dom _ this, of n "{}"] g(4)
  have "map_of page sid = Some (take (nat n) ?one)" "sid \<in> truncated \<longleftrightarrow> int (length ?one) > n"
    using res(2,3) page_rows_of_session[OF assms(2), of "\<lambda>h. cd_family (hr_key h) \<in> set families"] by simp_all
  moreover have "\<not> bad_session_id sid" using g(2) assms(2) by (auto simp: list_ex_iff)
  ultimately show ?thesis
    using g(3,4) res(1) assms(3) by (simp add: bounded_read_Inr)
qed

text \<open>
  A bounded read loses nothing silently: what it returns are heads of the session in the requested families,
  at most \<open>limit\<close> of them, every omitted head was written by the same or an earlier commit than every returned
  one, and when it does not report truncation it returns all of them.
\<close>

theorem bounded_read_complete:
  assumes "read_bounded_session_fact_heads sid families n cat = Inr (commit, heads, truncated)"
  shows "int (length heads) \<le> n
    \<and> set heads \<subseteq> {h \<in> set (cat_heads cat). hr_session_id h = Some sid \<and> cd_family (hr_key h) \<in> set families}
    \<and> (\<not> truncated \<longrightarrow>
        set heads = {h \<in> set (cat_heads cat). hr_session_id h = Some sid \<and> cd_family (hr_key h) \<in> set families})
    \<and> (\<forall>h \<in> set (cat_heads cat). hr_session_id h = Some sid \<and> cd_family (hr_key h) \<in> set families \<longrightarrow>
        h \<in> set heads \<or> (\<forall>k \<in> set heads. hr_updated_commit_seq h \<le> hr_updated_commit_seq k))"
proof -
  let ?one = "sort_key recent_order (filter (\<lambda>h. hr_session_id h = Some sid \<and> cd_family (hr_key h) \<in> set families) (cat_heads cat))"
  have n: "n > 0" and heads: "heads = take (nat n) ?one" and tr: "truncated \<longleftrightarrow> int (length ?one) > n"
    using assms by (simp_all add: bounded_read_Inr)
  have "sorted (map recent_order (take (nat n) ?one @ drop (nat n) ?one))" by simp
  then have older: "recent_order k \<le> recent_order h" if "k \<in> set heads" "h \<in> set (drop (nat n) ?one)" for h k
    using that heads by (auto simp: sorted_append simp del: append_take_drop_id)
  have mem: "set ?one = {h \<in> set (cat_heads cat). hr_session_id h = Some sid \<and> cd_family (hr_key h) \<in> set families}"
    by auto
  have parts: "set ?one = set heads \<union> set (drop (nat n) ?one)"
    unfolding heads by (simp only: set_append[symmetric] append_take_drop_id)
  have last: "h \<in> set heads \<or> (\<forall>k \<in> set heads. hr_updated_commit_seq h \<le> hr_updated_commit_seq k)"
    if h: "h \<in> set ?one" for h
  proof (cases "h \<in> set heads")
    case False
    then have "h \<in> set (drop (nat n) ?one)" using h parts by blast
    then have "\<forall>k \<in> set heads. recent_order k \<le> recent_order h" using older by blast
    then show ?thesis by (auto simp: recent_order_def less_eq_prod_def)
  qed simp
  show ?thesis
  proof (intro conjI ballI impI)
    show "int (length heads) \<le> n" using heads n by simp
    show "set heads \<subseteq> {h \<in> set (cat_heads cat). hr_session_id h = Some sid \<and> cd_family (hr_key h) \<in> set families}"
      using parts unfolding mem[symmetric] by (rule equalityE) (rule le_supE)
    show "set heads = {h \<in> set (cat_heads cat). hr_session_id h = Some sid \<and> cd_family (hr_key h) \<in> set families}"
      if "\<not> truncated"
      using that tr heads unfolding mem[symmetric] by simp
    show "h \<in> set heads \<or> (\<forall>k \<in> set heads. hr_updated_commit_seq h \<le> hr_updated_commit_seq k)"
      if "h \<in> set (cat_heads cat)" "hr_session_id h = Some sid \<and> cd_family (hr_key h) \<in> set families" for h
      using that by (intro last) (simp add: mem)
  qed
qed

definition stored_head :: "string \<Rightarrow> int \<Rightarrow> head_row" where
  "stored_head subject commit = \<lparr>hr_key = Candidate ''activity'' subject ''engine'' [], hr_session_id = Some ''s1'',
     hr_ordering_mode = ''sequenced'', hr_source_seq = Some 1, hr_evidence_hash = ''h'', hr_observed_at = None,
     hr_valid_until = None, hr_value_json = ''{}'', hr_raw_locator = None, hr_updated_commit_seq = commit,
     hr_received_at = 0\<rparr>"

definition two_heads :: catalog where
  "two_heads = \<lparr>cat_heads = [stored_head ''run:a'' 1, stored_head ''run:b'' 2], cat_receipts = [], cat_conflicts = [],
     cat_commit_seq = 2, cat_updated_at = []\<rparr>"

lemma two_heads_read:
  "read_bounded_session_fact_heads ''s1'' [''activity''] 1 two_heads = Inr (2, [stored_head ''run:b'' 2], True)"
  by code_simp

lemma two_heads_page:
  "read_bounded_sessions_fact_heads [''s1'', ''s2''] [''activity''] 1 two_heads
     = Inr (2, [(''s1'', [stored_head ''run:b'' 2]), (''s2'', [])], {''s1''})"
  by code_simp

theorem bounded_page_agrees_witness:
  "\<exists>heads. map_of [(''s1'', [stored_head ''run:b'' 2]), (''s2'', [])] ''s1'' = Some heads
     \<and> read_bounded_session_fact_heads ''s1'' [''activity''] 1 two_heads = Inr (2, heads, ''s1'' \<in> {''s1''})"
  by (rule bounded_page_agrees[OF two_heads_page]) simp_all

theorem bounded_read_complete_witness:
  "set [stored_head ''run:b'' 2] \<subseteq> set (cat_heads two_heads)"
  using bounded_read_complete[OF two_heads_read] by auto

end
