(* ===== verification/Console_Control.thy ===== *)
theory Console_Control
  imports Py_Prelude
begin

text \<open>
  \<open>services/console_control_projection.py\<close>: one typed answer for the reachability of a Console
  session and its turn-scoped actions, its rendering as catalog facts, and the two ways to build it.
\<close>

datatype console_turn_state = Turn_idle | Turn_queued | Turn_starting | Turn_active | Turn_draining

datatype console_blocker =
  Blk_session_closed | Blk_execution_target_missing | Blk_machine_offline | Blk_adapter_unavailable

datatype console_connection = Con_connected | Con_degraded | Con_disconnected

definition EXECUTION_STATES :: "console_turn_state list" where
  "EXECUTION_STATES = [Turn_starting, Turn_active, Turn_draining]"

fun turn_state_name :: "console_turn_state \<Rightarrow> string" where
  "turn_state_name Turn_idle = ''idle''"
| "turn_state_name Turn_queued = ''queued''"
| "turn_state_name Turn_starting = ''starting''"
| "turn_state_name Turn_active = ''active''"
| "turn_state_name Turn_draining = ''draining''"

fun blocker_name :: "console_blocker \<Rightarrow> string" where
  "blocker_name Blk_session_closed = ''session_closed''"
| "blocker_name Blk_execution_target_missing = ''execution_target_missing''"
| "blocker_name Blk_machine_offline = ''machine_offline''"
| "blocker_name Blk_adapter_unavailable = ''adapter_unavailable''"

definition turn_state_of :: "pyval \<Rightarrow> console_turn_state" where
  "turn_state_of v =
     (let n = py_lower (py_strip (py_str (py_or v (PStr ''idle'')))) in
      if n = ''queued'' then Turn_queued
      else if n = ''starting'' then Turn_starting
      else if n = ''active'' then Turn_active
      else if n = ''draining'' then Turn_draining
      else Turn_idle)"

record console_projection =
  cp_turn_state :: console_turn_state
  cp_machine_online :: bool
  cp_adapter_available :: bool
  cp_interrupt_adapter_available :: bool
  cp_can_start_turn :: bool
  cp_start_turn_blocked_by :: "console_blocker option"
  cp_can_interrupt_active_turn :: bool

definition cp_connection :: "console_projection \<Rightarrow> console_connection" where
  "cp_connection p =
     (if \<not> cp_machine_online p then Con_disconnected
      else if \<not> cp_adapter_available p then Con_degraded
      else Con_connected)"

definition turn_is_executing :: "console_projection \<Rightarrow> bool" where
  "turn_is_executing p \<longleftrightarrow> cp_turn_state p \<in> set EXECUTION_STATES"

definition interrupt_unavailable_reason :: "console_projection \<Rightarrow> string" where
  "interrupt_unavailable_reason p =
     (if \<not> cp_machine_online p then ''machine_offline''
      else if \<not> cp_interrupt_adapter_available p then ''unsupported''
      else if \<not> turn_is_executing p then ''no_active_turn''
      else ''interrupt_unavailable'')"

definition as_catalog_facts :: "console_projection \<Rightarrow> pydict" where
  "as_catalog_facts p =
     [(''turn_state'', PStr (turn_state_name (cp_turn_state p))),
      (''machine_online'', PBool (cp_machine_online p)),
      (''adapter_available'', PBool (cp_adapter_available p)),
      (''interrupt_adapter_available'', PBool (cp_interrupt_adapter_available p)),
      (''can_start_turn'', PBool (cp_can_start_turn p)),
      (''start_turn_blocked_by'', opt_str (map_option blocker_name (cp_start_turn_blocked_by p))),
      (''can_interrupt_active_turn'', PBool (cp_can_interrupt_active_turn p))]"

definition blocker_of :: "string option \<Rightarrow> console_blocker option" where
  "blocker_of v = (case v of None \<Rightarrow> None
     | Some s \<Rightarrow>
       (if s = ''session_closed'' then Some Blk_session_closed
        else if s = ''execution_target_missing'' then Some Blk_execution_target_missing
        else if s = ''machine_offline'' then Some Blk_machine_offline
        else Some Blk_adapter_unavailable))"

definition from_catalog_facts :: "pydict \<Rightarrow> console_projection" where
  "from_catalog_facts v =
     \<lparr>cp_turn_state = turn_state_of (dget v ''turn_state''),
      cp_machine_online = truthy (dget v ''machine_online''),
      cp_adapter_available = truthy (dget v ''adapter_available''),
      cp_interrupt_adapter_available = truthy (dget v ''interrupt_adapter_available''),
      cp_can_start_turn = truthy (dget v ''can_start_turn''),
      cp_start_turn_blocked_by = blocker_of (py_text (dget v ''start_turn_blocked_by'')),
      cp_can_interrupt_active_turn = truthy (dget v ''can_interrupt_active_turn'')\<rparr>"

definition project_console_control ::
  "bool \<Rightarrow> bool \<Rightarrow> pyval \<Rightarrow> bool \<Rightarrow> bool \<Rightarrow> bool \<Rightarrow> console_projection" where
  "project_console_control closed execution_target_available turn_state machine_online
       adapter_available interrupt_adapter_available =
     (let st = turn_state_of turn_state;
          b0 = (if closed then Some Blk_session_closed else None);
          b1 = (if b0 = None \<and> \<not> execution_target_available then Some Blk_execution_target_missing else b0);
          b2 = (if b1 = None \<and> \<not> machine_online then Some Blk_machine_offline else b1);
          b3 = (if b2 = None \<and> \<not> adapter_available then Some Blk_adapter_unavailable else b2)
      in \<lparr>cp_turn_state = st,
          cp_machine_online = machine_online,
          cp_adapter_available = adapter_available,
          cp_interrupt_adapter_available = interrupt_adapter_available,
          cp_can_start_turn = (b3 = None),
          cp_start_turn_blocked_by = b3,
          cp_can_interrupt_active_turn =
            (st \<in> set EXECUTION_STATES \<and> machine_online \<and> interrupt_adapter_available)\<rparr>)"

subsection \<open>Lemmas\<close>

lemma turn_state_of_name [simp]: "turn_state_of (PStr (turn_state_name t)) = t"
  by (cases t; hypsubst; code_simp)

lemma text_blocker_name: "py_text (PStr (blocker_name b)) = Some (blocker_name b)"
  by (cases b; hypsubst; code_simp)

lemma blocker_of_name [simp]: "blocker_of (py_text (opt_str (map_option blocker_name b))) = b"
proof (cases b)
  case None
  then show ?thesis by (simp add: blocker_of_def)
next
  case (Some c)
  then show ?thesis
    by (cases c) (simp_all add: text_blocker_name blocker_of_def del: blocker_name.simps, simp_all)
qed

text \<open>
  (C37) The projection survives the catalog: what \<open>as_catalog_facts\<close> writes for any projection,
  \<open>from_catalog_facts\<close> reads back as the same projection, blockers and turn states included.
\<close>

lemma catalog_facts_roundtrip: "from_catalog_facts (as_catalog_facts p) = p"
  by (simp add: from_catalog_facts_def as_catalog_facts_def)

lemma project_can_start_iff:
  "cp_can_start_turn (project_console_control c e t m a i) \<longleftrightarrow> \<not> c \<and> e \<and> m \<and> a"
  by (simp add: project_console_control_def Let_def)

lemma project_blocker:
  "cp_start_turn_blocked_by (project_console_control c e t m a i) =
     (if c then Some Blk_session_closed else if \<not> e then Some Blk_execution_target_missing
      else if \<not> m then Some Blk_machine_offline else if \<not> a then Some Blk_adapter_unavailable
      else None)"
  by (simp add: project_console_control_def Let_def)

lemma project_connection:
  "cp_connection (project_console_control c e t m a i) =
     (if \<not> m then Con_disconnected else if \<not> a then Con_degraded else Con_connected)"
  by (simp add: project_console_control_def cp_connection_def Let_def)

lemma project_interrupt_iff:
  "cp_can_interrupt_active_turn (project_console_control c e t m a i)
     \<longleftrightarrow> turn_state_of t \<in> set EXECUTION_STATES \<and> m \<and> i"
  by (simp add: project_console_control_def Let_def)

lemma project_simps [simp]:
  "cp_turn_state (project_console_control c e t m a i) = turn_state_of t"
  "cp_machine_online (project_console_control c e t m a i) = m"
  "cp_interrupt_adapter_available (project_console_control c e t m a i) = i"
  by (simp_all add: project_console_control_def Let_def)

text \<open>
  The wildcard reason \<open>interrupt_unavailable\<close> is never shown for a projected session: whenever the
  interrupt is refused, one of the three typed reasons names why.
\<close>

lemma project_interrupt_reason_typed:
  "\<not> cp_can_interrupt_active_turn (project_console_control c e t m a i) \<Longrightarrow>
   interrupt_unavailable_reason (project_console_control c e t m a i) \<in>
     {''machine_offline'', ''unsupported'', ''no_active_turn''}"
  by (auto simp: interrupt_unavailable_reason_def turn_is_executing_def project_interrupt_iff)

end
