(* ===== verification/Provider_Contracts.thy ===== *)
theory Provider_Contracts
  imports Py_Prelude
begin

text \<open>
  \<open>services/managed_provider_contracts.py\<close>: the registry of what each managed provider supports.
  The contract items come from a configuration file, so the list of contracts is an argument
  (\<open>build_registry\<close> turns it into the indexes the module computes at import).
\<close>

record provider_contract =
  pc_provider :: string
  pc_control_plane :: string
  pc_control_plane_aliases :: "string list"
  pc_support_tier :: string
  pc_launch_local :: bool
  pc_run_once :: bool
  pc_reattach :: bool
  pc_send_input :: bool
  pc_interrupt :: bool
  pc_steer_active_turn :: bool
  pc_answer_pause :: bool
  pc_terminate :: bool
  pc_tail_output :: bool
  pc_runtime_phase :: bool
  pc_transcript_binding :: bool
  pc_can_resume :: bool
  pc_turn_start :: bool
  pc_live_proof :: bool
  pc_machine_control_supports :: "string list"

definition control_planes :: "provider_contract \<Rightarrow> string list" where
  "control_planes c = pc_control_plane c # pc_control_plane_aliases c"

text \<open>\<open>getattr(self, operation, False)\<close> on the operation flags.\<close>

definition operation_flags :: "provider_contract \<Rightarrow> (string \<times> bool) list" where
  "operation_flags c =
     [(''launch_local'', pc_launch_local c), (''run_once'', pc_run_once c), (''reattach'', pc_reattach c),
      (''send_input'', pc_send_input c), (''interrupt'', pc_interrupt c),
      (''steer_active_turn'', pc_steer_active_turn c), (''answer_pause'', pc_answer_pause c),
      (''terminate'', pc_terminate c), (''tail_output'', pc_tail_output c),
      (''runtime_phase'', pc_runtime_phase c), (''transcript_binding'', pc_transcript_binding c),
      (''can_resume'', pc_can_resume c), (''turn_start'', pc_turn_start c), (''live_proof'', pc_live_proof c)]"

definition supports_contract_operation :: "provider_contract \<Rightarrow> string \<Rightarrow> bool" where
  "supports_contract_operation c op = (map_of (operation_flags c) op = Some True)"

text \<open>\<open>MACHINE_CONTROL_SUPPORT_OPERATION_BY_SUFFIX\<close>\<close>

definition operation_by_suffix :: "(string \<times> string) list" where
  "operation_by_suffix =
     [(''send'', ''send_input''), (''interrupt'', ''interrupt''), (''steer'', ''steer_active_turn''),
      (''answer_pause'', ''answer_pause''), (''terminate'', ''terminate''), (''run_once'', ''run_once''),
      (''resume_run_once'', ''run_once''), (''turn_start'', ''turn_start''),
      (''turn_interrupt'', ''interrupt'')]"

definition suffix_by_command :: "(string \<times> string) list" where
  "suffix_by_command =
     [(''session.send_text'', ''send''), (''session.interrupt'', ''interrupt''),
      (''session.steer_text'', ''steer''), (''session.answer_pause'', ''answer_pause''),
      (''session.terminate'', ''terminate''), (''session.run_once'', ''run_once''),
      (''session.turn.start'', ''turn_start''), (''session.turn.interrupt'', ''turn_interrupt'')]"

text \<open>\<open>s.partition(".")\<close>\<close>

definition partition_dot :: "string \<Rightarrow> string \<times> string \<times> string" where
  "partition_dot s = (let a = takeWhile (\<lambda>c. c \<noteq> CHR ''.'') s in
     (a, take 1 (drop (length a) s), drop 1 (drop (length a) s)))"

definition dispatchable_operation :: "provider_contract \<Rightarrow> string \<Rightarrow> bool" where
  "dispatchable_operation c op =
     (if \<not> supports_contract_operation c op then False
      else \<exists>support \<in> set (pc_machine_control_supports c).
             map_of operation_by_suffix (snd (snd (partition_dot support))) = Some op)"

record connection_bits =
  cb_send_input :: int
  cb_interrupt :: int
  cb_terminate :: int
  cb_tail_output :: int
  cb_resume :: int

definition connection_capabilities :: "provider_contract \<Rightarrow> connection_bits" where
  "connection_capabilities c =
     \<lparr>cb_send_input = of_bool (dispatchable_operation c ''send_input''),
      cb_interrupt = of_bool (dispatchable_operation c ''interrupt''),
      cb_terminate = of_bool (dispatchable_operation c ''terminate''),
      cb_tail_output = of_bool (pc_tail_output c),
      cb_resume = of_bool (pc_reattach c)\<rparr>"

definition machine_control_operation_for_support :: "provider_contract \<Rightarrow> string \<Rightarrow> string option" where
  "machine_control_operation_for_support c support =
     (case partition_dot (py_strip support) of (provider, separator, operation) \<Rightarrow>
       if separator \<noteq> ''.'' \<or> provider \<noteq> pc_provider c then None
       else (case map_of operation_by_suffix operation of
           None \<Rightarrow> None
         | Some contract_operation \<Rightarrow>
             if \<not> supports_contract_operation c contract_operation then None
             else if support \<in> set (pc_machine_control_supports c) then Some operation else None))"

definition machine_control_capability_for_operation :: "provider_contract \<Rightarrow> string \<Rightarrow> string option" where
  "machine_control_capability_for_operation c op0 =
     (let op = py_strip op0 in
      case map_of operation_by_suffix op of
        None \<Rightarrow> None
      | Some contract_operation \<Rightarrow>
          if \<not> supports_contract_operation c contract_operation then None
          else (let capability = pc_provider c @ ''.'' @ op in
            if capability \<in> set (pc_machine_control_supports c) then Some capability else None))"

definition machine_control_operations :: "provider_contract \<Rightarrow> string list" where
  "machine_control_operations c =
     List.map_filter (machine_control_operation_for_support c) (pc_machine_control_supports c)"

subsection \<open>The registry\<close>

record registry =
  reg_contracts :: "provider_contract list"
  reg_by_provider :: "(string \<times> provider_contract) list"
  reg_by_control_plane :: "(string \<times> provider_contract) list"

definition claim_plane ::
  "provider_contract \<Rightarrow> string \<Rightarrow> (string \<times> provider_contract) list \<Rightarrow> (string \<times> provider_contract) list res" where
  "claim_plane c plane m = (case map_of m plane of
       Some _ \<Rightarrow> Inl (ValueError ''managed provider control_plane is claimed twice'')
     | None \<Rightarrow> Inr (AList.update plane c m))"

definition contracts_by_control_plane ::
  "provider_contract list \<Rightarrow> (string \<times> provider_contract) list res" where
  "contracts_by_control_plane cs = foldR (\<lambda>c. foldR (claim_plane c) (control_planes c)) cs []"

definition build_registry :: "provider_contract list \<Rightarrow> registry res" where
  "build_registry cs = bindR (contracts_by_control_plane cs) (\<lambda>planes.
     Inr \<lparr>reg_contracts = cs,
          reg_by_provider = fold (\<lambda>c. AList.update (pc_provider c) c) cs [],
          reg_by_control_plane = planes\<rparr>)"

definition legacy_control_plane_providers :: "(string \<times> string) list" where
  "legacy_control_plane_providers =
     [(''opencode_process'', ''opencode''), (''antigravity_process'', ''antigravity'')]"

definition plane_key :: "string option \<Rightarrow> string" where
  "plane_key v = (case v of None \<Rightarrow> [] | Some s \<Rightarrow> py_strip s)"

definition contract_for_provider :: "registry \<Rightarrow> string option \<Rightarrow> provider_contract option" where
  "contract_for_provider r p = map_of (reg_by_provider r) (py_lower (plane_key p))"

definition contract_for_control_plane :: "registry \<Rightarrow> string option \<Rightarrow> provider_contract option" where
  "contract_for_control_plane r p = map_of (reg_by_control_plane r) (plane_key p)"

definition provider_for_control_plane :: "registry \<Rightarrow> string option \<Rightarrow> string option" where
  "provider_for_control_plane r p =
     (case map_of legacy_control_plane_providers (plane_key p) of
        Some provider \<Rightarrow> Some provider
      | None \<Rightarrow> map_option pc_provider (contract_for_control_plane r p))"

definition require_contract_for_provider :: "registry \<Rightarrow> string option \<Rightarrow> provider_contract res" where
  "require_contract_for_provider r p = (case contract_for_provider r p of
       None \<Rightarrow> Inl (ValueError ''Unsupported managed-local provider'') | Some c \<Rightarrow> Inr c)"

definition steer_control_planes :: "registry \<Rightarrow> string list" where
  "steer_control_planes r = concat (map control_planes (filter pc_steer_active_turn (reg_contracts r)))"

definition run_once_supported_providers :: "registry \<Rightarrow> string list" where
  "run_once_supported_providers r = map pc_provider (filter pc_run_once (reg_contracts r))"

definition factory_provider_names :: "registry \<Rightarrow> bool \<Rightarrow> string list" where
  "factory_provider_names r include_maintenance =
     sort (map pc_provider (filter (\<lambda>c. include_maintenance \<or> pc_support_tier c = ''launch'') (reg_contracts r)))"

definition machine_control_capability_for_command ::
  "registry \<Rightarrow> string option \<Rightarrow> string option \<Rightarrow> string option" where
  "machine_control_capability_for_command r provider command_type =
     (case (contract_for_provider r provider, map_of suffix_by_command (plane_key command_type)) of
        (Some c, Some operation) \<Rightarrow> machine_control_capability_for_operation c operation
      | _ \<Rightarrow> None)"

definition machine_control_operations_by_provider ::
  "registry \<Rightarrow> string list \<Rightarrow> bool \<Rightarrow> (string \<times> string list) list" where
  "machine_control_operations_by_provider r supports connected =
     (if \<not> connected then []
      else let support_set = filter (\<lambda>s. s \<noteq> []) (map py_strip supports) in
        fold (\<lambda>c m.
          let operations = List.map_filter (machine_control_operation_for_support c)
                (filter (\<lambda>s. s \<in> set support_set) (pc_machine_control_supports c))
          in if operations = [] then m else AList.update (pc_provider c) operations m)
        (reg_contracts r) [])"

subsection \<open>Lemmas\<close>

lemma claim_plane_Inr:
  "claim_plane c p m = Inr m' \<longleftrightarrow> map_of m p = None \<and> m' = AList.update p c m"
  by (auto simp: claim_plane_def split: option.splits)

text \<open>
  A registry that builds without an error assigns every plane to the one contract that lists it: the
  index is exactly the claim relation, and no two contracts claim a plane.
\<close>

definition plane_claims :: "provider_contract list \<Rightarrow> (string \<times> provider_contract) list" where
  "plane_claims cs = concat (map (\<lambda>c. map (\<lambda>p. (p, c)) (control_planes c)) cs)"

lemma foldR_claim_plane:
  "foldR (claim_plane c) ps m = Inr m' \<longleftrightarrow>
     distinct ps \<and> (\<forall>p \<in> set ps. map_of m p = None) \<and> m' = fold (\<lambda>p. AList.update p c) ps m"
  by (induction ps arbitrary: m) (auto simp: claim_plane_Inr update_conv')

lemma map_of_fold_update:
  "map_of (fold (\<lambda>p. AList.update p c) ps m) = (\<lambda>q. if q \<in> set ps then Some c else map_of m q)"
  by (induction ps arbitrary: m) (auto simp: update_conv' fun_eq_iff)

lemma contracts_foldR:
  "foldR (\<lambda>c. foldR (claim_plane c) (control_planes c)) cs m = Inr m' \<Longrightarrow>
     (\<forall>p c. map_of m' p = Some c \<longleftrightarrow>
        map_of m p = Some c \<or> (map_of m p = None \<and> (p, c) \<in> set (plane_claims cs))) \<and>
     distinct (map fst (plane_claims cs)) \<and>
     (\<forall>q \<in> set (map fst (plane_claims cs)). map_of m q = None)"
proof (induction cs arbitrary: m)
  case Nil
  then show ?case by (simp add: plane_claims_def)
next
  case (Cons d cs)
  let ?m1 = "fold (\<lambda>p. AList.update p d) (control_planes d) m"
  have fresh: "distinct (control_planes d)" "\<forall>p \<in> set (control_planes d). map_of m p = None"
    and rest: "foldR (\<lambda>c. foldR (claim_plane c) (control_planes c)) cs ?m1 = Inr m'"
    using Cons.prems by (auto simp: foldR_claim_plane)
  have claims: "plane_claims (d # cs) = map (\<lambda>p. (p, d)) (control_planes d) @ plane_claims cs"
    by (simp add: plane_claims_def)
  note ih = Cons.IH[OF rest]
  have apart: "q \<notin> set (control_planes d) \<and> map_of m q = None" if "q \<in> set (map fst (plane_claims cs))" for q
    using ih that by (auto simp: map_of_fold_update split: if_splits)
  have "map_of m' p = Some c \<longleftrightarrow>
      map_of m p = Some c \<or> (map_of m p = None \<and> (p, c) \<in> set (plane_claims (d # cs)))" for p c
  proof (cases "p \<in> set (control_planes d)")
    case True
    moreover from this have "(p, c) \<notin> set (plane_claims cs)" using apart by force
    ultimately show ?thesis using ih fresh(2) by (auto simp: claims map_of_fold_update)
  next
    case False
    then show ?thesis using ih by (auto simp: claims map_of_fold_update)
  qed
  moreover have "distinct (map fst (plane_claims (d # cs)))"
    using fresh(1) ih apart by (auto simp: claims comp_def)
  moreover have "map_of m q = None" if "q \<in> set (map fst (plane_claims (d # cs)))" for q
    using that fresh(2) apart by (auto simp: claims)
  ultimately show ?case by blast
qed

lemma build_registry_planes:
  assumes "build_registry cs = Inr r"
  shows "contract_for_control_plane r p = Some c \<longleftrightarrow> c \<in> set cs \<and> plane_key p \<in> set (control_planes c)"
    and "distinct (map fst (plane_claims cs))"
proof -
  from assms have f: "foldR (\<lambda>c. foldR (claim_plane c) (control_planes c)) cs [] = Inr (reg_by_control_plane r)"
    by (auto simp: build_registry_def contracts_by_control_plane_def)
  show "contract_for_control_plane r p = Some c \<longleftrightarrow> c \<in> set cs \<and> plane_key p \<in> set (control_planes c)"
    using contracts_foldR[OF f]
    by (auto simp: contract_for_control_plane_def plane_claims_def)
  show "distinct (map fst (plane_claims cs))" using contracts_foldR[OF f] by blast
qed

text \<open>A bit advertised for a remote control is carried by the machine control channel.\<close>

lemma dispatchable_supported:
  "dispatchable_operation c op \<Longrightarrow> supports_contract_operation c op \<and>
     (\<exists>s \<in> set (pc_machine_control_supports c). map_of operation_by_suffix (snd (snd (partition_dot s))) = Some op)"
  by (auto simp: dispatchable_operation_def split: if_splits)

end
