(* ===== verification/Kernel_Capabilities.thy ===== *)
theory Kernel_Capabilities
  imports Console_Control Provider_Contracts
begin

text \<open>
  \<open>services/agents/kernel_capabilities.py\<close>: the capability payload of a session
  from its kernel rows (primary thread, latest run, connections of that run). Rows are records with
  the columns the projection reads; identifiers are strings. A stored timestamp may be naive (SQLite
  drops the zone), and is then read as UTC.
\<close>

record thread_row =
  th_id :: string
  th_session_id :: string
  th_is_primary :: bool
  th_created_at :: int

record run_row =
  rn_id :: string
  rn_thread_id :: string
  rn_started_at :: pydatetime
  rn_ended_at :: "pydatetime option"
  rn_exit_status :: "string option"

record connection_row =
  cn_id :: int
  cn_run_id :: string
  cn_control_plane :: string
  cn_acquisition_kind :: string
  cn_state :: string
  cn_can_send_input :: int
  cn_can_interrupt :: int
  cn_can_terminate :: int
  cn_can_tail_output :: int
  cn_can_resume :: int
  cn_acquired_at :: "pydatetime option"
  cn_released_at :: "pydatetime option"
  cn_last_health_at :: "pydatetime option"
  cn_adapter_connection_id :: "string option"
  cn_lease_generation :: "string option"

record kernel_db =
  kd_threads :: "thread_row list"
  kd_runs :: "run_row list"
  kd_connections :: "connection_row list"

record kernel_capabilities =
  kc_session_id :: string
  kc_thread_id :: "string option"
  kc_run_id :: "string option"
  kc_connection_id :: "int option"
  kc_control_plane :: "string option"
  kc_connection_state :: "string option"
  kc_control_label :: string
  kc_live_control_available :: bool
  kc_host_reattach_available :: bool
  kc_observe_only :: bool
  kc_search_only :: bool
  kc_can_send_input :: bool
  kc_can_interrupt :: bool
  kc_can_terminate :: bool
  kc_can_tail_output :: bool
  kc_can_resume :: bool
  kc_turn_state :: console_turn_state
  kc_can_start_turn :: bool
  kc_start_turn_blocked_by :: "console_blocker option"
  kc_can_interrupt_active_turn :: bool
  kc_console_control :: "console_projection option"
  kc_staleness_reason :: "string option"
  kc_adapter_connection_id :: "string option"
  kc_lease_generation :: "string option"
  kc_control_owned :: bool
  kc_run_started_at :: "pydatetime option"
  kc_run_ended_at :: "pydatetime option"
  kc_run_end_reason :: "string option"

definition can_steer_active_turn :: "registry \<Rightarrow> kernel_capabilities \<Rightarrow> bool" where
  "can_steer_active_turn reg k \<longleftrightarrow> kc_live_control_available k \<and> kc_can_send_input k \<and>
     plane_key (kc_control_plane k) \<in> set (steer_control_planes reg)"

definition reply_to_live_session_available :: "kernel_capabilities \<Rightarrow> bool" where
  "reply_to_live_session_available k \<longleftrightarrow> kc_live_control_available k \<and> kc_can_send_input k"

subsection \<open>Choosing the connection\<close>

definition CONTROL_ACQUISITION_KINDS :: "string list" where
  "CONTROL_ACQUISITION_KINDS = [''spawned_control'', ''adopted_control'']"

definition MANAGED_CONTROL_LEASE_TTL_us :: int where
  "MANAGED_CONTROL_LEASE_TTL_us = 15 * 60 * 1000 * 1000"

definition STATE_PRIORITY :: "string \<Rightarrow> int" where
  "STATE_PRIORITY s =
     (if s = ''attached'' then 5 else if s = ''degraded'' then 4 else if s = ''detached'' then 3
      else if s = ''released'' then 2 else if s = ''ended'' then 1 else 0)"

definition effective_connection_state :: "connection_row option \<Rightarrow> instant \<Rightarrow> string" where
  "effective_connection_state best now = (case best of None \<Rightarrow> []
     | Some c \<Rightarrow>
       (let state = py_strip (cn_state c) in
        if state \<notin> {''attached'', ''degraded''} then state
        else (case cn_last_health_at c of
            None \<Rightarrow> ''detached''
          | Some h \<Rightarrow> if utc_us now - aware_us h > MANAGED_CONTROL_LEASE_TTL_us then ''detached'' else state)))"

definition connection_capability_count :: "connection_row \<Rightarrow> int" where
  "connection_capability_count c =
     of_bool (cn_can_send_input c \<noteq> 0) + of_bool (cn_can_interrupt c \<noteq> 0)
     + of_bool (cn_can_terminate c \<noteq> 0) + of_bool (cn_can_tail_output c \<noteq> 0)"

definition connection_sort_key :: "instant \<Rightarrow> connection_row \<Rightarrow> int \<times> int \<times> int \<times> int" where
  "connection_sort_key now c =
     (STATE_PRIORITY (effective_connection_state (Some c) now),
      connection_capability_count c,
      (case cn_last_health_at c of None \<Rightarrow> min_us | Some h \<Rightarrow> aware_us h),
      cn_id c)"

definition select_best_connection :: "connection_row list \<Rightarrow> instant \<Rightarrow> connection_row option" where
  "select_best_connection conns now = last_sorted (connection_sort_key now) conns"

interpretation best_conn: best_choice "connection_sort_key now" "\<lambda>cs. select_best_connection cs now" for now
  by unfold_locales (simp_all add: select_best_connection_def last_choice.pick_Nil last_sorted_best)

definition control_plane_supports :: "registry \<Rightarrow> string \<Rightarrow> string \<Rightarrow> bool" where
  "control_plane_supports reg plane operation =
     (let contract = (case contract_for_control_plane reg (Some plane) of
            Some c \<Rightarrow> Some c
          | None \<Rightarrow> contract_for_provider reg (provider_for_control_plane reg (Some plane)))
      in case contract of None \<Rightarrow> True | Some c \<Rightarrow> supports_contract_operation c operation)"

subsection \<open>The bucket\<close>

record bucket =
  bk_label :: string
  bk_live :: bool
  bk_reattach :: bool
  bk_observe :: bool
  bk_search :: bool
  bk_reason :: "string option"

definition bucket_of :: "string \<Rightarrow> bool \<Rightarrow> bool \<Rightarrow> bool \<Rightarrow> bool \<Rightarrow> string option \<Rightarrow> bucket" where
  "bucket_of l a b c d r =
     \<lparr>bk_label = l, bk_live = a, bk_reattach = b, bk_observe = c, bk_search = d, bk_reason = r\<rparr>"

definition label_for :: "bool \<Rightarrow> bool \<Rightarrow> bool \<Rightarrow> connection_row option \<Rightarrow> instant \<Rightarrow> bucket" where
  "label_for has_thread has_run run_ended best now =
     (if \<not> has_thread then bucket_of ''imported'' False False False True (Some ''imported_only'')
      else if \<not> has_run then bucket_of ''imported'' False False False True (Some ''no_run'')
      else case best of
        None \<Rightarrow> bucket_of ''imported'' False False False True (Some ''no_connection'')
      | Some c \<Rightarrow>
        (let raw_state = py_strip (cn_state c) in
         if raw_state = [] \<or> raw_state = ''ended''
         then bucket_of ''imported'' False False False True (Some ''process_ended'')
         else if run_ended then bucket_of ''imported'' False False False True (Some ''process_ended'')
         else
           let state = effective_connection_state (Some c) now;
               stale_clamped = (state \<noteq> raw_state);
               steerable = (py_strip (cn_acquisition_kind c) \<in> set CONTROL_ACQUISITION_KINDS)
           in if steerable \<and> state \<in> {''attached'', ''degraded''}
              then bucket_of ''live'' True True False False None
              else if steerable \<and> state \<in> {''detached'', ''released''}
              then bucket_of ''reattach'' False True False False
                     (Some (if stale_clamped then ''control_stale'' else ''connection_released''))
              else bucket_of ''search-only'' False False True False (Some ''observe_only'')))"

subsection \<open>The payload\<close>

definition base_payload :: "string \<Rightarrow> string option \<Rightarrow> string option \<Rightarrow> bucket \<Rightarrow> kernel_capabilities" where
  "base_payload sid thread_id run_id b =
     \<lparr>kc_session_id = sid, kc_thread_id = thread_id, kc_run_id = run_id, kc_connection_id = None,
      kc_control_plane = None, kc_connection_state = None, kc_control_label = bk_label b,
      kc_live_control_available = bk_live b, kc_host_reattach_available = bk_reattach b,
      kc_observe_only = bk_observe b, kc_search_only = bk_search b,
      kc_can_send_input = False, kc_can_interrupt = False, kc_can_terminate = False,
      kc_can_tail_output = False, kc_can_resume = False,
      kc_turn_state = Turn_idle, kc_can_start_turn = False, kc_start_turn_blocked_by = None,
      kc_can_interrupt_active_turn = False, kc_console_control = None,
      kc_staleness_reason = bk_reason b, kc_adapter_connection_id = None, kc_lease_generation = None,
      kc_control_owned = False, kc_run_started_at = None, kc_run_ended_at = None,
      kc_run_end_reason = None\<rparr>"

definition imported_payload ::
  "string \<Rightarrow> string option \<Rightarrow> string option \<Rightarrow> bool \<Rightarrow> bool \<Rightarrow> bool \<Rightarrow> connection_row option \<Rightarrow> instant
   \<Rightarrow> kernel_capabilities" where
  "imported_payload sid thread_id run_id has_thread has_run run_ended best now =
     base_payload sid thread_id run_id (label_for has_thread has_run run_ended best now)"

definition connection_lease_generation :: "connection_row \<Rightarrow> string option" where
  "connection_lease_generation c =
     (case (or_none (cn_adapter_connection_id c), or_none (cn_lease_generation c)) of
        (Some _, Some g) \<Rightarrow> Some g
      | _ \<Rightarrow> (case normalize_utc (cn_acquired_at c) of
            Some t \<Rightarrow> Some (dec_int (cn_id c) @ '':'' @ iso_with_sep ''T'' (DT (utc_us t) (Some 0)))
          | None \<Rightarrow> Some (dec_int (cn_id c))))"

definition payload_from_rows ::
  "registry \<Rightarrow> string \<Rightarrow> thread_row option \<Rightarrow> run_row option \<Rightarrow> connection_row list \<Rightarrow> instant
   \<Rightarrow> kernel_capabilities" where
  "payload_from_rows reg sid thread latest_run connections now =
     (case thread of
        None \<Rightarrow> imported_payload sid None None False False False None now
      | Some th \<Rightarrow> (case latest_run of
          None \<Rightarrow> imported_payload sid (Some (th_id th)) None True False False None now
        | Some run \<Rightarrow>
          (let best = select_best_connection connections now;
               run_ended = (rn_ended_at run \<noteq> None);
               b = label_for True True run_ended best now;
               base = (base_payload sid (Some (th_id th)) (Some (rn_id run)) b)
                 \<lparr>kc_run_started_at := Some (rn_started_at run), kc_run_ended_at := rn_ended_at run,
                  kc_run_end_reason := rn_exit_status run\<rparr>
           in case best of
             None \<Rightarrow> base
           | Some c \<Rightarrow>
             base\<lparr>kc_connection_id := Some (cn_id c),
               kc_control_plane := Some (cn_control_plane c),
               kc_connection_state := Some (cn_state c),
               kc_can_send_input := cn_can_send_input c \<noteq> 0 \<and> bk_live b
                 \<and> control_plane_supports reg (cn_control_plane c) ''send_input'',
               kc_can_interrupt := cn_can_interrupt c \<noteq> 0 \<and> bk_live b
                 \<and> control_plane_supports reg (cn_control_plane c) ''interrupt'',
               kc_can_terminate := cn_can_terminate c \<noteq> 0 \<and> bk_live b
                 \<and> control_plane_supports reg (cn_control_plane c) ''terminate'',
               kc_can_tail_output := cn_can_tail_output c \<noteq> 0 \<and> (bk_live b \<or> bk_observe b)
                 \<and> control_plane_supports reg (cn_control_plane c) ''tail_output'',
               kc_can_resume := cn_can_resume c \<noteq> 0 \<and> (bk_live b \<or> bk_reattach b)
                 \<and> control_plane_supports reg (cn_control_plane c) ''reattach'',
               kc_adapter_connection_id := or_none (cn_adapter_connection_id c),
               kc_lease_generation := connection_lease_generation c,
               kc_control_owned := cn_acquisition_kind c \<in> set CONTROL_ACQUISITION_KINDS\<rparr>)))"

definition project_console_turn_capabilities ::
  "kernel_capabilities \<Rightarrow> bool \<Rightarrow> bool \<Rightarrow> string option \<Rightarrow> bool \<Rightarrow> bool \<Rightarrow> bool \<Rightarrow> kernel_capabilities" where
  "project_console_turn_capabilities k closed execution_target_available turn_state machine_online
       adapter_available interrupt_adapter_available =
     (let p = project_console_control closed execution_target_available (opt_str turn_state)
                machine_online adapter_available interrupt_adapter_available
      in k\<lparr>kc_control_label := ''console'', kc_live_control_available := False,
           kc_host_reattach_available := False, kc_observe_only := False, kc_search_only := False,
           kc_can_send_input := cp_can_start_turn p,
           kc_can_interrupt := cp_interrupt_adapter_available p, kc_can_resume := False,
           kc_control_owned := True,
           kc_staleness_reason := map_option blocker_name (cp_start_turn_blocked_by p),
           kc_turn_state := cp_turn_state p, kc_can_start_turn := cp_can_start_turn p,
           kc_start_turn_blocked_by := cp_start_turn_blocked_by p,
           kc_can_interrupt_active_turn := cp_can_interrupt_active_turn p,
           kc_console_control := Some p\<rparr>)"

subsection \<open>Reading the kernel rows, one session or many\<close>

text \<open>\<open>ORDER BY started_at DESC, id DESC\<close> on the stored (wall-clock) column, then the first row.\<close>

definition run_order :: "run_row \<Rightarrow> int \<times> string" where
  "run_order r = (dt_wall (rn_started_at r), rn_id r)"

definition thread_order :: "thread_row \<Rightarrow> int \<times> string" where
  "thread_order t = (th_created_at t, th_id t)"

definition first_row :: "'a list \<Rightarrow> 'a option" where
  "first_row xs = (case xs of [] \<Rightarrow> None | x # _ \<Rightarrow> Some x)"

definition runs_newest_first :: "run_row list \<Rightarrow> run_row list" where
  "runs_newest_first rs = rev (sort_key run_order rs)"

definition project_session_capabilities ::
  "registry \<Rightarrow> kernel_db \<Rightarrow> string \<Rightarrow> instant \<Rightarrow> kernel_capabilities" where
  "project_session_capabilities reg db sid now =
     (let thread = first_row (sort_key thread_order
            (filter (\<lambda>t. th_session_id t = sid \<and> th_is_primary t) (kd_threads db)));
          latest_run = (case thread of None \<Rightarrow> None
            | Some t \<Rightarrow> first_row (runs_newest_first (filter (\<lambda>r. rn_thread_id r = th_id t) (kd_runs db))));
          connections = (case latest_run of None \<Rightarrow> []
            | Some r \<Rightarrow> filter (\<lambda>c. cn_run_id c = rn_id r) (kd_connections db))
      in payload_from_rows reg sid thread latest_run connections now)"

text \<open>\<open>d.setdefault(k, v)\<close> and \<open>d[k].append(v)\<close> on insertion-ordered dictionaries.\<close>

definition setdefault :: "'k \<Rightarrow> 'v \<Rightarrow> ('k \<times> 'v) list \<Rightarrow> ('k \<times> 'v) list" where
  "setdefault k v d = (case map_of d k of Some _ \<Rightarrow> d | None \<Rightarrow> d @ [(k, v)])"

definition append_to :: "'k \<Rightarrow> 'v \<Rightarrow> ('k \<times> 'v list) list \<Rightarrow> ('k \<times> 'v list) list" where
  "append_to k v d = (case map_of d k of Some vs \<Rightarrow> AList.update k (vs @ [v]) d | None \<Rightarrow> d @ [(k, [v])])"

definition project_capabilities_bulk ::
  "registry \<Rightarrow> kernel_db \<Rightarrow> string list \<Rightarrow> instant \<Rightarrow> (string \<times> kernel_capabilities) list" where
  "project_capabilities_bulk reg db session_ids now =
     (let threads = sort_key thread_order
            (filter (\<lambda>t. th_session_id t \<in> set session_ids \<and> th_is_primary t) (kd_threads db));
          thread_by_session = fold (\<lambda>t. setdefault (th_session_id t) t) threads [];
          thread_ids = map (\<lambda>(_, t). th_id t) thread_by_session;
          runs = runs_newest_first (filter (\<lambda>r. rn_thread_id r \<in> set thread_ids) (kd_runs db));
          runs_by_thread = fold (\<lambda>r. setdefault (rn_thread_id r) r) runs [];
          run_ids = map (\<lambda>(_, r). rn_id r) runs_by_thread;
          conns = filter (\<lambda>c. cn_run_id c \<in> set run_ids) (kd_connections db);
          conns_by_run = fold (\<lambda>c. append_to (cn_run_id c) c) conns []
      in fold (\<lambda>sid out.
            let thread = map_of thread_by_session sid;
                latest_run = (case thread of None \<Rightarrow> None | Some t \<Rightarrow> map_of runs_by_thread (th_id t));
                connections = (case latest_run of None \<Rightarrow> []
                  | Some r \<Rightarrow> (case map_of conns_by_run (rn_id r) of None \<Rightarrow> [] | Some cs \<Rightarrow> cs))
            in AList.update sid (payload_from_rows reg sid thread latest_run connections now) out)
          session_ids [])"

definition thread_ever_had_managed_control :: "kernel_db \<Rightarrow> string \<Rightarrow> bool" where
  "thread_ever_had_managed_control db thread_id \<longleftrightarrow>
     (\<exists>c \<in> set (kd_connections db). \<exists>r \<in> set (kd_runs db).
        cn_run_id c = rn_id r \<and> rn_thread_id r = thread_id
        \<and> cn_acquisition_kind c \<in> set CONTROL_ACQUISITION_KINDS)"

subsection \<open>Lemmas: dictionaries built by the bulk queries\<close>

lemma map_of_setdefault:
  "map_of (setdefault k v d) k' = (if k' = k \<and> map_of d k = None then Some v else map_of d k')"
  by (auto simp: setdefault_def map_add_def split: option.splits)

lemma map_of_fold_setdefault:
  "map_of (fold (\<lambda>x. setdefault (f x) x) xs d) k =
     (case map_of d k of Some v \<Rightarrow> Some v | None \<Rightarrow> first_row (filter (\<lambda>x. f x = k) xs))"
  by (induction xs arbitrary: d) (auto simp: map_of_setdefault first_row_def split: option.splits)

lemma map_of_append_to:
  "map_of (append_to k v d) k' =
     (if k' = k then Some ((case map_of d k of None \<Rightarrow> [] | Some vs \<Rightarrow> vs) @ [v]) else map_of d k')"
  by (auto simp: append_to_def update_conv' map_add_def split: option.splits)

lemma map_of_fold_append_to:
  "(case map_of (fold (\<lambda>x. append_to (f x) x) xs d) k of None \<Rightarrow> [] | Some vs \<Rightarrow> vs) =
     (case map_of d k of None \<Rightarrow> [] | Some vs \<Rightarrow> vs) @ filter (\<lambda>x. f x = k) xs"
  by (induction xs arbitrary: d) (auto simp: map_of_append_to)

lemma first_row_mem: "first_row xs = Some x \<Longrightarrow> x \<in> set xs"
  by (auto simp: first_row_def split: list.splits)

lemma filter_mem_conj: "k \<in> A \<Longrightarrow> filter (\<lambda>x. f x \<in> A \<and> f x = k) xs = filter (\<lambda>x. f x = k) xs"
  by (auto intro: filter_cong)

lemma filter_runs_newest_first: "filter P (runs_newest_first rs) = runs_newest_first (filter P rs)"
  by (simp add: runs_newest_first_def rev_filter [symmetric] filter_sort)

lemma map_of_fold_update_fun:
  "map_of (fold (\<lambda>k. AList.update k (g k)) ks d) k = (if k \<in> set ks then Some (g k) else map_of d k)"
  by (induction ks arbitrary: d) (auto simp: update_conv')

lemma map_of_snd_mem: "map_of d k = Some v \<Longrightarrow> h v \<in> set (map (\<lambda>(_, v). h v) d)"
  by (force dest: map_of_SomeD)

subsection \<open>Lemmas: the bucket\<close>

lemma effective_live:
  "effective_connection_state (Some c) now \<in> {''attached'', ''degraded''} \<Longrightarrow>
   py_strip (cn_state c) = effective_connection_state (Some c) now \<and>
   (\<exists>h. cn_last_health_at c = Some h \<and> utc_us now - aware_us h \<le> MANAGED_CONTROL_LEASE_TTL_us)"
  by (auto simp: effective_connection_state_def Let_def split: if_splits option.splits)

lemma label_for_live:
  "bk_live (label_for ht hr ended best now) \<longleftrightarrow>
     ht \<and> hr \<and> \<not> ended \<and> (\<exists>c. best = Some c
       \<and> py_strip (cn_acquisition_kind c) \<in> set CONTROL_ACQUISITION_KINDS
       \<and> effective_connection_state (Some c) now \<in> {''attached'', ''degraded''})"
proof (cases best)
  case (Some c)
  have "effective_connection_state (Some c) now \<in> {''attached'', ''degraded''} \<Longrightarrow>
      py_strip (cn_state c) \<noteq> [] \<and> py_strip (cn_state c) \<noteq> ''ended''"
    using effective_live[of c now] by auto
  then show ?thesis using Some by (auto simp: label_for_def bucket_of_def Let_def)
qed (simp add: label_for_def bucket_of_def)

lemma label_for_exclusive:
  "length (filter id [bk_reattach (label_for ht hr e b now), bk_observe (label_for ht hr e b now),
     bk_search (label_for ht hr e b now)]) = 1"
  by (simp add: label_for_def bucket_of_def Let_def split: option.splits)

lemma label_for_live_reattach: "bk_live (label_for ht hr e b now) \<Longrightarrow> bk_reattach (label_for ht hr e b now)"
  by (cases b) (auto simp: label_for_def bucket_of_def Let_def split: if_splits)

lemma base_payload_simps [simp]:
  "kc_live_control_available (base_payload s t r b) = bk_live b"
  "kc_host_reattach_available (base_payload s t r b) = bk_reattach b"
  "kc_observe_only (base_payload s t r b) = bk_observe b"
  "kc_search_only (base_payload s t r b) = bk_search b"
  "kc_can_send_input (base_payload s t r b) = False"
  "kc_can_interrupt (base_payload s t r b) = False"
  "kc_can_terminate (base_payload s t r b) = False"
  "kc_control_plane (base_payload s t r b) = None"
  by (simp_all add: base_payload_def)

lemma payload_live:
  "kc_live_control_available (payload_from_rows reg sid th run conns now) \<longleftrightarrow>
     (\<exists>t r. th = Some t \<and> run = Some r \<and>
        bk_live (label_for True True (rn_ended_at r \<noteq> None) (select_best_connection conns now) now))"
  by (auto simp: payload_from_rows_def imported_payload_def label_for_live Let_def split: option.splits)

lemma connection_sort_key_inj:
  "distinct (map cn_id cs) \<Longrightarrow> inj_on (connection_sort_key now) (set cs)"
  by (auto simp: connection_sort_key_def inj_on_def distinct_map)

text \<open>A connection of a live rank is never hidden behind one of a lower rank.\<close>

lemma best_connection_live_rank:
  assumes "select_best_connection cs now = Some b" and "c \<in> set cs"
    and "effective_connection_state (Some c) now \<in> {''attached'', ''degraded''}"
  shows "effective_connection_state (Some b) now \<in> {''attached'', ''degraded''}"
proof -
  have "connection_sort_key now c \<le> connection_sort_key now b"
    using best_conn.pick_max[OF assms(1,2)] .
  then have "STATE_PRIORITY (effective_connection_state (Some c) now) \<le>
      STATE_PRIORITY (effective_connection_state (Some b) now)"
    by (auto simp: connection_sort_key_def less_eq_prod_def)
  moreover have "STATE_PRIORITY (effective_connection_state (Some c) now) \<ge> 4"
    using assms(3) by (auto simp: STATE_PRIORITY_def)
  ultimately have "STATE_PRIORITY (effective_connection_state (Some b) now) \<ge> 4" by simp
  then show ?thesis by (auto simp: STATE_PRIORITY_def split: if_splits)
qed

subsection \<open>Properties\<close>

text \<open>
  (C5) Live control is never claimed from stale or unowned evidence: when the projected payload says
  live control is available, the session has a primary thread and a latest run that has not ended,
  and one of that run's connections was acquired for control, reads attached or degraded, and was
  confirmed healthy within the lease time to live.
\<close>

theorem live_control_needs_fresh_lease:
  assumes "kc_live_control_available (payload_from_rows reg sid thread latest_run connections now)"
  shows "\<exists>t r c h. thread = Some t \<and> latest_run = Some r \<and> rn_ended_at r = None \<and> c \<in> set connections
     \<and> py_strip (cn_acquisition_kind c) \<in> {''spawned_control'', ''adopted_control''}
     \<and> py_strip (cn_state c) \<in> {''attached'', ''degraded''}
     \<and> cn_last_health_at c = Some h \<and> utc_us now - aware_us h \<le> MANAGED_CONTROL_LEASE_TTL_us"
proof -
  obtain t r where tr: "thread = Some t" "latest_run = Some r"
    and live: "bk_live (label_for True True (rn_ended_at r \<noteq> None) (select_best_connection connections now) now)"
    using assms by (auto simp: payload_live)
  then obtain c where c: "select_best_connection connections now = Some c" "rn_ended_at r = None"
    "py_strip (cn_acquisition_kind c) \<in> set CONTROL_ACQUISITION_KINDS"
    "effective_connection_state (Some c) now \<in> {''attached'', ''degraded''}"
    by (auto simp: label_for_live)
  with best_conn.pick_mem[OF c(1)] effective_live[OF c(4)] tr show ?thesis
    by (auto simp: CONTROL_ACQUISITION_KINDS_def)
qed

definition sample_connection :: connection_row where
  "sample_connection = \<lparr>cn_id = 7, cn_run_id = ''r1'', cn_control_plane = ''codex_bridge'',
     cn_acquisition_kind = ''spawned_control'', cn_state = ''attached'', cn_can_send_input = 1,
     cn_can_interrupt = 1, cn_can_terminate = 0, cn_can_tail_output = 1, cn_can_resume = 1,
     cn_acquired_at = None, cn_released_at = None, cn_last_health_at = Some (DT 1000 None),
     cn_adapter_connection_id = None, cn_lease_generation = None\<rparr>"

definition sample_thread :: thread_row where
  "sample_thread = \<lparr>th_id = ''t1'', th_session_id = ''s1'', th_is_primary = True, th_created_at = 0\<rparr>"

definition sample_run :: run_row where
  "sample_run = \<lparr>rn_id = ''r1'', rn_thread_id = ''t1'', rn_started_at = DT 0 None, rn_ended_at = None,
     rn_exit_status = None\<rparr>"

lemma sample_effective: "effective_connection_state (Some sample_connection) (UTC 2000) = ''attached''"
  by (simp add: effective_connection_state_def sample_connection_def py_strip_def is_space_def
      aware_us_def MANAGED_CONTROL_LEASE_TTL_us_def)

lemma sample_best: "select_best_connection [sample_connection] now = Some sample_connection"
  by (simp add: select_best_connection_def last_sorted_def)

lemma sample_kind: "py_strip (cn_acquisition_kind sample_connection) = ''spawned_control''"
  by (simp add: sample_connection_def py_strip_def is_space_def)

lemma sample_fields:
  "cn_can_send_input sample_connection = 1" "cn_control_plane sample_connection = ''codex_bridge''"
  by (simp_all add: sample_connection_def)

lemma sample_live:
  "kc_live_control_available
     (payload_from_rows reg ''s1'' (Some sample_thread) (Some sample_run) [sample_connection] (UTC 2000))"
  by (simp add: payload_live label_for_live sample_best sample_effective sample_kind sample_run_def
      CONTROL_ACQUISITION_KINDS_def)

theorem live_control_needs_fresh_lease_witness:
  "\<exists>c \<in> set [sample_connection]. \<exists>h. cn_last_health_at c = Some h
     \<and> utc_us (UTC 2000) - aware_us h \<le> MANAGED_CONTROL_LEASE_TTL_us"
  using live_control_needs_fresh_lease[OF sample_live] by blast

text \<open>
  A genuinely live control connection is never masked by a stale one: if the run has not ended,
  some connection of the run is attached or degraded within the lease time to live, and every such
  connection was acquired for control, then the payload says live control is available.
\<close>

theorem fresh_control_is_live:
  assumes "rn_ended_at r = None" and "c \<in> set connections"
    and "effective_connection_state (Some c) now \<in> {''attached'', ''degraded''}"
    and "\<And>d. d \<in> set connections \<Longrightarrow> effective_connection_state (Some d) now \<in> {''attached'', ''degraded''}
           \<Longrightarrow> py_strip (cn_acquisition_kind d) \<in> set CONTROL_ACQUISITION_KINDS"
  shows "kc_live_control_available (payload_from_rows reg sid (Some t) (Some r) connections now)"
proof -
  obtain b where b: "select_best_connection connections now = Some b"
    using assms(2) best_conn.pick_None_iff[of connections now] by (cases "select_best_connection connections now") auto
  have "effective_connection_state (Some b) now \<in> {''attached'', ''degraded''}"
    by (rule best_connection_live_rank[OF b assms(2,3)])
  moreover from this have "py_strip (cn_acquisition_kind b) \<in> set CONTROL_ACQUISITION_KINDS"
    using assms(4) best_conn.pick_mem[OF b] by blast
  ultimately show ?thesis using assms(1) b by (simp add: payload_live label_for_live)
qed

theorem fresh_control_is_live_witness:
  "kc_live_control_available (payload_from_rows \<lparr>reg_contracts = [], reg_by_provider = [],
     reg_by_control_plane = []\<rparr> ''s1'' (Some sample_thread) (Some sample_run) [sample_connection] (UTC 2000))"
  by (rule fresh_control_is_live[of _ sample_connection])
    (simp_all add: sample_run_def sample_effective sample_kind CONTROL_ACQUISITION_KINDS_def)

text \<open>
  (C9) The batched projection agrees with the one-session projection: for every requested session,
  \<open>project_capabilities_bulk\<close> returns exactly the payload \<open>project_session_capabilities\<close> computes
  from the same rows, and it returns nothing else.
\<close>

theorem bulk_projection_agrees:
  "map_of (project_capabilities_bulk reg db session_ids now) sid =
     (if sid \<in> set session_ids then Some (project_session_capabilities reg db sid now) else None)"
proof -
  define threads where "threads = sort_key thread_order
    (filter (\<lambda>t. th_session_id t \<in> set session_ids \<and> th_is_primary t) (kd_threads db))"
  define tbs where "tbs = fold (\<lambda>t. setdefault (th_session_id t) t) threads []"
  define runs where "runs = runs_newest_first
    (filter (\<lambda>r. rn_thread_id r \<in> set (map (\<lambda>(_, t). th_id t) tbs)) (kd_runs db))"
  define rbt where "rbt = fold (\<lambda>r. setdefault (rn_thread_id r) r) runs []"
  define cbr where "cbr = fold (\<lambda>c. append_to (cn_run_id c) c)
    (filter (\<lambda>c. cn_run_id c \<in> set (map (\<lambda>(_, r). rn_id r) rbt)) (kd_connections db)) []"
  let ?thread = "\<lambda>sid. map_of tbs sid"
  let ?run = "\<lambda>sid. case ?thread sid of None \<Rightarrow> None | Some t \<Rightarrow> map_of rbt (th_id t)"
  let ?conns = "\<lambda>sid. case ?run sid of None \<Rightarrow> []
     | Some r \<Rightarrow> (case map_of cbr (rn_id r) of None \<Rightarrow> [] | Some cs \<Rightarrow> cs)"
  have bulk: "project_capabilities_bulk reg db session_ids now =
      fold (\<lambda>sid. AList.update sid (payload_from_rows reg sid (?thread sid) (?run sid) (?conns sid) now)) session_ids []"
    unfolding project_capabilities_bulk_def Let_def threads_def tbs_def runs_def rbt_def cbr_def by (rule refl)
  have "payload_from_rows reg sid (?thread sid) (?run sid) (?conns sid) now =
      project_session_capabilities reg db sid now" if sid: "sid \<in> set session_ids"
  proof -
    have th: "?thread sid = first_row (sort_key thread_order
        (filter (\<lambda>t. th_session_id t = sid \<and> th_is_primary t) (kd_threads db)))"
      using sid by (auto simp: tbs_def threads_def map_of_fold_setdefault filter_sort
          intro!: arg_cong[where f = first_row] arg_cong[where f = "sort_key thread_order"] filter_cong)
    have rn: "map_of rbt (th_id t) = first_row (runs_newest_first (filter (\<lambda>r. rn_thread_id r = th_id t) (kd_runs db)))"
      if "?thread sid = Some t" for t
      using map_of_snd_mem[OF that, of th_id]
      by (simp add: rbt_def runs_def map_of_fold_setdefault filter_runs_newest_first filter_mem_conj)
    have cs: "(case map_of cbr (rn_id r) of None \<Rightarrow> [] | Some cs \<Rightarrow> cs) =
        filter (\<lambda>c. cn_run_id c = rn_id r) (kd_connections db)"
      if "map_of rbt k = Some r" for k r
      using map_of_snd_mem[OF that, of rn_id]
      by (simp add: cbr_def map_of_fold_append_to filter_mem_conj)
    show ?thesis
      by (simp add: project_session_capabilities_def Let_def th[symmetric] rn[symmetric] cs[symmetric]
          cong: option.case_cong)
        (auto simp: rn[symmetric] cs split: option.splits)
  qed
  then show ?thesis by (simp add: bulk map_of_fold_update_fun)
qed

text \<open>
  No granted operation exceeds the provider contract or the live lease: a payload that lets a
  client send input, interrupt or terminate has live control, and the control plane of the chosen
  connection belongs to no contract or to one that supports the operation.
\<close>

theorem granted_operations_are_clamped:
  fixes reg sid thread latest_run connections now
  defines "k \<equiv> payload_from_rows reg sid thread latest_run connections now"
  assumes "kc_can_send_input k \<and> op = ''send_input'' \<or> kc_can_interrupt k \<and> op = ''interrupt''
     \<or> kc_can_terminate k \<and> op = ''terminate''"
  shows "kc_live_control_available k \<and> (\<exists>plane. kc_control_plane k = Some plane \<and> control_plane_supports reg plane op)"
  using assms(2) unfolding k_def
  by (auto simp: payload_from_rows_def imported_payload_def Let_def split: option.splits)

theorem granted_operations_are_clamped_witness:
  "kc_live_control_available (payload_from_rows \<lparr>reg_contracts = [], reg_by_provider = [],
     reg_by_control_plane = []\<rparr> ''s1'' (Some sample_thread) (Some sample_run) [sample_connection] (UTC 2000))"
proof -
  let ?reg = "\<lparr>reg_contracts = [], reg_by_provider = [], reg_by_control_plane = []\<rparr>"
  have "bk_live (label_for True True False (Some sample_connection) (UTC 2000))"
    by (simp add: label_for_live sample_effective sample_kind CONTROL_ACQUISITION_KINDS_def)
  moreover have "control_plane_supports ?reg ''codex_bridge'' ''send_input''" by code_simp
  ultimately have "kc_can_send_input (payload_from_rows ?reg ''s1'' (Some sample_thread) (Some sample_run)
      [sample_connection] (UTC 2000))"
    by (simp add: payload_from_rows_def sample_best sample_run_def sample_fields Let_def)
  then show ?thesis
    using granted_operations_are_clamped[of ?reg "''s1''" "Some sample_thread" "Some sample_run"
        "[sample_connection]" "UTC 2000" "''send_input''"] by blast
qed

text \<open>
  The projection does not depend on the order in which the store returns the connections: with
  different connection ids, any two lists of the same rows give the same payload.
\<close>

theorem projection_order_independent:
  assumes "distinct (map cn_id cs)" and "set cs = set cs'"
  shows "payload_from_rows reg sid thread latest_run cs now = payload_from_rows reg sid thread latest_run cs' now"
proof -
  have "select_best_connection cs now = select_best_connection cs' now"
    using best_conn.pick_set_eq[OF connection_sort_key_inj[OF assms(1)] assms(2)] .
  then show ?thesis by (simp add: payload_from_rows_def split: option.splits)
qed

theorem projection_order_independent_witness:
  "payload_from_rows \<lparr>reg_contracts = [], reg_by_provider = [], reg_by_control_plane = []\<rparr> ''s1''
      (Some sample_thread) (Some sample_run)
      [sample_connection, sample_connection\<lparr>cn_id := 8, cn_state := ''detached''\<rparr>] (UTC 2000) =
   payload_from_rows \<lparr>reg_contracts = [], reg_by_provider = [], reg_by_control_plane = []\<rparr> ''s1''
      (Some sample_thread) (Some sample_run)
      [sample_connection\<lparr>cn_id := 8, cn_state := ''detached''\<rparr>, sample_connection] (UTC 2000)"
  by (rule projection_order_independent) (auto simp: sample_connection_def)

end
