(* ===== verification/Session_Runtime.thy ===== *)
theory Session_Runtime
  imports Kernel_Capabilities
begin

text \<open>
  \<open>services/session_runtime.py\<close>, the read side: the materialized runtime row of a session, the view
  the timeline serves from it, the fallback view of a session without a row, and the merge of the
  live and archive lanes.
\<close>

definition EXPLICIT_CLOSED_TERMINAL_STATES :: "string list" where
  "EXPLICIT_CLOSED_TERMINAL_STATES = [''user_closed'']"

definition RUN_END_TERMINAL_STATES :: "string list" where
  "RUN_END_TERMINAL_STATES = [''session_ended'', ''process_gone'']"

definition RUN_TERMINAL_STATES :: "string list" where
  "RUN_TERMINAL_STATES = [''run_completed'', ''run_failed'', ''run_cancelled'']"

definition UNVERIFIED_TERMINAL_STATES :: "string list" where
  "UNVERIFIED_TERMINAL_STATES = [''host_expired'']"

definition LIVE_EXECUTION_PHASES :: "string list" where
  "LIVE_EXECUTION_PHASES = [''thinking'', ''running'']"

definition ATTENTION_PHASES :: "string list" where
  "ATTENTION_PHASES = [''blocked'']"

definition KNOWN_PHASES :: "string list" where
  "KNOWN_PHASES = [''thinking'', ''running'', ''blocked'', ''stalled'', ''needs_user'', ''idle'', ''finished'']"

lemmas terminal_sets = EXPLICIT_CLOSED_TERMINAL_STATES_def RUN_END_TERMINAL_STATES_def
  RUN_TERMINAL_STATES_def UNVERIFIED_TERMINAL_STATES_def

record runtime_state =
  rs_phase :: "string option"
  rs_phase_source :: "string option"
  rs_active_tool :: "string option"
  rs_phase_started_at :: "pydatetime option"
  rs_last_runtime_signal_at :: "pydatetime option"
  rs_last_progress_at :: "pydatetime option"
  rs_last_live_at :: "pydatetime option"
  rs_timeline_anchor_at :: "pydatetime option"
  rs_freshness_expires_at :: "pydatetime option"
  rs_terminal_state :: "string option"
  rs_terminal_reason :: "string option"
  rs_terminal_source :: "string option"
  rs_terminal_at :: "pydatetime option"
  rs_runtime_version :: int
  rs_updated_at :: "pydatetime option"

record agent_session =
  as_id :: string
  as_started_at :: "pydatetime option"
  as_ended_at :: "pydatetime option"
  as_terminal_state :: "string option"

record runtime_view =
  rv_signal_tier :: string
  rv_runtime_phase :: "string option"
  rv_phase_started_at :: "instant option"
  rv_last_progress_at :: "instant option"
  rv_runtime_source :: string
  rv_terminal_state :: "string option"
  rv_terminal_reason :: "string option"
  rv_terminal_source :: "string option"
  rv_runtime_version :: int
  rv_status :: string
  rv_presence_state :: "string option"
  rv_presence_tool :: "string option"
  rv_presence_updated_at :: "instant option"
  rv_last_live_at :: "instant option"
  rv_display_phase :: string
  rv_active_tool :: "string option"
  rv_confidence :: "string option"
  rv_timeline_anchor_at :: instant
  rv_freshness_expires_at :: "instant option"

text \<open>\<open>PHASE_FRESHNESS\<close>, in milliseconds.\<close>

definition PHASE_FRESHNESS_ms :: "(string \<times> int) list" where
  "PHASE_FRESHNESS_ms =
     [(''thinking'', 90000), (''running'', 600000), (''stalled'', 600000), (''idle'', 600000),
      (''blocked'', 86400000), (''needs_user'', 600000)]"

definition phase_freshness_ms :: "string option \<Rightarrow> int option" where
  "phase_freshness_ms phase = map_of PHASE_FRESHNESS_ms (case phase of None \<Rightarrow> [] | Some p \<Rightarrow> py_strip p)"

definition latest_timestamp :: "instant option list \<Rightarrow> instant option" where
  "latest_timestamp vs =
     (case List.map_filter id vs of [] \<Rightarrow> None | t # ts \<Rightarrow> Some (fold max ts t))"

definition confidence_for_state :: "runtime_state \<Rightarrow> instant \<Rightarrow> string" where
  "confidence_for_state st now = (case normalize_utc (rs_freshness_expires_at st) of
       Some f \<Rightarrow> (if f > now then ''live'' else ''stale'') | None \<Rightarrow> ''stale'')"

definition display_phase_for_state ::
  "string \<Rightarrow> string option \<Rightarrow> string \<Rightarrow> string option \<Rightarrow> string \<Rightarrow> string" where
  "display_phase_for_state phase active_tool confidence terminal_state status =
     (if terminal_state \<noteq> None \<or> phase = ''finished'' \<or> status = ''completed'' then ''Completed''
      else if confidence = ''stale'' \<and> phase \<in> set KNOWN_PHASES then ''Inactive''
      else if phase = ''running''
        then (case or_none active_tool of Some t \<Rightarrow> ''Running '' @ t | None \<Rightarrow> ''Running'')
      else if phase = ''thinking'' then ''Thinking''
      else if phase = ''needs_user'' then ''Idle''
      else if phase = ''blocked''
        then (case or_none active_tool of Some t \<Rightarrow> ''Blocked on '' @ t | None \<Rightarrow> ''Needs permission'')
      else if phase = ''stalled'' then ''Stalled''
      else if phase = ''idle'' then ''Idle''
      else ''Inactive'')"

definition status_for_state :: "string \<Rightarrow> string \<Rightarrow> string option \<Rightarrow> string" where
  "status_for_state phase confidence terminal_state =
     (if terminal_state \<noteq> None \<or> phase = ''finished'' then ''completed''
      else if confidence = ''live'' then
        (if phase \<in> set LIVE_EXECUTION_PHASES then ''working''
         else if phase \<in> set ATTENTION_PHASES then ''active'' else ''idle'')
      else ''idle'')"

definition signal_tier_for_state :: "string \<Rightarrow> string" where
  "signal_tier_for_state phase_source =
     (if phase_source = ''progress'' then ''transcript_progress''
      else if phase_source \<notin> {''fallback'', []} then ''phase_signal'' else ''none'')"

text \<open>\<open>(value or default).strip() or default\<close>\<close>

definition clean_or :: "string option \<Rightarrow> string \<Rightarrow> string" where
  "clean_or v d = (case clean (case or_none v of None \<Rightarrow> Some d | Some s \<Rightarrow> Some s) of
     None \<Rightarrow> d | Some s \<Rightarrow> s)"

definition option_or :: "'a option \<Rightarrow> 'a option \<Rightarrow> 'a option" where
  "option_or a b = (case a of None \<Rightarrow> b | Some x \<Rightarrow> Some x)"

definition build_runtime_view :: "runtime_state \<Rightarrow> agent_session \<Rightarrow> instant \<Rightarrow> runtime_view" where
  "build_runtime_view st session now =
     (let confidence = confidence_for_state st now;
          runtime_phase = clean_or (rs_phase st) ''idle'';
          terminal_state = clean (rs_terminal_state st);
          phase_source = clean_or (rs_phase_source st) ''fallback'';
          active_tool = clean (rs_active_tool st);
          anchor = (case option_or (normalize_utc (rs_timeline_anchor_at st))
                        (normalize_utc (as_started_at session)) of Some t \<Rightarrow> t | None \<Rightarrow> now);
          status = status_for_state runtime_phase confidence terminal_state;
          presence_updated_at = normalize_utc (rs_last_runtime_signal_at st);
          last_live_at = (if phase_source = ''progress'' \<and> terminal_state = None then None
                          else normalize_utc (rs_last_live_at st));
          present = (confidence = ''live'' \<and> runtime_phase \<in> set KNOWN_PHASES);
          exposed = (if confidence \<noteq> ''live'' \<and> terminal_state = None \<and> runtime_phase \<noteq> ''finished'' then []
                     else if phase_source = ''progress'' \<and> terminal_state = None then []
                     else runtime_phase);
          display = (if phase_source = ''progress'' \<and> confidence = ''stale'' \<and> terminal_state = None then ''Inactive''
                     else display_phase_for_state runtime_phase active_tool confidence terminal_state status)
      in \<lparr>rv_signal_tier = signal_tier_for_state phase_source,
          rv_runtime_phase = or_none (Some exposed),
          rv_phase_started_at = normalize_utc (rs_phase_started_at st),
          rv_last_progress_at = normalize_utc (rs_last_progress_at st),
          rv_runtime_source = phase_source,
          rv_terminal_state = terminal_state,
          rv_terminal_reason = clean (rs_terminal_reason st),
          rv_terminal_source = clean (rs_terminal_source st),
          rv_runtime_version = rs_runtime_version st,
          rv_status = status,
          rv_presence_state = (if present then Some runtime_phase else None),
          rv_presence_tool = (if present \<and> runtime_phase \<in> {''running'', ''blocked''} then active_tool else None),
          rv_presence_updated_at = presence_updated_at,
          rv_last_live_at = option_or last_live_at presence_updated_at,
          rv_display_phase = display,
          rv_active_tool = active_tool,
          rv_confidence = Some confidence,
          rv_timeline_anchor_at = anchor,
          rv_freshness_expires_at = normalize_utc (rs_freshness_expires_at st)\<rparr>)"

definition build_fallback_runtime_view ::
  "agent_session \<Rightarrow> pydatetime option \<Rightarrow> instant \<Rightarrow> runtime_view" where
  "build_fallback_runtime_view session last_activity_at now =
     (let started_at = (case normalize_utc (as_started_at session) of Some t \<Rightarrow> t | None \<Rightarrow> now);
          last_activity = option_or (normalize_utc last_activity_at) (normalize_utc (as_ended_at session));
          progress_at = (case last_activity of Some t \<Rightarrow> t | None \<Rightarrow> started_at);
          explicit_terminal = clean (as_terminal_state session);
          anchor = (case latest_timestamp [Some progress_at, Some started_at] of Some t \<Rightarrow> t | None \<Rightarrow> now);
          status = (if explicit_terminal \<noteq> None then ''completed'' else ''idle'');
          display = (if explicit_terminal \<noteq> None
                     then display_phase_for_state ''finished'' None ''stale'' explicit_terminal status
                     else ''Inactive'')
      in \<lparr>rv_signal_tier = ''none'',
          rv_runtime_phase = (if explicit_terminal \<noteq> None then Some ''finished'' else None),
          rv_phase_started_at = Some progress_at,
          rv_last_progress_at = Some progress_at,
          rv_runtime_source = ''fallback'',
          rv_terminal_state = explicit_terminal,
          rv_terminal_reason = None,
          rv_terminal_source = None,
          rv_runtime_version = 0,
          rv_status = status,
          rv_presence_state = None,
          rv_presence_tool = None,
          rv_presence_updated_at = None,
          rv_last_live_at = None,
          rv_display_phase = display,
          rv_active_tool = None,
          rv_confidence = None,
          rv_timeline_anchor_at = anchor,
          rv_freshness_expires_at = None\<rparr>)"

definition should_include_runtime_view :: "agent_session \<Rightarrow> runtime_view option \<Rightarrow> bool" where
  "should_include_runtime_view session v = (case v of None \<Rightarrow> False
     | Some rv \<Rightarrow>
       (if clean (as_terminal_state session) = None then True
        else rv_presence_updated_at rv \<noteq> None \<or> rv_last_live_at rv \<noteq> None
             \<or> rv_runtime_source rv \<noteq> ''fallback''))"

definition resolve_runtime_overlay ::
  "agent_session \<Rightarrow> pydatetime option \<Rightarrow> (string \<rightharpoonup> runtime_state) \<Rightarrow> instant \<Rightarrow> runtime_view" where
  "resolve_runtime_overlay session last_activity_at state_map now =
     (case state_map (as_id session) of
        Some st \<Rightarrow> build_runtime_view st session now
      | None \<Rightarrow> build_fallback_runtime_view session last_activity_at now)"

definition latest_applied_signal_at :: "runtime_state \<Rightarrow> instant option" where
  "latest_applied_signal_at st = latest_timestamp
     [normalize_utc (rs_last_runtime_signal_at st), normalize_utc (rs_last_progress_at st),
      normalize_utc (rs_terminal_at st)]"

text \<open>A missing clock loses, two clocks compare.\<close>

definition clock_newer :: "instant option \<Rightarrow> instant option \<Rightarrow> bool" where
  "clock_newer a b = (case a of None \<Rightarrow> False | Some x \<Rightarrow> (case b of None \<Rightarrow> True | Some y \<Rightarrow> x > y))"

definition runtime_state_newer_than :: "runtime_state \<Rightarrow> runtime_state option \<Rightarrow> bool" where
  "runtime_state_newer_than candidate existing = (case existing of None \<Rightarrow> True
     | Some ex \<Rightarrow>
       (let cs = latest_applied_signal_at candidate; es = latest_applied_signal_at ex in
        if cs \<noteq> es then clock_newer cs es
        else let cp = (normalize_utc (rs_last_runtime_signal_at candidate) \<noteq> None);
                 ep = (normalize_utc (rs_last_runtime_signal_at ex) \<noteq> None) in
        if cp \<noteq> ep then cp
        else let cu = normalize_utc (rs_updated_at candidate); eu = normalize_utc (rs_updated_at ex) in
        if cu \<noteq> eu then clock_newer cu eu
        else rs_runtime_version candidate > rs_runtime_version ex))"

subsection \<open>Lemmas\<close>

lemma clean_or_nonempty: "d \<noteq> [] \<Longrightarrow> clean_or v d \<noteq> []"
  by (auto simp: clean_or_def dest: clean_nonempty split: option.splits)

lemma view_presence_live:
  "rv_presence_state (build_runtime_view st s now) = Some p \<Longrightarrow>
   (\<exists>f. normalize_utc (rs_freshness_expires_at st) = Some f \<and> f > now) \<and> p \<in> set KNOWN_PHASES"
  by (auto simp: build_runtime_view_def confidence_for_state_def Let_def
      split: if_splits option.splits)

text \<open>
  The lane comparison as an order on a rank, which shows at once that it is a strict order: no two
  rows are each newer than the other, and of rows with different ranks one is.
\<close>

definition opt_us :: "instant option \<Rightarrow> bool \<times> int" where
  "opt_us v = (case v of None \<Rightarrow> (False, 0) | Some t \<Rightarrow> (True, utc_us t))"

definition lane_rank :: "runtime_state \<Rightarrow> (bool \<times> int) \<times> bool \<times> (bool \<times> int) \<times> int" where
  "lane_rank st = (opt_us (latest_applied_signal_at st),
     normalize_utc (rs_last_runtime_signal_at st) \<noteq> None,
     opt_us (normalize_utc (rs_updated_at st)), rs_runtime_version st)"

lemma opt_us_eq [simp]: "opt_us a = opt_us b \<longleftrightarrow> a = b"
  by (auto simp: opt_us_def instant.expand split: option.splits)

lemma clock_newer_rank: "clock_newer a b \<longleftrightarrow> opt_us b < opt_us a"
  by (auto simp: clock_newer_def opt_us_def less_instant_def less_prod_def split: option.splits)

lemma less_by_parts: "(p, q) < (p', q') \<longleftrightarrow> (if p' \<noteq> p then p < p' else q < q')"
  for p p' :: "'p::linorder" and q q' :: "'q::linorder"
  by (auto simp: less_prod_simp)

lemma newer_than_rank: "runtime_state_newer_than a (Some b) \<longleftrightarrow> lane_rank b < lane_rank a"
proof -
  have "x \<noteq> y \<Longrightarrow> x \<longleftrightarrow> y < x" for x y :: bool
    by (simp add: less_bool_def)
  then show ?thesis
    unfolding runtime_state_newer_than_def lane_rank_def Let_def less_by_parts clock_newer_rank
      option.case opt_us_eq
    by (intro if_cong refl)
qed

definition empty_runtime_state :: runtime_state where
  "empty_runtime_state = \<lparr>rs_phase = None, rs_phase_source = None, rs_active_tool = None,
     rs_phase_started_at = None, rs_last_runtime_signal_at = None, rs_last_progress_at = None,
     rs_last_live_at = None, rs_timeline_anchor_at = None, rs_freshness_expires_at = None,
     rs_terminal_state = None, rs_terminal_reason = None, rs_terminal_source = None,
     rs_terminal_at = None, rs_runtime_version = 0, rs_updated_at = None\<rparr>"

subsection \<open>Properties\<close>

text \<open>
  Merging the live and the archive lane is well defined: \<open>runtime_state_newer_than\<close> is a strict
  order on rows (irreflexive, asymmetric, transitive), a row always replaces an absent one, and two
  rows the order cannot separate agree on their latest signal clock.
\<close>

theorem lane_merge_strict_order:
  "runtime_state_newer_than a None \<and> \<not> runtime_state_newer_than a (Some a) \<and>
   (runtime_state_newer_than a (Some b) \<longrightarrow> \<not> runtime_state_newer_than b (Some a)) \<and>
   (runtime_state_newer_than a (Some b) \<and> runtime_state_newer_than b (Some c) \<longrightarrow>
      runtime_state_newer_than a (Some c)) \<and>
   (\<not> runtime_state_newer_than a (Some b) \<and> \<not> runtime_state_newer_than b (Some a) \<longrightarrow>
      latest_applied_signal_at a = latest_applied_signal_at b)"
proof -
  have "runtime_state_newer_than a None" by (simp add: runtime_state_newer_than_def)
  moreover have "lane_rank a = lane_rank b \<Longrightarrow> latest_applied_signal_at a = latest_applied_signal_at b"
    by (simp add: lane_rank_def)
  ultimately show ?thesis
    unfolding newer_than_rank by (meson less_asym less_trans less_irrefl linorder_neqE)
qed

theorem lane_merge_strict_order_witness:
  "(let row = (\<lambda>w. empty_runtime_state\<lparr>rs_last_progress_at := Some (DT w None)\<rparr>) in
    runtime_state_newer_than (row 9) (Some (row 4)) \<and> runtime_state_newer_than (row 4) (Some (row 2)) \<and>
    runtime_state_newer_than (row 9) (Some (row 2)) \<and> \<not> runtime_state_newer_than (row 4) (Some (row 9)))"
proof -
  let ?row = "\<lambda>w. empty_runtime_state\<lparr>rs_last_progress_at := Some (DT w None)\<rparr>"
  have "runtime_state_newer_than (?row 9) (Some (?row 4))" "runtime_state_newer_than (?row 4) (Some (?row 2))"
    by code_simp+
  then show ?thesis
    unfolding Let_def using lane_merge_strict_order[of "?row 9" "?row 4" "?row 2"] by blast
qed

end
