(* ===== verification/Liveness_Facts.thy ===== *)
theory Liveness_Facts
  imports Session_Runtime
begin

text \<open>
  \<open>services/session_liveness_facts.py\<close>: the observed facts of a session (host, process, phase, control
  lease, lifecycle) with their source and time, from the runtime view, the capability payload and the
  optional overlays. An overlay is read with \<open>getattr(overlay, name, None)\<close>, so an absent attribute
  is the field value \<open>None\<close>.
\<close>

text \<open>A UTC instant where the code stores a \<open>datetime\<close> of either kind.\<close>

definition utc_dt :: "instant \<Rightarrow> pydatetime" where
  "utc_dt t = DT (utc_us t) (Some 0)"

record host_observation =
  ho_state :: string
  ho_last_seen_at :: "pydatetime option"
  ho_source :: "string option"

record process_observation =
  po_status :: string
  po_pid :: "int option"
  po_process_start_time :: "pydatetime option"
  po_observed_at :: "pydatetime option"
  po_last_seen_at :: "pydatetime option"
  po_source_mtime :: "pydatetime option"
  po_source_path :: "string option"
  po_reason :: "string option"
  po_source :: "string option"

record phase_observation =
  ph_kind :: "string option"
  ph_tool :: "string option"
  ph_source :: "string option"
  ph_observed_at :: "instant option"
  ph_expires_at :: "instant option"

record control_observation =
  co_state :: string
  co_reason :: "string option"
  co_source :: "string option"
  co_last_seen_at :: "instant option"
  co_expires_at :: "instant option"
  co_transport :: "string option"

record activity_observation =
  ao_last_transcript_at :: "pydatetime option"
  ao_last_runtime_signal_at :: "instant option"
  ao_last_progress_at :: "instant option"

record lifecycle_fact =
  lf_state :: string
  lf_reason :: "string option"
  lf_observed_at :: "pydatetime option"

record session_liveness_facts =
  sl_control_path :: string
  sl_control :: control_observation
  sl_process_state :: string
  sl_host :: host_observation
  sl_process :: process_observation
  sl_phase :: phase_observation
  sl_activity :: activity_observation
  sl_lifecycle :: lifecycle_fact

record control_overlay =
  ov_control_state :: "string option"
  ov_state :: "string option"
  ov_lease_state :: "string option"
  ov_source :: "string option"
  ov_last_control_seen_at :: "pydatetime option"
  ov_last_seen_at :: "pydatetime option"
  ov_control_expires_at :: "pydatetime option"
  ov_expires_at :: "pydatetime option"
  ov_transport :: "string option"
  ov_reason :: "string option"

record binding_overlay =
  bo_host_state :: "string option"
  bo_host_last_seen_at :: "pydatetime option"
  bo_terminal_reason :: "string option"
  bo_binding_state :: "string option"
  bo_pid :: "int option"
  bo_process_start_time :: "pydatetime option"
  bo_observed_at :: "pydatetime option"
  bo_last_seen_at :: "pydatetime option"
  bo_source_mtime :: "pydatetime option"
  bo_source_path :: "string option"

definition control_path_of :: "kernel_capabilities \<Rightarrow> string" where
  "control_path_of k =
     (if kc_live_control_available k \<or> kc_host_reattach_available k then ''managed'' else ''unmanaged'')"

definition control_raw_state :: "control_overlay \<Rightarrow> string" where
  "control_raw_state ov =
     (case option_or (clean (ov_control_state ov))
             (option_or (clean (ov_state ov)) (clean (ov_lease_state ov))) of
        Some s \<Rightarrow> s | None \<Rightarrow> ''unknown'')"

text \<open>The state and reason a raw lease state maps to, before the lease clock is looked at.\<close>

definition control_state_reason :: "string \<Rightarrow> string option \<Rightarrow> string \<times> string option" where
  "control_state_reason raw reason =
     (if raw = ''attached'' then (''online'', reason)
      else if raw \<in> {''online'', ''degraded'', ''offline'', ''unknown''} then (raw, reason)
      else if raw \<in> {''detached'', ''missing''}
        then (''offline'', option_or reason
                (Some (if raw = ''missing'' then ''missing_from_snapshot'' else ''detached'')))
      else (''unknown'', option_or reason (Some ''unknown_control_state'')))"

definition plain_control :: "string \<Rightarrow> string \<Rightarrow> control_observation" where
  "plain_control state reason = \<lparr>co_state = state, co_reason = Some reason, co_source = None,
     co_last_seen_at = None, co_expires_at = None, co_transport = None\<rparr>"

definition control_observation_of ::
  "string \<Rightarrow> host_observation \<Rightarrow> control_overlay option \<Rightarrow> pydatetime \<Rightarrow> control_observation" where
  "control_observation_of control_path host overlay now =
     (if control_path \<noteq> ''managed'' then plain_control ''none'' ''no_control_path''
      else case overlay of
        None \<Rightarrow> plain_control ''unknown''
          (if clean (Some (ho_state host)) \<in> {Some ''offline'', Some ''stale''}
           then ''host_offline'' else ''cold_start'')
      | Some ov \<Rightarrow>
        (let raw_state = control_raw_state ov;
             expires_at = normalize_utc (option_or (ov_control_expires_at ov) (ov_expires_at ov));
             sr = control_state_reason raw_state (clean (ov_reason ov));
             lapsed = (fst sr = ''online'' \<and>
               (case expires_at of None \<Rightarrow> True | Some e \<Rightarrow> e \<le> UTC (aware_us now)));
             state = (if lapsed then ''unknown'' else fst sr);
             reason = (if lapsed then Some ''lease_stale'' else snd sr);
             reason = (if state \<in> {''degraded'', ''offline''} \<and> reason = None
                       then Some (if raw_state \<in> {''degraded'', ''detached'', ''missing''}
                                  then raw_state else state)
                       else reason)
         in \<lparr>co_state = state, co_reason = reason, co_source = clean (ov_source ov),
             co_last_seen_at =
               normalize_utc (option_or (ov_last_control_seen_at ov) (ov_last_seen_at ov)),
             co_expires_at = expires_at, co_transport = clean (ov_transport ov)\<rparr>))"

definition mk_lifecycle :: "string \<Rightarrow> string option \<Rightarrow> pydatetime option \<Rightarrow> lifecycle_fact" where
  "mk_lifecycle state reason at = \<lparr>lf_state = state, lf_reason = reason, lf_observed_at = at\<rparr>"

definition explicit_lifecycle :: "runtime_view option \<Rightarrow> lifecycle_fact option" where
  "explicit_lifecycle v = (case v of None \<Rightarrow> None
     | Some rv \<Rightarrow> (case clean (rv_terminal_state rv) of None \<Rightarrow> None
       | Some ts \<Rightarrow>
         (let observed_at = map_option utc_dt (option_or (rv_presence_updated_at rv) (rv_last_live_at rv));
              reason = clean (rv_terminal_reason rv)
          in if ts = ''finished'' then None
             else if ts \<in> set EXPLICIT_CLOSED_TERMINAL_STATES
               then Some (mk_lifecycle ''closed'' (option_or reason (Some ts)) observed_at)
             else if ts \<in> set RUN_END_TERMINAL_STATES
               then Some (mk_lifecycle ''unknown'' (option_or reason (Some ts)) observed_at)
             else if ts \<in> set UNVERIFIED_TERMINAL_STATES
               then Some (mk_lifecycle ''unknown'' (option_or reason (Some ts)) observed_at)
             else Some (mk_lifecycle ''closed'' (option_or reason (Some ''provider_signal'')) observed_at))))"

definition no_phase :: "string option \<Rightarrow> phase_observation" where
  "no_phase source = \<lparr>ph_kind = None, ph_tool = None, ph_source = source,
     ph_observed_at = None, ph_expires_at = None\<rparr>"

definition phase_observation_of :: "runtime_view option \<Rightarrow> phase_observation" where
  "phase_observation_of v = (case v of None \<Rightarrow> no_phase None
     | Some rv \<Rightarrow>
       (let source = clean (Some (rv_runtime_source rv)) in
        if source \<in> {None, Some ''fallback'', Some ''progress''} \<or> rv_confidence rv \<noteq> Some ''live''
        then no_phase source
        else \<lparr>ph_kind = clean (rv_runtime_phase rv), ph_tool = clean (rv_active_tool rv),
              ph_source = source,
              ph_observed_at = option_or (rv_presence_updated_at rv) (rv_phase_started_at rv),
              ph_expires_at = rv_freshness_expires_at rv\<rparr>))"

definition host_observation_of ::
  "binding_overlay option \<Rightarrow> string option \<Rightarrow> host_observation" where
  "host_observation_of binding binding_host_state =
     (let state = (case option_or (clean binding_host_state)
                     (clean (Option.bind binding bo_host_state)) of
                     Some s \<Rightarrow> s | None \<Rightarrow> ''unknown'')
      in \<lparr>ho_state = state, ho_last_seen_at = Option.bind binding bo_host_last_seen_at,
          ho_source = (if state \<noteq> ''unknown'' then Some ''machine_heartbeat'' else None)\<rparr>)"

definition process_observation_of ::
  "string \<Rightarrow> binding_overlay option \<Rightarrow> string option \<Rightarrow> process_observation" where
  "process_observation_of control_path binding binding_terminal_reason =
     (case binding of
        None \<Rightarrow> \<lparr>po_status = ''unknown'', po_pid = None, po_process_start_time = None,
          po_observed_at = None, po_last_seen_at = None, po_source_mtime = None,
          po_source_path = None, po_reason = None, po_source = None\<rparr>
      | Some b \<Rightarrow>
        (let reason = option_or (clean binding_terminal_reason) (clean (bo_terminal_reason b));
             binding_state = (case clean (bo_binding_state b) of Some s \<Rightarrow> s | None \<Rightarrow> ''observed'');
             status = (if control_path = ''managed'' then ''unknown''
                       else if reason = Some ''process_gone'' then ''not_observed''
                       else if reason = Some ''host_expired'' then ''unknown''
                       else if binding_state = ''observed'' \<and> clean (bo_host_state b) = Some ''online''
                            \<and> bo_pid b \<noteq> None \<and> bo_process_start_time b \<noteq> None then ''observed''
                       else ''unknown'')
         in \<lparr>po_status = status, po_pid = bo_pid b, po_process_start_time = bo_process_start_time b,
             po_observed_at = bo_observed_at b, po_last_seen_at = bo_last_seen_at b,
             po_source_mtime = bo_source_mtime b, po_source_path = bo_source_path b,
             po_reason = reason, po_source = Some ''machine_process_scan''\<rparr>))"

definition lifecycle_of ::
  "lifecycle_fact option \<Rightarrow> string \<Rightarrow> control_observation \<Rightarrow> process_observation \<Rightarrow>
   phase_observation \<Rightarrow> lifecycle_fact" where
  "lifecycle_of explicit control_path control process phase =
     (case explicit of Some f \<Rightarrow> f
      | None \<Rightarrow>
        if po_status process = ''observed''
        then mk_lifecycle ''open'' (Some ''process_observed'')
               (option_or (po_observed_at process) (po_last_seen_at process))
        else if control_path = ''unmanaged'' \<and> po_status process = ''not_observed''
             \<and> po_reason process = Some ''process_gone''
        then mk_lifecycle ''closed'' (Some ''process_gone'')
               (option_or (po_last_seen_at process) (po_observed_at process))
        else if control_path = ''managed'' \<and> co_source control \<noteq> None
             \<and> co_state control \<in> {''online'', ''degraded'', ''offline''}
        then mk_lifecycle ''open'' (Some ''control_observed'') (map_option utc_dt (co_last_seen_at control))
        else if ph_kind phase \<noteq> None
        then mk_lifecycle ''open'' (Some ''phase_observed'') (map_option utc_dt (ph_observed_at phase))
        else mk_lifecycle ''unknown'' None None)"

definition process_state_of :: "process_observation \<Rightarrow> lifecycle_fact \<Rightarrow> string" where
  "process_state_of process lifecycle =
     (if lf_state lifecycle = ''closed'' then ''closed''
      else if po_status process = ''observed'' then ''running'' else ''unknown'')"

definition build_session_liveness_facts ::
  "runtime_view option \<Rightarrow> kernel_capabilities \<Rightarrow> pydatetime option \<Rightarrow> binding_overlay option \<Rightarrow>
   string option \<Rightarrow> string option \<Rightarrow> control_overlay option \<Rightarrow> pydatetime \<Rightarrow> session_liveness_facts" where
  "build_session_liveness_facts rv capabilities last_activity_at binding host_state terminal_reason overlay now =
     (let control_path = control_path_of capabilities;
          host = host_observation_of binding host_state;
          control = control_observation_of control_path host overlay now;
          process = process_observation_of control_path binding terminal_reason;
          phase = phase_observation_of rv;
          activity = \<lparr>ao_last_transcript_at = last_activity_at,
                      ao_last_runtime_signal_at = Option.bind rv rv_presence_updated_at,
                      ao_last_progress_at = Option.bind rv rv_last_progress_at\<rparr>;
          lifecycle = lifecycle_of (explicit_lifecycle rv) control_path control process phase
      in \<lparr>sl_control_path = control_path, sl_control = control,
          sl_process_state = process_state_of process lifecycle, sl_host = host,
          sl_process = process, sl_phase = phase, sl_activity = activity, sl_lifecycle = lifecycle\<rparr>)"

subsection \<open>Lemmas\<close>

lemma option_or_eq_Some: "option_or a b = Some x \<longleftrightarrow> a = Some x \<or> (a = None \<and> b = Some x)"
  by (cases a) (simp_all add: option_or_def)

lemma option_or_eq_None [simp]: "option_or a b = None \<longleftrightarrow> a = None \<and> b = None"
  by (cases a) (simp_all add: option_or_def)

lemma option_or_simps [simp]: "option_or (Some x) b = Some x" "option_or None b = b"
  by (simp_all add: option_or_def)

lemma control_online_iff:
  "co_state (control_observation_of path host overlay now) = ''online'' \<longleftrightarrow>
   path = ''managed'' \<and> (\<exists>ov e. overlay = Some ov \<and> control_raw_state ov \<in> {''attached'', ''online''}
     \<and> normalize_utc (option_or (ov_control_expires_at ov) (ov_expires_at ov)) = Some e
     \<and> e > UTC (aware_us now))"
  by (auto simp: control_observation_of_def plain_control_def control_state_reason_def Let_def
      split: option.splits if_splits)

lemma process_observed_iff:
  "po_status (process_observation_of path binding tr) = ''observed'' \<longleftrightarrow>
   path \<noteq> ''managed'' \<and> (\<exists>b. binding = Some b
     \<and> option_or (clean tr) (clean (bo_terminal_reason b)) \<notin> {Some ''process_gone'', Some ''host_expired''}
     \<and> (clean (bo_binding_state b) = None \<or> clean (bo_binding_state b) = Some ''observed'')
     \<and> clean (bo_host_state b) = Some ''online''
     \<and> bo_pid b \<noteq> None \<and> bo_process_start_time b \<noteq> None)"
  by (cases binding) (auto simp: process_observation_of_def Let_def split: option.splits)

lemma phase_kind_needs_live:
  "ph_kind (phase_observation_of v) = Some k \<Longrightarrow>
   \<exists>rv. v = Some rv \<and> rv_confidence rv = Some ''live'' \<and> clean (rv_runtime_phase rv) = Some k
     \<and> clean (Some (rv_runtime_source rv)) \<notin> {None, Some ''fallback'', Some ''progress''}"
  by (auto simp: phase_observation_of_def no_phase_def Let_def split: option.splits if_splits)

lemma explicit_lifecycle_states:
  "explicit_lifecycle v = Some f \<Longrightarrow> lf_state f \<in> {''closed'', ''unknown''}"
  by (auto simp: explicit_lifecycle_def mk_lifecycle_def Let_def split: option.splits if_splits)

lemma lifecycle_closed_iff:
  "lf_state (lifecycle_of ex path control process phase) = ''closed'' \<longleftrightarrow>
   (case ex of Some f \<Rightarrow> lf_state f = ''closed''
    | None \<Rightarrow> path = ''unmanaged'' \<and> po_status process = ''not_observed'' \<and> po_reason process = Some ''process_gone'')"
  by (auto simp: lifecycle_of_def mk_lifecycle_def split: option.splits)

subsection \<open>Properties\<close>

text \<open>
  A session is reported closed on evidence only: by an explicit terminal signal of its runtime row
  that is neither \<open>finished\<close>, nor a run end, nor an expired host, or, for an unmanaged session without
  any other terminal signal, by a process scan that says the process is gone. The process state
  \<open>closed\<close> is this very fact.
\<close>

theorem closed_only_on_evidence:
  "sl_process_state (build_session_liveness_facts rv k act binding hs tr ov now) = ''closed'' \<longleftrightarrow>
   (\<exists>v ts. rv = Some v \<and> clean (rv_terminal_state v) = Some ts \<and>
      ts \<notin> {''finished'', ''session_ended'', ''process_gone'', ''host_expired''}) \<or>
   ((rv = None \<or> (\<exists>v. rv = Some v \<and> clean (rv_terminal_state v) \<in> {None, Some ''finished''})) \<and>
    \<not> kc_live_control_available k \<and> \<not> kc_host_reattach_available k \<and>
    (\<exists>b. binding = Some b \<and> option_or (clean tr) (clean (bo_terminal_reason b)) = Some ''process_gone''))"
proof -
  let ?path = "control_path_of k"
  let ?proc = "process_observation_of ?path binding tr"
  have proc: "po_status ?proc = ''not_observed'' \<and> po_reason ?proc = Some ''process_gone'' \<longleftrightarrow>
      ?path \<noteq> ''managed'' \<and> (\<exists>b. binding = Some b \<and>
        option_or (clean tr) (clean (bo_terminal_reason b)) = Some ''process_gone'')"
    by (cases binding) (auto simp: process_observation_of_def Let_def)
  have path: "?path = ''unmanaged'' \<longleftrightarrow> \<not> kc_live_control_available k \<and> \<not> kc_host_reattach_available k"
    "?path \<noteq> ''managed'' \<longleftrightarrow> \<not> kc_live_control_available k \<and> \<not> kc_host_reattach_available k"
    by (simp_all add: control_path_of_def)
  have none: "explicit_lifecycle rv = None \<longleftrightarrow>
      rv = None \<or> (\<exists>v. rv = Some v \<and> clean (rv_terminal_state v) \<in> {None, Some ''finished''})"
    by (auto simp: explicit_lifecycle_def Let_def split: option.splits)
  have closed: "(\<exists>f. explicit_lifecycle rv = Some f \<and> lf_state f = ''closed'') \<longleftrightarrow>
      (\<exists>v ts. rv = Some v \<and> clean (rv_terminal_state v) = Some ts \<and>
        ts \<notin> {''finished'', ''session_ended'', ''process_gone'', ''host_expired''})"
    by (auto simp: explicit_lifecycle_def terminal_sets mk_lifecycle_def Let_def split: option.splits)
  have "sl_process_state (build_session_liveness_facts rv k act binding hs tr ov now) = ''closed'' \<longleftrightarrow>
      (\<exists>f. explicit_lifecycle rv = Some f \<and> lf_state f = ''closed'') \<or>
      (explicit_lifecycle rv = None \<and> ?path = ''unmanaged'' \<and>
       po_status ?proc = ''not_observed'' \<and> po_reason ?proc = Some ''process_gone'')"
  proof -
    have "sl_process_state (build_session_liveness_facts rv k act binding hs tr ov now) = ''closed'' \<longleftrightarrow>
        lf_state (lifecycle_of (explicit_lifecycle rv) ?path
          (control_observation_of ?path (host_observation_of binding hs) ov now) ?proc
          (phase_observation_of rv)) = ''closed''"
      by (simp add: build_session_liveness_facts_def process_state_of_def Let_def)
    then show ?thesis unfolding lifecycle_closed_iff by (cases "explicit_lifecycle rv") simp_all
  qed
  then show ?thesis unfolding closed none proc path by argo
qed

text \<open>
  The control lease is reported online exactly when the kernel owns a control path, the overlay
  says attached (or online), and its expiry is set and still in the future.
\<close>

theorem control_online_needs_unexpired_lease:
  "co_state (sl_control (build_session_liveness_facts rv k act binding hs tr overlay now)) = ''online'' \<longleftrightarrow>
   (kc_live_control_available k \<or> kc_host_reattach_available k) \<and>
   (\<exists>ov e. overlay = Some ov \<and> control_raw_state ov \<in> {''attached'', ''online''} \<and>
      normalize_utc (option_or (ov_control_expires_at ov) (ov_expires_at ov)) = Some e \<and>
      e > UTC (aware_us now))"
proof -
  have "control_path_of k = ''managed'' \<longleftrightarrow> kc_live_control_available k \<or> kc_host_reattach_available k"
    by (simp add: control_path_of_def)
  then show ?thesis
    by (simp only: build_session_liveness_facts_def Let_def session_liveness_facts.select_convs control_online_iff)
qed

end
