(* ===== verification/Runtime_Display.thy ===== *)
theory Runtime_Display
  imports Liveness_Facts
begin

text \<open>
  \<open>services/session_runtime_display.py\<close>: the presentation contract of a session (headline, detail,
  tone, flags) from its runtime view, capabilities and machine binding. The enumerations of the
  module are string enums, and their values are what the code compares and returns.
\<close>

definition KNOWN_PRESENCE_STATES :: "string list" where
  "KNOWN_PRESENCE_STATES = [''thinking'', ''running'', ''idle'', ''needs_user'', ''blocked'', ''stalled'']"

definition LIVE_EXECUTION_STATES :: "string list" where
  "LIVE_EXECUTION_STATES = [''thinking'', ''running'']"

definition ATTENTION_STATES :: "string list" where
  "ATTENTION_STATES = [''blocked'']"

lemmas presence_sets = KNOWN_PRESENCE_STATES_def LIVE_EXECUTION_STATES_def ATTENTION_STATES_def

record session_runtime_display =
  rd_truth_tier :: string
  rd_signal_tier :: string
  rd_state :: "string option"
  rd_tone :: string
  rd_headline :: string
  rd_detail :: "string option"
  rd_phase_label :: string
  rd_compact_tool_label :: "string option"
  rd_is_live :: bool
  rd_is_executing :: bool
  rd_needs_attention :: bool
  rd_is_idle :: bool
  rd_is_stalled :: bool
  rd_is_managed_local_truth :: bool
  rd_has_signal :: bool
  rd_control_path :: string
  rd_activity_recency :: string
  rd_lifecycle :: string
  rd_host_state :: string
  rd_terminal_reason :: "string option"
  rd_pause_request :: "pydict option"

definition in_states :: "string option \<Rightarrow> string list \<Rightarrow> bool" where
  "in_states s xs = (case s of None \<Rightarrow> False | Some v \<Rightarrow> v \<in> set xs)"

definition normalize_presence_state :: "string option \<Rightarrow> string option" where
  "normalize_presence_state state = (if in_states state KNOWN_PRESENCE_STATES then state else None)"

definition has_fresh_signal :: "string option \<Rightarrow> string option \<Rightarrow> string option \<Rightarrow> bool" where
  "has_fresh_signal confidence source presence \<longleftrightarrow>
     presence \<noteq> None
     \<or> (confidence = Some ''live'' \<and> \<not> in_states source [''progress'', ''fallback''])
     \<or> in_states source [''semantic'', ''managed_local_transport'']"

definition truth_tier_of ::
  "kernel_capabilities \<Rightarrow> string option \<Rightarrow> string option \<Rightarrow> string option \<Rightarrow> string" where
  "truth_tier_of k confidence source presence =
     (let fresh = has_fresh_signal confidence source presence;
          is_managed = (kc_live_control_available k \<or> kc_host_reattach_available k)
      in if is_managed \<and> fresh \<and> confidence \<noteq> Some ''stale'' then ''managed-local''
         else if fresh \<and> confidence \<noteq> Some ''stale'' then ''fresh''
         else if confidence = Some ''stale'' \<or> source = Some ''fallback'' then ''stale''
         else ''none'')"

definition has_renderable_signal ::
  "string \<Rightarrow> string option \<Rightarrow> string option \<Rightarrow> bool \<Rightarrow> instant option \<Rightarrow> bool" where
  "has_renderable_signal tier source presence process_observed last_live_at =
     (if presence \<noteq> None \<or> process_observed \<or> last_live_at \<noteq> None then True
      else if tier \<in> {''fresh'', ''managed-local''} then True
      else tier = ''stale'' \<and> source \<noteq> Some ''fallback'')"

subsection \<open>Tool labels\<close>

text \<open>\<open>value.split()\<close>: the maximal runs without white space.\<close>

fun split_words :: "string \<Rightarrow> string \<Rightarrow> string list" where
  "split_words cur [] = (if cur = [] then [] else [cur])"
| "split_words cur (c # s) = (if is_space c then (if cur = [] then [] else [cur]) @ split_words [] s
     else split_words (cur @ [c]) s)"

definition title_case_words :: "string \<Rightarrow> string" where
  "title_case_words value = join '' '' (map (\<lambda>w. if length w \<le> 3 \<and> w = py_upper w then w
     else py_upper (take 1 w) @ drop 1 w) (split_words [] value))"

text \<open>\<open>raw.split("__")[-1]\<close>\<close>

fun last_dunder :: "string \<Rightarrow> string \<Rightarrow> string" where
  "last_dunder cur [] = cur"
| "last_dunder cur [c] = cur @ [c]"
| "last_dunder cur (c # d # s) = (if c = CHR ''_'' \<and> d = CHR ''_'' then last_dunder [] s
     else last_dunder (cur @ [c]) (d # s))"

definition drop_prefix :: "string \<Rightarrow> string \<Rightarrow> string option" where
  "drop_prefix p s = (if take (length p) s = p then Some (drop (length p) s) else None)"

text \<open>\<open>re.sub(r"^(hatch_|tool_|mcp_)", "", s)\<close>\<close>

definition strip_tool_prefix :: "string \<Rightarrow> string" where
  "strip_tool_prefix s = (case drop_prefix ''hatch_'' s of Some r \<Rightarrow> r
     | None \<Rightarrow> (case drop_prefix ''tool_'' s of Some r \<Rightarrow> r
     | None \<Rightarrow> (case drop_prefix ''mcp_'' s of Some r \<Rightarrow> r | None \<Rightarrow> s)))"

text \<open>\<open>re.sub(r"[-_.]+", " ", s)\<close>; the flag says that the last character read was a separator.\<close>

fun collapse_seps :: "bool \<Rightarrow> string \<Rightarrow> string" where
  "collapse_seps b [] = []"
| "collapse_seps b (c # s) =
     (if c \<in> {CHR ''-'', CHR ''_'', CHR ''.''} then (if b then [] else '' '') @ collapse_seps True s
      else c # collapse_seps False s)"

definition compact_runtime_tool_label :: "string option \<Rightarrow> string option" where
  "compact_runtime_tool_label tool_name = (case clean tool_name of None \<Rightarrow> None
     | Some raw \<Rightarrow>
       (let normalized = py_strip (collapse_seps False (strip_tool_prefix (last_dunder [] raw)));
            lower = py_lower normalized
        in if normalized = [] then None
           else if lower = ''codex'' then Some ''Codex''
           else if lower = ''claude'' then Some ''Claude''
           else if lower = ''gemini'' \<or> lower = ''antigravity'' then Some ''Antigravity''
           else if lower = ''default'' then Some ''Z.ai''
           else if lower \<in> {''shell'', ''bash'', ''terminal''} then Some ''Shell''
           else if lower \<in> {''edit'', ''write'', ''patch'', ''apply patch'', ''file change'', ''filechange''}
             then Some ''Edit''
           else Some (title_case_words normalized)))"

subsection \<open>Labels and copy\<close>

definition phase_label_of :: "string option \<Rightarrow> string option \<Rightarrow> string option \<Rightarrow> string" where
  "phase_label_of presence display_phase compact_tool =
     (let tool = or_none compact_tool in
      if presence = Some ''needs_user'' then ''Idle''
      else if presence = Some ''running'' \<and> tool \<noteq> None then ''Using '' @ the tool
      else if presence = Some ''blocked'' \<and> tool \<noteq> None then ''Blocked on '' @ the tool
      else (case clean display_phase of Some p \<Rightarrow> p | None \<Rightarrow> ''Inactive''))"

definition tone_of :: "string option \<Rightarrow> bool \<Rightarrow> bool \<Rightarrow> string" where
  "tone_of presence process_observed is_idle =
     (if presence = Some ''stalled'' then ''stalled''
      else if presence = Some ''blocked'' then ''blocked''
      else if presence = Some ''needs_user'' then ''idle''
      else if presence = Some ''running'' then ''running''
      else if presence = Some ''thinking'' then ''thinking''
      else if process_observed then ''active''
      else if is_idle then ''idle''
      else ''inactive'')"

definition outcome_label ::
  "string option \<Rightarrow> bool \<Rightarrow> bool \<Rightarrow> bool \<Rightarrow> string \<Rightarrow> string option \<Rightarrow> string" where
  "outcome_label presence is_executing needs_attention process_observed status terminal_state =
     (if is_executing \<or> needs_attention \<or> process_observed then ''Active''
      else if in_states presence [''idle'', ''needs_user''] then ''Idle''
      else if or_none terminal_state \<noteq> None \<or> status = ''completed'' then ''Completed''
      else ''Inactive'')"

text \<open>The separator of the approval copy is U+2022, written as its UTF-8 bytes.\<close>

definition bullet_sep :: string where
  "bullet_sep = [CHR '' '', CHR 0xE2, CHR 0x80, CHR 0xA2, CHR '' '']"

definition managed_copy :: "string option \<Rightarrow> string option \<Rightarrow> bool \<Rightarrow> string \<times> string option" where
  "managed_copy presence compact_tool live_control_ready =
     (if presence = Some ''thinking'' then (''Working'', Some ''Thinking'')
      else if presence = Some ''running''
        then (''Working'', Some (case or_none compact_tool of Some t \<Rightarrow> ''Using '' @ t | None \<Rightarrow> ''Running''))
      else if presence = Some ''needs_user'' then (''Idle'', Some ''Waiting for next prompt'')
      else if presence = Some ''blocked''
        then (''Needs permission'', Some (case or_none compact_tool of
                Some t \<Rightarrow> ''Approval needed'' @ bullet_sep @ t | None \<Rightarrow> ''Approval needed''))
      else if presence = None
        then (if live_control_ready then (''Activity unknown'', Some ''Live control connected'')
              else (''Not connected'', None))
      else (''Idle'', Some ''Waiting for next prompt''))"

definition derive_control_path :: "kernel_capabilities \<Rightarrow> string" where
  "derive_control_path k =
     (if kc_live_control_available k \<or> kc_host_reattach_available k then ''managed'' else ''unmanaged'')"

definition derive_signal_tier ::
  "runtime_view \<Rightarrow> string \<Rightarrow> string option \<Rightarrow> string option \<Rightarrow> string" where
  "derive_signal_tier rv control_path host_state terminal_reason =
     (if control_path = ''unmanaged'' \<and> in_states terminal_reason [''process_gone'', ''host_expired'']
        then ''process_binding''
      else if control_path = ''unmanaged'' \<and> host_state = Some ''online'' then ''process_binding''
      else let tier = py_strip (rv_signal_tier rv) in
        if tier \<in> {''phase_signal'', ''transcript_progress'', ''none''} then tier else ''none'')"

definition derive_activity_recency ::
  "string option \<Rightarrow> string option \<Rightarrow> bool \<Rightarrow> bool \<Rightarrow> string" where
  "derive_activity_recency presence confidence process_observed has_signal =
     (if presence \<noteq> None \<and> confidence = Some ''live'' then ''live''
      else if process_observed then ''live''
      else if has_signal then ''stale''
      else if confidence = Some ''stale'' then ''stale''
      else ''none'')"

definition derive_terminal_reason :: "string option \<Rightarrow> string option" where
  "derive_terminal_reason terminal_state = (case clean terminal_state of None \<Rightarrow> None
     | Some t \<Rightarrow>
       (let normalized = py_lower t in
        if normalized \<in> {''user_closed'', ''bridge_stop'', ''provider_exit'', ''process_gone'', ''owner_gone'',
                         ''host_expired'', ''provider_signal'', ''unknown''}
        then Some normalized else Some ''provider_signal''))"

definition dset :: "pydict \<Rightarrow> string \<Rightarrow> pyval \<Rightarrow> pydict" where
  "dset d k v = AList.update k v d"

definition active_pause_request_projection :: "pydict option \<Rightarrow> bool \<Rightarrow> pydict option" where
  "active_pause_request_projection pause control_unavailable = (case pause of None \<Rightarrow> None
     | Some p \<Rightarrow>
       (if py_text (dget p ''status'') \<noteq> Some ''pending'' then None
        else if py_text (dget p ''kind'') \<noteq> Some ''structured_question'' then None
        else Some (if control_unavailable then dset p ''can_respond'' (PBool False) else p)))"

definition pause_request_detail :: "pydict \<Rightarrow> string" where
  "pause_request_detail p = (case py_text (dget p ''summary'') of Some s \<Rightarrow> s
     | None \<Rightarrow> (case py_text (dget p ''title'') of Some t \<Rightarrow> t | None \<Rightarrow> ''Question waiting''))"

subsection \<open>The display\<close>

text \<open>
  The local variables of \<open>build_session_runtime_display\<close>: first the values computed once, then the
  draft that the stalled, closed and pause branches rewrite in turn.
\<close>

record display_inputs =
  di_source :: "string option"
  di_control_path :: string
  di_signal_tier :: string
  di_host_state :: string
  di_unverified :: bool
  di_presence :: "string option"
  di_truth_tier :: string
  di_process_observed :: bool
  di_compact_tool :: "string option"
  di_host_unavailable :: bool
  di_live_control_ready :: bool

record display_draft =
  dd_presence :: "string option"
  dd_headline :: string
  dd_detail :: "string option"
  dd_phase_label :: string
  dd_is_executing :: bool
  dd_needs_attention :: bool
  dd_is_idle :: bool
  dd_process_observed :: bool
  dd_is_stalled :: bool
  dd_has_signal :: bool
  dd_pause :: "pydict option"

definition display_inputs_of ::
  "runtime_view \<Rightarrow> kernel_capabilities \<Rightarrow> string option \<Rightarrow> string option \<Rightarrow> display_inputs" where
  "display_inputs_of rv k host terminal_reason =
     (let confidence = rv_confidence rv;
          source = clean (Some (rv_runtime_source rv));
          presence0 = (if confidence \<noteq> Some ''live'' then None
                       else normalize_presence_state (rv_presence_state rv));
          control_path = derive_control_path k;
          signal_tier = derive_signal_tier rv control_path host terminal_reason;
          host_state = (case or_none host of Some h \<Rightarrow> h | None \<Rightarrow> ''unknown'');
          unverified = (control_path = ''unmanaged'' \<and> in_states presence0 ATTENTION_STATES \<and> host_state \<noteq> ''online'');
          presence = (if unverified then None else presence0);
          host_unavailable = (host_state \<in> {''offline'', ''stale'', ''lost''})
      in \<lparr>di_source = source, di_control_path = control_path, di_signal_tier = signal_tier,
          di_host_state = host_state, di_unverified = unverified, di_presence = presence,
          di_truth_tier = truth_tier_of k confidence source presence,
          di_process_observed = (control_path = ''unmanaged'' \<and> signal_tier = ''process_binding''
             \<and> host_state = ''online'' \<and> terminal_reason = None \<and> presence = None),
          di_compact_tool = compact_runtime_tool_label
             (case or_none (rv_active_tool rv) of Some t \<Rightarrow> Some t | None \<Rightarrow> rv_presence_tool rv),
          di_host_unavailable = host_unavailable,
          di_live_control_ready = (kc_live_control_available k \<and> kc_can_send_input k \<and> \<not> host_unavailable)\<rparr>)"

definition initial_draft ::
  "runtime_view \<Rightarrow> kernel_capabilities \<Rightarrow> display_inputs \<Rightarrow> pydict option \<Rightarrow> display_draft" where
  "initial_draft rv k di pause =
     (let presence = di_presence di;
          is_executing = in_states presence LIVE_EXECUTION_STATES;
          needs_attention = in_states presence ATTENTION_STATES;
          is_idle = (if di_unverified di then True else in_states presence [''idle'', ''needs_user'']);
          display_phase = (if rv_confidence rv \<noteq> Some ''live''
                              \<and> \<not> in_states (di_source di) [''fallback'', ''progress''] \<and> rv_terminal_state rv = None
                           then ''Inactive'' else rv_display_phase rv);
          display_phase = (if di_unverified di then ''Inactive'' else display_phase);
          label = phase_label_of presence (Some display_phase) (di_compact_tool di);
          label = (if di_process_observed di \<and> presence = None then ''Process running'' else label);
          label = (if di_live_control_ready di \<and> presence = None then ''Activity unknown'' else label);
          is_managed = (kc_live_control_available k \<or> kc_host_reattach_available k
                        \<or> reply_to_live_session_available k);
          copy = (if is_managed
                  then managed_copy presence (di_compact_tool di) (di_live_control_ready di)
                  else (outcome_label presence is_executing needs_attention (di_process_observed di)
                          (rv_status rv) (rv_terminal_state rv), None))
      in \<lparr>dd_presence = presence, dd_headline = fst copy, dd_detail = snd copy, dd_phase_label = label,
          dd_is_executing = is_executing, dd_needs_attention = needs_attention, dd_is_idle = is_idle,
          dd_process_observed = di_process_observed di, dd_is_stalled = (presence = Some ''stalled''),
          dd_has_signal = has_renderable_signal (di_truth_tier di) (di_source di) presence
             (di_process_observed di) (rv_last_live_at rv),
          dd_pause = pause\<rparr>)"

definition apply_stalled :: "display_draft \<Rightarrow> display_draft" where
  "apply_stalled d = (if dd_is_stalled d
     then d\<lparr>dd_phase_label := ''Stalled'', dd_headline := ''Stalled'', dd_detail := Some ''Provider reported stalled'',
            dd_is_executing := False, dd_needs_attention := False, dd_is_idle := False\<rparr>
     else d)"

definition lifecycle_reason :: "runtime_view \<Rightarrow> string \<times> string option" where
  "lifecycle_reason rv =
     (let reason = option_or (derive_terminal_reason (rv_terminal_reason rv))
                     (derive_terminal_reason (rv_terminal_state rv))
      in if in_states (rv_terminal_state rv) EXPLICIT_CLOSED_TERMINAL_STATES then (''closed'', reason)
         else if in_states (rv_terminal_state rv) UNVERIFIED_TERMINAL_STATES \<or> or_none (rv_terminal_state rv) \<noteq> None
           then (''unknown'', reason)
         else (''open'', None))"

definition apply_closed :: "string \<Rightarrow> display_draft \<Rightarrow> display_draft" where
  "apply_closed lifecycle d = (if lifecycle = ''closed''
     then d\<lparr>dd_presence := None, dd_headline := ''Closed'', dd_detail := None, dd_phase_label := ''Closed'',
            dd_is_executing := False, dd_needs_attention := False, dd_is_idle := True,
            dd_process_observed := False, dd_is_stalled := False, dd_pause := None\<rparr>
     else d)"

definition apply_pause :: "bool \<Rightarrow> display_draft \<Rightarrow> display_draft" where
  "apply_pause host_unavailable d =
     (case active_pause_request_projection (dd_pause d) host_unavailable of
        None \<Rightarrow> d\<lparr>dd_pause := None\<rparr>
      | Some p \<Rightarrow> d\<lparr>dd_headline := ''Needs answer'', dd_detail := Some (pause_request_detail p),
            dd_phase_label := ''Needs answer'', dd_is_executing := False, dd_needs_attention := True,
            dd_is_idle := False, dd_process_observed := False, dd_is_stalled := False,
            dd_has_signal := True, dd_pause := Some p\<rparr>)"

definition display_tone :: "runtime_view \<Rightarrow> display_inputs \<Rightarrow> string \<Rightarrow> display_draft \<Rightarrow> string" where
  "display_tone rv di lifecycle d =
     (let no_runtime_signal = (di_signal_tier di = ''none'' \<and> dd_presence d = None
              \<and> \<not> dd_process_observed d \<and> \<not> di_live_control_ready di)
      in if dd_pause d \<noteq> None then ''blocked''
         else if lifecycle = ''closed'' then ''closed''
         else if di_live_control_ready di \<and> dd_presence d = None then ''idle''
         else if di_unverified di \<or> no_runtime_signal \<or> (dd_presence d = None \<and> rv_confidence rv = Some ''stale'')
           then ''inactive''
         else tone_of (dd_presence d) (dd_process_observed d) (dd_is_idle d))"

definition build_session_runtime_display ::
  "runtime_view \<Rightarrow> kernel_capabilities \<Rightarrow> string option \<Rightarrow> string option \<Rightarrow> pydict option \<Rightarrow>
   session_runtime_display" where
  "build_session_runtime_display rv k host terminal_reason pause =
     (let di = display_inputs_of rv k host terminal_reason;
          d0 = apply_stalled (initial_draft rv k di pause);
          recency = derive_activity_recency (di_presence di) (rv_confidence rv) (di_process_observed di) (dd_has_signal d0);
          lifecycle = fst (lifecycle_reason rv);
          d = apply_pause (di_host_unavailable di) (apply_closed lifecycle d0)
      in \<lparr>rd_truth_tier = di_truth_tier di, rd_signal_tier = di_signal_tier di, rd_state = dd_presence d,
          rd_tone = display_tone rv di lifecycle d, rd_headline = dd_headline d, rd_detail = dd_detail d,
          rd_phase_label = dd_phase_label d, rd_compact_tool_label = di_compact_tool di,
          rd_is_live = dd_is_executing d, rd_is_executing = dd_is_executing d,
          rd_needs_attention = dd_needs_attention d, rd_is_idle = dd_is_idle d,
          rd_is_stalled = dd_is_stalled d,
          rd_is_managed_local_truth = (di_truth_tier di = ''managed-local''),
          rd_has_signal = dd_has_signal d, rd_control_path = di_control_path di,
          rd_activity_recency = recency, rd_lifecycle = lifecycle, rd_host_state = di_host_state di,
          rd_terminal_reason = snd (lifecycle_reason rv), rd_pause_request = dd_pause d\<rparr>)"

subsection \<open>Lemmas\<close>

lemma in_states_Some [simp]: "in_states (Some v) xs \<longleftrightarrow> v \<in> set xs"
  by (simp add: in_states_def)

lemma in_states_None [simp]: "\<not> in_states None xs"
  by (simp add: in_states_def)

lemma normalize_presence_Some:
  "normalize_presence_state p = Some s \<longleftrightarrow> p = Some s \<and> s \<in> set KNOWN_PRESENCE_STATES"
  by (cases p) (auto simp: normalize_presence_state_def)

text \<open>The flags of a draft: at most one of the four holds.\<close>

definition flags_exclusive :: "display_draft \<Rightarrow> bool" where
  "flags_exclusive d \<longleftrightarrow>
     (dd_is_executing d \<longrightarrow> \<not> dd_needs_attention d \<and> \<not> dd_is_idle d \<and> \<not> dd_is_stalled d) \<and>
     (dd_needs_attention d \<longrightarrow> \<not> dd_is_idle d \<and> \<not> dd_is_stalled d) \<and>
     (dd_is_idle d \<longrightarrow> \<not> dd_is_stalled d)"

lemma initial_draft_presence [simp]:
  "dd_presence (initial_draft rv k di pause) = di_presence di"
  "dd_is_stalled (initial_draft rv k di pause) \<longleftrightarrow> di_presence di = Some ''stalled''"
  "dd_is_executing (initial_draft rv k di pause) \<longleftrightarrow> in_states (di_presence di) LIVE_EXECUTION_STATES"
  "dd_needs_attention (initial_draft rv k di pause) \<longleftrightarrow> in_states (di_presence di) ATTENTION_STATES"
  "dd_is_idle (initial_draft rv k di pause) \<longleftrightarrow> di_unverified di \<or> in_states (di_presence di) [''idle'', ''needs_user'']"
  "dd_pause (initial_draft rv k di pause) = pause"
  by (simp_all add: initial_draft_def Let_def)

lemma unverified_presence: "di_unverified (display_inputs_of rv k h t) \<Longrightarrow> di_presence (display_inputs_of rv k h t) = None"
  by (simp add: display_inputs_of_def Let_def)

lemma presence_live:
  "di_presence (display_inputs_of rv k h t) = Some p \<Longrightarrow>
   rv_confidence rv = Some ''live'' \<and> rv_presence_state rv = Some p \<and> p \<in> set KNOWN_PRESENCE_STATES"
  by (auto simp: display_inputs_of_def Let_def normalize_presence_Some split: if_splits)

lemma flags_initial: "flags_exclusive (apply_stalled (initial_draft rv k (display_inputs_of rv k h t) pause))"
  using unverified_presence[of rv k h t]
  by (cases "di_presence (display_inputs_of rv k h t)")
     (auto simp: flags_exclusive_def apply_stalled_def presence_sets)

lemma flags_closed: "flags_exclusive d \<Longrightarrow> flags_exclusive (apply_closed l d)"
  by (simp add: flags_exclusive_def apply_closed_def)

lemma flags_pause: "flags_exclusive d \<Longrightarrow> flags_exclusive (apply_pause u d)"
  by (simp add: flags_exclusive_def apply_pause_def split: option.splits)

lemma display_flags:
  "rd_is_executing (build_session_runtime_display rv k h t p) = dd_is_executing d"
  "rd_needs_attention (build_session_runtime_display rv k h t p) = dd_needs_attention d"
  "rd_is_idle (build_session_runtime_display rv k h t p) = dd_is_idle d"
  "rd_is_stalled (build_session_runtime_display rv k h t p) = dd_is_stalled d"
  if "d = apply_pause (di_host_unavailable (display_inputs_of rv k h t))
     (apply_closed (fst (lifecycle_reason rv)) (apply_stalled (initial_draft rv k (display_inputs_of rv k h t) p)))"
  using that by (simp_all add: build_session_runtime_display_def Let_def)

subsection \<open>Properties\<close>

text \<open>
  The display flags are exclusive: on every input at most one of executing, needs attention, idle
  and stalled holds, whatever the stalled, closed and pause branches rewrite.
\<close>

theorem display_flags_exclusive:
  "of_bool (rd_is_executing (build_session_runtime_display rv k h t p)) +
   of_bool (rd_needs_attention (build_session_runtime_display rv k h t p)) +
   of_bool (rd_is_idle (build_session_runtime_display rv k h t p)) +
   of_bool (rd_is_stalled (build_session_runtime_display rv k h t p)) \<le> (1 :: nat)"
proof -
  let ?d = "apply_pause (di_host_unavailable (display_inputs_of rv k h t))
     (apply_closed (fst (lifecycle_reason rv)) (apply_stalled (initial_draft rv k (display_inputs_of rv k h t) p)))"
  have "flags_exclusive ?d" by (intro flags_pause flags_closed flags_initial)
  then show ?thesis unfolding display_flags[OF refl] flags_exclusive_def by simp
qed

text \<open>
  A session is displayed as executing exactly when a live phase signal says thinking or running,
  it was not closed by the user, and no structured question is pending.
\<close>

theorem display_executing_iff:
  "rd_is_executing (build_session_runtime_display rv k h t p) \<longleftrightarrow>
   rv_confidence rv = Some ''live'' \<and> rv_presence_state rv \<in> {Some ''thinking'', Some ''running''} \<and>
   rv_terminal_state rv \<noteq> Some ''user_closed'' \<and>
   active_pause_request_projection p (di_host_unavailable (display_inputs_of rv k h t)) = None"
proof -
  let ?di = "display_inputs_of rv k h t"
  have pres: "in_states (di_presence ?di) LIVE_EXECUTION_STATES \<longleftrightarrow>
      rv_confidence rv = Some ''live'' \<and> rv_presence_state rv \<in> {Some ''thinking'', Some ''running''}"
    by (cases "rv_presence_state rv")
       (auto simp: display_inputs_of_def Let_def normalize_presence_state_def presence_sets)
  have closed: "fst (lifecycle_reason rv) = ''closed'' \<longleftrightarrow> rv_terminal_state rv = Some ''user_closed''"
    by (cases "rv_terminal_state rv") (auto simp: lifecycle_reason_def terminal_sets Let_def)
  have stalled: "in_states (di_presence ?di) LIVE_EXECUTION_STATES \<Longrightarrow> di_presence ?di \<noteq> Some ''stalled''"
    by (auto simp: presence_sets)
  show ?thesis
    unfolding display_flags[OF refl] closed[symmetric] conj_assoc[symmetric] pres[symmetric]
    using stalled
    by (auto simp: apply_pause_def apply_closed_def apply_stalled_def split: option.splits)
qed

text \<open>
  A user-closed session is displayed closed whatever else was observed: closed headline, label,
  tone and lifecycle, idle, without a presence state, an attention flag or a pause request.
\<close>

theorem display_user_closed:
  assumes "rv_terminal_state rv = Some ''user_closed''"
  shows "\<exists>d. build_session_runtime_display rv k h t p = d \<and> rd_lifecycle d = ''closed'' \<and> rd_tone d = ''closed'' \<and>
    rd_headline d = ''Closed'' \<and> rd_phase_label d = ''Closed'' \<and> rd_detail d = None \<and> rd_state d = None \<and>
    rd_is_idle d \<and> \<not> rd_is_executing d \<and> \<not> rd_needs_attention d \<and> rd_pause_request d = None"
proof -
  have "fst (lifecycle_reason rv) = ''closed''"
    using assms by (simp add: lifecycle_reason_def terminal_sets Let_def)
  then show ?thesis
    by (simp add: build_session_runtime_display_def Let_def apply_closed_def apply_pause_def
        active_pause_request_projection_def display_tone_def)
qed

definition sample_view :: runtime_view where
  "sample_view = build_runtime_view
     (empty_runtime_state\<lparr>rs_phase := Some ''running'', rs_phase_source := Some ''semantic'',
        rs_freshness_expires_at := Some (DT 100 None), rs_terminal_state := Some ''user_closed''\<rparr>)
     \<lparr>as_id = ''s'', as_started_at = None, as_ended_at = None, as_terminal_state = None\<rparr> (UTC 50)"

lemma sample_view_closed: "rv_terminal_state sample_view = Some ''user_closed''"
  by code_simp

theorem display_user_closed_witness:
  "rd_tone (build_session_runtime_display sample_view
      (base_payload ''s'' None None (bucket_of ''live'' True True False False None)) (Some ''online'') None None) = ''closed''"
  using display_user_closed[OF sample_view_closed] by metis

end
