(* ===== verification/State_Contract.thy ===== *)
theory State_Contract
  imports Runtime_Display
begin

text \<open>
  \<open>services/session_state_contract.py\<close>: the orthogonal axes of a session (disposition, launch, run,
  activity, control, interaction, transcript, host), the projection of each from loaded evidence, and
  the single presentation policy that turns the axes into at most three labels. Literal types are
  datatypes; presentation keys, labels and tones are the strings clients receive.
\<close>

definition PRIMARY_PRESENTATION_KEYS :: "string list" where
  "PRIMARY_PRESENTATION_KEYS =
     [''closed'', ''launch_failed'', ''starting'', ''needs_answer'', ''needs_approval'', ''thinking'',
      ''executing'', ''stalled'', ''blocked'', ''idle'', ''ended'', ''ready'', ''no_recent_activity'',
      ''activity_unknown'']"

definition ACCESS_PRESENTATION_KEYS :: "string list" where
  "ACCESS_PRESENTATION_KEYS =
     [''live_control'', ''reattach'', ''control_degraded'', ''control_disconnected'', ''control_unknown'',
      ''read_only'', ''observe_only'', ''search_only'', ''closed'', ''machine_offline'',
      ''console_no_turn_path'', ''console_no_target'']"

definition TRANSCRIPT_PRESENTATION_KEYS :: "string list" where
  "TRANSCRIPT_PRESENTATION_KEYS = [''transcript_lagging'']"

datatype activity_state = Act_thinking | Act_executing | Act_quiescent | Act_blocked | Act_stalled | Act_unknown
datatype run_lifecycle = Run_starting | Run_running | Run_ended | Run_unknown
datatype connection_state = Conn_connected | Conn_degraded | Conn_disconnected | Conn_unknown | Conn_not_applicable
datatype action_state = Available | Unavailable | Action_unknown
datatype transcript_convergence = Tr_current | Tr_lagging | Tr_unknown
datatype session_mode = Mode_shadow | Mode_helm | Mode_console | Mode_unknown
datatype working_set = WS_open | WS_history
datatype launch_state = La_pending | La_dispatched | La_failed | La_adopted | La_abandoned
datatype disposition_state = Disp_open | Disp_closed
datatype ownership = Owned | Unowned
datatype interaction_kind = Int_question | Int_permission | Int_approval
datatype host_state = Host_online | Host_stale | Host_offline | Host_unknown
datatype connection_ref = Ref_id int | Ref_adapter string

definition LAST_SEEN_LABEL :: "(string \<times> string) list" where
  "LAST_SEEN_LABEL =
     [(''thinking'', ''thinking''), (''running'', ''running a tool''), (''idle'', ''idle''), (''needs_user'', ''idle''),
      (''blocked'', ''blocked''), (''stalled'', ''stalled'')]"

definition ENDED_RUNTIME_STATES :: "string list" where
  "ENDED_RUNTIME_STATES = [''session_ended'', ''process_gone''] @ RUN_TERMINAL_STATES"

definition ACTIVITY_MAP :: "(string \<times> activity_state) list" where
  "ACTIVITY_MAP =
     [(''thinking'', Act_thinking), (''running'', Act_executing), (''idle'', Act_quiescent),
      (''needs_user'', Act_quiescent), (''blocked'', Act_blocked), (''stalled'', Act_stalled)]"

record disposition_facts =
  df_state :: disposition_state
  df_closed_at :: "instant option"
  df_close_reason :: "string option"

record run_facts =
  rf_id :: "string option"
  rf_lifecycle :: run_lifecycle
  rf_started_at :: "instant option"
  rf_ended_at :: "instant option"
  rf_end_reason :: "string option"

record launch_facts =
  lc_state :: launch_state
  lc_error_code :: "string option"
  lc_error_message :: "string option"

record activity_facts =
  af_state :: activity_state
  af_raw_kind :: "string option"
  af_tool :: "string option"
  af_source :: "string option"
  af_observed_at :: "instant option"
  af_valid_until :: "instant option"

record action_availability =
  aa_state :: action_state
  aa_reason :: "string option"

record control_actions =
  ca_start_turn :: action_availability
  ca_send_input :: action_availability
  ca_interrupt :: action_availability
  ca_terminate :: action_availability
  ca_reattach :: action_availability
  ca_resume :: action_availability

record control_facts =
  cf_ownership :: ownership
  cf_connection :: connection_state
  cf_connection_id :: "connection_ref option"
  cf_lease_generation :: "string option"
  cf_control_plane :: "string option"
  cf_terminal_attached :: "bool option"
  cf_observed_at :: "instant option"
  cf_valid_until :: "instant option"
  cf_actions :: control_actions

record interaction_facts =
  pi_id :: string
  pi_kind :: interaction_kind
  pi_opened_at :: "instant option"
  pi_resolved_at :: "instant option"
  pi_provider_request_id :: "string option"
  pi_can_respond :: bool

record transcript_facts =
  tf_convergence :: transcript_convergence
  tf_source_revision :: "int option"
  tf_durable_revision :: "int option"
  tf_render_revision :: "int option"
  tf_last_append_at :: "instant option"
  tf_searchable :: bool
  tf_live_observation :: bool

record host_facts =
  hf_state :: host_state
  hf_observed_at :: "instant option"

record presentation_label =
  pl_key :: string
  pl_label :: string
  pl_tone :: string
  pl_observed_at :: "instant option"

record presentation =
  pr_primary :: "presentation_label option"
  pr_access :: "presentation_label option"
  pr_transcript :: "presentation_label option"

record state_facts =
  sf_mode :: session_mode
  sf_disposition :: disposition_facts
  sf_launch :: "launch_facts option"
  sf_run :: "run_facts option"
  sf_activity :: activity_facts
  sf_control :: control_facts
  sf_pending_interaction :: "interaction_facts option"
  sf_transcript :: transcript_facts
  sf_host :: host_facts
  sf_working_set :: working_set
  sf_unread :: bool
  sf_last_result_at :: "instant option"
  sf_last_result_outcome :: "string option"
  sf_presentation :: presentation
  sf_commit_seq :: "int option"

text \<open>The attributes of a session row that the projections read; enum columns are their values.\<close>

record session_row =
  sr_launch_surface :: "string option"
  sr_origin_kind :: "string option"
  sr_execution_home :: "string option"
  sr_closed_at :: "pydatetime option"
  sr_close_reason :: "string option"
  sr_started_at :: "pydatetime option"
  sr_transcript_revision :: "int option"
  sr_last_console_result_at :: "pydatetime option"
  sr_last_console_result_outcome :: "string option"
  sr_last_read_at :: "pydatetime option"

subsection \<open>The axes\<close>

definition mode_of :: "session_row \<Rightarrow> string option \<Rightarrow> kernel_capabilities \<Rightarrow> session_mode" where
  "mode_of session execution_lifetime k =
     (let origin_kind = clean (sr_origin_kind session);
          surface = clean (sr_launch_surface session);
          execution_home = clean (sr_execution_home session)
      in if origin_kind = Some ''console'' \<or> execution_lifetime = Some ''one_shot''
            \<or> in_states surface [''web'', ''ios'', ''api''] then Mode_console
         else if kc_observe_only k then Mode_shadow
         else if execution_lifetime = Some ''live_control'' \<or> execution_home = Some ''managed_local''
            \<or> kc_control_owned k \<or> kc_live_control_available k \<or> kc_host_reattach_available k then Mode_helm
         else if execution_home = None
            \<or> in_states execution_home [''local'', ''imported'', ''unmanaged'', ''unmanaged_local''] then Mode_shadow
         else Mode_unknown)"

definition open_disposition :: disposition_facts where
  "open_disposition = \<lparr>df_state = Disp_open, df_closed_at = None, df_close_reason = None\<rparr>"

definition disposition_of :: "session_row \<Rightarrow> runtime_view option \<Rightarrow> disposition_facts" where
  "disposition_of session rv =
     (case normalize_utc (sr_closed_at session) of
        Some t \<Rightarrow> \<lparr>df_state = Disp_closed, df_closed_at = Some t,
          df_close_reason = option_or (clean (sr_close_reason session)) (Some ''user_closed'')\<rparr>
      | None \<Rightarrow> (case rv of
          Some v \<Rightarrow> (if clean (rv_terminal_state v) = Some ''user_closed''
            then \<lparr>df_state = Disp_closed, df_closed_at = Some (rv_timeline_anchor_at v),
                  df_close_reason = Some ''user_closed''\<rparr>
            else open_disposition)
        | None \<Rightarrow> open_disposition))"

definition unknown_activity :: activity_facts where
  "unknown_activity = \<lparr>af_state = Act_unknown, af_raw_kind = None, af_tool = None, af_source = None,
     af_observed_at = None, af_valid_until = None\<rparr>"

definition activity_of_kind :: "string option \<Rightarrow> activity_state" where
  "activity_of_kind kind = (case map_of ACTIVITY_MAP (case kind of None \<Rightarrow> [] | Some s \<Rightarrow> s) of
     None \<Rightarrow> Act_unknown | Some a \<Rightarrow> a)"

definition activity_of :: "runtime_view option \<Rightarrow> activity_facts" where
  "activity_of v = (case v of None \<Rightarrow> unknown_activity
     | Some rv \<Rightarrow>
       (let raw_kind = option_or (clean (rv_presence_state rv)) (clean (rv_runtime_phase rv));
            source = clean (Some (rv_runtime_source rv));
            state = (if rv_confidence rv = Some ''live'' then activity_of_kind raw_kind else Act_unknown);
            state = (if in_states source [''fallback'', ''progress''] then Act_unknown else state)
        in \<lparr>af_state = state, af_raw_kind = raw_kind,
            af_tool = compact_runtime_tool_label (option_or (or_none (rv_active_tool rv)) (rv_presence_tool rv)),
            af_source = source,
            af_observed_at = option_or (rv_presence_updated_at rv) (rv_phase_started_at rv),
            af_valid_until = rv_freshness_expires_at rv\<rparr>))"

definition LAUNCH_STATE_MAP :: "(string \<times> launch_state) list" where
  "LAUNCH_STATE_MAP =
     [(''launching'', La_pending), (''launching_unknown'', La_dispatched), (''live'', La_adopted),
      (''launch_failed'', La_failed), (''launch_orphaned'', La_abandoned), (''pending'', La_pending),
      (''dispatched'', La_dispatched), (''adopted'', La_adopted), (''failed'', La_failed),
      (''abandoned'', La_abandoned)]"

definition launch_of :: "string option \<Rightarrow> string option \<Rightarrow> string option \<Rightarrow> launch_facts option" where
  "launch_of state code msg = map_option
     (\<lambda>s. \<lparr>lc_state = s, lc_error_code = clean code, lc_error_message = clean msg\<rparr>)
     (map_of LAUNCH_STATE_MAP (case clean state of None \<Rightarrow> [] | Some s \<Rightarrow> s))"

definition mk_run :: "string option \<Rightarrow> run_lifecycle \<Rightarrow> instant option \<Rightarrow> run_facts" where
  "mk_run i l s = \<lparr>rf_id = i, rf_lifecycle = l, rf_started_at = s, rf_ended_at = None, rf_end_reason = None\<rparr>"

definition run_of ::
  "session_row \<Rightarrow> runtime_view option \<Rightarrow> kernel_capabilities \<Rightarrow> session_liveness_facts \<Rightarrow> activity_facts \<Rightarrow>
   launch_facts option \<Rightarrow> session_mode \<Rightarrow> run_facts option" where
  "run_of session rv k liveness activity launch mode =
     (if (case launch of None \<Rightarrow> False | Some l \<Rightarrow> lc_state l \<in> {La_pending, La_dispatched}) \<and> kc_run_id k = None
      then Some (mk_run None Run_starting (normalize_utc (sr_started_at session)))
      else
        let terminal = clean (Option.bind rv rv_terminal_state);
            started_at = option_or (normalize_utc (kc_run_started_at k)) (normalize_utc (sr_started_at session));
            ended_at = normalize_utc (kc_run_ended_at k);
            run_id = clean (kc_run_id k);
            observed = (po_status (sl_process liveness) = ''observed'')
        in if in_states terminal ENDED_RUNTIME_STATES \<or> kc_staleness_reason k = Some ''process_ended''
           then Some \<lparr>rf_id = run_id, rf_lifecycle = Run_ended, rf_started_at = started_at, rf_ended_at = ended_at,
                  rf_end_reason = option_or terminal (option_or (clean (kc_run_end_reason k)) (Some ''process_ended''))\<rparr>
           else if mode = Mode_console \<and> kc_turn_state k \<in> {Turn_queued, Turn_starting}
           then Some (mk_run run_id Run_starting started_at)
           else if mode = Mode_console \<and> kc_turn_state k \<in> {Turn_active, Turn_draining}
           then Some (mk_run run_id Run_running started_at)
           else if run_id = None \<and> af_state activity = Act_unknown \<and> \<not> observed then None
           else Some (mk_run run_id
                  (if observed \<or> af_state activity \<noteq> Act_unknown then Run_running else Run_unknown) started_at))"

subsection \<open>The control axis\<close>

definition available :: action_availability where
  "available = \<lparr>aa_state = Available, aa_reason = None\<rparr>"

definition unavailable :: "string \<Rightarrow> action_availability" where
  "unavailable reason = \<lparr>aa_state = Unavailable, aa_reason = Some reason\<rparr>"

definition action_unavailable_reason ::
  "ownership \<Rightarrow> connection_state \<Rightarrow> string option \<Rightarrow> action_availability" where
  "action_unavailable_reason own connection fallback =
     (if own = Unowned then unavailable ''observe_only''
      else if connection = Conn_unknown then \<lparr>aa_state = Action_unknown, aa_reason = Some ''control_freshness_unknown''\<rparr>
      else if connection = Conn_degraded then unavailable ''control_degraded''
      else if connection = Conn_disconnected then unavailable ''control_disconnected''
      else unavailable (case or_none fallback of Some r \<Rightarrow> r | None \<Rightarrow> ''not_granted''))"

definition operation_of ::
  "bool \<Rightarrow> ownership \<Rightarrow> connection_state \<Rightarrow> string option \<Rightarrow> bool \<Rightarrow> action_availability" where
  "operation_of is_available own connection fallback allow_disconnected =
     (if is_available \<and> (connection = Conn_connected \<or> (allow_disconnected \<and> connection = Conn_disconnected))
      then available else action_unavailable_reason own connection fallback)"

definition ownership_of :: "kernel_capabilities \<Rightarrow> ownership" where
  "ownership_of k =
     (if kc_control_owned k \<or> kc_live_control_available k \<or> kc_host_reattach_available k then Owned else Unowned)"

definition connection_of :: "kernel_capabilities \<Rightarrow> session_liveness_facts \<Rightarrow> instant \<Rightarrow> connection_state" where
  "connection_of k liveness now =
     (let expired = (case co_expires_at (sl_control liveness) of None \<Rightarrow> False | Some v \<Rightarrow> v \<le> now);
          raw = clean (Some (co_state (sl_control liveness)))
      in if ownership_of k = Unowned then Conn_not_applicable
         else if expired then Conn_unknown
         else if kc_live_control_available k
           then (if clean (kc_connection_state k) = Some ''degraded'' then Conn_degraded else Conn_connected)
         else if kc_host_reattach_available k then Conn_disconnected
         else if in_states raw [''online'', ''attached''] then Conn_connected
         else if raw = Some ''degraded'' then Conn_degraded
         else if in_states raw [''offline'', ''detached'', ''released'', ''ended''] then Conn_disconnected
         else Conn_unknown)"

definition connection_ref_of :: "kernel_capabilities \<Rightarrow> connection_ref option" where
  "connection_ref_of k = (case or_none (kc_adapter_connection_id k) of
     Some a \<Rightarrow> Some (Ref_adapter a) | None \<Rightarrow> map_option Ref_id (kc_connection_id k))"

definition control_of :: "kernel_capabilities \<Rightarrow> session_liveness_facts \<Rightarrow> instant \<Rightarrow> control_facts" where
  "control_of k liveness now =
     (let own = ownership_of k;
          connection = connection_of k liveness now;
          fallback = clean (kc_staleness_reason k);
          live = kc_live_control_available k;
          reattach_available = (kc_host_reattach_available k \<and> \<not> live);
          blocked_by = (if kc_can_start_turn k \<and> ho_state (sl_host liveness) \<in> {''offline'', ''stale''}
                        then Some ''machine_offline''
                        else map_option blocker_name (kc_start_turn_blocked_by k))
      in \<lparr>cf_ownership = own, cf_connection = connection, cf_connection_id = connection_ref_of k,
          cf_lease_generation = kc_lease_generation k, cf_control_plane = clean (kc_control_plane k),
          cf_terminal_attached = None,
          cf_observed_at = co_last_seen_at (sl_control liveness),
          cf_valid_until = co_expires_at (sl_control liveness),
          cf_actions =
            \<lparr>ca_start_turn = (if kc_can_start_turn k \<and> blocked_by = None then available
                 else unavailable (case blocked_by of Some b \<Rightarrow> b | None \<Rightarrow> ''not_console'')),
             ca_send_input = operation_of (kc_can_send_input k \<and> live) own connection fallback False,
             ca_interrupt = operation_of (kc_can_interrupt k \<and> live) own connection fallback False,
             ca_terminate = operation_of (kc_can_terminate k \<and> live) own connection fallback False,
             ca_reattach = operation_of reattach_available own connection
                 (if live then Some ''already_connected'' else fallback) True,
             ca_resume = operation_of (kc_can_resume k \<and> (live \<or> reattach_available)) own connection fallback True\<rparr>\<rparr>)"

fun connection_of_console :: "console_connection \<Rightarrow> connection_state" where
  "connection_of_console Con_connected = Conn_connected"
| "connection_of_console Con_degraded = Conn_degraded"
| "connection_of_console Con_disconnected = Conn_disconnected"

definition console_control :: "kernel_capabilities \<Rightarrow> control_facts" where
  "console_control k =
     (let blk = kc_start_turn_blocked_by k;
          projection = (case kc_console_control k of Some p \<Rightarrow> p
            | None \<Rightarrow> project_console_control (blk = Some Blk_session_closed)
                (blk \<noteq> Some Blk_execution_target_missing) (PStr (turn_state_name (kc_turn_state k)))
                (blk \<noteq> Some Blk_machine_offline) (blk \<noteq> Some Blk_adapter_unavailable) (kc_can_interrupt k));
          blocked_by = cp_start_turn_blocked_by projection
      in \<lparr>cf_ownership = Owned, cf_connection = connection_of_console (cp_connection projection),
          cf_connection_id = None, cf_lease_generation = None, cf_control_plane = None,
          cf_terminal_attached = None, cf_observed_at = None, cf_valid_until = None,
          cf_actions =
            \<lparr>ca_start_turn = (if cp_can_start_turn projection \<and> blocked_by = None then available
                 else unavailable (case blocked_by of Some b \<Rightarrow> blocker_name b | None \<Rightarrow> ''start_turn_unavailable'')),
             ca_send_input = unavailable ''use_start_turn'',
             ca_interrupt = (if cp_can_interrupt_active_turn projection then available
                 else unavailable (interrupt_unavailable_reason projection)),
             ca_terminate = unavailable ''unsupported'',
             ca_reattach = unavailable ''not_helm'',
             ca_resume = unavailable ''not_helm''\<rparr>\<rparr>)"

subsection \<open>Interaction and transcript\<close>

text \<open>\<open>normalize_utc\<close> of a dictionary value: any value but \<open>None\<close> and a \<open>datetime\<close> lacks \<open>tzinfo\<close>.\<close>

definition normalize_utc_value :: "pyval \<Rightarrow> instant option res" where
  "normalize_utc_value v = (case v of PNone \<Rightarrow> Inr None
     | PDatetime d \<Rightarrow> Inr (normalize_utc (Some d))
     | _ \<Rightarrow> Inl (AttributeError ''tzinfo''))"

definition INTERACTION_KIND_MAP :: "(string \<times> interaction_kind) list" where
  "INTERACTION_KIND_MAP =
     [(''structured_question'', Int_question), (''permission_prompt'', Int_permission), (''plan_approval'', Int_approval)]"

definition interaction_of :: "pydict option \<Rightarrow> interaction_facts option res" where
  "interaction_of pause = (case pause of None \<Rightarrow> Inr None
     | Some p \<Rightarrow>
       (if py_text (dget p ''status'') \<noteq> Some ''pending'' then Inr None
        else case map_of INTERACTION_KIND_MAP
               (case py_text (dget p ''kind'') of None \<Rightarrow> [] | Some s \<Rightarrow> s) of
          None \<Rightarrow> Inr None
        | Some kind \<Rightarrow>
          (case py_text (py_or (py_or (dget p ''id'') (dget p ''request_key'')) (dget p ''provider_request_id'')) of
             None \<Rightarrow> Inr None
           | Some i \<Rightarrow>
             bindR (normalize_utc_value (py_or (dget p ''occurred_at'') (dget p ''created_at''))) (\<lambda>opened.
             bindR (normalize_utc_value (dget p ''resolved_at'')) (\<lambda>resolved.
             Inr (Some \<lparr>pi_id = i, pi_kind = kind, pi_opened_at = opened, pi_resolved_at = resolved,
                        pi_provider_request_id = py_text (dget p ''provider_request_id''),
                        pi_can_respond = truthy (dget p ''can_respond'')\<rparr>))))))"

record transcript_inputs =
  ti_preview :: bool
  ti_pending_response :: bool
  ti_user_messages :: int
  ti_assistant_messages :: int
  ti_archive_state :: "string option"
  ti_live_observation :: bool
  ti_source_revision :: "int option"
  ti_durable_revision :: "int option"
  ti_render_revision :: "int option"
  ti_last_append_at :: "pydatetime option"

definition ahead_of :: "int option \<Rightarrow> int option \<Rightarrow> bool" where
  "ahead_of a b = (case a of None \<Rightarrow> False | Some x \<Rightarrow> (case b of None \<Rightarrow> False | Some y \<Rightarrow> x > y))"

definition transcript_of :: "session_row \<Rightarrow> transcript_inputs \<Rightarrow> transcript_facts" where
  "transcript_of session ti =
     (let legacy = (case sr_transcript_revision session of None \<Rightarrow> 0 | Some r \<Rightarrow> r);
          archive = clean (ti_archive_state ti);
          revisions = List.map_filter id [ti_source_revision ti, ti_durable_revision ti, ti_render_revision ti];
          expected = (list_ex (\<lambda>r. r > 0) revisions \<or> legacy > 0 \<or> ti_user_messages ti > 0
             \<or> ti_assistant_messages ti > 0 \<or> ti_pending_response ti \<or> ti_preview ti);
          revision_lag = (ahead_of (ti_source_revision ti) (ti_durable_revision ti)
             \<or> ahead_of (ti_source_revision ti) (ti_render_revision ti)
             \<or> ahead_of (ti_durable_revision ti) (ti_render_revision ti));
          lagging = (revision_lag \<or> (archive = Some ''pending'' \<and> expected)
             \<or> (\<not> ti_preview ti \<and> (ti_pending_response ti \<or> ti_user_messages ti > ti_assistant_messages ti)));
          convergence = (if lagging then Tr_lagging
             else if archive = Some ''pending'' \<and> \<not> expected then Tr_current
             else if in_states archive [''current'', ''legacy_hot''] then Tr_current
             else Tr_unknown)
      in \<lparr>tf_convergence = convergence, tf_source_revision = ti_source_revision ti,
          tf_durable_revision = ti_durable_revision ti, tf_render_revision = ti_render_revision ti,
          tf_last_append_at = normalize_utc (ti_last_append_at ti),
          tf_searchable = (legacy > 0 \<or> ti_user_messages ti > 0 \<or> ti_assistant_messages ti > 0),
          tf_live_observation = ti_live_observation ti\<rparr>)"

definition project_pending_interaction_facts :: "pydict option \<Rightarrow> interaction_facts option res" where
  "project_pending_interaction_facts pause = interaction_of pause"

definition project_transcript_facts :: "session_row \<Rightarrow> transcript_inputs \<Rightarrow> transcript_facts" where
  "project_transcript_facts session ti = transcript_of session ti"

end
