(* ===== verification/State_Presentation.thy ===== *)
theory State_Presentation
  imports State_Contract
begin

text \<open>
  \<open>services/session_state_contract.py\<close>, second half: the presentation policy (\<open>_primary\<close>, \<open>_access\<close>,
  \<open>_console_access\<close>), the working set, the unread overlay, and the two builders that assemble the
  served object from live rows and from archive rows.
\<close>

definition label_of :: "string \<Rightarrow> string \<Rightarrow> string \<Rightarrow> instant option \<Rightarrow> presentation_label" where
  "label_of key lbl tone at = \<lparr>pl_key = key, pl_label = lbl, pl_tone = tone, pl_observed_at = at\<rparr>"

definition unread :: "pydatetime option \<Rightarrow> pydatetime option \<Rightarrow> bool" where
  "unread last_console_result_at last_read_at = (case normalize_utc last_console_result_at of
       None \<Rightarrow> False
     | Some result_at \<Rightarrow> (case normalize_utc last_read_at of None \<Rightarrow> True | Some read_at \<Rightarrow> result_at > read_at))"

definition run_in :: "run_facts option \<Rightarrow> run_lifecycle set \<Rightarrow> bool" where
  "run_in run ls = (case run of None \<Rightarrow> False | Some r \<Rightarrow> rf_lifecycle r \<in> ls)"

definition working_set_of ::
  "disposition_facts \<Rightarrow> activity_facts \<Rightarrow> control_facts \<Rightarrow> interaction_facts option \<Rightarrow> session_mode \<Rightarrow>
   run_facts option \<Rightarrow> working_set" where
  "working_set_of disposition activity control interaction mode run =
     (if df_state disposition = Disp_closed then WS_history
      else if mode = Mode_console \<and> run_in run {Run_starting, Run_running} then WS_open
      else if interaction \<noteq> None then WS_open
      else if af_state activity \<in> {Act_thinking, Act_executing} then WS_open
      else if cf_terminal_attached control = Some True then WS_open
      else WS_history)"

text \<open>The label of an observed activity, \<open>None\<close> when the activity axis is unknown.\<close>

fun activity_label :: "activity_facts \<Rightarrow> presentation_label option" where
  "activity_label a = (case af_state a of
       Act_thinking \<Rightarrow> Some (label_of ''thinking'' ''Thinking'' ''thinking'' (af_observed_at a))
     | Act_executing \<Rightarrow> Some (label_of ''executing''
         (case or_none (af_tool a) of Some t \<Rightarrow> ''Using '' @ t | None \<Rightarrow> ''Running'') ''running'' (af_observed_at a))
     | Act_stalled \<Rightarrow> Some (label_of ''stalled'' ''Stalled'' ''stalled'' (af_observed_at a))
     | Act_blocked \<Rightarrow> Some (label_of ''blocked'' ''Blocked'' ''blocked'' (af_observed_at a))
     | Act_quiescent \<Rightarrow> Some (label_of ''idle'' ''Idle'' ''idle'' (af_observed_at a))
     | Act_unknown \<Rightarrow> None)"

text \<open>The ladder below the activity axis.\<close>

definition quiet_label ::
  "session_mode \<Rightarrow> run_facts option \<Rightarrow> activity_facts \<Rightarrow> control_facts \<Rightarrow> presentation_label option" where
  "quiet_label mode run activity control =
     (case run of
        None \<Rightarrow>
          (if mode = Mode_console \<and> cf_ownership control = Owned \<and> cf_connection control = Conn_connected
              \<and> aa_state (ca_start_turn (cf_actions control)) = Available
           then Some (label_of ''ready'' ''Ready'' ''idle'' None) else None)
      | Some r \<Rightarrow>
          (if rf_lifecycle r = Run_ended then Some (label_of ''ended'' ''Ended'' ''closed'' (rf_ended_at r))
           else if mode = Mode_console \<and> rf_lifecycle r = Run_running
             then Some (label_of ''executing'' ''Working'' ''running'' (rf_started_at r))
           else case (if af_state activity = Act_unknown \<and> cf_connection control \<in> {Conn_connected, Conn_degraded}
                      then Option.bind (af_raw_kind activity) (map_of LAST_SEEN_LABEL) else None) of
             Some last_seen \<Rightarrow> Some (label_of ''no_recent_activity''
               (''No recent activity (last: '' @ last_seen @ '')'') ''quiet'' (af_observed_at activity))
           | None \<Rightarrow> Some (label_of ''activity_unknown'' ''Activity unknown'' ''quiet'' None)))"

definition primary_of ::
  "session_mode \<Rightarrow> disposition_facts \<Rightarrow> launch_facts option \<Rightarrow> run_facts option \<Rightarrow> activity_facts \<Rightarrow>
   control_facts \<Rightarrow> interaction_facts option \<Rightarrow> presentation_label option" where
  "primary_of mode disposition launch run activity control interaction =
     (if df_state disposition = Disp_closed
        then Some (label_of ''closed'' ''Closed'' ''closed'' (df_closed_at disposition))
      else if (case launch of None \<Rightarrow> False | Some l \<Rightarrow> lc_state l \<in> {La_failed, La_abandoned})
        then Some (label_of ''launch_failed'' ''Launch failed'' ''blocked'' None)
      else if run_in run {Run_starting}
        then Some (label_of ''starting'' ''Starting'' ''active'' (Option.bind run rf_started_at))
      else case interaction of
        Some i \<Rightarrow> (if pi_kind i = Int_question
            then Some (label_of ''needs_answer'' ''Needs answer'' ''blocked'' (pi_opened_at i))
            else Some (label_of ''needs_approval'' ''Needs approval'' ''blocked'' (pi_opened_at i)))
      | None \<Rightarrow> (case activity_label activity of Some l \<Rightarrow> Some l
          | None \<Rightarrow> quiet_label mode run activity control))"

definition console_access :: "control_facts \<Rightarrow> presentation_label option" where
  "console_access control =
     (let start_turn = ca_start_turn (cf_actions control); at = cf_observed_at control;
          reason = clean (aa_reason start_turn)
      in if aa_state start_turn = Available then Some (label_of ''live_control'' ''Live control'' ''live'' at)
         else if reason = Some ''session_closed'' then None
         else if reason = Some ''machine_offline'' then Some (label_of ''machine_offline'' ''Machine offline'' ''degraded'' at)
         else if reason = Some ''adapter_unavailable'' then Some (label_of ''console_no_turn_path'' ''Can't send'' ''inactive'' at)
         else if reason = Some ''execution_target_missing'' then Some (label_of ''console_no_target'' ''No target'' ''inactive'' at)
         else None)"

definition access_of ::
  "session_mode \<Rightarrow> disposition_facts \<Rightarrow> control_facts \<Rightarrow> transcript_facts \<Rightarrow> presentation_label option" where
  "access_of mode disposition control transcript =
     (let acts = cf_actions control; at = cf_observed_at control;
          live_actions = [ca_start_turn acts, ca_send_input acts, ca_interrupt acts, ca_terminate acts]
      in if df_state disposition = Disp_closed then None
         else if mode = Mode_console \<and> cf_ownership control = Owned then console_access control
         else if cf_ownership control = Owned \<and> (cf_connection control = Conn_connected
                 \<or> list_ex (\<lambda>a. aa_state a = Available) live_actions)
           then Some (label_of ''live_control'' ''Live control'' ''live'' at)
         else if aa_state (ca_reattach acts) = Available
           then Some (label_of ''reattach'' ''Reattach'' ''reattach'' at)
         else if cf_connection control = Conn_degraded
           then Some (label_of ''control_degraded'' ''Control degraded'' ''degraded'' at)
         else if cf_ownership control = Owned \<and> cf_connection control = Conn_unknown
           then Some (label_of ''control_unknown'' ''Control unknown'' ''inactive'' at)
         else if cf_ownership control = Owned \<and> cf_connection control = Conn_connected
           then Some (label_of ''read_only'' ''Read only'' ''neutral'' at)
         else if cf_ownership control = Unowned \<and> tf_live_observation transcript
           then Some (label_of ''observe_only'' ''Observe only'' ''observe'' (tf_last_append_at transcript))
         else if tf_searchable transcript then Some (label_of ''search_only'' ''Search only'' ''search'' None)
         else None)"

definition transcript_label :: "transcript_facts \<Rightarrow> presentation_label option" where
  "transcript_label t = (if tf_convergence t = Tr_lagging
     then Some (label_of ''transcript_lagging'' ''Transcript catching up'' ''inactive'' (tf_last_append_at t)) else None)"

record axes =
  ax_mode :: session_mode
  ax_disposition :: disposition_facts
  ax_launch :: "launch_facts option"
  ax_run :: "run_facts option"
  ax_activity :: activity_facts
  ax_control :: control_facts
  ax_interaction :: "interaction_facts option"
  ax_transcript :: transcript_facts
  ax_host :: host_facts

definition assemble_session_state_facts ::
  "axes \<Rightarrow> int option \<Rightarrow> pydatetime option \<Rightarrow> string option \<Rightarrow> pydatetime option \<Rightarrow> state_facts" where
  "assemble_session_state_facts ax commit_seq result_at result_outcome read_at =
     \<lparr>sf_mode = ax_mode ax, sf_disposition = ax_disposition ax, sf_launch = ax_launch ax, sf_run = ax_run ax,
      sf_activity = ax_activity ax, sf_control = ax_control ax, sf_pending_interaction = ax_interaction ax,
      sf_transcript = ax_transcript ax, sf_host = ax_host ax,
      sf_working_set = working_set_of (ax_disposition ax) (ax_activity ax) (ax_control ax) (ax_interaction ax)
         (ax_mode ax) (ax_run ax),
      sf_unread = unread result_at read_at, sf_last_result_at = normalize_utc result_at,
      sf_last_result_outcome = clean result_outcome,
      sf_presentation =
        \<lparr>pr_primary = primary_of (ax_mode ax) (ax_disposition ax) (ax_launch ax) (ax_run ax) (ax_activity ax)
            (ax_control ax) (ax_interaction ax),
         pr_access = access_of (ax_mode ax) (ax_disposition ax) (ax_control ax) (ax_transcript ax),
         pr_transcript = transcript_label (ax_transcript ax)\<rparr>,
      sf_commit_seq = commit_seq\<rparr>"

text \<open>The launch evidence that both builders take.\<close>

record launch_inputs =
  li_state :: "string option"
  li_error_code :: "string option"
  li_error_message :: "string option"
  li_execution_lifetime :: "string option"

definition archive_control :: control_facts where
  "archive_control =
     (let u = unavailable ''search_only'' in
      \<lparr>cf_ownership = Unowned, cf_connection = Conn_not_applicable, cf_connection_id = None,
       cf_lease_generation = None, cf_control_plane = None, cf_terminal_attached = None,
       cf_observed_at = None, cf_valid_until = None,
       cf_actions = \<lparr>ca_start_turn = unavailable ''not_console'', ca_send_input = u, ca_interrupt = u,
                     ca_terminate = u, ca_reattach = u, ca_resume = u\<rparr>\<rparr>)"

definition build_archive_session_state_facts ::
  "session_row \<Rightarrow> kernel_capabilities \<Rightarrow> launch_inputs \<Rightarrow> transcript_inputs \<Rightarrow> pydict option \<Rightarrow> state_facts res" where
  "build_archive_session_state_facts session k li ti pause =
     bindR (project_pending_interaction_facts pause) (\<lambda>interaction.
     Inr (assemble_session_state_facts
       \<lparr>ax_mode = mode_of session (li_execution_lifetime li) k,
        ax_disposition = disposition_of session None,
        ax_launch = launch_of (li_state li) (li_error_code li) (li_error_message li),
        ax_run = None, ax_activity = unknown_activity, ax_control = archive_control,
        ax_interaction = interaction,
        ax_transcript = transcript_of session (ti\<lparr>ti_live_observation := False, ti_source_revision := None,
           ti_durable_revision := None, ti_render_revision := None, ti_last_append_at := None\<rparr>),
        ax_host = \<lparr>hf_state = Host_unknown, hf_observed_at = None\<rparr>\<rparr>
       None (sr_last_console_result_at session) (sr_last_console_result_outcome session) (sr_last_read_at session)))"

definition host_of :: "session_liveness_facts \<Rightarrow> host_facts" where
  "host_of liveness =
     (let s = clean (Some (ho_state (sl_host liveness)))
      in \<lparr>hf_state = (if s = Some ''online'' then Host_online else if s = Some ''stale'' then Host_stale
             else if s = Some ''offline'' then Host_offline else Host_unknown),
          hf_observed_at = normalize_utc (ho_last_seen_at (sl_host liveness))\<rparr>)"

definition session_axes ::
  "session_row \<Rightarrow> runtime_view option \<Rightarrow> kernel_capabilities \<Rightarrow> session_liveness_facts \<Rightarrow> launch_inputs \<Rightarrow>
   transcript_inputs \<Rightarrow> interaction_facts option \<Rightarrow> instant \<Rightarrow> axes" where
  "session_axes session rv k liveness li ti interaction now =
     (let activity = activity_of rv;
          launch = launch_of (li_state li) (li_error_code li) (li_error_message li);
          mode = mode_of session (li_execution_lifetime li) k
      in \<lparr>ax_mode = mode, ax_disposition = disposition_of session rv, ax_launch = launch,
          ax_run = run_of session rv k liveness activity launch mode,
          ax_activity = activity,
          ax_control = (if mode = Mode_console then console_control k else control_of k liveness now),
          ax_interaction = interaction,
          ax_transcript = transcript_of session (ti\<lparr>ti_live_observation := ti_preview ti \<or> kc_observe_only k,
             ti_source_revision := None, ti_durable_revision := None, ti_render_revision := None,
             ti_last_append_at := None\<rparr>),
          ax_host = host_of liveness\<rparr>)"

definition build_session_state_facts ::
  "session_row \<Rightarrow> runtime_view option \<Rightarrow> kernel_capabilities \<Rightarrow> session_liveness_facts option \<Rightarrow> pydict option \<Rightarrow>
   launch_inputs \<Rightarrow> pydatetime option \<Rightarrow> transcript_inputs \<Rightarrow> pydatetime \<Rightarrow> state_facts res" where
  "build_session_state_facts session rv k liveness pause li last_activity_at ti now =
     (let live = (case liveness of Some l \<Rightarrow> l
            | None \<Rightarrow> build_session_liveness_facts rv k last_activity_at None None None None
                        (utc_dt (UTC (aware_us now))))
      in bindR (interaction_of pause) (\<lambda>interaction.
         Inr (assemble_session_state_facts (session_axes session rv k live li ti interaction (UTC (aware_us now)))
           None (sr_last_console_result_at session) (sr_last_console_result_outcome session) (sr_last_read_at session))))"

subsection \<open>Lemmas\<close>

lemma label_key [simp]: "pl_key (label_of key lbl tone at) = key"
  by (simp add: label_of_def)

lemma assemble_simps [simp]:
  "sf_disposition (assemble_session_state_facts ax cs ra ro rd) = ax_disposition ax"
  "sf_control (assemble_session_state_facts ax cs ra ro rd) = ax_control ax"
  "sf_activity (assemble_session_state_facts ax cs ra ro rd) = ax_activity ax"
  "pr_primary (sf_presentation (assemble_session_state_facts ax cs ra ro rd)) =
     primary_of (ax_mode ax) (ax_disposition ax) (ax_launch ax) (ax_run ax) (ax_activity ax) (ax_control ax) (ax_interaction ax)"
  "pr_access (sf_presentation (assemble_session_state_facts ax cs ra ro rd)) =
     access_of (ax_mode ax) (ax_disposition ax) (ax_control ax) (ax_transcript ax)"
  "pr_transcript (sf_presentation (assemble_session_state_facts ax cs ra ro rd)) = transcript_label (ax_transcript ax)"
  "sf_working_set (assemble_session_state_facts ax cs ra ro rd) =
     working_set_of (ax_disposition ax) (ax_activity ax) (ax_control ax) (ax_interaction ax) (ax_mode ax) (ax_run ax)"
  by (simp_all add: assemble_session_state_facts_def)

lemma activity_label_keys:
  "activity_label a = Some l \<Longrightarrow> pl_key l \<in> {''thinking'', ''executing'', ''stalled'', ''blocked'', ''idle''}"
  by (cases "af_state a") auto

lemma quiet_label_keys:
  "quiet_label m r a c = Some l \<Longrightarrow>
   pl_key l \<in> {''ready'', ''ended'', ''executing'', ''no_recent_activity'', ''activity_unknown''}"
  by (auto simp: quiet_label_def split: option.splits if_splits)

lemma primary_keys: "primary_of m d l r a c i = Some lb \<Longrightarrow> pl_key lb \<in> set PRIMARY_PRESENTATION_KEYS"
  using activity_label_keys[of a lb] quiet_label_keys[of m r a c lb]
  by (auto simp: primary_of_def PRIMARY_PRESENTATION_KEYS_def simp del: activity_label.simps
      split: if_splits option.splits)

lemma access_keys:
  "access_of m d c t = Some lb \<Longrightarrow>
   pl_key lb \<in> set ACCESS_PRESENTATION_KEYS - {''control_disconnected'', ''read_only'', ''closed''}"
  by (auto simp: access_of_def console_access_def ACCESS_PRESENTATION_KEYS_def Let_def split: if_splits)

lemma closed_labels:
  "df_state d = Disp_closed \<Longrightarrow>
   primary_of m d l r a c i = Some (label_of ''closed'' ''Closed'' ''closed'' (df_closed_at d)) \<and>
   access_of m d c t = None \<and> working_set_of d a c i m r = WS_history"
  by (simp add: primary_of_def access_of_def working_set_of_def)

lemma disposition_closed_iff:
  "df_state (disposition_of s rv) = Disp_closed \<longleftrightarrow>
   sr_closed_at s \<noteq> None \<or> (\<exists>v. rv = Some v \<and> clean (rv_terminal_state v) = Some ''user_closed'')"
  by (auto simp: disposition_of_def open_disposition_def normalize_utc_def split: option.splits)

lemma operation_available:
  "aa_state (operation_of av own conn fb ad) = Available \<longleftrightarrow>
   av \<and> (conn = Conn_connected \<or> (ad \<and> conn = Conn_disconnected))"
  by (simp add: operation_of_def action_unavailable_reason_def available_def unavailable_def)

lemma control_actions_simps [simp]:
  "ca_send_input (cf_actions (control_of k l now)) =
     operation_of (kc_can_send_input k \<and> kc_live_control_available k) (ownership_of k) (connection_of k l now)
       (clean (kc_staleness_reason k)) False"
  "ca_interrupt (cf_actions (control_of k l now)) =
     operation_of (kc_can_interrupt k \<and> kc_live_control_available k) (ownership_of k) (connection_of k l now)
       (clean (kc_staleness_reason k)) False"
  "ca_terminate (cf_actions (control_of k l now)) =
     operation_of (kc_can_terminate k \<and> kc_live_control_available k) (ownership_of k) (connection_of k l now)
       (clean (kc_staleness_reason k)) False"
  "ca_reattach (cf_actions (control_of k l now)) =
     operation_of (kc_host_reattach_available k \<and> \<not> kc_live_control_available k) (ownership_of k)
       (connection_of k l now) (if kc_live_control_available k then Some ''already_connected''
          else clean (kc_staleness_reason k)) True"
  by (simp_all add: control_of_def Let_def)

definition lease_expired :: "session_liveness_facts \<Rightarrow> instant \<Rightarrow> bool" where
  "lease_expired l now \<longleftrightarrow> (case co_expires_at (sl_control l) of None \<Rightarrow> False | Some v \<Rightarrow> v \<le> now)"

lemma connection_live:
  "kc_live_control_available k \<Longrightarrow> connection_of k l now =
     (if lease_expired l now then Conn_unknown
      else if clean (kc_connection_state k) = Some ''degraded'' then Conn_degraded else Conn_connected)"
  by (simp add: connection_of_def ownership_of_def lease_expired_def Let_def)

lemma connection_reattach:
  "\<not> kc_live_control_available k \<Longrightarrow> kc_host_reattach_available k \<Longrightarrow>
   connection_of k l now = (if lease_expired l now then Conn_unknown else Conn_disconnected)"
  by (simp add: connection_of_def ownership_of_def lease_expired_def Let_def)

subsection \<open>Properties\<close>

text \<open>
  (C40) Every presentation key the policy can produce is a key of the manifest clients compare, for all
  three slots and every combination of axes. Of the access keys, \<open>control_disconnected\<close>, \<open>read_only\<close>
  and \<open>closed\<close> are never produced.
\<close>

theorem presentation_keys_in_manifest:
  "pl_key ` set_option (pr_primary (sf_presentation (assemble_session_state_facts ax cs ra ro rd)))
     \<subseteq> set PRIMARY_PRESENTATION_KEYS \<and>
   pl_key ` set_option (pr_access (sf_presentation (assemble_session_state_facts ax cs ra ro rd)))
     \<subseteq> set ACCESS_PRESENTATION_KEYS - {''control_disconnected'', ''read_only'', ''closed''} \<and>
   pl_key ` set_option (pr_transcript (sf_presentation (assemble_session_state_facts ax cs ra ro rd)))
     \<subseteq> set TRANSCRIPT_PRESENTATION_KEYS"
proof -
  have "pl_key ` set_option (transcript_label t) \<subseteq> set TRANSCRIPT_PRESENTATION_KEYS" for t
    by (simp add: transcript_label_def TRANSCRIPT_PRESENTATION_KEYS_def)
  moreover have "pl_key ` set_option (primary_of m d l r a c i) \<subseteq> set PRIMARY_PRESENTATION_KEYS" for m d l r a c i
    by (cases "primary_of m d l r a c i") (simp_all add: primary_keys)
  moreover have "pl_key ` set_option (access_of m d c t) \<subseteq>
      set ACCESS_PRESENTATION_KEYS - {''control_disconnected'', ''read_only'', ''closed''}" for m d c t
    using access_keys[of m d c t] by (cases "access_of m d c t") simp_all
  ultimately show ?thesis by (simp only: assemble_simps simp_thms)
qed

text \<open>
  Closing wins over every other axis: once the row carries \<open>closed_at\<close> or the runtime view says
  user-closed, a session state that is served at all has the Closed label, no access label, and
  belongs to history, whatever the activity, control and interaction evidence.
\<close>

theorem closed_session_is_history:
  assumes "sr_closed_at session \<noteq> None \<or> (\<exists>v. rv = Some v \<and> clean (rv_terminal_state v) = Some ''user_closed'')"
    and "build_session_state_facts session rv k liveness pause li act ti now = Inr f"
  shows "\<exists>at. pr_primary (sf_presentation f) = Some (label_of ''closed'' ''Closed'' ''closed'' at) \<and>
    pr_access (sf_presentation f) = None \<and> sf_working_set f = WS_history \<and>
    df_state (sf_disposition f) = Disp_closed"
proof -
  obtain ax cs ra ro rd where f: "f = assemble_session_state_facts ax cs ra ro rd"
    and d: "ax_disposition ax = disposition_of session rv"
    using assms(2) by (auto simp: build_session_state_facts_def session_axes_def Let_def)
  have "df_state (ax_disposition ax) = Disp_closed"
    using assms(1) d disposition_closed_iff by simp
  then show ?thesis unfolding f by (auto simp: closed_labels)
qed

definition sample_row :: session_row where
  "sample_row = \<lparr>sr_launch_surface = None, sr_origin_kind = None, sr_execution_home = None,
     sr_closed_at = Some (DT 7 None), sr_close_reason = None, sr_started_at = None,
     sr_transcript_revision = None, sr_last_console_result_at = None,
     sr_last_console_result_outcome = None, sr_last_read_at = None\<rparr>"

definition sample_transcript_inputs :: transcript_inputs where
  "sample_transcript_inputs = \<lparr>ti_preview = False, ti_pending_response = False, ti_user_messages = 2,
     ti_assistant_messages = 1, ti_archive_state = None, ti_live_observation = False,
     ti_source_revision = None, ti_durable_revision = None, ti_render_revision = None, ti_last_append_at = None\<rparr>"

definition sample_launch_inputs :: launch_inputs where
  "sample_launch_inputs =
     \<lparr>li_state = None, li_error_code = None, li_error_message = None, li_execution_lifetime = None\<rparr>"

definition sample_live_capabilities :: kernel_capabilities where
  "sample_live_capabilities = (base_payload ''s'' None None (bucket_of ''live'' True True False False None))
     \<lparr>kc_can_send_input := True\<rparr>"

theorem closed_session_is_history_witness:
  "\<exists>f. build_session_state_facts sample_row None sample_live_capabilities None None sample_launch_inputs None
        sample_transcript_inputs (DT 9 None) = Inr f \<and> sf_working_set f = WS_history"
proof -
  have "sr_closed_at sample_row \<noteq> None" by (simp add: sample_row_def)
  moreover obtain f where "build_session_state_facts sample_row None sample_live_capabilities None None
      sample_launch_inputs None sample_transcript_inputs (DT 9 None) = Inr f"
    by (simp add: build_session_state_facts_def interaction_of_def Let_def)
  ultimately show ?thesis using closed_session_is_history by blast
qed

text \<open>
  The working set is what the user carries now, never what Longhouse could steer: a session is open
  exactly when it is not closed and a Console turn is in flight, a question waits for the user, the
  agent is observed thinking or executing, or a terminal is observed attached.
\<close>

theorem working_set_open_iff:
  "sf_working_set (assemble_session_state_facts ax cs ra ro rd) = WS_open \<longleftrightarrow>
   df_state (ax_disposition ax) = Disp_open \<and>
   ((ax_mode ax = Mode_console \<and> (\<exists>r. ax_run ax = Some r \<and> rf_lifecycle r \<in> {Run_starting, Run_running}))
    \<or> (\<exists>i. ax_interaction ax = Some i)
    \<or> af_state (ax_activity ax) \<in> {Act_thinking, Act_executing}
    \<or> cf_terminal_attached (ax_control ax) = Some True)"
  by (cases "df_state (ax_disposition ax)"; cases "ax_run ax")
     (auto simp: working_set_of_def run_in_def)

text \<open>
  An action of a leased session is offered exactly when the capability grants it on a live (for
  reattach: lost but reattachable) connection whose lease has not expired; a degraded connection
  offers none of send, interrupt and terminate.
\<close>

theorem control_actions_exact:
  "(aa_state (ca_send_input (cf_actions (control_of k l now))) = Available \<longleftrightarrow>
     kc_can_send_input k \<and> kc_live_control_available k \<and> \<not> lease_expired l now \<and>
     clean (kc_connection_state k) \<noteq> Some ''degraded'') \<and>
   (aa_state (ca_interrupt (cf_actions (control_of k l now))) = Available \<longleftrightarrow>
     kc_can_interrupt k \<and> kc_live_control_available k \<and> \<not> lease_expired l now \<and>
     clean (kc_connection_state k) \<noteq> Some ''degraded'') \<and>
   (aa_state (ca_terminate (cf_actions (control_of k l now))) = Available \<longleftrightarrow>
     kc_can_terminate k \<and> kc_live_control_available k \<and> \<not> lease_expired l now \<and>
     clean (kc_connection_state k) \<noteq> Some ''degraded'') \<and>
   (aa_state (ca_reattach (cf_actions (control_of k l now))) = Available \<longleftrightarrow>
     kc_host_reattach_available k \<and> \<not> kc_live_control_available k \<and> \<not> lease_expired l now)"
  by (auto simp: operation_available connection_live connection_reattach split: if_splits)

text \<open>
  Activity is never invented: the activity axis of the view of a runtime row differs from unknown
  only when the freshness deadline of the row is still ahead, the phase is one the map knows, and its
  source is neither a fallback nor transcript progress.
\<close>

theorem activity_needs_fresh_phase:
  assumes "af_state (activity_of (Some (build_runtime_view st session now))) \<noteq> Act_unknown"
  shows "(\<exists>e. normalize_utc (rs_freshness_expires_at st) = Some e \<and> e > now) \<and>
    clean_or (rs_phase st) ''idle'' \<in> fst ` set ACTIVITY_MAP \<and>
    clean_or (rs_phase_source st) ''fallback'' \<notin> {''fallback'', ''progress''}"
proof -
  let ?v = "build_runtime_view st session now" and ?p = "clean_or (rs_phase st) ''idle''"
  have conf: "rv_confidence ?v = Some ''live''"
    and src: "\<not> in_states (clean (Some (rv_runtime_source ?v))) [''fallback'', ''progress'']"
    and kind: "activity_of_kind (option_or (clean (rv_presence_state ?v)) (clean (rv_runtime_phase ?v))) \<noteq> Act_unknown"
    using assms by (auto simp: activity_of_def Let_def split: if_splits)
  have live: "\<exists>e. normalize_utc (rs_freshness_expires_at st) = Some e \<and> e > now"
    using conf by (auto simp: build_runtime_view_def confidence_for_state_def Let_def split: option.splits if_splits)
  have stripped: "py_strip ?p = ?p" "?p \<noteq> []"
  proof -
    have "py_strip ''idle'' = ''idle''" by (simp add: py_strip_def is_space_def)
    then show "py_strip ?p = ?p" "?p \<noteq> []"
      by (auto simp: clean_or_def dest: clean_nonempty split: option.splits)
  qed
  have srcv: "rv_runtime_source ?v = clean_or (rs_phase_source st) ''fallback''"
    by (simp add: build_runtime_view_def Let_def)
  have "py_strip (clean_or (rs_phase_source st) ''fallback'') = clean_or (rs_phase_source st) ''fallback''"
  proof -
    have "py_strip ''fallback'' = ''fallback''" by (simp add: py_strip_def is_space_def)
    then show ?thesis by (auto simp: clean_or_def dest: clean_nonempty split: option.splits)
  qed
  then have src': "clean_or (rs_phase_source st) ''fallback'' \<notin> {''fallback'', ''progress''}"
    using src unfolding srcv by (auto simp: clean_def)
  have "rv_presence_state ?v = (if ?p \<in> set KNOWN_PHASES then Some ?p else None)"
    and "rv_runtime_phase ?v \<in> {None, Some ?p}"
    using conf by (auto simp: build_runtime_view_def or_none_def Let_def)
  then have "option_or (clean (rv_presence_state ?v)) (clean (rv_runtime_phase ?v)) \<in> {None, Some ?p}"
    using stripped by (auto simp: clean_def)
  then have "?p \<in> fst ` set ACTIVITY_MAP"
    using kind by (auto simp: activity_of_kind_def ACTIVITY_MAP_def split: option.splits if_splits)
  with live src' show ?thesis by blast
qed

definition sample_running_state :: runtime_state where
  "sample_running_state = empty_runtime_state\<lparr>rs_phase := Some ''running'', rs_phase_source := Some ''semantic'',
     rs_freshness_expires_at := Some (DT 100 None)\<rparr>"

definition sample_session :: agent_session where
  "sample_session = \<lparr>as_id = ''s'', as_started_at = None, as_ended_at = None, as_terminal_state = None\<rparr>"

theorem activity_needs_fresh_phase_witness:
  "\<exists>e. normalize_utc (rs_freshness_expires_at sample_running_state) = Some e \<and> e > UTC 50"
proof -
  have "af_state (activity_of (Some (build_runtime_view sample_running_state sample_session (UTC 50)))) \<noteq> Act_unknown"
    by code_simp
  from activity_needs_fresh_phase[OF this] show ?thesis by blast
qed

text \<open>
  An empty shell never reports a lagging transcript: with no message, revision, preview or pending
  response the transcript label is absent, also while its archive is pending.
\<close>

theorem empty_shell_not_lagging:
  assumes "sr_transcript_revision session \<in> {None, Some 0}" and "ti_user_messages ti = 0"
    and "ti_assistant_messages ti = 0" and "\<not> ti_pending_response ti" and "\<not> ti_preview ti"
    and "ti_source_revision ti = None" and "ti_durable_revision ti = None" and "ti_render_revision ti = None"
  shows "transcript_label (project_transcript_facts session ti) = None \<and>
    (clean (ti_archive_state ti) = Some ''pending'' \<longrightarrow> tf_convergence (project_transcript_facts session ti) = Tr_current)"
  using assms
  by (auto simp: project_transcript_facts_def transcript_of_def transcript_label_def ahead_of_def Let_def
      List.map_filter_simps)

theorem empty_shell_not_lagging_witness:
  "tf_convergence (project_transcript_facts sample_row (sample_transcript_inputs\<lparr>ti_user_messages := 0,
      ti_assistant_messages := 0, ti_archive_state := Some ''pending''\<rparr>)) = Tr_current"
proof -
  let ?ti = "sample_transcript_inputs\<lparr>ti_user_messages := 0, ti_assistant_messages := 0,
      ti_archive_state := Some ''pending''\<rparr>"
  have "clean (ti_archive_state ?ti) = Some ''pending''" by code_simp
  moreover have "sr_transcript_revision sample_row \<in> {None, Some 0}" by (simp add: sample_row_def)
  ultimately show ?thesis
    using empty_shell_not_lagging[of sample_row ?ti] by (simp add: sample_transcript_inputs_def)
qed

lemma launch_not_failed:
  assumes "clean state \<notin> {Some ''launch_failed'', Some ''launch_orphaned'', Some ''failed'', Some ''abandoned''}"
  shows "\<not> (case launch_of state code msg of None \<Rightarrow> False | Some l \<Rightarrow> lc_state l \<in> {La_failed, La_abandoned})"
  using assms by (cases "clean state") (auto simp: launch_of_def LAUNCH_STATE_MAP_def)

text \<open>
  (C39) A pending question reaches the user: when the session is not closed, its launch state does not report a
  failed or orphaned launch (there is none, it is on its way, or it was adopted) and no run is starting, a pause
  request that is pending, has an identity and carries proper timestamps makes the served state say Needs answer
  (or Needs approval) and puts the session in the working set.
\<close>

theorem pending_interaction_reaches_user:
  assumes "interaction_of (Some pause) = Inr (Some i)"
    and "df_state (disposition_of session rv) = Disp_open"
    and "clean (li_state li) \<notin> {Some ''launch_failed'', Some ''launch_orphaned'', Some ''failed'', Some ''abandoned''}"
    and "\<not> run_in (ax_run (session_axes session rv k l li ti (Some i) (UTC (aware_us now)))) {Run_starting}"
  shows "\<exists>f. build_session_state_facts session rv k (Some l) (Some pause) li act ti now = Inr f \<and>
    sf_working_set f = WS_open \<and>
    (\<exists>lb. pr_primary (sf_presentation f) = Some lb \<and>
       pl_key lb = (if pi_kind i = Int_question then ''needs_answer'' else ''needs_approval''))"
proof -
  let ?ax = "session_axes session rv k l li ti (Some i) (UTC (aware_us now))"
  have ax: "ax_disposition ?ax = disposition_of session rv" "ax_interaction ?ax = Some i"
    "ax_launch ?ax = launch_of (li_state li) (li_error_code li) (li_error_message li)"
    by (simp_all add: session_axes_def Let_def)
  have "primary_of (ax_mode ?ax) (ax_disposition ?ax) (ax_launch ?ax) (ax_run ?ax) (ax_activity ?ax)
      (ax_control ?ax) (ax_interaction ?ax) =
      Some (if pi_kind i = Int_question then label_of ''needs_answer'' ''Needs answer'' ''blocked'' (pi_opened_at i)
            else label_of ''needs_approval'' ''Needs approval'' ''blocked'' (pi_opened_at i))"
    using assms(2,4) launch_not_failed[OF assms(3)] by (simp add: primary_of_def ax)
  moreover have "working_set_of (ax_disposition ?ax) (ax_activity ?ax) (ax_control ?ax) (ax_interaction ?ax)
      (ax_mode ?ax) (ax_run ?ax) = WS_open"
    using assms(2) by (simp add: working_set_of_def ax)
  ultimately show ?thesis
    using assms(1) by (simp add: build_session_state_facts_def)
qed

definition sample_pause :: pydict where
  "sample_pause = [(''status'', PStr ''pending''), (''kind'', PStr ''structured_question''), (''id'', PStr ''q1''),
     (''occurred_at'', PDatetime (DT 5 (Some 0)))]"

definition sample_liveness :: session_liveness_facts where
  "sample_liveness = build_session_liveness_facts None sample_live_capabilities None None None None None (DT 9 None)"

text \<open>The question of a session whose launch was adopted.\<close>

theorem pending_interaction_reaches_user_witness:
  "\<exists>f. build_session_state_facts (sample_row\<lparr>sr_closed_at := None\<rparr>) None sample_live_capabilities
      (Some sample_liveness) (Some sample_pause) (sample_launch_inputs\<lparr>li_state := Some ''live''\<rparr>) None sample_transcript_inputs (DT 9 None) = Inr f
    \<and> sf_working_set f = WS_open"
proof -
  let ?i = "\<lparr>pi_id = ''q1'', pi_kind = Int_question, pi_opened_at = Some (UTC 5), pi_resolved_at = None,
      pi_provider_request_id = None, pi_can_respond = False\<rparr>"
  let ?s = "sample_row\<lparr>sr_closed_at := None\<rparr>"
  let ?li = "sample_launch_inputs\<lparr>li_state := Some ''live''\<rparr>"
  have "interaction_of (Some sample_pause) = Inr (Some ?i)" by code_simp
  moreover have "df_state (disposition_of ?s None) = Disp_open" by code_simp
  moreover have "clean (li_state ?li) \<notin> {Some ''launch_failed'', Some ''launch_orphaned'', Some ''failed'', Some ''abandoned''}" by code_simp
  moreover have "\<not> run_in (ax_run (session_axes ?s None sample_live_capabilities sample_liveness
      ?li sample_transcript_inputs (Some ?i) (UTC (aware_us (DT 9 None))))) {Run_starting}" by code_simp
  ultimately show ?thesis
    using pending_interaction_reaches_user[where act = None] by blast
qed

end
