(* ===== verification/Facts_Projector.thy ===== *)
theory Facts_Projector
  imports State_Presentation Machine_Evidence
begin

text \<open>
  \<open>services/session_state_facts_projector.py\<close>: the session state projected from one catalog snapshot,
  the durable rows as one JSON object and the reducer heads as a list of rows. The module is on the
  control path: \<open>authorize_exact_control_fact\<close> decides whether an input may be sent.
\<close>

datatype fact_family = Fam_activity | Fam_control | Fam_continuation

fun family_name :: "fact_family \<Rightarrow> string" where
  "family_name Fam_activity = ''activity''"
| "family_name Fam_control = ''control''"
| "family_name Fam_continuation = ''continuation''"

definition AUTHORITY_RANK :: "((string \<times> string) \<times> nat) list" where
  "AUTHORITY_RANK =
     [((''activity'', ''provider_runtime''), 1), ((''control'', ''provider_control''), 1),
      ((''continuation'', ''retained_launch_contract''), 1)]"

definition ACTIVITY_STATE :: "(string \<times> activity_state) list" where
  "ACTIVITY_STATE =
     [(''thinking'', Act_thinking), (''running'', Act_executing), (''idle'', Act_quiescent),
      (''needs_user'', Act_quiescent), (''blocked'', Act_blocked), (''stalled'', Act_stalled)]"

text \<open>The winning head: its row, its decoded value, and its two times.\<close>

record winner =
  wn_head :: pydict
  wn_value :: pydict
  wn_observed_at :: instant
  wn_valid_until :: instant

subsection \<open>Wire values\<close>

definition mapping_of :: "pyval \<Rightarrow> pydict" where
  "mapping_of v = (case v of PDict d \<Rightarrow> d | _ \<Rightarrow> [])"

text \<open>\<open>for x in (v or ())\<close>: an iterable yields its elements, anything else that is true raises.\<close>

definition iter_or_empty :: "pyval \<Rightarrow> pyval list res" where
  "iter_or_empty v = (if \<not> truthy v then Inr []
     else case v of PList xs \<Rightarrow> Inr xs
       | PDict d \<Rightarrow> Inr (map (PStr \<circ> fst) d)
       | PStr s \<Rightarrow> Inr (map (\<lambda>c. PStr [c]) s)
       | _ \<Rightarrow> Inl (TypeError ''object is not iterable''))"

definition aware_utc :: "pydatetime \<Rightarrow> string \<Rightarrow> instant res" where
  "aware_utc d field = (case dt_tz d of
       None \<Rightarrow> Inl (ValueError (field @ '' must include a timezone''))
     | Some off \<Rightarrow> astimezone (dt_wall d) off)"

definition wire_datetime :: "pylib \<Rightarrow> pyval \<Rightarrow> string \<Rightarrow> instant res" where
  "wire_datetime lib v field = (case v of
       PDatetime d \<Rightarrow> aware_utc d field
     | PStr s \<Rightarrow> (case bindR (lib_fromisoformat lib (py_replace ''Z'' ''+00:00'' s)) (\<lambda>d. aware_utc d field) of
           Inr t \<Rightarrow> Inr t
         | Inl (ValueError _) \<Rightarrow> Inl (ValueError (field @ '' must be an RFC3339 timestamp''))
         | Inl e \<Rightarrow> Inl e)
     | _ \<Rightarrow> Inl (ValueError (field @ '' must be an RFC3339 timestamp'')))"

definition optional_wire_datetime :: "pylib \<Rightarrow> pyval \<Rightarrow> string \<Rightarrow> instant option res" where
  "optional_wire_datetime lib v field =
     (if v = PNone \<or> v = PStr [] then Inr None else bindR (wire_datetime lib v field) (\<lambda>t. Inr (Some t)))"

definition validated_grants :: "pydict \<Rightarrow> string list res" where
  "validated_grants value = (case str_list (dget value ''granted_operations'') of
       None \<Rightarrow> Inl (ValueError ''control granted_operations must be a string list'')
     | Some ops \<Rightarrow> (if valid_grants ops then Inr ops
         else Inl (ValueError ''control granted_operations must be sorted, unique, and supported'')))"

subsection \<open>The effective head\<close>

definition decode_value :: "pylib \<Rightarrow> pyval \<Rightarrow> pydict res" where
  "decode_value lib raw =
     bindR (case raw of PStr s \<Rightarrow> lib_json_loads lib s | _ \<Rightarrow> Inr raw) (\<lambda>v.
     case v of PDict d \<Rightarrow> Inr d | _ \<Rightarrow> Inl (ValueError ''fact head value_json must contain an object''))"

definition head_subject :: "fact_family \<Rightarrow> string \<Rightarrow> pydict \<Rightarrow> string res" where
  "head_subject family session_id value = (case family of
       Fam_activity \<Rightarrow> (case py_text (dget value ''run_id'') of
           None \<Rightarrow> Inl (ValueError ''activity run_id is missing'')
         | Some r \<Rightarrow> Inr (''run:'' @ r))
     | Fam_control \<Rightarrow> (case (py_text (dget value ''connection_id''), py_text (dget value ''lease_generation'')) of
           (Some c, Some l) \<Rightarrow> bindR (validated_grants value) (\<lambda>_. Inr (''connection:'' @ c @ '':'' @ l))
         | _ \<Rightarrow> Inl (ValueError ''control connection identity is missing''))
     | Fam_continuation \<Rightarrow>
         bindR (in_str_set (dget value ''contract_state'') [''valid'', ''invalid'']) (\<lambda>known.
         bindR (guard known ''continuation contract_state is invalid'') (\<lambda>_. Inr (''resume:'' @ session_id))))"

definition head_value :: "pylib \<Rightarrow> pydict \<Rightarrow> fact_family \<Rightarrow> string \<Rightarrow> pydict res" where
  "head_value lib head family session_id =
     bindR (decode_value lib (dget head ''value_json'')) (\<lambda>value.
     bindR (guard (dget head ''session_id'' = PStr session_id)
       ''fact head indexed session_id does not match the requested session'') (\<lambda>_.
     bindR (guard (dget value ''session_id'' = PStr session_id) ''fact head session_id does not match its value'') (\<lambda>_.
     bindR (guard (case dget head ''source'' of PStr s \<Rightarrow> py_strip s \<noteq> [] \<and> dget value ''source'' = PStr s | _ \<Rightarrow> False)
       ''fact head source does not match its value'') (\<lambda>_.
     bindR (canonical_evidence_hash lib value) (\<lambda>h.
     bindR (guard (dget head ''evidence_hash'' = PStr h) ''fact head evidence_hash does not match its value'') (\<lambda>_.
     bindR (head_subject family session_id value) (\<lambda>expected.
     bindR (guard (dget head ''subject_key'' = PStr expected) ''fact head subject_key does not match its value'') (\<lambda>_.
     Inr value))))))))"

definition valid_until_of :: "pylib \<Rightarrow> fact_family \<Rightarrow> pydict \<Rightarrow> pydict \<Rightarrow> instant \<Rightarrow> instant res" where
  "valid_until_of lib family head value observed_at =
     (if family = Fam_control then
        (case dget value ''lease_ttl_ms'' of
           PInt ttl \<Rightarrow> (if ttl \<le> 0 then Inl (ValueError ''control lease_ttl_ms must be positive'') else add_ms observed_at ttl)
         | _ \<Rightarrow> Inl (ValueError ''control lease_ttl_ms must be positive''))
      else wire_datetime lib (py_or (dget value ''valid_until'') (dget head ''valid_until'')) ''valid_until'')"

record head_query =
  hq_session_id :: string
  hq_family :: fact_family
  hq_now :: instant
  hq_expected_run_id :: "string option"
  hq_require_run_binding :: bool
  hq_allowed :: "(string \<times> string \<times> string) list option"
  hq_retain_expired :: bool

definition default_query :: "string \<Rightarrow> fact_family \<Rightarrow> instant \<Rightarrow> head_query" where
  "default_query session_id family now = \<lparr>hq_session_id = session_id, hq_family = family, hq_now = now,
     hq_expected_run_id = None, hq_require_run_binding = False, hq_allowed = None, hq_retain_expired = False\<rparr>"

definition text_or_empty :: "pyval \<Rightarrow> string" where
  "text_or_empty v = (case py_text v of Some s \<Rightarrow> s | None \<Rightarrow> [])"

definition control_coordinate :: "pydict \<Rightarrow> string \<times> string \<times> string" where
  "control_coordinate value = (text_or_empty (dget value ''run_id''), text_or_empty (dget value ''connection_id''),
     text_or_empty (dget value ''lease_generation''))"

definition authority_rank :: "fact_family \<Rightarrow> pydict \<Rightarrow> nat res" where
  "authority_rank family value = (case dget value ''authority_class'' of
       PStr a \<Rightarrow> (case map_of AUTHORITY_RANK (family_name family, a) of
           Some r \<Rightarrow> Inr r
         | None \<Rightarrow> Inl (ValueError (''unsupported '' @ family_name family @ '' authority_class'')))
     | _ \<Rightarrow> Inl (ValueError (''unsupported '' @ family_name family @ '' authority_class'')))"

text \<open>The body of the \<open>try\<close> block: the rank and the winner a head stands for.\<close>

definition examine_head :: "pylib \<Rightarrow> head_query \<Rightarrow> pydict \<Rightarrow> (nat \<times> winner) res" where
  "examine_head lib q head =
     bindR (head_value lib head (hq_family q) (hq_session_id q)) (\<lambda>value.
     bindR (authority_rank (hq_family q) value) (\<lambda>rank.
     bindR (wire_datetime lib (dget value ''observed_at'') ''observed_at'') (\<lambda>observed_at.
     bindR (valid_until_of lib (hq_family q) head value observed_at) (\<lambda>valid_until.
     bindR (guard (\<not> (hq_require_run_binding q \<and> (hq_expected_run_id q = None \<or> py_text (dget value ''run_id'') \<noteq> hq_expected_run_id q)))
       (family_name (hq_family q) @ '' run_id is not bound to the durable latest run'')) (\<lambda>_.
     bindR (guard (case hq_allowed q of None \<Rightarrow> True
          | Some cs \<Rightarrow> hq_family q = Fam_control \<longrightarrow> control_coordinate value \<in> set cs)
       ''control identity is not bound to a durable connection'') (\<lambda>_.
     Inr (rank, \<lparr>wn_head = head, wn_value = value, wn_observed_at = observed_at, wn_valid_until = valid_until\<rparr>)))))))"

type_synonym head_key = "bool \<times> nat \<times> instant \<times> string \<times> string \<times> string"

definition str_or_blank :: "pyval \<Rightarrow> string" where
  "str_or_blank v = py_str (py_or v (PStr []))"

definition head_key_of :: "head_query \<Rightarrow> nat \<Rightarrow> winner \<Rightarrow> head_key" where
  "head_key_of q rank w = (wn_valid_until w > hq_now q, rank, wn_observed_at w,
     str_or_blank (dget (wn_head w) ''source''), str_or_blank (dget (wn_head w) ''source_epoch''),
     str_or_blank (dget (wn_head w) ''evidence_hash''))"

text \<open>The loop over the heads: the candidates with their keys, and the number of rejected heads.\<close>

definition consider_head ::
  "pylib \<Rightarrow> head_query \<Rightarrow> pydict \<Rightarrow> (head_key \<times> winner) list \<times> nat \<Rightarrow> ((head_key \<times> winner) list \<times> nat) res" where
  "consider_head lib q head st =
     (if dget head ''family'' \<noteq> PStr (family_name (hq_family q)) then Inr st
      else case examine_head lib q head of
        Inl (TypeError _) \<Rightarrow> Inr (fst st, snd st + 1)
      | Inl (ValueError _) \<Rightarrow> Inr (fst st, snd st + 1)
      | Inl e \<Rightarrow> Inl e
      | Inr (rank, w) \<Rightarrow>
          (if \<not> wn_valid_until w > hq_now q \<and> \<not> hq_retain_expired q then Inr st
           else Inr (fst st @ [(head_key_of q rank w, w)], snd st)))"

definition effective_head :: "pylib \<Rightarrow> head_query \<Rightarrow> pydict list \<Rightarrow> (winner option \<times> nat) res" where
  "effective_head lib q heads =
     bindR (foldR (consider_head lib q) heads ([], 0)) (\<lambda>(candidates, rejected).
     Inr (map_option snd (max_by fst candidates), rejected))"

definition active_run_id :: "pydict \<Rightarrow> string option" where
  "active_run_id facts =
     (let run = mapping_of (dget facts ''latest_run'') in
      if dget run ''ended_at'' \<noteq> PNone then None else py_text (dget run ''id''))"

definition bound_control_coordinates :: "pydict \<Rightarrow> (string \<times> string \<times> string) list" where
  "bound_control_coordinates facts = (case dget facts ''connections'' of
       PList rows \<Rightarrow> filter (\<lambda>(a, b, c). a \<noteq> [] \<and> b \<noteq> [] \<and> c \<noteq> [])
         (map (\<lambda>row. (text_or_empty (dget row ''run_id''), text_or_empty (dget row ''adapter_connection_id''),
                      text_or_empty (dget row ''lease_generation'')))
           (filter (\<lambda>row. dget row ''released_at'' = PNone) (map mapping_of rows)))
     | _ \<Rightarrow> [])"

subsection \<open>Observed axes\<close>

definition project_activity :: "winner option \<Rightarrow> instant \<Rightarrow> activity_facts" where
  "project_activity w now = (case w of None \<Rightarrow> unknown_activity
     | Some w \<Rightarrow>
       (let v = wn_value w in
        \<lparr>af_state = (if wn_valid_until w > now
            then (case map_of ACTIVITY_STATE (str_or_blank (dget v ''kind'')) of Some s \<Rightarrow> s | None \<Rightarrow> Act_unknown)
            else Act_unknown),
         af_raw_kind = py_text (py_or (dget v ''raw_kind'') (dget v ''kind'')),
         af_tool = py_text (dget v ''tool_name''), af_source = py_text (dget (wn_head w) ''source''),
         af_observed_at = Some (wn_observed_at w), af_valid_until = Some (wn_valid_until w)\<rparr>))"

definition head_connection :: "pyval \<Rightarrow> connection_state res" where
  "head_connection v = (if \<not> hashable v then Inl (TypeError ''unhashable type'')
     else Inr (if v = PStr ''attached'' then Conn_connected else if v = PStr ''degraded'' then Conn_degraded
       else if v = PStr ''detached'' then Conn_disconnected else Conn_unknown))"

definition control_action :: "string list \<Rightarrow> string list \<Rightarrow> connection_state \<Rightarrow> string \<Rightarrow> action_availability" where
  "control_action supported grants connection operation =
     (if operation \<notin> set supported then unavailable ''unsupported''
      else if operation \<notin> set grants then unavailable ''not_granted''
      else if connection \<noteq> Conn_connected then unavailable ''connection_unavailable''
      else available)"

definition project_control :: "winner option \<Rightarrow> string list \<Rightarrow> control_facts option res" where
  "project_control w supported = (case w of None \<Rightarrow> Inr None
     | Some w \<Rightarrow>
       (let v = wn_value w in
        bindR (head_connection (dget v ''state'')) (\<lambda>connection.
        bindR (validated_grants v) (\<lambda>grants.
        Inr (Some \<lparr>cf_ownership = Owned, cf_connection = connection,
          cf_connection_id = map_option Ref_adapter (py_text (dget v ''connection_id'')),
          cf_lease_generation = py_text (dget v ''lease_generation''), cf_control_plane = None,
          cf_terminal_attached = (case dget v ''terminal_attached'' of PBool b \<Rightarrow> Some b | _ \<Rightarrow> None),
          cf_observed_at = Some (wn_observed_at w), cf_valid_until = Some (wn_valid_until w),
          cf_actions =
            \<lparr>ca_start_turn = unavailable ''not_console'',
             ca_send_input = control_action supported grants connection ''send_input'',
             ca_interrupt = control_action supported grants connection ''interrupt'',
             ca_terminate = control_action supported grants connection ''terminate'',
             ca_reattach = unavailable ''unsupported'',
             ca_resume = control_action supported grants connection ''resume''\<rparr>\<rparr>)))))"

definition control_run_id :: "winner option \<Rightarrow> string option" where
  "control_run_id w = (case w of None \<Rightarrow> None | Some w \<Rightarrow> py_text (dget (wn_value w) ''run_id''))"

record head_diagnostic =
  hg_family :: string
  hg_subject_key :: string
  hg_source :: string
  hg_source_epoch :: string
  hg_evidence_hash :: string
  hg_observed_at :: instant
  hg_valid_until :: instant
  hg_updated_commit_seq :: "int option"

definition head_diagnostic_of :: "fact_family \<Rightarrow> winner option \<Rightarrow> head_diagnostic option" where
  "head_diagnostic_of family w = map_option (\<lambda>w.
     \<lparr>hg_family = family_name family, hg_subject_key = str_or_blank (dget (wn_head w) ''subject_key''),
      hg_source = str_or_blank (dget (wn_head w) ''source''),
      hg_source_epoch = str_or_blank (dget (wn_head w) ''source_epoch''),
      hg_evidence_hash = str_or_blank (dget (wn_head w) ''evidence_hash''),
      hg_observed_at = wn_observed_at w, hg_valid_until = wn_valid_until w,
      hg_updated_commit_seq = (case dget (wn_head w) ''updated_commit_seq'' of PInt n \<Rightarrow> Some n
         | PBool b \<Rightarrow> Some (if b then 1 else 0) | _ \<Rightarrow> None)\<rparr>) w"

subsection \<open>Durable axes\<close>

definition owns_control :: "pyval \<Rightarrow> bool" where
  "owns_control connections = (case connections of
       PList rows \<Rightarrow> list_ex (\<lambda>row. in_states (py_text (dget (mapping_of row) ''acquisition_kind''))
          [''spawned_control'', ''adopted_control'']) rows
     | _ \<Rightarrow> False)"

definition project_mode :: "pydict \<Rightarrow> session_mode" where
  "project_mode facts =
     (let catalog = mapping_of (dget facts ''catalog''); readiness = mapping_of (dget facts ''readiness'');
          run = mapping_of (dget facts ''latest_run'');
          lifetime = py_text (dget readiness ''execution_lifetime'')
      in if py_text (dget catalog ''origin_kind'') = Some ''console'' \<or> lifetime = Some ''one_shot''
            \<or> in_states (py_text (dget catalog ''launch_surface'')) [''web'', ''ios'', ''api''] then Mode_console
         else if lifetime = Some ''live_control'' \<or> owns_control (dget facts ''connections'')
            \<or> in_states (py_text (dget run ''launch_origin'')) [''longhouse_spawned'', ''longhouse_continued''] then Mode_helm
         else Mode_shadow)"

definition project_disposition :: "pylib \<Rightarrow> pydict \<Rightarrow> disposition_facts res" where
  "project_disposition lib facts =
     (let catalog = mapping_of (dget facts ''catalog'') in
      bindR (optional_wire_datetime lib (dget catalog ''closed_at'') ''catalog.closed_at'') (\<lambda>closed_at.
      Inr (case closed_at of None \<Rightarrow> open_disposition
        | Some t \<Rightarrow> \<lparr>df_state = Disp_closed, df_closed_at = Some t,
            df_close_reason = option_or (py_text (dget catalog ''close_reason'')) (Some ''user_closed'')\<rparr>)))"

definition project_launch :: "pydict \<Rightarrow> launch_facts option" where
  "project_launch facts =
     (let readiness = mapping_of (dget facts ''readiness'');
          states = [(''pending'', La_pending), (''dispatched'', La_dispatched), (''failed'', La_failed),
                    (''adopted'', La_adopted), (''abandoned'', La_abandoned)]
      in map_option (\<lambda>s. \<lparr>lc_state = s, lc_error_code = py_text (dget readiness ''error_code''),
                          lc_error_message = py_text (dget readiness ''error_message'')\<rparr>)
           (Option.bind (py_text (dget readiness ''state'')) (map_of states)))"

definition project_run :: "pylib \<Rightarrow> pydict \<Rightarrow> launch_facts option \<Rightarrow> run_facts option res" where
  "project_run lib facts launch =
     (let run = mapping_of (dget facts ''latest_run'') in
      case py_text (dget run ''id'') of
        None \<Rightarrow>
          (if (case launch of None \<Rightarrow> False | Some l \<Rightarrow> lc_state l \<in> {La_pending, La_dispatched})
           then bindR (optional_wire_datetime lib (dget (mapping_of (dget facts ''catalog'')) ''started_at'') ''catalog.started_at'') (\<lambda>s.
                Inr (Some (mk_run None Run_starting s)))
           else Inr None)
      | Some run_id \<Rightarrow>
          bindR (optional_wire_datetime lib (dget run ''started_at'') ''latest_run.started_at'') (\<lambda>started_at.
          bindR (optional_wire_datetime lib (dget run ''ended_at'') ''latest_run.ended_at'') (\<lambda>ended_at.
          let turn = py_text (dget (mapping_of (dget facts ''console_control'')) ''turn_state'');
              lifecycle = (if ended_at = None \<and> project_mode facts = Mode_console
                 then (if in_states turn [''queued'', ''starting''] then Run_starting
                       else if in_states turn [''active'', ''draining''] then Run_running else Run_running)
                 else if ended_at \<noteq> None then Run_ended else Run_running)
          in Inr (Some \<lparr>rf_id = Some run_id, rf_lifecycle = lifecycle, rf_started_at = started_at, rf_ended_at = ended_at,
                   rf_end_reason = (if ended_at \<noteq> None then py_text (dget run ''exit_status'') else None)\<rparr>))))"

subsection \<open>Served control\<close>

definition availability :: "bool \<Rightarrow> string \<Rightarrow> action_availability" where
  "availability ok reason = (if ok then available else unavailable reason)"

definition can_reattach_row :: "pyval \<Rightarrow> bool" where
  "can_reattach_row v =
     (let connection = mapping_of v in
      dget connection ''released_at'' = PNone
      \<and> \<not> in_states (py_text (dget connection ''state'')) [''released'', ''ended'']
      \<and> truthy (dget connection ''can_resume''))"

definition durable_action_availability ::
  "pydict \<Rightarrow> session_mode \<Rightarrow> string list \<Rightarrow> string \<Rightarrow> (bool \<times> string) res" where
  "durable_action_availability facts mode supported operation =
     (if mode \<noteq> Mode_helm \<or> operation \<notin> set supported
      then Inr (False, if operation \<notin> set supported then ''unsupported'' else ''not_helm'')
      else bindR (iter_or_empty (dget facts ''connections'')) (\<lambda>rows.
        Inr (if list_ex can_reattach_row rows then (True, ''reattach_available'')
             else (False, operation @ ''_unavailable''))))"

definition resume_contract ::
  "string option \<Rightarrow> string option \<Rightarrow> string option \<Rightarrow> pydict \<Rightarrow> action_availability" where
  "resume_contract provider cwd provider_session_id value =
     (if provider = None \<or> py_text (dget value ''provider'') \<noteq> provider then unavailable ''provider_incompatible''
      else if py_text (dget value ''contract_state'') \<noteq> Some ''valid''
      then unavailable (case py_text (dget value ''unavailable_reason'') of Some r \<Rightarrow> r | None \<Rightarrow> ''contract_invalid'')
      else if cwd = None \<or> py_text (dget value ''cwd'') \<noteq> cwd then unavailable ''workspace_mismatch''
      else if provider_session_id = None \<or> py_text (dget value ''provider_session_id'') \<noteq> provider_session_id
      then unavailable ''provider_identity_mismatch''
      else available)"

definition resume_action_availability ::
  "pylib \<Rightarrow> string \<Rightarrow> string option \<Rightarrow> string option \<Rightarrow> string option \<Rightarrow> session_mode \<Rightarrow> run_facts option \<Rightarrow>
   host_facts \<Rightarrow> pydict list \<Rightarrow> string list \<Rightarrow> instant \<Rightarrow> action_availability res" where
  "resume_action_availability lib session_id provider cwd provider_session_id mode run host heads supported now =
     (if mode \<noteq> Mode_helm then Inr (unavailable ''not_helm'')
      else if ''resume'' \<notin> set supported then Inr (unavailable ''unsupported'')
      else if (case run of None \<Rightarrow> False | Some r \<Rightarrow> rf_lifecycle r \<noteq> Run_ended) then Inr (unavailable ''run_active'')
      else if hf_state host \<in> {Host_offline, Host_stale} then Inr (unavailable ''machine_offline'')
      else if hf_state host = Host_unknown then Inr (unavailable ''machine_unknown'')
      else bindR (effective_head lib (default_query session_id Fam_continuation now) heads) (\<lambda>(winner, _).
        Inr (case winner of None \<Rightarrow> unavailable ''contract_missing''
          | Some w \<Rightarrow> resume_contract provider cwd provider_session_id (wn_value w))))"

definition control_plane_for_observation :: "pydict \<Rightarrow> control_facts \<Rightarrow> string option res" where
  "control_plane_for_observation facts observed =
     bindR (iter_or_empty (dget facts ''connections'')) (\<lambda>rows.
     Inr (Option.bind (List.find (\<lambda>v.
        map_option Ref_adapter (py_text (dget (mapping_of v) ''adapter_connection_id'')) = cf_connection_id observed
        \<and> py_text (dget (mapping_of v) ''lease_generation'') = cf_lease_generation observed) rows)
       (\<lambda>v. py_text (dget (mapping_of v) ''control_plane''))))"

definition durable_control_plane :: "pydict \<Rightarrow> string option res" where
  "durable_control_plane facts =
     bindR (iter_or_empty (dget facts ''connections'')) (\<lambda>rows.
     Inr (Option.bind (List.find (\<lambda>v. dget (mapping_of v) ''released_at'' = PNone
        \<and> py_text (dget (mapping_of v) ''control_plane'') \<noteq> None) (rev rows))
       (\<lambda>v. py_text (dget (mapping_of v) ''control_plane''))))"

definition mk_control :: "ownership \<Rightarrow> connection_state \<Rightarrow> string option \<Rightarrow> control_actions \<Rightarrow> control_facts" where
  "mk_control own connection plane actions =
     \<lparr>cf_ownership = own, cf_connection = connection, cf_connection_id = None, cf_lease_generation = None,
      cf_control_plane = plane, cf_terminal_attached = None, cf_observed_at = None, cf_valid_until = None,
      cf_actions = actions\<rparr>"

definition served_start_turn :: "session_mode \<Rightarrow> console_projection \<Rightarrow> action_availability" where
  "served_start_turn mode console = availability (mode = Mode_console \<and> cp_can_start_turn console)
     (case cp_start_turn_blocked_by console of Some b \<Rightarrow> blocker_name b
      | None \<Rightarrow> (if mode \<noteq> Mode_console then ''not_console'' else ''start_turn_unavailable''))"

definition served_control ::
  "control_facts option \<Rightarrow> session_mode \<Rightarrow> pydict \<Rightarrow> string list \<Rightarrow> action_availability \<Rightarrow> control_facts res" where
  "served_control observed mode facts supported resume =
     (let console = from_catalog_facts (mapping_of (dget facts ''console_control''));
          start_turn = served_start_turn mode console
      in bindR (durable_action_availability facts mode supported ''reattach'') (\<lambda>(reattach_available, reattach_reason).
         if mode = Mode_console then
           bindR (durable_control_plane facts) (\<lambda>plane.
           Inr (mk_control Owned (connection_of_console (cp_connection console)) plane
             \<lparr>ca_start_turn = start_turn, ca_send_input = availability False ''use_start_turn'',
              ca_interrupt = availability (cp_can_interrupt_active_turn console) (interrupt_unavailable_reason console),
              ca_terminate = availability False ''unsupported'', ca_reattach = availability False ''not_helm'',
              ca_resume = resume\<rparr>))
         else case observed of
           Some obs \<Rightarrow>
             bindR (control_plane_for_observation facts obs) (\<lambda>plane.
             Inr (obs\<lparr>cf_control_plane := plane,
               cf_actions := (cf_actions obs)\<lparr>ca_start_turn := start_turn,
                 ca_reattach := availability (cf_connection obs \<noteq> Conn_connected \<and> reattach_available)
                   (if cf_connection obs = Conn_connected then ''already_connected'' else reattach_reason),
                 ca_resume := resume\<rparr>\<rparr>))
         | None \<Rightarrow>
             (let owned = (mode \<in> {Mode_helm, Mode_console});
                  reason = (if \<not> owned then ''observe_only'' else ''control_unknown'')
              in bindR (durable_control_plane facts) (\<lambda>plane.
                 Inr (mk_control (if owned then Owned else Unowned)
                   (if mode \<in> {Mode_shadow, Mode_console} then Conn_not_applicable else Conn_unknown) plane
                   \<lparr>ca_start_turn = start_turn, ca_send_input = availability False reason,
                    ca_interrupt = availability False reason, ca_terminate = availability False reason,
                    ca_reattach = availability (mode = Mode_helm \<and> reattach_available) reattach_reason,
                    ca_resume = resume\<rparr>)))))"

subsection \<open>The two projections and the authorization\<close>

record shadow_projection =
  sp_commit_seq :: int
  sp_mode :: session_mode
  sp_disposition :: disposition_facts
  sp_launch :: "launch_facts option"
  sp_run :: "run_facts option"
  sp_activity :: activity_facts
  sp_control :: "control_facts option"
  sp_control_run_id :: "string option"
  sp_fact_sources :: "head_diagnostic list"
  sp_rejected_heads :: nat
  sp_rejected_activity_heads :: nat
  sp_rejected_control_heads :: nat

definition activity_query :: "string \<Rightarrow> pydict \<Rightarrow> instant \<Rightarrow> head_query" where
  "activity_query session_id facts now = (default_query session_id Fam_activity now)
     \<lparr>hq_expected_run_id := active_run_id facts, hq_require_run_binding := True, hq_retain_expired := True\<rparr>"

definition control_query :: "string \<Rightarrow> pydict \<Rightarrow> instant \<Rightarrow> head_query" where
  "control_query session_id facts now = (default_query session_id Fam_control now)
     \<lparr>hq_expected_run_id := active_run_id facts, hq_require_run_binding := True,
      hq_allowed := Some (bound_control_coordinates facts)\<rparr>"

definition project_shadow_session_state_facts ::
  "pylib \<Rightarrow> string \<Rightarrow> int \<Rightarrow> pydict \<Rightarrow> pydict list \<Rightarrow> string list \<Rightarrow> pydatetime \<Rightarrow> shadow_projection res" where
  "project_shadow_session_state_facts lib session_id commit_seq facts heads supported now =
     bindR (aware_utc now ''now'') (\<lambda>normalized_now.
     bindR (effective_head lib (activity_query session_id facts normalized_now) heads) (\<lambda>(activity_head, rejected_activity).
     bindR (effective_head lib (control_query session_id facts normalized_now) heads) (\<lambda>(control_head, rejected_control).
     let launch = project_launch facts in
     bindR (project_disposition lib facts) (\<lambda>disposition.
     bindR (project_run lib facts launch) (\<lambda>run.
     bindR (project_control control_head supported) (\<lambda>control.
     Inr \<lparr>sp_commit_seq = commit_seq, sp_mode = project_mode facts, sp_disposition = disposition,
          sp_launch = launch, sp_run = run, sp_activity = project_activity activity_head normalized_now,
          sp_control = control, sp_control_run_id = control_run_id control_head,
          sp_fact_sources = List.map_filter id
            [head_diagnostic_of Fam_activity activity_head, head_diagnostic_of Fam_control control_head],
          sp_rejected_heads = rejected_activity + rejected_control,
          sp_rejected_activity_heads = rejected_activity, sp_rejected_control_heads = rejected_control\<rparr>))))))"

definition served_resume ::
  "pylib \<Rightarrow> string \<Rightarrow> pydict \<Rightarrow> shadow_projection \<Rightarrow> host_facts \<Rightarrow> pydict list \<Rightarrow> string list \<Rightarrow> instant \<Rightarrow>
   action_availability res" where
  "served_resume lib session_id facts shadow host heads supported now =
     (let catalog = mapping_of (dget facts ''catalog'') in
      resume_action_availability lib session_id (py_text (dget catalog ''provider'')) (py_text (dget catalog ''cwd''))
        (py_text (dget (mapping_of (dget facts ''resume'')) ''provider_session_id''))
        (sp_mode shadow) (sp_run shadow) host heads supported now)"

definition project_served_session_state_facts ::
  "pylib \<Rightarrow> string \<Rightarrow> int \<Rightarrow> pydict \<Rightarrow> pydict list \<Rightarrow> string list \<Rightarrow> interaction_facts option \<Rightarrow>
   transcript_facts \<Rightarrow> host_facts \<Rightarrow> pydatetime \<Rightarrow> state_facts res" where
  "project_served_session_state_facts lib session_id commit_seq facts heads supported interaction transcript host now =
     bindR (project_shadow_session_state_facts lib session_id commit_seq facts heads supported now) (\<lambda>shadow.
     bindR (aware_utc now ''now'') (\<lambda>normalized_now.
     bindR (served_resume lib session_id facts shadow host heads supported normalized_now) (\<lambda>resume.
     bindR (served_control (sp_control shadow) (sp_mode shadow) facts supported resume) (\<lambda>control.
     let catalog = mapping_of (dget facts ''catalog'') in
     bindR (optional_wire_datetime lib (dget catalog ''last_console_result_at'') ''catalog.last_console_result_at'') (\<lambda>result_at.
     bindR (optional_wire_datetime lib (dget catalog ''last_read_at'') ''catalog.last_read_at'') (\<lambda>read_at.
     Inr (assemble_session_state_facts
       \<lparr>ax_mode = sp_mode shadow, ax_disposition = sp_disposition shadow, ax_launch = sp_launch shadow,
        ax_run = sp_run shadow, ax_activity = sp_activity shadow, ax_control = control,
        ax_interaction = interaction, ax_transcript = transcript, ax_host = host\<rparr>
       (Some commit_seq) (map_option utc_dt result_at) (py_text (dget catalog ''last_console_result_outcome''))
       (map_option utc_dt read_at))))))))"

datatype control_operation = Op_send_input | Op_interrupt | Op_terminate

fun operation_name :: "control_operation \<Rightarrow> string" where
  "operation_name Op_send_input = ''send_input''"
| "operation_name Op_interrupt = ''interrupt''"
| "operation_name Op_terminate = ''terminate''"

fun operation_action :: "control_operation \<Rightarrow> control_actions \<Rightarrow> action_availability" where
  "operation_action Op_send_input a = ca_send_input a"
| "operation_action Op_interrupt a = ca_interrupt a"
| "operation_action Op_terminate a = ca_terminate a"

record control_authorization =
  au_allowed :: bool
  au_reason :: "string option"
  au_control :: "control_facts option"
  au_run_id :: "string option"

definition denied :: "string \<Rightarrow> control_authorization" where
  "denied reason = \<lparr>au_allowed = False, au_reason = Some reason, au_control = None, au_run_id = None\<rparr>"

text \<open>The exact coordinates a caller asks control for.\<close>

record control_target =
  ct_session_id :: string
  ct_run_id :: string
  ct_provider :: string
  ct_connection_id :: string
  ct_lease_generation :: string
  ct_operation :: control_operation

definition target_subject :: "control_target \<Rightarrow> string" where
  "target_subject t = ''connection:'' @ ct_connection_id t @ '':'' @ ct_lease_generation t"

definition exact_heads :: "control_target \<Rightarrow> pydict list \<Rightarrow> pydict list" where
  "exact_heads t heads = filter (\<lambda>head. dget head ''family'' = PStr ''control''
     \<and> dget head ''subject_key'' = PStr (target_subject t)) heads"

definition identity_matches :: "control_target \<Rightarrow> pydict \<Rightarrow> bool" where
  "identity_matches t value \<longleftrightarrow> py_text (dget value ''provider'') = Some (ct_provider t)
     \<and> py_text (dget value ''run_id'') = Some (ct_run_id t)
     \<and> py_text (dget value ''connection_id'') = Some (ct_connection_id t)
     \<and> py_text (dget value ''lease_generation'') = Some (ct_lease_generation t)"

text \<open>The last step, once the exact control facts are projected.\<close>

definition decide_operation :: "control_operation \<Rightarrow> winner \<Rightarrow> control_facts \<Rightarrow> control_authorization" where
  "decide_operation operation w control =
     (let action = operation_action operation (cf_actions control) in
      if aa_state action \<noteq> Available
      then \<lparr>au_allowed = False,
            au_reason = Some (case aa_reason action of None \<Rightarrow> ''control_unavailable''
               | Some r \<Rightarrow> if r = [] then ''control_unavailable'' else r),
            au_control = Some control, au_run_id = control_run_id (Some w)\<rparr>
      else \<lparr>au_allowed = True, au_reason = None, au_control = Some control, au_run_id = control_run_id (Some w)\<rparr>)"

definition authorize_exact_control_fact ::
  "pylib \<Rightarrow> control_target \<Rightarrow> pydict list \<Rightarrow> string list \<Rightarrow> pydatetime \<Rightarrow> control_authorization res" where
  "authorize_exact_control_fact lib t heads supported now =
     (let exact = exact_heads t heads in
      if exact = [] then Inr (denied ''control_head_missing'')
      else bindR (aware_utc now ''now'') (\<lambda>now.
        bindR (effective_head lib (default_query (ct_session_id t) Fam_control now) exact) (\<lambda>(winner, rejected).
        if rejected > 0 then Inr (denied ''control_head_rejected'')
        else case winner of None \<Rightarrow> Inr (denied ''lease_expired'')
          | Some w \<Rightarrow>
            (if \<not> identity_matches t (wn_value w) then Inr (denied ''identity_diverged'')
             else if operation_name (ct_operation t) \<notin> set supported then Inr (denied ''unsupported'')
             else bindR (project_control winner supported) (\<lambda>control.
               Inr (case control of None \<Rightarrow> denied ''control_head_missing''
                 | Some c \<Rightarrow> decide_operation (ct_operation t) w c))))))"

end
