(* ===== verification/Projector_Properties.thy ===== *)
theory Projector_Properties
  imports Facts_Projector
begin

text \<open>
  What the projections and the authorization of \<open>Facts_Projector\<close> promise. The loop over the heads is first
  described by what it computes: the list of candidates and the number of rejected heads.
\<close>

subsection \<open>The loop over the heads\<close>

definition fresh_at :: "instant \<Rightarrow> winner \<Rightarrow> bool" where
  "fresh_at now w \<longleftrightarrow> wn_valid_until w > now"

definition candidate_of :: "pylib \<Rightarrow> head_query \<Rightarrow> pydict \<Rightarrow> (head_key \<times> winner) option" where
  "candidate_of lib q head =
     (if dget head ''family'' \<noteq> PStr (family_name (hq_family q)) then None
      else case examine_head lib q head of Inl _ \<Rightarrow> None
        | Inr (rank, w) \<Rightarrow> (if fresh_at (hq_now q) w \<or> hq_retain_expired q then Some (head_key_of q rank w, w) else None))"

definition caught :: "pyerr \<Rightarrow> bool" where
  "caught e = (case e of TypeError _ \<Rightarrow> True | ValueError _ \<Rightarrow> True | _ \<Rightarrow> False)"

definition head_error :: "pylib \<Rightarrow> head_query \<Rightarrow> pydict \<Rightarrow> pyerr option" where
  "head_error lib q head =
     (if dget head ''family'' \<noteq> PStr (family_name (hq_family q)) then None
      else case examine_head lib q head of Inl e \<Rightarrow> Some e | Inr _ \<Rightarrow> None)"

definition rejected_head :: "pylib \<Rightarrow> head_query \<Rightarrow> pydict \<Rightarrow> bool" where
  "rejected_head lib q head = (case head_error lib q head of Some e \<Rightarrow> caught e | None \<Rightarrow> False)"

definition crashing_head :: "pylib \<Rightarrow> head_query \<Rightarrow> pydict \<Rightarrow> bool" where
  "crashing_head lib q head = (case head_error lib q head of Some e \<Rightarrow> \<not> caught e | None \<Rightarrow> False)"

lemma consider_head_cases:
  "consider_head lib q head st =
     (case head_error lib q head of
        Some e \<Rightarrow> (if caught e then Inr (fst st, snd st + 1) else Inl e)
      | None \<Rightarrow> Inr (fst st @ (case candidate_of lib q head of None \<Rightarrow> [] | Some c \<Rightarrow> [c]), snd st))"
  by (auto simp: consider_head_def head_error_def candidate_of_def caught_def fresh_at_def
      split: sum.splits pyerr.splits option.splits)

lemma consider_heads_Inr:
  "foldR (consider_head lib q) heads (cs, n) = Inr r \<longleftrightarrow>
     list_all (\<lambda>h. \<not> crashing_head lib q h) heads
     \<and> r = (cs @ List.map_filter (candidate_of lib q) heads, n + length (filter (rejected_head lib q) heads))"
proof (induction heads arbitrary: cs n)
  case (Cons h heads)
  have "head_error lib q h = Some e \<Longrightarrow> candidate_of lib q h = None" for e
    by (auto simp: head_error_def candidate_of_def split: sum.splits if_splits)
  with Cons.IH show ?case
    by (auto simp: consider_head_cases crashing_head_def rejected_head_def List.map_filter_simps split: option.splits)
qed (auto simp: List.map_filter_def)

lemma effective_head_Inr:
  "effective_head lib q heads = Inr (w, n) \<longleftrightarrow>
     list_all (\<lambda>h. \<not> crashing_head lib q h) heads
     \<and> w = map_option snd (max_by fst (List.map_filter (candidate_of lib q) heads))
     \<and> n = length (filter (rejected_head lib q) heads)"
  by (auto simp: effective_head_def consider_heads_Inr simp del: split_paired_Ex)

lemma candidate_key_fresh: "candidate_of lib q h = Some (k, w) \<Longrightarrow> fst k = fresh_at (hq_now q) w"
  by (auto simp: candidate_of_def head_key_of_def fresh_at_def split: sum.splits if_splits)

lemma map_filter_mem: "y \<in> set (List.map_filter f xs) \<longleftrightarrow> (\<exists>x \<in> set xs. f x = Some y)"
  by (induction xs) (auto simp: List.map_filter_simps split: option.splits)

lemmas candidates_mem = map_filter_mem[of _ "candidate_of lib q" heads for lib q heads]

lemma winner_candidate:
  assumes "effective_head lib q heads = Inr (Some w, n)"
  obtains h k where "h \<in> set heads" "candidate_of lib q h = Some (k, w)"
    "\<And>h' k' w'. h' \<in> set heads \<Longrightarrow> candidate_of lib q h' = Some (k', w') \<Longrightarrow> k' \<le> k"
proof -
  let ?cs = "List.map_filter (candidate_of lib q) heads"
  obtain c where c: "max_by fst ?cs = Some c" "snd c = w"
    using assms by (cases "max_by fst ?cs") (simp_all add: effective_head_Inr)
  from max_choice.pick_mem[OF c(1)] obtain h where "h \<in> set heads" "candidate_of lib q h = Some (fst c, w)"
    using c(2) by (metis candidates_mem prod.collapse)
  moreover have "k' \<le> fst c" if "h' \<in> set heads" "candidate_of lib q h' = Some (k', w')" for h' k' w'
    using max_choice.pick_max[OF c(1), of "(k', w')"] that by (metis candidates_mem fst_conv)
  ultimately show thesis using that by blast
qed

lemma winner_None:
  assumes "effective_head lib q heads = Inr (None, n)" and "h \<in> set heads"
  shows "candidate_of lib q h = None"
proof -
  have "List.map_filter (candidate_of lib q) heads = []"
    using assms(1) by (simp add: effective_head_Inr max_choice.pick_None_iff)
  with assms(2) show ?thesis by (metis candidates_mem empty_iff empty_set option.exhaust)
qed

text \<open>What a candidate has passed.\<close>

lemma candidate_examined:
  assumes "candidate_of lib q h = Some (k, w)"
  shows "dget h ''family'' = PStr (family_name (hq_family q))"
    and "\<exists>rank. examine_head lib q h = Inr (rank, w)"
    and "fresh_at (hq_now q) w \<or> hq_retain_expired q"
  using assms by (auto simp: candidate_of_def split: sum.splits if_splits)

lemma examined_head:
  assumes "examine_head lib q h = Inr (rank, w)"
  shows "wn_head w = h" and "head_value lib h (hq_family q) (hq_session_id q) = Inr (wn_value w)"
    and "authority_rank (hq_family q) (wn_value w) = Inr rank"
    and "wire_datetime lib (dget (wn_value w) ''observed_at'') ''observed_at'' = Inr (wn_observed_at w)"
    and "valid_until_of lib (hq_family q) h (wn_value w) (wn_observed_at w) = Inr (wn_valid_until w)"
    and "hq_require_run_binding q \<Longrightarrow> hq_expected_run_id q \<noteq> None \<and> py_text (dget (wn_value w) ''run_id'') = hq_expected_run_id q"
    and "hq_allowed q = Some cs \<Longrightarrow> hq_family q = Fam_control \<Longrightarrow> control_coordinate (wn_value w) \<in> set cs"
  using assms by (auto simp: examine_head_def)

lemma head_value_bound:
  assumes "head_value lib h family sid = Inr v"
  shows "dget h ''session_id'' = PStr sid" and "dget v ''session_id'' = PStr sid"
    and "dget v ''source'' = dget h ''source''"
    and "\<exists>hash. canonical_evidence_hash lib v = Inr hash \<and> dget h ''evidence_hash'' = PStr hash"
    and "\<exists>subject. head_subject family sid v = Inr subject \<and> dget h ''subject_key'' = PStr subject"
  using assms by (cases "dget h ''source''"; auto simp: head_value_def)+

lemma control_valid_until:
  assumes "valid_until_of lib Fam_control h v t = Inr u"
  shows "\<exists>ttl > 0. dget v ''lease_ttl_ms'' = PInt ttl \<and> utc_us u = utc_us t + ttl * 1000"
proof -
  obtain ttl where "dget v ''lease_ttl_ms'' = PInt ttl" "ttl > 0" "add_ms t ttl = Inr u"
    using assms by (auto simp: valid_until_of_def split: pyval.splits if_splits)
  then show ?thesis using add_ms_value by fastforce
qed

lemma rank_authority:
  assumes "authority_rank family v = Inr r"
  shows "\<exists>a. dget v ''authority_class'' = PStr a \<and> map_of AUTHORITY_RANK (family_name family, a) = Some r"
  using assms by (auto simp: authority_rank_def split: pyval.splits option.splits)

lemma control_authority:
  assumes "authority_rank Fam_control v = Inr r"
  shows "dget v ''authority_class'' = PStr ''provider_control''"
  using rank_authority[OF assms] by (auto simp: AUTHORITY_RANK_def split: if_splits)

lemma control_subject:
  assumes "head_subject Fam_control sid v = Inr subject"
  shows "\<exists>c l. py_text (dget v ''connection_id'') = Some c \<and> py_text (dget v ''lease_generation'') = Some l
    \<and> subject = ''connection:'' @ c @ '':'' @ l"
    and "\<exists>ops. validated_grants v = Inr ops"
  using assms by (auto simp: head_subject_def split: option.splits)

lemma control_action_available:
  "aa_state (control_action supported grants connection operation) = Available \<longleftrightarrow>
     operation \<in> set supported \<and> operation \<in> set grants \<and> connection = Conn_connected"
  by (auto simp: control_action_def available_def unavailable_def)

lemma head_connection_connected: "head_connection v = Inr Conn_connected \<longleftrightarrow> v = PStr ''attached''"
  by (auto simp: head_connection_def)

lemma operation_action_projected:
  assumes "project_control (Some w) supported = Inr (Some c)"
  shows "\<exists>connection grants. head_connection (dget (wn_value w) ''state'') = Inr connection
     \<and> validated_grants (wn_value w) = Inr grants
     \<and> operation_action op (cf_actions c) = control_action supported grants connection (operation_name op)
     \<and> cf_connection c = connection \<and> cf_valid_until c = Some (wn_valid_until w)
     \<and> cf_connection_id c = map_option Ref_adapter (py_text (dget (wn_value w) ''connection_id''))
     \<and> cf_lease_generation c = py_text (dget (wn_value w) ''lease_generation'')"
  using assms by (cases op) (auto simp: project_control_def Let_def)

subsection \<open>Authorization\<close>

lemma decide_operation_simps [simp]:
  "au_allowed (decide_operation op w c) \<longleftrightarrow> aa_state (operation_action op (cf_actions c)) = Available"
  "au_run_id (decide_operation op w c) = control_run_id (Some w)"
  by (simp_all add: decide_operation_def Let_def)

lemma denied_not_allowed [simp]: "\<not> au_allowed (denied r)"
  by (simp add: denied_def)

lemma authorization_cases:
  assumes "authorize_exact_control_fact lib t heads supported now = Inr a" and "au_allowed a"
  obtains utc_now w c where "aware_utc now ''now'' = Inr utc_now"
    "effective_head lib (default_query (ct_session_id t) Fam_control utc_now) (exact_heads t heads) = Inr (Some w, 0)"
    "identity_matches t (wn_value w)" "operation_name (ct_operation t) \<in> set supported"
    "project_control (Some w) supported = Inr (Some c)" "a = decide_operation (ct_operation t) w c"
  using assms by (auto simp: authorize_exact_control_fact_def Let_def split: if_splits option.splits)

text \<open>A head that entitles its holder to an operation: every check the authorization makes.\<close>

definition entitles :: "pylib \<Rightarrow> control_target \<Rightarrow> string list \<Rightarrow> instant \<Rightarrow> pydict \<Rightarrow> winner \<Rightarrow> bool" where
  "entitles lib t supported now head w \<longleftrightarrow>
     dget head ''family'' = PStr ''control''
     \<and> dget head ''subject_key'' = PStr (target_subject t)
     \<and> dget head ''session_id'' = PStr (ct_session_id t)
     \<and> dget (wn_value w) ''session_id'' = PStr (ct_session_id t)
     \<and> (\<exists>hash. canonical_evidence_hash lib (wn_value w) = Inr hash \<and> dget head ''evidence_hash'' = PStr hash)
     \<and> dget (wn_value w) ''authority_class'' = PStr ''provider_control''
     \<and> wire_datetime lib (dget (wn_value w) ''observed_at'') ''observed_at'' = Inr (wn_observed_at w)
     \<and> (\<exists>ttl > 0. dget (wn_value w) ''lease_ttl_ms'' = PInt ttl
           \<and> utc_us now < utc_us (wn_observed_at w) + ttl * 1000)
     \<and> identity_matches t (wn_value w)
     \<and> dget (wn_value w) ''state'' = PStr ''attached''
     \<and> (\<exists>ops. validated_grants (wn_value w) = Inr ops \<and> operation_name (ct_operation t) \<in> set ops)
     \<and> operation_name (ct_operation t) \<in> set supported"

lemma candidate_entitles:
  assumes c: "candidate_of lib (default_query (ct_session_id t) Fam_control now) h = Some (k, w)"
    and h: "h \<in> set (exact_heads t heads)"
    and m: "identity_matches t (wn_value w)"
    and s: "dget (wn_value w) ''state'' = PStr ''attached''"
    and g: "validated_grants (wn_value w) = Inr ops" "operation_name (ct_operation t) \<in> set ops"
    and o: "operation_name (ct_operation t) \<in> set supported"
  shows "entitles lib t supported now h w"
proof -
  let ?q = "default_query (ct_session_id t) Fam_control now"
  have q: "hq_family ?q = Fam_control" "hq_session_id ?q = ct_session_id t" "hq_now ?q = now" "\<not> hq_retain_expired ?q"
    by (simp_all add: default_query_def)
  obtain rank where e: "examine_head lib ?q h = Inr (rank, w)"
    using candidate_examined(2)[OF c] by blast
  have fresh: "wn_valid_until w > now"
    using candidate_examined(3)[OF c] by (simp add: fresh_at_def q)
  obtain ttl where "ttl > 0" "dget (wn_value w) ''lease_ttl_ms'' = PInt ttl"
    "utc_us (wn_valid_until w) = utc_us (wn_observed_at w) + ttl * 1000"
    using control_valid_until examined_head(5)[OF e] by (metis q(1))
  then show ?thesis
    using fresh head_value_bound[OF examined_head(2)[OF e]] control_authority[of "wn_value w"]
      examined_head(3,4)[OF e] h m s g o
    by (auto simp: entitles_def exact_heads_def q less_instant_def)
qed

lemma aware_utc_dt: "aware_utc (utc_dt t) f = Inr u \<Longrightarrow> u = t"
  by (auto simp: aware_utc_def utc_dt_def astimezone_def split: if_splits)

lemma authorized_entitled:
  assumes "authorize_exact_control_fact lib t heads supported now = Inr a" and "au_allowed a"
  shows "\<exists>utc_now head w. aware_utc now ''now'' = Inr utc_now \<and> head \<in> set heads
      \<and> entitles lib t supported utc_now head w
      \<and> (\<forall>other \<in> set (exact_heads t heads).
           \<not> rejected_head lib (default_query (ct_session_id t) Fam_control utc_now) other)
      \<and> au_run_id a = Some (ct_run_id t)"
proof -
  obtain utc_now w c where now: "aware_utc now ''now'' = Inr utc_now"
    and eff: "effective_head lib (default_query (ct_session_id t) Fam_control utc_now) (exact_heads t heads) = Inr (Some w, 0)"
    and m: "identity_matches t (wn_value w)" and o: "operation_name (ct_operation t) \<in> set supported"
    and c: "project_control (Some w) supported = Inr (Some c)" and a: "a = decide_operation (ct_operation t) w c"
    using authorization_cases[OF assms] by metis
  obtain h k where h: "h \<in> set (exact_heads t heads)"
    "candidate_of lib (default_query (ct_session_id t) Fam_control utc_now) h = Some (k, w)"
    using winner_candidate[OF eff] by metis
  obtain ops where ops: "validated_grants (wn_value w) = Inr ops" "operation_name (ct_operation t) \<in> set ops"
      and st: "dget (wn_value w) ''state'' = PStr ''attached''"
    using operation_action_projected[OF c, of "ct_operation t"] a assms(2)
    by (auto simp: control_action_available head_connection_connected)
  have "entitles lib t supported utc_now h w"
    by (rule candidate_entitles[OF h(2) h(1) m st ops o])
  moreover have "\<forall>other \<in> set (exact_heads t heads).
      \<not> rejected_head lib (default_query (ct_session_id t) Fam_control utc_now) other"
    using eff by (simp add: effective_head_Inr filter_empty_conv)
  moreover have "h \<in> set heads" using h(1) by (simp add: exact_heads_def)
  moreover have "au_run_id a = Some (ct_run_id t)"
    using a m by (simp add: control_run_id_def identity_matches_def)
  ultimately show ?thesis using now by blast
qed

text \<open>
  (C1) Authorization is sound: an operation is allowed only when some head of exactly the requested connection
  and lease generation entitles to it. That head belongs to the session, carries the hash of its own value and
  the control authority, its lease has not expired at the time of the request, the value names the requested
  provider, run, connection and lease generation, the connection is attached, and the operation is both granted
  by the head and supported by the provider. No head of that subject was rejected, and the run reported back is
  the requested run.
\<close>

theorem authorization_sound:
  assumes "authorize_exact_control_fact lib t heads supported now = Inr a" and "au_allowed a"
  shows "\<exists>utc_now head w. aware_utc now ''now'' = Inr utc_now \<and> head \<in> set heads
      \<and> entitles lib t supported utc_now head w
      \<and> (\<forall>other \<in> set (exact_heads t heads).
           \<not> rejected_head lib (default_query (ct_session_id t) Fam_control utc_now) other)
      \<and> au_run_id a = Some (ct_run_id t)"
  by (rule authorized_entitled[OF assms])

lemma candidate_of_examined:
  assumes "examine_head lib q h = Inr (rank, w)" and "dget h ''family'' = PStr (family_name (hq_family q))"
    and "fresh_at (hq_now q) w"
  shows "candidate_of lib q h = Some (head_key_of q rank w, w)" and "\<not> crashing_head lib q h" and "\<not> rejected_head lib q h"
  using assms by (simp_all add: candidate_of_def crashing_head_def rejected_head_def head_error_def)

text \<open>
  (C30) Authorization is complete: when the requested connection and lease generation have one head, the head
  passes validation and it entitles to the operation, the operation is allowed.
\<close>

theorem entitled_is_authorized:
  assumes now: "aware_utc now ''now'' = Inr utc_now" and one: "exact_heads t heads = [head]"
    and e: "examine_head lib (default_query (ct_session_id t) Fam_control utc_now) head = Inr (rank, w)"
    and ent: "entitles lib t supported utc_now head w"
  shows "\<exists>a. authorize_exact_control_fact lib t heads supported now = Inr a \<and> au_allowed a"
proof -
  let ?q = "default_query (ct_session_id t) Fam_control utc_now"
  have q: "hq_family ?q = Fam_control" "hq_now ?q = utc_now" by (simp_all add: default_query_def)
  obtain ttl where "dget (wn_value w) ''lease_ttl_ms'' = PInt ttl" "utc_us utc_now < utc_us (wn_observed_at w) + ttl * 1000"
    using ent by (auto simp: entitles_def)
  then have fresh: "fresh_at (hq_now ?q) w"
    using control_valid_until examined_head(5)[OF e]
    by (fastforce simp: q fresh_at_def less_instant_def)
  have fam: "dget head ''family'' = PStr (family_name (hq_family ?q))" using ent by (simp add: entitles_def q)
  have eff: "effective_head lib ?q [head] = Inr (Some w, 0)"
    using candidate_of_examined[OF e fam fresh] by (simp add: effective_head_Inr List.map_filter_simps)
  obtain ops where ops: "validated_grants (wn_value w) = Inr ops" "operation_name (ct_operation t) \<in> set ops"
    using ent by (auto simp: entitles_def)
  have st: "head_connection (dget (wn_value w) ''state'') = Inr Conn_connected"
    using ent by (simp add: entitles_def head_connection_connected)
  have "\<exists>c. project_control (Some w) supported = Inr (Some c)"
    using st ops by (simp add: project_control_def Let_def)
  then obtain c where c: "project_control (Some w) supported = Inr (Some c)" by blast
  have "aa_state (operation_action (ct_operation t) (cf_actions c)) = Available"
    using operation_action_projected[OF c, of "ct_operation t"] st ops ent
    by (auto simp: control_action_available entitles_def)
  then show ?thesis
    using now one eff c ent by (simp add: authorize_exact_control_fact_def Let_def entitles_def)
qed

lemma decide_operation_reason:
  assumes "project_control (Some w) supported = Inr (Some c)"
  shows "au_reason (decide_operation op w c) \<in> {None, Some ''unsupported'', Some ''not_granted'', Some ''connection_unavailable''}"
    and "au_reason (decide_operation op w c) = None \<longleftrightarrow> au_allowed (decide_operation op w c)"
proof -
  obtain connection grants where a: "operation_action op (cf_actions c) = control_action supported grants connection (operation_name op)"
    using operation_action_projected[OF assms, of op] by blast
  show "au_reason (decide_operation op w c) \<in> {None, Some ''unsupported'', Some ''not_granted'', Some ''connection_unavailable''}"
    by (simp add: decide_operation_def Let_def a control_action_def available_def unavailable_def)
  show "au_reason (decide_operation op w c) = None \<longleftrightarrow> au_allowed (decide_operation op w c)"
    by (simp add: decide_operation_def Let_def)
qed

lemma effective_head_None_iff:
  assumes "effective_head lib q heads = Inr (w, n)"
  shows "w = None \<longleftrightarrow> (\<forall>h \<in> set heads. candidate_of lib q h = None)"
  using assms winner_None[of lib q heads n] winner_candidate[of lib q heads _ n] by (cases w) (auto, metis option.distinct(1))

lemma effective_head_count:
  assumes "effective_head lib q heads = Inr (w, n)"
  shows "n > 0 \<longleftrightarrow> (\<exists>h \<in> set heads. rejected_head lib q h)"
  using assms by (auto simp: effective_head_Inr filter_empty_conv)

lemma authorization_reason:
  assumes "authorize_exact_control_fact lib t heads supported now = Inr a"
    and "aware_utc now ''now'' = Inr utc_now" and "exact_heads t heads \<noteq> []"
    and "effective_head lib (default_query (ct_session_id t) Fam_control utc_now) (exact_heads t heads) = Inr (w, n)"
  shows "(n > 0 \<and> au_reason a = Some ''control_head_rejected'' \<and> \<not> au_allowed a)
    \<or> (n = 0 \<and> w = None \<and> au_reason a = Some ''lease_expired'' \<and> \<not> au_allowed a)
    \<or> (n = 0 \<and> w \<noteq> None \<and> (au_reason a = None \<longleftrightarrow> au_allowed a)
       \<and> au_reason a \<in> {None, Some ''identity_diverged'', Some ''unsupported'', Some ''not_granted'', Some ''connection_unavailable''})"
proof (cases w)
  case None
  with assms show ?thesis by (auto simp: authorize_exact_control_fact_def Let_def denied_def split: if_splits)
next
  case (Some v)
  note run = assms(1)[unfolded authorize_exact_control_fact_def Let_def]
  show ?thesis
  proof (cases "n > 0 \<or> \<not> identity_matches t (wn_value v) \<or> operation_name (ct_operation t) \<notin> set supported")
    case True
    with run Some assms(2-) show ?thesis by (auto simp: denied_def split: if_splits)
  next
    case False
    with run Some assms(2-) obtain control where p: "project_control (Some v) supported = Inr control"
      "a = (case control of None \<Rightarrow> denied ''control_head_missing'' | Some c \<Rightarrow> decide_operation (ct_operation t) v c)"
      by auto
    then obtain c where "control = Some c" by (auto simp: project_control_def Let_def)
    then show ?thesis
      using p decide_operation_reason[of v supported c "ct_operation t"] Some False by auto
  qed
qed

text \<open>
  Every refusal names its reason, and the three reasons about the head itself are exact: there is no head of
  the requested subject, some head of it fails validation, or every head of it is valid and its lease expired.
\<close>

theorem denial_reasons_exact:
  assumes a: "authorize_exact_control_fact lib t heads supported now = Inr a"
    and now: "aware_utc now ''now'' = Inr utc_now"
  shows "(au_reason a = None \<longleftrightarrow> au_allowed a)
    \<and> (au_reason a = Some ''control_head_missing'' \<longleftrightarrow> exact_heads t heads = [])
    \<and> (au_reason a = Some ''control_head_rejected'' \<longleftrightarrow>
      (\<exists>h \<in> set (exact_heads t heads). rejected_head lib (default_query (ct_session_id t) Fam_control utc_now) h))
    \<and> (au_reason a = Some ''lease_expired'' \<longleftrightarrow> exact_heads t heads \<noteq> [] \<and>
      (\<forall>h \<in> set (exact_heads t heads). \<not> rejected_head lib (default_query (ct_session_id t) Fam_control utc_now) h
         \<and> candidate_of lib (default_query (ct_session_id t) Fam_control utc_now) h = None))"
proof (cases "exact_heads t heads = []")
  case True
  then show ?thesis using a by (auto simp: authorize_exact_control_fact_def denied_def)
next
  case False
  then obtain w n where eff:
    "effective_head lib (default_query (ct_session_id t) Fam_control utc_now) (exact_heads t heads) = Inr (w, n)"
    using a now by (auto simp: authorize_exact_control_fact_def Let_def)
  show ?thesis
    using authorization_reason[OF a now False eff] effective_head_None_iff[OF eff] effective_head_count[OF eff] False
    by auto
qed

subsection \<open>The winning head\<close>

text \<open>
  The order in which the catalog returns the heads does not matter: as long as two candidates with equal
  keys are the same head, any permutation of the heads gives the same winner and the same count of rejections.
\<close>

theorem head_order_irrelevant:
  assumes perm: "mset heads = mset heads'"
    and keys: "\<And>h h' k w w'. h \<in> set heads \<Longrightarrow> h' \<in> set heads \<Longrightarrow> candidate_of lib q h = Some (k, w) \<Longrightarrow>
       candidate_of lib q h' = Some (k, w') \<Longrightarrow> w = w'"
    and ok: "effective_head lib q heads = Inr r"
  shows "effective_head lib q heads' = Inr r"
proof -
  let ?cs = "\<lambda>hs. List.map_filter (candidate_of lib q) hs"
  have sets: "set heads = set heads'" using perm by (rule mset_eq_setD)
  have "inj_on fst (set (?cs heads))"
  proof (rule inj_onI)
    fix c c' assume "c \<in> set (?cs heads)" "c' \<in> set (?cs heads)" "fst c = fst c'"
    moreover from this obtain h h' where "h \<in> set heads" "candidate_of lib q h = Some c"
      "h' \<in> set heads" "candidate_of lib q h' = Some c'"
      by (auto simp: candidates_mem)
    ultimately show "c = c'" using keys[of h h' "fst c" "snd c" "snd c'"] by (simp add: prod_eq_iff)
  qed
  moreover have "set (?cs heads) = set (?cs heads')"
    by (intro set_eqI) (simp only: candidates_mem sets)
  ultimately have "max_by fst (?cs heads) = max_by fst (?cs heads')"
    by (rule max_choice.pick_set_eq)
  moreover have "length (filter (rejected_head lib q) heads) = length (filter (rejected_head lib q) heads')"
    using perm by (metis mset_filter size_mset)
  ultimately show ?thesis
    using ok sets by (cases r) (simp add: effective_head_Inr list_all_iff)
qed

lemma candidate_key:
  assumes "candidate_of lib q h = Some (k, w)"
  shows "\<exists>c. k = (hq_now q < wn_valid_until w, 1, wn_observed_at w, c)"
proof -
  obtain r where r: "examine_head lib q h = Inr (r, w)" using candidate_examined(2)[OF assms] by blast
  then have "r = 1"
    using rank_authority[OF examined_head(3)[OF r]] by (auto simp: AUTHORITY_RANK_def split: if_splits)
  moreover have "k = head_key_of q r w"
    using assms r by (auto simp: candidate_of_def split: if_splits)
  ultimately show ?thesis by (simp add: head_key_of_def)
qed

text \<open>
  The winner is a validated head of the requested family and session. Freshness dominates: when any candidate
  is fresh the winner is fresh, an expired winner appears only where the caller asked to retain expired heads,
  and no candidate of the same freshness has a later observation.
\<close>

theorem winner_is_freshest:
  assumes "effective_head lib q heads = Inr (Some w, n)"
  shows "\<exists>head \<in> set heads. wn_head w = head
      \<and> dget head ''family'' = PStr (family_name (hq_family q)) \<and> dget head ''session_id'' = PStr (hq_session_id q)
      \<and> (hq_now q < wn_valid_until w \<or> hq_retain_expired q)
      \<and> (\<forall>other \<in> set heads. \<forall>k v. candidate_of lib q other = Some (k, v) \<longrightarrow>
           (hq_now q < wn_valid_until v \<longrightarrow> hq_now q < wn_valid_until w)
           \<and> ((hq_now q < wn_valid_until v \<longleftrightarrow> hq_now q < wn_valid_until w) \<longrightarrow> wn_observed_at v \<le> wn_observed_at w))"
proof -
  obtain h k where h: "h \<in> set heads" "candidate_of lib q h = Some (k, w)"
    and best: "\<And>h' k' w'. h' \<in> set heads \<Longrightarrow> candidate_of lib q h' = Some (k', w') \<Longrightarrow> k' \<le> k"
    using winner_candidate[OF assms] by metis
  obtain rank where e: "examine_head lib q h = Inr (rank, w)" using candidate_examined(2)[OF h(2)] by blast
  have "(hq_now q < wn_valid_until v \<longrightarrow> hq_now q < wn_valid_until w)
      \<and> ((hq_now q < wn_valid_until v \<longleftrightarrow> hq_now q < wn_valid_until w) \<longrightarrow> wn_observed_at v \<le> wn_observed_at w)"
    if o: "other \<in> set heads" and c: "candidate_of lib q other = Some (k', v)" for other k' v
    using best[OF o c] candidate_key[OF c] candidate_key[OF h(2)] by (auto simp: less_eq_prod_def)
  then show ?thesis
    using h(1) examined_head(1,2)[OF e] head_value_bound(1) candidate_examined(1,3)[OF h(2)]
    by (intro bexI[of _ h]) (auto simp: fresh_at_def simp del: split_paired_All)
qed

subsection \<open>The diagnostic projection\<close>

lemma shadow_cases:
  assumes "project_shadow_session_state_facts lib sid seq facts heads supported now = Inr sp"
  obtains utc_now activity_head rejected_activity control_head rejected_control where
    "aware_utc now ''now'' = Inr utc_now"
    "effective_head lib (activity_query sid facts utc_now) heads = Inr (activity_head, rejected_activity)"
    "effective_head lib (control_query sid facts utc_now) heads = Inr (control_head, rejected_control)"
    "sp_activity sp = project_activity activity_head utc_now"
    "project_control control_head supported = Inr (sp_control sp)"
    "sp_mode sp = project_mode facts"
  using assms by (auto simp: project_shadow_session_state_facts_def Let_def)

lemma query_simps [simp]:
  "hq_family (activity_query sid facts now) = Fam_activity" "hq_session_id (activity_query sid facts now) = sid"
  "hq_now (activity_query sid facts now) = now" "hq_require_run_binding (activity_query sid facts now)"
  "hq_expected_run_id (activity_query sid facts now) = active_run_id facts"
  "hq_family (control_query sid facts now) = Fam_control" "hq_session_id (control_query sid facts now) = sid"
  "hq_now (control_query sid facts now) = now" "hq_require_run_binding (control_query sid facts now)"
  "hq_expected_run_id (control_query sid facts now) = active_run_id facts"
  "hq_allowed (control_query sid facts now) = Some (bound_control_coordinates facts)"
  "\<not> hq_retain_expired (control_query sid facts now)"
  "hq_family (default_query sid f now) = f" "hq_session_id (default_query sid f now) = sid"
  "hq_now (default_query sid f now) = now" "\<not> hq_retain_expired (default_query sid f now)"
  by (simp_all add: activity_query_def control_query_def default_query_def)

text \<open>
  Activity is claimed only on current evidence of the running run: when the projected activity is anything
  but unknown, an activity head of this session with the hash of its own value reports the run that is the
  latest one and has not ended, and its validity extends beyond the time of the projection.
\<close>

theorem shadow_activity_is_current:
  assumes p: "project_shadow_session_state_facts lib sid seq facts heads supported now = Inr sp"
    and known: "af_state (sp_activity sp) \<noteq> Act_unknown"
  shows "\<exists>utc_now head (w :: winner). aware_utc now ''now'' = Inr utc_now \<and> head \<in> set heads
      \<and> dget head ''family'' = PStr ''activity'' \<and> dget head ''session_id'' = PStr sid
      \<and> (\<exists>hash. canonical_evidence_hash lib (wn_value w) = Inr hash \<and> dget head ''evidence_hash'' = PStr hash)
      \<and> active_run_id facts \<noteq> None \<and> py_text (dget (wn_value w) ''run_id'') = active_run_id facts
      \<and> utc_now < wn_valid_until w \<and> af_valid_until (sp_activity sp) = Some (wn_valid_until w)"
proof -
  obtain utc_now ah ra where now: "aware_utc now ''now'' = Inr utc_now"
    and eff: "effective_head lib (activity_query sid facts utc_now) heads = Inr (ah, ra)"
    and act: "sp_activity sp = project_activity ah utc_now"
    using shadow_cases[OF p] by metis
  obtain w where w: "ah = Some w" "utc_now < wn_valid_until w" "af_valid_until (sp_activity sp) = Some (wn_valid_until w)"
    using known act by (auto simp: project_activity_def unknown_activity_def Let_def split: option.splits if_splits)
  obtain h k where h: "h \<in> set heads" "candidate_of lib (activity_query sid facts utc_now) h = Some (k, w)"
    using winner_candidate[OF eff[unfolded w(1)]] by metis
  obtain rank where e: "examine_head lib (activity_query sid facts utc_now) h = Inr (rank, w)"
    using candidate_examined(2)[OF h(2)] by blast
  show ?thesis
    using now h(1) w candidate_examined(1)[OF h(2)] head_value_bound[OF examined_head(2)[OF e]] examined_head(6)[OF e]
    by (intro exI[of _ utc_now] exI[of _ h] exI[of _ w]) simp
qed

text \<open>A connection row of the snapshot that still binds a run, a connection and a lease generation.\<close>

definition binding_row :: "pydict \<Rightarrow> string \<Rightarrow> string \<Rightarrow> string \<Rightarrow> bool" where
  "binding_row facts run connection lease \<longleftrightarrow> (\<exists>rows row. dget facts ''connections'' = PList rows \<and> row \<in> set rows
     \<and> dget (mapping_of row) ''released_at'' = PNone
     \<and> py_text (dget (mapping_of row) ''run_id'') = Some run
     \<and> py_text (dget (mapping_of row) ''adapter_connection_id'') = Some connection
     \<and> py_text (dget (mapping_of row) ''lease_generation'') = Some lease)"

lemma text_or_empty_nonempty: "text_or_empty v \<noteq> [] \<longleftrightarrow> py_text v = Some (text_or_empty v)"
  using text_nonempty[of v] by (auto simp: text_or_empty_def split: option.splits)

lemma bound_coordinate:
  assumes "(r, c, l) \<in> set (bound_control_coordinates facts)"
  shows "binding_row facts r c l" and "r \<noteq> []" and "c \<noteq> []" and "l \<noteq> []"
  using assms
  by (cases "dget facts ''connections''"; auto simp: bound_control_coordinates_def binding_row_def text_or_empty_nonempty)+

lemma text_or_empty_eq: "text_or_empty v = s \<Longrightarrow> s \<noteq> [] \<Longrightarrow> py_text v = Some s"
  by (auto simp: text_or_empty_def split: option.splits)

text \<open>What stands behind projected control facts: the head, its lease, and the connection row that binds it.\<close>

definition control_backed :: "pylib \<Rightarrow> string \<Rightarrow> pydict \<Rightarrow> pydict list \<Rightarrow> instant \<Rightarrow> control_facts \<Rightarrow> winner \<Rightarrow> bool" where
  "control_backed lib sid facts heads now c w \<longleftrightarrow>
     wn_head w \<in> set heads \<and> dget (wn_head w) ''family'' = PStr ''control'' \<and> dget (wn_head w) ''session_id'' = PStr sid
     \<and> (\<exists>hash. canonical_evidence_hash lib (wn_value w) = Inr hash \<and> dget (wn_head w) ''evidence_hash'' = PStr hash)
     \<and> now < wn_valid_until w \<and> cf_valid_until c = Some (wn_valid_until w)
     \<and> (\<exists>run connection lease. active_run_id facts = Some run \<and> binding_row facts run connection lease
          \<and> cf_connection_id c = Some (Ref_adapter connection) \<and> cf_lease_generation c = Some lease)"

lemma control_winner_backed:
  assumes eff: "effective_head lib (control_query sid facts now) heads = Inr (Some w, n)"
    and c: "project_control (Some w) supported = Inr (Some c)"
  shows "control_backed lib sid facts heads now c w"
proof -
  let ?q = "control_query sid facts now"
  obtain h k where h: "h \<in> set heads" "candidate_of lib ?q h = Some (k, w)"
    using winner_candidate[OF eff] by metis
  obtain rank where e: "examine_head lib ?q h = Inr (rank, w)" using candidate_examined(2)[OF h(2)] by blast
  have "control_coordinate (wn_value w) \<in> set (bound_control_coordinates facts)"
    using examined_head(7)[OF e] by simp
  then obtain r cid l where coord: "control_coordinate (wn_value w) = (r, cid, l)" "binding_row facts r cid l"
    "r \<noteq> []" "cid \<noteq> []" "l \<noteq> []"
    using bound_coordinate by (metis prod.exhaust)
  then have ids: "py_text (dget (wn_value w) ''run_id'') = Some r" "py_text (dget (wn_value w) ''connection_id'') = Some cid"
    "py_text (dget (wn_value w) ''lease_generation'') = Some l"
    by (auto simp: control_coordinate_def intro: text_or_empty_eq)
  show ?thesis
    using h(1) examined_head(1)[OF e] candidate_examined(1,3)[OF h(2)] head_value_bound[OF examined_head(2)[OF e]]
      examined_head(6)[OF e] operation_action_projected[OF c, of Op_send_input] ids coord(2)
    by (auto simp: control_backed_def fresh_at_def)
qed

text \<open>
  Observed control always has a live lease behind it: when the projection reports control facts, they come
  from a head of this session whose lease has not expired, for the run that is the latest one and has not ended,
  and the snapshot has an unreleased connection row with the same run, connection and lease generation.
\<close>

theorem shadow_control_is_bound:
  assumes p: "project_shadow_session_state_facts lib sid seq facts heads supported now = Inr sp"
    and c: "sp_control sp = Some c"
  shows "\<exists>utc_now w. aware_utc now ''now'' = Inr utc_now \<and> control_backed lib sid facts heads utc_now c w"
proof -
  obtain utc_now ch rc where now: "aware_utc now ''now'' = Inr utc_now"
    and eff: "effective_head lib (control_query sid facts utc_now) heads = Inr (ch, rc)"
    and pc: "project_control ch supported = Inr (sp_control sp)"
    using shadow_cases[OF p] by metis
  obtain w where "ch = Some w" using pc c by (cases ch) (auto simp: project_control_def)
  with eff pc c now show ?thesis using control_winner_backed by fastforce
qed

subsection \<open>The served projection\<close>

lemma served_cases:
  assumes "project_served_session_state_facts lib sid seq facts heads supported interaction transcript host now = Inr sf"
  obtains sp utc_now resume where
    "project_shadow_session_state_facts lib sid seq facts heads supported now = Inr sp"
    "aware_utc now ''now'' = Inr utc_now"
    "served_resume lib sid facts sp host heads supported utc_now = Inr resume"
    "served_control (sp_control sp) (sp_mode sp) facts supported resume = Inr (sf_control sf)"
    "sf_mode sf = sp_mode sp" "sf_run sf = sp_run sp" "sf_activity sf = sp_activity sp"
  using assms by (auto simp: project_served_session_state_facts_def assemble_session_state_facts_def Let_def)

lemma availability_state [simp]: "aa_state (availability ok r) = Available \<longleftrightarrow> ok"
  "aa_state (availability ok r) = Unavailable \<longleftrightarrow> \<not> ok"
  by (simp_all add: availability_def available_def unavailable_def)

lemma served_control_operation:
  assumes "served_control observed mode facts supported resume = Inr c" and "mode \<noteq> Mode_console"
    and "aa_state (operation_action op (cf_actions c)) = Available"
  shows "\<exists>obs. observed = Some obs \<and> operation_action op (cf_actions c) = operation_action op (cf_actions obs)
    \<and> cf_connection c = cf_connection obs \<and> cf_valid_until c = cf_valid_until obs
    \<and> cf_connection_id c = cf_connection_id obs \<and> cf_lease_generation c = cf_lease_generation obs"
proof (cases observed)
  case None
  with assms(1,2) obtain actions where "cf_actions c = actions" "aa_state (ca_send_input actions) \<noteq> Available"
    "aa_state (ca_interrupt actions) \<noteq> Available" "aa_state (ca_terminate actions) \<noteq> Available"
    by (auto simp: served_control_def Let_def mk_control_def)
  with assms(3) show ?thesis by (cases op) simp_all
next
  case (Some obs)
  with assms(1,2) obtain plane st re where
    "c = obs\<lparr>cf_control_plane := plane,
       cf_actions := (cf_actions obs)\<lparr>ca_start_turn := st, ca_reattach := re, ca_resume := resume\<rparr>\<rparr>"
    by (auto simp: served_control_def Let_def)
  with Some show ?thesis by (cases op) simp_all
qed

lemma served_control_backed:
  assumes s: "project_served_session_state_facts lib sid seq facts heads supported interaction transcript host now = Inr sf"
    and m: "sf_mode sf \<noteq> Mode_console"
    and a: "aa_state (operation_action op (cf_actions (sf_control sf))) = Available"
  shows "\<exists>utc_now w. aware_utc now ''now'' = Inr utc_now \<and> control_backed lib sid facts heads utc_now (sf_control sf) w
     \<and> cf_connection (sf_control sf) = Conn_connected
     \<and> operation_name op \<in> set supported
     \<and> (\<exists>ops. validated_grants (wn_value w) = Inr ops \<and> operation_name op \<in> set ops)"
proof -
  obtain sp utc_now resume where p: "project_shadow_session_state_facts lib sid seq facts heads supported now = Inr sp"
    and now: "aware_utc now ''now'' = Inr utc_now"
    and sc: "served_control (sp_control sp) (sp_mode sp) facts supported resume = Inr (sf_control sf)"
    and mode: "sf_mode sf = sp_mode sp"
    using served_cases[OF s] by metis
  obtain obs where obs: "sp_control sp = Some obs"
    "operation_action op (cf_actions (sf_control sf)) = operation_action op (cf_actions obs)"
    "cf_connection (sf_control sf) = cf_connection obs" "cf_valid_until (sf_control sf) = cf_valid_until obs"
    "cf_connection_id (sf_control sf) = cf_connection_id obs" "cf_lease_generation (sf_control sf) = cf_lease_generation obs"
    using served_control_operation[OF sc _ a] m mode by metis
  obtain ch rc where eff: "effective_head lib (control_query sid facts utc_now) heads = Inr (ch, rc)"
    and pc: "project_control ch supported = Inr (Some obs)"
    using shadow_cases[OF p] now obs(1) by (metis sum.inject(2))
  then obtain w where w: "ch = Some w" by (cases ch) (auto simp: project_control_def)
  have "control_backed lib sid facts heads utc_now obs w"
    using control_winner_backed eff pc w by blast
  then have "control_backed lib sid facts heads utc_now (sf_control sf) w"
    using obs(4-6) by (simp add: control_backed_def)
  then show ?thesis
    using now operation_action_projected[OF pc[unfolded w], of op] a obs(2,3)
    by (auto simp: control_action_available)
qed

text \<open>
  (C4) Outside Console mode the served contract offers to send, interrupt or terminate only through a live lease:
  the operation is supported by the provider and granted by a fresh, attached control head of this session that
  an unreleased connection row of the active run binds.
\<close>

theorem served_control_needs_live_lease:
  assumes s: "project_served_session_state_facts lib sid seq facts heads supported interaction transcript host now = Inr sf"
    and m: "sf_mode sf \<noteq> Mode_console"
    and a: "aa_state (operation_action op (cf_actions (sf_control sf))) = Available"
  shows "\<exists>utc_now w. aware_utc now ''now'' = Inr utc_now \<and> control_backed lib sid facts heads utc_now (sf_control sf) w
     \<and> cf_connection (sf_control sf) = Conn_connected
     \<and> operation_name op \<in> set supported
     \<and> (\<exists>ops. validated_grants (wn_value w) = Inr ops \<and> operation_name op \<in> set ops)"
  by (rule served_control_backed[OF assms])

lemma served_control_console:
  assumes "served_control observed Mode_console facts supported resume = Inr c"
  shows "let a = cf_actions c; console = mapping_of (dget facts ''console_control'') in
      aa_state (ca_send_input a) = Unavailable \<and> aa_state (ca_terminate a) = Unavailable
      \<and> aa_state (ca_reattach a) = Unavailable \<and> ca_resume a = resume
      \<and> (aa_state (ca_start_turn a) = Available \<longleftrightarrow> truthy (dget console ''can_start_turn''))
      \<and> (aa_state (ca_interrupt a) = Available \<longleftrightarrow> truthy (dget console ''can_interrupt_active_turn''))"
proof -
  have "cp_can_start_turn (from_catalog_facts d) = truthy (dget d ''can_start_turn'')"
    "cp_can_interrupt_active_turn (from_catalog_facts d) = truthy (dget d ''can_interrupt_active_turn'')" for d
    by (simp_all add: from_catalog_facts_def)
  with assms show ?thesis by (auto simp: served_control_def Let_def mk_control_def served_start_turn_def)
qed

text \<open>
  In Console mode no standing control is offered: send, terminate and reattach are unavailable, and starting
  or interrupting a turn is available exactly when the snapshot's Console projection says so.
\<close>

theorem console_serves_turn_actions_only:
  assumes s: "project_served_session_state_facts lib sid seq facts heads supported interaction transcript host now = Inr sf"
    and m: "sf_mode sf = Mode_console"
  shows "(let a = cf_actions (sf_control sf); console = mapping_of (dget facts ''console_control'') in
      aa_state (ca_send_input a) = Unavailable \<and> aa_state (ca_terminate a) = Unavailable
      \<and> aa_state (ca_reattach a) = Unavailable \<and> aa_state (ca_resume a) = Unavailable
      \<and> (aa_state (ca_start_turn a) = Available \<longleftrightarrow> truthy (dget console ''can_start_turn''))
      \<and> (aa_state (ca_interrupt a) = Available \<longleftrightarrow> truthy (dget console ''can_interrupt_active_turn'')))"
proof -
  obtain sp utc_now resume where
    r: "served_resume lib sid facts sp host heads supported utc_now = Inr resume"
    and sc: "served_control (sp_control sp) (sp_mode sp) facts supported resume = Inr (sf_control sf)"
    and mode: "sp_mode sp = Mode_console"
    using served_cases[OF s] m by metis
  have "aa_state resume = Unavailable"
    using r mode by (auto simp: served_resume_def resume_action_availability_def Let_def unavailable_def)
  then show ?thesis using served_control_console[OF sc[unfolded mode]] by (simp add: Let_def)
qed

lemma resume_contract_available:
  "aa_state (resume_contract provider cwd psid v) = Available \<longleftrightarrow>
     provider \<noteq> None \<and> py_text (dget v ''provider'') = provider \<and> py_text (dget v ''contract_state'') = Some ''valid''
     \<and> cwd \<noteq> None \<and> py_text (dget v ''cwd'') = cwd \<and> psid \<noteq> None \<and> py_text (dget v ''provider_session_id'') = psid"
  by (auto simp: resume_contract_def available_def unavailable_def)

lemma resume_available:
  assumes "resume_action_availability lib sid provider cwd psid mode run host heads supported now = Inr r"
    and "aa_state r = Available"
  shows "mode = Mode_helm \<and> ''resume'' \<in> set supported \<and> hf_state host = Host_online
     \<and> (\<forall>x. run = Some x \<longrightarrow> rf_lifecycle x = Run_ended)
     \<and> (\<exists>w n. effective_head lib (default_query sid Fam_continuation now) heads = Inr (Some w, n)
          \<and> aa_state (resume_contract provider cwd psid (wn_value w)) = Available)"
proof -
  have "mode = Mode_helm" "''resume'' \<in> set supported" "hf_state host = Host_online"
    using assms by (cases "hf_state host"; auto simp: resume_action_availability_def unavailable_def split: if_splits)+
  moreover have "\<forall>x. run = Some x \<longrightarrow> rf_lifecycle x = Run_ended"
    using assms by (auto simp: resume_action_availability_def unavailable_def split: if_splits option.splits)
  moreover have "\<exists>w n. effective_head lib (default_query sid Fam_continuation now) heads = Inr (Some w, n)
          \<and> aa_state (resume_contract provider cwd psid (wn_value w)) = Available"
    using assms by (auto simp: resume_action_availability_def unavailable_def split: if_splits option.splits)
  ultimately show ?thesis by blast
qed

lemma served_control_resume:
  assumes "served_control observed mode facts supported resume = Inr c"
  shows "ca_resume (cf_actions c) = resume"
  using assms
  by (cases observed; cases "mode = Mode_console") (auto simp: served_control_def Let_def mk_control_def)

text \<open>
  Resuming is offered only under a valid retained contract: the session is a Helm session without a running
  run, the provider supports resume, its machine is online, and a continuation head of this session that has not
  expired carries a valid contract whose provider, working directory and provider session are those of the catalog.
\<close>

theorem served_resume_needs_contract:
  assumes s: "project_served_session_state_facts lib sid seq facts heads supported interaction transcript host now = Inr sf"
    and a: "aa_state (ca_resume (cf_actions (sf_control sf))) = Available"
  shows "sf_mode sf = Mode_helm \<and> ''resume'' \<in> set supported \<and> hf_state host = Host_online
     \<and> (\<forall>r. sf_run sf = Some r \<longrightarrow> rf_lifecycle r = Run_ended)
     \<and> (\<exists>utc_now head (w :: winner). aware_utc now ''now'' = Inr utc_now \<and> head \<in> set heads
          \<and> dget head ''family'' = PStr ''continuation'' \<and> dget head ''subject_key'' = PStr (''resume:'' @ sid)
          \<and> utc_now < wn_valid_until w
          \<and> py_text (dget (wn_value w) ''contract_state'') = Some ''valid''
          \<and> py_text (dget (wn_value w) ''provider'') = py_text (dget (mapping_of (dget facts ''catalog'')) ''provider'')
          \<and> py_text (dget (wn_value w) ''cwd'') = py_text (dget (mapping_of (dget facts ''catalog'')) ''cwd'')
          \<and> py_text (dget (wn_value w) ''provider_session_id'') =
              py_text (dget (mapping_of (dget facts ''resume'')) ''provider_session_id''))"
proof -
  obtain sp utc_now resume where now: "aware_utc now ''now'' = Inr utc_now"
    and r: "served_resume lib sid facts sp host heads supported utc_now = Inr resume"
    and sc: "served_control (sp_control sp) (sp_mode sp) facts supported resume = Inr (sf_control sf)"
    and mode: "sf_mode sf = sp_mode sp" "sf_run sf = sp_run sp"
    using served_cases[OF s] by metis
  have "aa_state resume = Available" using a served_control_resume[OF sc] by simp
  note res = resume_available[OF r[unfolded served_resume_def Let_def] this]
  then obtain w n where eff: "effective_head lib (default_query sid Fam_continuation utc_now) heads = Inr (Some w, n)"
    and contract: "aa_state (resume_contract (py_text (dget (mapping_of (dget facts ''catalog'')) ''provider''))
       (py_text (dget (mapping_of (dget facts ''catalog'')) ''cwd''))
       (py_text (dget (mapping_of (dget facts ''resume'')) ''provider_session_id'')) (wn_value w)) = Available"
    by blast
  obtain h k where h: "h \<in> set heads" "candidate_of lib (default_query sid Fam_continuation utc_now) h = Some (k, w)"
    using winner_candidate[OF eff] by metis
  obtain rank where e: "examine_head lib (default_query sid Fam_continuation utc_now) h = Inr (rank, w)"
    using candidate_examined(2)[OF h(2)] by blast
  have "dget h ''subject_key'' = PStr (''resume:'' @ sid)"
    using head_value_bound(5)[OF examined_head(2)[OF e]] by (auto simp: head_subject_def)
  moreover have "dget h ''family'' = PStr ''continuation''" "utc_now < wn_valid_until w"
    using candidate_examined(1,3)[OF h(2)] by (simp_all add: fresh_at_def)
  ultimately show ?thesis using res mode now h(1) contract by (auto simp: resume_contract_available)
qed

end
