(* ===== verification/Projector_Samples.thy ===== *)
theory Projector_Samples
  imports Projector_Properties
begin

text \<open>
  One concrete snapshot: a control head, an activity head and a continuation head that validate, the rows that
  bind them, and the properties of the projector applied to it.
\<close>

definition noon :: pydatetime where "noon = DT 1714521601000000 (Some 0)"

definition utc_noon :: instant where "utc_noon = UTC 1714521601000000"

lemma noon_aware: "aware_utc noon ''now'' = Inr utc_noon"
  by (simp add: aware_utc_def noon_def utc_noon_def astimezone_def in_range_us_def min_us_def max_us_def)

definition control_value :: pydict where
  "control_value = [(''session_id'', PStr ''s1''), (''run_id'', PStr ''r1''), (''provider'', PStr ''codex''),
     (''connection_id'', PStr ''c1''), (''lease_generation'', PStr ''g1''), (''source'', PStr ''engine''),
     (''authority_class'', PStr ''provider_control''), (''state'', PStr ''attached''),
     (''granted_operations'', PList [PStr ''interrupt'', PStr ''send_input'']), (''lease_ttl_ms'', PInt 60000),
     (''observed_at'', PStr ''20240501T000000Z'')]"

definition activity_value :: pydict where
  "activity_value = [(''session_id'', PStr ''s1''), (''run_id'', PStr ''r1''), (''source'', PStr ''engine''),
     (''authority_class'', PStr ''provider_runtime''), (''kind'', PStr ''idle''),
     (''observed_at'', PStr ''20240501T000000Z'')]"

definition continuation_value :: pydict where
  "continuation_value = [(''session_id'', PStr ''s1''), (''source'', PStr ''engine''), (''provider'', PStr ''codex''),
     (''authority_class'', PStr ''retained_launch_contract''), (''contract_state'', PStr ''valid''),
     (''cwd'', PStr ''/work''), (''provider_session_id'', PStr ''p1''), (''observed_at'', PStr ''20240501T000000Z'')]"

definition json_of :: "pydict \<Rightarrow> string" where
  "json_of v = (case canonical_value_json sample_lib v of Inr j \<Rightarrow> j | Inl _ \<Rightarrow> [])"

definition sample_head_row :: "string \<Rightarrow> string \<Rightarrow> pydict \<Rightarrow> pydict" where
  "sample_head_row family subject v = [(''family'', PStr family), (''session_id'', PStr ''s1''), (''subject_key'', PStr subject),
     (''source'', PStr ''engine''), (''source_epoch'', PStr ''e1''),
     (''evidence_hash'', PStr (sha256_hexdigest (json_of v))), (''valid_until'', PDatetime (DT 1714521660000000 (Some 0))),
     (''value_json'', PDict v)]"

definition control_head :: pydict where "control_head = sample_head_row ''control'' ''connection:c1:g1'' control_value"
definition activity_head :: pydict where "activity_head = sample_head_row ''activity'' ''run:r1'' activity_value"
definition continuation_head :: pydict where
  "continuation_head = sample_head_row ''continuation'' ''resume:s1'' continuation_value"

definition sample_observed :: instant where "sample_observed = UTC 1714521600000000"
definition sample_until :: instant where "sample_until = UTC 1714521660000000"

definition winner_for :: "pydict \<Rightarrow> pydict \<Rightarrow> winner" where
  "winner_for head v = \<lparr>wn_head = head, wn_value = v, wn_observed_at = sample_observed, wn_valid_until = sample_until\<rparr>"

lemma sample_head_row_simps [simp]:
  "dget (sample_head_row f s v) ''family'' = PStr f" "dget (sample_head_row f s v) ''session_id'' = PStr ''s1''"
  "dget (sample_head_row f s v) ''subject_key'' = PStr s" "dget (sample_head_row f s v) ''source'' = PStr ''engine''"
  "dget (sample_head_row f s v) ''source_epoch'' = PStr ''e1''" "dget (sample_head_row f s v) ''value_json'' = PDict v"
  "dget (sample_head_row f s v) ''evidence_hash'' = PStr (sha256_hexdigest (json_of v))"
  "dget (sample_head_row f s v) ''valid_until'' = PDatetime (DT 1714521660000000 (Some 0))"
  by (simp_all add: sample_head_row_def)

lemma sample_wire: "wire_datetime sample_lib (PStr ''20240501T000000Z'') f = Inr sample_observed"
proof -
  have "py_replace ''Z'' ''+00:00'' ''20240501T000000Z'' = ''20240501T000000+00:00''" by code_simp
  then show ?thesis
    by (simp add: wire_datetime_def sample_lib_def aware_utc_def astimezone_def in_range_us_def min_us_def max_us_def
        sample_observed_def)
qed

lemma sample_until_wire: "wire_datetime sample_lib (PDatetime (DT 1714521660000000 (Some 0))) f = Inr sample_until"
  by (simp add: wire_datetime_def aware_utc_def astimezone_def in_range_us_def min_us_def max_us_def sample_until_def)

lemma sample_hashes:
  "canonical_evidence_hash sample_lib control_value = Inr (sha256_hexdigest (json_of control_value))"
  "canonical_evidence_hash sample_lib activity_value = Inr (sha256_hexdigest (json_of activity_value))"
  "canonical_evidence_hash sample_lib continuation_value = Inr (sha256_hexdigest (json_of continuation_value))"
proof -
  have ok: "canonical_evidence_hash sample_lib v = Inr (sha256_hexdigest (json_of v))"
    if "case canonical_value_json sample_lib v of Inr _ \<Rightarrow> True | Inl _ \<Rightarrow> False" for v
    using that by (auto simp: canonical_evidence_hash_def json_of_def split: sum.splits)
  have basic: "\<not> rfc3339 ''20240501T000000Z''" by code_simp
  note eval = canonical_value_json_def CANONICAL_TIMESTAMP_FIELDS_def basic MIN_CANONICAL_INTEGER_def
    MAX_CANONICAL_INTEGER_def
  show "canonical_evidence_hash sample_lib control_value = Inr (sha256_hexdigest (json_of control_value))"
    by (rule ok) (simp add: eval control_value_def)
  show "canonical_evidence_hash sample_lib activity_value = Inr (sha256_hexdigest (json_of activity_value))"
    by (rule ok) (simp add: eval activity_value_def)
  show "canonical_evidence_hash sample_lib continuation_value = Inr (sha256_hexdigest (json_of continuation_value))"
    by (rule ok) (simp add: eval continuation_value_def)
qed

lemma sample_subjects:
  "head_subject Fam_control ''s1'' control_value = Inr ''connection:c1:g1''"
  "head_subject Fam_activity ''s1'' activity_value = Inr ''run:r1''"
  "head_subject Fam_continuation ''s1'' continuation_value = Inr ''resume:s1''"
  by code_simp+

lemma sample_head_values:
  "head_value sample_lib control_head Fam_control ''s1'' = Inr control_value"
  "head_value sample_lib activity_head Fam_activity ''s1'' = Inr activity_value"
  "head_value sample_lib continuation_head Fam_continuation ''s1'' = Inr continuation_value"
proof -
  have src: "dget control_value ''source'' = PStr ''engine''" "dget control_value ''session_id'' = PStr ''s1''"
    "dget activity_value ''source'' = PStr ''engine''" "dget activity_value ''session_id'' = PStr ''s1''"
    "dget continuation_value ''source'' = PStr ''engine''" "dget continuation_value ''session_id'' = PStr ''s1''"
    by (simp_all add: control_value_def activity_value_def continuation_value_def)
  have strip: "py_strip ''engine'' = ''engine''" by code_simp
  show "head_value sample_lib control_head Fam_control ''s1'' = Inr control_value"
    by (simp add: head_value_def control_head_def decode_value_def src strip sample_hashes sample_subjects guard_def)
  show "head_value sample_lib activity_head Fam_activity ''s1'' = Inr activity_value"
    by (simp add: head_value_def activity_head_def decode_value_def src strip sample_hashes sample_subjects guard_def)
  show "head_value sample_lib continuation_head Fam_continuation ''s1'' = Inr continuation_value"
    by (simp add: head_value_def continuation_head_def decode_value_def src strip sample_hashes sample_subjects guard_def)
qed

lemma sample_ranks:
  "authority_rank Fam_control control_value = Inr 1" "authority_rank Fam_activity activity_value = Inr 1"
  "authority_rank Fam_continuation continuation_value = Inr 1"
  by code_simp+

lemma sample_valid_untils:
  "valid_until_of sample_lib Fam_control control_head control_value sample_observed = Inr sample_until"
  "valid_until_of sample_lib Fam_activity activity_head activity_value sample_observed = Inr sample_until"
  "valid_until_of sample_lib Fam_continuation continuation_head continuation_value sample_observed = Inr sample_until"
proof -
  show "valid_until_of sample_lib Fam_control control_head control_value sample_observed = Inr sample_until"
    by (simp add: valid_until_of_def control_value_def add_ms_def sample_observed_def sample_until_def in_range_us_def
        min_us_def max_us_def)
  show "valid_until_of sample_lib Fam_activity activity_head activity_value sample_observed = Inr sample_until"
    by (simp add: valid_until_of_def activity_value_def activity_head_def py_or_def sample_until_wire)
  show "valid_until_of sample_lib Fam_continuation continuation_head continuation_value sample_observed = Inr sample_until"
    by (simp add: valid_until_of_def continuation_value_def continuation_head_def py_or_def sample_until_wire)
qed

definition bound_query :: "head_query \<Rightarrow> pydict \<Rightarrow> bool" where
  "bound_query q v \<longleftrightarrow> (hq_require_run_binding q \<longrightarrow>
       hq_expected_run_id q \<noteq> None \<and> py_text (dget v ''run_id'') = hq_expected_run_id q)
     \<and> (case hq_allowed q of None \<Rightarrow> True
          | Some cs \<Rightarrow> hq_family q = Fam_control \<longrightarrow> control_coordinate v \<in> set cs)"

lemma sample_observed_ats:
  "dget control_value ''observed_at'' = PStr ''20240501T000000Z''"
  "dget activity_value ''observed_at'' = PStr ''20240501T000000Z''"
  "dget continuation_value ''observed_at'' = PStr ''20240501T000000Z''"
  by (simp_all add: control_value_def activity_value_def continuation_value_def)

lemmas sample_head_facts = sample_head_values sample_ranks sample_valid_untils sample_observed_ats sample_wire

lemma sample_examined:
  "hq_family q = Fam_control \<Longrightarrow> hq_session_id q = ''s1'' \<Longrightarrow> bound_query q control_value \<Longrightarrow>
     examine_head sample_lib q control_head = Inr (1, winner_for control_head control_value)"
  "hq_family q = Fam_activity \<Longrightarrow> hq_session_id q = ''s1'' \<Longrightarrow> bound_query q activity_value \<Longrightarrow>
     examine_head sample_lib q activity_head = Inr (1, winner_for activity_head activity_value)"
  "hq_family q = Fam_continuation \<Longrightarrow> hq_session_id q = ''s1'' \<Longrightarrow> bound_query q continuation_value \<Longrightarrow>
     examine_head sample_lib q continuation_head = Inr (1, winner_for continuation_head continuation_value)"
  by (auto simp: examine_head_def sample_head_facts winner_for_def bound_query_def guard_def)

lemma winner_for_simps [simp]:
  "wn_head (winner_for h v) = h" "wn_value (winner_for h v) = v" "wn_observed_at (winner_for h v) = sample_observed"
  "wn_valid_until (winner_for h v) = sample_until" "utc_noon < sample_until"
  by (simp_all add: winner_for_def utc_noon_def sample_until_def)

lemma winner_fresh [simp]: "fresh_at utc_noon (winner_for h v)"
  by (simp add: fresh_at_def)

abbreviation control_default :: head_query where "control_default \<equiv> default_query ''s1'' Fam_control utc_noon"

lemma bound_default [simp]: "bound_query (default_query sid f now) v"
  by (simp add: bound_query_def default_query_def)

definition sample_target :: control_target where
  "sample_target = \<lparr>ct_session_id = ''s1'', ct_run_id = ''r1'', ct_provider = ''codex'', ct_connection_id = ''c1'',
     ct_lease_generation = ''g1'', ct_operation = Op_send_input\<rparr>"

lemma sample_exact: "exact_heads sample_target [activity_head, control_head] = [control_head]"
  by (simp add: exact_heads_def sample_target_def target_subject_def activity_head_def control_head_def)

lemma sample_control_examined:
  "examine_head sample_lib control_default control_head = Inr (1, winner_for control_head control_value)"
  by (rule sample_examined(1)) simp_all

lemma sample_grants: "validated_grants control_value = Inr [''interrupt'', ''send_input'']"
  by code_simp

lemma sample_identity_matches: "identity_matches sample_target control_value"
  by code_simp

lemma sample_entitles:
  "entitles sample_lib sample_target [''send_input''] utc_noon control_head (winner_for control_head control_value)"
proof -
  have "dget control_value ''lease_ttl_ms'' = PInt 60000" "dget control_value ''session_id'' = PStr ''s1''"
    "dget control_value ''authority_class'' = PStr ''provider_control''" "dget control_value ''state'' = PStr ''attached''"
    by (simp_all add: control_value_def)
  then show ?thesis
    using sample_identity_matches
    by (simp add: entitles_def control_head_def sample_hashes sample_observed_ats sample_wire sample_grants
        sample_target_def target_subject_def utc_noon_def sample_observed_def)
qed

theorem entitled_is_authorized_witness:
  "\<exists>a. authorize_exact_control_fact sample_lib sample_target [activity_head, control_head] [''send_input''] noon = Inr a
     \<and> au_allowed a"
  using entitled_is_authorized[OF noon_aware sample_exact _ sample_entitles] sample_control_examined
  by (simp add: sample_target_def)

lemma sample_effective_head: "effective_head sample_lib control_default [control_head] = Inr (Some (winner_for control_head control_value), 0)"
proof -
  have "dget control_head ''family'' = PStr (family_name (hq_family control_default))"
    by (simp add: control_head_def)
  note c = candidate_of_examined[OF sample_control_examined this]
  show ?thesis using c by (simp add: effective_head_Inr List.map_filter_simps)
qed

definition sample_control_facts :: control_facts where
  "sample_control_facts = (case project_control (Some (winner_for control_head control_value)) [''send_input''] of
     Inr (Some c) \<Rightarrow> c | _ \<Rightarrow> archive_control)"

lemma sample_projected: "project_control (Some (winner_for control_head control_value)) [''send_input''] = Inr (Some sample_control_facts)"
proof -
  have "dget control_value ''state'' = PStr ''attached''" by (simp add: control_value_def)
  then show ?thesis
    by (simp add: sample_control_facts_def project_control_def sample_grants head_connection_def Let_def)
qed

lemma sample_send_available: "aa_state (ca_send_input (cf_actions sample_control_facts)) = Available"
proof -
  have "dget control_value ''state'' = PStr ''attached''" by (simp add: control_value_def)
  then show ?thesis
    using operation_action_projected[OF sample_projected, of Op_send_input]
    by (auto simp: sample_grants head_connection_def control_action_available)
qed

lemma sample_authorized:
  "authorize_exact_control_fact sample_lib sample_target [activity_head, control_head] [''send_input''] noon =
   Inr (decide_operation Op_send_input (winner_for control_head control_value) sample_control_facts)"
proof -
  have "effective_head sample_lib (default_query (ct_session_id sample_target) Fam_control utc_noon) [control_head] =
      Inr (Some (winner_for control_head control_value), 0)"
    using sample_effective_head by (simp add: sample_target_def)
  then show ?thesis
    using sample_identity_matches
    by (simp add: authorize_exact_control_fact_def Let_def sample_exact noon_aware sample_projected)
       (simp add: sample_target_def)
qed

theorem authorization_sound_witness:
  "\<exists>utc_now head w. aware_utc noon ''now'' = Inr utc_now \<and> head \<in> set [activity_head, control_head]
      \<and> entitles sample_lib sample_target [''send_input''] utc_now head w"
  using authorization_sound[OF sample_authorized] sample_send_available by (simp add: del: set_simps) blast

theorem denial_reasons_exact_witness:
  "au_reason (decide_operation Op_send_input (winner_for control_head control_value) sample_control_facts) = None"
  using denial_reasons_exact[OF sample_authorized noon_aware] sample_send_available by simp

theorem winner_is_freshest_witness:
  "\<exists>head \<in> set [control_head]. wn_head (winner_for control_head control_value) = head
     \<and> dget head ''session_id'' = PStr ''s1''"
  using winner_is_freshest[OF sample_effective_head] by auto

lemma sample_control_candidate:
  "candidate_of sample_lib control_default control_head
     = Some (head_key_of control_default 1 (winner_for control_head control_value), winner_for control_head control_value)"
  by (rule candidate_of_examined(1)[OF sample_control_examined]) (simp_all add: control_head_def)

lemma sample_activity_ignored:
  "candidate_of sample_lib control_default activity_head = None" "\<not> crashing_head sample_lib control_default activity_head"
  "\<not> rejected_head sample_lib control_default activity_head"
  by (simp_all add: candidate_of_def crashing_head_def rejected_head_def head_error_def activity_head_def)

theorem head_order_irrelevant_witness:
  "effective_head sample_lib control_default [control_head, activity_head]
     = Inr (Some (winner_for control_head control_value), 0)"
proof (rule head_order_irrelevant)
  show "mset [activity_head, control_head] = mset [control_head, activity_head]" by simp
  show "w = w'" if "h \<in> set [activity_head, control_head]" "h' \<in> set [activity_head, control_head]"
    "candidate_of sample_lib control_default h = Some (k, w)" "candidate_of sample_lib control_default h' = Some (k, w')"
    for h h' k w w'
    using that sample_control_candidate sample_activity_ignored(1) by auto
  have "dget control_head ''family'' = PStr (family_name (hq_family control_default))" by (simp add: control_head_def)
  note c = candidate_of_examined(2,3)[OF sample_control_examined this]
  show "effective_head sample_lib control_default [activity_head, control_head]
     = Inr (Some (winner_for control_head control_value), 0)"
    using c sample_activity_ignored sample_control_candidate
    by (simp add: effective_head_Inr List.map_filter_simps)
qed

subsection \<open>A Helm session with a live lease\<close>

definition helm_facts :: pydict where
  "helm_facts = [(''catalog'', PDict [(''provider'', PStr ''codex''), (''cwd'', PStr ''/work'')]),
     (''latest_run'', PDict [(''id'', PStr ''r1'')]),
     (''connections'', PList [PDict [(''run_id'', PStr ''r1''), (''adapter_connection_id'', PStr ''c1''),
        (''lease_generation'', PStr ''g1''), (''acquisition_kind'', PStr ''spawned_control'')]])]"

lemma helm_durable:
  "active_run_id helm_facts = Some ''r1''" "bound_control_coordinates helm_facts = [(''r1'', ''c1'', ''g1'')]"
  "project_mode helm_facts = Mode_helm" "project_launch helm_facts = None"
  "control_coordinate control_value = (''r1'', ''c1'', ''g1'')"
  "py_text (dget control_value ''run_id'') = Some ''r1''" "py_text (dget activity_value ''run_id'') = Some ''r1''"
  by code_simp+

lemma other_family:
  assumes "dget h ''family'' \<noteq> PStr (family_name (hq_family q))"
  shows "candidate_of lib q h = None" "\<not> crashing_head lib q h" "\<not> rejected_head lib q h"
  using assms by (simp_all add: candidate_of_def crashing_head_def rejected_head_def head_error_def)

lemma sample_family [simp]:
  "dget control_head ''family'' = PStr ''control''" "dget activity_head ''family'' = PStr ''activity''"
  "dget continuation_head ''family'' = PStr ''continuation''"
  by (simp_all add: control_head_def activity_head_def continuation_head_def)

lemma helm_effective:
  "effective_head sample_lib (activity_query ''s1'' helm_facts utc_noon) [activity_head, control_head]
     = Inr (Some (winner_for activity_head activity_value), 0)"
  "effective_head sample_lib (control_query ''s1'' helm_facts utc_noon) [activity_head, control_head]
     = Inr (Some (winner_for control_head control_value), 0)"
proof -
  let ?a = "activity_query ''s1'' helm_facts utc_noon" and ?c = "control_query ''s1'' helm_facts utc_noon"
  have "hq_allowed ?a = None" by (simp add: activity_query_def default_query_def)
  then have a: "examine_head sample_lib ?a activity_head = Inr (1, winner_for activity_head activity_value)"
    by (intro sample_examined(2)) (simp_all add: bound_query_def helm_durable)
  have c: "examine_head sample_lib ?c control_head = Inr (1, winner_for control_head control_value)"
    by (intro sample_examined(1)) (simp_all add: bound_query_def helm_durable)
  show "effective_head sample_lib ?a [activity_head, control_head] = Inr (Some (winner_for activity_head activity_value), 0)"
    using candidate_of_examined[OF a] other_family[of control_head ?a]
    by (simp add: effective_head_Inr List.map_filter_simps)
  show "effective_head sample_lib ?c [activity_head, control_head] = Inr (Some (winner_for control_head control_value), 0)"
    using candidate_of_examined[OF c] other_family[of activity_head ?c]
    by (simp add: effective_head_Inr List.map_filter_simps)
qed

definition helm_shadow :: shadow_projection where
  "helm_shadow = \<lparr>sp_commit_seq = 3, sp_mode = Mode_helm, sp_disposition = open_disposition, sp_launch = None,
     sp_run = Some (mk_run (Some ''r1'') Run_running None),
     sp_activity = project_activity (Some (winner_for activity_head activity_value)) utc_noon,
     sp_control = Some sample_control_facts, sp_control_run_id = Some ''r1'',
     sp_fact_sources = List.map_filter id [head_diagnostic_of Fam_activity (Some (winner_for activity_head activity_value)),
        head_diagnostic_of Fam_control (Some (winner_for control_head control_value))],
     sp_rejected_heads = 0, sp_rejected_activity_heads = 0, sp_rejected_control_heads = 0\<rparr>"

lemma helm_shadow_projected:
  "project_shadow_session_state_facts sample_lib ''s1'' 3 helm_facts [activity_head, control_head] [''send_input''] noon
     = Inr helm_shadow"
proof -
  have "project_disposition sample_lib helm_facts = Inr open_disposition"
    "project_run sample_lib helm_facts None = Inr (Some (mk_run (Some ''r1'') Run_running None))"
    by code_simp+
  then show ?thesis
    by (simp add: project_shadow_session_state_facts_def noon_aware helm_effective helm_durable sample_projected
        helm_shadow_def control_run_id_def Let_def)
qed

theorem shadow_activity_is_current_witness:
  "\<exists>utc_now head (w :: winner). aware_utc noon ''now'' = Inr utc_now \<and> head \<in> set [activity_head, control_head]
      \<and> dget head ''family'' = PStr ''activity'' \<and> utc_now < wn_valid_until w"
proof -
  have "map_of ACTIVITY_STATE (str_or_blank (dget activity_value ''kind'')) = Some Act_quiescent" by code_simp
  then have "af_state (sp_activity helm_shadow) \<noteq> Act_unknown"
    by (simp add: helm_shadow_def project_activity_def Let_def)
  from shadow_activity_is_current[OF helm_shadow_projected this] show ?thesis by blast
qed

theorem shadow_control_is_bound_witness:
  "\<exists>utc_now w. aware_utc noon ''now'' = Inr utc_now \<and>
     control_backed sample_lib ''s1'' helm_facts [activity_head, control_head] utc_now sample_control_facts w"
  using shadow_control_is_bound[OF helm_shadow_projected] by (simp add: helm_shadow_def)

definition quiet_transcript :: transcript_facts where
  "quiet_transcript = \<lparr>tf_convergence = Tr_current, tf_source_revision = None, tf_durable_revision = None,
     tf_render_revision = None, tf_last_append_at = None, tf_searchable = True, tf_live_observation = False\<rparr>"

definition online_host :: host_facts where "online_host = \<lparr>hf_state = Host_online, hf_observed_at = None\<rparr>"

lemma served_exists:
  assumes "project_shadow_session_state_facts lib sid seq facts heads supported now = Inr sp"
    and "aware_utc now ''now'' = Inr utc_now"
    and "served_resume lib sid facts sp host heads supported utc_now = Inr resume"
    and "served_control (sp_control sp) (sp_mode sp) facts supported resume = Inr control"
    and "dget (mapping_of (dget facts ''catalog'')) ''last_console_result_at'' = PNone"
    and "dget (mapping_of (dget facts ''catalog'')) ''last_read_at'' = PNone"
  shows "\<exists>sf. project_served_session_state_facts lib sid seq facts heads supported interaction transcript host now = Inr sf
     \<and> sf_mode sf = sp_mode sp \<and> sf_control sf = control \<and> sf_run sf = sp_run sp \<and> sf_activity sf = sp_activity sp"
  using assms
  by (simp add: project_served_session_state_facts_def optional_wire_datetime_def assemble_session_state_facts_def Let_def)

lemma helm_served_control:
  "\<exists>c. served_control (sp_control helm_shadow) (sp_mode helm_shadow) helm_facts [''send_input''] (unavailable ''unsupported'') = Inr c
     \<and> aa_state (operation_action Op_send_input (cf_actions c)) = Available"
proof -
  have "iter_or_empty (dget helm_facts ''connections'') = Inr [PDict [(''run_id'', PStr ''r1''),
        (''adapter_connection_id'', PStr ''c1''), (''lease_generation'', PStr ''g1''),
        (''acquisition_kind'', PStr ''spawned_control'')]]"
    by code_simp
  then show ?thesis
    using sample_send_available
    by (simp add: served_control_def helm_shadow_def durable_action_availability_def control_plane_for_observation_def Let_def)
qed

theorem served_control_needs_live_lease_witness:
  "\<exists>sf utc_now w. project_served_session_state_facts sample_lib ''s1'' 3 helm_facts [activity_head, control_head]
       [''send_input''] None quiet_transcript online_host noon = Inr sf
     \<and> control_backed sample_lib ''s1'' helm_facts [activity_head, control_head] utc_now (sf_control sf) w"
proof -
  have "served_resume sample_lib ''s1'' helm_facts helm_shadow online_host [activity_head, control_head] [''send_input''] utc_noon
      = Inr (unavailable ''unsupported'')"
    by (simp add: served_resume_def resume_action_availability_def helm_shadow_def Let_def)
  moreover obtain c where "served_control (sp_control helm_shadow) (sp_mode helm_shadow) helm_facts [''send_input'']
      (unavailable ''unsupported'') = Inr c" and c: "aa_state (operation_action Op_send_input (cf_actions c)) = Available"
    using helm_served_control by blast
  moreover have "dget (mapping_of (dget helm_facts ''catalog'')) ''last_console_result_at'' = PNone"
    "dget (mapping_of (dget helm_facts ''catalog'')) ''last_read_at'' = PNone"
    by (simp_all add: helm_facts_def mapping_of_def)
  ultimately obtain sf where sf: "project_served_session_state_facts sample_lib ''s1'' 3 helm_facts
       [activity_head, control_head] [''send_input''] None quiet_transcript online_host noon = Inr sf"
      "sf_mode sf = Mode_helm" "sf_control sf = c"
    using served_exists[OF helm_shadow_projected noon_aware] by (force simp: helm_shadow_def)
  with c show ?thesis
    using served_control_needs_live_lease[OF sf(1), of Op_send_input] by fastforce
qed

subsection \<open>A Console session and a resumable session\<close>

definition bare_shadow :: "session_mode \<Rightarrow> run_facts option \<Rightarrow> shadow_projection" where
  "bare_shadow mode run = \<lparr>sp_commit_seq = 3, sp_mode = mode, sp_disposition = open_disposition, sp_launch = None,
     sp_run = run, sp_activity = unknown_activity, sp_control = None, sp_control_run_id = None, sp_fact_sources = [],
     sp_rejected_heads = 0, sp_rejected_activity_heads = 0, sp_rejected_control_heads = 0\<rparr>"

lemma bare_shadow_projected:
  assumes "\<forall>h \<in> set heads. dget h ''family'' = PStr ''continuation''"
    and "project_launch facts = None" "project_disposition lib facts = Inr open_disposition"
    and "project_run lib facts None = Inr run"
  shows "project_shadow_session_state_facts lib sid 3 facts heads supported noon = Inr (bare_shadow (project_mode facts) run)"
proof -
  have e: "effective_head lib q heads = Inr (None, 0)" if "hq_family q \<noteq> Fam_continuation" for q
  proof -
    have n: "dget h ''family'' \<noteq> PStr (family_name (hq_family q))" if "h \<in> set heads" for h
      using assms(1) that \<open>hq_family q \<noteq> Fam_continuation\<close> by (cases "hq_family q") auto
    have "List.map_filter (candidate_of lib q) heads = []"
      using other_family(1)[OF n] by (auto simp: List.map_filter_def filter_empty_conv)
    moreover have "list_all (\<lambda>h. \<not> crashing_head lib q h) heads" "filter (rejected_head lib q) heads = []"
      using other_family(2,3)[OF n] by (auto simp: list_all_iff filter_empty_conv)
    ultimately show ?thesis by (simp add: effective_head_Inr)
  qed
  show ?thesis
    using assms(2-4) e[of "activity_query sid facts utc_noon"] e[of "control_query sid facts utc_noon"]
    by (simp add: project_shadow_session_state_facts_def noon_aware Let_def bare_shadow_def project_activity_def
        project_control_def control_run_id_def head_diagnostic_of_def List.map_filter_simps)
qed

definition console_facts :: pydict where
  "console_facts = [(''catalog'', PDict [(''origin_kind'', PStr ''console'')]),
     (''console_control'', PDict (as_catalog_facts (project_console_control False True (PStr ''idle'') True True True)))]"

theorem console_serves_turn_actions_only_witness:
  "\<exists>sf. project_served_session_state_facts sample_lib ''s1'' 3 console_facts [] [''send_input''] None quiet_transcript
       online_host noon = Inr sf
     \<and> sf_mode sf = Mode_console \<and> aa_state (ca_send_input (cf_actions (sf_control sf))) = Unavailable
     \<and> aa_state (ca_start_turn (cf_actions (sf_control sf))) = Available"
proof -
  have mode: "project_mode console_facts = Mode_console" by code_simp
  have shadow: "project_shadow_session_state_facts sample_lib ''s1'' 3 console_facts [] [''send_input''] noon
      = Inr (bare_shadow Mode_console None)"
  proof (rule bare_shadow_projected[where facts = console_facts, unfolded mode])
    show "project_launch console_facts = None" "project_disposition sample_lib console_facts = Inr open_disposition"
      "project_run sample_lib console_facts None = Inr None"
      by code_simp+
  qed simp
  have "served_resume sample_lib ''s1'' console_facts (bare_shadow Mode_console None) online_host [] [''send_input''] utc_noon
      = Inr (unavailable ''not_helm'')"
    by (simp add: served_resume_def resume_action_availability_def bare_shadow_def Let_def)
  moreover have "\<exists>c. served_control (sp_control (bare_shadow Mode_console None)) (sp_mode (bare_shadow Mode_console None))
      console_facts [''send_input''] (unavailable ''not_helm'') = Inr c"
  proof -
    have "iter_or_empty (dget console_facts ''connections'') = Inr []" by code_simp
    then show ?thesis
      by (simp add: served_control_def bare_shadow_def durable_action_availability_def durable_control_plane_def Let_def)
  qed
  moreover have "dget (mapping_of (dget console_facts ''catalog'')) ''last_console_result_at'' = PNone"
    "dget (mapping_of (dget console_facts ''catalog'')) ''last_read_at'' = PNone"
    by (simp_all add: console_facts_def mapping_of_def)
  ultimately obtain sf where sf: "project_served_session_state_facts sample_lib ''s1'' 3 console_facts [] [''send_input'']
       None quiet_transcript online_host noon = Inr sf" "sf_mode sf = Mode_console"
    using served_exists[OF shadow noon_aware] by (force simp: bare_shadow_def)
  have "truthy (dget (mapping_of (dget console_facts ''console_control'')) ''can_start_turn'')" by code_simp
  with console_serves_turn_actions_only[OF sf] sf show ?thesis by (auto simp: Let_def)
qed

definition ended_facts :: pydict where
  "ended_facts = [(''catalog'', PDict [(''provider'', PStr ''codex''), (''cwd'', PStr ''/work'')]),
     (''readiness'', PDict [(''execution_lifetime'', PStr ''live_control'')]),
     (''latest_run'', PDict []), (''resume'', PDict [(''provider_session_id'', PStr ''p1'')])]"

lemma continuation_effective:
  "effective_head sample_lib (default_query ''s1'' Fam_continuation utc_noon) [continuation_head]
     = Inr (Some (winner_for continuation_head continuation_value), 0)"
proof -
  have "examine_head sample_lib (default_query ''s1'' Fam_continuation utc_noon) continuation_head
      = Inr (1, winner_for continuation_head continuation_value)"
    by (rule sample_examined(3)) simp_all
  from candidate_of_examined[OF this] show ?thesis by (simp add: effective_head_Inr List.map_filter_simps)
qed

theorem served_resume_needs_contract_witness:
  "\<exists>sf. project_served_session_state_facts sample_lib ''s1'' 3 ended_facts [continuation_head] [''resume''] None
       quiet_transcript online_host noon = Inr sf
     \<and> sf_mode sf = Mode_helm \<and> ''resume'' \<in> set [''resume''] \<and> hf_state online_host = Host_online"
proof -
  have mode: "project_mode ended_facts = Mode_helm" by code_simp
  have shadow: "project_shadow_session_state_facts sample_lib ''s1'' 3 ended_facts [continuation_head] [''resume''] noon
      = Inr (bare_shadow Mode_helm None)"
  proof (rule bare_shadow_projected[where facts = ended_facts, unfolded mode])
    show "project_launch ended_facts = None" "project_disposition sample_lib ended_facts = Inr open_disposition"
      "project_run sample_lib ended_facts None = Inr None"
      by code_simp+
  qed simp
  have "resume_contract (Some ''codex'') (Some ''/work'') (Some ''p1'') continuation_value = available"
    "py_text (dget (mapping_of (dget ended_facts ''catalog'')) ''provider'') = Some ''codex''"
    "py_text (dget (mapping_of (dget ended_facts ''catalog'')) ''cwd'') = Some ''/work''"
    "py_text (dget (mapping_of (dget ended_facts ''resume'')) ''provider_session_id'') = Some ''p1''"
    by code_simp+
  then have "served_resume sample_lib ''s1'' ended_facts (bare_shadow Mode_helm None) online_host [continuation_head]
      [''resume''] utc_noon = Inr available"
    by (simp add: served_resume_def resume_action_availability_def bare_shadow_def online_host_def
        continuation_effective Let_def)
  moreover have "\<exists>c. served_control (sp_control (bare_shadow Mode_helm None)) (sp_mode (bare_shadow Mode_helm None))
      ended_facts [''resume''] available = Inr c"
  proof -
    have "iter_or_empty (dget ended_facts ''connections'') = Inr []" by code_simp
    then show ?thesis
      by (simp add: served_control_def bare_shadow_def durable_action_availability_def durable_control_plane_def Let_def)
  qed
  then obtain c where c: "served_control (sp_control (bare_shadow Mode_helm None)) (sp_mode (bare_shadow Mode_helm None))
      ended_facts [''resume''] available = Inr c" by blast
  moreover have "dget (mapping_of (dget ended_facts ''catalog'')) ''last_console_result_at'' = PNone"
    "dget (mapping_of (dget ended_facts ''catalog'')) ''last_read_at'' = PNone"
    by (simp_all add: ended_facts_def mapping_of_def)
  ultimately obtain sf where sf: "project_served_session_state_facts sample_lib ''s1'' 3 ended_facts [continuation_head]
       [''resume''] None quiet_transcript online_host noon = Inr sf" "sf_control sf = c"
    using served_exists[OF shadow noon_aware] by (force simp: bare_shadow_def)
  moreover have "aa_state (ca_resume (cf_actions (sf_control sf))) = Available"
    using served_control_resume[OF c] sf(2) by (simp add: available_def)
  ultimately show ?thesis using served_resume_needs_contract[OF sf(1)] by blast
qed

end
