(* ===== verification/Py_Store.thy ===== *)
theory Py_Store
  imports Session_Runtime Machine_Evidence
begin

text \<open>
  Vocabulary of the services that write through the ORM: reading one row of a table, updating the rows
  a filter selects, timestamps as they are written, Python's equality on JSON values and datetimes, and
  the conversions (\<open>int()\<close>, \<open>_clean_str\<close>, \<open>_bool\<close>) the runtime services share.
\<close>

subsection \<open>Tables\<close>

text \<open>
  A table is the list of its rows in insertion order. \<open>query.first()\<close> is \<open>List.find\<close>,
  \<open>query.one_or_none()\<close> raises when the filter selects two rows, and assigning to the rows a loop
  reads is an update in place.
\<close>

definition one_or_none :: "('r \<Rightarrow> bool) \<Rightarrow> 'r list \<Rightarrow> 'r option res" where
  "one_or_none P rows = (case filter P rows of
       [] \<Rightarrow> Inr None
     | [r] \<Rightarrow> Inr (Some r)
     | _ \<Rightarrow> Inl (MultipleResultsFound ''Multiple rows were found when one or none was required''))"

definition update_where :: "('r \<Rightarrow> bool) \<Rightarrow> ('r \<Rightarrow> 'r) \<Rightarrow> 'r list \<Rightarrow> 'r list" where
  "update_where P f rows = map (\<lambda>r. if P r then f r else r) rows"

lemma one_or_none_Some:
  "one_or_none P rows = Inr (Some r) \<Longrightarrow> r \<in> set rows \<and> P r \<and> (\<forall>x \<in> set rows. P x \<longrightarrow> x = r)"
proof -
  assume "one_or_none P rows = Inr (Some r)"
  then have "filter P rows = [r]"
    by (auto simp: one_or_none_def split: list.splits)
  then have "set (filter P rows) = {r}" by simp
  then show ?thesis by auto
qed

lemma one_or_none_None: "one_or_none P rows = Inr None \<Longrightarrow> x \<in> set rows \<Longrightarrow> \<not> P x"
  by (auto simp: one_or_none_def filter_empty_conv split: list.splits)

lemma one_or_none_distinct:
  assumes "distinct (map k rows)" and "\<And>x. P x \<Longrightarrow> k x = c"
  shows "one_or_none P rows = Inr (find P rows)"
  using assms(1)
proof (induction rows)
  case Nil
  then show ?case by (simp add: one_or_none_def)
next
  case (Cons x xs)
  show ?case
  proof (cases "P x")
    case True
    have "filter P xs = []"
      using Cons.prems assms(2) True by (force simp: filter_empty_conv)
    with True show ?thesis by (simp add: one_or_none_def)
  next
    case False
    then show ?thesis using Cons by (simp add: one_or_none_def)
  qed
qed

lemma set_update_where:
  "set (update_where P f rows) = f ` {r \<in> set rows. P r} \<union> {r \<in> set rows. \<not> P r}"
  by (auto simp: update_where_def)

lemma update_where_mem: "r \<in> set (update_where P f rows) \<Longrightarrow> (\<exists>x \<in> set rows. P x \<and> r = f x) \<or> (r \<in> set rows \<and> \<not> P r)"
  by (auto simp: update_where_def split: if_splits)

lemma length_update_where [simp]: "length (update_where P f rows) = length rows"
  by (simp add: update_where_def)

lemma map_update_where: "(\<And>r. P r \<Longrightarrow> k (f r) = k r) \<Longrightarrow> map k (update_where P f rows) = map k rows"
  by (simp add: update_where_def)

lemma update_where_id: "(\<And>r. r \<in> set rows \<Longrightarrow> \<not> P r) \<Longrightarrow> update_where P f rows = rows"
  by (auto simp: update_where_def intro: map_idI)

lemma find_mem: "find P rows = Some r \<Longrightarrow> r \<in> set rows \<and> P r"
  by (auto simp: find_Some_iff)

lemma find_snoc: "find P (xs @ [y]) = (case find P xs of Some x \<Rightarrow> Some x | None \<Rightarrow> if P y then Some y else None)"
  by (induction xs) auto

lemma find_update_other:
  "(\<And>r. P r \<Longrightarrow> \<not> Q r) \<Longrightarrow> (\<And>r. P r \<Longrightarrow> \<not> Q (f r)) \<Longrightarrow> find Q (update_where P f rows) = find Q rows"
  by (induction rows) (auto simp: update_where_def)

lemma find_update_same:
  "(\<And>r. Q r \<Longrightarrow> Q (f r)) \<Longrightarrow> find Q (update_where Q f rows) = map_option f (find Q rows)"
  by (induction rows) (auto simp: update_where_def)

subsection \<open>Timestamps as they are written\<close>

text \<open>A normalized timestamp is written as an aware UTC value.\<close>

definition utc_dt :: "instant \<Rightarrow> pydatetime" where
  "utc_dt t = DT (utc_us t) (Some 0)"

lemma normalize_utc_dt [simp]: "normalize_utc (Some (utc_dt t)) = Some t"
  by (simp add: normalize_utc_def utc_dt_def aware_us_def)

lemma normalize_None [simp]: "normalize_utc None = None"
  by (simp add: normalize_utc_def)

lemma normalize_map_utc [simp]: "normalize_utc (map_option utc_dt v) = v"
  by (cases v) simp_all

text \<open>\<open>a == b\<close> on datetimes: a naive and an aware value are never equal.\<close>

fun dt_eq :: "pydatetime \<Rightarrow> pydatetime \<Rightarrow> bool" where
  "dt_eq (DT a None) (DT b None) = (a = b)"
| "dt_eq (DT a (Some x)) (DT b (Some y)) = (a - x = b - y)"
| "dt_eq _ _ = False"

definition opt_eq :: "('a \<Rightarrow> 'a \<Rightarrow> bool) \<Rightarrow> 'a option \<Rightarrow> 'a option \<Rightarrow> bool" where
  "opt_eq eq a b = (case (a, b) of (None, None) \<Rightarrow> True | (Some x, Some y) \<Rightarrow> eq x y | _ \<Rightarrow> False)"

lemma dt_eq_refl [simp]: "dt_eq d d"
  by (cases d; cases "dt_tz d") auto

lemma dt_eq_utc [simp]: "dt_eq (utc_dt a) (utc_dt b) \<longleftrightarrow> a = b"
  by (simp add: utc_dt_def instant.expand) (metis instant.expand)

subsection \<open>Python equality and conversions\<close>

text \<open>
  \<open>a == b\<close> on JSON values: numbers compare across their types, dictionaries ignore the order of
  their items.
\<close>

function (sequential) py_eq :: "pyval \<Rightarrow> pyval \<Rightarrow> bool" where
  "py_eq PNone PNone = True"
| "py_eq (PBool a) v = eq_int v (if a then 1 else 0)"
| "py_eq (PInt a) v = eq_int v a"
| "py_eq (PFloat r) (PFloat r') = (r \<noteq> ''nan'' \<and> (r = r' \<or> (\<not> truthy (PFloat r) \<and> \<not> truthy (PFloat r'))))"
| "py_eq (PFloat r) (PInt a) = eq_int (PFloat r) a"
| "py_eq (PFloat r) (PBool a) = eq_int (PFloat r) (if a then 1 else 0)"
| "py_eq (PStr a) (PStr b) = (a = b)"
| "py_eq (PList xs) (PList ys) = (length xs = length ys \<and> list_all (\<lambda>(x, y). py_eq x y) (zip xs ys))"
| "py_eq (PDict d) (PDict e) = (length d = length e \<and>
     list_all (\<lambda>(k, v). case map_of e k of None \<Rightarrow> False | Some w \<Rightarrow> py_eq v w) d)"
| "py_eq (PDatetime a) (PDatetime b) = dt_eq a b"
| "py_eq _ _ = False"
  by pat_completeness auto
termination
proof (relation "measure (\<lambda>(v, w). size v)", goal_cases)
  case (2 xs ys z x y)
  then have "x \<in> set xs" by (auto dest: set_zip_leftD)
  then have "size x \<le> size_list size xs" by (rule size_list_estimation') simp
  then show ?case by simp
next
  case (3 d e z k v w)
  then have "(k, v) \<in> set d" by simp
  then have "size v \<le> size_list (size_prod (\<lambda>_. 0) size) d" by (rule size_list_estimation') simp
  then show ?case by simp
qed simp

definition dict_eq :: "pydict \<Rightarrow> pydict \<Rightarrow> bool" where
  "dict_eq d e = py_eq (PDict d) (PDict e)"

text \<open>\<open>_clean_str\<close>: only \<open>None\<close> and blank text are absent, \<open>0\<close> and \<open>False\<close> are not.\<close>

definition clean_str :: "pyval \<Rightarrow> string option" where
  "clean_str v = (case v of PNone \<Rightarrow> None | _ \<Rightarrow> clean (Some (py_str v)))"

lemma clean_str_PNone [simp]: "clean_str PNone = None"
  by (simp add: clean_str_def)

lemma clean_str_PStr [simp]: "clean_str (PStr s) = clean (Some s)"
  by (simp add: clean_str_def py_str_def)

lemma clean_str_opt [simp]: "clean_str (opt_str v) = clean v"
  by (cases v) simp_all

text \<open>\<open>_bool\<close>\<close>

definition py_bool :: "pyval \<Rightarrow> bool" where
  "py_bool v = (case v of
       PBool b \<Rightarrow> b
     | PStr s \<Rightarrow> py_lower (py_strip s) \<in> {''1'', ''true'', ''yes'', ''y'', ''on''}
     | _ \<Rightarrow> truthy v)"

text \<open>\<open>_mapping\<close> and \<open>_json_obj\<close>: an empty dictionary is stored as NULL.\<close>

definition py_mapping :: "pyval \<Rightarrow> pydict" where
  "py_mapping v = (case v of PDict d \<Rightarrow> d | _ \<Rightarrow> [])"

definition json_obj :: "pydict \<Rightarrow> pydict option" where
  "json_obj d = (if d = [] then None else Some d)"

definition startswith :: "string \<Rightarrow> string \<Rightarrow> bool" where
  "startswith p s \<longleftrightarrow> take (length p) s = p"

text \<open>
  \<open>int(text)\<close>: surrounding whitespace, a sign, then at most 4300 digits with single underscores
  between them.
\<close>

fun digits_value :: "nat \<Rightarrow> string \<Rightarrow> nat option" where
  "digits_value acc [] = Some acc"
| "digits_value acc (c # s) =
     (if is_digit c then digits_value (acc * 10 + (of_char c - 48)) s
      else if c = CHR ''_'' \<and> s \<noteq> [] \<and> is_digit (hd s) then digits_value acc s
      else None)"

definition nat_of_text :: "string \<Rightarrow> nat option" where
  "nat_of_text s = (if s \<noteq> [] \<and> is_digit (hd s) \<and> length (filter is_digit s) \<le> 4300
                    then digits_value 0 s else None)"

definition int_of_text :: "string \<Rightarrow> int option" where
  "int_of_text text = (case py_strip text of
       [] \<Rightarrow> None
     | c # s \<Rightarrow>
       (if c = CHR ''-'' then map_option (\<lambda>n. - int n) (nat_of_text s)
        else if c = CHR ''+'' then map_option int (nat_of_text s)
        else map_option int (nat_of_text (c # s))))"

end
