(* ===== verification/Pause_Requests.thy ===== *)
theory Pause_Requests
  imports Py_Store
begin

text \<open>
  \<open>services/session_pause_requests.py\<close>: the durable table of provider questions that wait for an
  answer. A row is announced by a \<open>pause_request\<close> event (\<open>upsert_pause_request\<close>), finished by a
  resolution, by a newer question of the same runtime, by the provider continuing or by the session
  ending; the reads serve what the user can still answer.
\<close>

definition PENDING_STATUS :: string where "PENDING_STATUS = ''pending''"

definition TERMINAL_STATUSES :: "string list" where
  "TERMINAL_STATUSES = [''resolved'', ''rejected'', ''failed'', ''expired'']"

definition PAUSE_KIND_STRUCTURED_QUESTION :: string where "PAUSE_KIND_STRUCTURED_QUESTION = ''structured_question''"
definition PAUSE_KIND_PERMISSION_PROMPT :: string where "PAUSE_KIND_PERMISSION_PROMPT = ''permission_prompt''"
definition PAUSE_KIND_PLAN_APPROVAL :: string where "PAUSE_KIND_PLAN_APPROVAL = ''plan_approval''"

definition QUESTION_PAYLOAD_KEYS :: "string list" where
  "QUESTION_PAYLOAD_KEYS =
     [''questions'', ''question'', ''prompt'', ''input'', ''schema'', ''plan'', ''steps'', ''proposal'']"

definition PULL_REPLY_TRANSPORTS :: "string list" where
  "PULL_REPLY_TRANSPORTS = [''claude_pretooluse_pull'', ''cursor_permission_poll'']"

subsection \<open>Runtime events\<close>

text \<open>
  \<open>RuntimeEventIngest\<close> of \<open>services/session_runtime.py\<close>, which both this module and the runtime
  reducer apply. UUIDs are their canonical text.
\<close>

datatype event_kind = Phase_signal | Progress_signal | Terminal_signal | Binding_signal
  | Pause_request | Pause_resolution

record runtime_event =
  ev_runtime_key :: string
  ev_session_id :: "string option"
  ev_thread_id :: "string option"
  ev_run_id :: "string option"
  ev_provider :: string
  ev_device_id :: "string option"
  ev_source :: string
  ev_kind :: event_kind
  ev_phase :: "string option"
  ev_tool_name :: "string option"
  ev_occurred_at :: pydatetime
  ev_freshness_ms :: "int option"
  ev_dedupe_key :: string
  ev_payload :: pydict

text \<open>\<open>normalize_utc(event.occurred_at)\<close>\<close>

definition event_at :: "runtime_event \<Rightarrow> instant" where
  "event_at ev = UTC (aware_us (ev_occurred_at ev))"

subsection \<open>The table\<close>

text \<open>
  The columns of \<open>SessionPauseRequest\<close>; \<open>updated_at\<close>, which the database maintains and no code of the
  module reads, is left out.
\<close>

record pause_row =
  pr_id :: string
  pr_session_id :: string
  pr_runtime_key :: string
  pr_provider :: string
  pr_request_key :: string
  pr_provider_request_id :: "string option"
  pr_provider_ref :: "pydict option"
  pr_kind :: string
  pr_status :: string
  pr_tool_name :: "string option"
  pr_title :: "string option"
  pr_summary :: "string option"
  pr_request_payload :: "pydict option"
  pr_response_payload :: "pydict option"
  pr_response_text :: "string option"
  pr_can_respond :: bool
  pr_occurred_at :: "pydatetime option"
  pr_last_seen_at :: "pydatetime option"
  pr_resolved_at :: "pydatetime option"
  pr_expires_at :: "pydatetime option"
  pr_created_at :: instant

text \<open>What the process and the database supply: the clock and the random identifiers of new rows.\<close>

record orm_env =
  oe_now :: instant
  oe_uuid4 :: "nat \<Rightarrow> string"

subsection \<open>Identity and payload of a request\<close>

definition clean_or_default :: "string option \<Rightarrow> string \<Rightarrow> string" where
  "clean_or_default v d = (case v of None \<Rightarrow> d | Some s \<Rightarrow> s)"

definition make_pause_request_key :: "string \<Rightarrow> string \<Rightarrow> string option \<Rightarrow> string option \<Rightarrow> string" where
  "make_pause_request_key provider runtime_key provider_request_id fallback =
     clean_or_default (clean (Some provider)) ''unknown'' @ '':'' @
     clean_or_default (clean (Some runtime_key)) ''unknown'' @ '':'' @
     clean_or_default (option_or (clean provider_request_id) (clean fallback)) ''unknown''"

definition event_provider_request_id :: "pydict \<Rightarrow> string option" where
  "event_provider_request_id payload =
     clean_str (py_or (dget payload ''provider_request_id'') (dget payload ''request_id''))"

definition pause_runtime_request_key :: "runtime_event \<Rightarrow> string" where
  "pause_runtime_request_key ev =
     (let payload = ev_payload ev;
          provider = clean_or_default (clean (Some (ev_provider ev))) ''unknown'';
          runtime_key = clean_or_default (clean (Some (ev_runtime_key ev))) []
      in case clean_str (dget payload ''request_key'') of
           Some k \<Rightarrow> k
         | None \<Rightarrow> make_pause_request_key provider runtime_key (event_provider_request_id payload)
                     (clean (Some (ev_dedupe_key ev))))"

definition request_payload :: "pydict \<Rightarrow> pydict" where
  "request_payload payload =
     (let explicit = py_mapping (py_or (dget payload ''request_payload'') (dget payload ''request_payload_json'')) in
      if explicit \<noteq> [] then explicit
      else if clean_str (dget payload ''kind'') = Some PAUSE_KIND_PLAN_APPROVAL then
        (let plan = py_or (dget payload ''plan'') (py_or (dget payload ''proposal'')
                      (py_or (dget payload ''summary'') (dget payload ''message'')));
             question = clean_or_default (clean_str (py_or (dget payload ''question'')
                          (py_or (dget payload ''prompt'') plan))) ''Approve this plan?''
         in [(''questions'', PList [PDict [(''id'', PStr ''approval''), (''question'', PStr question),
               (''options'', PList [PDict [(''label'', PStr ''Approve''), (''value'', PStr ''approve'')],
                                    PDict [(''label'', PStr ''Reject''), (''value'', PStr ''reject'')]])]]),
             (''plan'', plan), (''steps'', dget payload ''steps'')])
      else List.map_filter (\<lambda>k. map_option (\<lambda>v. (k, v)) (map_of payload k)) QUESTION_PAYLOAD_KEYS)"

definition normalize_option :: "pyval \<Rightarrow> (string \<times> string option \<times> string option) option" where
  "normalize_option opt =
     (let (label, description, val) =
        (case opt of
           PDict d \<Rightarrow>
             (let label = clean_str (py_or (dget d ''label'') (py_or (dget d ''value'') (dget d ''text''))) in
              (label, clean_str (py_or (dget d ''description'') (dget d ''detail'')),
               clean_str (py_or (dget d ''value'') (opt_str label))))
         | _ \<Rightarrow> (clean_str opt, None, clean_str opt))
      in case label of None \<Rightarrow> None | Some l \<Rightarrow> Some (l, description, val))"

definition option_dict :: "string \<times> string option \<times> string option \<Rightarrow> pyval" where
  "option_dict p = (case p of (l, d, v) \<Rightarrow>
     PDict [(''label'', PStr l), (''description'', opt_str d), (''value'', opt_str v)])"

definition question_options :: "pydict \<Rightarrow> pyval list" where
  "question_options item =
     (case (case dget item ''options'' of PList xs \<Rightarrow> PList xs | _ \<Rightarrow> dget item ''choices'') of
        PList xs \<Rightarrow> map option_dict (List.map_filter normalize_option xs)
      | _ \<Rightarrow> [])"

definition normalize_question :: "nat \<Rightarrow> pydict \<Rightarrow> pyval" where
  "normalize_question idx item = PDict
     [(''id'', PStr (clean_or_default
         (clean_str (py_or (dget item ''id'') (py_or (dget item ''name'') (dget item ''key''))))
         (''question_'' @ dec_nat (idx + 1)))),
      (''header'', opt_str (clean_str (py_or (dget item ''header'') (dget item ''title'')))),
      (''question'', PStr (clean_or_default
         (clean_str (py_or (dget item ''question'') (py_or (dget item ''prompt'') (dget item ''label''))))
         ''Answer required'')),
      (''multi_select'', PBool (py_bool (case map_of item ''multi_select'' of
          Some v \<Rightarrow> v | None \<Rightarrow> dget item ''multiSelect''))),
      (''options'', PList (question_options item))]"

definition normalize_questions :: "pydict \<Rightarrow> pyval list" where
  "normalize_questions payload =
     (let raw = (if dget payload ''questions'' = PNone \<and>
                    list_ex (\<lambda>k. map_of payload k \<noteq> None) [''question'', ''prompt'', ''options'']
                 then PList [PDict payload] else dget payload ''questions'')
      in case raw of
           PList items \<Rightarrow> List.map_filter
             (\<lambda>(idx, item). case item of PDict d \<Rightarrow> Some (normalize_question idx d) | _ \<Rightarrow> None)
             (enumerate 0 items)
         | _ \<Rightarrow> [])"

definition datetime_payload :: "pylib \<Rightarrow> pyval \<Rightarrow> instant option" where
  "datetime_payload lib v = (case v of
       PDatetime d \<Rightarrow> normalize_utc (Some d)
     | PStr s \<Rightarrow>
       (if py_strip s = [] then None
        else case lib_fromisoformat lib (py_replace ''Z'' ''+00:00'' s) of
               Inl _ \<Rightarrow> None | Inr d \<Rightarrow> normalize_utc (Some d))
     | _ \<Rightarrow> None)"

definition terminal_status :: "string \<Rightarrow> string" where
  "terminal_status status =
     (let cleaned = clean_or_default (clean (Some status)) ''resolved'' in
      if cleaned = PENDING_STATUS then ''resolved''
      else if cleaned \<in> set TERMINAL_STATUSES then cleaned else ''resolved'')"

subsection \<open>Announcing a request\<close>

text \<open>The keyword arguments of \<open>upsert_pause_request\<close>.\<close>

record pause_args =
  pa_session_id :: string
  pa_runtime_key :: string
  pa_provider :: string
  pa_request_key :: string
  pa_occurred_at :: instant
  pa_provider_request_id :: "string option"
  pa_provider_ref :: pydict
  pa_kind :: string
  pa_tool_name :: "string option"
  pa_title :: "string option"
  pa_summary :: "string option"
  pa_request_payload :: pydict
  pa_can_respond :: bool
  pa_expires_at :: "instant option"

definition new_pause_row :: "orm_env \<Rightarrow> nat \<Rightarrow> pause_args \<Rightarrow> pause_row" where
  "new_pause_row env n a =
     \<lparr>pr_id = oe_uuid4 env n, pr_session_id = pa_session_id a, pr_runtime_key = pa_runtime_key a,
      pr_provider = clean_or_default (clean (Some (pa_provider a))) ''unknown'',
      pr_request_key = pa_request_key a,
      pr_provider_request_id = clean (pa_provider_request_id a),
      pr_provider_ref = json_obj (pa_provider_ref a),
      pr_kind = clean_or_default (clean (Some (pa_kind a))) PAUSE_KIND_STRUCTURED_QUESTION,
      pr_status = PENDING_STATUS,
      pr_tool_name = clean (pa_tool_name a), pr_title = clean (pa_title a), pr_summary = clean (pa_summary a),
      pr_request_payload = json_obj (pa_request_payload a),
      pr_response_payload = None, pr_response_text = None,
      pr_can_respond = pa_can_respond a,
      pr_occurred_at = Some (utc_dt (pa_occurred_at a)), pr_last_seen_at = Some (utc_dt (pa_occurred_at a)),
      pr_resolved_at = None, pr_expires_at = map_option utc_dt (pa_expires_at a),
      pr_created_at = oe_now env\<rparr>"

text \<open>\<open>if getattr(row, field) != value: setattr(row, field, value); changed = True\<close>\<close>

definition keep_equal :: "('a \<Rightarrow> 'a \<Rightarrow> bool) \<Rightarrow> 'a \<Rightarrow> 'a \<Rightarrow> 'a" where
  "keep_equal eq old new = (if eq old new then old else new)"

definition refreshed_occurred_at :: "pause_row \<Rightarrow> pause_args \<Rightarrow> pydatetime option" where
  "refreshed_occurred_at row a =
     (case normalize_utc (pr_occurred_at row) of
        None \<Rightarrow> Some (utc_dt (pa_occurred_at a))
      | Some t \<Rightarrow> (if pa_occurred_at a < t then Some (utc_dt (pa_occurred_at a)) else pr_occurred_at row))"

definition refresh_pause_row :: "pause_args \<Rightarrow> pause_row \<Rightarrow> pause_row" where
  "refresh_pause_row a row =
     row\<lparr>pr_session_id := pa_session_id a, pr_runtime_key := pa_runtime_key a,
         pr_provider := clean_or_default (clean (Some (pa_provider a))) ''unknown'',
         pr_provider_request_id := clean (pa_provider_request_id a),
         pr_provider_ref := keep_equal (opt_eq dict_eq) (pr_provider_ref row) (json_obj (pa_provider_ref a)),
         pr_kind := clean_or_default (clean (Some (pa_kind a))) PAUSE_KIND_STRUCTURED_QUESTION,
         pr_status := PENDING_STATUS,
         pr_tool_name := clean (pa_tool_name a), pr_title := clean (pa_title a),
         pr_summary := clean (pa_summary a),
         pr_request_payload := keep_equal (opt_eq dict_eq) (pr_request_payload row) (json_obj (pa_request_payload a)),
         pr_can_respond := pa_can_respond a,
         pr_last_seen_at := keep_equal (opt_eq dt_eq) (pr_last_seen_at row) (Some (utc_dt (pa_occurred_at a))),
         pr_resolved_at := None,
         pr_expires_at := keep_equal (opt_eq dt_eq) (pr_expires_at row) (map_option utc_dt (pa_expires_at a)),
         pr_occurred_at := keep_equal (opt_eq dt_eq) (pr_occurred_at row) (refreshed_occurred_at row a)\<rparr>"

definition upsert_pause_request ::
  "orm_env \<Rightarrow> pause_args \<Rightarrow> pause_row list \<Rightarrow> (pause_row \<times> bool) \<times> pause_row list" where
  "upsert_pause_request env a rows =
     (case find (\<lambda>r. pr_request_key r = pa_request_key a) rows of
        None \<Rightarrow> (let row = new_pause_row env (length rows) a in ((row, True), rows @ [row]))
      | Some row \<Rightarrow>
          (let row' = refresh_pause_row a row in
           ((row', row' \<noteq> row),
            update_where (\<lambda>r. pr_request_key r = pa_request_key a) (refresh_pause_row a) rows)))"

subsection \<open>Finishing a request\<close>

definition expired_decision :: pydict where
  "expired_decision = [(''permissionDecision'', PStr ''deny''),
     (''permissionDecisionReason'', PStr ''Approval deadline expired'')]"

definition past_deadline :: "pause_row \<Rightarrow> instant \<Rightarrow> bool" where
  "past_deadline row t = (case normalize_utc (pr_expires_at row) of None \<Rightarrow> False | Some e \<Rightarrow> e \<le> t)"

text \<open>The arguments of \<open>resolve_pause_request\<close>: how it finds the row, and what it writes.\<close>

record resolve_args =
  ra_pause_request_id :: "string option"
  ra_request_key :: "string option"
  ra_runtime_key :: "string option"
  ra_provider_request_id :: "string option"
  ra_status :: string
  ra_occurred_at :: "instant option"
  ra_response_payload :: pydict
  ra_response_text :: "string option"

definition newest_pending :: "string \<Rightarrow> pause_row list \<Rightarrow> pause_row option" where
  "newest_pending runtime_key rows = max_by
     (\<lambda>r. (opt_us (normalize_utc (pr_occurred_at r)), utc_us (pr_created_at r)))
     (filter (\<lambda>r. pr_runtime_key r = runtime_key \<and> pr_status r = PENDING_STATUS) rows)"

definition select_pause_request :: "resolve_args \<Rightarrow> pause_row list \<Rightarrow> pause_row option" where
  "select_pause_request a rows =
     (case ra_pause_request_id a of
        Some i \<Rightarrow> find (\<lambda>r. pr_id r = i) rows
      | None \<Rightarrow>
        (case or_none (ra_request_key a) of
           Some k \<Rightarrow> find (\<lambda>r. pr_request_key r = k) rows
         | None \<Rightarrow>
           (case (or_none (ra_runtime_key a), or_none (ra_provider_request_id a)) of
              (Some k, Some p) \<Rightarrow> find (\<lambda>r. pr_runtime_key r = k \<and> pr_provider_request_id r = Some p) rows
            | (Some k, None) \<Rightarrow> newest_pending k rows
            | (None, _) \<Rightarrow> None)))"

definition finish_pause_row :: "resolve_args \<Rightarrow> instant \<Rightarrow> pause_row \<Rightarrow> pause_row" where
  "finish_pause_row a resolved_at row =
     (if past_deadline row resolved_at \<and> ra_status a \<noteq> ''expired'' then
        row\<lparr>pr_status := ''expired'', pr_resolved_at := Some (utc_dt resolved_at),
            pr_response_payload := Some expired_decision,
            pr_response_text := Some ''Approval deadline expired''\<rparr>
      else
        row\<lparr>pr_status := terminal_status (ra_status a), pr_resolved_at := Some (utc_dt resolved_at),
            pr_response_payload := json_obj (ra_response_payload a),
            pr_response_text := clean (ra_response_text a)\<rparr>)"

definition resolve_pause_request ::
  "orm_env \<Rightarrow> resolve_args \<Rightarrow> pause_row list \<Rightarrow> pause_row option \<times> pause_row list" where
  "resolve_pause_request env a rows =
     (case select_pause_request a rows of
        None \<Rightarrow> (None, rows)
      | Some row \<Rightarrow>
          (if pr_status row \<noteq> PENDING_STATUS then (Some row, rows)
           else let resolved_at = (case ra_occurred_at a of Some t \<Rightarrow> t | None \<Rightarrow> oe_now env);
                    row' = finish_pause_row a resolved_at row
                in (Some row', update_where (\<lambda>r. pr_id r = pr_id row) (\<lambda>_. row') rows)))"

text \<open>\<open>_finish_pending\<close> over a filter: every pending row it selects is finished.\<close>

definition finish_pending ::
  "(pause_row \<Rightarrow> bool) \<Rightarrow> string \<Rightarrow> instant \<Rightarrow> string option \<Rightarrow> pause_row list \<Rightarrow> nat \<times> pause_row list" where
  "finish_pending P status resolved_at response_text rows =
     (let sel = (\<lambda>r. pr_status r = PENDING_STATUS \<and> P r) in
      (length (filter sel rows),
       update_where sel (\<lambda>r. r\<lparr>pr_status := terminal_status status, pr_resolved_at := Some (utc_dt resolved_at),
         pr_response_text := (case or_none response_text of Some t \<Rightarrow> Some t | None \<Rightarrow> pr_response_text r)\<rparr>) rows))"

definition resolve_pending_pause_requests_for_runtime ::
  "string \<Rightarrow> string \<Rightarrow> instant \<Rightarrow> string option \<Rightarrow> pause_row list \<Rightarrow> nat \<times> pause_row list" where
  "resolve_pending_pause_requests_for_runtime runtime_key status occurred_at response_text =
     finish_pending (\<lambda>r. pr_runtime_key r = runtime_key) status occurred_at response_text"

definition expire_pending_pause_requests_for_session ::
  "string \<Rightarrow> instant \<Rightarrow> string option \<Rightarrow> pause_row list \<Rightarrow> nat \<times> pause_row list" where
  "expire_pending_pause_requests_for_session session_id occurred_at response_text =
     finish_pending (\<lambda>r. pr_session_id r = session_id) ''expired'' occurred_at response_text"

definition expire_pending_pause_requests_for_runtime ::
  "string \<Rightarrow> instant \<Rightarrow> string option \<Rightarrow> pause_row list \<Rightarrow> nat \<times> pause_row list" where
  "expire_pending_pause_requests_for_runtime runtime_key occurred_at response_text =
     finish_pending (\<lambda>r. pr_runtime_key r = runtime_key) ''expired'' occurred_at response_text"

definition supersede_runtime_requests_if_needed ::
  "string \<Rightarrow> string \<Rightarrow> instant \<Rightarrow> pause_row list \<Rightarrow> pause_row list" where
  "supersede_runtime_requests_if_needed runtime_key request_key occurred_at rows = update_where
     (\<lambda>r. pr_runtime_key r = runtime_key \<and> pr_status r = PENDING_STATUS \<and> pr_request_key r \<noteq> request_key)
     (\<lambda>r. r\<lparr>pr_status := ''resolved'', pr_resolved_at := Some (utc_dt occurred_at),
            pr_response_text := Some ''Superseded by a newer provider question.''\<rparr>) rows"

subsection \<open>Applying an event\<close>

definition announce_args :: "pylib \<Rightarrow> runtime_event \<Rightarrow> string \<Rightarrow> pause_args" where
  "announce_args lib ev session_id =
     (let payload = ev_payload ev in
      \<lparr>pa_session_id = session_id,
       pa_runtime_key = clean_or_default (clean (Some (ev_runtime_key ev))) [],
       pa_provider = clean_or_default (clean (Some (ev_provider ev))) ''unknown'',
       pa_request_key = pause_runtime_request_key ev,
       pa_occurred_at = event_at ev,
       pa_provider_request_id = event_provider_request_id payload,
       pa_provider_ref = py_mapping (py_or (dget payload ''provider_ref'') (dget payload ''provider_ref_json'')),
       pa_kind = clean_or_default (clean_str (dget payload ''kind'')) PAUSE_KIND_STRUCTURED_QUESTION,
       pa_tool_name = clean_str (py_or (dget payload ''tool_name'') (opt_str (ev_tool_name ev))),
       pa_title = clean_str (dget payload ''title''),
       pa_summary = clean_str (dget payload ''summary''),
       pa_request_payload = request_payload payload,
       pa_can_respond = py_bool (dget payload ''can_respond''),
       pa_expires_at = datetime_payload lib (dget payload ''expires_at'')\<rparr>)"

definition resolution_args :: "runtime_event \<Rightarrow> resolve_args" where
  "resolution_args ev =
     (let payload = ev_payload ev in
      \<lparr>ra_pause_request_id = None,
       ra_request_key = Some (pause_runtime_request_key ev),
       ra_runtime_key = Some (clean_or_default (clean (Some (ev_runtime_key ev))) []),
       ra_provider_request_id = event_provider_request_id payload,
       ra_status = clean_or_default (clean_str (dget payload ''status'')) ''resolved'',
       ra_occurred_at = Some (event_at ev),
       ra_response_payload = py_mapping (py_or (dget payload ''response_payload'') (dget payload ''response_payload_json'')),
       ra_response_text = clean_str (py_or (dget payload ''response_text'') (dget payload ''message''))\<rparr>)"

definition single_active :: "pydict \<Rightarrow> bool" where
  "single_active payload = py_bool (case map_of payload ''single_active'' of None \<Rightarrow> PBool True | Some v \<Rightarrow> v)"

text \<open>The \<open>pause_request\<close> branch for a session that exists.\<close>

definition announce_pause ::
  "pylib \<Rightarrow> orm_env \<Rightarrow> runtime_event \<Rightarrow> string \<Rightarrow> pause_row list \<Rightarrow> (pause_row \<times> bool) \<times> pause_row list" where
  "announce_pause lib env ev sid rows =
     (let a = announce_args lib ev sid in
      upsert_pause_request env a
        (if single_active (ev_payload ev)
         then supersede_runtime_requests_if_needed (pa_runtime_key a) (pa_request_key a) (event_at ev) rows
         else rows))"

definition apply_pause_runtime_event ::
  "pylib \<Rightarrow> orm_env \<Rightarrow> (string \<Rightarrow> bool) \<Rightarrow> runtime_event \<Rightarrow> pause_row list \<Rightarrow> bool \<times> pause_row list" where
  "apply_pause_runtime_event lib env session_exists ev rows =
     (case ev_kind ev of
        Pause_request \<Rightarrow>
          (case ev_session_id ev of
             None \<Rightarrow> (False, rows)
           | Some sid \<Rightarrow>
             (if \<not> session_exists sid then (False, rows)
              else let r = announce_pause lib env ev sid rows
                   in (snd (fst r), snd r)))
      | Pause_resolution \<Rightarrow>
          (let r = resolve_pause_request env (resolution_args ev) rows in
           (case fst r of None \<Rightarrow> False | Some row \<Rightarrow> pr_status row \<noteq> PENDING_STATUS, snd r))
      | _ \<Rightarrow> (False, rows))"

subsection \<open>Reads\<close>

definition provider_ref_field :: "pause_row \<Rightarrow> string \<Rightarrow> string option" where
  "provider_ref_field row k = clean_str (dget (case pr_provider_ref row of Some d \<Rightarrow> d | None \<Rightarrow> []) k)"

definition reply_transport_for_row :: "pause_row \<Rightarrow> string option" where
  "reply_transport_for_row row = provider_ref_field row ''reply_transport''"

definition is_pull_reply_transport :: "pause_row \<Rightarrow> bool" where
  "is_pull_reply_transport row =
     (case reply_transport_for_row row of
        Some t \<Rightarrow> t \<in> set PULL_REPLY_TRANSPORTS
      | None \<Rightarrow> clean (Some (pr_kind row)) = Some PAUSE_KIND_PERMISSION_PROMPT \<and>
                 provider_ref_field row ''source'' = Some ''claude_permission_gate'')"

definition is_user_facing_pause_request :: "pause_row \<Rightarrow> bool" where
  "is_user_facing_pause_request row =
     (let source = provider_ref_field row ''source'' in
      if source \<in> {Some ''claude_permission_gate'', Some ''cursor_permission_gate''} \<and> pr_can_respond row then True
      else if source = Some ''claude_hook'' then False
      else \<not> (startswith ''claude-hook:'' (clean_or_default (clean (Some (pr_request_key row))) []) \<or>
              clean_or_default (clean (pr_provider_request_id row)) [] = ''claude-hook-ask-user-question''))"

text \<open>\<open>ORDER BY last_seen_at DESC, occurred_at DESC, created_at DESC\<close>\<close>

definition recency :: "pause_row \<Rightarrow> (bool \<times> int) \<times> (bool \<times> int) \<times> int" where
  "recency r = (opt_us (normalize_utc (pr_last_seen_at r)), opt_us (normalize_utc (pr_occurred_at r)),
                utc_us (pr_created_at r))"

text \<open>A stable descending sort: rows with equal keys keep their table order.\<close>

definition sort_desc :: "('r \<Rightarrow> 'k::linorder) \<Rightarrow> 'r list \<Rightarrow> 'r list" where
  "sort_desc k rows = rev (sort_key k (rev rows))"

definition load_active_pause_request_map ::
  "instant \<Rightarrow> string list \<Rightarrow> pause_row list \<Rightarrow> (string \<times> pause_row) list" where
  "load_active_pause_request_map now session_ids rows =
     (let sel = filter (\<lambda>r. pr_session_id r \<in> set session_ids \<and> pr_status r = PENDING_STATUS) rows;
          ordered = sort_key pr_session_id (sort_desc recency sel)
      in fold (\<lambda>r m. if past_deadline r now then m
                     else if \<not> is_user_facing_pause_request r then m
                     else setdefault (pr_session_id r) r m) ordered [])"

definition load_active_pause_request_for_session :: "instant \<Rightarrow> string \<Rightarrow> pause_row list \<Rightarrow> pause_row option" where
  "load_active_pause_request_for_session now sid rows =
     map_of (load_active_pause_request_map now [sid] rows) sid"

definition list_pause_requests_for_session ::
  "instant \<Rightarrow> string \<Rightarrow> string option \<Rightarrow> pause_row list \<Rightarrow> pause_row list" where
  "list_pause_requests_for_session now sid status rows =
     (let sel = filter (\<lambda>r. pr_session_id r = sid \<and>
                 (case clean status of None \<Rightarrow> True | Some st \<Rightarrow> pr_status r = st)) rows
      in filter (\<lambda>r. is_user_facing_pause_request r \<and> \<not> (pr_status r = PENDING_STATUS \<and> past_deadline r now))
           (sort_key pr_status (sort_desc recency sel)))"

definition get_pause_request_for_session :: "string \<Rightarrow> string \<Rightarrow> pause_row list \<Rightarrow> pause_row option" where
  "get_pause_request_for_session sid rid rows = find (\<lambda>r. pr_session_id r = sid \<and> pr_id r = rid) rows"

definition opt_datetime :: "instant option \<Rightarrow> pyval" where
  "opt_datetime v = (case v of None \<Rightarrow> PNone | Some t \<Rightarrow> PDatetime (utc_dt t))"

definition serialize_pause_request_projection :: "pause_row \<Rightarrow> bool option \<Rightarrow> pydict" where
  "serialize_pause_request_projection row can_respond =
     [(''id'', PStr (pr_id row)), (''session_id'', PStr (pr_session_id row)),
      (''runtime_key'', PStr (pr_runtime_key row)), (''kind'', PStr (pr_kind row)),
      (''status'', PStr (pr_status row)), (''provider'', PStr (pr_provider row)),
      (''can_respond'', PBool (case can_respond of None \<Rightarrow> pr_can_respond row | Some b \<Rightarrow> b)),
      (''title'', opt_str (pr_title row)), (''summary'', opt_str (pr_summary row)),
      (''tool_name'', opt_str (pr_tool_name row)),
      (''questions'', PList (normalize_questions (case pr_request_payload row of Some d \<Rightarrow> d | None \<Rightarrow> []))),
      (''occurred_at'', opt_datetime (normalize_utc (pr_occurred_at row))),
      (''last_seen_at'', opt_datetime (normalize_utc (pr_last_seen_at row))),
      (''resolved_at'', opt_datetime (normalize_utc (pr_resolved_at row))),
      (''expires_at'', opt_datetime (normalize_utc (pr_expires_at row)))]"

text \<open>
  \<open>build_pause_runtime_projection\<close>: the client projection the live lane stores with the runtime row.
  \<open>uuid5\<close> is Python's name-based UUID in the URL namespace.
\<close>

definition build_pause_runtime_projection :: "pylib \<Rightarrow> (string \<Rightarrow> string) \<Rightarrow> runtime_event \<Rightarrow> pydict" where
  "build_pause_runtime_projection lib uuid5 ev =
     (let payload = ev_payload ev; key = pause_runtime_request_key ev;
          at = PStr (iso_with_sep ''T'' (utc_dt (event_at ev)))
      in [(''id'', PStr (uuid5 (''longhouse-pause:'' @ key))), (''request_key'', PStr key),
          (''session_id'', PStr (case ev_session_id ev of None \<Rightarrow> ''None'' | Some s \<Rightarrow> s)),
          (''runtime_key'', PStr (clean_or_default (clean (Some (ev_runtime_key ev))) [])),
          (''kind'', PStr (clean_or_default (clean_str (dget payload ''kind'')) PAUSE_KIND_STRUCTURED_QUESTION)),
          (''status'', PStr PENDING_STATUS),
          (''provider'', PStr (clean_or_default (clean (Some (ev_provider ev))) ''unknown'')),
          (''can_respond'', PBool (py_bool (dget payload ''can_respond''))),
          (''title'', opt_str (clean_str (dget payload ''title''))),
          (''summary'', opt_str (clean_str (dget payload ''summary''))),
          (''tool_name'', opt_str (clean_str (py_or (dget payload ''tool_name'') (opt_str (ev_tool_name ev))))),
          (''questions'', PList (normalize_questions (request_payload payload))),
          (''occurred_at'', at), (''last_seen_at'', at), (''resolved_at'', PNone),
          (''expires_at'', (case datetime_payload lib (dget payload ''expires_at'') of
              None \<Rightarrow> PNone | Some t \<Rightarrow> PStr (iso_with_sep ''T'' (utc_dt t))))])"

subsection \<open>Lemmas\<close>

lemma status_constants [simp]: "PENDING_STATUS \<noteq> ''resolved''" "PENDING_STATUS \<noteq> ''expired''"
  "''resolved'' \<noteq> PENDING_STATUS" "''expired'' \<noteq> PENDING_STATUS"
  by (simp_all add: PENDING_STATUS_def)

lemma terminal_status_mem: "terminal_status s \<in> set TERMINAL_STATUSES"
  by (simp add: terminal_status_def TERMINAL_STATUSES_def Let_def)

lemma terminal_status_not_pending [simp]: "terminal_status s \<noteq> PENDING_STATUS"
  using terminal_status_mem[of s] by (auto simp: TERMINAL_STATUSES_def PENDING_STATUS_def)

lemma refresh_pause_row_simps [simp]:
  "pr_request_key (refresh_pause_row a r) = pr_request_key r"
  "pr_id (refresh_pause_row a r) = pr_id r"
  "pr_status (refresh_pause_row a r) = PENDING_STATUS"
  "pr_runtime_key (refresh_pause_row a r) = pa_runtime_key a"
  "pr_session_id (refresh_pause_row a r) = pa_session_id a"
  "pr_resolved_at (refresh_pause_row a r) = None"
  by (simp_all add: refresh_pause_row_def)

lemma new_pause_row_simps [simp]:
  "pr_request_key (new_pause_row env n a) = pa_request_key a"
  "pr_id (new_pause_row env n a) = oe_uuid4 env n"
  "pr_status (new_pause_row env n a) = PENDING_STATUS"
  "pr_runtime_key (new_pause_row env n a) = pa_runtime_key a"
  "pr_session_id (new_pause_row env n a) = pa_session_id a"
  "pr_resolved_at (new_pause_row env n a) = None"
  by (simp_all add: new_pause_row_def)

lemma finish_pause_row_simps [simp]:
  "pr_request_key (finish_pause_row a t r) = pr_request_key r"
  "pr_id (finish_pause_row a t r) = pr_id r"
  "pr_runtime_key (finish_pause_row a t r) = pr_runtime_key r"
  "pr_session_id (finish_pause_row a t r) = pr_session_id r"
  "pr_resolved_at (finish_pause_row a t r) = Some (utc_dt t)"
  "pr_status (finish_pause_row a t r) \<noteq> PENDING_STATUS"
  by (simp_all add: finish_pause_row_def)

end
