(* ===== verification/Runtime_Reducer.thy ===== *)
theory Runtime_Reducer
  imports Pause_Requests
begin

text \<open>
  \<open>services/session_runtime.py\<close>, the write side: the reducer that folds runtime events into the
  materialized runtime row of a runtime key (\<open>_apply_runtime_event\<close>) and, at a terminal event, into
  the run, its connections, its console turn and its session. The row extends the \<open>runtime_state\<close> the
  read side serves; runs, threads and connections are the kernel rows the capability projection reads.

  The same code serves two stores: the archive database with all side effects, and the live store
  without them (\<open>lane\<close>). Attribute assignments on a loaded row stay in the ORM session and are
  flushed at commit whatever the function returns, so an early return keeps what was assigned before it.
\<close>

datatype lane = Archive_lane | Live_lane

datatype apply_outcome = Applied | Ignored | Protected_session_ended | Protected_terminal | Stored_live_overlay

record runtime_row = runtime_state +
  rr_runtime_key :: string
  rr_session_id :: "string option"
  rr_thread_id :: "string option"
  rr_run_id :: "string option"
  rr_provider :: string
  rr_device_id :: "string option"
  rr_execution_started_at :: "pydatetime option"
  rr_pending_interaction_id :: "string option"
  rr_pending_interaction_kind :: "string option"
  rr_pending_interaction_opened_at :: "pydatetime option"
  rr_pending_interaction_updated_at :: "pydatetime option"
  rr_pending_interaction_projection :: "pydict option"
  rr_pending_interaction_can_respond :: int

text \<open>
  The session row: \<open>AgentSession\<close> in the archive, \<open>LiveSessionCatalog\<close> in the live store, with the
  columns the reducer reads or writes.
\<close>

record session_rec =
  sn_id :: string
  sn_primary_thread_id :: "string option"
  sn_closed_at :: "pydatetime option"
  sn_close_reason :: "string option"
  sn_last_console_result_at :: "pydatetime option"
  sn_last_console_result_outcome :: "string option"
  sn_user_state :: string
  sn_user_state_at :: "pydatetime option"
  sn_user_hidden_from_timeline :: int

record turn_row =
  tn_run_id :: "string option"
  tn_source_kind :: string
  tn_state :: string
  tn_session_id :: string
  tn_session_input_id :: "int option"
  tn_terminal_phase :: "string option"
  tn_terminal_at :: "pydatetime option"
  tn_durable_at :: "pydatetime option"

record input_row =
  in_id :: int
  in_status :: string
  in_last_error :: "string option"

record runtime_store =
  st_rows :: "runtime_row list"
  st_kernel :: kernel_db
  st_sessions :: "session_rec list"
  st_turns :: "turn_row list"
  st_inputs :: "input_row list"
  st_pauses :: "pause_row list"

text \<open>
  What the process supplies: the standard library (\<open>rt_lib\<close>, \<open>rt_uuid5\<close>, \<open>int()\<close> of a float), the
  clock and identifiers of the ORM, and the \<open>CURRENT_TIMESTAMP\<close> the database writes into
  \<open>updated_at\<close> when a row changes.
\<close>

record runtime_env =
  rt_lib :: pylib
  rt_orm :: orm_env
  rt_uuid5 :: "string \<Rightarrow> string"
  rt_int_of_float :: "string \<Rightarrow> int res"
  rt_db_now :: pydatetime

definition MANAGED_CODEX_FRESHNESS_ms :: int where "MANAGED_CODEX_FRESHNESS_ms = 900000"

definition MANAGED_SESSION_LEASE_SOURCE :: string where
  "MANAGED_SESSION_LEASE_SOURCE = ''engine_attached_lease''"

definition MANAGED_CODEX_RUNTIME_SOURCES :: "string list" where
  "MANAGED_CODEX_RUNTIME_SOURCES =
     [MANAGED_SESSION_LEASE_SOURCE, ''codex_bridge'', ''codex_bridge_live'', ''codex_exec'']"

subsection \<open>Events\<close>

text \<open>The field constraints pydantic enforces on \<open>RuntimeEventIngest\<close>.\<close>

definition MAX_FRESHNESS_MS :: int where "MAX_FRESHNESS_MS = 7 * 24 * 60 * 60 * 1000"

definition runtime_event_ok :: "runtime_event \<Rightarrow> bool" where
  "runtime_event_ok ev \<longleftrightarrow>
     1 \<le> length (ev_runtime_key ev) \<and> length (ev_runtime_key ev) \<le> 255 \<and>
     1 \<le> length (ev_provider ev) \<and> length (ev_provider ev) \<le> 64 \<and>
     (case ev_device_id ev of None \<Rightarrow> True | Some d \<Rightarrow> length d \<le> 255) \<and>
     1 \<le> length (ev_source ev) \<and> length (ev_source ev) \<le> 64 \<and>
     (case ev_phase ev of None \<Rightarrow> True | Some p \<Rightarrow> length p \<le> 32) \<and>
     (case ev_tool_name ev of None \<Rightarrow> True | Some t \<Rightarrow> length t \<le> 128) \<and>
     (case ev_freshness_ms ev of None \<Rightarrow> True | Some f \<Rightarrow> 0 \<le> f \<and> f \<le> MAX_FRESHNESS_MS) \<and>
     1 \<le> length (ev_dedupe_key ev) \<and> length (ev_dedupe_key ev) \<le> 255"

text \<open>
  \<open>_payload_timestamp\<close>: \<open>fromisoformat\<close> reports malformed text by a \<open>ValueError\<close>, which is read as
  an absent timestamp.
\<close>

definition payload_timestamp :: "pylib \<Rightarrow> pydict \<Rightarrow> string \<Rightarrow> instant option" where
  "payload_timestamp lib payload key = (case dget payload key of
       PDatetime d \<Rightarrow> normalize_utc (Some d)
     | PStr s \<Rightarrow> (case lib_fromisoformat lib (py_replace ''Z'' ''+00:00'' s) of
                    Inl _ \<Rightarrow> None | Inr d \<Rightarrow> normalize_utc (Some d))
     | _ \<Rightarrow> None)"

definition stale_managed_lease_observed_at :: "pylib \<Rightarrow> runtime_event \<Rightarrow> instant option \<Rightarrow> instant option" where
  "stale_managed_lease_observed_at lib ev latest = (case latest of
       None \<Rightarrow> None
     | Some l \<Rightarrow>
       (if py_strip (ev_source ev) \<noteq> MANAGED_SESSION_LEASE_SOURCE then None
        else case option_or (payload_timestamp lib (ev_payload ev) ''lease_observed_at'')
                     (payload_timestamp lib (ev_payload ev) ''observed_at'') of
               None \<Rightarrow> None
             | Some t \<Rightarrow> (if t \<ge> l then None else Some t)))"

definition managed_lease_refresh_at :: "pylib \<Rightarrow> runtime_event \<Rightarrow> instant \<Rightarrow> instant" where
  "managed_lease_refresh_at lib ev fallback =
     (if py_strip (ev_source ev) \<noteq> MANAGED_SESSION_LEASE_SOURCE then fallback
      else case payload_timestamp lib (ev_payload ev) ''lease_refresh_at'' of Some t \<Rightarrow> t | None \<Rightarrow> fallback)"

definition phase_signal_freshness_ms :: "runtime_event \<Rightarrow> string \<Rightarrow> int option" where
  "phase_signal_freshness_ms ev phase =
     (case ev_freshness_ms ev of
        Some f \<Rightarrow> Some f
      | None \<Rightarrow>
        (if py_lower (py_strip (ev_provider ev)) = ''codex'' \<and> py_lower (py_strip (ev_source ev)) = ''codex_bridge''
         then Some MANAGED_CODEX_FRESHNESS_ms else phase_freshness_ms (Some phase)))"

definition is_bridge_transcript_event :: "runtime_event \<Rightarrow> bool res" where
  "is_bridge_transcript_event ev =
     (let provider = py_lower (py_strip (ev_provider ev)); source = py_lower (py_strip (ev_source ev));
          kind = dget (ev_payload ev) ''progress_kind'' in
      if ev_kind ev \<noteq> Progress_signal then Inr False
      else if provider = ''codex'' \<and> source \<in> {''codex_bridge_live'', ''codex_console_live''}
      then in_str_set kind [''bridge_live_transcript_delta'', ''console_live_tool_item'']
      else Inr (provider = ''cursor'' \<and> source = ''cursor_print'' \<and> kind = PStr ''cursor_print_stream'' \<or>
        provider = ''opencode'' \<and> source = ''opencode_run'' \<and> kind = PStr ''opencode_run_stream''))"

subsection \<open>The run a terminal event ends\<close>

text \<open>\<open>_optional_payload_str\<close>, \<open>_optional_payload_int\<close> and \<open>_exit_status_for_terminal\<close>.\<close>

definition optional_payload_str :: "pyval \<Rightarrow> string option" where
  "optional_payload_str v = (case v of PNone \<Rightarrow> None | _ \<Rightarrow> Some (py_str v))"

definition optional_payload_int :: "runtime_env \<Rightarrow> pyval \<Rightarrow> int option res" where
  "optional_payload_int env v = (case v of
       PInt i \<Rightarrow> Inr (Some i)
     | PStr s \<Rightarrow> Inr (int_of_text s)
     | PFloat r \<Rightarrow> (case rt_int_of_float env r of
           Inr i \<Rightarrow> Inr (Some i) | Inl (ValueError _) \<Rightarrow> Inr None | Inl e \<Rightarrow> Inl e)
     | _ \<Rightarrow> Inr None)"

definition exit_status_for_terminal :: "runtime_env \<Rightarrow> string \<Rightarrow> pydict \<Rightarrow> string res" where
  "exit_status_for_terminal env terminal_state payload =
     (case or_none (optional_payload_str (dget payload ''exit_status'')) of
        Some explicit \<Rightarrow> Inr (take 64 explicit)
      | None \<Rightarrow> bindR (optional_payload_int env (dget payload ''exit_code'')) (\<lambda>code.
          Inr (take 64 (case code of Some c \<Rightarrow> ''exit_'' @ dec_int c | None \<Rightarrow> terminal_state))))"

text \<open>\<open>str(payload.get(key) or default).strip() or default\<close>\<close>

definition payload_text :: "pydict \<Rightarrow> string \<Rightarrow> string \<Rightarrow> string" where
  "payload_text payload key d = (case py_text (dget payload key) of None \<Rightarrow> d | Some s \<Rightarrow> s)"

definition end_connection :: "instant \<Rightarrow> connection_row \<Rightarrow> connection_row" where
  "end_connection at c = c\<lparr>cn_state := ''ended'', cn_released_at := Some (utc_dt at),
     cn_last_health_at := Some (utc_dt at), cn_can_send_input := 0, cn_can_interrupt := 0,
     cn_can_terminate := 0, cn_can_tail_output := 0, cn_can_resume := 0\<rparr>"

definition open_connection :: "string \<Rightarrow> connection_row \<Rightarrow> bool" where
  "open_connection run_id c \<longleftrightarrow> cn_run_id c = run_id \<and> cn_state c \<in> {''attached'', ''degraded'', ''detached''}"

definition turn_outcome :: "string \<Rightarrow> string" where
  "turn_outcome terminal_state =
     (if terminal_state = ''run_completed'' then ''completed''
      else if terminal_state = ''run_cancelled'' then ''cancelled'' else ''failed'')"

text \<open>\<open>stamp_console_result\<close> of \<open>services/console_turns.py\<close>\<close>

definition stamp_console_result :: "string \<Rightarrow> string \<Rightarrow> instant \<Rightarrow> session_rec list \<Rightarrow> session_rec list" where
  "stamp_console_result sid outcome at = update_where (\<lambda>s. sn_id s = sid)
     (\<lambda>s. s\<lparr>sn_last_console_result_at := Some (utc_dt at), sn_last_console_result_outcome := Some outcome\<rparr>)"

definition finish_turn :: "string \<Rightarrow> instant \<Rightarrow> turn_row \<Rightarrow> turn_row" where
  "finish_turn terminal_state at t = t\<lparr>tn_state := turn_outcome terminal_state, tn_terminal_phase := Some terminal_state,
     tn_terminal_at := (case tn_terminal_at t of Some d \<Rightarrow> Some d | None \<Rightarrow> Some (utc_dt at)),
     tn_durable_at := Some (utc_dt at)\<rparr>"

definition console_turn_of :: "string \<Rightarrow> turn_row \<Rightarrow> bool" where
  "console_turn_of run_id t \<longleftrightarrow> tn_run_id t = Some run_id \<and> tn_source_kind t = ''console''"

definition fail_turn_input :: "string \<Rightarrow> turn_row \<Rightarrow> input_row list \<Rightarrow> input_row list" where
  "fail_turn_input terminal_state t rows =
     (case tn_session_input_id t of
        None \<Rightarrow> rows
      | Some i \<Rightarrow> (if turn_outcome terminal_state = ''completed'' then rows
          else update_where (\<lambda>r. in_id r = i)
                 (\<lambda>r. r\<lparr>in_status := ''failed'', in_last_error := Some terminal_state\<rparr>) rows))"

definition settle_turn :: "string \<Rightarrow> string \<Rightarrow> instant \<Rightarrow> turn_row \<Rightarrow> runtime_store \<Rightarrow> runtime_store" where
  "settle_turn run_id terminal_state at t s = s\<lparr>
     st_turns := update_where (console_turn_of run_id) (finish_turn terminal_state at) (st_turns s),
     st_sessions := stamp_console_result (tn_session_id t) (turn_outcome terminal_state) at (st_sessions s),
     st_inputs := fail_turn_input terminal_state t (st_inputs s)\<rparr>"

text \<open>The archive's console turn of the run: \<open>(changed, store)\<close>.\<close>

definition finish_console_turn ::
  "string \<Rightarrow> string \<Rightarrow> instant \<Rightarrow> runtime_store \<Rightarrow> (bool \<times> runtime_store) res" where
  "finish_console_turn run_id terminal_state at s =
     bindR (one_or_none (console_turn_of run_id) (st_turns s)) (\<lambda>turn.
       case turn of
         None \<Rightarrow> Inr (False, s)
       | Some t \<Rightarrow> (if tn_state t \<in> {''starting'', ''active'', ''draining''}
                     then Inr (True, settle_turn run_id terminal_state at t s) else Inr (False, s)))"

definition run_owned_by :: "kernel_db \<Rightarrow> run_row \<Rightarrow> string option \<Rightarrow> bool" where
  "run_owned_by db run session_id = (case session_id of
       None \<Rightarrow> True
     | Some sid \<Rightarrow> (\<exists>t \<in> set (kd_threads db). th_id t = rn_thread_id run \<and> th_session_id t = sid))"

text \<open>\<open>_apply_run_terminal_event\<close>: \<open>(changed, store)\<close>; \<open>state_run_id\<close> is \<open>state.run_id\<close>.\<close>

definition apply_run_terminal_event ::
  "runtime_env \<Rightarrow> lane \<Rightarrow> runtime_event \<Rightarrow> string option \<Rightarrow> runtime_store \<Rightarrow> (bool \<times> runtime_store) res" where
  "apply_run_terminal_event env lane ev state_run_id s =
     (let db = st_kernel s; at = event_at ev in
      case option_or (ev_run_id ev) state_run_id of
        None \<Rightarrow> Inr (False, s)
      | Some run_id \<Rightarrow>
        (case find (\<lambda>r. rn_id r = run_id) (kd_runs db) of
           None \<Rightarrow> Inr (False, s)
         | Some run \<Rightarrow>
           (if \<not> run_owned_by db run (ev_session_id ev) then Inr (False, s)
            else let terminal_state = payload_text (ev_payload ev) ''terminal_state'' ''finished'' in
              bindR (case normalize_utc (rn_ended_at run) of
                       Some t \<Rightarrow> Inr (False, t, kd_runs db)
                     | None \<Rightarrow> bindR (exit_status_for_terminal env terminal_state (ev_payload ev)) (\<lambda>status.
                         Inr (True, at, update_where (\<lambda>r. rn_id r = run_id)
                           (\<lambda>r. r\<lparr>rn_ended_at := Some (utc_dt at), rn_exit_status := Some status\<rparr>) (kd_runs db))))
                (\<lambda>(run_changed, released_at, runs).
                  let conn_changed = list_ex (open_connection run_id) (kd_connections db);
                      s1 = s\<lparr>st_kernel := db\<lparr>kd_runs := runs, kd_connections :=
                              update_where (open_connection run_id) (end_connection released_at) (kd_connections db)\<rparr>\<rparr>
                  in case lane of
                       Live_lane \<Rightarrow> Inr (run_changed \<or> conn_changed, s1)
                     | Archive_lane \<Rightarrow> bindR (finish_console_turn run_id terminal_state at s1) (\<lambda>(turn_changed, s2).
                         Inr (run_changed \<or> conn_changed \<or> turn_changed, s2))))))"

subsection \<open>The runtime row\<close>

text \<open>
  \<open>ensure_thread_id_for_session\<close> and \<open>ensure_primary_thread\<close> of
  \<open>services/agents/session_graph_writes.py\<close>.
\<close>

definition ensure_primary_thread :: "runtime_env \<Rightarrow> session_rec \<Rightarrow> runtime_store \<Rightarrow> (string \<times> runtime_store) res" where
  "ensure_primary_thread env session s =
     (let db = st_kernel s; sid = sn_id session in
      bindR (one_or_none (\<lambda>t. th_session_id t = sid \<and> th_is_primary t) (kd_threads db)) (\<lambda>existing.
      bindR (case existing of
               Some t \<Rightarrow> Inr (th_id t, kd_threads db)
             | None \<Rightarrow>
               (let tid = rt_uuid5 env (''longhouse:primary-thread:'' @ sid) in
                if tid \<in> th_id ` set (kd_threads db) then Inl (IntegrityError ''UNIQUE constraint failed'')
                else Inr (tid, kd_threads db @ [\<lparr>th_id = tid, th_session_id = sid, th_is_primary = True,
                                                 th_created_at = utc_us (oe_now (rt_orm env))\<rparr>])))
        (\<lambda>(tid, threads). Inr (tid, s\<lparr>st_kernel := db\<lparr>kd_threads := threads\<rparr>,
             st_sessions := update_where (\<lambda>x. sn_id x = sid) (\<lambda>x. x\<lparr>sn_primary_thread_id := Some tid\<rparr>) (st_sessions s)\<rparr>))))"

definition ensure_thread_id_for_session ::
  "runtime_env \<Rightarrow> string \<Rightarrow> runtime_store \<Rightarrow> (string option \<times> runtime_store) res" where
  "ensure_thread_id_for_session env sid s =
     bindR (one_or_none (\<lambda>t. th_session_id t = sid \<and> th_is_primary t) (kd_threads (st_kernel s))) (\<lambda>existing.
       case existing of
         Some t \<Rightarrow> Inr (Some (th_id t), s)
       | None \<Rightarrow>
         (case find (\<lambda>x. sn_id x = sid) (st_sessions s) of
            None \<Rightarrow> Inr (None, s)
          | Some session \<Rightarrow> bindR (ensure_primary_thread env session s) (\<lambda>(tid, s'). Inr (Some tid, s'))))"

definition fresh_row :: "runtime_env \<Rightarrow> runtime_event \<Rightarrow> string option \<Rightarrow> runtime_row" where
  "fresh_row env ev thread_id =
     (let at = Some (utc_dt (event_at ev)) in
      \<lparr>rs_phase = Some (clean_or (ev_phase ev) ''idle''), rs_phase_source = Some ''fallback'', rs_active_tool = None,
       rs_phase_started_at = at, rs_last_runtime_signal_at = None, rs_last_progress_at = None, rs_last_live_at = None,
       rs_timeline_anchor_at = at, rs_freshness_expires_at = None, rs_terminal_state = None,
       rs_terminal_reason = None, rs_terminal_source = None, rs_terminal_at = None, rs_runtime_version = 0,
       rs_updated_at = Some (rt_db_now env),
       rr_runtime_key = ev_runtime_key ev, rr_session_id = ev_session_id ev, rr_thread_id = thread_id,
       rr_run_id = ev_run_id ev, rr_provider = ev_provider ev, rr_device_id = ev_device_id ev,
       rr_execution_started_at =
         (if py_strip (case ev_phase ev of None \<Rightarrow> [] | Some p \<Rightarrow> p) \<in> set LIVE_EXECUTION_PHASES then at else None),
       rr_pending_interaction_id = None, rr_pending_interaction_kind = None,
       rr_pending_interaction_opened_at = None, rr_pending_interaction_updated_at = None,
       rr_pending_interaction_projection = None, rr_pending_interaction_can_respond = 0\<rparr>)"

definition row_of :: "runtime_store \<Rightarrow> string \<Rightarrow> runtime_row option" where
  "row_of s key = find (\<lambda>r. rr_runtime_key r = key) (st_rows s)"

definition put_row :: "runtime_row \<Rightarrow> runtime_store \<Rightarrow> runtime_store" where
  "put_row row s = s\<lparr>st_rows := update_where (\<lambda>r. rr_runtime_key r = rr_runtime_key row) (\<lambda>_. row) (st_rows s)\<rparr>"

definition ensure_state :: "runtime_env \<Rightarrow> lane \<Rightarrow> runtime_event \<Rightarrow> runtime_store \<Rightarrow> (runtime_row \<times> runtime_store) res" where
  "ensure_state env lane ev s =
     (case row_of s (ev_runtime_key ev) of
        Some row \<Rightarrow> Inr (row, s)
      | None \<Rightarrow>
        bindR (case (ev_thread_id ev, ev_session_id ev, lane) of
                 (None, Some sid, Archive_lane) \<Rightarrow> ensure_thread_id_for_session env sid s
               | (tid, _, _) \<Rightarrow> Inr (tid, s)) (\<lambda>(tid, s').
          let row = fresh_row env ev tid in Inr (row, s'\<lparr>st_rows := st_rows s' @ [row]\<rparr>)))"

text \<open>\<open>_state_snapshot\<close>: what counts as a change of the row.\<close>

record runtime_snapshot =
  sh_identity :: "string option \<times> string option \<times> string option \<times> string \<times> string option"
  sh_phase :: "string option \<times> string option \<times> string option"
  sh_clocks :: "instant option list"
  sh_terminal :: "string option \<times> string option \<times> string option"

definition state_snapshot :: "runtime_row \<Rightarrow> runtime_snapshot" where
  "state_snapshot r =
     \<lparr>sh_identity = (rr_session_id r, rr_thread_id r, rr_run_id r, rr_provider r, rr_device_id r),
      sh_phase = (rs_phase r, rs_phase_source r, rs_active_tool r),
      sh_clocks = map normalize_utc [rs_phase_started_at r, rr_execution_started_at r,
        rs_last_runtime_signal_at r, rs_last_progress_at r, rs_last_live_at r, rs_timeline_anchor_at r,
        rs_freshness_expires_at r, rs_terminal_at r],
      sh_terminal = (rs_terminal_state r, rs_terminal_reason r, rs_terminal_source r)\<rparr>"

definition bump_version :: "runtime_row \<Rightarrow> runtime_row" where
  "bump_version r = r\<lparr>rs_runtime_version := rs_runtime_version r + 1\<rparr>"

text \<open>\<open>onupdate=func.now()\<close>: an UPDATE of a changed row stamps \<open>updated_at\<close>.\<close>

definition stamp_updated :: "runtime_env \<Rightarrow> runtime_row \<Rightarrow> runtime_row \<Rightarrow> runtime_row" where
  "stamp_updated env loaded r = (if r = loaded then r else r\<lparr>rs_updated_at := Some (rt_db_now env)\<rparr>)"

definition clear_terminal :: "runtime_row \<Rightarrow> runtime_row" where
  "clear_terminal r = r\<lparr>rs_terminal_state := None, rs_terminal_reason := None, rs_terminal_source := None,
     rs_terminal_at := None\<rparr>"

definition row_signal_clock :: "runtime_row \<Rightarrow> instant option" where
  "row_signal_clock r = latest_timestamp [normalize_utc (rs_last_runtime_signal_at r),
     normalize_utc (rs_last_progress_at r), normalize_utc (rs_terminal_at r)]"

text \<open>\<open>latest is not None and occurred_at < latest\<close>\<close>

definition older_than :: "instant \<Rightarrow> instant option \<Rightarrow> bool" where
  "older_than t latest = (case latest of None \<Rightarrow> False | Some l \<Rightarrow> t < l)"

definition phase_reanchors :: "string option \<Rightarrow> string \<Rightarrow> bool" where
  "phase_reanchors prev next_phase = (case prev of None \<Rightarrow> True
     | Some p \<Rightarrow>
       (if next_phase \<in> set ATTENTION_PHASES then p \<noteq> next_phase
        else p \<notin> set LIVE_EXECUTION_PHASES \<and> next_phase \<in> set LIVE_EXECUTION_PHASES))"

subsection \<open>Phase signals\<close>

definition next_phase_of :: "runtime_event \<Rightarrow> runtime_row \<Rightarrow> string" where
  "next_phase_of ev st = clean_or (option_or (or_none (ev_phase ev)) (rs_phase st)) ''idle''"

text \<open>A blocked signal without a tool keeps the tool of the row.\<close>

definition next_active_tool :: "runtime_event \<Rightarrow> runtime_row \<Rightarrow> string \<Rightarrow> string option" where
  "next_active_tool ev st next_phase =
     (if next_phase \<in> {''running'', ''blocked''}
      then option_or (or_none (ev_tool_name ev)) (if next_phase = ''blocked'' then rs_active_tool st else None)
      else None)"

definition freshness_expiry :: "instant \<Rightarrow> int option \<Rightarrow> pydatetime option res" where
  "freshness_expiry base ms = (case ms of
       None \<Rightarrow> Inr None | Some f \<Rightarrow> bindR (add_ms base f) (\<lambda>t. Inr (Some (utc_dt t))))"

text \<open>
  A phase signal older than the row: only a managed lease that repeats the row's phase and tool may
  still refresh its freshness.
\<close>

definition stale_phase_signal ::
  "pylib \<Rightarrow> runtime_event \<Rightarrow> runtime_row \<Rightarrow> runtime_row \<Rightarrow> (apply_outcome \<times> runtime_row) res" where
  "stale_phase_signal lib ev before st =
     (let next_phase = next_phase_of ev st;
          current_tool = (if next_phase \<in> {''running'', ''blocked''} then rs_active_tool st else None) in
      if stale_managed_lease_observed_at lib ev (row_signal_clock st) = None then Inr (Ignored, st)
      else if next_phase \<noteq> clean_or (rs_phase st) ''idle'' then Inr (Ignored, st)
      else if or_none (next_active_tool ev st next_phase) \<noteq> or_none current_tool then Inr (Ignored, st)
      else
        (let refresh_at = managed_lease_refresh_at lib ev (event_at ev);
             source = py_strip (ev_source ev) in
         bindR (freshness_expiry refresh_at (phase_signal_freshness_ms ev next_phase)) (\<lambda>expiry.
           let st1 = clear_terminal (st\<lparr>
                 rs_last_live_at := map_option utc_dt
                   (latest_timestamp [normalize_utc (rs_last_live_at st), Some refresh_at]),
                 rs_freshness_expires_at := expiry,
                 rs_phase_source := (if source \<in> set MANAGED_CODEX_RUNTIME_SOURCES then Some source
                                     else rs_phase_source st)\<rparr>)
           in if state_snapshot before \<noteq> state_snapshot st1 then Inr (Applied, bump_version st1)
              else Inr (Ignored, st1))))"

definition execution_started :: "runtime_event \<Rightarrow> runtime_row \<Rightarrow> string \<Rightarrow> pydatetime option" where
  "execution_started ev st next_phase =
     (if next_phase \<in> set LIVE_EXECUTION_PHASES then
        (if clean_or (rs_phase st) ''idle'' \<notin> set LIVE_EXECUTION_PHASES \<or> rr_execution_started_at st = None
         then Some (utc_dt (event_at ev)) else rr_execution_started_at st)
      else if next_phase \<notin> {''idle'', ''needs_user''} then None
      else rr_execution_started_at st)"

definition accept_phase_signal :: "pylib \<Rightarrow> runtime_event \<Rightarrow> runtime_row \<Rightarrow> runtime_row res" where
  "accept_phase_signal lib ev st =
     (let at = event_at ev; next_phase = next_phase_of ev st; tool = next_active_tool ev st next_phase;
          phase_changed = (rs_phase st \<noteq> Some next_phase);
          tool_changed = (next_phase \<in> {''running'', ''blocked''} \<and> or_none (rs_active_tool st) \<noteq> or_none tool);
          source = py_strip (ev_source ev);
          base = managed_lease_refresh_at lib ev at in
      bindR (freshness_expiry base (phase_signal_freshness_ms ev next_phase)) (\<lambda>expiry.
        Inr (clear_terminal (st\<lparr>
          rs_timeline_anchor_at := (if phase_changed \<and> phase_reanchors (rs_phase st) next_phase
                                    then Some (utc_dt at) else rs_timeline_anchor_at st),
          rs_phase_started_at := (if phase_changed \<or> tool_changed then Some (utc_dt at) else rs_phase_started_at st),
          rs_phase := Some next_phase,
          rs_phase_source := Some (if source \<in> set MANAGED_CODEX_RUNTIME_SOURCES then source else ''semantic''),
          rs_active_tool := tool,
          rr_execution_started_at := execution_started ev st next_phase,
          rs_last_runtime_signal_at := Some (utc_dt at),
          rs_last_live_at := map_option utc_dt (latest_timestamp [Some at, Some base]),
          rs_freshness_expires_at := expiry\<rparr>))))"

subsection \<open>Progress signals\<close>

definition back_to_idle :: "instant \<Rightarrow> runtime_row \<Rightarrow> runtime_row" where
  "back_to_idle at st = st\<lparr>rs_phase := Some ''idle'', rs_active_tool := None, rs_freshness_expires_at := None,
     rs_phase_started_at := Some (utc_dt at), rs_phase_source := Some ''progress'', rr_execution_started_at := None\<rparr>"

definition accept_progress_signal :: "runtime_event \<Rightarrow> runtime_row \<Rightarrow> runtime_row" where
  "accept_progress_signal ev st =
     (let at = event_at ev;
          kind = payload_text (ev_payload ev) ''progress_kind'' [];
          st1 = st\<lparr>rs_last_progress_at := Some (utc_dt at), rs_timeline_anchor_at := Some (utc_dt at)\<rparr>;
          st2 = (if rs_terminal_state st1 = None \<and> rs_phase st1 \<in> Some ` set ATTENTION_PHASES \<and> kind = ''transcript_append''
                 then back_to_idle at st1 else st1);
          st3 = (if rs_terminal_state st2 \<noteq> None \<and> \<not> older_than at (normalize_utc (rs_terminal_at st2))
                 then back_to_idle at (clear_terminal st2) else st2)
      in if rs_phase_source st3 \<in> {Some ''fallback'', Some ''progress''}
         then st3\<lparr>rs_phase_source := Some ''progress''\<rparr> else st3)"

subsection \<open>Terminal signals\<close>

definition terminal_reason_of :: "runtime_event \<Rightarrow> string \<Rightarrow> string option" where
  "terminal_reason_of ev terminal_state =
     (case py_text (dget (ev_payload ev) ''terminal_reason'') of
        Some r \<Rightarrow> Some r
      | None \<Rightarrow> (if terminal_state \<in> {''process_gone'', ''host_expired'', ''user_closed''} then Some terminal_state else None))"

definition terminal_source_of :: "runtime_event \<Rightarrow> string option" where
  "terminal_source_of ev = py_text (py_or (dget (ev_payload ev) ''terminal_source'') (PStr (ev_source ev)))"

definition accept_terminal_signal :: "pylib \<Rightarrow> runtime_event \<Rightarrow> string \<Rightarrow> runtime_row \<Rightarrow> runtime_row" where
  "accept_terminal_signal lib ev terminal_state st =
     (let at = event_at ev in
      st\<lparr>rs_phase := Some ''finished'', rs_phase_source := Some ''semantic'', rs_active_tool := None,
         rr_execution_started_at := None,
         rs_last_runtime_signal_at := Some (utc_dt at), rs_last_live_at := Some (utc_dt at),
         rs_freshness_expires_at := Some (utc_dt at),
         rs_terminal_state := Some terminal_state,
         rs_terminal_reason := terminal_reason_of ev terminal_state,
         rs_terminal_source := terminal_source_of ev,
         rs_terminal_at := Some (utc_dt at),
         rs_timeline_anchor_at := Some (utc_dt
           (case payload_timestamp lib (ev_payload ev) ''timeline_anchor_at'' of Some t \<Rightarrow> t | None \<Rightarrow> at)),
         rs_phase_started_at := (case normalize_utc (rs_phase_started_at st) of
             None \<Rightarrow> Some (utc_dt at)
           | Some t \<Rightarrow> (if t < at then Some (utc_dt at) else rs_phase_started_at st))\<rparr>)"

definition close_session :: "string \<Rightarrow> string \<Rightarrow> instant \<Rightarrow> session_rec list \<Rightarrow> session_rec list" where
  "close_session sid reason at = update_where (\<lambda>x. sn_id x = sid \<and> sn_closed_at x = None)
     (\<lambda>x. x\<lparr>sn_closed_at := Some (utc_dt at), sn_close_reason := Some reason\<rparr>)"

text \<open>The pause requests an archive terminal event expires.\<close>

definition expire_pauses_at_end :: "runtime_event \<Rightarrow> string \<Rightarrow> pause_row list \<Rightarrow> nat \<times> pause_row list" where
  "expire_pauses_at_end ev terminal_state =
     (case ev_session_id ev of
        Some sid \<Rightarrow>
          (if terminal_state \<in> set EXPLICIT_CLOSED_TERMINAL_STATES
           then expire_pending_pause_requests_for_session sid (event_at ev) (Some (''Session ended: '' @ terminal_state @ ''.''))
           else expire_pending_pause_requests_for_runtime (ev_runtime_key ev) (event_at ev)
                  (Some (''Runtime ended: '' @ terminal_state @ ''.'')))
      | None \<Rightarrow> expire_pending_pause_requests_for_runtime (ev_runtime_key ev) (event_at ev)
                  (Some (''Runtime ended: '' @ terminal_state @ ''.'')))"

definition close_session_at_end :: "runtime_event \<Rightarrow> string \<Rightarrow> session_rec list \<Rightarrow> session_rec list" where
  "close_session_at_end ev terminal_state rows =
     (case ev_session_id ev of
        Some sid \<Rightarrow> (if terminal_state \<in> set EXPLICIT_CLOSED_TERMINAL_STATES
                       then close_session sid terminal_state (event_at ev) rows else rows)
      | None \<Rightarrow> rows)"

subsection \<open>One event\<close>

text \<open>
  What a branch leaves behind: the outcome of an early return, if it took one, the row, whether pause
  requests changed, and the store.
\<close>

record step_result =
  sr_early :: "apply_outcome option"
  sr_row :: runtime_row
  sr_pause_changed :: bool
  sr_store :: runtime_store

definition returned :: "apply_outcome \<Rightarrow> runtime_row \<Rightarrow> runtime_store \<Rightarrow> step_result" where
  "returned oc row s = \<lparr>sr_early = Some oc, sr_row = row, sr_pause_changed = False, sr_store = s\<rparr>"

definition went_on :: "runtime_row \<Rightarrow> bool \<Rightarrow> runtime_store \<Rightarrow> step_result" where
  "went_on row changed s = \<lparr>sr_early = None, sr_row = row, sr_pause_changed = changed, sr_store = s\<rparr>"

definition phase_signal ::
  "runtime_env \<Rightarrow> lane \<Rightarrow> runtime_event \<Rightarrow> runtime_row \<Rightarrow> runtime_row \<Rightarrow> runtime_store \<Rightarrow> step_result res" where
  "phase_signal env lane ev before st s =
     (if older_than (event_at ev) (row_signal_clock st)
      then bindR (stale_phase_signal (rt_lib env) ev before st) (\<lambda>(oc, row). Inr (returned oc row s))
      else bindR (accept_phase_signal (rt_lib env) ev st) (\<lambda>row.
        if lane = Archive_lane \<and> next_phase_of ev st \<in> set LIVE_EXECUTION_PHASES \<and>
           \<not> truthy (dget (ev_payload ev) ''pause_request_still_pending'')
        then let r = resolve_pending_pause_requests_for_runtime (ev_runtime_key ev) ''resolved'' (event_at ev)
                       (Some ''Provider continued.'') (st_pauses s)
             in Inr (went_on row (fst r > 0) (s\<lparr>st_pauses := snd r\<rparr>))
        else Inr (went_on row False s)))"

definition progress_signal :: "runtime_event \<Rightarrow> runtime_row \<Rightarrow> runtime_store \<Rightarrow> step_result" where
  "progress_signal ev st s =
     (if older_than (event_at ev) (row_signal_clock st) then returned Ignored st s
      else went_on (accept_progress_signal ev st) False s)"

definition same_run_terminal_replay :: "runtime_event \<Rightarrow> runtime_row \<Rightarrow> string \<Rightarrow> bool" where
  "same_run_terminal_replay ev st terminal_state \<longleftrightarrow>
     terminal_state \<in> set RUN_TERMINAL_STATES \<and>
     clean_or_default (clean (rs_terminal_state st)) [] \<in> set RUN_TERMINAL_STATES \<and>
     rr_run_id st \<noteq> None \<and> (ev_run_id ev = None \<or> ev_run_id ev = rr_run_id st)"

definition terminal_signal ::
  "runtime_env \<Rightarrow> lane \<Rightarrow> runtime_event \<Rightarrow> runtime_row \<Rightarrow> runtime_store \<Rightarrow> step_result res" where
  "terminal_signal env lane ev st s =
     (let terminal_state = payload_text (ev_payload ev) ''terminal_state'' ''finished'' in
      if same_run_terminal_replay ev st terminal_state then
        (case lane of
           Live_lane \<Rightarrow> Inr (returned Ignored st s)
         | Archive_lane \<Rightarrow> bindR (apply_run_terminal_event env lane ev (rr_run_id st) s) (\<lambda>(changed, s').
             Inr (returned (if changed then Applied else Ignored) st s')))
      else if older_than (event_at ev) (row_signal_clock st) \<and> terminal_state \<noteq> ''session_ended''
      then Inr (returned Ignored st s)
      else
        (let row = accept_terminal_signal (rt_lib env) ev terminal_state st;
             s1 = s\<lparr>st_sessions := close_session_at_end ev terminal_state (st_sessions s)\<rparr>;
             p = (case lane of Live_lane \<Rightarrow> (0, st_pauses s1)
                   | Archive_lane \<Rightarrow> expire_pauses_at_end ev terminal_state (st_pauses s1));
             s2 = s1\<lparr>st_pauses := snd p\<rparr>
         in if terminal_state \<in> set (RUN_END_TERMINAL_STATES @ RUN_TERMINAL_STATES)
            then bindR (apply_run_terminal_event env lane ev (rr_run_id row) s2) (\<lambda>(_, s3).
                   Inr (went_on row (fst p > 0) s3))
            else Inr (went_on row (fst p > 0) s2)))"

definition binding_signal :: "runtime_event \<Rightarrow> runtime_row \<Rightarrow> runtime_row" where
  "binding_signal ev st = (case ev_session_id ev of None \<Rightarrow> st | Some sid \<Rightarrow> st\<lparr>rr_session_id := Some sid\<rparr>)"

text \<open>
  The identity columns, updated before the signal is looked at. A row that moves to another session
  takes the event's thread, or the session's primary thread in the archive.
\<close>

definition rebind_thread :: "runtime_env \<Rightarrow> lane \<Rightarrow> runtime_event \<Rightarrow> runtime_row \<Rightarrow> runtime_store \<Rightarrow> (string option \<times> runtime_store) res" where
  "rebind_thread env lane ev st s =
     (case ev_thread_id ev of
        Some tid \<Rightarrow> Inr (Some tid, s)
      | None \<Rightarrow>
        (case ev_session_id ev of
           None \<Rightarrow> Inr (rr_thread_id st, s)
         | Some sid \<Rightarrow> (if rr_session_id st \<noteq> Some sid \<and> lane = Archive_lane
                         then ensure_thread_id_for_session env sid s else Inr (rr_thread_id st, s))))"

definition rebound_row :: "runtime_event \<Rightarrow> string option \<Rightarrow> runtime_row \<Rightarrow> runtime_row" where
  "rebound_row ev tid st = st\<lparr>rr_session_id := option_or (ev_session_id ev) (rr_session_id st), rr_thread_id := tid,
     rr_run_id := option_or (ev_run_id ev) (rr_run_id st),
     rr_provider := (if ev_provider ev = [] then rr_provider st else ev_provider ev),
     rr_device_id := option_or (ev_device_id ev) (rr_device_id st)\<rparr>"

definition rebind :: "runtime_env \<Rightarrow> lane \<Rightarrow> runtime_event \<Rightarrow> runtime_row \<Rightarrow> runtime_store \<Rightarrow> (runtime_row \<times> runtime_store) res" where
  "rebind env lane ev st s =
     bindR (rebind_thread env lane ev st s) (\<lambda>(tid, s1). Inr (rebound_row ev tid st, s1))"

definition opens_new_run :: "runtime_event \<Rightarrow> runtime_row \<Rightarrow> bool" where
  "opens_new_run ev st \<longleftrightarrow> ev_run_id ev \<noteq> None \<and> ev_run_id ev \<noteq> rr_run_id st"

definition apply_to_row ::
  "runtime_env \<Rightarrow> lane \<Rightarrow> runtime_event \<Rightarrow> runtime_row \<Rightarrow> runtime_store \<Rightarrow> step_result res" where
  "apply_to_row env lane ev st s =
     (let existing = clean_or_default (clean (rs_terminal_state st)) [];
          incoming = payload_text (ev_payload ev) ''terminal_state'' [];
          ended = (existing \<in> set (RUN_END_TERMINAL_STATES @ RUN_TERMINAL_STATES) \<and> \<not> opens_new_run ev st) in
      if existing \<in> set EXPLICIT_CLOSED_TERMINAL_STATES then Inr (returned Protected_session_ended st s)
      else if ended \<and> ev_kind ev = Terminal_signal \<and> incoming \<in> set RUN_TERMINAL_STATES then
        bindR (apply_run_terminal_event env lane ev (rr_run_id st) s) (\<lambda>(changed, s').
          Inr (returned (if changed then Applied else Protected_terminal) st s'))
      else if ended \<and> \<not> (ev_kind ev = Terminal_signal \<and> incoming \<in> set EXPLICIT_CLOSED_TERMINAL_STATES)
      then Inr (returned Protected_terminal st s)
      else bindR (rebind env lane ev st s) (\<lambda>(st1, s1).
        case ev_kind ev of
          Phase_signal \<Rightarrow> phase_signal env lane ev st st1 s1
        | Progress_signal \<Rightarrow> Inr (progress_signal ev st1 s1)
        | Terminal_signal \<Rightarrow> terminal_signal env lane ev st1 s1
        | Binding_signal \<Rightarrow> Inr (went_on (binding_signal ev st1) False s1)
        | _ \<Rightarrow> Inr (went_on st1 False s1)))"

text \<open>The common tail, and the flush of the row.\<close>

definition settle :: "runtime_env \<Rightarrow> runtime_row \<Rightarrow> step_result \<Rightarrow> apply_outcome \<times> runtime_store" where
  "settle env before res =
     (let row = sr_row res;
          changed = (state_snapshot row \<noteq> state_snapshot before) in
      case sr_early res of
        Some oc \<Rightarrow> (oc, put_row (stamp_updated env before row) (sr_store res))
      | None \<Rightarrow>
        (if changed then Applied else if sr_pause_changed res then Applied else Ignored,
         put_row (stamp_updated env before (if changed then bump_version row else row)) (sr_store res)))"

subsection \<open>Pause events on the live lane\<close>

definition clear_interaction :: "runtime_row \<Rightarrow> runtime_row" where
  "clear_interaction r = r\<lparr>rr_pending_interaction_id := None, rr_pending_interaction_kind := None,
     rr_pending_interaction_opened_at := None, rr_pending_interaction_can_respond := 0,
     rr_pending_interaction_projection := None\<rparr>"

definition open_interaction :: "runtime_env \<Rightarrow> runtime_event \<Rightarrow> runtime_row \<Rightarrow> runtime_row" where
  "open_interaction env ev r = r\<lparr>rr_pending_interaction_id := Some (pause_runtime_request_key ev),
     rr_pending_interaction_kind := Some (py_strip (py_str (py_or (dget (ev_payload ev) ''kind'') (PStr ''structured_question'')))),
     rr_pending_interaction_opened_at := Some (utc_dt (event_at ev)),
     rr_pending_interaction_can_respond := (if truthy (dget (ev_payload ev) ''can_respond'') then 1 else 0),
     rr_pending_interaction_projection := Some (build_pause_runtime_projection (rt_lib env) (rt_uuid5 env) ev)\<rparr>"

text \<open>A pause event older than the last one is ignored; a request does not reopen at the same instant.\<close>

definition interaction_event_stale :: "runtime_event \<Rightarrow> runtime_row \<Rightarrow> bool" where
  "interaction_event_stale ev r = (case normalize_utc (rr_pending_interaction_updated_at r) of
       None \<Rightarrow> False
     | Some t \<Rightarrow> event_at ev < t \<or> (event_at ev = t \<and> ev_kind ev = Pause_request))"

definition touch_interaction :: "runtime_event \<Rightarrow> runtime_row \<Rightarrow> runtime_row" where
  "touch_interaction ev r = (bump_version r)\<lparr>rr_pending_interaction_updated_at := Some (utc_dt (event_at ev)),
     rs_updated_at := Some (utc_dt (case normalize_utc (rs_updated_at r) of
         None \<Rightarrow> event_at ev | Some t \<Rightarrow> max t (event_at ev)))\<rparr>"

definition live_pause_event ::
  "runtime_env \<Rightarrow> runtime_event \<Rightarrow> runtime_store \<Rightarrow> (apply_outcome \<times> runtime_store) res" where
  "live_pause_event env ev s = bindR (ensure_state env Live_lane ev s) (\<lambda>(st, s1).
     if interaction_event_stale ev st then Inr (Ignored, s1)
     else if ev_kind ev = Pause_request
     then Inr (Applied, put_row (touch_interaction ev (open_interaction env ev st)) s1)
     else if rr_pending_interaction_id st \<noteq> None \<and>
             rr_pending_interaction_id st \<noteq> Some (pause_runtime_request_key ev) then Inr (Ignored, s1)
     else Inr (Applied, put_row (touch_interaction ev (clear_interaction st)) s1))"

definition apply_runtime_event ::
  "runtime_env \<Rightarrow> lane \<Rightarrow> runtime_event \<Rightarrow> runtime_store \<Rightarrow> (apply_outcome \<times> runtime_store) res" where
  "apply_runtime_event env lane ev s =
     (if ev_kind ev \<in> {Pause_request, Pause_resolution} then
        (case lane of
           Live_lane \<Rightarrow> live_pause_event env ev s
         | Archive_lane \<Rightarrow>
             (let r = apply_pause_runtime_event (rt_lib env) (rt_orm env)
                        (\<lambda>sid. list_ex (\<lambda>x. sn_id x = sid) (st_sessions s)) ev (st_pauses s)
              in Inr (if fst r then Applied else Ignored, s\<lparr>st_pauses := snd r\<rparr>)))
      else bindR (ensure_state env lane ev s) (\<lambda>(st, s1).
        bindR (apply_to_row env lane ev st s1) (\<lambda>res. Inr (settle env st res))))"

text \<open>
  \<open>session_input_block_reason\<close>: why input cannot target the current run, from the row
  \<open>load_runtime_state_map\<close> serves for the session.
\<close>

definition session_input_block_reason :: "runtime_state option \<Rightarrow> string option" where
  "session_input_block_reason row =
     (let t = clean_or_default (clean (case row of None \<Rightarrow> None | Some r \<Rightarrow> rs_terminal_state r)) [] in
      if t \<in> set EXPLICIT_CLOSED_TERMINAL_STATES then Some ''session_closed''
      else if t \<in> set (RUN_END_TERMINAL_STATES @ RUN_TERMINAL_STATES) then Some ''run_ended''
      else if t \<in> set ([[], ''finished''] @ UNVERIFIED_TERMINAL_STATES) then None
      else Some ''run_ended'')"

definition session_is_closed_for_input :: "runtime_state option \<Rightarrow> bool" where
  "session_is_closed_for_input row \<longleftrightarrow> session_input_block_reason row \<noteq> None"

end
