(* ===== verification/Live_Previews.thy ===== *)
theory Live_Previews
  imports Runtime_Reducer
begin

text \<open>
  \<open>services/session_live_previews.py\<close>: the provisional transcript preview of a session, built from the
  progress events of the codex, cursor and opencode adapters and kept as one row per session. A preview
  gives way to a later one of the same turn, to a newer turn, and to the durable transcript.
\<close>

definition LIVE_PREVIEW_SOURCES :: "string list" where
  "LIVE_PREVIEW_SOURCES = [''codex_bridge_live'', ''codex_console_live'', ''cursor_print'', ''opencode_run'']"

definition EVENT_ORIGIN_LIVE_PROVISIONAL :: string where
  "EVENT_ORIGIN_LIVE_PROVISIONAL = ''live_provisional''"

record preview_candidate =
  pc_session_id :: string
  pc_thread_id :: "string option"
  pc_turn_key :: string
  pc_seq :: "int option"
  pc_preview_text :: string
  pc_provisional_cursor :: string
  pc_provisional_complete :: bool
  pc_preview_observed_at :: instant
  pc_source :: string
  pc_last_observation_id :: string
  pc_tool_name :: "string option"
  pc_tool_input :: "pydict option"
  pc_tool_output_text :: "string option"
  pc_tool_call_id :: "string option"
  pc_tool_call_state :: "string option"

subsection \<open>Identity of a preview\<close>

text \<open>\<open>build_provisional_key\<close> and \<open>build_provisional_cursor\<close> of \<open>services/provisional_events.py\<close>.\<close>

definition clean_identity_part :: "string option \<Rightarrow> string \<Rightarrow> string" where
  "clean_identity_part v fallback = clean_or_default (clean v) fallback"

definition build_provisional_key :: "string \<Rightarrow> string \<Rightarrow> string option \<Rightarrow> string option \<Rightarrow> string" where
  "build_provisional_key source sid thread_id turn_id = join '':''
     [source, sid, clean_identity_part thread_id ''unknown-thread'', clean_identity_part turn_id ''unknown-turn'']"

definition build_provisional_cursor :: "string \<Rightarrow> int option \<Rightarrow> string" where
  "build_provisional_cursor key seq =
     (case seq of Some n \<Rightarrow> key @ '':'' @ dec_int n | None \<Rightarrow> key @ '':unknown-seq'')"

definition item_scoped_turn_id :: "string option \<Rightarrow> string option \<Rightarrow> string option" where
  "item_scoped_turn_id turn_id item_id = (case or_none item_id of
       None \<Rightarrow> turn_id
     | Some i \<Rightarrow> Some (clean_or_default (or_none turn_id) ''unknown-turn'' @ ''#'' @ i))"

definition coerce_seq :: "pyval \<Rightarrow> int option" where
  "coerce_seq v = (case v of PBool _ \<Rightarrow> None | PInt i \<Rightarrow> Some i | _ \<Rightarrow> int_of_text (py_str v))"

definition tool_call_state :: "pyval \<Rightarrow> bool \<Rightarrow> string" where
  "tool_call_state v completed =
     (if completed \<or> py_lower (clean_or_default (py_text v) []) \<in> {''completed'', ''failed'', ''cancelled''}
      then ''completed'' else ''running'')"

text \<open>\<open>str(value or "")\<close>\<close>

definition str_or_empty :: "pyval \<Rightarrow> string" where
  "str_or_empty v = py_str (py_or v (PStr []))"

definition as_dict :: "pyval \<Rightarrow> pydict" where
  "as_dict v = (case v of PDict d \<Rightarrow> d | _ \<Rightarrow> [])"

text \<open>\<open>json.dumps\<close> with the default separators; with \<open>sort\<close>, keys in order.\<close>

fun py_json :: "bool \<Rightarrow> pyval \<Rightarrow> string res"
  and py_json_list :: "bool \<Rightarrow> pyval list \<Rightarrow> string list res"
  and py_json_items :: "bool \<Rightarrow> (string \<times> pyval) list \<Rightarrow> (string \<times> string) list res" where
  "py_json srt PNone = Inr ''null''"
| "py_json srt (PBool b) = Inr (if b then ''true'' else ''false'')"
| "py_json srt (PInt i) = Inr (dec_int i)"
| "py_json srt (PFloat r) = Inr r"
| "py_json srt (PStr s) = Inr (json_str s)"
| "py_json srt (PList xs) = bindR (py_json_list srt xs) (\<lambda>ss. Inr (''['' @ join '', '' ss @ '']''))"
| "py_json srt (PDict d) = bindR (py_json_items srt d) (\<lambda>ps.
     Inr (''{'' @ join '', '' (map (\<lambda>(k, s). json_str k @ '': '' @ s) (if srt then sort_key fst ps else ps)) @ ''}''))"
| "py_json srt (PDatetime d) = Inl (TypeError ''Object of type datetime is not JSON serializable'')"
| "py_json_list srt [] = Inr []"
| "py_json_list srt (x # xs) = bindR (py_json srt x) (\<lambda>s. bindR (py_json_list srt xs) (\<lambda>ss. Inr (s # ss)))"
| "py_json_items srt [] = Inr []"
| "py_json_items srt ((k, v) # d) =
     bindR (py_json srt v) (\<lambda>s. bindR (py_json_items srt d) (\<lambda>ps. Inr ((k, s) # ps)))"

text \<open>The fields every adapter fills the same way.\<close>

definition text_candidate ::
  "runtime_event \<Rightarrow> string \<Rightarrow> string \<Rightarrow> string option \<Rightarrow> string option \<Rightarrow> string \<Rightarrow> bool \<Rightarrow> string \<Rightarrow> preview_candidate" where
  "text_candidate ev sid source thread_id turn_id preview complete observation_id =
     (let key = build_provisional_key source sid thread_id turn_id; seq = coerce_seq (dget (ev_payload ev) ''seq'') in
      \<lparr>pc_session_id = sid, pc_thread_id = thread_id, pc_turn_key = key, pc_seq = seq, pc_preview_text = preview,
       pc_provisional_cursor = build_provisional_cursor key seq, pc_provisional_complete = complete,
       pc_preview_observed_at = event_at ev, pc_source = source, pc_last_observation_id = observation_id,
       pc_tool_name = None, pc_tool_input = None, pc_tool_output_text = None, pc_tool_call_id = None,
       pc_tool_call_state = None\<rparr>)"

definition payload_thread_id :: "runtime_event \<Rightarrow> string option" where
  "payload_thread_id ev = py_text (py_or (dget (ev_payload ev) ''thread_id'') (opt_str (ev_thread_id ev)))"

definition payload_turn_id :: "runtime_event \<Rightarrow> string option" where
  "payload_turn_id ev = py_text (dget (ev_payload ev) ''turn_id'')"

subsection \<open>The codex adapter\<close>

definition codex_preview_candidate :: "runtime_event \<Rightarrow> string \<Rightarrow> string \<Rightarrow> preview_candidate option res" where
  "codex_preview_candidate ev sid observation_id =
     (let payload = ev_payload ev; kind = dget payload ''progress_kind'' in
      bindR (in_str_set kind [''bridge_live_transcript_delta'', ''console_live_tool_item'']) (\<lambda>known.
        if \<not> known then Inr None
        else let is_tool = (kind = PStr ''console_live_tool_item'');
                 command = clean_or_default (py_text (dget payload ''command'')) [];
                 out = str_or_empty (dget payload ''output'');
                 preview = (if is_tool then (if py_strip out \<noteq> [] then py_strip out else command)
                            else clean_or_default (py_text (dget payload ''live_text'')) []);
                 item_id = py_text (dget payload ''item_id'');
                 c = text_candidate ev sid (py_strip (ev_source ev)) (payload_thread_id ev)
                       (item_scoped_turn_id (payload_turn_id ev) item_id) preview
                       (truthy (py_or (dget payload ''turn_completed'') (dget payload ''completed''))) observation_id
             in if preview = [] then Inr None
                else Inr (Some (if is_tool then c\<lparr>
                  pc_tool_name := Some ''exec'', pc_tool_input := Some [(''command'', PStr command)],
                  pc_tool_output_text := or_none (Some out), pc_tool_call_id := item_id,
                  pc_tool_call_state := Some (tool_call_state (dget payload ''status'') (truthy (dget payload ''completed'')))\<rparr>
                  else c))))"

subsection \<open>The cursor adapter\<close>

definition cursor_tool_detail :: "pydict \<Rightarrow> string \<times> pydict option" where
  "cursor_tool_detail call =
     (case List.map_filter (\<lambda>(key, label). case dget call key of PDict d \<Rightarrow> Some (label, d) | _ \<Rightarrow> None)
             [(''shellToolCall'', ''Shell''), (''mcpToolCall'', ''MCP''), (''readToolCall'', ''Read''), (''writeToolCall'', ''Write'')] of
        [] \<Rightarrow> (''Tool'', None)
      | (label, d) # _ \<Rightarrow> (label, Some d))"

definition cursor_tool_output :: "pydict \<Rightarrow> pydict \<Rightarrow> string res" where
  "cursor_tool_output success rejected =
     (let texts = List.map_filter (\<lambda>v. case v of PStr s \<Rightarrow> or_none (Some s) | _ \<Rightarrow> None)
            (map (dget success) [''stdout'', ''interleavedOutput'', ''content'', ''output'', ''text''] @ [dget rejected ''reason''])
      in case texts of
           t # _ \<Rightarrow> Inr t
         | [] \<Rightarrow> (if success \<noteq> [] then py_json True (PDict success) else Inr []))"

definition block_text :: "pyval \<Rightarrow> string" where
  "block_text b = (case b of PDict d \<Rightarrow> (if dget d ''type'' = PStr ''text'' then str_or_empty (dget d ''text'') else []) | _ \<Rightarrow> [])"

definition cursor_tool_candidate :: "runtime_event \<Rightarrow> string \<Rightarrow> string \<Rightarrow> pydict \<Rightarrow> preview_candidate option res" where
  "cursor_tool_candidate ev sid observation_id raw =
     (case dget raw ''tool_call'' of
        PDict call \<Rightarrow>
          (case cursor_tool_detail call of
             (_, None) \<Rightarrow> Inr None
           | (tool_name, Some detail) \<Rightarrow>
             (let call_id = py_text (dget raw ''call_id''); args = as_dict (dget detail ''args'');
                  result = as_dict (dget detail ''result'');
                  command = clean_or_default (py_text (dget args ''command'')) [];
                  subtype = clean_or_default (py_text (dget raw ''subtype'')) [] in
              bindR (cursor_tool_output (as_dict (dget result ''success'')) (as_dict (dget result ''rejected''))) (\<lambda>out.
                Inr (Some ((text_candidate ev sid ''cursor_print'' (payload_thread_id ev)
                     (item_scoped_turn_id (payload_turn_id ev) call_id)
                     (if py_strip out \<noteq> [] then py_strip out else if command \<noteq> [] then command
                      else py_str (py_or (dget detail ''description'') (PStr tool_name)))
                     (subtype = ''completed'') observation_id)\<lparr>
                   pc_tool_name := Some tool_name, pc_tool_input := json_obj args, pc_tool_output_text := or_none (Some out),
                   pc_tool_call_id := call_id,
                   pc_tool_call_state := Some (if subtype = ''completed'' then ''completed'' else ''running'')\<rparr>)))))
      | _ \<Rightarrow> Inr None)"

definition cursor_print_preview_candidate :: "runtime_event \<Rightarrow> string \<Rightarrow> string \<Rightarrow> preview_candidate option res" where
  "cursor_print_preview_candidate ev sid observation_id =
     (case dget (ev_payload ev) ''event'' of
        PDict raw \<Rightarrow>
          (let raw_type = clean_or_default (py_text (dget raw ''type'')) [];
               plain = (\<lambda>t complete. if t = [] then Inr None else Inr (Some (text_candidate ev sid ''cursor_print''
                          (payload_thread_id ev) (payload_turn_id ev) t complete observation_id)))
           in if raw_type = ''result'' \<and> dget raw ''subtype'' = PStr ''success''
              then plain (clean_or_default (py_text (dget raw ''result'')) []) True
              else if raw_type = ''assistant''
              then plain (concat (map block_text (case dget (as_dict (dget raw ''message'')) ''content'' of PList bs \<Rightarrow> bs | _ \<Rightarrow> []))) False
              else if raw_type \<noteq> ''tool_call'' then Inr None
              else cursor_tool_candidate ev sid observation_id raw)
      | _ \<Rightarrow> Inr None)"

subsection \<open>The opencode adapter\<close>

definition opencode_run_preview_candidate :: "runtime_event \<Rightarrow> string \<Rightarrow> string \<Rightarrow> preview_candidate option res" where
  "opencode_run_preview_candidate ev sid observation_id =
     (case dget (ev_payload ev) ''event'' of
        PDict raw \<Rightarrow>
          (let part = as_dict (dget raw ''part''); raw_type = clean_or_default (py_text (dget raw ''type'')) [];
               part_type = str_or_empty (dget part ''type'') in
           if raw_type = ''text'' \<and> part_type = ''text'' then
             (let t = clean_or_default (py_text (dget part ''text'')) [] in
              if t = [] then Inr None
              else Inr (Some (text_candidate ev sid ''opencode_run'' (payload_thread_id ev) (payload_turn_id ev) t False observation_id)))
           else if raw_type \<noteq> ''tool_use'' \<or> part_type \<noteq> ''tool'' then Inr None
           else
             (let st = as_dict (dget part ''state''); tool_name = py_str (py_or (dget part ''tool'') (PStr ''Tool''));
                  call_id = py_text (dget part ''callID''); status = py_str (py_or (dget st ''status'') (PStr ''pending''));
                  tool_input = as_dict (dget st ''input''); out = str_or_empty (dget st ''output'') in
              bindR (if py_strip out \<noteq> [] then Inr (py_strip out) else py_json True (PDict tool_input)) (\<lambda>preview.
                Inr (Some ((text_candidate ev sid ''opencode_run'' (payload_thread_id ev)
                     (item_scoped_turn_id (payload_turn_id ev) call_id) preview (status \<in> {''completed'', ''error''}) observation_id)\<lparr>
                   pc_tool_name := Some tool_name, pc_tool_input := json_obj tool_input, pc_tool_output_text := or_none (Some out),
                   pc_tool_call_id := call_id,
                   pc_tool_call_state := Some (if status = ''error'' then ''failed''
                     else if status = ''completed'' then ''completed'' else ''running'')\<rparr>)))))
      | _ \<Rightarrow> Inr None)"

definition live_preview_candidate_from_runtime_event :: "runtime_event \<Rightarrow> string \<Rightarrow> preview_candidate option res" where
  "live_preview_candidate_from_runtime_event ev observation_id =
     (let provider = py_lower (py_strip (ev_provider ev)); source = py_lower (py_strip (ev_source ev));
          kind = dget (ev_payload ev) ''progress_kind'' in
      case ev_session_id ev of
        None \<Rightarrow> Inr None
      | Some sid \<Rightarrow>
        (if provider \<notin> {''codex'', ''cursor'', ''opencode''} then Inr None
         else if source \<notin> set LIVE_PREVIEW_SOURCES then Inr None
         else if ev_kind ev \<noteq> Progress_signal then Inr None
         else if provider = ''cursor'' \<and> source = ''cursor_print'' \<and> kind = PStr ''cursor_print_stream''
         then cursor_print_preview_candidate ev sid observation_id
         else if provider = ''opencode'' \<and> source = ''opencode_run'' \<and> kind = PStr ''opencode_run_stream''
         then opencode_run_preview_candidate ev sid observation_id
         else codex_preview_candidate ev sid observation_id))"

subsection \<open>The preview row\<close>

record preview_row =
  pw_session_id :: string
  pw_thread_id :: "string option"
  pw_turn_key :: string
  pw_seq :: "int option"
  pw_preview_text :: string
  pw_preview_role :: string
  pw_tool_name :: "string option"
  pw_tool_input_json :: "string option"
  pw_tool_output_text :: "string option"
  pw_tool_call_id :: "string option"
  pw_tool_call_state :: "string option"
  pw_provisional_cursor :: string
  pw_provisional_complete :: int
  pw_event_origin :: string
  pw_preview_observed_at :: "pydatetime option"
  pw_preview_updated_at :: instant
  pw_source :: string
  pw_last_observation_id :: string
  pw_superseded_at :: "pydatetime option"
  pw_superseded_by_event_id :: "int option"
  pw_superseded_reason :: "string option"

text \<open>A missing time reads as \<open>datetime.min\<close>.\<close>

definition preview_time :: "preview_row \<Rightarrow> instant" where
  "preview_time row = (case normalize_utc (pw_preview_observed_at row) of Some t \<Rightarrow> t | None \<Rightarrow> UTC min_us)"

definition candidate_should_replace :: "preview_candidate \<Rightarrow> preview_row \<Rightarrow> bool" where
  "candidate_should_replace c row =
     (if pc_turn_key c \<noteq> pw_turn_key row then pc_preview_observed_at c \<ge> preview_time row
      else case (pc_seq c, pw_seq row) of
             (Some a, Some b) \<Rightarrow> (if a \<noteq> b then a > b else pc_preview_observed_at c \<ge> preview_time row)
           | (Some _, None) \<Rightarrow> True
           | (None, Some _) \<Rightarrow> False
           | (None, None) \<Rightarrow> pc_preview_observed_at c \<ge> preview_time row)"

definition preview_refused :: "preview_candidate \<Rightarrow> preview_row \<Rightarrow> bool" where
  "preview_refused c row \<longleftrightarrow>
     pw_last_observation_id row = pc_last_observation_id c \<or>
     (case normalize_utc (pw_superseded_at row) of None \<Rightarrow> False | Some t \<Rightarrow> pc_preview_observed_at c \<le> t) \<or>
     \<not> candidate_should_replace c row"

definition row_of_candidate :: "instant \<Rightarrow> string option \<Rightarrow> preview_candidate \<Rightarrow> preview_row" where
  "row_of_candidate now tool_input_json c =
     \<lparr>pw_session_id = pc_session_id c, pw_thread_id = pc_thread_id c, pw_turn_key = pc_turn_key c, pw_seq = pc_seq c,
      pw_preview_text = pc_preview_text c, pw_preview_role = ''assistant'', pw_tool_name = pc_tool_name c,
      pw_tool_input_json = tool_input_json, pw_tool_output_text = pc_tool_output_text c,
      pw_tool_call_id = pc_tool_call_id c, pw_tool_call_state = pc_tool_call_state c,
      pw_provisional_cursor = pc_provisional_cursor c,
      pw_provisional_complete = (if pc_provisional_complete c then 1 else 0),
      pw_event_origin = EVENT_ORIGIN_LIVE_PROVISIONAL, pw_preview_observed_at = Some (utc_dt (pc_preview_observed_at c)),
      pw_preview_updated_at = now, pw_source = pc_source c, pw_last_observation_id = pc_last_observation_id c,
      pw_superseded_at = None, pw_superseded_by_event_id = None, pw_superseded_reason = None\<rparr>"

definition dumped_input :: "pydict option \<Rightarrow> string option res" where
  "dumped_input v = (case v of None \<Rightarrow> Inr None | Some d \<Rightarrow> bindR (py_json False (PDict d)) (\<lambda>j. Inr (Some j)))"

text \<open>
  \<open>upsert_live_session_live_preview\<close>: the row of the session is its primary key, so replacing every
  column and inserting write the same row.
\<close>

definition upsert_live_preview :: "instant \<Rightarrow> preview_candidate \<Rightarrow> preview_row list \<Rightarrow> (bool \<times> preview_row list) res" where
  "upsert_live_preview now c rows =
     (case find (\<lambda>r. pw_session_id r = pc_session_id c) rows of
        None \<Rightarrow> bindR (dumped_input (pc_tool_input c)) (\<lambda>j. Inr (True, rows @ [row_of_candidate now j c]))
      | Some row \<Rightarrow>
        (if preview_refused c row then Inr (False, rows)
         else bindR (dumped_input (pc_tool_input c)) (\<lambda>j.
           Inr (True, update_where (\<lambda>r. pw_session_id r = pc_session_id c) (\<lambda>_. row_of_candidate now j c) rows))))"

definition supersede_session_live_preview ::
  "instant \<Rightarrow> string \<Rightarrow> pydatetime option \<Rightarrow> int option \<Rightarrow> string \<Rightarrow> preview_row list \<Rightarrow> bool \<times> preview_row list" where
  "supersede_session_live_preview now sid durable_at event_id reason rows =
     (case find (\<lambda>r. pw_session_id r = sid) rows of
        None \<Rightarrow> (False, rows)
      | Some row \<Rightarrow>
        (case (normalize_utc durable_at, normalize_utc (pw_preview_observed_at row)) of
           (Some d, Some p) \<Rightarrow>
             (if pw_superseded_at row \<noteq> None \<or> d < p then (False, rows)
              else (True, update_where (\<lambda>r. pw_session_id r = sid)
                (\<lambda>r. r\<lparr>pw_superseded_at := Some (utc_dt d), pw_preview_updated_at := now,
                       pw_superseded_by_event_id := event_id, pw_superseded_reason := Some reason\<rparr>) rows))
         | _ \<Rightarrow> (False, rows)))"

subsection \<open>Properties of the preview row\<close>

definition preview_of :: "preview_row list \<Rightarrow> string \<Rightarrow> preview_row option" where
  "preview_of rows sid = find (\<lambda>r. pw_session_id r = sid) rows"

lemma preview_of_put:
  "pw_session_id row = k \<Longrightarrow> preview_of (update_where (\<lambda>r. pw_session_id r = k) (\<lambda>_. row) rows) k = map_option (\<lambda>_. row) (preview_of rows k)"
  by (simp add: preview_of_def find_update_same[of "\<lambda>r. pw_session_id r = k" "\<lambda>_. row"])

lemma upsert_replaces:
  assumes "upsert_live_preview now c rows = Inr (ch, rows')" and "preview_of rows (pc_session_id c) = Some old"
  shows "(if preview_refused c old then rows' = rows \<and> \<not> ch
          else ch \<and> (\<exists>j. preview_of rows' (pc_session_id c) = Some (row_of_candidate now j c)))"
proof (cases "preview_refused c old")
  case True
  then show ?thesis using assms by (simp add: upsert_live_preview_def preview_of_def)
next
  case False
  then obtain j where "ch" and r: "rows' = update_where (\<lambda>r. pw_session_id r = pc_session_id c) (\<lambda>_. row_of_candidate now j c) rows"
    using assms by (auto simp: upsert_live_preview_def preview_of_def)
  have "pw_session_id (row_of_candidate now j c) = pc_session_id c" by (simp add: row_of_candidate_def)
  from preview_of_put[OF this] show ?thesis using False \<open>ch\<close> assms(2) by (auto simp: r)
qed

text \<open>
  A live preview never goes backwards. When an upsert replaces the row of a session, the new row was
  observed after the durable transcript that superseded the old one, if any; within one turn its sequence
  number does not drop (a numbered preview is never replaced by an unnumbered one); across turns, and at
  the same number, it was observed no earlier. An observation already stored changes nothing.
\<close>

theorem preview_never_goes_back:
  assumes "upsert_live_preview now c rows = Inr (ch, rows')" and "preview_of rows (pc_session_id c) = Some old"
    and "preview_of rows' (pc_session_id c) = Some new" and "new \<noteq> old"
  shows "pw_last_observation_id old \<noteq> pw_last_observation_id new \<and>
    (\<forall>t. normalize_utc (pw_superseded_at old) = Some t \<longrightarrow> t < preview_time new) \<and>
    (if pw_turn_key new = pw_turn_key old \<and> pw_seq new \<noteq> pw_seq old
     then (\<exists>n. pw_seq new = Some n \<and> (\<forall>m. pw_seq old = Some m \<longrightarrow> m < n))
     else preview_time old \<le> preview_time new)"
proof -
  have nr: "\<not> preview_refused c old" and new: "\<exists>j. new = row_of_candidate now j c"
    using upsert_replaces[OF assms(1,2)] assms(2,3,4) by (auto split: if_splits)
  then have cols: "pw_turn_key new = pc_turn_key c" "pw_seq new = pc_seq c" "preview_time new = pc_preview_observed_at c"
    "pw_last_observation_id new = pc_last_observation_id c"
    by (auto simp: row_of_candidate_def preview_time_def)
  have "\<forall>t. normalize_utc (pw_superseded_at old) = Some t \<longrightarrow> t < preview_time new"
    using nr by (auto simp: preview_refused_def cols not_le)
  moreover have "if pw_turn_key new = pw_turn_key old \<and> pw_seq new \<noteq> pw_seq old
     then (\<exists>n. pw_seq new = Some n \<and> (\<forall>m. pw_seq old = Some m \<longrightarrow> m < n))
     else preview_time old \<le> preview_time new"
    using nr by (auto simp: preview_refused_def candidate_should_replace_def cols split: option.splits if_splits)
  ultimately show ?thesis using nr by (auto simp: preview_refused_def cols)
qed

definition demo_candidate :: "int \<Rightarrow> preview_candidate" where
  "demo_candidate n = \<lparr>pc_session_id = ''s1'', pc_thread_id = None, pc_turn_key = ''k'', pc_seq = Some n,
     pc_preview_text = ''hi'', pc_provisional_cursor = ''k:1'', pc_provisional_complete = False,
     pc_preview_observed_at = UTC n, pc_source = ''codex_bridge_live'', pc_last_observation_id = dec_int n,
     pc_tool_name = None, pc_tool_input = None, pc_tool_output_text = None, pc_tool_call_id = None,
     pc_tool_call_state = None\<rparr>"

theorem preview_never_goes_back_witness:
  "upsert_live_preview (UTC 9) (demo_candidate 2) [row_of_candidate (UTC 8) None (demo_candidate 1)] =
     Inr (True, [row_of_candidate (UTC 9) None (demo_candidate 2)]) \<and>
   pw_last_observation_id (row_of_candidate (UTC 8) None (demo_candidate 1)) \<noteq>
     pw_last_observation_id (row_of_candidate (UTC 9) None (demo_candidate 2))"
proof -
  have up: "upsert_live_preview (UTC 9) (demo_candidate 2) [row_of_candidate (UTC 8) None (demo_candidate 1)] =
     Inr (True, [row_of_candidate (UTC 9) None (demo_candidate 2)])" by code_simp
  have "preview_of [row_of_candidate (UTC 8) None (demo_candidate 1)] (pc_session_id (demo_candidate 2)) =
      Some (row_of_candidate (UTC 8) None (demo_candidate 1))"
    "preview_of [row_of_candidate (UTC 9) None (demo_candidate 2)] (pc_session_id (demo_candidate 2)) =
      Some (row_of_candidate (UTC 9) None (demo_candidate 2))"
    "row_of_candidate (UTC 9) None (demo_candidate 2) \<noteq> row_of_candidate (UTC 8) None (demo_candidate 1)" by code_simp+
  from preview_never_goes_back[OF up this] up show ?thesis by blast
qed

end
