(* ===== verification/Live_Ingest.thy ===== *)
theory Live_Ingest
  imports Live_Previews
begin

text \<open>
  The live lane as one transaction: \<open>services/live_session_state.py\<close>, the index of recently seen
  sessions, and \<open>ingest_live_runtime_events\<close> of \<open>services/session_runtime.py\<close>, which folds a batch of
  runtime events into the live store (previews, runtime rows, session index).
\<close>

subsection \<open>The session index\<close>

record live_session =
  lv_session_id :: string
  lv_owner_id :: "string option"
  lv_provider :: string
  lv_device_id :: "string option"
  lv_machine_id :: "string option"
  lv_state :: string
  lv_started_at :: "instant option"
  lv_last_seen_at :: "pydatetime option"
  lv_updated_at :: instant

definition normalized_text :: "string option \<Rightarrow> string" where
  "normalized_text v = py_strip (clean_or_default v [])"

definition lower_or_unknown :: "string option \<Rightarrow> string" where
  "lower_or_unknown v = clean_or_default (or_none (Some (py_lower (normalized_text v)))) ''unknown''"

text \<open>The live session a runtime event touches: an ended or missing one is observed again.\<close>

definition touched_session :: "runtime_event \<Rightarrow> string \<Rightarrow> live_session option \<Rightarrow> live_session" where
  "touched_session ev sid existing =
     (case existing of
        None \<Rightarrow> \<lparr>lv_session_id = sid, lv_owner_id = None,
            lv_provider = lower_or_unknown (Some (ev_provider ev)),
            lv_device_id = or_none (Some (normalized_text (ev_device_id ev))), lv_machine_id = None,
            lv_state = ''observed'', lv_started_at = Some (event_at ev), lv_last_seen_at = None, lv_updated_at = event_at ev\<rparr>
      | Some row \<Rightarrow> (if lv_state row \<in> {''missing'', ''ended'', ''unknown''} then row\<lparr>lv_state := ''observed''\<rparr> else row))"

definition see_session :: "instant \<Rightarrow> runtime_event \<Rightarrow> live_session \<Rightarrow> live_session" where
  "see_session seen_at ev row = row\<lparr>
     lv_device_id := (case or_none (Some (normalized_text (ev_device_id ev))) of
         Some d \<Rightarrow> (case or_none (lv_device_id row) of None \<Rightarrow> Some d | Some _ \<Rightarrow> lv_device_id row)
       | None \<Rightarrow> lv_device_id row),
     lv_last_seen_at := (case normalize_utc (lv_last_seen_at row) of
         None \<Rightarrow> Some (utc_dt (event_at ev))
       | Some t \<Rightarrow> (if event_at ev > t then Some (utc_dt (event_at ev)) else lv_last_seen_at row)),
     lv_updated_at := seen_at\<rparr>"

definition touch_live_session :: "instant \<Rightarrow> runtime_event \<Rightarrow> live_session list \<Rightarrow> live_session list" where
  "touch_live_session seen_at ev rows =
     (case ev_session_id ev of
        None \<Rightarrow> rows
      | Some sid \<Rightarrow>
        (case find (\<lambda>r. lv_session_id r = sid) rows of
           None \<Rightarrow> rows @ [see_session seen_at ev (touched_session ev sid None)]
         | Some row \<Rightarrow> update_where (\<lambda>r. lv_session_id r = sid)
             (\<lambda>r. see_session seen_at ev (touched_session ev sid (Some r))) rows))"

definition touch_live_sessions_from_runtime_events ::
  "instant \<Rightarrow> runtime_event list \<Rightarrow> live_session list \<Rightarrow> live_session list" where
  "touch_live_sessions_from_runtime_events seen_at events rows = fold (touch_live_session seen_at) events rows"

text \<open>
  \<open>upsert_live_sessions_from_managed_leases\<close>: the heartbeat's managed leases. \<open>parse_uuid\<close> is
  \<open>UUID(str(value))\<close>, which rejects malformed text.
\<close>

record managed_lease =
  ml_session_id :: string
  ml_provider :: "string option"
  ml_state :: "string option"
  ml_machine_id :: "string option"
  ml_observed_at :: "pydatetime option"

definition leased_session ::
  "instant \<Rightarrow> string option \<Rightarrow> string option \<Rightarrow> managed_lease \<Rightarrow> string \<Rightarrow> live_session option \<Rightarrow> live_session" where
  "leased_session seen_at device_id owner_id lease sid existing =
     (let base = (case existing of
          Some row \<Rightarrow> row
        | None \<Rightarrow> \<lparr>lv_session_id = sid, lv_owner_id = None, lv_provider = lower_or_unknown (ml_provider lease),
            lv_device_id = device_id, lv_machine_id = None, lv_state = ''unknown'',
            lv_started_at = option_or (normalize_utc (ml_observed_at lease)) (Some seen_at),
            lv_last_seen_at = None, lv_updated_at = seen_at\<rparr>)
      in base\<lparr>lv_owner_id := option_or owner_id (lv_owner_id base), lv_provider := lower_or_unknown (ml_provider lease),
              lv_device_id := device_id, lv_machine_id := or_none (Some (normalized_text (ml_machine_id lease))),
              lv_state := lower_or_unknown (ml_state lease), lv_last_seen_at := Some (utc_dt seen_at), lv_updated_at := seen_at\<rparr>)"

definition upsert_live_sessions_from_managed_leases ::
  "(string \<Rightarrow> string option) \<Rightarrow> instant \<Rightarrow> string \<Rightarrow> string option \<Rightarrow> managed_lease list \<Rightarrow> live_session list
   \<Rightarrow> string list \<times> live_session list" where
  "upsert_live_sessions_from_managed_leases parse_uuid seen_at device_id owner_id leases rows = fold
     (\<lambda>lease (touched, rows). case parse_uuid (ml_session_id lease) of
        None \<Rightarrow> (touched, rows)
      | Some sid \<Rightarrow>
        (let dev = or_none (Some (normalized_text (Some device_id))); own = or_none (Some (normalized_text owner_id)) in
         (List.insert sid touched,
          case find (\<lambda>r. lv_session_id r = sid) rows of
            None \<Rightarrow> rows @ [leased_session seen_at dev own lease sid None]
          | Some row \<Rightarrow> update_where (\<lambda>r. lv_session_id r = sid)
              (\<lambda>r. leased_session seen_at dev own lease sid (Some r)) rows))) leases ([], rows)"

text \<open>
  \<open>mark_missing_live_sessions\<close>: the device's sessions that its heartbeat left out, unless something saw
  them since.
\<close>

definition goes_missing :: "instant \<Rightarrow> string \<Rightarrow> string list \<Rightarrow> live_session \<Rightarrow> bool" where
  "goes_missing seen_at device_id seen r \<longleftrightarrow>
     lv_device_id r = Some device_id \<and> lv_state r \<notin> {''missing'', ''ended''} \<and> lv_session_id r \<notin> set seen \<and>
     (case normalize_utc (lv_last_seen_at r) of None \<Rightarrow> True | Some t \<Rightarrow> t < seen_at)"

definition mark_missing_live_sessions ::
  "instant \<Rightarrow> string \<Rightarrow> string list \<Rightarrow> live_session list \<Rightarrow> string list \<times> live_session list" where
  "mark_missing_live_sessions seen_at device_id seen rows =
     (let dev = normalized_text (Some device_id) in
      if dev = [] then ([], rows)
      else (map lv_session_id (filter (goes_missing seen_at dev seen) rows),
            update_where (goes_missing seen_at dev seen) (\<lambda>r. r\<lparr>lv_state := ''missing'', lv_updated_at := seen_at\<rparr>) rows))"

text \<open>\<open>list_active_live_session_ids\<close>: recently seen, not gone, not put away by the user.\<close>

definition listed_session :: "session_rec list \<Rightarrow> instant \<Rightarrow> live_session \<Rightarrow> bool" where
  "listed_session catalog cutoff r \<longleftrightarrow>
     lv_state r \<notin> {''missing'', ''ended''} \<and>
     (\<exists>c \<in> set catalog. sn_id c = lv_session_id r \<and> sn_user_state c \<notin> {''archived'', ''snoozed''} \<and>
        sn_user_hidden_from_timeline c = 0) \<and>
     (case normalize_utc (lv_last_seen_at r) of None \<Rightarrow> False | Some t \<Rightarrow> t \<ge> cutoff)"

definition list_active_live_session_ids ::
  "nat \<Rightarrow> int \<Rightarrow> instant \<Rightarrow> session_rec list \<Rightarrow> live_session list \<Rightarrow> string list" where
  "list_active_live_session_ids limit days_back now catalog rows =
     (let cutoff = UTC (utc_us now - days_back * 86400000000) in
      map lv_session_id (take limit (sort_desc
        (\<lambda>r. (opt_us (normalize_utc (lv_last_seen_at r)), utc_us (lv_updated_at r), lv_session_id r))
        (filter (listed_session catalog cutoff) rows))))"

subsection \<open>A batch of events\<close>

record live_store = runtime_store +
  ls_previews :: "preview_row list"
  ls_live_sessions :: "live_session list"

record batch_result =
  br_accepted :: nat
  br_duplicates :: nat
  br_updated_runtime_keys :: "string list"

definition set_runtime :: "runtime_store \<Rightarrow> live_store \<Rightarrow> live_store" where
  "set_runtime r s = s\<lparr>st_rows := st_rows r, st_kernel := st_kernel r, st_sessions := st_sessions r,
     st_turns := st_turns r, st_inputs := st_inputs r, st_pauses := st_pauses r\<rparr>"

text \<open>One event of the loop: its preview, then the reducer.\<close>

definition ingest_live_event ::
  "runtime_env \<Rightarrow> runtime_event \<Rightarrow> string list \<times> live_store \<Rightarrow> (string list \<times> live_store) res" where
  "ingest_live_event env ev acc = (case acc of (keys, s) \<Rightarrow>
     bindR (live_preview_candidate_from_runtime_event ev (''live:'' @ ev_source ev @ '':'' @ ev_dedupe_key ev)) (\<lambda>cand.
     bindR (case cand of None \<Rightarrow> Inr (ls_previews s)
            | Some c \<Rightarrow> bindR (upsert_live_preview (oe_now (rt_orm env)) c (ls_previews s)) (\<lambda>(_, rows). Inr rows)) (\<lambda>previews.
     bindR (apply_runtime_event env Live_lane ev (runtime_store.truncate s)) (\<lambda>(oc, r).
       Inr (if oc = Applied \<and> ev_runtime_key ev \<notin> set keys then keys @ [ev_runtime_key ev] else keys,
            set_runtime r (s\<lparr>ls_previews := previews\<rparr>))))))"

definition ingest_live_runtime_events ::
  "runtime_env \<Rightarrow> runtime_event list \<Rightarrow> live_store \<Rightarrow> (batch_result \<times> live_store) res" where
  "ingest_live_runtime_events env events s = bindR (foldR (ingest_live_event env) events ([], s)) (\<lambda>(keys, s').
     Inr (\<lparr>br_accepted = length events, br_duplicates = 0, br_updated_runtime_keys = keys\<rparr>,
          s'\<lparr>ls_live_sessions := touch_live_sessions_from_runtime_events (oe_now (rt_orm env)) events (ls_live_sessions s')\<rparr>))"

subsection \<open>A reporting session is listed\<close>

definition seen_since :: "string \<Rightarrow> instant \<Rightarrow> live_session list \<Rightarrow> bool" where
  "seen_since sid t rows \<longleftrightarrow> (\<exists>r. find (\<lambda>r. lv_session_id r = sid) rows = Some r \<and>
     lv_state r \<notin> {''missing'', ''ended''} \<and> (\<exists>u. normalize_utc (lv_last_seen_at r) = Some u \<and> t \<le> u))"

lemma touched_simps [simp]:
  "lv_session_id (touched_session ev sid None) = sid"
  "lv_session_id (touched_session ev sid (Some r)) = lv_session_id r"
  "lv_state (touched_session ev sid x) \<notin> {''missing'', ''ended''}"
  "lv_last_seen_at (touched_session ev sid (Some r)) = lv_last_seen_at r"
  by (auto simp: touched_session_def split: option.splits)

lemma see_simps [simp]: "lv_session_id (see_session at ev r) = lv_session_id r" "lv_state (see_session at ev r) = lv_state r"
  by (simp_all add: see_session_def)

lemma see_last:
  "\<exists>u. normalize_utc (lv_last_seen_at (see_session at ev r)) = Some u \<and> event_at ev \<le> u \<and>
     (\<forall>t. normalize_utc (lv_last_seen_at r) = Some t \<longrightarrow> t \<le> u)"
  by (cases "normalize_utc (lv_last_seen_at r)") (auto simp: see_session_def)

lemma touch_establishes:
  assumes "ev_session_id ev = Some sid"
  shows "seen_since sid (event_at ev) (touch_live_session at ev rows)"
proof (cases "find (\<lambda>r. lv_session_id r = sid) rows")
  case None
  let ?r = "see_session at ev (touched_session ev sid None)"
  have "find (\<lambda>r. lv_session_id r = sid) (touch_live_session at ev rows) = Some ?r"
    using None assms by (simp add: touch_live_session_def find_snoc)
  then show ?thesis using see_last[of at ev "touched_session ev sid None"] touched_simps(3)[of ev sid None]
    by (auto simp: seen_since_def)
next
  case (Some row)
  let ?f = "\<lambda>r. see_session at ev (touched_session ev sid (Some r))"
  have "find (\<lambda>r. lv_session_id r = sid) (touch_live_session at ev rows) = Some (?f row)"
    using Some assms by (simp add: touch_live_session_def find_update_same)
  then show ?thesis using see_last[of at ev "touched_session ev sid (Some row)"] touched_simps(3)[of ev sid "Some row"]
    by (auto simp: seen_since_def)
qed

lemma touch_keeps:
  assumes "seen_since sid t rows"
  shows "seen_since sid t (touch_live_session at ev rows)"
proof -
  obtain r u where r: "find (\<lambda>r. lv_session_id r = sid) rows = Some r" "lv_state r \<notin> {''missing'', ''ended''}"
    "normalize_utc (lv_last_seen_at r) = Some u" "t \<le> u"
    using assms unfolding seen_since_def by blast
  show ?thesis
  proof (cases "ev_session_id ev")
    case None
    then show ?thesis using assms by (simp add: touch_live_session_def)
  next
    case (Some k)
    show ?thesis
    proof (cases "k = sid")
      case True
      let ?f = "\<lambda>r. see_session at ev (touched_session ev sid (Some r))"
      have "find (\<lambda>r. lv_session_id r = sid) (touch_live_session at ev rows) = Some (?f r)"
        using r(1) Some True by (simp add: touch_live_session_def find_update_same)
      moreover obtain v where "normalize_utc (lv_last_seen_at (?f r)) = Some v" "u \<le> v"
        using see_last[of at ev "touched_session ev sid (Some r)"] r(3) by auto
      ultimately show ?thesis using r(4) touched_simps(3)[of ev sid "Some r"] unfolding seen_since_def
        by (intro exI[of _ "?f r"]) (auto intro: order_trans)
    next
      case False
      then have "find (\<lambda>r. lv_session_id r = sid) (touch_live_session at ev rows) = Some r"
        using r(1) Some by (auto simp: touch_live_session_def find_snoc find_update_other split: option.splits)
      then show ?thesis using r unfolding seen_since_def by blast
    qed
  qed
qed

lemma fold_touch_seen:
  assumes "ev \<in> set events" and "ev_session_id ev = Some sid"
  shows "seen_since sid (event_at ev) (fold (touch_live_session at) events rows)"
proof -
  have keeps: "seen_since sid t rows \<Longrightarrow> seen_since sid t (fold (touch_live_session at) evs rows)" for evs rows t
    by (induction evs arbitrary: rows) (simp_all add: touch_keeps)
  show ?thesis using assms
    by (induction events arbitrary: rows) (auto intro: keeps touch_establishes)
qed

text \<open>
  A session that reports is listed: after a batch is ingested, a session some event of the batch
  names, at a time inside the look-back window, is among the active sessions whenever the catalog shows
  it (neither archived, snoozed nor hidden) and the list is not cut short, whatever its state was before.
\<close>

theorem reporting_session_is_listed:
  assumes ing: "ingest_live_runtime_events env events s = Inr (br, s')"
    and ev: "ev \<in> set events" "ev_session_id ev = Some sid"
    and window: "UTC (utc_us now - days_back * 86400000000) \<le> event_at ev"
    and shown: "c \<in> set catalog" "sn_id c = sid" "sn_user_state c \<notin> {''archived'', ''snoozed''}" "sn_user_hidden_from_timeline c = 0"
    and room: "length (ls_live_sessions s') \<le> limit"
  shows "sid \<in> set (list_active_live_session_ids limit days_back now catalog (ls_live_sessions s'))"
proof -
  have "seen_since sid (event_at ev) (ls_live_sessions s')"
    using ing fold_touch_seen[OF ev] by (auto simp: ingest_live_runtime_events_def touch_live_sessions_from_runtime_events_def)
  then obtain r u where r: "find (\<lambda>r. lv_session_id r = sid) (ls_live_sessions s') = Some r"
    "lv_state r \<notin> {''missing'', ''ended''}" "normalize_utc (lv_last_seen_at r) = Some u" "event_at ev \<le> u"
    unfolding seen_since_def by blast
  let ?cut = "UTC (utc_us now - days_back * 86400000000)"
  have mem: "r \<in> set (ls_live_sessions s')" "lv_session_id r = sid" using find_mem[OF r(1)] by simp_all
  have "listed_session catalog ?cut r"
    unfolding listed_session_def using r(2,3,4) window shown mem(2) by (auto intro: order_trans)
  then have "r \<in> set (filter (listed_session catalog ?cut) (ls_live_sessions s'))" using mem by simp
  moreover have "length (filter (listed_session catalog ?cut) (ls_live_sessions s')) \<le> limit"
    using room length_filter_le le_trans by blast
  ultimately show ?thesis using mem(2) by (force simp: list_active_live_session_ids_def Let_def sort_desc_def)
qed

end
