(* ===== verification/Runtime_Invariants.thy ===== *)
theory Runtime_Invariants
  imports Runtime_Reducer
begin

text \<open>
  Lemmas on the runtime reducer: what one event leaves alone, what the branches do to the columns of a
  row, the invariant of a row, and the reachable stores as a step relation.
\<close>

subsection \<open>Frames\<close>

lemma ensure_primary_thread_rows:
  "ensure_primary_thread env session s = Inr (tid, s') \<Longrightarrow> st_rows s' = st_rows s \<and> st_pauses s' = st_pauses s"
  by (auto simp: ensure_primary_thread_def Let_def split: option.splits if_splits)

lemma ensure_thread_rows:
  "ensure_thread_id_for_session env sid s = Inr (tid, s') \<Longrightarrow> st_rows s' = st_rows s \<and> st_pauses s' = st_pauses s"
  by (auto simp: ensure_thread_id_for_session_def dest: ensure_primary_thread_rows split: option.splits)

lemma finish_console_turn_frame:
  "finish_console_turn run_id t at s = Inr (c, s') \<Longrightarrow>
   st_rows s' = st_rows s \<and> st_pauses s' = st_pauses s \<and> st_kernel s' = st_kernel s"
  by (auto simp: finish_console_turn_def settle_turn_def split: option.splits if_splits)

lemma run_terminal_rows:
  assumes "apply_run_terminal_event env lane ev rid s = Inr (c, s')"
  shows "st_rows s' = st_rows s \<and> st_pauses s' = st_pauses s"
  using assms unfolding apply_run_terminal_event_def
  by (cases lane) (auto simp: Let_def dest!: finish_console_turn_frame split: option.splits if_splits)

lemma rebind_Inr:
  assumes "rebind env lane ev st s = Inr (st', s')"
  obtains tid where "st' = rebound_row ev tid st" "st_rows s' = st_rows s" "st_pauses s' = st_pauses s"
    "ev_thread_id ev \<noteq> None \<longrightarrow> tid = ev_thread_id ev"
    "ev_thread_id ev = None \<longrightarrow> ev_session_id ev \<in> {None, rr_session_id st} \<longrightarrow> tid = rr_thread_id st"
proof -
  obtain tid where t: "rebind_thread env lane ev st s = Inr (tid, s')" and st': "st' = rebound_row ev tid st"
    using assms by (auto simp: rebind_def)
  have frame: "st_rows s' = st_rows s" "st_pauses s' = st_pauses s"
    using t ensure_thread_rows by (auto simp: rebind_thread_def split: option.splits if_splits)
  have named: "ev_thread_id ev \<noteq> None \<longrightarrow> tid = ev_thread_id ev"
    using t by (auto simp: rebind_thread_def split: option.splits if_splits)
  have same: "ev_thread_id ev = None \<longrightarrow> ev_session_id ev \<in> {None, rr_session_id st} \<longrightarrow> tid = rr_thread_id st"
    using t by (auto simp: rebind_thread_def split: option.splits if_splits)
  show ?thesis by (rule that[OF st' frame named same])
qed

lemma rebound_simps [simp]:
  "rs_phase (rebound_row ev tid st) = rs_phase st"
  "rs_phase_source (rebound_row ev tid st) = rs_phase_source st"
  "rs_active_tool (rebound_row ev tid st) = rs_active_tool st"
  "rs_phase_started_at (rebound_row ev tid st) = rs_phase_started_at st"
  "rs_last_runtime_signal_at (rebound_row ev tid st) = rs_last_runtime_signal_at st"
  "rs_last_progress_at (rebound_row ev tid st) = rs_last_progress_at st"
  "rs_last_live_at (rebound_row ev tid st) = rs_last_live_at st"
  "rs_timeline_anchor_at (rebound_row ev tid st) = rs_timeline_anchor_at st"
  "rs_freshness_expires_at (rebound_row ev tid st) = rs_freshness_expires_at st"
  "rs_terminal_state (rebound_row ev tid st) = rs_terminal_state st"
  "rs_terminal_at (rebound_row ev tid st) = rs_terminal_at st"
  "rs_runtime_version (rebound_row ev tid st) = rs_runtime_version st"
  "rr_execution_started_at (rebound_row ev tid st) = rr_execution_started_at st"
  "rr_runtime_key (rebound_row ev tid st) = rr_runtime_key st"
  "rr_run_id (rebound_row ev tid st) = option_or (ev_run_id ev) (rr_run_id st)"
  "rr_pending_interaction_id (rebound_row ev tid st) = rr_pending_interaction_id st"
  "rr_pending_interaction_kind (rebound_row ev tid st) = rr_pending_interaction_kind st"
  "rr_pending_interaction_opened_at (rebound_row ev tid st) = rr_pending_interaction_opened_at st"
  "rr_pending_interaction_updated_at (rebound_row ev tid st) = rr_pending_interaction_updated_at st"
  "rr_pending_interaction_projection (rebound_row ev tid st) = rr_pending_interaction_projection st"
  "rr_pending_interaction_can_respond (rebound_row ev tid st) = rr_pending_interaction_can_respond st"
  by (simp_all add: rebound_row_def)

text \<open>
  Which columns a branch may write: the signal columns and the version, but not the runtime key nor the
  interaction columns.
\<close>

definition interaction_columns ::
  "runtime_row \<Rightarrow> string option \<times> string option \<times> pydatetime option \<times> pydatetime option \<times> pydict option \<times> int" where
  "interaction_columns r = (rr_pending_interaction_id r, rr_pending_interaction_kind r,
     rr_pending_interaction_opened_at r, rr_pending_interaction_updated_at r,
     rr_pending_interaction_projection r, rr_pending_interaction_can_respond r)"

definition row_frame :: "runtime_row \<Rightarrow> runtime_row \<Rightarrow> bool" where
  "row_frame a b \<longleftrightarrow> rr_runtime_key b = rr_runtime_key a \<and> interaction_columns b = interaction_columns a"

lemma row_frame_trans: "row_frame a b \<Longrightarrow> row_frame b c \<Longrightarrow> row_frame a c"
  by (simp add: row_frame_def)

lemmas frame_defs = row_frame_def interaction_columns_def

lemma row_frames:
  "row_frame st st" "row_frame st (rebound_row ev tid st)" "row_frame st (bump_version st)"
  "row_frame st (clear_terminal st)" "row_frame st (stamp_updated env l st)" "row_frame st (back_to_idle at st)"
  "row_frame st (accept_terminal_signal lib ev t st)" "row_frame st (binding_signal ev st)"
  by (simp_all add: frame_defs bump_version_def clear_terminal_def stamp_updated_def back_to_idle_def
      accept_terminal_signal_def binding_signal_def Let_def split: option.splits)

lemma progress_frame: "row_frame st (accept_progress_signal ev st)"
  by (simp add: accept_progress_signal_def Let_def frame_defs back_to_idle_def clear_terminal_def)

lemma accept_phase_frame: "accept_phase_signal lib ev st = Inr row \<Longrightarrow> row_frame st row"
  by (auto simp: accept_phase_signal_def Let_def frame_defs clear_terminal_def)

lemma stale_phase_frame: "stale_phase_signal lib ev before st = Inr (oc, row) \<Longrightarrow> row_frame st row"
  by (auto simp: stale_phase_signal_def Let_def frame_defs clear_terminal_def bump_version_def split: if_splits)

subsection \<open>The moves of a row\<close>

text \<open>
  A row is protected from an event when the session is explicitly closed, or when its run has ended and
  the event neither names another run nor closes the session. The moves abstract from the store what an
  event does to the row; every step of the reducer is one of them.
\<close>

definition terminal_of :: "runtime_row \<Rightarrow> string" where
  "terminal_of st = clean_or_default (clean (rs_terminal_state st)) []"

definition event_terminal :: "runtime_event \<Rightarrow> string" where
  "event_terminal ev = payload_text (ev_payload ev) ''terminal_state'' ''finished''"

definition closes_session :: "runtime_event \<Rightarrow> bool" where
  "closes_session ev \<longleftrightarrow> ev_kind ev = Terminal_signal \<and> event_terminal ev \<in> set EXPLICIT_CLOSED_TERMINAL_STATES"

definition row_protected :: "runtime_event \<Rightarrow> runtime_row \<Rightarrow> bool" where
  "row_protected ev st \<longleftrightarrow> terminal_of st \<in> set EXPLICIT_CLOSED_TERMINAL_STATES \<or>
     (terminal_of st \<in> set (RUN_END_TERMINAL_STATES @ RUN_TERMINAL_STATES) \<and> \<not> opens_new_run ev st \<and> \<not> closes_session ev)"

definition thread_choice :: "runtime_event \<Rightarrow> runtime_row \<Rightarrow> string option \<Rightarrow> bool" where
  "thread_choice ev st tid \<longleftrightarrow> (ev_thread_id ev \<noteq> None \<longrightarrow> tid = ev_thread_id ev) \<and>
     (ev_thread_id ev = None \<longrightarrow> ev_session_id ev \<in> {None, rr_session_id st} \<longrightarrow> tid = rr_thread_id st)"

inductive row_move :: "pylib \<Rightarrow> runtime_event \<Rightarrow> runtime_row \<Rightarrow> apply_outcome option \<Rightarrow> runtime_row \<Rightarrow> bool"
  for lib ev st where
  kept: "row_protected ev st \<Longrightarrow> oc \<in> {Protected_session_ended, Protected_terminal, Applied} \<Longrightarrow>
    row_move lib ev st (Some oc) st"
| stale: "thread_choice ev st tid \<Longrightarrow> \<not> row_protected ev st \<Longrightarrow> ev_kind ev = Phase_signal \<Longrightarrow> older_than (event_at ev) (row_signal_clock st) \<Longrightarrow>
    stale_phase_signal lib ev st (rebound_row ev tid st) = Inr (oc, row) \<Longrightarrow> row_move lib ev st (Some oc) row"
| phase: "thread_choice ev st tid \<Longrightarrow> \<not> row_protected ev st \<Longrightarrow> ev_kind ev = Phase_signal \<Longrightarrow> \<not> older_than (event_at ev) (row_signal_clock st) \<Longrightarrow>
    accept_phase_signal lib ev (rebound_row ev tid st) = Inr row \<Longrightarrow> row_move lib ev st None row"
| late: "thread_choice ev st tid \<Longrightarrow> \<not> row_protected ev st \<Longrightarrow> ev_kind ev \<in> {Progress_signal, Terminal_signal} \<Longrightarrow>
    older_than (event_at ev) (row_signal_clock st) \<Longrightarrow> row_move lib ev st (Some Ignored) (rebound_row ev tid st)"
| replay: "thread_choice ev st tid \<Longrightarrow> \<not> row_protected ev st \<Longrightarrow> ev_kind ev = Terminal_signal \<Longrightarrow>
    same_run_terminal_replay ev (rebound_row ev tid st) (event_terminal ev) \<Longrightarrow> oc \<in> {Applied, Ignored} \<Longrightarrow>
    row_move lib ev st (Some oc) (rebound_row ev tid st)"
| progress: "thread_choice ev st tid \<Longrightarrow> \<not> row_protected ev st \<Longrightarrow> ev_kind ev = Progress_signal \<Longrightarrow> \<not> older_than (event_at ev) (row_signal_clock st) \<Longrightarrow>
    row_move lib ev st None (accept_progress_signal ev (rebound_row ev tid st))"
| terminal: "thread_choice ev st tid \<Longrightarrow> \<not> row_protected ev st \<Longrightarrow> ev_kind ev = Terminal_signal \<Longrightarrow>
    \<not> older_than (event_at ev) (row_signal_clock st) \<or> event_terminal ev = ''session_ended'' \<Longrightarrow>
    row_move lib ev st None (accept_terminal_signal lib ev (event_terminal ev) (rebound_row ev tid st))"
| binding: "thread_choice ev st tid \<Longrightarrow> \<not> row_protected ev st \<Longrightarrow> ev_kind ev = Binding_signal \<Longrightarrow>
    row_move lib ev st None (binding_signal ev (rebound_row ev tid st))"

lemma payload_text_closed:
  "payload_text p k [] \<in> set EXPLICIT_CLOSED_TERMINAL_STATES \<longleftrightarrow>
   payload_text p k ''finished'' \<in> set EXPLICIT_CLOSED_TERMINAL_STATES"
  by (simp add: payload_text_def EXPLICIT_CLOSED_TERMINAL_STATES_def split: option.splits)

lemma payload_text_run:
  "payload_text p k [] \<in> set RUN_TERMINAL_STATES \<longleftrightarrow> payload_text p k ''finished'' \<in> set RUN_TERMINAL_STATES"
  by (simp add: payload_text_def RUN_TERMINAL_STATES_def split: option.splits)

lemma rebound_clock [simp]: "row_signal_clock (rebound_row ev tid st) = row_signal_clock st"
  by (simp add: row_signal_clock_def)

lemma returned_simps [simp]:
  "sr_early (returned oc row s) = Some oc" "sr_row (returned oc row s) = row" "sr_store (returned oc row s) = s"
  "sr_pause_changed (returned oc row s) = False"
  "sr_early (went_on row c s) = None" "sr_row (went_on row c s) = row" "sr_store (went_on row c s) = s"
  "sr_pause_changed (went_on row c s) = c"
  by (simp_all add: returned_def went_on_def)

text \<open>A terminal signal that is not protected ends the row, replays, or comes late.\<close>

lemma terminal_signal_move:
  assumes "terminal_signal env lane ev (rebound_row ev tid st) s = Inr res"
    and "\<not> row_protected ev st" and "ev_kind ev = Terminal_signal" and tc: "thread_choice ev st tid"
  shows "row_move (rt_lib env) ev st (sr_early res) (sr_row res) \<and> st_rows (sr_store res) = st_rows s"
proof (cases "same_run_terminal_replay ev (rebound_row ev tid st) (event_terminal ev)")
  case True
  then obtain oc s' where "res = returned oc (rebound_row ev tid st) s'" "oc \<in> {Applied, Ignored}" "st_rows s' = st_rows s"
    using assms(1) by (cases lane) (auto simp: terminal_signal_def Let_def event_terminal_def[symmetric]
        dest: run_terminal_rows split: if_splits)
  then show ?thesis using row_move.replay[OF tc assms(2,3) True] by simp
next
  case False
  note unfolded = assms(1)[unfolded terminal_signal_def Let_def event_terminal_def[symmetric] if_not_P[OF False]]
  show ?thesis
  proof (cases "older_than (event_at ev) (row_signal_clock st) \<and> event_terminal ev \<noteq> ''session_ended''")
    case True
    then show ?thesis using unfolded assms(2,3) tc by (auto intro: row_move.late)
  next
    case False
    then obtain c s' where "res = went_on (accept_terminal_signal (rt_lib env) ev (event_terminal ev) (rebound_row ev tid st)) c s'"
      "st_rows s' = st_rows s"
      using unfolded by (auto dest: run_terminal_rows split: if_splits)
    then show ?thesis using row_move.terminal[OF tc assms(2,3)] False by simp
  qed
qed

lemma phase_signal_move:
  assumes "phase_signal env lane ev st (rebound_row ev tid st) s = Inr res"
    and "\<not> row_protected ev st" and "ev_kind ev = Phase_signal" and "thread_choice ev st tid"
  shows "row_move (rt_lib env) ev st (sr_early res) (sr_row res) \<and> st_rows (sr_store res) = st_rows s"
  using assms by (auto simp: phase_signal_def Let_def intro: row_move.stale row_move.phase split: if_splits)

lemma apply_to_row_move:
  assumes "apply_to_row env lane ev st s = Inr res" and "ev_kind ev \<notin> {Pause_request, Pause_resolution}"
  shows "row_move (rt_lib env) ev st (sr_early res) (sr_row res) \<and> st_rows (sr_store res) = st_rows s"
proof (cases "row_protected ev st")
  case True
  then obtain oc s' where "res = returned oc st s'" "oc \<in> {Protected_session_ended, Protected_terminal, Applied}"
    "st_rows s' = st_rows s"
    using assms(1) unfolding apply_to_row_def Let_def terminal_of_def[symmetric] row_protected_def closes_session_def
    by (auto simp: event_terminal_def payload_text_closed dest: run_terminal_rows split: if_splits)
  then show ?thesis using row_move.kept[OF True] by simp
next
  case False
  have "\<not> (terminal_of st \<in> set (RUN_END_TERMINAL_STATES @ RUN_TERMINAL_STATES) \<and> \<not> opens_new_run ev st \<and>
      ev_kind ev = Terminal_signal \<and> event_terminal ev \<in> set RUN_TERMINAL_STATES)"
    using False by (auto simp: row_protected_def closes_session_def terminal_sets)
  then obtain st1 s1 where rb: "rebind env lane ev st s = Inr (st1, s1)"
    and sig: "(case ev_kind ev of
          Phase_signal \<Rightarrow> phase_signal env lane ev st st1 s1
        | Progress_signal \<Rightarrow> Inr (progress_signal ev st1 s1)
        | Terminal_signal \<Rightarrow> terminal_signal env lane ev st1 s1
        | Binding_signal \<Rightarrow> Inr (went_on (binding_signal ev st1) False s1)
        | _ \<Rightarrow> Inr (went_on st1 False s1)) = Inr res"
    using assms(1) False unfolding apply_to_row_def Let_def terminal_of_def[symmetric] row_protected_def closes_session_def
    by (auto simp: event_terminal_def payload_text_closed payload_text_run split: if_splits)
  obtain tid where "st1 = rebound_row ev tid st" "st_rows s1 = st_rows s" and tc: "thread_choice ev st tid"
    using rb by (rule rebind_Inr) (simp add: thread_choice_def)
  then show ?thesis
    using sig assms(2) phase_signal_move[OF _ False _ tc] terminal_signal_move[OF _ False _ tc]
      row_move.progress[OF tc False] row_move.late[OF tc False] row_move.binding[OF tc False]
    by (cases "ev_kind ev") (auto simp: progress_signal_def split: if_splits)
qed

lemmas rebound_frames = row_frames(1,2) row_frame_trans[OF row_frames(2) progress_frame]
  row_frame_trans[OF row_frames(2) row_frames(7)] row_frame_trans[OF row_frames(2) row_frames(8)]
  row_frame_trans[OF row_frames(2) accept_phase_frame] row_frame_trans[OF row_frames(2) stale_phase_frame]

lemma row_move_frame: "row_move lib ev st early row \<Longrightarrow> row_frame st row"
  by (erule row_move.cases) (simp_all add: rebound_frames)

subsection \<open>From the row to the store\<close>

definition settled_row :: "runtime_env \<Rightarrow> runtime_row \<Rightarrow> apply_outcome option \<Rightarrow> runtime_row \<Rightarrow> runtime_row" where
  "settled_row env before early row = stamp_updated env before
     (if early = None \<and> state_snapshot row \<noteq> state_snapshot before then bump_version row else row)"

lemma settled_frame: "row_frame st row \<Longrightarrow> row_frame st (settled_row env st early row)"
  unfolding settled_row_def using row_frames row_frame_trans by (metis (full_types))

lemma settle_store: "snd (settle env before res) = put_row (settled_row env before (sr_early res) (sr_row res)) (sr_store res)"
  by (simp add: settle_def settled_row_def Let_def split: option.splits)

lemma row_of_put:
  "row_of (put_row row s) k = (if k = rr_runtime_key row then map_option (\<lambda>_. row) (row_of s k) else row_of s k)"
proof (cases "k = rr_runtime_key row")
  case True
  then show ?thesis
    by (simp add: row_of_def put_row_def find_update_same[of "\<lambda>r. rr_runtime_key r = rr_runtime_key row" "\<lambda>_. row"])
next
  case False
  then show ?thesis by (simp add: row_of_def put_row_def find_update_other)
qed

lemma put_row_keys [simp]: "map rr_runtime_key (st_rows (put_row row s)) = map rr_runtime_key (st_rows s)"
  by (simp add: put_row_def map_update_where)

lemma put_row_mem: "r \<in> set (st_rows (put_row row s)) \<Longrightarrow> r = row \<or> r \<in> set (st_rows s)"
  by (auto simp: put_row_def dest!: update_where_mem)

lemma row_of_mem: "row_of s k = Some r \<Longrightarrow> r \<in> set (st_rows s) \<and> rr_runtime_key r = k"
  unfolding row_of_def by (drule find_mem) simp

lemma ensure_state_cases:
  assumes "ensure_state env lane ev s = Inr (st, s1)"
  shows "(row_of s (ev_runtime_key ev) = Some st \<and> s1 = s) \<or>
     (row_of s (ev_runtime_key ev) = None \<and> (\<exists>tid. st = fresh_row env ev tid) \<and> st_rows s1 = st_rows s @ [st])"
  using assms unfolding ensure_state_def
  by (cases lane) (auto simp: Let_def dest!: ensure_thread_rows split: option.splits)

lemma fresh_key [simp]: "rr_runtime_key (fresh_row env ev tid) = ev_runtime_key ev"
  by (simp add: fresh_row_def Let_def)

lemma ensure_state_row:
  assumes "ensure_state env lane ev s = Inr (st, s1)"
  shows "row_of s1 (ev_runtime_key ev) = Some st" "rr_runtime_key st = ev_runtime_key ev"
    "k \<noteq> ev_runtime_key ev \<Longrightarrow> row_of s1 k = row_of s k"
  using ensure_state_cases[OF assms] by (auto simp: row_of_def find_snoc dest: find_mem split: option.splits)

text \<open>One event on the row of its key; no other row changes.\<close>

lemma apply_event_row:
  assumes ev: "ev_kind ev \<notin> {Pause_request, Pause_resolution}"
    and app: "apply_runtime_event env lane ev s = Inr (oc, s')"
  obtains st s1 res where "ensure_state env lane ev s = Inr (st, s1)" "apply_to_row env lane ev st s1 = Inr res"
    "row_move (rt_lib env) ev st (sr_early res) (sr_row res)"
    "row_of s' (ev_runtime_key ev) = Some (settled_row env st (sr_early res) (sr_row res))"
    "\<And>k. k \<noteq> ev_runtime_key ev \<Longrightarrow> row_of s' k = row_of s k"
    "(oc, s') = settle env st res" "st_rows (sr_store res) = st_rows s1"
proof -
  obtain st s1 res where e: "ensure_state env lane ev s = Inr (st, s1)" and a: "apply_to_row env lane ev st s1 = Inr res"
    and set: "(oc, s') = settle env st res"
    using app ev by (auto simp: apply_runtime_event_def)
  have mv: "row_move (rt_lib env) ev st (sr_early res) (sr_row res)" and rows: "st_rows (sr_store res) = st_rows s1"
    using apply_to_row_move[OF a ev] by simp_all
  have s': "s' = put_row (settled_row env st (sr_early res) (sr_row res)) (sr_store res)"
    using settle_store set by (metis snd_conv)
  have key: "rr_runtime_key (settled_row env st (sr_early res) (sr_row res)) = ev_runtime_key ev"
    using settled_frame[OF row_move_frame[OF mv]] ensure_state_row(2)[OF e] by (simp add: row_frame_def)
  have of_s: "row_of (sr_store res) k = row_of s1 k" for k by (simp add: row_of_def rows)
  have "row_of s' (ev_runtime_key ev) = Some (settled_row env st (sr_early res) (sr_row res))"
    using key ensure_state_row(1)[OF e] by (simp add: s' row_of_put of_s)
  moreover have "row_of s' k = row_of s k" if "k \<noteq> ev_runtime_key ev" for k
    using that key ensure_state_row(3)[OF e] by (simp add: s' row_of_put of_s)
  ultimately show ?thesis using e a mv set rows that by blast
qed

lemma apply_event_other:
  assumes "ev_kind ev \<notin> {Pause_request, Pause_resolution}" and "apply_runtime_event env lane ev s = Inr (oc, s')"
    and "k \<noteq> ev_runtime_key ev"
  shows "row_of s' k = row_of s k"
proof -
  have "\<forall>k. k \<noteq> ev_runtime_key ev \<longrightarrow> row_of s' k = row_of s k" by (rule apply_event_row[OF assms(1,2)]) blast
  then show ?thesis using assms(3) by simp
qed

lemma apply_event_existing:
  assumes "ev_kind ev \<notin> {Pause_request, Pause_resolution}" and "apply_runtime_event env lane ev s = Inr (oc, s')"
    and "row_of s (ev_runtime_key ev) = Some r"
  obtains early row where "row_move (rt_lib env) ev r early row"
    "row_of s' (ev_runtime_key ev) = Some (settled_row env r early row)"
    "case early of Some oc' \<Rightarrow> oc = oc' | None \<Rightarrow> state_snapshot row \<noteq> state_snapshot r \<longrightarrow> oc = Applied"
proof (rule apply_event_row[OF assms(1,2)])
  fix st s1 res
  assume h: "ensure_state env lane ev s = Inr (st, s1)" "row_move (rt_lib env) ev st (sr_early res) (sr_row res)"
    "row_of s' (ev_runtime_key ev) = Some (settled_row env st (sr_early res) (sr_row res))" "(oc, s') = settle env st res"
  have st: "st = r" using ensure_state_cases[OF h(1)] assms(3) by auto
  have "case sr_early res of Some oc' \<Rightarrow> oc = oc' | None \<Rightarrow> state_snapshot (sr_row res) \<noteq> state_snapshot st \<longrightarrow> oc = Applied"
    using h(4) by (cases "sr_early res") (auto simp: settle_def Let_def)
  then show ?thesis using h(2,3) unfolding st by (intro that)
qed

subsection \<open>The invariant of a row\<close>

text \<open>
  The phase is never blank; a tool is named only while running or blocked; a terminal state comes with
  its time, which is the last runtime signal, and with the finished phase; an executing row knows since
  when, and a row that cannot resume executing has forgotten it; the interaction columns are set and
  cleared together.
\<close>

definition phase_ok :: "runtime_row \<Rightarrow> bool" where
  "phase_ok r \<longleftrightarrow> (\<exists>p. rs_phase r = Some p \<and> p \<noteq> [] \<and>
     (rs_active_tool r \<noteq> None \<longrightarrow> p \<in> {''running'', ''blocked''}) \<and>
     (p \<in> set LIVE_EXECUTION_PHASES \<longrightarrow> rr_execution_started_at r \<noteq> None) \<and>
     (rr_execution_started_at r \<noteq> None \<longrightarrow> p \<in> {''thinking'', ''running'', ''idle'', ''needs_user''}))"

definition terminal_ok :: "runtime_row \<Rightarrow> bool" where
  "terminal_ok r \<longleftrightarrow>
     (rs_terminal_state r = None \<longrightarrow> rs_terminal_at r = None) \<and>
     (rs_terminal_state r \<noteq> None \<longrightarrow> rs_terminal_at r \<noteq> None \<and> rs_phase r = Some ''finished'' \<and>
        normalize_utc (rs_last_runtime_signal_at r) = normalize_utc (rs_terminal_at r))"

definition interaction_ok :: "runtime_row \<Rightarrow> bool" where
  "interaction_ok r \<longleftrightarrow>
     (if rr_pending_interaction_id r = None
      then rr_pending_interaction_kind r = None \<and> rr_pending_interaction_opened_at r = None \<and>
           rr_pending_interaction_projection r = None \<and> rr_pending_interaction_can_respond r = 0
      else rr_pending_interaction_opened_at r \<noteq> None \<and> rr_pending_interaction_projection r \<noteq> None \<and>
           rr_pending_interaction_can_respond r \<in> {0, 1})"

definition row_ok :: "runtime_row \<Rightarrow> bool" where
  "row_ok r \<longleftrightarrow> phase_ok r \<and> terminal_ok r \<and> interaction_ok r \<and> 0 \<le> rs_runtime_version r"

lemma interaction_frame: "row_frame a b \<Longrightarrow> interaction_ok a \<Longrightarrow> interaction_ok b"
  unfolding interaction_ok_def frame_defs by (elim conjE Pair_inject) (simp only:)

lemma clean_or_strip: "d = py_strip d \<Longrightarrow> py_strip (clean_or v d) = clean_or v d"
  by (auto simp: clean_or_def or_none_def clean_def split: option.splits if_splits)

lemma idle_strip [simp]: "py_strip ''idle'' = ''idle''" "clean_or (Some ''finished'') ''idle'' = ''finished''"
  by code_simp+

lemma latest_ge:
  "Some t \<in> set vs \<Longrightarrow> \<exists>l. latest_timestamp vs = Some l \<and> t \<le> l"
proof -
  assume "Some t \<in> set vs"
  then have t: "t \<in> set (List.map_filter id vs)"
    by (auto simp: List.map_filter_def image_iff)
  then obtain x xs where xs: "List.map_filter id vs = x # xs" by (cases "List.map_filter id vs") auto
  have "t \<le> fold max xs x" using t unfolding xs
    by (metis List.finite_set Max.set_eq_fold Max_ge)
  then show ?thesis by (simp add: latest_timestamp_def xs)
qed

lemma not_older_than_part:
  "\<not> older_than at (latest_timestamp vs) \<Longrightarrow> v \<in> set vs \<Longrightarrow> \<not> older_than at v"
  using latest_ge[of _ vs] by (fastforce simp: older_than_def split: option.splits)

lemma clock_covers_terminal:
  "\<not> older_than at (row_signal_clock st) \<Longrightarrow> \<not> older_than at (normalize_utc (rs_terminal_at st))"
  unfolding row_signal_clock_def by (rule not_older_than_part) auto

lemma next_phase_nonempty: "next_phase_of ev st \<noteq> []"
  by (simp add: next_phase_of_def clean_or_nonempty)

lemma accept_phase_ok:
  assumes "accept_phase_signal lib ev st = Inr row"
  shows "phase_ok row \<and> terminal_ok row"
proof -
  have "phase_ok row"
    using assms next_phase_nonempty[of ev st]
    by (auto simp: accept_phase_signal_def Let_def phase_ok_def clear_terminal_def next_active_tool_def
        execution_started_def LIVE_EXECUTION_PHASES_def)
  moreover have "terminal_ok row"
    using assms by (auto simp: accept_phase_signal_def Let_def terminal_ok_def clear_terminal_def)
  ultimately show ?thesis ..
qed

lemma stale_phase_ok:
  assumes "stale_phase_signal lib ev before st = Inr (oc, row)" and "phase_ok st" and "terminal_ok st"
  shows "phase_ok row \<and> terminal_ok row"
proof (cases "row = st")
  case False
  then have "rs_phase row = rs_phase st" "rs_active_tool row = rs_active_tool st"
    "rr_execution_started_at row = rr_execution_started_at st" "rs_terminal_state row = None" "rs_terminal_at row = None"
    using assms(1) by (auto simp: stale_phase_signal_def Let_def clear_terminal_def bump_version_def split: if_splits)
  then show ?thesis using assms(2) by (simp add: phase_ok_def terminal_ok_def)
qed (use assms in simp)

lemma back_to_idle_ok: "phase_ok (back_to_idle at st)"
  by (simp add: back_to_idle_def phase_ok_def LIVE_EXECUTION_PHASES_def)

text \<open>A progress signal leaves either the phase columns alone or an idle row.\<close>

lemma progress_parts:
  assumes "\<not> older_than (event_at ev) (row_signal_clock st)" and "terminal_ok st"
  shows "rs_terminal_state (accept_progress_signal ev st) = None \<and> rs_terminal_at (accept_progress_signal ev st) = None"
    "phase_ok st \<Longrightarrow> phase_ok (accept_progress_signal ev st)"
proof -
  note notlate = clock_covers_terminal[OF assms(1)]
  show "rs_terminal_state (accept_progress_signal ev st) = None \<and> rs_terminal_at (accept_progress_signal ev st) = None"
    using notlate assms(2)
    by (cases "rs_terminal_state st") (auto simp: accept_progress_signal_def Let_def back_to_idle_def clear_terminal_def terminal_ok_def)
  show "phase_ok st \<Longrightarrow> phase_ok (accept_progress_signal ev st)"
    by (auto simp: accept_progress_signal_def Let_def back_to_idle_def clear_terminal_def phase_ok_def LIVE_EXECUTION_PHASES_def)
qed

lemma accept_terminal_ok: "phase_ok (accept_terminal_signal lib ev t st) \<and> terminal_ok (accept_terminal_signal lib ev t st)"
  by (simp add: accept_terminal_signal_def Let_def phase_ok_def terminal_ok_def LIVE_EXECUTION_PHASES_def)

lemma identity_ok:
  "phase_ok (rebound_row ev tid st) = phase_ok st" "terminal_ok (rebound_row ev tid st) = terminal_ok st"
  "phase_ok (binding_signal ev st) = phase_ok st" "terminal_ok (binding_signal ev st) = terminal_ok st"
  by (simp_all add: phase_ok_def terminal_ok_def binding_signal_def split: option.splits)

lemma row_move_ok:
  assumes "row_move lib ev st early row" and "phase_ok st" and "terminal_ok st"
  shows "phase_ok row \<and> terminal_ok row"
  using assms
proof (induction rule: row_move.induct)
  case (stale tid oc row)
  then show ?case using stale_phase_ok identity_ok by blast
next
  case (progress tid)
  then have ok: "terminal_ok (rebound_row ev tid st)" "phase_ok (rebound_row ev tid st)" by (simp_all add: identity_ok)
  from progress have "\<not> older_than (event_at ev) (row_signal_clock (rebound_row ev tid st))" by simp
  from progress_parts[OF this ok(1)] ok(2) show ?case by (simp add: terminal_ok_def)
qed (simp_all add: accept_phase_ok accept_terminal_ok identity_ok)

lemma accepted_versions:
  "accept_phase_signal lib ev st = Inr row \<Longrightarrow> rs_runtime_version row = rs_runtime_version st"
  "rs_runtime_version (accept_progress_signal ev st) = rs_runtime_version st"
  "rs_runtime_version (accept_terminal_signal lib ev t st) = rs_runtime_version st"
  "rs_runtime_version (binding_signal ev st) = rs_runtime_version st"
proof -
  show "accept_phase_signal lib ev st = Inr row \<Longrightarrow> rs_runtime_version row = rs_runtime_version st"
    by (auto simp: accept_phase_signal_def Let_def clear_terminal_def)
  show "rs_runtime_version (accept_progress_signal ev st) = rs_runtime_version st"
    by (simp add: accept_progress_signal_def Let_def clear_terminal_def back_to_idle_def)
  show "rs_runtime_version (accept_terminal_signal lib ev t st) = rs_runtime_version st"
    by (simp add: accept_terminal_signal_def Let_def)
  show "rs_runtime_version (binding_signal ev st) = rs_runtime_version st"
    by (simp add: binding_signal_def split: option.splits)
qed

lemma snapshot_bump [simp]: "state_snapshot (bump_version r) = state_snapshot r"
  by (simp add: state_snapshot_def bump_version_def)

lemma snapshot_stamp [simp]: "state_snapshot (stamp_updated env l r) = state_snapshot r"
  by (simp add: state_snapshot_def stamp_updated_def)

lemma version_bump [simp]: "rs_runtime_version (bump_version r) = rs_runtime_version r + 1"
  by (simp add: bump_version_def)

lemma version_stamp [simp]: "rs_runtime_version (stamp_updated env l r) = rs_runtime_version r"
  by (simp add: stamp_updated_def)

lemma version_clear [simp]: "rs_runtime_version (clear_terminal r) = rs_runtime_version r"
  by (simp add: clear_terminal_def)

text \<open>The version counts what the stale branch changes, and only an applied refresh changes it.\<close>

lemma stale_version:
  assumes "stale_phase_signal lib ev before st = Inr (oc, row)"
  shows "row = st \<and> oc = Ignored \<or>
    oc = Applied \<and> rs_runtime_version row = rs_runtime_version st + 1 \<and> state_snapshot row \<noteq> state_snapshot before \<or>
    oc = Ignored \<and> rs_runtime_version row = rs_runtime_version st \<and> state_snapshot row = state_snapshot before"
  using assms by (auto simp: stale_phase_signal_def Let_def split: if_splits)

lemma version_of_move:
  assumes "row_move lib ev st early row"
  shows "rs_runtime_version row = rs_runtime_version st \<or>
   early = Some Applied \<and> rs_runtime_version row = rs_runtime_version st + 1 \<and> state_snapshot row \<noteq> state_snapshot st"
  using assms
proof (cases rule: row_move.cases)
  case (stale tid oc)
  then show ?thesis using stale_version[OF stale(6)] by auto
qed (simp_all add: accepted_versions)

lemma ok_bookkeeping [simp]:
  "phase_ok (bump_version r) = phase_ok r" "terminal_ok (bump_version r) = terminal_ok r"
  "phase_ok (stamp_updated env l r) = phase_ok r" "terminal_ok (stamp_updated env l r) = terminal_ok r"
  by (simp_all add: phase_ok_def terminal_ok_def bump_version_def stamp_updated_def)

lemma settled_ok:
  assumes mv: "row_move lib ev st early row" and ok: "row_ok st"
  shows "row_ok (settled_row env st early row)"
proof -
  have "phase_ok row" "terminal_ok row" using row_move_ok[OF mv] ok by (simp_all add: row_ok_def)
  moreover have "interaction_ok (settled_row env st early row)"
    using interaction_frame[OF settled_frame[OF row_move_frame[OF mv]]] ok by (simp add: row_ok_def)
  moreover have "0 \<le> rs_runtime_version row" using version_of_move[OF mv] ok by (auto simp: row_ok_def)
  ultimately show ?thesis by (simp add: row_ok_def settled_row_def)
qed

lemma fresh_row_ok: "row_ok (fresh_row env ev tid)"
proof -
  have live: "clean_or v ''idle'' \<in> set LIVE_EXECUTION_PHASES \<longleftrightarrow>
      py_strip (case v of None \<Rightarrow> [] | Some p \<Rightarrow> p) \<in> set LIVE_EXECUTION_PHASES" for v
  proof (cases v)
    case None
    then show ?thesis by (simp add: clean_or_def or_none_def clean_def LIVE_EXECUTION_PHASES_def) (simp add: py_strip_def)
  next
    case (Some p)
    then show ?thesis
      by (cases "p = []") (auto simp: clean_or_def or_none_def clean_def LIVE_EXECUTION_PHASES_def strip_id)
  qed
  have "phase_ok (fresh_row env ev tid)"
    using live[of "ev_phase ev"] clean_or_nonempty[of "''idle''" "ev_phase ev"]
    by (auto simp: fresh_row_def phase_ok_def Let_def LIVE_EXECUTION_PHASES_def)
  then show ?thesis
    by (simp add: row_ok_def terminal_ok_def interaction_ok_def) (simp add: fresh_row_def Let_def)
qed

lemma pause_row_ok:
  assumes "row_ok st"
  shows "row_ok (touch_interaction ev (open_interaction env ev st))" "row_ok (touch_interaction ev (clear_interaction st))"
  using assms
  by (auto simp: row_ok_def phase_ok_def terminal_ok_def interaction_ok_def touch_interaction_def
      open_interaction_def clear_interaction_def bump_version_def)

subsection \<open>Reachable stores\<close>

definition store_ok :: "runtime_store \<Rightarrow> bool" where
  "store_ok s \<longleftrightarrow> distinct (map rr_runtime_key (st_rows s)) \<and> list_all row_ok (st_rows s)"

lemma ensure_state_ok:
  assumes "ensure_state env lane ev s = Inr (st, s1)" and ok: "store_ok s"
  shows "store_ok s1 \<and> row_ok st"
  using ensure_state_cases[OF assms(1)]
proof (elim disjE conjE exE)
  assume "row_of s (ev_runtime_key ev) = Some st" "s1 = s"
  then show ?thesis using ok by (auto simp: store_ok_def list_all_iff dest: row_of_mem)
next
  fix tid assume none: "row_of s (ev_runtime_key ev) = None"
    and st: "st = fresh_row env ev tid" "st_rows s1 = st_rows s @ [st]"
  from none have "ev_runtime_key ev \<notin> rr_runtime_key ` set (st_rows s)"
    unfolding row_of_def find_None_iff image_iff by (simp add: eq_commute[of "ev_runtime_key ev"])
  with ok st show ?thesis by (simp add: store_ok_def fresh_row_ok)
qed

lemma put_row_ok: "store_ok s \<Longrightarrow> row_ok row \<Longrightarrow> store_ok (put_row row s)"
  by (auto simp: store_ok_def list_all_iff dest: put_row_mem)

lemma reducer_keeps_ok:
  assumes "apply_runtime_event env lane ev s = Inr (oc, s')" and ok: "store_ok s"
  shows "store_ok s'"
proof (cases "ev_kind ev \<in> {Pause_request, Pause_resolution}")
  case False
  obtain st s1 res where e: "ensure_state env lane ev s = Inr (st, s1)"
    and mv: "row_move (rt_lib env) ev st (sr_early res) (sr_row res)"
    and s': "(oc, s') = settle env st res" and rows: "st_rows (sr_store res) = st_rows s1"
    by (rule apply_event_row[OF False assms(1)]) (rule that)
  have "store_ok (sr_store res)" using ensure_state_ok[OF e ok] rows by (simp add: store_ok_def)
  moreover have "row_ok (settled_row env st (sr_early res) (sr_row res))"
    using settled_ok[OF mv] ensure_state_ok[OF e ok] by blast
  moreover have "s' = put_row (settled_row env st (sr_early res) (sr_row res)) (sr_store res)"
    using arg_cong[OF s', of snd] by (simp add: settle_store)
  ultimately show ?thesis by (simp add: put_row_ok)
next
  case True
  show ?thesis
  proof (cases lane)
    case Archive_lane
    then show ?thesis using assms True by (auto simp: apply_runtime_event_def Let_def store_ok_def)
  next
    case Live_lane
    then have "live_pause_event env ev s = Inr (oc, s')" using assms(1) True by (auto simp: apply_runtime_event_def)
    then obtain st s1 where e: "ensure_state env Live_lane ev s = Inr (st, s1)"
      and "s' = s1 \<or> s' = put_row (touch_interaction ev (open_interaction env ev st)) s1 \<or>
           s' = put_row (touch_interaction ev (clear_interaction st)) s1"
      by (auto simp: live_pause_event_def split: if_splits)
    then show ?thesis using ensure_state_ok[OF e ok] pause_row_ok put_row_ok by metis
  qed
qed

end
