(* ===== verification/Pause_Lifecycle.thy ===== *)
theory Pause_Lifecycle
  imports Pause_Requests
begin

text \<open>
  The lifecycle of pause requests: the contract every finishing operation keeps (a locale, interpreted
  on each of them), the reachable tables of the module as a step relation with its invariant, and the
  properties of announcing, answering and serving a request.
\<close>

subsection \<open>The table invariant\<close>

definition row_status_ok :: "pause_row \<Rightarrow> bool" where
  "row_status_ok r \<longleftrightarrow>
     (if pr_status r = PENDING_STATUS then pr_resolved_at r = None
      else pr_status r \<in> set TERMINAL_STATUSES \<and> pr_resolved_at r \<noteq> None)"

definition pause_table_ok :: "pause_row list \<Rightarrow> bool" where
  "pause_table_ok rows \<longleftrightarrow> distinct (map pr_id rows) \<and> distinct (map pr_request_key rows) \<and>
     list_all row_status_ok rows"

lemma table_ok_ids: "pause_table_ok rows \<Longrightarrow> r \<in> set rows \<Longrightarrow> x \<in> set rows \<Longrightarrow> pr_id x = pr_id r \<Longrightarrow> x = r"
  by (auto simp: pause_table_ok_def distinct_map inj_on_def)

lemma table_ok_keys:
  "pause_table_ok rows \<Longrightarrow> r \<in> set rows \<Longrightarrow> x \<in> set rows \<Longrightarrow> pr_request_key x = pr_request_key r \<Longrightarrow> x = r"
  by (auto simp: pause_table_ok_def distinct_map inj_on_def)

lemma find_request_key:
  assumes "pause_table_ok rows" and "r \<in> set rows"
  shows "find (\<lambda>x. pr_request_key x = pr_request_key r) rows = Some r"
proof -
  let ?f = "find (\<lambda>x. pr_request_key x = pr_request_key r) rows"
  have "?f \<noteq> None" using assms(2) by (auto simp: find_None_iff)
  then obtain x where x: "?f = Some x" by blast
  then have "x \<in> set rows" "pr_request_key x = pr_request_key r" by (auto dest: find_mem)
  then show ?thesis using x table_ok_keys[OF assms] by simp
qed

subsection \<open>The contract of a finishing operation\<close>

text \<open>
  Finishing touches pending rows only, keeps the identity of each, and leaves a terminal status with
  the time of the operation.
\<close>

definition closes :: "instant \<Rightarrow> pause_row \<Rightarrow> pause_row \<Rightarrow> bool" where
  "closes t r r' \<longleftrightarrow> r' = r \<or>
     pr_status r = PENDING_STATUS \<and> pr_status r' \<in> set TERMINAL_STATUSES \<and>
     pr_resolved_at r' = Some (utc_dt t) \<and> pr_id r' = pr_id r \<and> pr_request_key r' = pr_request_key r \<and>
     pr_runtime_key r' = pr_runtime_key r \<and> pr_session_id r' = pr_session_id r"

lemma closes_simps:
  "closes t r r' \<Longrightarrow> pr_id r' = pr_id r" "closes t r r' \<Longrightarrow> pr_request_key r' = pr_request_key r"
  "closes t r r' \<Longrightarrow> row_status_ok r \<Longrightarrow> row_status_ok r'"
  "closes t r r' \<Longrightarrow> pr_status r' = PENDING_STATUS \<Longrightarrow> r' = r"
  "closes t r r' \<Longrightarrow> pr_status r \<noteq> PENDING_STATUS \<Longrightarrow> r' = r"
  by (auto simp: closes_def row_status_ok_def TERMINAL_STATUSES_def PENDING_STATUS_def)

lemma map_of_list_all2: "list_all2 R xs ys \<Longrightarrow> (\<And>x y. R x y \<Longrightarrow> k y = k x) \<Longrightarrow> map k ys = map k xs"
  by (induction rule: list_all2_induct) auto

locale pause_finisher =
  fixes run :: "pause_row list \<Rightarrow> pause_row list" and at :: instant
  assumes run_closes: "pause_table_ok rows \<Longrightarrow> list_all2 (closes at) rows (run rows)"
begin

lemma ids_kept: "pause_table_ok rows \<Longrightarrow> map pr_id (run rows) = map pr_id rows"
  using run_closes[of rows] closes_simps(1) by (rule map_of_list_all2)

lemma keys_kept: "pause_table_ok rows \<Longrightarrow> map pr_request_key (run rows) = map pr_request_key rows"
  using run_closes[of rows] closes_simps(2) by (rule map_of_list_all2)

lemma keeps_ok: "pause_table_ok rows \<Longrightarrow> pause_table_ok (run rows)"
proof -
  assume ok: "pause_table_ok rows"
  have "list_all row_status_ok (run rows)"
    using run_closes[OF ok] ok unfolding pause_table_ok_def list_all_length list_all2_conv_all_nth
    by (metis closes_simps(3))
  with ids_kept[OF ok] keys_kept[OF ok] ok show ?thesis by (simp add: pause_table_ok_def)
qed

lemma pending_was_pending:
  "pause_table_ok rows \<Longrightarrow> r \<in> set (run rows) \<Longrightarrow> pr_status r = PENDING_STATUS \<Longrightarrow> r \<in> set rows"
  using run_closes[of rows] by (metis closes_simps(4) in_set_conv_nth list_all2_conv_all_nth)

lemma finished_kept:
  "pause_table_ok rows \<Longrightarrow> r \<in> set rows \<Longrightarrow> pr_status r \<noteq> PENDING_STATUS \<Longrightarrow> r \<in> set (run rows)"
  using run_closes[of rows] by (metis closes_simps(5) in_set_conv_nth list_all2_conv_all_nth)

end

lemma update_closes:
  assumes "\<And>r. r \<in> set rows \<Longrightarrow> P r \<Longrightarrow> closes t r (f r)"
  shows "list_all2 (closes t) rows (update_where P f rows)"
  using assms by (auto simp: update_where_def list_all2_conv_all_nth closes_def)

lemma terminal_status_values [simp]: "''resolved'' \<in> set TERMINAL_STATUSES" "''expired'' \<in> set TERMINAL_STATUSES"
  by (simp_all add: TERMINAL_STATUSES_def)

interpretation finish: pause_finisher "\<lambda>rows. snd (finish_pending P status t msg rows)" t
  for P status t msg
  by unfold_locales
    (auto simp: finish_pending_def Let_def closes_def terminal_status_mem intro!: update_closes)

interpretation supersede: pause_finisher "supersede_runtime_requests_if_needed rk key t" t for rk key t
  by unfold_locales (auto simp: supersede_runtime_requests_if_needed_def closes_def intro!: update_closes)

lemma finish_row_closes: "pr_status r = PENDING_STATUS \<Longrightarrow> closes t r (finish_pause_row a t r)"
  by (simp add: closes_def finish_pause_row_def terminal_status_mem)

lemma select_pause_request_mem: "select_pause_request a rows = Some r \<Longrightarrow> r \<in> set rows"
  by (auto simp: select_pause_request_def newest_pending_def dest: find_mem max_choice.pick_mem
      split: option.splits)

interpretation resolve: pause_finisher "\<lambda>rows. snd (resolve_pause_request env a rows)"
  "case ra_occurred_at a of Some t \<Rightarrow> t | None \<Rightarrow> oe_now env" for env a
proof
  fix rows
  let ?t = "case ra_occurred_at a of Some t \<Rightarrow> t | None \<Rightarrow> oe_now env"
  assume ok: "pause_table_ok rows"
  have id: "list_all2 (closes ?t) rows rows" by (simp add: list_all2_same closes_def)
  show "list_all2 (closes ?t) rows (snd (resolve_pause_request env a rows))"
  proof (cases "select_pause_request a rows")
    case None
    then show ?thesis using id by (simp add: resolve_pause_request_def)
  next
    case (Some row)
    have "list_all2 (closes ?t) rows (update_where (\<lambda>r. pr_id r = pr_id row) (\<lambda>_. finish_pause_row a ?t row) rows)"
      if "pr_status row = PENDING_STATUS"
      using that select_pause_request_mem[OF Some] table_ok_ids[OF ok]
      by (intro update_closes) (metis finish_row_closes)
    with Some id show ?thesis by (simp add: resolve_pause_request_def Let_def)
  qed
qed

subsection \<open>Announcing\<close>

lemma upsert_ok:
  assumes ok: "pause_table_ok rows" and fresh: "oe_uuid4 env (length rows) \<notin> pr_id ` set rows"
  shows "pause_table_ok (snd (upsert_pause_request env a rows))"
proof (cases "find (\<lambda>r. pr_request_key r = pa_request_key a) rows")
  case None
  then have "pa_request_key a \<notin> pr_request_key ` set rows" by (auto simp: find_None_iff)
  with None ok fresh show ?thesis
    by (simp add: upsert_pause_request_def pause_table_ok_def Let_def row_status_ok_def)
next
  case (Some row)
  let ?new = "update_where (\<lambda>r. pr_request_key r = pa_request_key a) (refresh_pause_row a) rows"
  have "list_all row_status_ok ?new"
    using ok by (auto simp: pause_table_ok_def list_all_iff row_status_ok_def dest!: update_where_mem)
  with Some ok show ?thesis
    by (simp add: upsert_pause_request_def pause_table_ok_def Let_def map_update_where)
qed

lemma upsert_request_keys:
  "distinct (map pr_request_key rows) \<Longrightarrow> distinct (map pr_request_key (snd (upsert_pause_request env a rows)))"
  by (auto simp: upsert_pause_request_def Let_def map_update_where find_None_iff split: option.splits)

lemma upsert_length: "length rows \<le> length (snd (upsert_pause_request env a rows))"
  by (simp add: upsert_pause_request_def Let_def split: option.splits)

text \<open>After an announcement the table has exactly one row of that key, and it is pending.\<close>

lemma upsert_mem:
  "r \<in> set (snd (upsert_pause_request env a rows)) \<Longrightarrow>
     (if pr_request_key r = pa_request_key a
      then pr_status r = PENDING_STATUS \<and> pr_runtime_key r = pa_runtime_key a \<and> pr_session_id r = pa_session_id a
      else r \<in> set rows)"
  by (auto simp: upsert_pause_request_def Let_def find_None_iff split: option.splits dest!: update_where_mem)

lemma upsert_announced:
  "\<exists>r \<in> set (snd (upsert_pause_request env a rows)). pr_request_key r = pa_request_key a"
proof (cases "find (\<lambda>r. pr_request_key r = pa_request_key a) rows")
  case None
  then show ?thesis by (simp add: upsert_pause_request_def Let_def)
next
  case (Some row)
  then have "row \<in> set rows" "pr_request_key row = pa_request_key a" by (auto dest: find_mem)
  then have "refresh_pause_row a row \<in> set (snd (upsert_pause_request env a rows))"
    using Some by (auto simp: upsert_pause_request_def Let_def set_update_where)
  moreover have "pr_request_key (refresh_pause_row a row) = pa_request_key a"
    using \<open>pr_request_key row = pa_request_key a\<close> by simp
  ultimately show ?thesis by blast
qed

lemma supersede_length [simp]: "length (supersede_runtime_requests_if_needed rk key t rows) = length rows"
  by (simp add: supersede_runtime_requests_if_needed_def)

lemma supersede_ids: "pr_id ` set (supersede_runtime_requests_if_needed rk key t rows) = pr_id ` set rows"
proof -
  have "map pr_id (supersede_runtime_requests_if_needed rk key t rows) = map pr_id rows"
    by (simp add: supersede_runtime_requests_if_needed_def map_update_where)
  then show ?thesis by (metis list.set_map)
qed

lemma superseded_not_pending:
  assumes "r \<in> set (supersede_runtime_requests_if_needed rk key t rows)" and "pr_runtime_key r = rk"
    and "pr_request_key r \<noteq> key"
  shows "pr_status r \<noteq> PENDING_STATUS"
  using update_where_mem[OF assms(1)[unfolded supersede_runtime_requests_if_needed_def]]
proof (elim disjE bexE conjE)
  fix x
  assume "r = x\<lparr>pr_status := ''resolved'', pr_resolved_at := Some (utc_dt t),
    pr_response_text := Some ''Superseded by a newer provider question.''\<rparr>"
  then show ?thesis by simp
next
  assume "\<not> (pr_runtime_key r = rk \<and> pr_status r = PENDING_STATUS \<and> pr_request_key r \<noteq> key)"
  then show ?thesis using assms(2,3) by blast
qed

lemma announce_ok:
  assumes "pause_table_ok rows" and "oe_uuid4 env (length rows) \<notin> pr_id ` set rows"
  shows "pause_table_ok (snd (announce_pause lib env ev sid rows))"
  unfolding announce_pause_def Let_def
  by (rule upsert_ok) (use assms in \<open>simp_all add: supersede.keeps_ok supersede_ids\<close>)

lemma apply_event_ok:
  assumes "pause_table_ok rows" and "oe_uuid4 env (length rows) \<notin> pr_id ` set rows"
  shows "pause_table_ok (snd (apply_pause_runtime_event lib env ex ev rows))"
  using assms
  by (simp add: apply_pause_runtime_event_def Let_def announce_ok resolve.keeps_ok
      split: event_kind.splits option.splits)

subsection \<open>The reachable tables\<close>

text \<open>
  One step is one operation of the module: an event of the provider, the provider continuing, the
  session or the runtime ending, or an answer. A new row takes an identifier no row has.
\<close>

inductive pause_step :: "pylib \<Rightarrow> pause_row list \<Rightarrow> pause_row list \<Rightarrow> bool" for lib where
  event: "oe_uuid4 env (length rows) \<notin> pr_id ` set rows \<Longrightarrow>
    pause_step lib rows (snd (apply_pause_runtime_event lib env ex ev rows))"
| continued: "pause_step lib rows (snd (resolve_pending_pause_requests_for_runtime rk st t msg rows))"
| session_ended: "pause_step lib rows (snd (expire_pending_pause_requests_for_session sid t msg rows))"
| runtime_ended: "pause_step lib rows (snd (expire_pending_pause_requests_for_runtime rk t msg rows))"
| answered: "pause_step lib rows (snd (resolve_pause_request env a rows))"

inductive pause_reachable :: "pylib \<Rightarrow> pause_row list \<Rightarrow> bool" for lib where
  start: "pause_reachable lib []"
| step: "pause_reachable lib rows \<Longrightarrow> pause_step lib rows rows' \<Longrightarrow> pause_reachable lib rows'"

lemmas finish_ops = resolve_pending_pause_requests_for_runtime_def
  expire_pending_pause_requests_for_session_def expire_pending_pause_requests_for_runtime_def

lemma pause_step_ok: "pause_step lib rows rows' \<Longrightarrow> pause_table_ok rows \<Longrightarrow> pause_table_ok rows'"
  by (induction rule: pause_step.induct)
    (simp_all add: apply_event_ok finish_ops finish.keeps_ok resolve.keeps_ok)

lemma reachable_ok: "pause_reachable lib rows \<Longrightarrow> pause_table_ok rows"
  by (induction rule: pause_reachable.induct) (auto simp: pause_table_ok_def[of "[]"] intro: pause_step_ok)

text \<open>
  (C32) The lifecycle invariant of the pause-request table: in every table the module's operations can
  produce, request keys are unique, every status is \<open>pending\<close> or one of the four terminal ones, and a
  row carries a resolution time exactly when it is no longer pending.
\<close>

theorem pause_table_invariant:
  "pause_reachable lib rows \<Longrightarrow>
   distinct (map pr_request_key rows) \<and>
   (\<forall>r \<in> set rows. (pr_status r = PENDING_STATUS \<longrightarrow> pr_resolved_at r = None) \<and>
      (pr_status r \<noteq> PENDING_STATUS \<longrightarrow> pr_status r \<in> set TERMINAL_STATUSES \<and> pr_resolved_at r \<noteq> None))"
  by (drule reachable_ok) (auto simp: pause_table_ok_def list_all_iff row_status_ok_def)

subsection \<open>What an announcement and an answer achieve\<close>

text \<open>
  A provider asks one question at a time: when a \<open>pause_request\<close> of an existing session is
  applied and the event does not switch \<open>single_active\<close> off, the pending rows of its runtime are
  exactly the announced one, whatever was pending before.
\<close>

theorem single_active_question:
  assumes reach: "pause_reachable lib rows"
    and ev: "ev_kind ev = Pause_request" "ev_session_id ev = Some sid" "ex sid" "single_active (ev_payload ev)"
    and rk: "rk = clean_or_default (clean (Some (ev_runtime_key ev))) []"
    and rows': "rows' = snd (apply_pause_runtime_event lib env ex ev rows)"
  shows "\<exists>r. {x \<in> set rows'. pr_runtime_key x = rk \<and> pr_status x = PENDING_STATUS} = {r} \<and>
     pr_request_key r = pause_runtime_request_key ev \<and> pr_session_id r = sid"
proof -
  have ok: "pause_table_ok rows" using reach by (rule reachable_ok)
  let ?a = "announce_args lib ev sid"
  let ?mid = "supersede_runtime_requests_if_needed rk (pa_request_key ?a) (event_at ev) rows"
  have a: "pa_runtime_key ?a = rk" "pa_request_key ?a = pause_runtime_request_key ev" "pa_session_id ?a = sid"
    by (simp_all add: announce_args_def Let_def rk)
  have new: "rows' = snd (upsert_pause_request env ?a ?mid)"
    using ev a by (simp add: rows' apply_pause_runtime_event_def announce_pause_def Let_def)
  obtain r where r: "r \<in> set rows'" "pr_request_key r = pa_request_key ?a"
    using upsert_announced unfolding new by blast
  have keys: "distinct (map pr_request_key rows')"
    unfolding new by (rule upsert_request_keys) (use supersede.keeps_ok[OF ok] in \<open>simp add: pause_table_ok_def\<close>)
  have "x = r" if x: "x \<in> set rows'" "pr_runtime_key x = rk" "pr_status x = PENDING_STATUS" for x
  proof (cases "pr_request_key x = pa_request_key ?a")
    case True
    then show ?thesis using keys r x(1) by (auto simp: distinct_map inj_on_def)
  next
    case False
    then have "x \<in> set ?mid" using upsert_mem[OF x(1)[unfolded new]] by simp
    then show ?thesis using superseded_not_pending x(2,3) False by blast
  qed
  moreover have "pr_runtime_key r = rk" "pr_status r = PENDING_STATUS" "pr_session_id r = sid"
    using upsert_mem[OF r(1)[unfolded new]] r(2) a by simp_all
  ultimately have "{x \<in> set rows'. pr_runtime_key x = rk \<and> pr_status x = PENDING_STATUS} = {r}"
    using r(1) by blast
  then show ?thesis using r(2) a \<open>pr_session_id r = sid\<close> by (intro exI[of _ r]) simp
qed

lemma request_key_nonempty: "pause_runtime_request_key ev \<noteq> []"
  by (auto simp: pause_runtime_request_key_def make_pause_request_key_def Let_def clean_str_def
      dest: clean_nonempty split: option.splits pyval.splits)

lemma resolution_args_simps [simp]:
  "ra_pause_request_id (resolution_args ev) = None"
  "ra_request_key (resolution_args ev) = Some (pause_runtime_request_key ev)"
  "ra_occurred_at (resolution_args ev) = Some (event_at ev)"
  by (simp_all add: resolution_args_def Let_def)

lemma resolution_finds:
  assumes "pause_table_ok rows" and "r \<in> set rows" and "pr_request_key r = pause_runtime_request_key ev"
  shows "select_pause_request (resolution_args ev) rows = Some r"
  using find_request_key[OF assms(1,2)] assms(3) request_key_nonempty[of ev]
  by (simp add: select_pause_request_def or_none_def)

text \<open>
  What an answer does, on every branch: it never touches another request; a request that is
  already finished keeps its outcome; a pending request whose deadline has passed is denied with the
  deadline's payload whatever the answer says; otherwise it takes the answer's terminal status and
  payload.
\<close>

theorem answer_outcomes:
  assumes reach: "pause_reachable lib rows" and ev: "ev_kind ev = Pause_resolution"
    and r: "r \<in> set rows" "pr_request_key r = pause_runtime_request_key ev"
    and rows': "rows' = snd (apply_pause_runtime_event lib env ex ev rows)"
    and st: "st = ra_status (resolution_args ev)"
  shows "{x \<in> set rows'. pr_id x \<noteq> pr_id r} = {x \<in> set rows. pr_id x \<noteq> pr_id r} \<and>
    (\<exists>r'. {x \<in> set rows'. pr_id x = pr_id r} = {r'} \<and>
       (if pr_status r \<noteq> PENDING_STATUS then r' = r
        else if past_deadline r (event_at ev) \<and> st \<noteq> ''expired''
        then pr_status r' = ''expired'' \<and> pr_response_payload r' = Some expired_decision
        else pr_status r' = terminal_status st \<and>
             pr_response_payload r' = json_obj (ra_response_payload (resolution_args ev))))"
proof -
  have ok: "pause_table_ok rows" using reach by (rule reachable_ok)
  let ?f = "finish_pause_row (resolution_args ev) (event_at ev) r"
  note found = resolution_finds[OF ok r]
  show ?thesis
  proof (cases "pr_status r = PENDING_STATUS")
    case False
    then have "rows' = rows"
      using found ev by (simp add: rows' apply_pause_runtime_event_def resolve_pause_request_def Let_def)
    moreover have "{x \<in> set rows. pr_id x = pr_id r} = {r}" using table_ok_ids[OF ok r(1)] r(1) by blast
    ultimately show ?thesis using False by simp
  next
    case True
    then have new: "rows' = update_where (\<lambda>x. pr_id x = pr_id r) (\<lambda>_. ?f) rows"
      using found ev by (simp add: rows' apply_pause_runtime_event_def resolve_pause_request_def Let_def)
    have "{x \<in> set rows'. pr_id x = pr_id r} = {?f}"
      unfolding new set_update_where using r(1) by auto
    moreover have "{x \<in> set rows'. pr_id x \<noteq> pr_id r} = {x \<in> set rows. pr_id x \<noteq> pr_id r}"
      unfolding new set_update_where by auto
    ultimately show ?thesis using True by (intro conjI exI[of _ ?f]) (auto simp: finish_pause_row_def st)
  qed
qed

subsection \<open>Serving the active question\<close>

definition answerable :: "instant \<Rightarrow> string \<Rightarrow> pause_row \<Rightarrow> bool" where
  "answerable now sid r \<longleftrightarrow> pr_session_id r = sid \<and> pr_status r = PENDING_STATUS \<and>
     \<not> past_deadline r now \<and> is_user_facing_pause_request r"

lemma sort_desc_hd:
  "filter P (sort_desc k rows) = r # rs \<Longrightarrow> r \<in> set rows \<and> P r \<and> (\<forall>x \<in> set rows. P x \<longrightarrow> k x \<le> k r)"
proof -
  assume h: "filter P (sort_desc k rows) = r # rs"
  have "sorted (rev (map k (sort_desc k rows)))" by (simp add: sort_desc_def rev_map)
  then have "sorted_wrt (\<ge>) (map k (sort_desc k rows))" by (simp add: sorted_wrt_rev)
  then have "sorted_wrt (\<lambda>x y. k y \<le> k x) (sort_desc k rows)" by (simp add: sorted_wrt_map)
  then have "sorted_wrt (\<lambda>x y. k y \<le> k x) (r # rs)" unfolding h[symmetric] by (rule sorted_wrt_filter)
  moreover have "set (r # rs) = {x \<in> set rows. P x}"
    unfolding h[symmetric] by (auto simp: sort_desc_def)
  ultimately show ?thesis by (metis (no_types, lifting) list.set_intros(1) mem_Collect_eq order_refl set_ConsD sorted_wrt.simps(2))
qed

lemma first_setdefault:
  "map_of (fold (\<lambda>r m. if A r then m else if \<not> B r then m else setdefault (f r) r m) xs d) k =
     (case map_of d k of Some v \<Rightarrow> Some v | None \<Rightarrow> first_row (filter (\<lambda>r. f r = k \<and> \<not> A r \<and> B r) xs))"
  by (induction xs arbitrary: d) (auto simp: map_of_setdefault first_row_def split: option.splits)

lemma active_map_first:
  assumes "sid \<in> set session_ids"
  shows "map_of (load_active_pause_request_map now session_ids rows) sid =
     first_row (filter (answerable now sid) (sort_desc recency
       (filter (\<lambda>r. pr_session_id r \<in> set session_ids \<and> pr_status r = PENDING_STATUS) rows)))"
    (is "_ = first_row (filter _ ?srt)")
proof -
  have "filter (\<lambda>r. pr_session_id r = sid \<and> \<not> past_deadline r now \<and> is_user_facing_pause_request r)
          (sort_key pr_session_id ?srt) =
        filter (\<lambda>r. \<not> past_deadline r now \<and> is_user_facing_pause_request r)
          (filter (\<lambda>r. pr_session_id r = sid) (sort_key pr_session_id ?srt))"
    by (simp add: conj_commute conj_left_commute)
  also have "\<dots> = filter (\<lambda>r. \<not> past_deadline r now \<and> is_user_facing_pause_request r)
          (filter (\<lambda>r. pr_session_id r = sid) ?srt)"
    by (simp only: sort_key_stable)
  also have "\<dots> = filter (answerable now sid) ?srt"
    by (auto simp: answerable_def sort_desc_def intro!: filter_cong)
  finally show ?thesis
    by (simp add: load_active_pause_request_map_def Let_def first_setdefault)
qed

text \<open>
  The question a session shows is the right one: the map serves a row for a requested session
  exactly when the session has a pending, user-facing request whose deadline has not passed, and the
  row it serves is such a request with none more recent.
\<close>

theorem active_question_served:
  "sid \<in> set session_ids \<Longrightarrow>
   (case map_of (load_active_pause_request_map now session_ids rows) sid of
      None \<Rightarrow> \<not> (\<exists>r \<in> set rows. answerable now sid r)
    | Some r \<Rightarrow> r \<in> set rows \<and> answerable now sid r \<and>
        (\<forall>x \<in> set rows. answerable now sid x \<longrightarrow> recency x \<le> recency r))"
proof -
  assume sid: "sid \<in> set session_ids"
  let ?sel = "filter (\<lambda>r. pr_session_id r \<in> set session_ids \<and> pr_status r = PENDING_STATUS) rows"
  have sel: "answerable now sid x \<Longrightarrow> x \<in> set rows \<longleftrightarrow> x \<in> set ?sel" for x
    using sid by (auto simp: answerable_def)
  show ?thesis
  proof (cases "filter (answerable now sid) (sort_desc recency ?sel)")
    case Nil
    then have "\<not> (\<exists>r \<in> set rows. answerable now sid r)"
      using sel by (auto simp: filter_empty_conv sort_desc_def)
    with Nil show ?thesis by (simp add: active_map_first[OF sid] first_row_def)
  next
    case (Cons r rs)
    note top = sort_desc_hd[OF Cons]
    have "\<forall>x \<in> set rows. answerable now sid x \<longrightarrow> recency x \<le> recency r"
      using top sel by blast
    with top show ?thesis by (simp add: active_map_first[OF sid] Cons first_row_def)
  qed
qed

text \<open>Once the session's requests are expired, nothing is left to serve for it.\<close>

lemma finish_pending_mem:
  assumes "r \<in> set (snd (finish_pending P status t msg rows))" and "pr_status r = PENDING_STATUS"
  shows "r \<in> set rows \<and> \<not> P r"
  using update_where_mem[OF assms(1)[unfolded finish_pending_def Let_def snd_conv]]
proof (elim disjE bexE conjE)
  fix x assume "r = x\<lparr>pr_status := terminal_status status, pr_resolved_at := Some (utc_dt t),
    pr_response_text := (case or_none msg of None \<Rightarrow> pr_response_text x | Some m \<Rightarrow> Some m)\<rparr>"
  then show ?thesis using assms(2) by simp
qed (use assms(2) in blast)

lemma expired_session_serves_nothing:
  "load_active_pause_request_for_session now sid
     (snd (expire_pending_pause_requests_for_session sid t msg rows)) = None"
proof -
  let ?rows = "snd (expire_pending_pause_requests_for_session sid t msg rows)"
  have "\<not> answerable now sid r" if "r \<in> set ?rows" for r
    using finish_pending_mem[OF that[unfolded finish_ops]] by (auto simp: answerable_def)
  then have "filter (answerable now sid) (sort_desc recency (filter (\<lambda>r. pr_session_id r \<in> set [sid] \<and>
      pr_status r = PENDING_STATUS) ?rows)) = []"
    by (simp add: filter_empty_conv sort_desc_def)
  then show ?thesis
    unfolding load_active_pause_request_for_session_def by (simp add: active_map_first first_row_def)
qed

subsection \<open>Samples\<close>

definition ask :: "string \<Rightarrow> int \<Rightarrow> runtime_event" where
  "ask key us = \<lparr>ev_runtime_key = ''codex:s1'', ev_session_id = Some ''s1'', ev_thread_id = None, ev_run_id = None,
     ev_provider = ''codex'', ev_device_id = None, ev_source = ''codex_bridge'', ev_kind = Pause_request,
     ev_phase = None, ev_tool_name = None, ev_occurred_at = DT us None, ev_freshness_ms = None,
     ev_dedupe_key = key, ev_payload = [(''request_key'', PStr key), (''can_respond'', PBool True),
       (''expires_at'', PDatetime (DT 100 None))]\<rparr>"

definition answer :: "string \<Rightarrow> int \<Rightarrow> runtime_event" where
  "answer key us = (ask key us)\<lparr>ev_kind := Pause_resolution,
     ev_payload := [(''request_key'', PStr key), (''status'', PStr ''resolved''),
       (''response_payload'', PDict [(''permissionDecision'', PStr ''allow'')])]\<rparr>"

definition sample_orm :: orm_env where
  "sample_orm = \<lparr>oe_now = UTC 0, oe_uuid4 = (\<lambda>n. dec_nat n)\<rparr>"

definition one_question :: "pause_row list" where
  "one_question = snd (apply_pause_runtime_event sample_lib sample_orm (\<lambda>_. True) (ask ''q1'' 5) [])"

lemma one_question_reachable: "pause_reachable sample_lib one_question"
  unfolding one_question_def by (rule pause_reachable.step[OF pause_reachable.start pause_step.event]) simp

lemma one_question_eval:
  "map pr_request_key one_question = [''q1'']" "map pr_status one_question = [''pending'']"
  "map pr_resolved_at one_question = [None]" "map pr_expires_at one_question = [Some (utc_dt (UTC 100))]"
  "map pr_session_id one_question = [''s1'']" "length one_question = 1"
  by code_simp+

theorem pause_table_invariant_witness:
  "pause_reachable sample_lib one_question \<and> distinct (map pr_request_key one_question) \<and>
   pr_status (hd one_question) = PENDING_STATUS \<and> pr_resolved_at (hd one_question) = None"
proof -
  have mem: "hd one_question \<in> set one_question" using one_question_eval(6) by (intro hd_in_set) auto
  have "pr_status (hd one_question) = PENDING_STATUS" by code_simp
  then show ?thesis using pause_table_invariant[OF one_question_reachable] one_question_reachable mem by blast
qed

theorem single_active_question_witness:
  "\<exists>r. {x \<in> set (snd (apply_pause_runtime_event sample_lib sample_orm (\<lambda>_. True) (ask ''q2'' 9) one_question)).
        pr_runtime_key x = ''codex:s1'' \<and> pr_status x = PENDING_STATUS} = {r} \<and> pr_request_key r = ''q2''"
proof -
  have "pause_runtime_request_key (ask ''q2'' 9) = ''q2''"
    "clean_or_default (clean (Some (ev_runtime_key (ask ''q2'' 9)))) [] = ''codex:s1''"
    "single_active (ev_payload (ask ''q2'' 9))" by code_simp+
  moreover have "ev_kind (ask ''q2'' 9) = Pause_request" "ev_session_id (ask ''q2'' 9) = Some ''s1''"
    by (simp_all add: ask_def)
  ultimately show ?thesis
    using single_active_question[OF one_question_reachable, of "ask ''q2'' 9" "''s1''" "\<lambda>_. True"
        "''codex:s1''" _ sample_orm] by auto
qed

text \<open>An approval that arrives at the deadline is recorded as a denial.\<close>

theorem answer_outcomes_witness:
  "\<exists>r'. r' \<in> set (snd (apply_pause_runtime_event sample_lib sample_orm (\<lambda>_. True) (answer ''q1'' 100) one_question)) \<and>
     pr_status r' = ''expired'' \<and> pr_response_payload r' = Some expired_decision"
proof -
  let ?r = "hd one_question" and ?ev = "answer ''q1'' 100"
  have r: "?r \<in> set one_question" using one_question_eval(6) by (intro hd_in_set) auto
  have "pr_request_key ?r = pause_runtime_request_key ?ev" "pr_status ?r = PENDING_STATUS"
    "past_deadline ?r (event_at ?ev)" "ra_status (resolution_args ?ev) \<noteq> ''expired''" by code_simp+
  moreover have "ev_kind ?ev = Pause_resolution" by (simp add: answer_def)
  ultimately have "\<exists>r'. {x \<in> set (snd (apply_pause_runtime_event sample_lib sample_orm (\<lambda>_. True) ?ev one_question)).
      pr_id x = pr_id ?r} = {r'} \<and> pr_status r' = ''expired'' \<and> pr_response_payload r' = Some expired_decision"
    using answer_outcomes[OF one_question_reachable _ r _ refl refl, of ?ev sample_orm "\<lambda>_. True"] by simp
  then show ?thesis by blast
qed

theorem active_question_served_witness:
  "\<exists>r. map_of (load_active_pause_request_map (UTC 50) [''s1''] one_question) ''s1'' = Some r \<and>
     r \<in> set one_question \<and> answerable (UTC 50) ''s1'' r"
proof -
  have "map_of (load_active_pause_request_map (UTC 50) [''s1''] one_question) ''s1'' \<noteq> None" by code_simp
  then show ?thesis
    using active_question_served[where sid = "''s1''" and session_ids = "[''s1'']" and now = "UTC 50" and rows = one_question] by (auto split: option.splits)
qed

end
