(* ===== verification/Runtime_Properties.thy ===== *)
theory Runtime_Properties
  imports Runtime_Invariants Pause_Lifecycle
begin

text \<open>
  What the runtime reducer guarantees: the invariant of every reachable row, the finality of a closed
  session and of an ended run, the monotonicity of the signal clock, the version as a count of changes,
  and the composition with the kernel projection, the runtime view and the pause requests.
\<close>

subsection \<open>Reachable stores\<close>

inductive runtime_step :: "lane \<Rightarrow> runtime_store \<Rightarrow> runtime_store \<Rightarrow> bool" for lane where
  event: "apply_runtime_event env lane ev s = Inr (oc, s') \<Longrightarrow> runtime_step lane s s'"
| other_tables: "st_rows s' = st_rows s \<Longrightarrow> runtime_step lane s s'"

inductive runtime_reachable :: "lane \<Rightarrow> runtime_store \<Rightarrow> bool" for lane where
  start: "st_rows s = [] \<Longrightarrow> runtime_reachable lane s"
| step: "runtime_reachable lane s \<Longrightarrow> runtime_step lane s s' \<Longrightarrow> runtime_reachable lane s'"

lemma runtime_step_ok: "runtime_step lane s s' \<Longrightarrow> store_ok s \<Longrightarrow> store_ok s'"
proof (induction rule: runtime_step.induct)
  case (event env ev s oc s')
  then show ?case by (rule reducer_keeps_ok)
qed (simp add: store_ok_def)

lemma runtime_reachable_ok: "runtime_reachable lane s \<Longrightarrow> store_ok s"
proof (induction rule: runtime_reachable.induct)
  case (step s s')
  from step.hyps(2) step.IH show ?case by (rule runtime_step_ok)
qed (simp add: store_ok_def)

text \<open>
  The invariant of the runtime rows, in every store the events of either lane can produce: one row
  per runtime key; a phase that is never blank; a tool only while running or blocked; a terminal state
  exactly when there is a terminal time, and then the phase is \<open>finished\<close> and the terminal time is the
  last runtime signal; a start of execution whenever the phase is an executing one.
\<close>

theorem runtime_rows_invariant:
  "runtime_reachable lane s \<Longrightarrow>
   distinct (map rr_runtime_key (st_rows s)) \<and>
   (\<forall>r \<in> set (st_rows s).
      rs_phase r \<noteq> None \<and> rs_phase r \<noteq> Some [] \<and>
      (rs_active_tool r \<noteq> None \<longrightarrow> rs_phase r \<in> {Some ''running'', Some ''blocked''}) \<and>
      (rs_terminal_state r \<noteq> None \<longleftrightarrow> rs_terminal_at r \<noteq> None) \<and>
      (rs_terminal_state r \<noteq> None \<longrightarrow> rs_phase r = Some ''finished'') \<and>
      (rs_terminal_state r \<noteq> None \<longrightarrow>
         normalize_utc (rs_last_runtime_signal_at r) = normalize_utc (rs_terminal_at r)) \<and>
      (rs_phase r \<in> {Some ''thinking'', Some ''running''} \<longrightarrow> rr_execution_started_at r \<noteq> None))"
proof -
  assume "runtime_reachable lane s"
  then have ok: "store_ok s" by (rule runtime_reachable_ok)
  show ?thesis
  proof (intro conjI ballI)
    show "distinct (map rr_runtime_key (st_rows s))" using ok by (simp add: store_ok_def)
    fix r assume "r \<in> set (st_rows s)"
    with ok have ok: "phase_ok r" "terminal_ok r" by (simp_all add: store_ok_def list_all_iff row_ok_def)
    from ok(1) obtain p where p: "rs_phase r = Some p" "p \<noteq> []" "rs_active_tool r \<noteq> None \<longrightarrow> p \<in> {''running'', ''blocked''}"
      "p \<in> set LIVE_EXECUTION_PHASES \<longrightarrow> rr_execution_started_at r \<noteq> None"
      unfolding phase_ok_def by blast
    show "rs_phase r \<noteq> None" "rs_phase r \<noteq> Some []" using p(1,2) by simp_all
    show "rs_active_tool r \<noteq> None \<longrightarrow> rs_phase r \<in> {Some ''running'', Some ''blocked''}" using p(1,3) by simp
    show "rs_phase r \<in> {Some ''thinking'', Some ''running''} \<longrightarrow> rr_execution_started_at r \<noteq> None"
      using p(1,4) by (simp add: LIVE_EXECUTION_PHASES_def)
    show "rs_terminal_state r \<noteq> None \<longleftrightarrow> rs_terminal_at r \<noteq> None"
      using ok(2) unfolding terminal_ok_def by metis
    show "rs_terminal_state r \<noteq> None \<longrightarrow> rs_phase r = Some ''finished''"
      using ok(2) unfolding terminal_ok_def by simp
    show "rs_terminal_state r \<noteq> None \<longrightarrow> normalize_utc (rs_last_runtime_signal_at r) = normalize_utc (rs_terminal_at r)"
      using ok(2) unfolding terminal_ok_def by simp
  qed
qed

subsection \<open>Finality\<close>

lemma snapshot_interaction [simp]:
  "state_snapshot (touch_interaction ev r) = state_snapshot r"
  "state_snapshot (open_interaction env ev r) = state_snapshot r"
  "state_snapshot (clear_interaction r) = state_snapshot r"
  by (simp_all add: state_snapshot_def touch_interaction_def open_interaction_def clear_interaction_def bump_version_def)

lemma interaction_keys [simp]:
  "rr_runtime_key (touch_interaction ev r) = rr_runtime_key r"
  "rr_runtime_key (open_interaction env ev r) = rr_runtime_key r"
  "rr_runtime_key (clear_interaction r) = rr_runtime_key r"
  by (simp_all add: touch_interaction_def open_interaction_def clear_interaction_def bump_version_def)

text \<open>A pause event never changes the signal columns of a row.\<close>

lemma pause_keeps_snapshot:
  assumes kind: "ev_kind ev \<in> {Pause_request, Pause_resolution}"
    and app: "apply_runtime_event env lane ev s = Inr (oc, s')" and r: "row_of s k = Some r"
  shows "\<exists>r'. row_of s' k = Some r' \<and> state_snapshot r' = state_snapshot r"
proof (cases lane)
  case Archive_lane
  then show ?thesis using app kind r by (auto simp: apply_runtime_event_def Let_def row_of_def)
next
  case Live_lane
  then have "live_pause_event env ev s = Inr (oc, s')" using app kind by (auto simp: apply_runtime_event_def)
  then obtain st s1 where e: "ensure_state env Live_lane ev s = Inr (st, s1)"
    and s': "s' = s1 \<or> s' = put_row (touch_interaction ev (open_interaction env ev st)) s1 \<or>
         s' = put_row (touch_interaction ev (clear_interaction st)) s1"
    by (auto simp: live_pause_event_def split: if_splits)
  have s1: "row_of s1 k = Some r" and st: "k = ev_runtime_key ev \<Longrightarrow> st = r"
    using ensure_state_row(1,3)[OF e] ensure_state_cases[OF e] r by (cases "k = ev_runtime_key ev"; auto)+
  show ?thesis
    using s' s1 st ensure_state_row(2)[OF e] by (elim disjE) (auto simp: row_of_put)
qed

lemma protected_kept:
  assumes r: "row_of s k = Some r" and prot: "k = ev_runtime_key ev \<Longrightarrow> row_protected ev r"
    and app: "apply_runtime_event env lane ev s = Inr (oc, s')"
  shows "\<exists>r'. row_of s' k = Some r' \<and> state_snapshot r' = state_snapshot r"
proof (cases "ev_kind ev \<in> {Pause_request, Pause_resolution}")
  case True
  then show ?thesis using pause_keeps_snapshot[OF _ app r] by simp
next
  case False
  show ?thesis
  proof (cases "k = ev_runtime_key ev")
    case True
    with r have r': "row_of s (ev_runtime_key ev) = Some r" by simp
    obtain early row where mv: "row_move (rt_lib env) ev r early row"
      and row: "row_of s' (ev_runtime_key ev) = Some (settled_row env r early row)"
      using apply_event_existing[OF False app r'] .
    from mv prot[OF True] have "row = r" "early \<noteq> None" by (auto elim: row_move.cases)
    then show ?thesis using row True by (simp add: settled_row_def)
  qed (use apply_event_other[OF False app] r in simp)
qed

text \<open>A batch of events, each with its environment.\<close>

definition apply_events :: "lane \<Rightarrow> (runtime_env \<times> runtime_event) list \<Rightarrow> runtime_store \<Rightarrow> runtime_store res" where
  "apply_events lane = foldR (\<lambda>(env, ev) s. bindR (apply_runtime_event env lane ev s) (\<lambda>(oc, s'). Inr s'))"

lemma snapshot_terminal: "state_snapshot a = state_snapshot b \<Longrightarrow> terminal_of a = terminal_of b \<and> rr_run_id a = rr_run_id b"
  by (simp add: state_snapshot_def terminal_of_def)

text \<open>
  (C31) An explicitly closed session stays closed: once the row of a runtime key carries \<open>user_closed\<close>,
  no sequence of events, in either lane, from any provider and for any run, changes a column of the row
  that counts as runtime state, and input to it is refused as \<open>session_closed\<close>.
\<close>

theorem closed_session_is_final:
  assumes "row_of s k = Some r" and "terminal_of r = ''user_closed''"
    and "apply_events lane evs s = Inr s'"
  shows "\<exists>r'. row_of s' k = Some r' \<and> state_snapshot r' = state_snapshot r \<and>
    session_input_block_reason (Some (runtime_state.truncate r')) = Some ''session_closed''"
proof -
  have "\<exists>r'. row_of s' k = Some r' \<and> state_snapshot r' = state_snapshot r"
    using assms
  proof (induction evs arbitrary: s r)
    case Nil
    then show ?case by (simp add: apply_events_def)
  next
    case (Cons x evs)
    obtain env ev oc s1 where x: "x = (env, ev)" "apply_runtime_event env lane ev s = Inr (oc, s1)"
      "apply_events lane evs s1 = Inr s'"
      using Cons.prems(3) by (cases x) (auto simp: apply_events_def)
    have "row_protected ev r" using Cons.prems(2) by (simp add: row_protected_def EXPLICIT_CLOSED_TERMINAL_STATES_def)
    then obtain r1 where "row_of s1 k = Some r1" "state_snapshot r1 = state_snapshot r"
      using protected_kept[OF Cons.prems(1) _ x(2)] by blast
    then show ?case using Cons.IH[OF _ _ x(3)] Cons.prems(2) snapshot_terminal by metis
  qed
  then obtain r' where r': "row_of s' k = Some r'" "state_snapshot r' = state_snapshot r" by blast
  moreover have "terminal_of r' = ''user_closed''" using snapshot_terminal[OF r'(2)] assms(2) by simp
  ultimately show ?thesis
    by (simp add: session_input_block_reason_def terminal_of_def runtime_state.truncate_def
        EXPLICIT_CLOSED_TERMINAL_STATES_def)
qed

text \<open>
  (C33) An ended run is not reopened by its own late signals: when a row records the end of its run and
  one event changes its runtime state, then the event names another run, or it is the explicit closure
  of the session.
\<close>

theorem ended_run_reopens_only_for_new_run:
  assumes "row_of s k = Some r" and "terminal_of r \<in> set (RUN_END_TERMINAL_STATES @ RUN_TERMINAL_STATES)"
    and "apply_runtime_event env lane ev s = Inr (oc, s')" and "row_of s' k = Some r'"
    and "state_snapshot r' \<noteq> state_snapshot r"
  shows "ev_runtime_key ev = k \<and> ((ev_run_id ev \<noteq> None \<and> ev_run_id ev \<noteq> rr_run_id r) \<or>
     (ev_kind ev = Terminal_signal \<and> event_terminal ev = ''user_closed''))"
proof -
  have "\<not> (k = ev_runtime_key ev \<longrightarrow> row_protected ev r)"
    using protected_kept[OF assms(1) _ assms(3)] assms(4,5) by force
  then show ?thesis
    using assms(2) by (auto simp: row_protected_def opens_new_run_def closes_session_def EXPLICIT_CLOSED_TERMINAL_STATES_def)
qed

subsection \<open>The signal clock\<close>

lemma latest_mem: "latest_timestamp vs = Some l \<Longrightarrow> Some l \<in> set vs"
proof -
  assume h: "latest_timestamp vs = Some l"
  then obtain x xs where xs: "List.map_filter id vs = x # xs" "l = fold max xs x"
    by (auto simp: latest_timestamp_def split: list.splits)
  have "l \<in> set (x # xs)" unfolding xs(2) by (metis List.finite_set Max.set_eq_fold Max_in empty_not_insert list.set(2))
  then show ?thesis unfolding xs(1)[symmetric] by (auto simp: List.map_filter_def)
qed

definition clock_le :: "instant option \<Rightarrow> instant option \<Rightarrow> bool" where
  "clock_le a b = (case a of None \<Rightarrow> True | Some x \<Rightarrow> (case b of None \<Rightarrow> False | Some y \<Rightarrow> x \<le> y))"

text \<open>Every clock of one list is matched by a later one of the other.\<close>

lemma latest_mono:
  assumes "\<And>t. Some t \<in> set vs \<Longrightarrow> \<exists>u. Some u \<in> set ws \<and> t \<le> u"
  shows "clock_le (latest_timestamp vs) (latest_timestamp ws)"
proof (cases "latest_timestamp vs")
  case (Some l)
  then obtain u where "Some u \<in> set ws" "l \<le> u" using latest_mem assms by blast
  then obtain m where "latest_timestamp ws = Some m" "l \<le> m" using latest_ge order_trans by blast
  then show ?thesis by (simp add: Some clock_le_def)
qed (simp add: clock_le_def)

lemma clock_le_refl [simp]: "clock_le a a"
  by (simp add: clock_le_def split: option.splits)

lemma not_older_le: "\<not> older_than at (row_signal_clock st) \<Longrightarrow> clock_le (row_signal_clock st) (Some at)"
  by (auto simp: older_than_def clock_le_def split: option.splits)

lemma clock_le_trans: "clock_le a b \<Longrightarrow> clock_le b c \<Longrightarrow> clock_le a c"
  by (auto simp: clock_le_def split: option.splits)

lemma clock_has: "Some t \<in> {normalize_utc (rs_last_runtime_signal_at r), normalize_utc (rs_last_progress_at r)} \<Longrightarrow>
   clock_le (Some t) (row_signal_clock r)"
  using latest_ge[of t "[normalize_utc (rs_last_runtime_signal_at r), normalize_utc (rs_last_progress_at r),
      normalize_utc (rs_terminal_at r)]"] by (auto simp: row_signal_clock_def clock_le_def split: option.splits)

text \<open>The event's own time is in the clock of a row that accepted it.\<close>

lemma accepted_clock:
  "accept_phase_signal lib ev st = Inr row \<Longrightarrow> clock_le (Some (event_at ev)) (row_signal_clock row)"
  "clock_le (Some (event_at ev)) (row_signal_clock (accept_progress_signal ev st))"
  "clock_le (Some (event_at ev)) (row_signal_clock (accept_terminal_signal lib ev t st))"
proof -
  show "clock_le (Some (event_at ev)) (row_signal_clock row)" if "accept_phase_signal lib ev st = Inr row"
    by (rule clock_has) (use that in \<open>auto simp: accept_phase_signal_def Let_def clear_terminal_def\<close>)
  show "clock_le (Some (event_at ev)) (row_signal_clock (accept_progress_signal ev st))"
    by (rule clock_has) (simp add: accept_progress_signal_def Let_def clear_terminal_def back_to_idle_def)
  show "clock_le (Some (event_at ev)) (row_signal_clock (accept_terminal_signal lib ev t st))"
    by (rule clock_has) (simp add: accept_terminal_signal_def Let_def)
qed

text \<open>Clearing the terminal time loses nothing, because it is the last runtime signal.\<close>

lemma stale_clock:
  assumes "stale_phase_signal lib ev before st = Inr (oc, row)" and "terminal_ok st"
  shows "clock_le (row_signal_clock st) (row_signal_clock row)"
proof (cases "row = st")
  case False
  then have "rs_last_runtime_signal_at row = rs_last_runtime_signal_at st" "rs_last_progress_at row = rs_last_progress_at st"
    "rs_terminal_at row = None"
    using assms(1) by (auto simp: stale_phase_signal_def Let_def clear_terminal_def bump_version_def split: if_splits)
  then show ?thesis using assms(2) unfolding row_signal_clock_def
    by (intro latest_mono) (auto simp: terminal_ok_def)
qed simp

lemma row_move_clock:
  assumes "row_move lib ev st early row" and "terminal_ok st"
    and "\<not> (ev_kind ev = Terminal_signal \<and> event_terminal ev = ''session_ended'')"
  shows "clock_le (row_signal_clock st) (row_signal_clock row)"
  using assms
proof (cases rule: row_move.cases)
  case (stale tid oc)
  then show ?thesis using stale_clock[OF stale(6)] assms(2) by (simp add: identity_ok)
next
  case (phase tid)
  then show ?thesis using clock_le_trans[OF not_older_le accepted_clock(1)[OF phase(6)]] by simp
next
  case (progress tid)
  then show ?thesis using clock_le_trans[OF not_older_le accepted_clock(2)] by simp
next
  case (terminal tid)
  then show ?thesis using clock_le_trans[OF not_older_le accepted_clock(3)] assms(3) by blast
next
  case (binding tid)
  then show ?thesis by (simp add: row_signal_clock_def binding_signal_def split: option.splits)
qed simp_all

lemma bookkeeping_clock [simp]:
  "row_signal_clock (bump_version r) = row_signal_clock r" "row_signal_clock (stamp_updated env l r) = row_signal_clock r"
  by (simp_all add: row_signal_clock_def stamp_updated_def bump_version_def)

lemma settled_clock [simp]: "row_signal_clock (settled_row env st early row) = row_signal_clock row"
  by (simp add: settled_row_def)

text \<open>
  Signals apply in order: in a reachable store the signal clock of a row, the latest of its runtime
  signal, progress and terminal times, never moves back under an event, whatever the event's own time;
  only a late \<open>session_ended\<close>, which is accepted out of order, may set it back.
\<close>

theorem signal_clock_is_monotone:
  assumes "runtime_reachable lane s" and "ev_kind ev \<notin> {Pause_request, Pause_resolution}"
    and "apply_runtime_event env lane ev s = Inr (oc, s')"
    and "row_of s (ev_runtime_key ev) = Some r" and "row_of s' (ev_runtime_key ev) = Some r'"
    and "\<not> (ev_kind ev = Terminal_signal \<and> event_terminal ev = ''session_ended'')"
  shows "clock_le (row_signal_clock r) (row_signal_clock r')"
proof -
  have "terminal_ok r"
    using runtime_reachable_ok[OF assms(1)] row_of_mem[OF assms(4)] by (auto simp: store_ok_def list_all_iff row_ok_def)
  moreover obtain early row where "row_move (rt_lib env) ev r early row" "r' = settled_row env r early row"
    using apply_event_existing[OF assms(2,3,4)] assms(5) by (metis option.inject)
  ultimately show ?thesis using row_move_clock assms(6) by simp
qed

subsection \<open>The version\<close>

text \<open>The event names nothing new about the row: neither session, thread, run, provider nor device.\<close>

definition binds_nothing :: "runtime_event \<Rightarrow> runtime_row \<Rightarrow> bool" where
  "binds_nothing ev r \<longleftrightarrow> ev_session_id ev \<in> {None, rr_session_id r} \<and> ev_thread_id ev \<in> {None, rr_thread_id r} \<and>
     ev_run_id ev \<in> {None, rr_run_id r} \<and> ev_provider ev \<in> {[], rr_provider r} \<and> ev_device_id ev \<in> {None, rr_device_id r}"

lemma option_or_absorb: "a \<in> {None, b} \<Longrightarrow> option_or a b = b"
  by (auto simp: option_or_def split: option.splits)

lemma binds_nothing_rebound:
  assumes "binds_nothing ev st" and "thread_choice ev st tid"
  shows "rebound_row ev tid st = st"
proof -
  have "tid = rr_thread_id st" using assms unfolding binds_nothing_def thread_choice_def by blast
  moreover have "ev_provider ev = [] \<or> ev_provider ev = rr_provider st" using assms(1) by (simp add: binds_nothing_def)
  ultimately show ?thesis
    using assms(1) unfolding binds_nothing_def rebound_row_def by (simp only: option_or_absorb) auto
qed

lemma quiet_move:
  assumes "row_move lib ev st (Some oc) row" and "binds_nothing ev st"
  shows "rs_runtime_version row = rs_runtime_version st + (if state_snapshot row = state_snapshot st then 0 else 1) \<and>
    (oc \<noteq> Applied \<longrightarrow> state_snapshot row = state_snapshot st)"
  using assms
proof (cases rule: row_move.cases)
  case (stale tid)
  then show ?thesis using stale_version[OF stale(5)] binds_nothing_rebound[OF assms(2) stale(1)] by auto
qed (simp_all add: binds_nothing_rebound)

text \<open>
  The version of a row counts its changes: an event that names no new session, thread, run,
  provider or device raises the version by exactly one when it changes the runtime state of the row and
  leaves it alone otherwise, and every outcome but \<open>applied\<close> means that nothing changed.
\<close>

theorem version_counts_changes:
  assumes "ev_kind ev \<notin> {Pause_request, Pause_resolution}" and "apply_runtime_event env lane ev s = Inr (oc, s')"
    and "row_of s (ev_runtime_key ev) = Some r" and "row_of s' (ev_runtime_key ev) = Some r'" and "binds_nothing ev r"
  shows "rs_runtime_version r' = rs_runtime_version r + (if state_snapshot r' = state_snapshot r then 0 else 1) \<and>
    (oc \<noteq> Applied \<longrightarrow> state_snapshot r' = state_snapshot r)"
proof (rule apply_event_existing[OF assms(1,2,3)])
  fix early row
  assume mv: "row_move (rt_lib env) ev r early row"
    and row: "row_of s' (ev_runtime_key ev) = Some (settled_row env r early row)"
    and oc: "case early of Some oc' \<Rightarrow> oc = oc' | None \<Rightarrow> state_snapshot row \<noteq> state_snapshot r \<longrightarrow> oc = Applied"
  have r': "r' = settled_row env r early row" using row assms(4) by simp
  show ?thesis
  proof (cases early)
    case None
    then have "rs_runtime_version row = rs_runtime_version r" using version_of_move[OF mv] by auto
    then show ?thesis using oc None by (auto simp: r' settled_row_def)
  next
    case (Some oc')
    then show ?thesis using quiet_move[OF mv[unfolded Some] assms(5)] oc by (simp add: r' settled_row_def)
  qed
qed

subsection \<open>The end of a run\<close>

lemma run_end_effect:
  assumes app: "apply_run_terminal_event env lane ev state_run s = Inr (c, s')"
    and rid: "option_or (ev_run_id ev) state_run = Some rid"
    and run: "find (\<lambda>r. rn_id r = rid) (kd_runs (st_kernel s)) = Some run"
    and owned: "run_owned_by (st_kernel s) run (ev_session_id ev)"
  obtains at status where
    "kd_connections (st_kernel s') = update_where (open_connection rid) (end_connection at) (kd_connections (st_kernel s))"
    "kd_runs (st_kernel s') = (case rn_ended_at run of
       Some _ \<Rightarrow> kd_runs (st_kernel s)
     | None \<Rightarrow> update_where (\<lambda>r. rn_id r = rid) (\<lambda>r. r\<lparr>rn_ended_at := Some (utc_dt (event_at ev)), rn_exit_status := Some status\<rparr>)
                (kd_runs (st_kernel s)))"
proof (cases "normalize_utc (rn_ended_at run)")
  case None
  then have "rn_ended_at run = None" by (simp add: normalize_utc_def)
  then show ?thesis using app rid run owned None unfolding apply_run_terminal_event_def
    by (cases lane) (auto simp: Let_def dest!: finish_console_turn_frame intro: that)
next
  case (Some t)
  then have "rn_ended_at run \<noteq> None" by (auto simp: normalize_utc_def)
  then show ?thesis using app rid run owned Some unfolding apply_run_terminal_event_def
    by (cases lane) (auto simp: Let_def dest!: finish_console_turn_frame intro: that)
qed

lemma live_payload_run:
  "kc_live_control_available (project_session_capabilities reg db sid now) \<Longrightarrow>
   \<exists>r \<in> set (kd_runs db). rn_ended_at r = None \<and> kc_run_id (project_session_capabilities reg db sid now) = Some (rn_id r)"
proof -
  assume live: "kc_live_control_available (project_session_capabilities reg db sid now)"
  let ?th = "first_row (sort_key thread_order (filter (\<lambda>t. th_session_id t = sid \<and> th_is_primary t) (kd_threads db)))"
  obtain t r where t: "?th = Some t"
    and r: "first_row (runs_newest_first (filter (\<lambda>r. rn_thread_id r = th_id t) (kd_runs db))) = Some r"
      "rn_ended_at r = None"
    using live by (auto simp: project_session_capabilities_def Let_def payload_live label_for_live split: option.splits)
  have "r \<in> set (kd_runs db)"
    using first_row_mem[OF r(1)] by (simp add: runs_newest_first_def)
  moreover have "kc_run_id (project_session_capabilities reg db sid now) = Some (rn_id r)"
    using t r by (simp add: project_session_capabilities_def Let_def payload_from_rows_def base_payload_def split: option.splits)
  ultimately show ?thesis using r(2) by blast
qed

text \<open>
  Ending a run withdraws its control: after the terminal event of a run the store holds, no
  connection of that run is open, each one it closed has lost every capability, a run that had already
  ended keeps its first end, and the capability projection never reports live control of that run.
\<close>

theorem run_end_withdraws_control:
  assumes app: "apply_run_terminal_event env lane ev state_run s = Inr (c, s')"
    and rid: "option_or (ev_run_id ev) state_run = Some (rn_id run)"
    and run: "run \<in> set (kd_runs (st_kernel s))" "distinct (map rn_id (kd_runs (st_kernel s)))"
    and owned: "run_owned_by (st_kernel s) run (ev_session_id ev)"
  shows "(\<forall>x \<in> set (kd_connections (st_kernel s')). cn_run_id x = rn_id run \<longrightarrow>
        cn_state x \<notin> {''attached'', ''degraded'', ''detached''}) \<and>
     (\<forall>x \<in> set (kd_connections (st_kernel s')). x \<notin> set (kd_connections (st_kernel s)) \<longrightarrow>
        cn_state x = ''ended'' \<and> cn_can_send_input x = 0 \<and> cn_can_interrupt x = 0 \<and> cn_can_terminate x = 0 \<and>
        cn_can_tail_output x = 0 \<and> cn_can_resume x = 0) \<and>
     (rn_ended_at run \<noteq> None \<longrightarrow> kd_runs (st_kernel s') = kd_runs (st_kernel s)) \<and>
     \<not> (kc_run_id (project_session_capabilities reg (st_kernel s') sid now) = Some (rn_id run) \<and>
        kc_live_control_available (project_session_capabilities reg (st_kernel s') sid now))"
proof -
  have inj: "r = run" if "r \<in> set (kd_runs (st_kernel s))" "rn_id r = rn_id run" for r
    using run that by (auto simp: distinct_map inj_on_def)
  have "find (\<lambda>r. rn_id r = rn_id run) (kd_runs (st_kernel s)) \<noteq> None"
    using run(1) by (auto simp: find_None_iff)
  then obtain x where x: "find (\<lambda>r. rn_id r = rn_id run) (kd_runs (st_kernel s)) = Some x" by blast
  then have found: "find (\<lambda>r. rn_id r = rn_id run) (kd_runs (st_kernel s)) = Some run"
    using find_mem[OF x] inj[of x] by simp
  obtain at status where conns: "kd_connections (st_kernel s') =
      update_where (open_connection (rn_id run)) (end_connection at) (kd_connections (st_kernel s))"
    and runs: "kd_runs (st_kernel s') = (case rn_ended_at run of
       Some _ \<Rightarrow> kd_runs (st_kernel s)
     | None \<Rightarrow> update_where (\<lambda>r. rn_id r = rn_id run)
         (\<lambda>r. r\<lparr>rn_ended_at := Some (utc_dt (event_at ev)), rn_exit_status := Some status\<rparr>) (kd_runs (st_kernel s)))"
    using run_end_effect[OF app rid found owned] .
  have ended: "rn_ended_at r \<noteq> None" if "r \<in> set (kd_runs (st_kernel s'))" "rn_id r = rn_id run" for r
    using that inj by (cases "rn_ended_at run") (auto simp: runs update_where_def split: if_splits)
  have "x \<notin> set (kd_connections (st_kernel s)) \<Longrightarrow> \<exists>y. x = end_connection at y"
    if "x \<in> set (kd_connections (st_kernel s'))" for x
    using update_where_mem[OF that[unfolded conns]] by blast
  moreover have "cn_state x \<notin> {''attached'', ''degraded'', ''detached''}"
    if "x \<in> set (kd_connections (st_kernel s'))" "cn_run_id x = rn_id run" for x
    using update_where_mem[OF that(1)[unfolded conns]] that(2) by (auto simp: open_connection_def end_connection_def)
  moreover have "\<not> (kc_run_id (project_session_capabilities reg (st_kernel s') sid now) = Some (rn_id run) \<and>
        kc_live_control_available (project_session_capabilities reg (st_kernel s') sid now))"
    using live_payload_run ended by force
  ultimately show ?thesis by (force simp: runs end_connection_def)
qed

subsection \<open>From a signal to the served view\<close>

lemma settled_columns:
  "rs_phase (settled_row env st early row) = rs_phase row"
  "rs_freshness_expires_at (settled_row env st early row) = rs_freshness_expires_at row"
  "rs_terminal_state (settled_row env st early row) = rs_terminal_state row"
  "rr_run_id (settled_row env st early row) = rr_run_id row"
  "rs_terminal_at (settled_row env st early row) = rs_terminal_at row"
  "rr_runtime_key (settled_row env st early row) = rr_runtime_key row"
proof -
  note defs = stamp_updated_def bump_version_def
  have phase: "rs_phase (stamp_updated env l r) = rs_phase r" "rs_phase (bump_version r) = rs_phase r"
    and fresh: "rs_freshness_expires_at (stamp_updated env l r) = rs_freshness_expires_at r"
      "rs_freshness_expires_at (bump_version r) = rs_freshness_expires_at r"
    and trm: "rs_terminal_state (stamp_updated env l r) = rs_terminal_state r" "rs_terminal_state (bump_version r) = rs_terminal_state r"
    and run: "rr_run_id (stamp_updated env l r) = rr_run_id r" "rr_run_id (bump_version r) = rr_run_id r"
    and at: "rs_terminal_at (stamp_updated env l r) = rs_terminal_at r" "rs_terminal_at (bump_version r) = rs_terminal_at r"
    and key: "rr_runtime_key (stamp_updated env l r) = rr_runtime_key r" "rr_runtime_key (bump_version r) = rr_runtime_key r" for l r
    by (simp_all add: defs)
  show "rs_phase (settled_row env st early row) = rs_phase row" by (simp add: settled_row_def phase)
  show "rs_freshness_expires_at (settled_row env st early row) = rs_freshness_expires_at row" by (simp add: settled_row_def fresh)
  show "rs_terminal_state (settled_row env st early row) = rs_terminal_state row" by (simp add: settled_row_def trm)
  show "rr_run_id (settled_row env st early row) = rr_run_id row" by (simp add: settled_row_def run)
  show "rs_terminal_at (settled_row env st early row) = rs_terminal_at row" by (simp add: settled_row_def at)
  show "rr_runtime_key (settled_row env st early row) = rr_runtime_key row" by (simp add: settled_row_def key)
qed

text \<open>
  A phase signal reaches the reader: when a current signal with a known phase is applied to a row,
  the runtime view built from the stored row serves that phase as the session's presence at every instant
  before its freshness runs out, and serves no presence from then on.
\<close>

theorem phase_signal_is_served:
  assumes "ev_kind ev = Phase_signal" and "apply_runtime_event env lane ev s = Inr (oc, s')"
    and "row_of s (ev_runtime_key ev) = Some r" and "\<not> row_protected ev r"
    and "\<not> older_than (event_at ev) (row_signal_clock r)"
    and "next_phase_of ev r \<in> set KNOWN_PHASES" and "phase_signal_freshness_ms ev (next_phase_of ev r) = Some ms"
  shows "\<exists>r'. row_of s' (ev_runtime_key ev) = Some r' \<and>
    (\<forall>now session. rv_presence_state (build_runtime_view (runtime_state.truncate r') session now) =
       (if utc_us now < utc_us (managed_lease_refresh_at (rt_lib env) ev (event_at ev)) + ms * 1000
        then Some (next_phase_of ev r) else None))"
proof (rule apply_event_existing[OF _ assms(2,3)])
  show "ev_kind ev \<notin> {Pause_request, Pause_resolution}" using assms(1) by simp
  fix early row
  assume mv: "row_move (rt_lib env) ev r early row"
    and row: "row_of s' (ev_runtime_key ev) = Some (settled_row env r early row)"
  let ?p = "next_phase_of ev r" and ?base = "managed_lease_refresh_at (rt_lib env) ev (event_at ev)"
  obtain tid where acc: "accept_phase_signal (rt_lib env) ev (rebound_row ev tid r) = Inr row"
    using mv assms(1,4,5) by (auto elim: row_move.cases)
  have np: "next_phase_of ev (rebound_row ev tid r) = ?p" by (simp add: next_phase_of_def)
  from acc assms(7) obtain t where t: "add_ms ?base ms = Inr t" "rs_freshness_expires_at row = Some (utc_dt t)"
    and p: "rs_phase row = Some ?p"
    by (auto simp: accept_phase_signal_def Let_def np freshness_expiry_def clear_terminal_def)
  have t_us: "utc_us t = utc_us ?base + ms * 1000" using add_ms_value[OF t(1)] by simp
  have clean_p: "clean_or (Some ?p) ''idle'' = ?p"
    using assms(6) by (auto simp: KNOWN_PHASES_def clean_or_def or_none_def clean_def py_strip_def is_space_def)
  let ?r' = "runtime_state.truncate (settled_row env r early row)"
  have cols: "rs_phase ?r' = Some ?p" "rs_freshness_expires_at ?r' = Some (utc_dt t)"
    using p t(2) by (simp_all add: runtime_state.truncate_def settled_columns)
  have "rv_presence_state (build_runtime_view ?r' session now) =
      (if utc_us now < utc_us ?base + ms * 1000 then Some ?p else None)" for session now
    using assms(6) by (simp add: build_runtime_view_def Let_def cols clean_p confidence_for_state_def t_us less_instant_def)
  then show ?thesis using row by blast
qed

subsection \<open>Closing a session\<close>

lemma existing_row_event:
  assumes "ev_kind ev \<notin> {Pause_request, Pause_resolution}" and "row_of s (ev_runtime_key ev) = Some r"
  shows "apply_runtime_event env lane ev s = bindR (apply_to_row env lane ev r s) (\<lambda>res. Inr (settle env r res))"
  using assms by (simp add: apply_runtime_event_def ensure_state_def)

text \<open>The path of an event that is not protected.\<close>

lemma unprotected_terminal:
  assumes "\<not> row_protected ev st" and "ev_kind ev = Terminal_signal"
  shows "apply_to_row env lane ev st s = bindR (rebind env lane ev st s) (\<lambda>(st1, s1). terminal_signal env lane ev st1 s1)"
proof -
  have "\<not> (terminal_of st \<in> set (RUN_END_TERMINAL_STATES @ RUN_TERMINAL_STATES) \<and> \<not> opens_new_run ev st \<and>
      event_terminal ev \<in> set RUN_TERMINAL_STATES)"
    using assms by (auto simp: row_protected_def closes_session_def terminal_sets)
  then show ?thesis
    using assms unfolding apply_to_row_def Let_def terminal_of_def[symmetric] row_protected_def closes_session_def
    by (auto simp: event_terminal_def payload_text_closed payload_text_run)
qed

lemma close_session_closed:
  assumes "x \<in> set (close_session sid reason at rows)" and "sn_id x = sid"
  shows "sn_closed_at x \<noteq> None"
  using update_where_mem[OF assms(1)[unfolded close_session_def]]
proof (elim disjE bexE conjE)
  fix y assume "x = y\<lparr>sn_closed_at := Some (utc_dt at), sn_close_reason := Some reason\<rparr>"
  then show ?thesis by simp
qed (use assms(2) in simp)

text \<open>
  Closing a session settles everything about it: a current \<open>user_closed\<close> event applied in the
  archive leaves the runtime row closed and refusing input, the session row closed, and no pause request
  of the session to answer, at any later reading.
\<close>

theorem closing_settles_session:
  assumes closes: "closes_session ev" and sid: "ev_session_id ev = Some sid"
    and app: "apply_runtime_event env Archive_lane ev s = Inr (oc, s')"
    and r: "row_of s (ev_runtime_key ev) = Some r" "terminal_of r \<noteq> ''user_closed''"
    and current: "\<not> older_than (event_at ev) (row_signal_clock r)"
  shows "(\<exists>r'. row_of s' (ev_runtime_key ev) = Some r' \<and>
       session_input_block_reason (Some (runtime_state.truncate r')) = Some ''session_closed'') \<and>
     (\<forall>x \<in> set (st_sessions s'). sn_id x = sid \<longrightarrow> sn_closed_at x \<noteq> None) \<and>
     load_active_pause_request_for_session now sid (st_pauses s') = None"
proof -
  have kind: "ev_kind ev = Terminal_signal" and trm: "event_terminal ev = ''user_closed''"
    using closes by (simp_all add: closes_session_def EXPLICIT_CLOSED_TERMINAL_STATES_def)
  have np: "\<not> row_protected ev r" using r(2) closes by (simp add: row_protected_def EXPLICIT_CLOSED_TERMINAL_STATES_def)
  obtain res where res: "apply_to_row env Archive_lane ev r s = Inr res" and s': "s' = snd (settle env r res)"
    using app kind by (auto simp: existing_row_event[OF _ r(1)])
  obtain st1 s1 where rb: "rebind env Archive_lane ev r s = Inr (st1, s1)"
    and ts: "terminal_signal env Archive_lane ev st1 s1 = Inr res"
    using res by (auto simp: unprotected_terminal[OF np kind])
  obtain tid where st1: "st1 = rebound_row ev tid r" using rb by (rule rebind_Inr)
  have res': "sr_row res = accept_terminal_signal (rt_lib env) ev ''user_closed'' st1"
    "st_sessions (sr_store res) = close_session sid ''user_closed'' (event_at ev) (st_sessions s1)"
    "st_pauses (sr_store res) = snd (expire_pending_pause_requests_for_session sid (event_at ev)
       (Some (''Session ended: '' @ ''user_closed'' @ ''.'')) (st_pauses s1))" "sr_early res = None"
    using ts current unfolding terminal_signal_def Let_def event_terminal_def[symmetric] trm
    by (auto simp: same_run_terminal_replay_def terminal_sets st1 sid close_session_at_end_def expire_pauses_at_end_def)
  have put: "s' = put_row (settled_row env r None (sr_row res)) (sr_store res)"
    using s' res'(4) by (simp add: settle_store)
  have "sn_closed_at x \<noteq> None" if "x \<in> set (st_sessions s')" "sn_id x = sid" for x
    using close_session_closed[of x sid] that by (simp add: put put_row_def res'(2))
  moreover have "load_active_pause_request_for_session now sid (st_pauses s') = None"
    by (simp add: put put_row_def res'(3) expired_session_serves_nothing)
  moreover have "row_of s' (ev_runtime_key ev) = Some (settled_row env r None (sr_row res))"
  proof -
    have mv: "row_move (rt_lib env) ev r (sr_early res) (sr_row res)" and rows: "st_rows (sr_store res) = st_rows s"
      using apply_to_row_move[OF res] kind by simp_all
    have "rr_runtime_key (settled_row env r None (sr_row res)) = ev_runtime_key ev"
      using row_move_frame[OF mv] row_of_mem[OF r(1)] by (simp add: settled_columns row_frame_def)
    moreover have "row_of (sr_store res) (ev_runtime_key ev) = Some r" using r(1) rows by (simp add: row_of_def)
    ultimately show ?thesis by (simp add: put row_of_put)
  qed
  moreover have "rs_terminal_state (settled_row env r None (sr_row res)) = Some ''user_closed''"
    by (simp add: settled_columns res'(1) accept_terminal_signal_def Let_def)
  then have "session_input_block_reason (Some (runtime_state.truncate (settled_row env r None (sr_row res)))) =
      Some ''session_closed''"
    by (simp add: session_input_block_reason_def runtime_state.truncate_def clean_def py_strip_def is_space_def
        clean_or_default_def EXPLICIT_CLOSED_TERMINAL_STATES_def)
  ultimately show ?thesis by blast
qed

subsection \<open>Two defects\<close>

lemma live_rebind: "\<exists>tid. rebind env Live_lane ev st s = Inr (rebound_row ev tid st, s)"
proof -
  obtain tid where "rebind_thread env Live_lane ev st s = Inr (tid, s)"
    by (cases "ev_thread_id ev"; cases "ev_session_id ev") (auto simp: rebind_thread_def)
  then show ?thesis by (auto simp: rebind_def)
qed

lemma stamp_simps [simp]:
  "rr_runtime_key (stamp_updated env l r) = rr_runtime_key r" "rr_run_id (stamp_updated env l r) = rr_run_id r"
  "rs_terminal_state (stamp_updated env l r) = rs_terminal_state r"
  by (simp_all add: stamp_updated_def)

lemma returned_settle:
  assumes "rr_runtime_key row = ev_runtime_key ev" and "row_of s (ev_runtime_key ev) = Some r"
  shows "\<exists>s'. settle env r (returned oc row s) = (oc, s') \<and> st_kernel s' = st_kernel s \<and>
    row_of s' (ev_runtime_key ev) = Some (stamp_updated env r row)"
proof -
  have "rr_runtime_key (stamp_updated env r row) = ev_runtime_key ev" using assms(1) by simp
  then show ?thesis using assms(2) by (simp add: settle_def row_of_put) (simp add: put_row_def)
qed

text \<open>
  (C38) The guard \<open>same_run_terminal_replay\<close> compares the event with a row already rebound to the event's run. So on
  the live lane, when the row still carries the end of the previous run by one of the three run outcomes
  (\<open>run_completed\<close>, \<open>run_failed\<close>, \<open>run_cancelled\<close>), the first such outcome of another run is dropped as a replay:
  the answer is \<open>ignored\<close>, the new run and its connections stay open, and the row names the new run with the old
  run's terminal state and an unchanged version.
\<close>

theorem new_run_end_is_dropped:
  assumes "ev_kind ev = Terminal_signal" and "event_terminal ev \<in> set RUN_TERMINAL_STATES"
    and "row_of s (ev_runtime_key ev) = Some r" and "terminal_of r \<in> set RUN_TERMINAL_STATES"
    and "ev_run_id ev = Some rid" and "rr_run_id r \<noteq> Some rid"
  shows "\<exists>s' r'. apply_runtime_event env Live_lane ev s = Inr (Ignored, s') \<and> st_kernel s' = st_kernel s \<and>
    row_of s' (ev_runtime_key ev) = Some r' \<and> rr_run_id r' = Some rid \<and>
    rs_terminal_state r' = rs_terminal_state r \<and> rs_runtime_version r' = rs_runtime_version r"
proof -
  have np: "\<not> row_protected ev r"
    using assms(4,5,6) by (auto simp: row_protected_def opens_new_run_def terminal_sets)
  obtain tid where rb: "rebind env Live_lane ev r s = Inr (rebound_row ev tid r, s)" using live_rebind by blast
  have "same_run_terminal_replay ev (rebound_row ev tid r) (event_terminal ev)"
    using assms(2,4,5) by (simp add: same_run_terminal_replay_def terminal_of_def option_or_def)
  then have "terminal_signal env Live_lane ev (rebound_row ev tid r) s = Inr (returned Ignored (rebound_row ev tid r) s)"
    by (simp add: terminal_signal_def Let_def event_terminal_def)
  then have app: "apply_runtime_event env Live_lane ev s = Inr (settle env r (returned Ignored (rebound_row ev tid r) s))"
    using assms(1) by (simp add: existing_row_event[OF _ assms(3)] unprotected_terminal[OF np] rb)
  have "rr_runtime_key (rebound_row ev tid r) = ev_runtime_key ev" using row_of_mem[OF assms(3)] by simp
  from returned_settle[OF this assms(3), of env Ignored] obtain s' where
    "settle env r (returned Ignored (rebound_row ev tid r) s) = (Ignored, s')" "st_kernel s' = st_kernel s"
    "row_of s' (ev_runtime_key ev) = Some (stamp_updated env r (rebound_row ev tid r))" by blast
  then show ?thesis using app assms(5)
    by (intro exI[of _ s'] exI[of _ "stamp_updated env r (rebound_row ev tid r)"]) (simp add: option_or_def)
qed

text \<open>
  A progress signal that is too old to apply, reported as \<open>ignored\<close>, still moves the row to the run it
  names, without raising the version: the identity columns are assigned before the age is checked.
\<close>

theorem ignored_signal_moves_run:
  assumes "ev_kind ev = Progress_signal" and "row_of s (ev_runtime_key ev) = Some r" and "\<not> row_protected ev r"
    and "older_than (event_at ev) (row_signal_clock r)" and "ev_run_id ev = Some rid"
  shows "\<exists>s' r'. apply_runtime_event env Live_lane ev s = Inr (Ignored, s') \<and>
    row_of s' (ev_runtime_key ev) = Some r' \<and> rr_run_id r' = Some rid \<and> rs_runtime_version r' = rs_runtime_version r"
proof -
  obtain tid where rb: "rebind env Live_lane ev r s = Inr (rebound_row ev tid r, s)" using live_rebind by blast
  have "apply_to_row env Live_lane ev r s = Inr (progress_signal ev (rebound_row ev tid r) s)"
    using assms(1,3) rb unfolding apply_to_row_def Let_def terminal_of_def[symmetric] row_protected_def closes_session_def
    by auto
  then have app: "apply_runtime_event env Live_lane ev s = Inr (settle env r (returned Ignored (rebound_row ev tid r) s))"
    using assms(1,4) by (simp add: existing_row_event[OF _ assms(2)] progress_signal_def)
  have "rr_runtime_key (rebound_row ev tid r) = ev_runtime_key ev" using row_of_mem[OF assms(2)] by simp
  from returned_settle[OF this assms(2), of env Ignored] obtain s' where
    "settle env r (returned Ignored (rebound_row ev tid r) s) = (Ignored, s')"
    "row_of s' (ev_runtime_key ev) = Some (stamp_updated env r (rebound_row ev tid r))" by blast
  then show ?thesis using app assms(5)
    by (intro exI[of _ s'] exI[of _ "stamp_updated env r (rebound_row ev tid r)"]) (simp add: option_or_def)
qed

end
