(* ===== verification/Runtime_Samples.thy ===== *)
theory Runtime_Samples
  imports Runtime_Properties
begin

text \<open>
  A session with one run and one attached connection, a short sequence of events on it, and the
  properties of the runtime reducer applied to them.
\<close>

definition demo_env :: runtime_env where
  "demo_env = \<lparr>rt_lib = sample_lib, rt_orm = sample_orm, rt_uuid5 = (\<lambda>n. n), rt_int_of_float = (\<lambda>_. Inr 0),
     rt_db_now = DT 0 None\<rparr>"

definition demo_event :: "event_kind \<Rightarrow> string option \<Rightarrow> int \<Rightarrow> string \<Rightarrow> pydict \<Rightarrow> runtime_event" where
  "demo_event kind phase us run payload = \<lparr>ev_runtime_key = ''codex:s1'', ev_session_id = Some ''s1'',
     ev_thread_id = Some ''t1'', ev_run_id = Some run, ev_provider = ''codex'', ev_device_id = None,
     ev_source = ''codex_exec'', ev_kind = kind, ev_phase = phase, ev_tool_name = None,
     ev_occurred_at = DT us None, ev_freshness_ms = None, ev_dedupe_key = ''d'', ev_payload = payload\<rparr>"

definition demo_store :: runtime_store where
  "demo_store = \<lparr>st_rows = [],
     st_kernel = \<lparr>kd_threads = [sample_thread], kd_runs = [sample_run], kd_connections = [sample_connection]\<rparr>,
     st_sessions = [\<lparr>sn_id = ''s1'', sn_primary_thread_id = Some ''t1'', sn_closed_at = None, sn_close_reason = None,
        sn_last_console_result_at = None, sn_last_console_result_outcome = None,
        sn_user_state = ''active'', sn_user_state_at = None, sn_user_hidden_from_timeline = 0\<rparr>],
     st_turns = [], st_inputs = [], st_pauses = one_question\<rparr>"

definition thinking_event :: runtime_event where
  "thinking_event = demo_event Phase_signal (Some ''thinking'') 10 ''r1'' []"

definition run_end_event :: runtime_event where
  "run_end_event = demo_event Terminal_signal None 20 ''r1'' [(''terminal_state'', PStr ''run_completed'')]"

definition close_event :: runtime_event where
  "close_event = demo_event Terminal_signal None 30 ''r1'' [(''terminal_state'', PStr ''user_closed'')]"

definition after :: "lane \<Rightarrow> runtime_event \<Rightarrow> runtime_store \<Rightarrow> runtime_store" where
  "after lane ev s = (case apply_runtime_event demo_env lane ev s of Inr (_, s') \<Rightarrow> s' | Inl _ \<Rightarrow> s)"

definition outcome_of :: "lane \<Rightarrow> runtime_event \<Rightarrow> runtime_store \<Rightarrow> apply_outcome option" where
  "outcome_of lane ev s = (case apply_runtime_event demo_env lane ev s of Inr (oc, _) \<Rightarrow> Some oc | Inl _ \<Rightarrow> None)"

lemma outcome_after: "outcome_of lane ev s = Some oc \<Longrightarrow> apply_runtime_event demo_env lane ev s = Inr (oc, after lane ev s)"
  by (auto simp: outcome_of_def after_def split: sum.splits prod.splits)

definition thinking_store :: runtime_store where "thinking_store = after Archive_lane thinking_event demo_store"
definition ended_store :: runtime_store where "ended_store = after Archive_lane run_end_event thinking_store"
definition closed_store :: runtime_store where "closed_store = after Archive_lane close_event ended_store"

text \<open>The three stores, computed once; the evaluations below start from these values.\<close>

lemma thinking_store_value [code]:
  "thinking_store =
     \<lparr>st_rows = [\<lparr>rs_phase = Some ''thinking'', rs_phase_source = Some ''codex_exec'', rs_active_tool = None,
      rs_phase_started_at = Some (DT 10 (Some 0)), rs_last_runtime_signal_at = Some (DT 10 (Some 0)),
      rs_last_progress_at = None, rs_last_live_at = Some (DT 10 (Some 0)), rs_timeline_anchor_at = Some (DT 10 (Some 0)),
      rs_freshness_expires_at = Some (DT 90000010 (Some 0)), rs_terminal_state = None, rs_terminal_reason = None,
      rs_terminal_source = None, rs_terminal_at = None, rs_runtime_version = 1, rs_updated_at = Some (DT 0 None),
      rr_runtime_key = ''codex:s1'', rr_session_id = Some ''s1'', rr_thread_id = Some ''t1'', rr_run_id = Some ''r1'',
      rr_provider = ''codex'', rr_device_id = None, rr_execution_started_at = Some (DT 10 (Some 0)),
      rr_pending_interaction_id = None, rr_pending_interaction_kind = None, rr_pending_interaction_opened_at = None,
      rr_pending_interaction_updated_at = None, rr_pending_interaction_projection = None,
      rr_pending_interaction_can_respond = 0\<rparr>], st_kernel = \<lparr>kd_threads = [\<lparr>th_id = ''t1'',
      th_session_id = ''s1'', th_is_primary = True, th_created_at = 0\<rparr>], kd_runs = [\<lparr>rn_id = ''r1'',
      rn_thread_id = ''t1'', rn_started_at = DT 0 None, rn_ended_at = None, rn_exit_status = None\<rparr>],
      kd_connections = [\<lparr>cn_id = 7, cn_run_id = ''r1'', cn_control_plane = ''codex_bridge'',
      cn_acquisition_kind = ''spawned_control'', cn_state = ''attached'', cn_can_send_input = 1, cn_can_interrupt = 1,
      cn_can_terminate = 0, cn_can_tail_output = 1, cn_can_resume = 1, cn_acquired_at = None, cn_released_at = None,
      cn_last_health_at = Some (DT 1000 None), cn_adapter_connection_id = None, cn_lease_generation = None\<rparr>]\<rparr>,
      st_sessions = [\<lparr>sn_id = ''s1'', sn_primary_thread_id = Some ''t1'', sn_closed_at = None,
      sn_close_reason = None, sn_last_console_result_at = None, sn_last_console_result_outcome = None,
      sn_user_state = ''active'', sn_user_state_at = None, sn_user_hidden_from_timeline = 0\<rparr>], st_turns = [],
      st_inputs = [], st_pauses = [\<lparr>pr_id = ''0'', pr_session_id = ''s1'', pr_runtime_key = ''codex:s1'',
      pr_provider = ''codex'', pr_request_key = ''q1'', pr_provider_request_id = None, pr_provider_ref = None,
      pr_kind = ''structured_question'', pr_status = ''resolved'', pr_tool_name = None, pr_title = None, pr_summary = None,
      pr_request_payload = None, pr_response_payload = None, pr_response_text = Some ''Provider continued.'',
      pr_can_respond = True, pr_occurred_at = Some (DT 5 (Some 0)), pr_last_seen_at = Some (DT 5 (Some 0)),
      pr_resolved_at = Some (DT 10 (Some 0)), pr_expires_at = Some (DT 100 (Some 0)), pr_created_at = UTC 0\<rparr>]\<rparr>"
  by code_simp

lemma ended_store_value [code]:
  "ended_store =
     \<lparr>st_rows = [\<lparr>rs_phase = Some ''finished'', rs_phase_source = Some ''semantic'', rs_active_tool = None,
      rs_phase_started_at = Some (DT 20 (Some 0)), rs_last_runtime_signal_at = Some (DT 20 (Some 0)),
      rs_last_progress_at = None, rs_last_live_at = Some (DT 20 (Some 0)), rs_timeline_anchor_at = Some (DT 20 (Some 0)),
      rs_freshness_expires_at = Some (DT 20 (Some 0)), rs_terminal_state = Some ''run_completed'',
      rs_terminal_reason = None, rs_terminal_source = Some ''codex_exec'', rs_terminal_at = Some (DT 20 (Some 0)),
      rs_runtime_version = 2, rs_updated_at = Some (DT 0 None), rr_runtime_key = ''codex:s1'', rr_session_id = Some ''s1'',
      rr_thread_id = Some ''t1'', rr_run_id = Some ''r1'', rr_provider = ''codex'', rr_device_id = None,
      rr_execution_started_at = None, rr_pending_interaction_id = None, rr_pending_interaction_kind = None,
      rr_pending_interaction_opened_at = None, rr_pending_interaction_updated_at = None,
      rr_pending_interaction_projection = None, rr_pending_interaction_can_respond = 0\<rparr>],
      st_kernel = \<lparr>kd_threads = [\<lparr>th_id = ''t1'', th_session_id = ''s1'', th_is_primary = True,
      th_created_at = 0\<rparr>], kd_runs = [\<lparr>rn_id = ''r1'', rn_thread_id = ''t1'', rn_started_at = DT 0 None,
      rn_ended_at = Some (DT 20 (Some 0)), rn_exit_status = Some ''run_completed''\<rparr>],
      kd_connections = [\<lparr>cn_id = 7, cn_run_id = ''r1'', cn_control_plane = ''codex_bridge'',
      cn_acquisition_kind = ''spawned_control'', cn_state = ''ended'', cn_can_send_input = 0, cn_can_interrupt = 0,
      cn_can_terminate = 0, cn_can_tail_output = 0, cn_can_resume = 0, cn_acquired_at = None,
      cn_released_at = Some (DT 20 (Some 0)), cn_last_health_at = Some (DT 20 (Some 0)), cn_adapter_connection_id = None,
      cn_lease_generation = None\<rparr>]\<rparr>, st_sessions = [\<lparr>sn_id = ''s1'',
      sn_primary_thread_id = Some ''t1'', sn_closed_at = None, sn_close_reason = None, sn_last_console_result_at = None,
      sn_last_console_result_outcome = None, sn_user_state = ''active'', sn_user_state_at = None,
      sn_user_hidden_from_timeline = 0\<rparr>], st_turns = [], st_inputs = [], st_pauses = [\<lparr>pr_id = ''0'',
      pr_session_id = ''s1'', pr_runtime_key = ''codex:s1'', pr_provider = ''codex'', pr_request_key = ''q1'',
      pr_provider_request_id = None, pr_provider_ref = None, pr_kind = ''structured_question'', pr_status = ''resolved'',
      pr_tool_name = None, pr_title = None, pr_summary = None, pr_request_payload = None, pr_response_payload = None,
      pr_response_text = Some ''Provider continued.'', pr_can_respond = True, pr_occurred_at = Some (DT 5 (Some 0)),
      pr_last_seen_at = Some (DT 5 (Some 0)), pr_resolved_at = Some (DT 10 (Some 0)),
      pr_expires_at = Some (DT 100 (Some 0)), pr_created_at = UTC 0\<rparr>]\<rparr>"
  by code_simp

lemma closed_store_value [code]:
  "closed_store =
     \<lparr>st_rows = [\<lparr>rs_phase = Some ''finished'', rs_phase_source = Some ''semantic'', rs_active_tool = None,
      rs_phase_started_at = Some (DT 30 (Some 0)), rs_last_runtime_signal_at = Some (DT 30 (Some 0)),
      rs_last_progress_at = None, rs_last_live_at = Some (DT 30 (Some 0)), rs_timeline_anchor_at = Some (DT 30 (Some 0)),
      rs_freshness_expires_at = Some (DT 30 (Some 0)), rs_terminal_state = Some ''user_closed'',
      rs_terminal_reason = Some ''user_closed'', rs_terminal_source = Some ''codex_exec'',
      rs_terminal_at = Some (DT 30 (Some 0)), rs_runtime_version = 3, rs_updated_at = Some (DT 0 None),
      rr_runtime_key = ''codex:s1'', rr_session_id = Some ''s1'', rr_thread_id = Some ''t1'', rr_run_id = Some ''r1'',
      rr_provider = ''codex'', rr_device_id = None, rr_execution_started_at = None, rr_pending_interaction_id = None,
      rr_pending_interaction_kind = None, rr_pending_interaction_opened_at = None, rr_pending_interaction_updated_at = None,
      rr_pending_interaction_projection = None, rr_pending_interaction_can_respond = 0\<rparr>],
      st_kernel = \<lparr>kd_threads = [\<lparr>th_id = ''t1'', th_session_id = ''s1'', th_is_primary = True,
      th_created_at = 0\<rparr>], kd_runs = [\<lparr>rn_id = ''r1'', rn_thread_id = ''t1'', rn_started_at = DT 0 None,
      rn_ended_at = Some (DT 20 (Some 0)), rn_exit_status = Some ''run_completed''\<rparr>],
      kd_connections = [\<lparr>cn_id = 7, cn_run_id = ''r1'', cn_control_plane = ''codex_bridge'',
      cn_acquisition_kind = ''spawned_control'', cn_state = ''ended'', cn_can_send_input = 0, cn_can_interrupt = 0,
      cn_can_terminate = 0, cn_can_tail_output = 0, cn_can_resume = 0, cn_acquired_at = None,
      cn_released_at = Some (DT 20 (Some 0)), cn_last_health_at = Some (DT 20 (Some 0)), cn_adapter_connection_id = None,
      cn_lease_generation = None\<rparr>]\<rparr>, st_sessions = [\<lparr>sn_id = ''s1'',
      sn_primary_thread_id = Some ''t1'', sn_closed_at = Some (DT 30 (Some 0)), sn_close_reason = Some ''user_closed'',
      sn_last_console_result_at = None, sn_last_console_result_outcome = None, sn_user_state = ''active'',
      sn_user_state_at = None, sn_user_hidden_from_timeline = 0\<rparr>], st_turns = [], st_inputs = [],
      st_pauses = [\<lparr>pr_id = ''0'', pr_session_id = ''s1'', pr_runtime_key = ''codex:s1'', pr_provider = ''codex'',
      pr_request_key = ''q1'', pr_provider_request_id = None, pr_provider_ref = None, pr_kind = ''structured_question'',
      pr_status = ''resolved'', pr_tool_name = None, pr_title = None, pr_summary = None, pr_request_payload = None,
      pr_response_payload = None, pr_response_text = Some ''Provider continued.'', pr_can_respond = True,
      pr_occurred_at = Some (DT 5 (Some 0)), pr_last_seen_at = Some (DT 5 (Some 0)), pr_resolved_at = Some (DT 10 (Some 0)),
      pr_expires_at = Some (DT 100 (Some 0)), pr_created_at = UTC 0\<rparr>]\<rparr>"
  by code_simp

lemma demo_outcomes:
  "outcome_of Archive_lane thinking_event demo_store = Some Applied"
  "outcome_of Archive_lane run_end_event thinking_store = Some Applied"
  "outcome_of Archive_lane close_event ended_store = Some Applied"
  by code_simp+

lemmas demo_apply = demo_outcomes[THEN outcome_after, folded thinking_store_def ended_store_def closed_store_def]

lemma demo_reachable: "runtime_reachable Archive_lane thinking_store"
  by (rule runtime_reachable.step[OF runtime_reachable.start runtime_step.event[OF demo_apply(1)]])
    (simp add: demo_store_def)

lemma row_of_the: "row_of s k \<noteq> None \<Longrightarrow> row_of s k = Some (the (row_of s k))"
  by auto

lemma demo_keys [simp]:
  "ev_runtime_key thinking_event = ''codex:s1''" "ev_runtime_key run_end_event = ''codex:s1''"
  "ev_runtime_key close_event = ''codex:s1''" "ev_kind thinking_event = Phase_signal"
  "ev_kind run_end_event = Terminal_signal" "ev_kind close_event = Terminal_signal"
  by (simp_all add: thinking_event_def run_end_event_def close_event_def demo_event_def)

lemma demo_rows:
  "row_of thinking_store ''codex:s1'' \<noteq> None" "row_of ended_store ''codex:s1'' \<noteq> None"
  "row_of closed_store ''codex:s1'' \<noteq> None"
  by code_simp+

lemmas demo_row_of = demo_rows[THEN row_of_the]

theorem runtime_rows_invariant_witness:
  "runtime_reachable Archive_lane thinking_store \<and> st_rows thinking_store \<noteq> [] \<and>
   distinct (map rr_runtime_key (st_rows thinking_store))"
proof -
  have "st_rows thinking_store \<noteq> []" by code_simp
  then show ?thesis using runtime_rows_invariant[OF demo_reachable] demo_reachable by blast
qed

text \<open>A late signal for the closed session, on another run.\<close>

theorem closed_session_is_final_witness:
  "\<exists>s' r'. apply_events Archive_lane [(demo_env, demo_event Phase_signal (Some ''running'') 90 ''r2'' [])] closed_store = Inr s' \<and>
     row_of s' ''codex:s1'' = Some r' \<and>
     state_snapshot r' = state_snapshot (the (row_of closed_store ''codex:s1''))"
proof -
  let ?late = "demo_event Phase_signal (Some ''running'') 90 ''r2'' []"
  have "outcome_of Archive_lane ?late closed_store = Some Protected_session_ended" by code_simp
  then have run: "apply_events Archive_lane [(demo_env, ?late)] closed_store = Inr (after Archive_lane ?late closed_store)"
    by (simp add: apply_events_def outcome_after)
  have "terminal_of (the (row_of closed_store ''codex:s1'')) = ''user_closed''" by code_simp
  from closed_session_is_final[OF demo_row_of(3) this run] run show ?thesis by blast
qed

text \<open>The row of the ended run changes, because the event closes the session.\<close>

theorem ended_run_reopens_only_for_new_run_witness:
  "ev_run_id close_event = rr_run_id (the (row_of ended_store ''codex:s1'')) \<and>
   ev_kind close_event = Terminal_signal \<and> event_terminal close_event = ''user_closed''"
proof -
  have same: "ev_run_id close_event = rr_run_id (the (row_of ended_store ''codex:s1''))" by code_simp
  have "terminal_of (the (row_of ended_store ''codex:s1'')) \<in> set (RUN_END_TERMINAL_STATES @ RUN_TERMINAL_STATES)" by code_simp
  moreover have "state_snapshot (the (row_of closed_store ''codex:s1'')) \<noteq> state_snapshot (the (row_of ended_store ''codex:s1''))"
    by code_simp
  ultimately show ?thesis
    using ended_run_reopens_only_for_new_run[OF demo_row_of(2) _ demo_apply(3) demo_row_of(3)] same by blast
qed

theorem signal_clock_is_monotone_witness:
  "clock_le (row_signal_clock (the (row_of thinking_store ''codex:s1'')))
     (row_signal_clock (the (row_of ended_store ''codex:s1'')))"
proof -
  have "event_terminal run_end_event \<noteq> ''session_ended''" by code_simp
  then show ?thesis
    using signal_clock_is_monotone[OF demo_reachable _ demo_apply(2)] demo_row_of(1,2) by simp
qed

theorem version_counts_changes_witness:
  "rs_runtime_version (the (row_of ended_store ''codex:s1'')) =
     rs_runtime_version (the (row_of thinking_store ''codex:s1'')) + 1"
proof -
  have b: "binds_nothing run_end_event (the (row_of thinking_store ''codex:s1''))" by code_simp
  have "state_snapshot (the (row_of ended_store ''codex:s1'')) \<noteq> state_snapshot (the (row_of thinking_store ''codex:s1''))"
    by code_simp
  then show ?thesis
    using version_counts_changes[OF _ demo_apply(2) _ _ b] demo_row_of(1,2) by simp
qed

theorem run_end_withdraws_control_witness:
  "\<exists>s'. apply_run_terminal_event demo_env Live_lane run_end_event None thinking_store = Inr (True, s') \<and>
     (\<forall>reg now. \<not> (kc_run_id (project_session_capabilities reg (st_kernel s') ''s1'' now) = Some ''r1'' \<and>
        kc_live_control_available (project_session_capabilities reg (st_kernel s') ''s1'' now)))"
proof -
  have "(case apply_run_terminal_event demo_env Live_lane run_end_event None thinking_store of Inr (c, _) \<Rightarrow> c | Inl _ \<Rightarrow> False)"
    by code_simp
  then obtain s' where app: "apply_run_terminal_event demo_env Live_lane run_end_event None thinking_store = Inr (True, s')"
    by (auto split: sum.splits prod.splits)
  have "option_or (ev_run_id run_end_event) None = Some (rn_id sample_run)" "sample_run \<in> set (kd_runs (st_kernel thinking_store))"
    "distinct (map rn_id (kd_runs (st_kernel thinking_store)))"
    "run_owned_by (st_kernel thinking_store) sample_run (ev_session_id run_end_event)" "rn_id sample_run = ''r1''" by code_simp+
  then show ?thesis using run_end_withdraws_control[OF app, of sample_run _ "''s1''"] app by auto
qed

theorem phase_signal_is_served_witness:
  "\<exists>s' r'. apply_runtime_event demo_env Live_lane (demo_event Phase_signal (Some ''running'') 15 ''r1'' []) thinking_store = Inr (Applied, s') \<and>
     row_of s' ''codex:s1'' = Some r' \<and>
     (\<forall>session. rv_presence_state (build_runtime_view (runtime_state.truncate r') session (UTC 600000014)) = Some ''running'' \<and>
       rv_presence_state (build_runtime_view (runtime_state.truncate r') session (UTC 600000015)) = None)"
proof -
  let ?ev = "demo_event Phase_signal (Some ''running'') 15 ''r1'' []" and ?r = "the (row_of thinking_store ''codex:s1'')"
  have "outcome_of Live_lane ?ev thinking_store = Some Applied" by code_simp
  then have app: "apply_runtime_event demo_env Live_lane ?ev thinking_store = Inr (Applied, after Live_lane ?ev thinking_store)"
    by (rule outcome_after)
  have h: "\<not> row_protected ?ev ?r" "\<not> older_than (event_at ?ev) (row_signal_clock ?r)" "next_phase_of ?ev ?r \<in> set KNOWN_PHASES"
    "phase_signal_freshness_ms ?ev (next_phase_of ?ev ?r) = Some 600000" "next_phase_of ?ev ?r = ''running''"
    "utc_us (managed_lease_refresh_at (rt_lib demo_env) ?ev (event_at ?ev)) = 15" by code_simp+
  have k: "ev_kind ?ev = Phase_signal" "ev_runtime_key ?ev = ''codex:s1''" by (simp_all add: demo_event_def)
  from phase_signal_is_served[OF k(1) app _ h(1-4)] demo_row_of(1) show ?thesis
    using app by (auto simp: k(2) h(5,6))
qed

theorem closing_settles_session_witness:
  "sn_closed_at (hd (st_sessions closed_store)) \<noteq> None \<and>
   load_active_pause_request_for_session (UTC 40) ''s1'' (st_pauses closed_store) = None \<and>
   load_active_pause_request_for_session (UTC 40) ''s1'' (st_pauses demo_store) \<noteq> None"
proof -
  have h: "closes_session close_event" "ev_session_id close_event = Some ''s1''"
    "terminal_of (the (row_of ended_store ''codex:s1'')) \<noteq> ''user_closed''"
    "\<not> older_than (event_at close_event) (row_signal_clock (the (row_of ended_store ''codex:s1'')))"
    "load_active_pause_request_for_session (UTC 40) ''s1'' (st_pauses demo_store) \<noteq> None" by code_simp+
  have r: "row_of ended_store (ev_runtime_key close_event) = Some (the (row_of ended_store ''codex:s1''))"
    using demo_row_of(2) by simp
  have "sn_id (hd (st_sessions closed_store)) = ''s1''" "st_sessions closed_store \<noteq> []" by code_simp+
  then show ?thesis using closing_settles_session[OF h(1,2) demo_apply(3) r h(3,4)] h(5) hd_in_set by blast
qed

text \<open>The end of a second run that follows the first without a signal in between.\<close>

theorem new_run_end_is_dropped_witness:
  "\<exists>s' r'. apply_runtime_event demo_env Live_lane
       (demo_event Terminal_signal None 40 ''r2'' [(''terminal_state'', PStr ''run_failed'')]) ended_store = Inr (Ignored, s') \<and>
     row_of s' ''codex:s1'' = Some r' \<and> rr_run_id r' = Some ''r2'' \<and> rs_terminal_state r' = Some ''run_completed''"
proof -
  let ?ev = "demo_event Terminal_signal None 40 ''r2'' [(''terminal_state'', PStr ''run_failed'')]"
  have hyps: "ev_kind ?ev = Terminal_signal" "event_terminal ?ev \<in> set RUN_TERMINAL_STATES" "ev_run_id ?ev = Some ''r2''"
    "terminal_of (the (row_of ended_store ''codex:s1'')) \<in> set RUN_TERMINAL_STATES"
    "rr_run_id (the (row_of ended_store ''codex:s1'')) \<noteq> Some ''r2''"
    "rs_terminal_state (the (row_of ended_store ''codex:s1'')) = Some ''run_completed''" by code_simp+
  have row: "row_of ended_store (ev_runtime_key ?ev) = Some (the (row_of ended_store ''codex:s1''))"
    using demo_row_of(2) by (simp add: demo_event_def)
  from new_run_end_is_dropped[OF hyps(1,2) row hyps(4,3,5), of demo_env] hyps(6)
  show ?thesis by (auto simp: demo_event_def)
qed

end
