(* ===== verification/Live_Samples.thy ===== *)
theory Live_Samples
  imports Live_Ingest Runtime_Samples
begin

text \<open>
  The batch of the live lane at work on the demonstration session: a session that went missing reports
  again and is listed.
\<close>

definition missing_session :: live_session where
  "missing_session = \<lparr>lv_session_id = ''s1'', lv_owner_id = None, lv_provider = ''codex'', lv_device_id = None,
     lv_machine_id = None, lv_state = ''missing'', lv_started_at = None, lv_last_seen_at = Some (DT 1 None),
     lv_updated_at = UTC 1\<rparr>"

definition demo_live_store :: live_store where
  "demo_live_store = runtime_store.extend demo_store \<lparr>ls_previews = [], ls_live_sessions = [missing_session]\<rparr>"

definition ingested :: "runtime_event list \<Rightarrow> live_store \<Rightarrow> live_store" where
  "ingested events s = (case ingest_live_runtime_events demo_env events s of Inr (_, s') \<Rightarrow> s' | Inl _ \<Rightarrow> s)"

definition ingest_result :: "runtime_event list \<Rightarrow> live_store \<Rightarrow> batch_result option" where
  "ingest_result events s = (case ingest_live_runtime_events demo_env events s of Inr (b, _) \<Rightarrow> Some b | Inl _ \<Rightarrow> None)"

lemma ingest_resultD:
  "ingest_result events s = Some b \<Longrightarrow> ingest_live_runtime_events demo_env events s = Inr (b, ingested events s)"
  by (auto simp: ingest_result_def ingested_def split: sum.splits prod.splits)

theorem reporting_session_is_listed_witness:
  "list_active_live_session_ids 5 1 (UTC 20) (st_sessions demo_store) [missing_session] = [] \<and>
   ''s1'' \<in> set (list_active_live_session_ids 5 1 (UTC 20) (st_sessions demo_store)
     (ls_live_sessions (ingested [thinking_event] demo_live_store)))"
proof -
  have "ingest_result [thinking_event] demo_live_store =
      Some \<lparr>br_accepted = 1, br_duplicates = 0, br_updated_runtime_keys = [''codex:s1'']\<rparr>" by code_simp
  note ran = ingest_resultD[OF this]
  have hyps: "ev_session_id thinking_event = Some ''s1''" "UTC (utc_us (UTC 20) - 1 * 86400000000) \<le> event_at thinking_event"
    "length (ls_live_sessions (ingested [thinking_event] demo_live_store)) \<le> 5" by code_simp+
  let ?c = "hd (st_sessions demo_store)"
  have shown: "?c \<in> set (st_sessions demo_store)" "sn_id ?c = ''s1''"
    "sn_user_state ?c \<notin> {''archived'', ''snoozed''}" "sn_user_hidden_from_timeline ?c = 0"
    by (simp_all add: demo_store_def)
  have "list_active_live_session_ids 5 1 (UTC 20) (st_sessions demo_store) [missing_session] = []" by code_simp
  then show ?thesis
    using reporting_session_is_listed[OF ran _ hyps(1,2) shown hyps(3)] by simp
qed

end
