(* ===== verification/Catalog_Meta.thy ===== *)
theory Catalog_Meta
  imports Py_Store
begin

text \<open>
  The commit counter of the catalog daemon (\<open>catalogd/store.py\<close>). Every write of the catalog runs in one
  \<open>BEGIN IMMEDIATE\<close> transaction and ends either by reading the counter or by advancing it; a raised
  exception rolls the transaction back and has no result. Clients cache what they read under the counter.
  The locale \<open>catalog_operation\<close> is that contract: an operation that does not advance the counter leaves
  the tables alone.
\<close>

record catalog_meta =
  cm_commit_seq :: int
  cm_updated_at :: string

definition current_seq :: "catalog_meta \<Rightarrow> int res" where
  "current_seq m = (if cm_commit_seq m < 0 then Inl (RuntimeError ''catalog commit_seq is invalid'')
                    else Inr (cm_commit_seq m))"

definition advance_seq :: "instant \<Rightarrow> catalog_meta \<Rightarrow> int \<times> catalog_meta" where
  "advance_seq now m = (let n = cm_commit_seq m + 1
     in (n, \<lparr>cm_commit_seq = n, cm_updated_at = iso_with_sep ''T'' (utc_dt now)\<rparr>))"

lemma advance_seq_simps [simp]:
  "fst (advance_seq now m) = cm_commit_seq m + 1" "cm_commit_seq (snd (advance_seq now m)) = cm_commit_seq m + 1"
  by (simp_all add: advance_seq_def Let_def)

lemma current_seq_Inr [simp]: "current_seq m = Inr n \<longleftrightarrow> 0 \<le> cm_commit_seq m \<and> n = cm_commit_seq m"
  by (auto simp: current_seq_def)

locale catalog_operation =
  fixes run :: "'a \<Rightarrow> 's \<Rightarrow> ('r \<times> 's) res"
    and seq :: "'s \<Rightarrow> int"
    and tables :: "'s \<Rightarrow> 't"
  assumes step: "run a s = Inr (r, s') \<Longrightarrow> seq s' = seq s \<and> tables s' = tables s \<or> seq s' = seq s + 1"
begin

definition run_all :: "'a list \<Rightarrow> 's \<Rightarrow> 's res" where
  "run_all as s = foldR (\<lambda>a s. bindR (run a s) (\<lambda>(_, s'). Inr s')) as s"

lemma run_all_Cons:
  "run_all (a # as) s = Inr s' \<longleftrightarrow> (\<exists>r t. run a s = Inr (r, t) \<and> run_all as t = Inr s')"
  by (auto simp: run_all_def)

lemma seq_mono: "run_all as s = Inr s' \<Longrightarrow> seq s \<le> seq s'"
proof (induction as arbitrary: s)
  case Nil
  then show ?case by (simp add: run_all_def)
next
  case (Cons a as)
  then obtain r t where t: "run a s = Inr (r, t)" "run_all as t = Inr s'" by (auto simp: run_all_Cons)
  have "seq t \<le> seq s'" by (rule Cons.IH[OF t(2)])
  with step[OF t(1)] show ?case by auto
qed

lemma unchanged: "run_all as s = Inr s' \<Longrightarrow> seq s' = seq s \<Longrightarrow> tables s' = tables s"
proof (induction as arbitrary: s)
  case Nil
  then show ?case by (simp add: run_all_def)
next
  case (Cons a as)
  then obtain r t where t: "run a s = Inr (r, t)" "run_all as t = Inr s'" by (auto simp: run_all_Cons)
  from step[OF t(1)] seq_mono[OF t(2)] Cons.prems(2) have "tables t = tables s" "seq t = seq s" by auto
  with Cons.IH[OF t(2)] Cons.prems(2) show ?case by simp
qed

end

text \<open>
  A caller that lost the answer sends the request again, at another time. \<open>retryable\<close>: the second run
  answers and changes nothing.
\<close>

locale retryable =
  fixes run :: "'a \<Rightarrow> 't \<Rightarrow> 's \<Rightarrow> ('r \<times> 's) res"
    and inv :: "'s \<Rightarrow> bool"
  assumes again: "inv s \<Longrightarrow> run a t s = Inr (r, s') \<Longrightarrow> \<exists>r'. run a t' s' = Inr (r', s')"
begin

definition attempts :: "'a \<Rightarrow> 't list \<Rightarrow> 's \<Rightarrow> 's res" where
  "attempts a ts s = foldR (\<lambda>t s. bindR (run a t s) (\<lambda>(_, s'). Inr s')) ts s"

lemma attempts_once:
  assumes "inv s" and "run a t s = Inr (r, s')"
  shows "attempts a (t # ts) s = Inr s'"
proof -
  have "attempts a ts s' = Inr s'"
  proof (induction ts)
    case Nil
    then show ?case by (simp add: attempts_def)
  next
    case (Cons t' ts)
    obtain r' where "run a t' s' = Inr (r', s')" using again[OF assms] by blast
    then show ?case using Cons by (simp add: attempts_def)
  qed
  then show ?thesis using assms(2) by (simp add: attempts_def)
qed

end

end
