(* ===== verification/Refresh_Sessions.thy ===== *)
theory Refresh_Sessions
  imports Catalog_Meta
begin

text \<open>
  Browser sign-in of the catalog daemon (\<open>catalogd/store.py\<close>, \<open>create_refresh_session\<close>,
  \<open>rotate_refresh_session\<close>, \<open>revoke_refresh_family\<close>): refresh tokens in families. A login opens a family,
  every rotation consumes one token and issues the next, and a consumed token that is shown again after
  the grace period revokes the whole family.

  Timestamps are columns of UTC values, so a row holds the instant that \<open>_as_aware_utc\<close> reads back.
\<close>

record refresh_row =
  rf_id :: int
  rf_token_hash :: string
  rf_user_id :: int
  rf_family_id :: string
  rf_parent_id :: "int option"
  rf_created_at :: instant
  rf_absolute_expires_at :: instant
  rf_idle_expires_at :: instant
  rf_used_at :: "instant option"
  rf_revoked_at :: "instant option"

text \<open>The user row: its key, whether it is active, and the other columns \<open>_user_dto\<close> shows.\<close>

record user_rec =
  us_id :: int
  us_is_active :: bool
  us_profile :: pydict

record auth_store =
  au_refresh :: "refresh_row list"
  au_users :: "user_rec list"
  au_meta :: catalog_meta

record refresh_args =
  fa_user_id :: int
  fa_token_hash :: string
  fa_family_id :: string
  fa_parent_id :: "int option"
  fa_created_at :: instant
  fa_absolute_expires_at :: instant
  fa_idle_expires_at :: instant

record rotate_args =
  ro_token_hash :: string
  ro_next_token_hash :: string
  ro_now :: instant
  ro_idle_expires_at :: instant
  ro_reuse_grace_seconds :: int

datatype auth_reply =
    Refresh_exists bool int string
  | Refresh_user_not_found
  | Refresh_created int string
  | Rotate_invalid
  | Rotate_family_revoked nat
  | Rotate_replay int int string user_rec
  | Rotate_conflict
  | Rotated int int string user_rec
  | Family_not_found
  | Family_revoked nat

type_synonym auth_result = "(auth_reply \<times> auth_store) res"

text \<open>A reply that changes nothing reads the commit counter, one that writes advances it.\<close>

definition quiet :: "auth_reply \<Rightarrow> auth_store \<Rightarrow> auth_result" where
  "quiet reply s = bindR (current_seq (au_meta s)) (\<lambda>_. Inr (reply, s))"

definition committed :: "instant \<Rightarrow> auth_reply \<Rightarrow> auth_store \<Rightarrow> auth_result" where
  "committed now reply s = Inr (reply, s\<lparr>au_meta := snd (advance_seq now (au_meta s))\<rparr>)"

definition next_refresh_id :: "refresh_row list \<Rightarrow> int" where
  "next_refresh_id rows = fold max (map rf_id rows) 0 + 1"

definition by_token :: "string \<Rightarrow> refresh_row list \<Rightarrow> refresh_row option" where
  "by_token h rows = find (\<lambda>r. rf_token_hash r = h) rows"

subsection \<open>Login\<close>

definition same_refresh :: "refresh_args \<Rightarrow> refresh_row \<Rightarrow> bool" where
  "same_refresh a r \<longleftrightarrow> rf_user_id r = fa_user_id a \<and> rf_family_id r = fa_family_id a \<and> rf_parent_id r = fa_parent_id a \<and>
     rf_created_at r = fa_created_at a \<and> rf_absolute_expires_at r = fa_absolute_expires_at a \<and>
     rf_idle_expires_at r = fa_idle_expires_at a"

definition refresh_row_of :: "int \<Rightarrow> refresh_args \<Rightarrow> refresh_row" where
  "refresh_row_of i a = \<lparr>rf_id = i, rf_token_hash = fa_token_hash a, rf_user_id = fa_user_id a,
     rf_family_id = fa_family_id a, rf_parent_id = fa_parent_id a, rf_created_at = fa_created_at a,
     rf_absolute_expires_at = fa_absolute_expires_at a, rf_idle_expires_at = fa_idle_expires_at a,
     rf_used_at = None, rf_revoked_at = None\<rparr>"

definition create_refresh_session :: "refresh_args \<Rightarrow> instant \<Rightarrow> auth_store \<Rightarrow> auth_result" where
  "create_refresh_session a now s =
     (case by_token (fa_token_hash a) (au_refresh s) of
        Some r \<Rightarrow> quiet (Refresh_exists (same_refresh a r) (rf_id r) (rf_family_id r)) s
      | None \<Rightarrow>
        (if \<not> list_ex (\<lambda>u. us_id u = fa_user_id a) (au_users s) then quiet Refresh_user_not_found s
         else let i = next_refresh_id (au_refresh s)
              in committed now (Refresh_created i (fa_family_id a))
                   (s\<lparr>au_refresh := au_refresh s @ [refresh_row_of i a]\<rparr>)))"

subsection \<open>Revocation\<close>

definition live_member :: "string \<Rightarrow> refresh_row \<Rightarrow> bool" where
  "live_member fam r \<longleftrightarrow> rf_family_id r = fam \<and> rf_revoked_at r = None"

definition revoke_rows :: "instant \<Rightarrow> string \<Rightarrow> refresh_row list \<Rightarrow> refresh_row list" where
  "revoke_rows now fam = update_where (live_member fam) (\<lambda>r. r\<lparr>rf_revoked_at := Some now\<rparr>)"

text \<open>Revoke the live members; the commit advances when there are any.\<close>

definition revoke_family_rows :: "instant \<Rightarrow> string \<Rightarrow> auth_reply \<Rightarrow> (nat \<Rightarrow> auth_reply) \<Rightarrow> auth_store \<Rightarrow> auth_result" where
  "revoke_family_rows now fam none reply s =
     (let count = length (filter (live_member fam) (au_refresh s)) in
      if count = 0 then quiet none s
      else committed now (reply count) (s\<lparr>au_refresh := revoke_rows now fam (au_refresh s)\<rparr>))"

definition revoke_refresh_family :: "string \<Rightarrow> instant \<Rightarrow> auth_store \<Rightarrow> auth_result" where
  "revoke_refresh_family token_hash now s =
     (case by_token token_hash (au_refresh s) of
        None \<Rightarrow> quiet Family_not_found s
      | Some r \<Rightarrow> revoke_family_rows now (rf_family_id r) (Family_revoked 0) Family_revoked s)"

subsection \<open>Rotation\<close>

text \<open>A consumed token shown again: the reply to a retry, nothing within the grace period, else revocation.\<close>

definition reused_token :: "rotate_args \<Rightarrow> refresh_row \<Rightarrow> instant \<Rightarrow> user_rec \<Rightarrow> auth_store \<Rightarrow> auth_result" where
  "reused_token a p used_at user s =
     (let child = find (\<lambda>r. rf_parent_id r = Some (rf_id p) \<and> rf_revoked_at r = None) (au_refresh s);
          late = (if utc_us (ro_now a) - utc_us used_at \<le> ro_reuse_grace_seconds a * 1000000
                  then quiet Rotate_invalid s
                  else revoke_family_rows (ro_now a) (rf_family_id p) (Rotate_family_revoked 0) Rotate_family_revoked s)
      in case child of
           None \<Rightarrow> late
         | Some c \<Rightarrow> (if rf_token_hash c = ro_next_token_hash a
                       then quiet (Rotate_replay (rf_id c) (rf_user_id p) (rf_family_id p) user) s
                       else late))"

definition child_row :: "int \<Rightarrow> rotate_args \<Rightarrow> refresh_row \<Rightarrow> refresh_row" where
  "child_row i a p = \<lparr>rf_id = i, rf_token_hash = ro_next_token_hash a, rf_user_id = rf_user_id p,
     rf_family_id = rf_family_id p, rf_parent_id = Some (rf_id p), rf_created_at = ro_now a,
     rf_absolute_expires_at = rf_absolute_expires_at p, rf_idle_expires_at = ro_idle_expires_at a,
     rf_used_at = None, rf_revoked_at = None\<rparr>"

definition use_token :: "instant \<Rightarrow> int \<Rightarrow> refresh_row list \<Rightarrow> refresh_row list" where
  "use_token now i = update_where (\<lambda>r. rf_id r = i) (\<lambda>r. r\<lparr>rf_used_at := Some now\<rparr>)"

definition fresh_token :: "rotate_args \<Rightarrow> refresh_row \<Rightarrow> user_rec \<Rightarrow> auth_store \<Rightarrow> auth_result" where
  "fresh_token a p user s =
     (if by_token (ro_next_token_hash a) (au_refresh s) \<noteq> None then quiet Rotate_conflict s
      else let i = next_refresh_id (au_refresh s)
           in committed (ro_now a) (Rotated i (rf_user_id p) (rf_family_id p) user)
                (s\<lparr>au_refresh := use_token (ro_now a) (rf_id p) (au_refresh s) @ [child_row i a p]\<rparr>))"

definition rotate_refresh_session :: "rotate_args \<Rightarrow> auth_store \<Rightarrow> auth_result" where
  "rotate_refresh_session a s =
     (case by_token (ro_token_hash a) (au_refresh s) of
        None \<Rightarrow> quiet Rotate_invalid s
      | Some p \<Rightarrow>
        (if rf_revoked_at p \<noteq> None then quiet Rotate_invalid s
         else if ro_now a > rf_absolute_expires_at p \<or> ro_now a > rf_idle_expires_at p then quiet Rotate_invalid s
         else case find (\<lambda>u. us_id u = rf_user_id p) (au_users s) of
                None \<Rightarrow> revoke_family_rows (ro_now a) (rf_family_id p) Rotate_invalid Rotate_family_revoked s
              | Some user \<Rightarrow>
                (if \<not> us_is_active user
                 then revoke_family_rows (ro_now a) (rf_family_id p) Rotate_invalid Rotate_family_revoked s
                 else case rf_used_at p of
                        Some used_at \<Rightarrow> reused_token a p used_at user s
                      | None \<Rightarrow> fresh_token a p user s)))"

subsection \<open>The commit contract\<close>

datatype auth_request =
    Create_refresh refresh_args instant
  | Rotate_refresh rotate_args
  | Revoke_refresh_family string instant

fun run_auth :: "auth_request \<Rightarrow> auth_store \<Rightarrow> auth_result" where
  "run_auth (Create_refresh a now) s = create_refresh_session a now s"
| "run_auth (Rotate_refresh a) s = rotate_refresh_session a s"
| "run_auth (Revoke_refresh_family h now) s = revoke_refresh_family h now s"

lemma quiet_Inr [simp]: "quiet reply s = Inr (r, s') \<longleftrightarrow> 0 \<le> cm_commit_seq (au_meta s) \<and> r = reply \<and> s' = s"
  by (auto simp: quiet_def)

lemma committed_Inr [simp]:
  "committed now reply s = Inr (r, s') \<longleftrightarrow> r = reply \<and> s' = s\<lparr>au_meta := snd (advance_seq now (au_meta s))\<rparr>"
  by (auto simp: committed_def)

text \<open>What a request may do to the table: nothing, append a login, consume a token and append its child, or revoke.\<close>

inductive table_move :: "auth_request \<Rightarrow> refresh_row list \<Rightarrow> refresh_row list \<Rightarrow> bool" for q where
  login: "q = Create_refresh a now \<Longrightarrow> by_token (fa_token_hash a) rows = None \<Longrightarrow>
    table_move q rows (rows @ [refresh_row_of (next_refresh_id rows) a])"
| rotate: "q = Rotate_refresh a \<Longrightarrow> by_token (ro_token_hash a) rows = Some p \<Longrightarrow> rf_used_at p = None \<Longrightarrow>
    rf_revoked_at p = None \<Longrightarrow> by_token (ro_next_token_hash a) rows = None \<Longrightarrow>
    ro_now a \<le> rf_absolute_expires_at p \<Longrightarrow>
    table_move q rows (use_token (ro_now a) (rf_id p) rows @ [child_row (next_refresh_id rows) a p])"
| revoke: "p \<in> set rows \<Longrightarrow> table_move q rows (revoke_rows now (rf_family_id p) rows)"

lemma by_token_mem: "by_token h rows = Some r \<Longrightarrow> r \<in> set rows \<and> rf_token_hash r = h"
  unfolding by_token_def by (drule find_mem) simp

definition auth_change :: "auth_request \<Rightarrow> auth_store \<Rightarrow> auth_store \<Rightarrow> bool" where
  "auth_change q s s' \<longleftrightarrow> s' = s \<or> (cm_commit_seq (au_meta s') = cm_commit_seq (au_meta s) + 1 \<and>
     au_users s' = au_users s \<and> table_move q (au_refresh s) (au_refresh s'))"

lemma quiet_change: "quiet reply s = Inr (r, s') \<Longrightarrow> auth_change q s s'"
  by (simp add: auth_change_def)

lemma revoke_family_change:
  assumes "revoke_family_rows now fam none reply s = Inr (r, s')" and "p \<in> set (au_refresh s)" and "rf_family_id p = fam"
  shows "auth_change q s s'"
  using assms table_move.revoke[OF assms(2), of q now]
  by (auto simp: revoke_family_rows_def Let_def auth_change_def split: if_splits)

lemma reused_change:
  assumes "reused_token a p t u s = Inr (r, s')" and "p \<in> set (au_refresh s)"
  shows "auth_change q s s'"
  using assms revoke_family_change[OF _ assms(2) refl]
  by (auto simp: reused_token_def Let_def auth_change_def split: option.splits if_splits)

lemma fresh_change:
  assumes "fresh_token a p u s = Inr (r, s')" and "by_token (ro_token_hash a) (au_refresh s) = Some p"
    and "rf_used_at p = None" and "rf_revoked_at p = None" and "ro_now a \<le> rf_absolute_expires_at p"
  shows "auth_change (Rotate_refresh a) s s'"
  using assms by (auto simp: fresh_token_def Let_def auth_change_def intro: table_move.rotate split: if_splits)

lemma rotate_change:
  assumes "rotate_refresh_session a s = Inr (r, s')"
  shows "auth_change (Rotate_refresh a) s s'"
proof (cases "by_token (ro_token_hash a) (au_refresh s)")
  case None
  then show ?thesis using assms by (simp add: rotate_refresh_session_def auth_change_def)
next
  case (Some p)
  have mem: "p \<in> set (au_refresh s)" using by_token_mem[OF Some] by simp
  show ?thesis
  proof (cases "rf_revoked_at p = None \<and> ro_now a \<le> rf_absolute_expires_at p \<and> ro_now a \<le> rf_idle_expires_at p")
    case False
    then show ?thesis using assms Some by (auto simp: rotate_refresh_session_def auth_change_def not_less split: if_splits)
  next
    case True
    then have live: "\<not> rf_absolute_expires_at p < ro_now a" "\<not> rf_idle_expires_at p < ro_now a" by auto
    have ran: "(case find (\<lambda>u. us_id u = rf_user_id p) (au_users s) of
         None \<Rightarrow> revoke_family_rows (ro_now a) (rf_family_id p) Rotate_invalid Rotate_family_revoked s
       | Some user \<Rightarrow> (if \<not> us_is_active user
           then revoke_family_rows (ro_now a) (rf_family_id p) Rotate_invalid Rotate_family_revoked s
           else case rf_used_at p of Some used_at \<Rightarrow> reused_token a p used_at user s
                  | None \<Rightarrow> fresh_token a p user s)) = Inr (r, s')"
      using assms Some True live by (simp add: rotate_refresh_session_def)
    show ?thesis
    proof (rule ccontr)
      assume neg: "\<not> auth_change (Rotate_refresh a) s s'"
      note none = neg revoke_family_change[OF _ mem refl, of _ _ _ _ _ "Rotate_refresh a"]
        reused_change[OF _ mem] fresh_change[OF _ Some]
      show False using ran none True by (simp split: option.splits if_splits)
    qed
  qed
qed

lemma run_auth_move:
  assumes "run_auth q s = Inr (r, s')"
  shows "auth_change q s s'"
proof (cases q)
  case (Create_refresh a now)
  then show ?thesis using assms
    by (auto simp: create_refresh_session_def Let_def auth_change_def intro: table_move.login split: option.splits if_splits)
next
  case (Revoke_refresh_family h now)
  then show ?thesis using assms
    by (auto simp: revoke_refresh_family_def split: option.splits intro: quiet_change revoke_family_change dest: by_token_mem)
next
  case (Rotate_refresh a)
  then show ?thesis using assms rotate_change by simp
qed

interpretation auth: catalog_operation run_auth "\<lambda>s. cm_commit_seq (au_meta s)" "\<lambda>s. (au_refresh s, au_users s)"
proof
  fix q s r s'
  assume "run_auth q s = Inr (r, s')"
  from run_auth_move[OF this]
  show "cm_commit_seq (au_meta s') = cm_commit_seq (au_meta s) \<and> (au_refresh s', au_users s') = (au_refresh s, au_users s) \<or>
    cm_commit_seq (au_meta s') = cm_commit_seq (au_meta s) + 1" by (auto simp: auth_change_def)
qed

end
