(* ===== verification/Refresh_Properties.thy ===== *)
theory Refresh_Properties
  imports Refresh_Sessions
begin

text \<open>
  Refresh-token families over any sequence of logins, rotations, revocations and changes of the user
  table: the table invariant by rule induction, and what it means for a stolen token.
\<close>

definition refresh_table_ok :: "refresh_row list \<Rightarrow> bool" where
  "refresh_table_ok rows \<longleftrightarrow> distinct (map rf_id rows) \<and> distinct (map rf_token_hash rows) \<and>
     (\<forall>r \<in> set rows. \<forall>q \<in> set rows. rf_family_id r = rf_family_id q \<longrightarrow>
        rf_absolute_expires_at r = rf_absolute_expires_at q \<and> rf_user_id r = rf_user_id q \<and>
        (rf_used_at r = None \<and> rf_used_at q = None \<longrightarrow> r = q)) \<and>
     (\<forall>r \<in> set rows. \<exists>q \<in> set rows. rf_family_id q = rf_family_id r \<and> rf_parent_id q = None) \<and>
     (\<forall>r \<in> set rows. \<forall>i. rf_parent_id r = Some i \<longrightarrow> (\<exists>q \<in> set rows. rf_id q = i \<and> rf_used_at q \<noteq> None))"

text \<open>
  A login opens a family of its own (\<open>routers/auth_browser.py\<close> draws a new \<open>uuid4\<close>); only the retry of
  the same login repeats a family.
\<close>

definition request_ok :: "auth_request \<Rightarrow> refresh_row list \<Rightarrow> bool" where
  "request_ok q rows = (case q of
       Create_refresh a _ \<Rightarrow> fa_parent_id a = None \<and>
         (\<forall>r \<in> set rows. rf_family_id r = fa_family_id a \<longrightarrow> rf_token_hash r = fa_token_hash a)
     | _ \<Rightarrow> True)"

inductive auth_step :: "auth_store \<Rightarrow> auth_store \<Rightarrow> bool" where
  request: "run_auth q s = Inr (r, s') \<Longrightarrow> request_ok q (au_refresh s) \<Longrightarrow> auth_step s s'"
| users: "auth_step s (s\<lparr>au_users := us\<rparr>)"

inductive auth_reachable :: "auth_store \<Rightarrow> bool" where
  start: "au_refresh s = [] \<Longrightarrow> auth_reachable s"
| step: "auth_reachable s \<Longrightarrow> auth_step s s' \<Longrightarrow> auth_reachable s'"

subsection \<open>The table invariant\<close>

lemma fresh_refresh_id: "r \<in> set rows \<Longrightarrow> rf_id r < next_refresh_id rows"
proof -
  have start: "a \<le> fold max xs a" for a :: int and xs
    by (induction xs arbitrary: a) (auto intro: order_trans[OF max.cobounded2])
  have "x \<in> set xs \<Longrightarrow> x \<le> fold max xs a" for a x :: int and xs
    by (induction xs arbitrary: a) (auto intro: order_trans[OF max.cobounded1 start])
  then show "r \<in> set rows \<Longrightarrow> ?thesis" by (force simp: next_refresh_id_def)
qed

lemma by_token_None: "by_token h rows = None \<longleftrightarrow> h \<notin> rf_token_hash ` set rows"
  by (auto simp: by_token_def find_None_iff)

lemma by_token_distinct: "distinct (map rf_token_hash rows) \<Longrightarrow> r \<in> set rows \<Longrightarrow> by_token (rf_token_hash r) rows = Some r"
  unfolding by_token_def by (induction rows) auto

text \<open>A row after consuming a token or revoking a family, seen from the row it was.\<close>

lemma use_token_mem:
  assumes "r \<in> set (use_token now i rows)"
  obtains x where "x \<in> set rows" "r = x \<or> r = x\<lparr>rf_used_at := Some now\<rparr>" "rf_used_at r = None \<longrightarrow> r = x \<and> rf_id x \<noteq> i"
  using update_where_mem[OF assms[unfolded use_token_def]] by auto

lemma use_token_image:
  "x \<in> set rows \<Longrightarrow> (if rf_id x = i then x\<lparr>rf_used_at := Some now\<rparr> else x) \<in> set (use_token now i rows)"
  unfolding use_token_def update_where_def set_map by (rule imageI)

lemma use_token_has: "x \<in> set rows \<Longrightarrow> \<exists>r \<in> set (use_token now i rows). r = x \<or> r = x\<lparr>rf_used_at := Some now\<rparr>"
  by (auto simp: use_token_def update_where_def)

lemma revoke_mem:
  assumes "r \<in> set (revoke_rows now fam rows)"
  obtains x where "x \<in> set rows" "r = (if live_member fam x then x\<lparr>rf_revoked_at := Some now\<rparr> else x)"
  using assms by (auto simp: revoke_rows_def update_where_def)

lemma table_keys [simp]:
  "map rf_id (use_token now i rows) = map rf_id rows" "map rf_token_hash (use_token now i rows) = map rf_token_hash rows"
  "map rf_id (revoke_rows now fam rows) = map rf_id rows"
  "map rf_token_hash (revoke_rows now fam rows) = map rf_token_hash rows"
  "map rf_family_id (use_token now i rows) = map rf_family_id rows"
  "map rf_family_id (revoke_rows now fam rows) = map rf_family_id rows"
  by (simp_all add: use_token_def revoke_rows_def map_update_where)

lemma refresh_table_okI:
  assumes "distinct (map rf_id rows)" "distinct (map rf_token_hash rows)"
    and "\<And>r q. r \<in> set rows \<Longrightarrow> q \<in> set rows \<Longrightarrow> rf_family_id r = rf_family_id q \<Longrightarrow>
      rf_absolute_expires_at r = rf_absolute_expires_at q \<and> rf_user_id r = rf_user_id q"
    and "\<And>r q. r \<in> set rows \<Longrightarrow> q \<in> set rows \<Longrightarrow> rf_family_id r = rf_family_id q \<Longrightarrow>
      rf_used_at r = None \<Longrightarrow> rf_used_at q = None \<Longrightarrow> r = q"
    and "\<And>r. r \<in> set rows \<Longrightarrow> \<exists>q \<in> set rows. rf_family_id q = rf_family_id r \<and> rf_parent_id q = None"
    and "\<And>r i. r \<in> set rows \<Longrightarrow> rf_parent_id r = Some i \<Longrightarrow> \<exists>q \<in> set rows. rf_id q = i \<and> rf_used_at q \<noteq> None"
  shows "refresh_table_ok rows"
  unfolding refresh_table_ok_def using assms by blast

lemma refresh_table_okD:
  assumes "refresh_table_ok rows"
  shows "distinct (map rf_id rows)" "distinct (map rf_token_hash rows)"
    and "r \<in> set rows \<Longrightarrow> q \<in> set rows \<Longrightarrow> rf_family_id r = rf_family_id q \<Longrightarrow>
      rf_absolute_expires_at r = rf_absolute_expires_at q \<and> rf_user_id r = rf_user_id q"
    and "r \<in> set rows \<Longrightarrow> q \<in> set rows \<Longrightarrow> rf_family_id r = rf_family_id q \<Longrightarrow>
      rf_used_at r = None \<Longrightarrow> rf_used_at q = None \<Longrightarrow> r = q"
    and "r \<in> set rows \<Longrightarrow> \<exists>q \<in> set rows. rf_family_id q = rf_family_id r \<and> rf_parent_id q = None"
    and "r \<in> set rows \<Longrightarrow> rf_parent_id r = Some i \<Longrightarrow> \<exists>q \<in> set rows. rf_id q = i \<and> rf_used_at q \<noteq> None"
  using assms unfolding refresh_table_ok_def by blast+

lemma login_ok:
  assumes ok: "refresh_table_ok rows" and new: "by_token (fa_token_hash a) rows = None"
    and parent: "fa_parent_id a = None"
    and fam: "\<forall>r \<in> set rows. rf_family_id r = fa_family_id a \<longrightarrow> rf_token_hash r = fa_token_hash a"
  shows "refresh_table_ok (rows @ [refresh_row_of (next_refresh_id rows) a])"
proof -
  let ?n = "refresh_row_of (next_refresh_id rows) a"
  have cols: "rf_id ?n = next_refresh_id rows" "rf_token_hash ?n = fa_token_hash a" "rf_family_id ?n = fa_family_id a"
    "rf_parent_id ?n = None" using parent by (simp_all add: refresh_row_of_def)
  have new': "fa_token_hash a \<notin> set (map rf_token_hash rows)" using new by (simp add: by_token_None)
  have nofam: "rf_family_id r \<noteq> rf_family_id ?n" if "r \<in> set rows" for r
    using fam new' that cols(3) by force
  have newid: "next_refresh_id rows \<notin> set (map rf_id rows)" using fresh_refresh_id by force
  note old = refresh_table_okD[OF ok]
  show ?thesis
  proof (rule refresh_table_okI)
    show "distinct (map rf_id (rows @ [?n]))" using old(1) newid cols(1) by simp
    show "distinct (map rf_token_hash (rows @ [?n]))" using old(2) new' cols(2) by simp
  next
    fix r q assume "r \<in> set (rows @ [?n])" "q \<in> set (rows @ [?n])" "rf_family_id r = rf_family_id q"
    then have both: "r = ?n \<and> q = ?n \<or> r \<in> set rows \<and> q \<in> set rows" using nofam by force
    then show "rf_absolute_expires_at r = rf_absolute_expires_at q \<and> rf_user_id r = rf_user_id q"
      using old(3) \<open>rf_family_id r = rf_family_id q\<close> by blast
    assume "rf_used_at r = None" "rf_used_at q = None"
    then show "r = q" using both old(4) \<open>rf_family_id r = rf_family_id q\<close> by blast
  next
    fix r assume "r \<in> set (rows @ [?n])"
    then show "\<exists>q \<in> set (rows @ [?n]). rf_family_id q = rf_family_id r \<and> rf_parent_id q = None"
      using old(5) cols(4) by auto
    fix i assume "rf_parent_id r = Some i"
    with \<open>r \<in> set (rows @ [?n])\<close> show "\<exists>q \<in> set (rows @ [?n]). rf_id q = i \<and> rf_used_at q \<noteq> None"
      using old(6) cols(4) by auto
  qed
qed

lemma rotate_ok:
  assumes ok: "refresh_table_ok rows" and p: "p \<in> set rows" "rf_used_at p = None"
    and new: "by_token (ro_next_token_hash a) rows = None"
  shows "refresh_table_ok (use_token (ro_now a) (rf_id p) rows @ [child_row (next_refresh_id rows) a p])"
proof -
  let ?c = "child_row (next_refresh_id rows) a p" and ?rows = "use_token (ro_now a) (rf_id p) rows"
  note old = refresh_table_okD[OF ok]
  have cols: "rf_id ?c = next_refresh_id rows" "rf_token_hash ?c = ro_next_token_hash a" "rf_family_id ?c = rf_family_id p"
    "rf_absolute_expires_at ?c = rf_absolute_expires_at p" "rf_user_id ?c = rf_user_id p" "rf_used_at ?c = None"
    by (simp_all add: child_row_def)
  have newid: "next_refresh_id rows \<notin> set (map rf_id rows)" using fresh_refresh_id by force
  have new': "ro_next_token_hash a \<notin> set (map rf_token_hash rows)" using new by (simp add: by_token_None)
  text \<open>Every row of the new table stands for an old one: itself, or the parent for the child.\<close>
  have origin: "\<exists>x \<in> set rows. rf_family_id x = rf_family_id r \<and> rf_absolute_expires_at x = rf_absolute_expires_at r \<and>
      rf_user_id x = rf_user_id r \<and> rf_used_at r = (if r = ?c then None else rf_used_at r) \<and>
      (rf_used_at r = None \<longrightarrow> rf_used_at x = None \<and> (r = ?c \<and> x = p \<or> r = x \<and> rf_id x \<noteq> rf_id p))"
    if "r \<in> set (?rows @ [?c])" for r
  proof (cases "r = ?c")
    case True
    then show ?thesis using p cols by (intro bexI[of _ p]) auto
  next
    case False
    then have "r \<in> set ?rows" using that by simp
    then obtain x where "x \<in> set rows" "r = x \<or> r = x\<lparr>rf_used_at := Some (ro_now a)\<rparr>"
      "rf_used_at r = None \<longrightarrow> r = x \<and> rf_id x \<noteq> rf_id p" by (rule use_token_mem)
    then show ?thesis using False by (intro bexI[of _ x]) auto
  qed
  show ?thesis
  proof (rule refresh_table_okI)
    show "distinct (map rf_id (?rows @ [?c]))" using old(1) newid cols(1) by simp
    show "distinct (map rf_token_hash (?rows @ [?c]))" using old(2) new' cols(2) by simp
  next
    fix r q assume r: "r \<in> set (?rows @ [?c])" and q: "q \<in> set (?rows @ [?c])" and fam: "rf_family_id r = rf_family_id q"
    then show "rf_absolute_expires_at r = rf_absolute_expires_at q \<and> rf_user_id r = rf_user_id q"
      using origin[OF r] origin[OF q] old(3) by metis
    assume unused: "rf_used_at r = None" "rf_used_at q = None"
    obtain x y where xy: "x \<in> set rows" "rf_family_id x = rf_family_id r" "rf_used_at x = None"
      "r = ?c \<and> x = p \<or> r = x \<and> rf_id x \<noteq> rf_id p"
      "y \<in> set rows" "rf_family_id y = rf_family_id q" "rf_used_at y = None" "q = ?c \<and> y = p \<or> q = y \<and> rf_id y \<noteq> rf_id p"
      using origin[OF r] origin[OF q] unused by blast
    then have "x = y" using old(4) fam by metis
    then show "r = q" using xy(4,8) by blast
  next
    fix r assume "r \<in> set (?rows @ [?c])"
    then obtain x where x: "x \<in> set rows" "rf_family_id x = rf_family_id r" using origin by blast
    obtain q where q: "q \<in> set rows" "rf_family_id q = rf_family_id x" "rf_parent_id q = None" using old(5)[OF x(1)] by blast
    obtain q' where "q' \<in> set ?rows" "q' = q \<or> q' = q\<lparr>rf_used_at := Some (ro_now a)\<rparr>"
      using use_token_has[OF q(1)] by blast
    then show "\<exists>q \<in> set (?rows @ [?c]). rf_family_id q = rf_family_id r \<and> rf_parent_id q = None"
      using q(2,3) x(2) by (intro bexI[of _ q']) auto
  next
    fix r i assume r: "r \<in> set (?rows @ [?c])" "rf_parent_id r = Some i"
    have "\<exists>y \<in> set rows. rf_id y = i \<and> (rf_used_at y \<noteq> None \<or> y = p)"
    proof (cases "r = ?c")
      case True
      then show ?thesis using r(2) p(1) by (auto simp: child_row_def)
    next
      case False
      then have "r \<in> set ?rows" using r(1) by simp
      then obtain x where x: "x \<in> set rows" "r = x \<or> r = x\<lparr>rf_used_at := Some (ro_now a)\<rparr>" by (rule use_token_mem)
      then have "rf_parent_id x = Some i" using r(2) by auto
      then show ?thesis using old(6) x(1) by blast
    qed
    then obtain y where y: "y \<in> set rows" "rf_id y = i" "rf_used_at y \<noteq> None \<or> y = p" by blast
    then show "\<exists>q \<in> set (?rows @ [?c]). rf_id q = i \<and> rf_used_at q \<noteq> None"
      using use_token_image[OF y(1), of "rf_id p" "ro_now a"] by (intro bexI[of _ "if rf_id y = rf_id p then y\<lparr>rf_used_at := Some (ro_now a)\<rparr> else y"]) auto
  qed
qed

lemma revoke_ok:
  assumes ok: "refresh_table_ok rows"
  shows "refresh_table_ok (revoke_rows now fam rows)"
proof -
  define f where "f = (\<lambda>x. if live_member fam x then x\<lparr>rf_revoked_at := Some now\<rparr> else x)"
  note old = refresh_table_okD[OF ok]
  have rows: "set (revoke_rows now fam rows) = f ` set rows" by (auto simp: revoke_rows_def update_where_def f_def)
  have f: "rf_family_id (f x) = rf_family_id x" "rf_absolute_expires_at (f x) = rf_absolute_expires_at x"
    "rf_user_id (f x) = rf_user_id x" "rf_used_at (f x) = rf_used_at x" "rf_parent_id (f x) = rf_parent_id x" "rf_id (f x) = rf_id x" for x
    by (simp_all add: f_def)
  show ?thesis
  proof (rule refresh_table_okI)
    show "distinct (map rf_id (revoke_rows now fam rows))" "distinct (map rf_token_hash (revoke_rows now fam rows))"
      using old(1,2) by simp_all
  next
    fix r q assume "r \<in> set (revoke_rows now fam rows)" "q \<in> set (revoke_rows now fam rows)" and fm: "rf_family_id r = rf_family_id q"
    then obtain x y where xy: "x \<in> set rows" "r = f x" "y \<in> set rows" "q = f y" unfolding rows by blast
    then have fxy: "rf_family_id x = rf_family_id y" using fm by (simp add: f)
    show "rf_absolute_expires_at r = rf_absolute_expires_at q \<and> rf_user_id r = rf_user_id q"
      using old(3)[OF xy(1,3) fxy] xy(2,4) by (simp add: f)
    assume "rf_used_at r = None" "rf_used_at q = None"
    then show "r = q" using old(4)[OF xy(1,3) fxy] xy(2,4) by (simp add: f)
  next
    fix r assume "r \<in> set (revoke_rows now fam rows)"
    then obtain x where x: "x \<in> set rows" "r = f x" unfolding rows by blast
    obtain q where "q \<in> set rows" "rf_family_id q = rf_family_id x" "rf_parent_id q = None" using old(5)[OF x(1)] by blast
    then show "\<exists>q \<in> set (revoke_rows now fam rows). rf_family_id q = rf_family_id r \<and> rf_parent_id q = None"
      unfolding rows using x by (intro bexI[of _ "f q"]) (simp_all add: f)
    fix i assume "rf_parent_id r = Some i"
    then obtain q where "q \<in> set rows" "rf_id q = i" "rf_used_at q \<noteq> None" using old(6)[OF x(1), of i] x(2) by (auto simp: f)
    then show "\<exists>q \<in> set (revoke_rows now fam rows). rf_id q = i \<and> rf_used_at q \<noteq> None"
      unfolding rows by (intro bexI[of _ "f q"]) (simp_all add: f)
  qed
qed

lemma table_move_ok:
  assumes "table_move q rows rows'" and "request_ok q rows" and "refresh_table_ok rows"
  shows "refresh_table_ok rows'"
  using assms
proof cases
  case (login a now)
  then show ?thesis using assms(2,3) by (auto simp: request_ok_def intro!: login_ok)
next
  case (rotate a p)
  then show ?thesis using assms(3) by (auto intro!: rotate_ok dest: by_token_mem)
next
  case (revoke p now)
  then show ?thesis using assms(3) by (simp add: revoke_ok)
qed

lemma auth_step_ok: "auth_step s s' \<Longrightarrow> refresh_table_ok (au_refresh s) \<Longrightarrow> refresh_table_ok (au_refresh s')"
proof (induction rule: auth_step.induct)
  case (request q s r s')
  then show ?case using run_auth_move[OF request.hyps(1)] table_move_ok by (auto simp: auth_change_def)
qed simp

lemma auth_reachable_ok: "auth_reachable s \<Longrightarrow> refresh_table_ok (au_refresh s)"
proof (induction rule: auth_reachable.induct)
  case (start s)
  then show ?case by (simp add: refresh_table_ok_def)
next
  case (step s s')
  then show ?case using auth_step_ok by blast
qed

subsection \<open>One usable token\<close>

definition usable :: "refresh_row \<Rightarrow> bool" where
  "usable r \<longleftrightarrow> rf_used_at r = None \<and> rf_revoked_at r = None"

text \<open>
  (C10) At every moment a sign-in has at most one token that can still be exchanged: in every table that
  logins, rotations, revocations and changes of users can lead to, ids and token hashes are unique and two usable
  rows of one family are the same row. All rows of a family belong to one user and end at one time.
\<close>

theorem one_usable_refresh_token:
  assumes "auth_reachable s"
  shows "distinct (map rf_id (au_refresh s)) \<and> distinct (map rf_token_hash (au_refresh s)) \<and>
    (\<forall>r \<in> set (au_refresh s). \<forall>q \<in> set (au_refresh s). rf_family_id r = rf_family_id q \<longrightarrow>
       (usable r \<and> usable q \<longrightarrow> r = q) \<and> rf_user_id r = rf_user_id q \<and>
       rf_absolute_expires_at r = rf_absolute_expires_at q)"
  using auth_reachable_ok[OF assms] unfolding refresh_table_ok_def usable_def by blast

subsection \<open>A stolen token\<close>

definition family_dead :: "string \<Rightarrow> refresh_row list \<Rightarrow> bool" where
  "family_dead fam rows \<longleftrightarrow> fam \<in> set (map rf_family_id rows) \<and>
     (\<forall>r \<in> set rows. rf_family_id r = fam \<longrightarrow> rf_revoked_at r \<noteq> None)"

lemma family_deadI:
  assumes "fam \<in> set (map rf_family_id rows)" and "\<And>r. r \<in> set rows \<Longrightarrow> rf_family_id r = fam \<Longrightarrow> rf_revoked_at r \<noteq> None"
  shows "family_dead fam rows"
  unfolding family_dead_def using assms by blast

lemma revoke_kills:
  assumes "p \<in> set rows"
  shows "family_dead (rf_family_id p) (revoke_rows now (rf_family_id p) rows)"
proof (rule family_deadI)
  fix r assume "r \<in> set (revoke_rows now (rf_family_id p) rows)" "rf_family_id r = rf_family_id p"
  then show "rf_revoked_at r \<noteq> None" by (auto simp: live_member_def elim!: revoke_mem split: if_splits)
qed (use assms in \<open>simp only: table_keys, simp\<close>)

lemma dead_login:
  assumes "family_dead fam rows" and "by_token (fa_token_hash a) rows = None"
    and "\<forall>r \<in> set rows. rf_family_id r = fa_family_id a \<longrightarrow> rf_token_hash r = fa_token_hash a"
  shows "family_dead fam (rows @ [refresh_row_of i a])"
proof -
  obtain r where r: "r \<in> set rows" "rf_family_id r = fam" using assms(1) by (auto simp: family_dead_def)
  have "fa_token_hash a \<noteq> rf_token_hash r" using assms(2) r(1) by (auto simp: by_token_None)
  then have "fa_family_id a \<noteq> fam" using assms(3) r by force
  with assms(1) show ?thesis by (auto simp: family_dead_def refresh_row_of_def)
qed

lemma dead_rotate:
  assumes dead: "family_dead fam rows" and p: "p \<in> set rows" "rf_revoked_at p = None"
  shows "family_dead fam (use_token now i rows @ [child_row j a p])"
proof (rule family_deadI)
  show "fam \<in> set (map rf_family_id (use_token now i rows @ [child_row j a p]))"
    using dead by (simp only: map_append table_keys) (simp add: family_dead_def)
  have "rf_family_id p \<noteq> fam" using dead p by (auto simp: family_dead_def)
  moreover fix r assume "r \<in> set (use_token now i rows @ [child_row j a p])" "rf_family_id r = fam"
  ultimately have "r \<in> set (use_token now i rows)" by (auto simp: child_row_def)
  then obtain x where "x \<in> set rows" "r = x \<or> r = x\<lparr>rf_used_at := Some now\<rparr>" by (rule use_token_mem)
  with dead \<open>rf_family_id r = fam\<close> show "rf_revoked_at r \<noteq> None" by (auto simp: family_dead_def)
qed

lemma dead_revoke:
  assumes dead: "family_dead fam rows"
  shows "family_dead fam (revoke_rows now f rows)"
proof (rule family_deadI)
  show "fam \<in> set (map rf_family_id (revoke_rows now f rows))"
    using dead by (simp only: table_keys) (simp add: family_dead_def)
  fix r assume "r \<in> set (revoke_rows now f rows)" "rf_family_id r = fam"
  with dead show "rf_revoked_at r \<noteq> None" by (auto simp: family_dead_def elim!: revoke_mem split: if_splits)
qed

lemma dead_step: "auth_step s s' \<Longrightarrow> family_dead fam (au_refresh s) \<Longrightarrow> family_dead fam (au_refresh s')"
proof (induction rule: auth_step.induct)
  case (request q s r s')
  from run_auth_move[OF request.hyps(1)] consider "s' = s" | "table_move q (au_refresh s) (au_refresh s')"
    by (auto simp: auth_change_def)
  then show ?case
  proof cases
    case 2
    then show ?thesis
    proof cases
      case (login a now)
      then show ?thesis using request by (auto simp: request_ok_def intro: dead_login)
    next
      case (rotate a p)
      then show ?thesis using request by (auto intro: dead_rotate dest: by_token_mem)
    next
      case (revoke p now)
      then show ?thesis using request by (auto intro: dead_revoke)
    qed
  qed (use request in simp)
qed simp

lemma steps_invariant:
  assumes "auth_step\<^sup>*\<^sup>* s s'" and "refresh_table_ok (au_refresh s)" and "family_dead fam (au_refresh s)"
  shows "refresh_table_ok (au_refresh s') \<and> family_dead fam (au_refresh s')"
  using assms by (induction rule: rtranclp_induct) (auto intro: auth_step_ok dead_step)

lemma dead_rotation:
  assumes "refresh_table_ok rows" and "family_dead (rf_family_id r) rows" and "r \<in> set rows"
    and "au_refresh s = rows" and "ro_token_hash b = rf_token_hash r"
    and "rotate_refresh_session b s = Inr (reply, s')"
  shows "reply = Rotate_invalid \<and> s' = s"
proof -
  have "by_token (ro_token_hash b) rows = Some r"
    using by_token_distinct[OF _ assms(3)] refresh_table_okD(2)[OF assms(1)] assms(5) by simp
  moreover have "rf_revoked_at r \<noteq> None" using assms(2,3) by (auto simp: family_dead_def)
  ultimately show ?thesis using assms(4,6) by (simp add: rotate_refresh_session_def)
qed

lemma late_reuse_revokes:
  assumes "by_token (ro_token_hash a) (au_refresh s) = Some p" and "rf_revoked_at p = None" and "rf_used_at p = Some t"
    and "ro_now a \<le> rf_absolute_expires_at p" "ro_now a \<le> rf_idle_expires_at p"
    and "utc_us (ro_now a) - utc_us t > ro_reuse_grace_seconds a * 1000000"
    and "\<forall>c \<in> set (au_refresh s). rf_parent_id c = Some (rf_id p) \<longrightarrow> rf_token_hash c \<noteq> ro_next_token_hash a"
  shows "\<exists>n s'. rotate_refresh_session a s = Inr (Rotate_family_revoked n, s') \<and> 0 < n \<and>
    au_refresh s' = revoke_rows (ro_now a) (rf_family_id p) (au_refresh s)"
proof -
  have mem: "p \<in> set (au_refresh s)" using by_token_mem[OF assms(1)] by simp
  let ?n = "length (filter (live_member (rf_family_id p)) (au_refresh s))"
  have n: "?n \<noteq> 0" using mem assms(2) by (auto simp: live_member_def filter_empty_conv)
  have revoke: "revoke_family_rows (ro_now a) (rf_family_id p) none Rotate_family_revoked s = committed (ro_now a)
      (Rotate_family_revoked ?n) (s\<lparr>au_refresh := revoke_rows (ro_now a) (rf_family_id p) (au_refresh s)\<rparr>)" for none
    using n by (simp add: revoke_family_rows_def Let_def)
  have reuse: "reused_token a p t u s = revoke_family_rows (ro_now a) (rf_family_id p) (Rotate_family_revoked 0) Rotate_family_revoked s"
    for u using assms(6,7) by (auto simp: reused_token_def Let_def split: option.splits dest: find_mem)
  have live: "\<not> rf_absolute_expires_at p < ro_now a" "\<not> rf_idle_expires_at p < ro_now a" using assms(4,5) by auto
  have "rotate_refresh_session a s = committed (ro_now a)
      (Rotate_family_revoked ?n) (s\<lparr>au_refresh := revoke_rows (ro_now a) (rf_family_id p) (au_refresh s)\<rparr>)"
    using assms(1-3) live by (simp add: rotate_refresh_session_def revoke reuse split: option.splits)
  then show ?thesis using n by (simp add: committed_def)
qed

text \<open>
  (C11) Theft of a refresh token ends the sign-in for good: when a token that was already exchanged and has neither
  reached its absolute nor its idle end is shown again after the grace period, and not as a retry of the exchange
  that consumed it, the whole family is revoked, and whatever logins, rotations, revocations and user changes follow,
  no token of the family is ever exchanged again. Shown after one of its ends it is answered as invalid, and nothing
  is revoked.
\<close>

theorem stolen_token_kills_family:
  assumes reach: "auth_reachable s" and tok: "by_token (ro_token_hash a) (au_refresh s) = Some p"
    and used: "rf_revoked_at p = None" "rf_used_at p = Some t"
    and grace: "utc_us (ro_now a) - utc_us t > ro_reuse_grace_seconds a * 1000000"
    and no_retry: "\<forall>c \<in> set (au_refresh s). rf_parent_id c = Some (rf_id p) \<longrightarrow> rf_token_hash c \<noteq> ro_next_token_hash a"
    and seq: "0 \<le> cm_commit_seq (au_meta s)"
  shows "if ro_now a \<le> rf_absolute_expires_at p \<and> ro_now a \<le> rf_idle_expires_at p
    then \<exists>n s'. rotate_refresh_session a s = Inr (Rotate_family_revoked n, s') \<and> 0 < n \<and>
      (\<forall>s'' r b reply s3. auth_step\<^sup>*\<^sup>* s' s'' \<longrightarrow> r \<in> set (au_refresh s'') \<longrightarrow> rf_family_id r = rf_family_id p \<longrightarrow>
         ro_token_hash b = rf_token_hash r \<longrightarrow> rotate_refresh_session b s'' = Inr (reply, s3) \<longrightarrow>
         reply = Rotate_invalid \<and> s3 = s'')
    else rotate_refresh_session a s = Inr (Rotate_invalid, s)"
proof (cases "ro_now a \<le> rf_absolute_expires_at p \<and> ro_now a \<le> rf_idle_expires_at p")
  case True
  from late_reuse_revokes[OF tok used _ _ grace no_retry] True obtain n s' where
    s': "rotate_refresh_session a s = Inr (Rotate_family_revoked n, s')" "0 < n"
      "au_refresh s' = revoke_rows (ro_now a) (rf_family_id p) (au_refresh s)" by blast
  have mem: "p \<in> set (au_refresh s)" using by_token_mem[OF tok] by simp
  have start: "refresh_table_ok (au_refresh s')" "family_dead (rf_family_id p) (au_refresh s')"
    using revoke_ok[OF auth_reachable_ok[OF reach]] revoke_kills[OF mem] s'(3) by simp_all
  have "reply = Rotate_invalid \<and> s3 = s''"
    if "auth_step\<^sup>*\<^sup>* s' s''" "r \<in> set (au_refresh s'')" "rf_family_id r = rf_family_id p"
      "ro_token_hash b = rf_token_hash r" "rotate_refresh_session b s'' = Inr (reply, s3)" for s'' r b reply s3
    using steps_invariant[OF that(1) start] dead_rotation[OF _ _ that(2) refl that(4,5)] that(3) by simp
  with s'(1,2) True show ?thesis by auto
next
  case False
  then have "ro_now a > rf_absolute_expires_at p \<or> ro_now a > rf_idle_expires_at p" by auto
  then show ?thesis using False tok used(1) seq by (simp add: rotate_refresh_session_def)
qed

subsection \<open>The lifetime of a sign-in\<close>

lemma rotated_row:
  assumes "rotate_refresh_session a s = Inr (Rotated i u fam user, s')"
  obtains p where "by_token (ro_token_hash a) (au_refresh s) = Some p" "rf_family_id p = fam" "rf_used_at p = None"
    "rf_revoked_at p = None" "ro_now a \<le> rf_absolute_expires_at p" "us_is_active user" "us_id user = rf_user_id p"
    "by_token (ro_next_token_hash a) (au_refresh s) = None" "user \<in> set (au_users s)"
    "au_refresh s' = use_token (ro_now a) (rf_id p) (au_refresh s) @ [child_row i a p]"
  using assms
  by (auto simp: rotate_refresh_session_def reused_token_def fresh_token_def revoke_family_rows_def Let_def not_less
      split: option.splits if_splits dest: find_mem intro: that)

text \<open>
  Rotation never outlives the login: a token is exchanged only for an active user, before the end
  fixed when the family's login row was written, and the new token ends no later. The exchanged token
  can not be exchanged again.
\<close>

theorem rotation_respects_login:
  assumes reach: "auth_reachable s" and rot: "rotate_refresh_session a s = Inr (Rotated i u fam user, s')"
  shows "us_is_active user \<and> (\<exists>login \<in> set (au_refresh s). \<exists>child. rf_parent_id login = None \<and> rf_family_id login = fam \<and>
    ro_now a \<le> rf_absolute_expires_at login \<and> us_id user = rf_user_id login \<and>
    by_token (ro_next_token_hash a) (au_refresh s') = Some child \<and> rf_family_id child = fam \<and> usable child \<and>
    rf_absolute_expires_at child = rf_absolute_expires_at login) \<and>
    (\<forall>old. by_token (ro_token_hash a) (au_refresh s') = Some old \<longrightarrow> \<not> usable old)"
proof -
  note ok = refresh_table_okD[OF auth_reachable_ok[OF reach]]
  from rot obtain p where p: "by_token (ro_token_hash a) (au_refresh s) = Some p" "rf_family_id p = fam" "rf_used_at p = None"
    "rf_revoked_at p = None" "ro_now a \<le> rf_absolute_expires_at p" "us_is_active user" "us_id user = rf_user_id p"
    "by_token (ro_next_token_hash a) (au_refresh s) = None"
    "au_refresh s' = use_token (ro_now a) (rf_id p) (au_refresh s) @ [child_row i a p]" by (rule rotated_row)
  have mem: "p \<in> set (au_refresh s)" "rf_token_hash p = ro_token_hash a" using by_token_mem[OF p(1)] by simp_all
  obtain login where l: "login \<in> set (au_refresh s)" "rf_family_id login = fam" "rf_parent_id login = None"
    using ok(5)[OF mem(1)] p(2) by blast
  have same: "rf_absolute_expires_at login = rf_absolute_expires_at p" "rf_user_id login = rf_user_id p"
    using ok(3)[OF l(1) mem(1)] l(2) p(2) by simp_all
  have keep: "by_token h (use_token (ro_now a) (rf_id p) rows) =
      map_option (\<lambda>r. if rf_id r = rf_id p then r\<lparr>rf_used_at := Some (ro_now a)\<rparr> else r) (by_token h rows)" for h rows
    by (induction rows) (auto simp: by_token_def use_token_def update_where_def)
  have child: "by_token (ro_next_token_hash a) (au_refresh s') = Some (child_row i a p)"
    using keep[of "ro_next_token_hash a" "au_refresh s"] p(8,9) by (simp add: by_token_def find_snoc child_row_def)
  have "by_token (ro_token_hash a) (au_refresh s') = Some (p\<lparr>rf_used_at := Some (ro_now a)\<rparr>)"
    using keep[of "ro_token_hash a" "au_refresh s"] p(1,9) by (simp add: by_token_def find_snoc)
  then have "\<not> usable old" if "by_token (ro_token_hash a) (au_refresh s') = Some old" for old
    using that by (auto simp: usable_def)
  then show ?thesis
    using p(2,5,6,7) l same child by (auto simp: child_row_def usable_def intro!: bexI[of _ login])
qed

subsection \<open>Retries\<close>

text \<open>The client repeats a request unchanged, so the time of the repetition is the time of the request.\<close>

definition auth_ok :: "auth_store \<Rightarrow> bool" where
  "auth_ok s \<longleftrightarrow> refresh_table_ok (au_refresh s) \<and> 0 \<le> cm_commit_seq (au_meta s)"

lemma quiet_again: "0 \<le> cm_commit_seq (au_meta s) \<Longrightarrow> quiet reply s = Inr (reply, s)"
  by (simp add: quiet_def current_seq_def)

lemma by_token_revoked:
  "by_token h (revoke_rows now fam rows) = map_option (\<lambda>r. if live_member fam r then r\<lparr>rf_revoked_at := Some now\<rparr> else r) (by_token h rows)"
  by (induction rows) (auto simp: by_token_def revoke_rows_def update_where_def)

lemma by_token_used:
  "by_token h (use_token now i rows) = map_option (\<lambda>r. if rf_id r = i then r\<lparr>rf_used_at := Some now\<rparr> else r) (by_token h rows)"
  by (induction rows) (auto simp: by_token_def use_token_def update_where_def)

lemma revoked_is_invalid:
  assumes "by_token (ro_token_hash a) (au_refresh s) = Some p" and "rf_revoked_at p \<noteq> None" and "0 \<le> cm_commit_seq (au_meta s)"
  shows "rotate_refresh_session a s = Inr (Rotate_invalid, s)"
  using assms by (simp add: rotate_refresh_session_def quiet_again)

lemma revoke_then:
  assumes "revoke_family_rows now fam none reply s = Inr (r, s')"
  shows "s' = s \<or> au_refresh s' = revoke_rows now fam (au_refresh s)"
  using assms by (auto simp: revoke_family_rows_def Let_def split: if_splits)

text \<open>After a rotation the same request finds the consumed token with exactly the child it asked for.\<close>

lemma rotated_again:
  assumes ok: "auth_ok s" and p: "by_token (ro_token_hash a) (au_refresh s) = Some p" "rf_used_at p = None" "rf_revoked_at p = None"
    and time: "\<not> ro_now a > rf_absolute_expires_at p" "\<not> ro_now a > rf_idle_expires_at p"
    and user: "find (\<lambda>u. us_id u = rf_user_id p) (au_users s) = Some user" "us_is_active user"
    and run: "fresh_token a p user s = Inr (r, s')"
  shows "\<exists>r'. rotate_refresh_session a s' = Inr (r', s')"
proof (cases "by_token (ro_next_token_hash a) (au_refresh s)")
  case (Some c)
  then have "s' = s" using run by (simp add: fresh_token_def)
  then show ?thesis using p time user run by (auto simp: rotate_refresh_session_def)
next
  case None
  let ?i = "next_refresh_id (au_refresh s)" and ?p = "p\<lparr>rf_used_at := Some (ro_now a)\<rparr>"
  let ?rows = "use_token (ro_now a) (rf_id p) (au_refresh s)"
  note inv = refresh_table_okD[OF conjunct1[OF ok[unfolded auth_ok_def]]]
  have s': "au_refresh s' = ?rows @ [child_row ?i a p]" "au_users s' = au_users s" "0 \<le> cm_commit_seq (au_meta s')"
    using None run ok by (auto simp: fresh_token_def Let_def auth_ok_def)
  have mem: "p \<in> set (au_refresh s)" using by_token_mem[OF p(1)] by simp
  have nochild: "rf_parent_id x \<noteq> Some (rf_id p)" if "x \<in> set (au_refresh s)" for x
  proof
    assume "rf_parent_id x = Some (rf_id p)"
    from inv(6)[OF that this] obtain q where "q \<in> set (au_refresh s)" "rf_id q = rf_id p" "rf_used_at q \<noteq> None" by blast
    then show False using inv(1) mem p(2) by (metis eq_key_imp_eq_value distinct_map inj_on_def)
  qed
  have "find (\<lambda>r. rf_parent_id r = Some (rf_id p) \<and> rf_revoked_at r = None) ?rows = None"
    unfolding find_None_iff using nochild by (auto elim!: use_token_mem)
  then have child: "find (\<lambda>r. rf_parent_id r = Some (rf_id ?p) \<and> rf_revoked_at r = None) (au_refresh s') = Some (child_row ?i a p)"
    by (simp add: s'(1) find_snoc child_row_def)
  have "by_token (ro_token_hash a) ?rows = Some ?p" using p(1) by (simp add: by_token_used)
  then have tok: "by_token (ro_token_hash a) (au_refresh s') = Some ?p"
    by (simp add: s'(1) by_token_def find_snoc)
  have "rotate_refresh_session a s' = reused_token a ?p (ro_now a) user s'"
    using tok time user p(3) s'(2) by (simp add: rotate_refresh_session_def)
  then show ?thesis using child s'(3) by (simp add: reused_token_def Let_def child_row_def quiet_again)
qed

lemma revoke_again:
  assumes "revoke_family_rows now (rf_family_id p) none reply s = Inr (r, s')" and "0 \<le> cm_commit_seq (au_meta s)"
    and "by_token h (au_refresh s) = Some p" and "rf_revoked_at p = None"
  shows "\<exists>q. by_token h (au_refresh s') = Some q \<and> rf_revoked_at q \<noteq> None \<and> 0 \<le> cm_commit_seq (au_meta s')"
proof -
  have mem: "p \<in> set (au_refresh s)" using by_token_mem[OF assms(3)] by simp
  then have "filter (live_member (rf_family_id p)) (au_refresh s) \<noteq> []"
    using assms(4) by (auto simp: filter_empty_conv live_member_def)
  then have "s' = s\<lparr>au_refresh := revoke_rows now (rf_family_id p) (au_refresh s), au_meta := snd (advance_seq now (au_meta s))\<rparr>"
    using assms(1) by (simp add: revoke_family_rows_def Let_def)
  then show ?thesis using assms(2,3,4) by (simp add: by_token_revoked live_member_def)
qed

lemma rotate_again:
  assumes ok: "auth_ok s" and run: "rotate_refresh_session a s = Inr (r, s')"
  shows "\<exists>r'. rotate_refresh_session a s' = Inr (r', s')"
proof (cases "s' = s")
  case True
  then show ?thesis using run by blast
next
  case False
  then obtain p where p: "by_token (ro_token_hash a) (au_refresh s) = Some p" "rf_revoked_at p = None"
      "\<not> ro_now a > rf_absolute_expires_at p" "\<not> ro_now a > rf_idle_expires_at p"
    using run by (auto simp: rotate_refresh_session_def split: option.splits if_splits)
  have revoked: ?thesis if "revoke_family_rows (ro_now a) (rf_family_id p) none reply s = Inr (r, s')" for none reply
    using revoke_again[OF that _ p(1,2)] ok revoked_is_invalid by (fastforce simp: auth_ok_def)
  have reused: ?thesis if "reused_token a p t u s = Inr (r, s')" for t u
    using that False revoked by (auto simp: reused_token_def Let_def split: option.splits if_splits)
  note fresh = rotated_again[OF ok p(1) _ p(2,3,4)]
  show ?thesis
    using run p False revoked reused fresh
    by (cases "find (\<lambda>u. us_id u = rf_user_id p) (au_users s)"; cases "rf_used_at p")
      (simp_all add: rotate_refresh_session_def split: if_splits)
qed

lemma create_again:
  assumes ok: "auth_ok s" and run: "create_refresh_session a now s = Inr (r, s')"
  shows "\<exists>r'. create_refresh_session a now s' = Inr (r', s')"
proof (cases "s' = s")
  case True
  then show ?thesis using run by blast
next
  case False
  let ?row = "refresh_row_of (next_refresh_id (au_refresh s)) a"
  have "by_token (fa_token_hash a) (au_refresh s) = None" "au_refresh s' = au_refresh s @ [?row]" "0 \<le> cm_commit_seq (au_meta s')"
    using False run ok by (auto simp: create_refresh_session_def Let_def auth_ok_def split: option.splits if_splits)
  then have "by_token (fa_token_hash a) (au_refresh s') = Some ?row"
    by (simp add: by_token_def find_snoc refresh_row_of_def)
  then show ?thesis using \<open>0 \<le> cm_commit_seq (au_meta s')\<close> by (simp add: create_refresh_session_def quiet_again)
qed

lemma revoke_family_again:
  assumes ok: "auth_ok s" and run: "revoke_refresh_family h now s = Inr (r, s')"
  shows "\<exists>r'. revoke_refresh_family h now s' = Inr (r', s')"
proof (cases "s' = s")
  case True
  then show ?thesis using run by blast
next
  case False
  then obtain p where p: "by_token h (au_refresh s) = Some p" "0 \<le> cm_commit_seq (au_meta s')"
      "au_refresh s' = revoke_rows now (rf_family_id p) (au_refresh s)"
    using run ok by (auto simp: revoke_refresh_family_def revoke_family_rows_def Let_def auth_ok_def split: option.splits if_splits)
  have "filter (live_member (rf_family_id p)) (au_refresh s') = []"
    unfolding p(3) filter_empty_conv by (auto simp: live_member_def elim!: revoke_mem split: if_splits)
  then show ?thesis
    using p by (auto simp: revoke_refresh_family_def revoke_family_rows_def by_token_revoked quiet_again)
qed

interpretation auth_retry: retryable "\<lambda>q (_ :: unit). run_auth q" auth_ok
proof
  fix s q r s' and t t' :: unit
  assume "auth_ok s" "run_auth q s = Inr (r, s')"
  then show "\<exists>r'. run_auth q s' = Inr (r', s')"
    by (cases q) (simp_all add: rotate_again create_again revoke_family_again)
qed

text \<open>
  An unknown outcome can be retried: a login, a rotation or a revocation that ran leaves a table on
  which the same request runs again, any number of times, without changing anything, so a lost answer
  neither burns the session nor forks the family.
\<close>

theorem auth_requests_retry_safely:
  assumes "auth_reachable s" and "0 \<le> cm_commit_seq (au_meta s)" and "run_auth q s = Inr (reply, s')"
  shows "foldR (\<lambda>_ s. bindR (run_auth q s) (\<lambda>(_, s'). Inr s')) (replicate (Suc n) ()) s = Inr s'"
  using auth_retry.attempts_once[where ts = "replicate n ()", OF _ assms(3)] auth_reachable_ok[OF assms(1)] assms(2)
  by (simp add: auth_ok_def auth_retry.attempts_def)

subsection \<open>A login, its rotation and a theft\<close>

definition demo_user :: user_rec where "demo_user = \<lparr>us_id = 1, us_is_active = True, us_profile = []\<rparr>"

definition demo_login :: refresh_args where
  "demo_login = \<lparr>fa_user_id = 1, fa_token_hash = ''h0'', fa_family_id = ''f'', fa_parent_id = None, fa_created_at = UTC 0,
     fa_absolute_expires_at = UTC 900000000, fa_idle_expires_at = UTC 900000000\<rparr>"

definition demo_rotation :: "string \<Rightarrow> int \<Rightarrow> rotate_args" where
  "demo_rotation next now = \<lparr>ro_token_hash = ''h0'', ro_next_token_hash = next, ro_now = UTC now,
     ro_idle_expires_at = UTC 900000000, ro_reuse_grace_seconds = 30\<rparr>"

definition no_login :: auth_store where
  "no_login = \<lparr>au_refresh = [], au_users = [demo_user], au_meta = \<lparr>cm_commit_seq = 0, cm_updated_at = []\<rparr>\<rparr>"

definition logged_in :: auth_store where
  "logged_in = \<lparr>au_refresh =
     [\<lparr>rf_id = 1, rf_token_hash = ''h0'', rf_user_id = 1, rf_family_id = ''f'', rf_parent_id = None, rf_created_at = UTC 0,
       rf_absolute_expires_at = UTC 900000000, rf_idle_expires_at = UTC 900000000, rf_used_at = None, rf_revoked_at = None\<rparr>],
     au_users = [demo_user], au_meta = \<lparr>cm_commit_seq = 1, cm_updated_at = ''1970-01-01T00:00:00+00:00''\<rparr>\<rparr>"

definition rotated_once :: auth_store where
  "rotated_once = \<lparr>au_refresh =
     [\<lparr>rf_id = 1, rf_token_hash = ''h0'', rf_user_id = 1, rf_family_id = ''f'', rf_parent_id = None, rf_created_at = UTC 0,
       rf_absolute_expires_at = UTC 900000000, rf_idle_expires_at = UTC 900000000, rf_used_at = Some (UTC 1000000),
       rf_revoked_at = None\<rparr>,
      \<lparr>rf_id = 2, rf_token_hash = ''h1'', rf_user_id = 1, rf_family_id = ''f'', rf_parent_id = Some 1,
       rf_created_at = UTC 1000000, rf_absolute_expires_at = UTC 900000000, rf_idle_expires_at = UTC 900000000,
       rf_used_at = None, rf_revoked_at = None\<rparr>],
     au_users = [demo_user], au_meta = \<lparr>cm_commit_seq = 2, cm_updated_at = ''1970-01-01T00:00:01+00:00''\<rparr>\<rparr>"

definition auth_reply_of :: "auth_result \<Rightarrow> auth_reply option" where
  "auth_reply_of res = (case res of Inr (reply, _) \<Rightarrow> Some reply | Inl _ \<Rightarrow> None)"

lemma auth_reply_ofD: "auth_reply_of res = Some reply \<Longrightarrow> \<exists>s'. res = Inr (reply, s')"
  by (auto simp: auth_reply_of_def split: sum.splits prod.splits)

lemma demo_runs:
  "run_auth (Create_refresh demo_login (UTC 0)) no_login = Inr (Refresh_created 1 ''f'', logged_in)"
  "run_auth (Rotate_refresh (demo_rotation ''h1'' 1000000)) logged_in = Inr (Rotated 2 1 ''f'' demo_user, rotated_once)"
  by code_simp+

lemma logged_in_reachable: "auth_reachable logged_in"
  by (rule auth_reachable.step[OF auth_reachable.start auth_step.request[OF demo_runs(1)]])
    (simp_all add: no_login_def request_ok_def demo_login_def)

lemma rotated_reachable: "auth_reachable rotated_once"
  by (rule auth_reachable.step[OF logged_in_reachable auth_step.request[OF demo_runs(2)]]) (simp add: request_ok_def)

theorem one_usable_refresh_token_witness:
  "auth_reachable rotated_once \<and> distinct (map rf_token_hash (au_refresh rotated_once)) \<and>
   map usable (au_refresh rotated_once) = [False, True]"
proof -
  have "map usable (au_refresh rotated_once) = [False, True]" by code_simp
  then show ?thesis using one_usable_refresh_token[OF rotated_reachable] rotated_reachable by blast
qed

theorem stolen_token_kills_family_witness:
  "\<exists>n s'. rotate_refresh_session (demo_rotation ''hx'' 60000000) rotated_once = Inr (Rotate_family_revoked n, s') \<and> 0 < n"
proof -
  let ?p = "hd (au_refresh rotated_once)" and ?a = "demo_rotation ''hx'' 60000000"
  have p: "by_token (ro_token_hash ?a) (au_refresh rotated_once) = Some ?p" "rf_revoked_at ?p = None"
    "rf_used_at ?p = Some (UTC 1000000)"
    "utc_us (ro_now ?a) - utc_us (UTC 1000000) > ro_reuse_grace_seconds ?a * 1000000"
    "\<forall>c \<in> set (au_refresh rotated_once). rf_parent_id c = Some (rf_id ?p) \<longrightarrow> rf_token_hash c \<noteq> ro_next_token_hash ?a"
    "0 \<le> cm_commit_seq (au_meta rotated_once)"
    by (simp_all add: rotated_once_def demo_rotation_def by_token_def)
  have live: "ro_now ?a \<le> rf_absolute_expires_at ?p \<and> ro_now ?a \<le> rf_idle_expires_at ?p"
    by (simp add: rotated_once_def demo_rotation_def)
  from stolen_token_kills_family[OF rotated_reachable p, unfolded if_P[OF live]] show ?thesis by blast
qed

theorem rotation_respects_login_witness:
  "us_is_active demo_user \<and> (\<exists>child. by_token ''h1'' (au_refresh rotated_once) = Some child \<and> usable child)"
proof -
  have next_token: "ro_next_token_hash (demo_rotation ''h1'' 1000000) = ''h1''" by (simp add: demo_rotation_def)
  show ?thesis
    using rotation_respects_login[OF logged_in_reachable demo_runs(2)[unfolded run_auth.simps]] unfolding next_token by blast
qed

theorem auth_requests_retry_safely_witness:
  "foldR (\<lambda>_ s. bindR (run_auth (Rotate_refresh (demo_rotation ''h1'' 1000000)) s) (\<lambda>(_, s'). Inr s'))
     (replicate (Suc 5) ()) logged_in = Inr rotated_once"
proof -
  have "0 \<le> cm_commit_seq (au_meta logged_in)" by (simp add: logged_in_def)
  from auth_requests_retry_safely[OF logged_in_reachable this demo_runs(2)] show ?thesis .
qed

end
