(* ===== verification/Projector_Claims.thy ===== *)
theory Projector_Claims
  imports Catalog_Meta
begin

text \<open>
  The work ledger of the storage projectors (\<open>catalogd/store.py\<close>, table \<open>ProjectorState\<close> of
  \<open>catalogd/models.py\<close>): one row per projector and session with the revision that is wanted and the one
  that is done. Workers claim lagging rows under a lease, and complete or fail them by claim token.

  Timestamps are columns of UTC values. \<open>commit_time\<close> is the \<open>datetime.now(UTC)\<close> of the transaction. The
  commit number that every reply carries (the counter after the transaction, or the one of the row that
  answers a replay) is read off the store and is not repeated in the reply values.
\<close>

record projector_row =
  pj_projector :: string
  pj_session_id :: string
  pj_desired_revision :: int
  pj_desired_at :: "instant option"
  pj_completed_revision :: int
  pj_claimed_revision :: "int option"
  pj_claim_token :: "string option"
  pj_worker_id :: "string option"
  pj_claim_expires_at :: "instant option"
  pj_status :: string
  pj_failure_count :: int
  pj_last_error_code :: "string option"
  pj_last_error_message :: "string option"
  pj_retry_at :: "instant option"
  pj_last_completion_token :: "string option"
  pj_last_failure_token :: "string option"
  pj_commit_seq :: int
  pj_created_at :: instant
  pj_updated_at :: instant

text \<open>The derived store a projector writes to; a replaced store has another identity.\<close>

record store_binding =
  sb_projector :: string
  sb_store_id :: string
  sb_schema_generation :: string
  sb_commit_seq :: int
  sb_created_at :: instant
  sb_updated_at :: instant

record projector_store =
  ps_states :: "projector_row list"
  ps_bindings :: "store_binding list"
  ps_tombstones :: "(string \<times> int) list"
  ps_meta :: catalog_meta

text \<open>\<open>EMBEDDING_PROJECTOR_ID\<close> carries the revision of the embedding model and is an argument.\<close>

definition SEMANTIC_PROJECTOR_ID :: string where "SEMANTIC_PROJECTOR_ID = ''semantic-v2''"

definition KNOWN_PROJECTORS :: "string \<Rightarrow> string list" where
  "KNOWN_PROJECTORS embedding_id = [SEMANTIC_PROJECTOR_ID, ''search-v2'', embedding_id]"

definition ACTIVE_PROJECTORS :: "string \<Rightarrow> string list" where
  "ACTIVE_PROJECTORS embedding_id = [''render-v2'', SEMANTIC_PROJECTOR_ID, ''search-v2'', embedding_id]"

definition PERMANENT_FAILURE_RETRY_INTERVAL_ms :: int where "PERMANENT_FAILURE_RETRY_INTERVAL_ms = 3600000"

definition storage_projectors_for_provider :: "string \<Rightarrow> string option \<Rightarrow> string list" where
  "storage_projectors_for_provider embedding_id provider =
     (let downstream = [''search-v2'', embedding_id] in
      if py_lower (py_strip (case provider of None \<Rightarrow> [] | Some p \<Rightarrow> p)) = ''claude''
      then SEMANTIC_PROJECTOR_ID # downstream else downstream)"

datatype projector_reply =
    Session_deleted int
  | Advanced bool projector_row
  | Claimed "projector_row list" bool
  | Claim_conflict
  | Released nat
  | Finished bool projector_row
  | Reaped "string list" nat
  | Requeued bool "string list" "string list"
  | Store_bound bool nat

type_synonym projector_result = "(projector_reply \<times> projector_store) res"

definition seen :: "projector_reply \<Rightarrow> projector_store \<Rightarrow> projector_result" where
  "seen reply s = bindR (current_seq (ps_meta s)) (\<lambda>_. Inr (reply, s))"

text \<open>A write stamps its rows with the next commit.\<close>

definition next_seq :: "projector_store \<Rightarrow> int" where
  "next_seq s = cm_commit_seq (ps_meta s) + 1"

definition written :: "instant \<Rightarrow> projector_reply \<Rightarrow> projector_row list \<Rightarrow> projector_store \<Rightarrow> projector_result" where
  "written now reply rows s = Inr (reply, s\<lparr>ps_states := rows, ps_meta := snd (advance_seq now (ps_meta s))\<rparr>)"

definition row_at :: "string \<Rightarrow> string \<Rightarrow> projector_row \<Rightarrow> bool" where
  "row_at projector sid r \<longleftrightarrow> pj_projector r = projector \<and> pj_session_id r = sid"

definition state_row :: "string \<Rightarrow> string \<Rightarrow> projector_row list \<Rightarrow> projector_row option" where
  "state_row projector sid rows = find (row_at projector sid) rows"

subsection \<open>Wanting a revision\<close>

definition new_state :: "string \<Rightarrow> string \<Rightarrow> int \<Rightarrow> instant \<Rightarrow> int \<Rightarrow> projector_row" where
  "new_state projector sid desired now n = \<lparr>pj_projector = projector, pj_session_id = sid, pj_desired_revision = desired,
     pj_desired_at = Some now, pj_completed_revision = 0, pj_claimed_revision = None, pj_claim_token = None,
     pj_worker_id = None, pj_claim_expires_at = None, pj_status = ''idle'', pj_failure_count = 0,
     pj_last_error_code = None, pj_last_error_message = None, pj_retry_at = None, pj_last_completion_token = None,
     pj_last_failure_token = None, pj_commit_seq = n, pj_created_at = now, pj_updated_at = now\<rparr>"

text \<open>New input invalidates the verdict of an earlier failure.\<close>

definition reset_failure :: "projector_row \<Rightarrow> projector_row" where
  "reset_failure r = (if pj_status r \<in> {''failed'', ''quarantined''}
     then r\<lparr>pj_status := ''idle'', pj_failure_count := 0, pj_last_error_code := None, pj_last_error_message := None,
            pj_retry_at := None\<rparr> else r)"

definition want_revision :: "int \<Rightarrow> instant \<Rightarrow> int \<Rightarrow> projector_row \<Rightarrow> projector_row" where
  "want_revision desired now n r = (reset_failure r)\<lparr>pj_desired_revision := desired, pj_desired_at := Some now,
     pj_commit_seq := n, pj_updated_at := now\<rparr>"

definition advance_projector_state ::
  "string \<Rightarrow> string \<Rightarrow> int \<Rightarrow> instant \<Rightarrow> projector_store \<Rightarrow> projector_result" where
  "advance_projector_state projector sid desired commit_time s =
     (case map_of (ps_tombstones s) sid of
        Some deletion \<Rightarrow> seen (Session_deleted deletion) s
      | None \<Rightarrow>
        (case state_row projector sid (ps_states s) of
           None \<Rightarrow> (let r = new_state projector sid desired commit_time (next_seq s)
                    in written commit_time (Advanced True r) (ps_states s @ [r]) s)
         | Some r \<Rightarrow>
             (if pj_desired_revision r \<ge> desired then Inr (Advanced False r, s)
              else let r' = want_revision desired commit_time (next_seq s) r
                   in written commit_time (Advanced True r')
                        (update_where (row_at projector sid) (want_revision desired commit_time (next_seq s)) (ps_states s)) s)))"

subsection \<open>Claiming\<close>

record claim_args =
  ca_projector :: string
  ca_worker_id :: string
  ca_claim_token :: string
  ca_now :: instant
  ca_lease_seconds :: int
  ca_limit :: nat

definition passed :: "instant \<Rightarrow> instant option \<Rightarrow> bool" where
  "passed now t = (case t of None \<Rightarrow> True | Some x \<Rightarrow> x \<le> now)"

definition eligible :: "claim_args \<Rightarrow> projector_store \<Rightarrow> projector_row \<Rightarrow> bool" where
  "eligible a s r \<longleftrightarrow> pj_projector r = ca_projector a \<and> pj_desired_revision r > pj_completed_revision r \<and>
     passed (ca_now a) (pj_claim_expires_at r) \<and> passed (ca_now a) (pj_retry_at r) \<and>
     (ca_projector a = ''search-v2'' \<or> map_of (ps_tombstones s) (pj_session_id r) = None)"

text \<open>
  The revision search has published for the session, beyond what the row has done: the embedding projector
  can only work up to it. The join is on the primary key.
\<close>

definition search_published :: "projector_row \<Rightarrow> projector_row list \<Rightarrow> int option" where
  "search_published r rows = (case state_row ''search-v2'' (pj_session_id r) rows of
       None \<Rightarrow> None
     | Some q \<Rightarrow> (if pj_completed_revision q > pj_completed_revision r then Some (pj_completed_revision q) else None))"

definition workable :: "string \<Rightarrow> claim_args \<Rightarrow> projector_store \<Rightarrow> projector_row \<Rightarrow> bool" where
  "workable embedding_id a s r \<longleftrightarrow>
     eligible a s r \<and> (ca_projector a = embedding_id \<longrightarrow> search_published r (ps_states s) \<noteq> None)"

definition claimable :: "string \<Rightarrow> claim_args \<Rightarrow> projector_store \<Rightarrow> projector_row list" where
  "claimable embedding_id a s = take (ca_limit a)
     (sort_key (\<lambda>r. (utc_us (pj_updated_at r), pj_session_id r)) (filter (workable embedding_id a s) (ps_states s)))"

definition claim_revision :: "string \<Rightarrow> claim_args \<Rightarrow> projector_store \<Rightarrow> projector_row \<Rightarrow> int" where
  "claim_revision embedding_id a s r =
     (case (if ca_projector a = embedding_id then search_published r (ps_states s) else None) of
        None \<Rightarrow> pj_desired_revision r
      | Some c \<Rightarrow> (if c = 0 then pj_desired_revision r else min c (pj_desired_revision r)))"

text \<open>Taking over a lease that ran out counts as a failure of its holder.\<close>

definition note_abandoned :: "projector_row \<Rightarrow> projector_row" where
  "note_abandoned r = (if pj_status r = ''claimed''
     then r\<lparr>pj_failure_count := pj_failure_count r + 1, pj_last_error_code := Some ''claim_lease_expired'',
            pj_last_error_message := Some (''a pass held by '' @
              (case pj_worker_id r of None \<Rightarrow> ''None'' | Some w \<Rightarrow> w) @ '' did not finish inside its lease'')\<rparr>
     else r)"

definition claim_row ::
  "string \<Rightarrow> claim_args \<Rightarrow> instant \<Rightarrow> instant \<Rightarrow> projector_store \<Rightarrow> projector_row \<Rightarrow> projector_row" where
  "claim_row embedding_id a expires_at now s r = (note_abandoned r)\<lparr>
     pj_claimed_revision := Some (claim_revision embedding_id a s r), pj_claim_token := Some (ca_claim_token a),
     pj_worker_id := Some (ca_worker_id a), pj_claim_expires_at := Some expires_at, pj_status := ''claimed'',
     pj_retry_at := None, pj_commit_seq := next_seq s, pj_updated_at := now\<rparr>"

definition held_by_token :: "claim_args \<Rightarrow> projector_row \<Rightarrow> bool" where
  "held_by_token a r \<longleftrightarrow> pj_projector r = ca_projector a \<and> pj_claim_token r = Some (ca_claim_token a)"

definition spent_token :: "claim_args \<Rightarrow> projector_row \<Rightarrow> bool" where
  "spent_token a r \<longleftrightarrow> pj_projector r = ca_projector a \<and>
     (pj_last_completion_token r = Some (ca_claim_token a) \<or> pj_last_failure_token r = Some (ca_claim_token a))"

definition claim_projector_lag :: "string \<Rightarrow> claim_args \<Rightarrow> instant \<Rightarrow> projector_store \<Rightarrow> projector_result" where
  "claim_projector_lag embedding_id a commit_time s =
     (let replay = sort_key pj_session_id (filter (held_by_token a) (ps_states s));
          rows = claimable embedding_id a s in
      if replay \<noteq> [] then
        (if list_ex (\<lambda>r. pj_worker_id r \<noteq> Some (ca_worker_id a)) replay then seen Claim_conflict s
         else Inr (Claimed replay True, s))
      else if list_ex (spent_token a) (ps_states s) then Inr (Claimed [] True, s)
      else if rows = [] then seen (Claimed [] False) s
      else bindR (add_ms (ca_now a) (ca_lease_seconds a * 1000)) (\<lambda>expires_at.
        let claim = claim_row embedding_id a expires_at commit_time s;
            ids = map pj_session_id rows in
        written commit_time (Claimed (map claim rows) False)
          (update_where (\<lambda>r. pj_projector r = ca_projector a \<and> pj_session_id r \<in> set ids) claim (ps_states s)) s))"

definition drop_claim :: "projector_row \<Rightarrow> projector_row" where
  "drop_claim r = r\<lparr>pj_claimed_revision := None, pj_claim_token := None, pj_worker_id := None, pj_claim_expires_at := None\<rparr>"

definition stale_claim :: "string \<Rightarrow> string list \<Rightarrow> projector_row \<Rightarrow> bool" where
  "stale_claim embedding_id workers r \<longleftrightarrow> pj_status r = ''claimed'' \<and> pj_projector r \<in> set (KNOWN_PROJECTORS embedding_id) \<and>
     (workers = [] \<or> (case pj_worker_id r of None \<Rightarrow> True | Some w \<Rightarrow> w \<notin> set workers))"

definition release_row :: "instant \<Rightarrow> int \<Rightarrow> projector_row \<Rightarrow> projector_row" where
  "release_row now n r = (drop_claim r)\<lparr>pj_status := ''idle'',
     pj_last_error_code := Some ''claim_released_worker_gone'',
     pj_last_error_message := Some ''the claiming worker did not survive this daemon generation'',
     pj_commit_seq := n, pj_updated_at := now\<rparr>"

definition release_projector_claims_on_startup ::
  "string \<Rightarrow> string list \<Rightarrow> instant \<Rightarrow> projector_store \<Rightarrow> projector_result" where
  "release_projector_claims_on_startup embedding_id workers observed_at s =
     (let count = length (filter (stale_claim embedding_id workers) (ps_states s)) in
      if count = 0 then seen (Released 0) s
      else written observed_at (Released count)
             (update_where (stale_claim embedding_id workers) (release_row observed_at (next_seq s)) (ps_states s)) s)"

subsection \<open>Finishing\<close>

definition complete_row :: "string \<Rightarrow> int \<Rightarrow> instant \<Rightarrow> int \<Rightarrow> projector_row \<Rightarrow> projector_row" where
  "complete_row token revision now n r = (drop_claim r)\<lparr>pj_completed_revision := revision, pj_status := ''idle'',
     pj_failure_count := 0, pj_last_error_code := None, pj_last_error_message := None, pj_retry_at := None,
     pj_last_completion_token := Some token, pj_commit_seq := n, pj_updated_at := now\<rparr>"

definition complete_projector_claim ::
  "string \<Rightarrow> string \<Rightarrow> string \<Rightarrow> int \<Rightarrow> instant \<Rightarrow> projector_store \<Rightarrow> projector_result" where
  "complete_projector_claim projector sid token revision commit_time s =
     (case state_row projector sid (ps_states s) of
        None \<Rightarrow> seen Claim_conflict s
      | Some r \<Rightarrow>
        (if pj_last_completion_token r = Some token \<and> pj_completed_revision r \<ge> revision then Inr (Finished False r, s)
         else if pj_claim_token r \<noteq> Some token \<or> pj_claimed_revision r \<noteq> Some revision \<or> revision > pj_desired_revision r
         then seen Claim_conflict s
         else let done = complete_row token revision commit_time (next_seq s)
              in written commit_time (Finished True (done r)) (update_where (row_at projector sid) done (ps_states s)) s))"

definition ends_with :: "string \<Rightarrow> string \<Rightarrow> bool" where
  "ends_with s suffix \<longleftrightarrow> length suffix \<le> length s \<and> drop (length s - length suffix) s = suffix"

definition fail_row ::
  "string \<Rightarrow> string \<Rightarrow> string option \<Rightarrow> instant \<Rightarrow> instant \<Rightarrow> int \<Rightarrow> projector_row \<Rightarrow> projector_row" where
  "fail_row token code message retry_at now n r = (drop_claim r)\<lparr>pj_status := ''failed'',
     pj_failure_count := pj_failure_count r + 1, pj_last_error_code := Some code, pj_last_error_message := message,
     pj_retry_at := Some retry_at, pj_last_failure_token := Some token, pj_commit_seq := n, pj_updated_at := now\<rparr>"

text \<open>No failure is final: a permanent error waits longer, it does not leave the ledger.\<close>

definition effective_retry :: "string \<Rightarrow> instant \<Rightarrow> instant \<Rightarrow> instant res" where
  "effective_retry code retry_at commit_time =
     (if ends_with code ''_permanent'' then add_ms commit_time PERMANENT_FAILURE_RETRY_INTERVAL_ms else Inr retry_at)"

definition fail_projector_claim ::
  "string \<Rightarrow> string \<Rightarrow> string \<Rightarrow> string \<Rightarrow> string option \<Rightarrow> instant \<Rightarrow> instant \<Rightarrow> projector_store \<Rightarrow> projector_result" where
  "fail_projector_claim projector sid token code message retry_at commit_time s =
     (case state_row projector sid (ps_states s) of
        None \<Rightarrow> seen Claim_conflict s
      | Some r \<Rightarrow>
        (if pj_last_failure_token r = Some token then Inr (Finished False r, s)
         else if pj_claim_token r \<noteq> Some token \<or> pj_claimed_revision r = None then seen Claim_conflict s
         else bindR (effective_retry code retry_at commit_time) (\<lambda>t.
           let failed = fail_row token code message t commit_time (next_seq s)
           in written commit_time (Finished True (failed r)) (update_where (row_at projector sid) failed (ps_states s)) s)))"

subsection \<open>Repair\<close>

text \<open>\<open>notin_(ACTIVE_PROJECTORS)\<close> and the delete that follows in its own transaction.\<close>

definition reap_retired_projector_states :: "string \<Rightarrow> instant \<Rightarrow> projector_store \<Rightarrow> projector_result" where
  "reap_retired_projector_states embedding_id commit_time s =
     (let retired = (\<lambda>r. pj_projector r \<notin> set (ACTIVE_PROJECTORS embedding_id));
          names = sort (remdups (map pj_projector (filter retired (ps_states s)))) in
      if names = [] then seen (Reaped [] 0) s
      else written commit_time (Reaped names (length (filter retired (ps_states s))))
             (filter (\<lambda>r. pj_projector r \<notin> set names) (ps_states s)) s)"

definition untouched :: "projector_row \<Rightarrow> bool" where
  "untouched r \<longleftrightarrow> pj_completed_revision r = 0 \<and> pj_claimed_revision r = None \<and> pj_status r = ''idle'' \<and>
     pj_failure_count r = 0 \<and> pj_last_error_code r = None \<and> pj_last_error_message r = None \<and> pj_retry_at r = None"

definition requeue_row :: "instant \<Rightarrow> int \<Rightarrow> projector_row \<Rightarrow> projector_row" where
  "requeue_row now n r = (drop_claim r)\<lparr>pj_completed_revision := 0, pj_status := ''idle'', pj_failure_count := 0,
     pj_last_error_code := None, pj_last_error_message := None, pj_retry_at := None, pj_last_completion_token := None,
     pj_last_failure_token := None, pj_commit_seq := n, pj_updated_at := now\<rparr>"

definition requeue_projector_states ::
  "string \<Rightarrow> string list \<Rightarrow> instant \<Rightarrow> projector_store \<Rightarrow> projector_result" where
  "requeue_projector_states projector session_ids observed_at s =
     (let keys = sort session_ids;
          missing = filter (\<lambda>k. state_row projector k (ps_states s) = None) keys;
          changed = filter (\<lambda>k. case state_row projector k (ps_states s) of None \<Rightarrow> False | Some r \<Rightarrow> \<not> untouched r) keys in
      if missing \<noteq> [] then seen (Requeued False [] missing) s
      else if changed = [] then seen (Requeued False [] []) s
      else written observed_at (Requeued True changed [])
             (update_where (\<lambda>r. pj_projector r = projector \<and> pj_session_id r \<in> set changed)
               (requeue_row observed_at (next_seq s)) (ps_states s)) s)"

definition binding_of :: "string \<Rightarrow> projector_store \<Rightarrow> store_binding option" where
  "binding_of projector s = find (\<lambda>b. sb_projector b = projector) (ps_bindings s)"

definition same_store :: "string \<Rightarrow> string \<Rightarrow> store_binding \<Rightarrow> bool" where
  "same_store store_id generation b \<longleftrightarrow> sb_store_id b = store_id \<and> sb_schema_generation b = generation"

definition bind_store :: "string \<Rightarrow> string \<Rightarrow> string \<Rightarrow> instant \<Rightarrow> int \<Rightarrow> store_binding list \<Rightarrow> store_binding list" where
  "bind_store projector store_id generation now n bs =
     (if find (\<lambda>b. sb_projector b = projector) bs = None
      then bs @ [\<lparr>sb_projector = projector, sb_store_id = store_id, sb_schema_generation = generation, sb_commit_seq = n,
                  sb_created_at = now, sb_updated_at = now\<rparr>]
      else update_where (\<lambda>b. sb_projector b = projector)
             (\<lambda>b. b\<lparr>sb_store_id := store_id, sb_schema_generation := generation, sb_commit_seq := n, sb_updated_at := now\<rparr>) bs)"

text \<open>A replaced store has lost what was projected into it: everything of the projector is wanted again.\<close>

definition bind_projector_store ::
  "string \<Rightarrow> string \<Rightarrow> string \<Rightarrow> instant \<Rightarrow> projector_store \<Rightarrow> projector_result" where
  "bind_projector_store projector store_id generation observed_at s =
     (let bound = (case binding_of projector s of None \<Rightarrow> False | Some b \<Rightarrow> same_store store_id generation b);
          mine = (\<lambda>r. pj_projector r = projector) in
      if bound then seen (Store_bound False 0) s
      else written observed_at (Store_bound True (length (filter mine (ps_states s))))
             (update_where mine (requeue_row observed_at (next_seq s)) (ps_states s))
             (s\<lparr>ps_bindings := bind_store projector store_id generation observed_at (next_seq s) (ps_bindings s)\<rparr>))"

subsection \<open>Reading the lag\<close>

definition lagging :: "string \<Rightarrow> projector_store \<Rightarrow> projector_row \<Rightarrow> bool" where
  "lagging projector s r \<longleftrightarrow> pj_projector r = projector \<and> pj_desired_revision r > pj_completed_revision r \<and>
     (projector = ''search-v2'' \<or> map_of (ps_tombstones s) (pj_session_id r) = None)"

record lag_page =
  lg_states :: "projector_row list"
  lg_count :: nat
  lg_indexed_through :: int
  lg_commit_seq :: int

definition indexed_through :: "string \<Rightarrow> projector_store \<Rightarrow> int" where
  "indexed_through projector s =
     (case map pj_desired_revision (filter (lagging projector s) (ps_states s)) of
        [] \<Rightarrow> cm_commit_seq (ps_meta s)
      | x # xs \<Rightarrow> fold min xs x - 1)"

definition list_projector_lag :: "string \<Rightarrow> string option \<Rightarrow> nat \<Rightarrow> projector_store \<Rightarrow> lag_page res" where
  "list_projector_lag projector after limit s = bindR (current_seq (ps_meta s)) (\<lambda>n.
     let lag = filter (lagging projector s) (ps_states s);
         rest = (case after of None \<Rightarrow> lag | Some k \<Rightarrow> filter (\<lambda>r. k < pj_session_id r) lag)
     in Inr \<lparr>lg_states = take limit (sort_key pj_session_id rest), lg_count = length lag,
             lg_indexed_through = indexed_through projector s, lg_commit_seq = n\<rparr>)"

record coverage =
  cv_binding :: "store_binding option"
  cv_lag_count :: nat
  cv_indexed_through :: int
  cv_oldest_lag_at :: "instant option"
  cv_oldest_lag_us :: "int option"
  cv_commit_seq :: int

definition lag_since :: "projector_row \<Rightarrow> instant" where
  "lag_since r = (case pj_desired_at r of None \<Rightarrow> pj_created_at r | Some t \<Rightarrow> t)"

text \<open>The age of the oldest lag is kept in microseconds; the source divides it into seconds.\<close>

definition read_projector_coverage :: "string \<Rightarrow> instant \<Rightarrow> projector_store \<Rightarrow> coverage res" where
  "read_projector_coverage projector observed_at s = bindR (current_seq (ps_meta s)) (\<lambda>n.
     let lag = filter (lagging projector s) (ps_states s);
         oldest = (case map lag_since lag of [] \<Rightarrow> None | x # xs \<Rightarrow> Some (fold min xs x))
     in Inr \<lparr>cv_binding = binding_of projector s, cv_lag_count = length lag,
             cv_indexed_through = indexed_through projector s, cv_oldest_lag_at = oldest,
             cv_oldest_lag_us = map_option (\<lambda>t. max 0 (utc_us observed_at - utc_us t)) oldest, cv_commit_seq = n\<rparr>)"

end
