(* ===== verification/Claim_Properties.thy ===== *)
theory Claim_Properties
  imports Projector_Claims
begin

text \<open>
  The projector ledger over any sequence of requests: every request moves each row by one of six row
  steps, the row invariant follows by rule induction, and the ledger implements the abstract job of one
  projector and session.
\<close>

datatype projector_request =
    Advance_state string string int
  | Claim_lag claim_args
  | Release_claims "string list"
  | Complete_claim string string string int
  | Fail_claim string string string string "string option" instant
  | Reap_retired
  | Requeue_states string "string list"
  | Bind_store string string string

fun run_projector :: "string \<Rightarrow> projector_request \<Rightarrow> instant \<Rightarrow> projector_store \<Rightarrow> projector_result" where
  "run_projector e (Advance_state p sid n) t s = advance_projector_state p sid n t s"
| "run_projector e (Claim_lag a) t s = claim_projector_lag e a t s"
| "run_projector e (Release_claims ws) t s = release_projector_claims_on_startup e ws t s"
| "run_projector e (Complete_claim p sid tok n) t s = complete_projector_claim p sid tok n t s"
| "run_projector e (Fail_claim p sid tok code msg r) t s = fail_projector_claim p sid tok code msg r t s"
| "run_projector e Reap_retired t s = reap_retired_projector_states e t s"
| "run_projector e (Requeue_states p ids) t s = requeue_projector_states p ids t s"
| "run_projector e (Bind_store p st gen) t s = bind_projector_store p st gen t s"

subsection \<open>Row steps\<close>

definition pj_key :: "projector_row \<Rightarrow> string \<times> string" where
  "pj_key r = (pj_projector r, pj_session_id r)"

lemmas row_ops = want_revision_def reset_failure_def claim_row_def note_abandoned_def release_row_def complete_row_def
  fail_row_def requeue_row_def drop_claim_def

text \<open>What a request can do to one row.\<close>

inductive row_step :: "string \<Rightarrow> projector_request \<Rightarrow> projector_store \<Rightarrow> projector_row \<Rightarrow> projector_row \<Rightarrow> bool"
  for e q s r where
  want: "q = Advance_state (pj_projector r) (pj_session_id r) n \<Longrightarrow> pj_desired_revision r < n \<Longrightarrow>
    row_step e q s r (want_revision n t k r)"
| claim: "q = Claim_lag a \<Longrightarrow> workable e a s r \<Longrightarrow> row_step e q s r (claim_row e a expires t s r)"
| release: "q = Release_claims ws \<Longrightarrow> pj_status r = ''claimed'' \<Longrightarrow> row_step e q s r (release_row t k r)"
| complete: "q = Complete_claim (pj_projector r) (pj_session_id r) tok n \<Longrightarrow> pj_claim_token r = Some tok \<Longrightarrow>
    pj_claimed_revision r = Some n \<Longrightarrow> n \<le> pj_desired_revision r \<Longrightarrow> row_step e q s r (complete_row tok n t k r)"
| fail: "q = Fail_claim (pj_projector r) (pj_session_id r) tok code msg at \<Longrightarrow> pj_claim_token r = Some tok \<Longrightarrow>
    pj_claimed_revision r \<noteq> None \<Longrightarrow> row_step e q s r (fail_row tok code msg retry t k r)"
| requeue: "q = Requeue_states (pj_projector r) ids \<or> q = Bind_store (pj_projector r) st gen \<Longrightarrow> row_step e q s r (requeue_row t k r)"

text \<open>What it can do to the table: append a new job, step some rows, or remove retired ones.\<close>

inductive ledger_move :: "string \<Rightarrow> projector_request \<Rightarrow> projector_store \<Rightarrow> projector_row list \<Rightarrow> bool" for e q s where
  add: "q = Advance_state p sid n \<Longrightarrow> state_row p sid (ps_states s) = None \<Longrightarrow>
    ledger_move e q s (ps_states s @ [new_state p sid n t k])"
| update: "(\<And>r. r \<in> set (ps_states s) \<Longrightarrow> P r \<Longrightarrow> row_step e q s r (f r)) \<Longrightarrow>
    ledger_move e q s (update_where P f (ps_states s))"
| remove: "q = Reap_retired \<Longrightarrow> ledger_move e q s (filter P (ps_states s))"

definition ledger_change :: "string \<Rightarrow> projector_request \<Rightarrow> projector_store \<Rightarrow> projector_store \<Rightarrow> bool" where
  "ledger_change e q s s' \<longleftrightarrow> s' = s \<or> (cm_commit_seq (ps_meta s') = cm_commit_seq (ps_meta s) + 1 \<and>
     ps_tombstones s' = ps_tombstones s \<and> ledger_move e q s (ps_states s'))"

lemma row_step_key: "row_step e q s r r' \<Longrightarrow> pj_key r' = pj_key r"
  by (induction rule: row_step.induct) (simp_all add: row_ops pj_key_def)

lemma seen_Inr [simp]: "seen reply s = Inr (r, s') \<longleftrightarrow> 0 \<le> cm_commit_seq (ps_meta s) \<and> r = reply \<and> s' = s"
  by (auto simp: seen_def)

lemma written_Inr [simp]: "written now reply rows s = Inr (r, s') \<longleftrightarrow>
    r = reply \<and> s' = s\<lparr>ps_states := rows, ps_meta := snd (advance_seq now (ps_meta s))\<rparr>"
  by (auto simp: written_def)

lemma state_row_mem: "state_row p sid rows = Some r \<Longrightarrow> r \<in> set rows \<and> pj_key r = (p, sid)"
  unfolding state_row_def by (drule find_mem) (simp add: row_at_def pj_key_def)

lemma key_unique: "distinct (map pj_key rows) \<Longrightarrow> r \<in> set rows \<Longrightarrow> x \<in> set rows \<Longrightarrow> pj_key x = pj_key r \<Longrightarrow> x = r"
  by (auto simp: distinct_map dest: inj_onD)

lemma row_at_unique:
  "distinct (map pj_key rows) \<Longrightarrow> state_row p sid rows = Some r \<Longrightarrow> x \<in> set rows \<Longrightarrow> row_at p sid x \<Longrightarrow> x = r"
  using state_row_mem[of p sid rows r] key_unique[of rows r x] by (simp add: row_at_def pj_key_def)

lemma state_row_of: "distinct (map pj_key rows) \<Longrightarrow> r \<in> set rows \<Longrightarrow> state_row (pj_projector r) (pj_session_id r) rows = Some r"
  unfolding state_row_def by (induction rows) (auto simp: row_at_def pj_key_def)

lemma state_row_None: "state_row p sid rows = None \<longleftrightarrow> (p, sid) \<notin> set (map pj_key rows)"
  by (auto simp: state_row_def find_None_iff row_at_def pj_key_def)

lemma state_row_update:
  assumes "\<And>r. r \<in> set rows \<Longrightarrow> P r \<Longrightarrow> pj_key (f r) = pj_key r"
  shows "state_row p sid (update_where P f rows) = map_option (\<lambda>r. if P r then f r else r) (state_row p sid rows)"
  using assms by (induction rows) (auto simp: state_row_def update_where_def row_at_def pj_key_def)

lemma claimable_workable: "r \<in> set (claimable e a s) \<Longrightarrow> r \<in> set (ps_states s) \<and> workable e a s r"
  unfolding claimable_def by (drule in_set_takeD) simp

subsection \<open>Every request moves the ledger by row steps\<close>

lemma advance_change:
  assumes "distinct (map pj_key (ps_states s))" and "advance_projector_state p sid n t s = Inr (r, s')"
  shows "ledger_change e (Advance_state p sid n) s s'"
proof (cases "state_row p sid (ps_states s)")
  case None
  then show ?thesis using assms(2) ledger_move.add[OF refl None]
    by (auto simp: advance_projector_state_def ledger_change_def Let_def split: option.splits)
next
  case (Some x)
  have "row_step e (Advance_state p sid n) s y (want_revision n t (next_seq s) y)"
    if "y \<in> set (ps_states s)" "row_at p sid y" "pj_desired_revision x < n" for y
    using row_at_unique[OF assms(1) Some that(1,2)] that by (auto simp: row_at_def intro!: row_step.want)
  then show ?thesis using Some assms(2)
    by (auto simp: advance_projector_state_def ledger_change_def Let_def not_le split: option.splits if_splits
        intro!: ledger_move.update)
qed

lemma claim_change:
  assumes "distinct (map pj_key (ps_states s))" and "claim_projector_lag e a t s = Inr (r, s')"
  shows "ledger_change e (Claim_lag a) s s'"
proof -
  have "row_step e (Claim_lag a) s y (claim_row e a x t s y)"
    if y: "y \<in> set (ps_states s)" "pj_projector y = ca_projector a" "pj_session_id y \<in> pj_session_id ` set (claimable e a s)" for x y
  proof -
    obtain z where z: "z \<in> set (claimable e a s)" "pj_session_id z = pj_session_id y" using y(3) by auto
    have "pj_key y = pj_key z" "z \<in> set (ps_states s)"
      using claimable_workable[OF z(1)] z(2) y(2) by (simp_all add: pj_key_def workable_def eligible_def)
    then have "y = z" using key_unique[OF assms(1) _ y(1)] by blast
    then show ?thesis using claimable_workable[OF z(1)] by (auto intro: row_step.claim)
  qed
  then show ?thesis using assms(2)
    by (auto simp: claim_projector_lag_def ledger_change_def Let_def split: if_splits intro!: ledger_move.update)
qed

lemma release_change:
  assumes "release_projector_claims_on_startup e ws t s = Inr (r, s')"
  shows "ledger_change e (Release_claims ws) s s'"
  using assms by (auto simp: release_projector_claims_on_startup_def ledger_change_def Let_def stale_claim_def split: if_splits
      intro!: ledger_move.update row_step.release)

lemma complete_change:
  assumes "distinct (map pj_key (ps_states s))" and "complete_projector_claim p sid tok n t s = Inr (r, s')"
  shows "ledger_change e (Complete_claim p sid tok n) s s'"
proof (cases "state_row p sid (ps_states s)")
  case None
  then show ?thesis using assms(2) by (simp add: complete_projector_claim_def ledger_change_def)
next
  case (Some x)
  have "row_step e (Complete_claim p sid tok n) s y (complete_row tok n t (next_seq s) y)"
    if "y \<in> set (ps_states s)" "row_at p sid y" "pj_claim_token x = Some tok" "pj_claimed_revision x = Some n"
      "n \<le> pj_desired_revision x" for y
    using row_at_unique[OF assms(1) Some that(1,2)] that by (auto simp: row_at_def intro!: row_step.complete)
  then show ?thesis using Some assms(2)
    by (auto simp: complete_projector_claim_def ledger_change_def Let_def split: if_splits intro!: ledger_move.update)
qed

lemma fail_change:
  assumes "distinct (map pj_key (ps_states s))" and "fail_projector_claim p sid tok code msg at t s = Inr (r, s')"
  shows "ledger_change e (Fail_claim p sid tok code msg at) s s'"
proof (cases "state_row p sid (ps_states s)")
  case None
  then show ?thesis using assms(2) by (simp add: fail_projector_claim_def ledger_change_def)
next
  case (Some x)
  have "row_step e (Fail_claim p sid tok code msg at) s y (fail_row tok code msg retry t (next_seq s) y)"
    if "y \<in> set (ps_states s)" "row_at p sid y" "pj_claim_token x = Some tok" "pj_claimed_revision x \<noteq> None" for y retry
    using row_at_unique[OF assms(1) Some that(1,2)] that by (auto simp: row_at_def intro!: row_step.fail)
  then show ?thesis using Some assms(2)
    by (auto simp: fail_projector_claim_def ledger_change_def Let_def split: if_splits intro!: ledger_move.update)
qed

lemma requeue_change:
  assumes "requeue_projector_states p ids t s = Inr (r, s')"
  shows "ledger_change e (Requeue_states p ids) s s'"
  using assms by (auto simp: requeue_projector_states_def ledger_change_def Let_def split: if_splits
      intro!: ledger_move.update row_step.requeue)

lemma bind_change:
  assumes "bind_projector_store p st gen t s = Inr (r, s')"
  shows "ledger_change e (Bind_store p st gen) s s'"
  using assms by (auto simp: bind_projector_store_def ledger_change_def Let_def split: if_splits
      intro!: ledger_move.update row_step.requeue)

lemma reap_change:
  assumes "reap_retired_projector_states e t s = Inr (r, s')"
  shows "ledger_change e Reap_retired s s'"
  using assms by (auto simp: reap_retired_projector_states_def ledger_change_def Let_def split: if_splits
      intro!: ledger_move.remove)

lemma run_projector_change:
  assumes "distinct (map pj_key (ps_states s))" and "run_projector e q t s = Inr (r, s')"
  shows "ledger_change e q s s'"
  using assms
  by (cases q) (simp_all add: advance_change claim_change release_change complete_change fail_change requeue_change reap_change bind_change)

interpretation projector: catalog_operation "\<lambda>(q, t). run_projector e q t" "\<lambda>s. cm_commit_seq (ps_meta s)"
  "\<lambda>s. (ps_states s, ps_bindings s, ps_tombstones s)"
proof
  fix qt s r s'
  assume run: "(case qt of (q, t) \<Rightarrow> run_projector e q t) s = Inr (r, s')"
  obtain q t where qt: "qt = (q, t)" by (cases qt)
  show "cm_commit_seq (ps_meta s') = cm_commit_seq (ps_meta s) \<and> (ps_states s', ps_bindings s', ps_tombstones s') = (ps_states s, ps_bindings s, ps_tombstones s) \<or>
    cm_commit_seq (ps_meta s') = cm_commit_seq (ps_meta s) + 1"
    using run unfolding qt
    by (cases q) (auto simp: advance_projector_state_def claim_projector_lag_def release_projector_claims_on_startup_def
        complete_projector_claim_def fail_projector_claim_def reap_retired_projector_states_def requeue_projector_states_def
        bind_projector_store_def Let_def split: option.splits if_splits)
qed

subsection \<open>The row invariant\<close>

definition claim_ok :: "projector_row \<Rightarrow> bool" where
  "claim_ok r \<longleftrightarrow> pj_status r \<in> {''idle'', ''claimed'', ''failed''} \<and>
     (pj_status r = ''claimed'' \<longleftrightarrow> pj_claim_token r \<noteq> None) \<and> (pj_claim_token r \<noteq> None \<longleftrightarrow> pj_claimed_revision r \<noteq> None) \<and>
     (pj_claim_token r \<noteq> None \<longleftrightarrow> pj_worker_id r \<noteq> None) \<and> (pj_claim_token r \<noteq> None \<longleftrightarrow> pj_claim_expires_at r \<noteq> None) \<and>
     (pj_status r = ''failed'' \<longleftrightarrow> pj_retry_at r \<noteq> None) \<and> 0 \<le> pj_failure_count r \<and>
     0 \<le> pj_completed_revision r \<and> pj_completed_revision r \<le> pj_desired_revision r \<and>
     (\<forall>c. pj_claimed_revision r = Some c \<longrightarrow> pj_completed_revision r < c \<and> c \<le> pj_desired_revision r)"

definition ledger_ok :: "projector_store \<Rightarrow> bool" where
  "ledger_ok s \<longleftrightarrow> distinct (map pj_key (ps_states s)) \<and> (\<forall>r \<in> set (ps_states s). claim_ok r)"

lemma claim_revision_bounds:
  assumes "workable e a s r"
  shows "pj_completed_revision r < claim_revision e a s r \<and> claim_revision e a s r \<le> pj_desired_revision r"
  using assms
  by (auto simp: workable_def eligible_def claim_revision_def search_published_def split: option.splits if_splits)

lemma row_step_ok: "row_step e q s r r' \<Longrightarrow> claim_ok r \<Longrightarrow> claim_ok r'"
proof (induction rule: row_step.induct)
  case (want n t k)
  then show ?case by (auto simp: claim_ok_def want_revision_def reset_failure_def)
next
  case (claim a expires t)
  then show ?case using claim_revision_bounds[of e a s r]
    by (simp add: claim_ok_def claim_row_def note_abandoned_def)
next
  case (complete tok n t k)
  then show ?case by (simp add: claim_ok_def complete_row_def drop_claim_def)
next
  case (fail tok code msg at retry t k)
  then show ?case by (simp add: claim_ok_def fail_row_def drop_claim_def)
next
  case (release ws t k)
  then show ?case by (auto simp: claim_ok_def release_row_def drop_claim_def)
next
  case (requeue ids st gen t k)
  then show ?case by (simp add: claim_ok_def requeue_row_def drop_claim_def)
qed

fun wants_ok :: "projector_request \<Rightarrow> bool" where
  "wants_ok (Advance_state p sid n) \<longleftrightarrow> 0 \<le> n"
| "wants_ok q \<longleftrightarrow> True"

lemma ledger_move_ok:
  assumes "ledger_move e q s rows" and ok: "ledger_ok s" and "wants_ok q"
  shows "distinct (map pj_key rows) \<and> (\<forall>r \<in> set rows. claim_ok r)"
  using assms(1)
proof cases
  case (add p sid n t k)
  then show ?thesis using ok assms(3)
    by (auto simp: ledger_ok_def state_row_None new_state_def claim_ok_def pj_key_def)
next
  case (update P f)
  have key: "pj_key (if P r then f r else r) = pj_key r" if "r \<in> set (ps_states s)" for r
    using row_step_key[OF update(2)[OF that]] by simp
  have keys: "map pj_key rows = map pj_key (ps_states s)"
    unfolding update(1) update_where_def map_map by (rule map_cong) (simp_all add: key)
  moreover have "claim_ok r" if "r \<in> set rows" for r
    using that row_step_ok[OF update(2)] ok unfolding update(1) update_where_def ledger_ok_def by auto
  ultimately show ?thesis using ok by (simp add: ledger_ok_def)
next
  case (remove P)
  then show ?thesis using ok by (auto simp: ledger_ok_def distinct_map_filter)
qed

inductive ledger_step :: "string \<Rightarrow> projector_store \<Rightarrow> projector_store \<Rightarrow> bool" for e where
  request: "run_projector e q t s = Inr (r, s') \<Longrightarrow> wants_ok q \<Longrightarrow> ledger_step e s s'"
| delete_session: "ledger_step e s (s\<lparr>ps_tombstones := d # ps_tombstones s\<rparr>)"

inductive ledger_reachable :: "string \<Rightarrow> projector_store \<Rightarrow> bool" for e where
  start: "ps_states s = [] \<Longrightarrow> ledger_reachable e s"
| step: "ledger_reachable e s \<Longrightarrow> ledger_step e s s' \<Longrightarrow> ledger_reachable e s'"

lemma ledger_step_ok: "ledger_step e s s' \<Longrightarrow> ledger_ok s \<Longrightarrow> ledger_ok s'"
proof (induction rule: ledger_step.induct)
  case (request q t s r s')
  then have "ledger_change e q s s'" by (auto simp: ledger_ok_def intro: run_projector_change)
  then show ?case using request ledger_move_ok[of e q s] by (auto simp: ledger_change_def ledger_ok_def)
qed (simp add: ledger_ok_def)

lemma ledger_reachable_ok: "ledger_reachable e s \<Longrightarrow> ledger_ok s"
proof (induction rule: ledger_reachable.induct)
  case (start s)
  then show ?case by (simp add: ledger_ok_def)
next
  case (step s s')
  then show ?case using ledger_step_ok by blast
qed

text \<open>
  The ledger stays coherent: over any requests and session deletions there is one row per projector
  and session, the work done never exceeds the work wanted, a row is held (token, worker, lease and a
  claimed revision between the two) exactly when its status says claimed, and it waits for a retry
  exactly when its status says failed.
\<close>

theorem projector_ledger_invariant:
  assumes "ledger_reachable e s"
  shows "distinct (map (\<lambda>r. (pj_projector r, pj_session_id r)) (ps_states s)) \<and> (\<forall>r \<in> set (ps_states s).
    0 \<le> pj_completed_revision r \<and> pj_completed_revision r \<le> pj_desired_revision r \<and>
    (pj_status r = ''failed'' \<longleftrightarrow> pj_retry_at r \<noteq> None) \<and>
    (if pj_status r = ''claimed'' then \<exists>tok w t c. pj_claim_token r = Some tok \<and> pj_worker_id r = Some w \<and>
        pj_claim_expires_at r = Some t \<and> pj_claimed_revision r = Some c \<and> pj_completed_revision r < c \<and> c \<le> pj_desired_revision r
     else pj_claim_token r = None \<and> pj_worker_id r = None \<and> pj_claim_expires_at r = None \<and> pj_claimed_revision r = None))"
proof -
  have ok: "ledger_ok s" by (rule ledger_reachable_ok[OF assms])
  have keys: "pj_key = (\<lambda>r. (pj_projector r, pj_session_id r))" by (rule ext) (simp add: pj_key_def)
  have "0 \<le> pj_completed_revision r \<and> pj_completed_revision r \<le> pj_desired_revision r \<and>
    (pj_status r = ''failed'' \<longleftrightarrow> pj_retry_at r \<noteq> None) \<and>
    (if pj_status r = ''claimed'' then \<exists>tok w t c. pj_claim_token r = Some tok \<and> pj_worker_id r = Some w \<and>
        pj_claim_expires_at r = Some t \<and> pj_claimed_revision r = Some c \<and> pj_completed_revision r < c \<and> c \<le> pj_desired_revision r
     else pj_claim_token r = None \<and> pj_worker_id r = None \<and> pj_claim_expires_at r = None \<and> pj_claimed_revision r = None)"
    if "claim_ok r" for r
    using that unfolding claim_ok_def
    by (cases "pj_claim_token r"; cases "pj_worker_id r"; cases "pj_claim_expires_at r"; cases "pj_claimed_revision r"; cases "pj_retry_at r") auto
  then show ?thesis using ok unfolding ledger_ok_def keys by blast
qed

subsection \<open>The abstract job\<close>

text \<open>
  The contract of a ledger entry: how much is wanted, how much is done, and who holds which revision.
  \<open>job_step\<close> is everything that may happen to it.
\<close>

record job =
  jb_wanted :: int
  jb_done :: int
  jb_holder :: "(string \<times> int) option"

inductive job_step :: "job option \<Rightarrow> job option \<Rightarrow> bool" where
  stay: "job_step x x"
| accept: "job_step None (Some \<lparr>jb_wanted = n, jb_done = 0, jb_holder = None\<rparr>)"
| want: "jb_wanted j < n \<Longrightarrow> job_step (Some j) (Some (j\<lparr>jb_wanted := n\<rparr>))"
| take: "jb_done j < n \<Longrightarrow> n \<le> jb_wanted j \<Longrightarrow> job_step (Some j) (Some (j\<lparr>jb_holder := Some (tok, n)\<rparr>))"
| finish: "jb_holder j = Some (tok, n) \<Longrightarrow> job_step (Some j) (Some (j\<lparr>jb_done := n, jb_holder := None\<rparr>))"
| give_up: "jb_holder j \<noteq> None \<Longrightarrow> job_step (Some j) (Some (j\<lparr>jb_holder := None\<rparr>))"
| redo: "job_step (Some j) (Some (j\<lparr>jb_done := 0, jb_holder := None\<rparr>))"
| forget: "job_step (Some j) None"

definition job_of_row :: "projector_row \<Rightarrow> job" where
  "job_of_row r = \<lparr>jb_wanted = pj_desired_revision r, jb_done = pj_completed_revision r,
     jb_holder = (case (pj_claim_token r, pj_claimed_revision r) of (Some t, Some n) \<Rightarrow> Some (t, n) | _ \<Rightarrow> None)\<rparr>"

definition job_of :: "projector_store \<Rightarrow> string \<Rightarrow> string \<Rightarrow> job option" where
  "job_of s p sid = map_option job_of_row (state_row p sid (ps_states s))"

lemma row_step_job:
  assumes "row_step e q s r r'" and "claim_ok r"
  shows "job_step (Some (job_of_row r)) (Some (job_of_row r'))"
  using assms
proof (induction rule: row_step.induct)
  case (want n t k)
  have "job_of_row (want_revision n t k r) = (job_of_row r)\<lparr>jb_wanted := n\<rparr>"
    by (cases "pj_claim_token r"; cases "pj_claimed_revision r") (simp_all add: job_of_row_def want_revision_def reset_failure_def)
  then show ?case using want job_step.want[of "job_of_row r" n] by (simp add: job_of_row_def)
next
  case (claim a expires t)
  have "job_of_row (claim_row e a expires t s r) = (job_of_row r)\<lparr>jb_holder := Some (ca_claim_token a, claim_revision e a s r)\<rparr>"
    by (simp add: job_of_row_def claim_row_def note_abandoned_def)
  then show ?case using claim_revision_bounds[OF claim.hyps(2)]
    by (metis job_step.take job.select_convs(1,2) job_of_row_def)
next
  case (release ws t k)
  have "job_of_row (release_row t k r) = (job_of_row r)\<lparr>jb_holder := None\<rparr>"
    by (simp add: job_of_row_def release_row_def drop_claim_def)
  moreover have "jb_holder (job_of_row r) \<noteq> None" using release by (auto simp: claim_ok_def job_of_row_def)
  ultimately show ?case using job_step.give_up by simp
next
  case (complete tok n t k)
  have "job_of_row (complete_row tok n t k r) = (job_of_row r)\<lparr>jb_done := n, jb_holder := None\<rparr>"
    by (simp add: job_of_row_def complete_row_def drop_claim_def)
  moreover have "jb_holder (job_of_row r) = Some (tok, n)" using complete by (simp add: job_of_row_def)
  ultimately show ?case using job_step.finish by simp
next
  case (fail tok code msg at retry t k)
  have "job_of_row (fail_row tok code msg retry t k r) = (job_of_row r)\<lparr>jb_holder := None\<rparr>"
    by (simp add: job_of_row_def fail_row_def drop_claim_def)
  moreover have "jb_holder (job_of_row r) \<noteq> None" using fail by (auto simp: job_of_row_def)
  ultimately show ?case using job_step.give_up by simp
next
  case (requeue ids st gen t k)
  have "job_of_row (requeue_row t k r) = (job_of_row r)\<lparr>jb_done := 0, jb_holder := None\<rparr>"
    by (simp add: job_of_row_def requeue_row_def drop_claim_def)
  then show ?case using job_step.redo by simp
qed

lemma ledger_move_job:
  assumes "ledger_move e q s rows" and ok: "ledger_ok s"
  shows "job_step (job_of s p sid) (map_option job_of_row (state_row p sid rows))"
  using assms(1)
proof cases
  case (add p' sid' n t k)
  have "state_row p sid rows = (case state_row p sid (ps_states s) of Some r \<Rightarrow> Some r
      | None \<Rightarrow> if (p, sid) = (p', sid') then Some (new_state p' sid' n t k) else None)"
    unfolding add(1) state_row_def find_snoc by (auto simp: row_at_def new_state_def split: option.splits)
  then show ?thesis
    by (auto simp: job_of_def new_state_def job_of_row_def split: option.splits intro: job_step.stay job_step.accept)
next
  case (update P f)
  have keys: "pj_key (f r) = pj_key r" if "r \<in> set (ps_states s)" "P r" for r using update(2)[OF that] by (rule row_step_key)
  have eq: "state_row p sid rows = map_option (\<lambda>r. if P r then f r else r) (state_row p sid (ps_states s))"
    unfolding update(1) by (rule state_row_update) (rule keys)
  show ?thesis
  proof (cases "state_row p sid (ps_states s)")
    case None
    then show ?thesis unfolding eq by (simp add: job_of_def job_step.stay)
  next
    case (Some r)
    have mem: "r \<in> set (ps_states s)" using state_row_mem[OF Some] by simp
    then show ?thesis unfolding eq
      using Some update(2)[OF mem] row_step_job ok by (auto simp: job_of_def ledger_ok_def job_step.stay)
  qed
next
  case (remove P)
  have "state_row p sid rows = None \<or> state_row p sid rows = state_row p sid (ps_states s)"
  proof (cases "state_row p sid rows")
    case (Some r)
    then have "r \<in> set (ps_states s)" "pj_key r = (p, sid)" using state_row_mem[OF Some] remove(1) by auto
    then have "state_row p sid (ps_states s) = Some r" using state_row_of ok by (auto simp: ledger_ok_def pj_key_def)
    then show ?thesis using Some by simp
  qed simp
  then show ?thesis by (cases "job_of s p sid") (auto simp: job_of_def intro: job_step.stay job_step.forget)
qed

text \<open>
  (C12) The ledger implements the abstract job: every request that succeeds on a reachable ledger moves
  the job of every projector and session by at most one abstract step (accept, want more, take, finish
  exactly the held revision, give up, redo, forget).
\<close>

theorem ledger_refines_jobs:
  assumes "ledger_reachable e s" and "run_projector e q t s = Inr (reply, s')"
  shows "job_step (job_of s p sid) (job_of s' p sid)"
proof -
  have ok: "ledger_ok s" by (rule ledger_reachable_ok[OF assms(1)])
  have "ledger_change e q s s'" using run_projector_change[OF _ assms(2)] ok by (simp add: ledger_ok_def)
  then show ?thesis using ledger_move_job[OF _ ok, of e q] by (auto simp: ledger_change_def job_of_def intro: job_step.stay)
qed

end
