(* ===== verification/Claim_Guarantees.thy ===== *)
theory Claim_Guarantees
  imports Claim_Properties
begin

text \<open>
  What the workers of the projector ledger rely on: a lease excludes the others, lagging work is handed
  out oldest first and can be finished, a request may be sent again, and the watermark a reader gets for
  a projector is sound. The examples at the end run the ledger.
\<close>

subsection \<open>Exclusive leases\<close>

text \<open>A request of somebody who does not hold the row: another claim inside the lease, or a verdict under another token.\<close>

fun by_another :: "projector_request \<Rightarrow> projector_row \<Rightarrow> bool" where
  "by_another (Claim_lag a) r \<longleftrightarrow> \<not> passed (ca_now a) (pj_claim_expires_at r)"
| "by_another (Complete_claim p sid tok n) r \<longleftrightarrow> pj_claim_token r \<noteq> Some tok"
| "by_another (Fail_claim p sid tok code msg at) r \<longleftrightarrow> pj_claim_token r \<noteq> Some tok"
| "by_another _ r \<longleftrightarrow> False"

lemma row_step_holder: "row_step e q s r r' \<Longrightarrow> \<not> by_another q r"
  by (induction rule: row_step.induct) (auto simp: workable_def eligible_def)

text \<open>
  (C13) Claims exclude each other: on a reachable ledger, no claim made before the lease of a row runs
  out, and no completion or failure reported under a token other than the row's current one, changes
  the row in any way, whatever the request names.
\<close>

theorem claims_are_exclusive:
  assumes "ledger_reachable e s" and r: "r \<in> set (ps_states s)" and other: "by_another q r"
    and run: "run_projector e q t s = Inr (reply, s')"
  shows "r \<in> set (ps_states s')"
proof -
  have "ledger_change e q s s'"
    using run_projector_change[OF _ run] ledger_reachable_ok[OF assms(1)] by (simp add: ledger_ok_def)
  then consider "s' = s" | "ledger_move e q s (ps_states s')" by (auto simp: ledger_change_def)
  then show ?thesis
  proof cases
    case 2
    then show ?thesis
    proof cases
      case (update P f)
      have "\<not> P r" using row_step_holder[OF update(2)[OF r]] other by blast
      then show ?thesis using r unfolding update(1) by (auto simp: set_update_where)
    qed (use r other in auto)
  qed (use r in simp)
qed

subsection \<open>Progress\<close>

lemma take_sorted_mem:
  assumes "sorted (map k ys)" and "inj_on k (set ys)" and "r \<in> set ys" and "length (filter (\<lambda>x. k x < k r) ys) < n"
  shows "r \<in> set (take n ys)"
  using assms
proof (induction ys arbitrary: n)
  case (Cons y ys)
  show ?case
  proof (cases "y = r")
    case True
    then show ?thesis using Cons.prems(4) by (cases n) auto
  next
    case False
    then have "k y < k r" using Cons.prems by (auto simp: inj_on_def le_less)
    then obtain m where "n = Suc m" "length (filter (\<lambda>x. k x < k r) ys) < m" using Cons.prems(4) by (cases n) auto
    then show ?thesis using Cons.IH[of m] Cons.prems False by auto
  qed
qed simp

definition claim_order :: "projector_row \<Rightarrow> int \<times> string" where
  "claim_order r = (utc_us (pj_updated_at r), pj_session_id r)"

definition ahead :: "string \<Rightarrow> claim_args \<Rightarrow> projector_store \<Rightarrow> projector_row \<Rightarrow> projector_row list" where
  "ahead e a s r = filter (\<lambda>x. workable e a s x \<and> claim_order x < claim_order r) (ps_states s)"

lemma claimable_mem:
  assumes "distinct (map pj_key (ps_states s))" and r: "r \<in> set (ps_states s)" "workable e a s r"
    and room: "length (ahead e a s r) < ca_limit a"
  shows "r \<in> set (claimable e a s)"
proof -
  let ?w = "filter (workable e a s) (ps_states s)"
  have inj: "inj_on claim_order (set ?w)"
    using key_unique[OF assms(1)] by (auto simp: inj_on_def claim_order_def pj_key_def workable_def eligible_def)
  have "mset (filter (\<lambda>x. claim_order x < claim_order r) (sort_key claim_order ?w)) = mset (ahead e a s r)"
    by (simp add: ahead_def mset_filter filter_filter_mset conj_commute)
  then have "length (filter (\<lambda>x. claim_order x < claim_order r) (sort_key claim_order ?w)) < ca_limit a"
    using room mset_eq_length by metis
  then have "r \<in> set (take (ca_limit a) (sort_key claim_order ?w))"
    using take_sorted_mem[of claim_order "sort_key claim_order ?w" r] inj r by simp
  then show ?thesis unfolding claimable_def claim_order_def .
qed

definition fresh_claim :: "claim_args \<Rightarrow> projector_store \<Rightarrow> bool" where
  "fresh_claim a s \<longleftrightarrow> (\<forall>r \<in> set (ps_states s). \<not> held_by_token a r \<and> \<not> spent_token a r)"

lemma claim_fresh:
  assumes "fresh_claim a s" and "claimable e a s \<noteq> []" and "add_ms (ca_now a) (ca_lease_seconds a * 1000) = Inr u"
  shows "claim_projector_lag e a t s = written t (Claimed (map (claim_row e a u t s) (claimable e a s)) False)
    (update_where (\<lambda>r. pj_projector r = ca_projector a \<and> pj_session_id r \<in> set (map pj_session_id (claimable e a s)))
      (claim_row e a u t s) (ps_states s)) s"
proof -
  have "filter (held_by_token a) (ps_states s) = []" "\<not> list_ex (spent_token a) (ps_states s)"
    using assms(1) by (auto simp: fresh_claim_def filter_empty_conv list_ex_iff)
  then show ?thesis using assms(2,3) by (simp add: claim_projector_lag_def Let_def)
qed

lemma claimed_row_stored:
  assumes "distinct (map pj_key (ps_states s))" and r: "r \<in> set (claimable e a s)"
    and rows: "rows = update_where (\<lambda>r. pj_projector r = ca_projector a \<and> pj_session_id r \<in> set (map pj_session_id (claimable e a s)))
      (claim_row e a u t s) (ps_states s)"
  shows "state_row (pj_projector r) (pj_session_id r) rows = Some (claim_row e a u t s r)"
proof -
  have mem: "r \<in> set (ps_states s)" "pj_projector r = ca_projector a"
    using claimable_workable[OF r] by (simp_all add: workable_def eligible_def)
  have "state_row (pj_projector r) (pj_session_id r) rows = map_option (\<lambda>r. if pj_projector r = ca_projector a \<and>
      pj_session_id r \<in> set (map pj_session_id (claimable e a s)) then claim_row e a u t s r else r)
      (state_row (pj_projector r) (pj_session_id r) (ps_states s))"
    unfolding rows by (rule state_row_update) (simp add: row_ops pj_key_def)
  then show ?thesis using state_row_of[OF assms(1) mem(1)] mem(2) r by simp
qed

lemma complete_held:
  assumes "state_row p sid (ps_states s) = Some r" and "pj_claim_token r = Some tok" and "pj_claimed_revision r = Some n"
    and "pj_completed_revision r < n" and "n \<le> pj_desired_revision r"
  shows "\<exists>s'. complete_projector_claim p sid tok n t s = Inr (Finished True (complete_row tok n t (next_seq s) r), s')"
  using assms by (auto simp: complete_projector_claim_def Let_def written_def)

text \<open>
  (C14) Lagging work gets done: on a reachable ledger a row the worker may work on, with fewer than the
  limit of such rows ahead of it (oldest update first), is claimed by a fresh token, up to the wanted
  revision unless the projector embeds what search has published; and the completion the worker then
  reports under that token succeeds and records exactly the claimed revision.
\<close>

theorem lagging_work_gets_done:
  assumes "ledger_reachable e s" and "r \<in> set (ps_states s)" and "workable e a s r" and "length (ahead e a s r) < ca_limit a"
    and "fresh_claim a s" and "add_ms (ca_now a) (ca_lease_seconds a * 1000) = Inr u"
  shows "\<exists>rows s1 c final s2. claim_projector_lag e a t s = Inr (Claimed rows False, s1) \<and> c \<in> set rows \<and>
    pj_session_id c = pj_session_id r \<and> pj_worker_id c = Some (ca_worker_id a) \<and> pj_claim_expires_at c = Some u \<and>
    pj_claimed_revision c = Some (claim_revision e a s r) \<and> pj_completed_revision r < claim_revision e a s r \<and>
    (ca_projector a \<noteq> e \<longrightarrow> claim_revision e a s r = pj_desired_revision r) \<and>
    complete_projector_claim (ca_projector a) (pj_session_id r) (ca_claim_token a) (claim_revision e a s r) t' s1 =
      Inr (Finished True final, s2) \<and>
    pj_completed_revision final = claim_revision e a s r \<and> pj_status final = ''idle''"
proof -
  have keys: "distinct (map pj_key (ps_states s))" using ledger_reachable_ok[OF assms(1)] by (simp add: ledger_ok_def)
  have c: "r \<in> set (claimable e a s)" by (rule claimable_mem[OF keys assms(2-4)])
  define c where "c = claim_row e a u t s r"
  have some: "claimable e a s \<noteq> []" and p: "pj_projector r = ca_projector a"
    using c assms(3) by (auto simp: workable_def eligible_def)
  obtain rows s1 where s1: "claim_projector_lag e a t s = Inr (Claimed rows False, s1)" "c \<in> set rows"
    "state_row (ca_projector a) (pj_session_id r) (ps_states s1) = Some c"
    using claim_fresh[OF assms(5) some assms(6), of t] claimed_row_stored[OF keys c refl, of u t] c
    unfolding written_def c_def p by fastforce
  have row: "pj_claim_token c = Some (ca_claim_token a)" "pj_claimed_revision c = Some (claim_revision e a s r)"
    "pj_completed_revision c < claim_revision e a s r" "claim_revision e a s r \<le> pj_desired_revision c"
    using claim_revision_bounds[OF assms(3)] by (simp_all add: c_def row_ops)
  obtain s2 where "complete_projector_claim (ca_projector a) (pj_session_id r) (ca_claim_token a) (claim_revision e a s r) t' s1 =
      Inr (Finished True (complete_row (ca_claim_token a) (claim_revision e a s r) t' (next_seq s1) c), s2)"
    using complete_held[OF s1(3) row] by blast
  moreover have "pj_session_id c = pj_session_id r" "pj_worker_id c = Some (ca_worker_id a)" "pj_claim_expires_at c = Some u"
    "ca_projector a \<noteq> e \<longrightarrow> claim_revision e a s r = pj_desired_revision r" "pj_completed_revision c = pj_completed_revision r"
    by (simp_all add: c_def row_ops claim_revision_def)
  ultimately show ?thesis using s1 row by (fastforce simp: complete_row_def)
qed

subsection \<open>Retries\<close>

lemma sort_key_Nil_iff [simp]: "sort_key k xs = [] \<longleftrightarrow> xs = []"
  by (metis length_0_conv length_sort)

lemma written_moves [simp]: "s = s\<lparr>ps_states := rows, ps_meta := snd (advance_seq now (ps_meta s))\<rparr> \<longleftrightarrow> False"
  by (auto dest!: arg_cong[of _ _ "\<lambda>s. cm_commit_seq (ps_meta s)"])

lemma advance_again:
  assumes "0 \<le> cm_commit_seq (ps_meta s)" and "advance_projector_state p sid n t s = Inr (r, s')"
  shows "\<exists>r'. advance_projector_state p sid n t' s' = Inr (r', s')"
proof (cases "map_of (ps_tombstones s) sid")
  case (Some d)
  then show ?thesis using assms by (simp add: advance_projector_state_def)
next
  case None
  have upd: "state_row p sid (update_where (row_at p sid) (want_revision n t k) rows) =
      map_option (want_revision n t k) (state_row p sid rows)" for k rows
    unfolding state_row_def by (rule find_update_same) (simp add: row_ops row_at_def)
  show ?thesis
  proof (cases "state_row p sid (ps_states s)")
    case fresh: None
    then have "state_row p sid (ps_states s') = Some (new_state p sid n t (next_seq s))" "ps_tombstones s' = ps_tombstones s"
      using assms None by (auto simp: advance_projector_state_def Let_def state_row_def find_snoc row_at_def new_state_def)
    then show ?thesis using None by (simp add: advance_projector_state_def new_state_def)
  next
    case (Some x)
    then show ?thesis using assms None upd
      by (auto simp: advance_projector_state_def Let_def row_ops split: if_splits)
  qed
qed

lemma claim_again:
  assumes ok: "ledger_ok s" and seq: "0 \<le> cm_commit_seq (ps_meta s)" and run: "claim_projector_lag e a t s = Inr (r, s')"
  shows "\<exists>r'. claim_projector_lag e a t' s' = Inr (r', s')"
proof (cases "s' = s")
  case True
  then show ?thesis using run[unfolded True] seq by (auto simp: claim_projector_lag_def Let_def split: if_splits)
next
  case False
  then have none: "filter (held_by_token a) (ps_states s) = []" "claimable e a s \<noteq> []"
    using run by (auto simp: claim_projector_lag_def Let_def split: if_splits)
  define Q where "Q r \<longleftrightarrow> pj_projector r = ca_projector a \<and> pj_session_id r \<in> set (map pj_session_id (claimable e a s))" for r :: projector_row
  obtain u where s': "ps_states s' = update_where Q (claim_row e a u t s) (ps_states s)"
    using run False none unfolding Q_def by (auto simp: claim_projector_lag_def Let_def split: if_splits)
  have held: "pj_worker_id x = Some (ca_worker_id a)" if "x \<in> set (ps_states s')" "held_by_token a x" for x
    using update_where_mem[OF that(1)[unfolded s']] that(2) none(1) by (auto simp: filter_empty_conv row_ops)
  obtain z where z: "z \<in> set (claimable e a s)" using none(2) by (cases "claimable e a s") auto
  then have "Q z" "z \<in> set (ps_states s)" using claimable_workable[OF z] by (auto simp: Q_def workable_def eligible_def)
  then have "claim_row e a u t s z \<in> set (ps_states s')" "held_by_token a (claim_row e a u t s z)"
    unfolding s' by (auto simp: set_update_where held_by_token_def row_ops Q_def)
  then have "sort_key pj_session_id (filter (held_by_token a) (ps_states s')) \<noteq> []"
    by (auto simp: filter_empty_conv)
  then show ?thesis using held by (auto simp: claim_projector_lag_def Let_def list_ex_iff)
qed

lemma release_again:
  assumes "0 \<le> cm_commit_seq (ps_meta s)" and "release_projector_claims_on_startup e ws t s = Inr (r, s')"
  shows "\<exists>r'. release_projector_claims_on_startup e ws t' s' = Inr (r', s')"
proof -
  have "filter (stale_claim e ws) (update_where (stale_claim e ws) (release_row t k) rows) = []" for k rows
    by (auto simp: filter_empty_conv set_update_where stale_claim_def release_row_def)
  then show ?thesis using assms
    by (auto simp: release_projector_claims_on_startup_def Let_def split: if_splits)
qed

lemma verdict_stored:
  assumes "state_row p sid rows = Some x" and "\<And>y. pj_key (f y) = pj_key y"
  shows "state_row p sid (update_where (row_at p sid) f rows) = Some (f x)"
  using state_row_update[of rows "row_at p sid" f p sid] state_row_mem[OF assms(1)] assms
  by (simp add: row_at_def pj_key_def)

lemma complete_again:
  assumes "0 \<le> cm_commit_seq (ps_meta s)" and "complete_projector_claim p sid tok n t s = Inr (r, s')"
  shows "\<exists>r'. complete_projector_claim p sid tok n t' s' = Inr (r', s')"
proof (cases "state_row p sid (ps_states s)")
  case None
  then show ?thesis using assms by (simp add: complete_projector_claim_def)
next
  case (Some x)
  have "state_row p sid (update_where (row_at p sid) (complete_row tok n t k) (ps_states s)) = Some (complete_row tok n t k x)" for k
    by (rule verdict_stored[OF Some]) (simp add: row_ops pj_key_def)
  then show ?thesis using Some assms
    by (auto simp: complete_projector_claim_def Let_def complete_row_def split: if_splits)
qed

lemma fail_again:
  assumes "0 \<le> cm_commit_seq (ps_meta s)" and "fail_projector_claim p sid tok code msg at t s = Inr (r, s')"
  shows "\<exists>r'. fail_projector_claim p sid tok code msg at t' s' = Inr (r', s')"
proof (cases "state_row p sid (ps_states s)")
  case None
  then show ?thesis using assms by (simp add: fail_projector_claim_def)
next
  case (Some x)
  have "state_row p sid (update_where (row_at p sid) (fail_row tok code msg u t k) (ps_states s)) = Some (fail_row tok code msg u t k x)" for u k
    by (rule verdict_stored[OF Some]) (simp add: row_ops pj_key_def)
  then show ?thesis using Some assms
    by (auto simp: fail_projector_claim_def Let_def fail_row_def split: if_splits)
qed

lemma reap_again:
  assumes "0 \<le> cm_commit_seq (ps_meta s)" and "reap_retired_projector_states e t s = Inr (r, s')"
  shows "\<exists>r'. reap_retired_projector_states e t' s' = Inr (r', s')"
proof -
  let ?old = "\<lambda>r. pj_projector r \<notin> set (ACTIVE_PROJECTORS e)"
  have "\<not> ?old x" if "x \<in> set (ps_states s')" for x
    using assms that by (auto simp: reap_retired_projector_states_def Let_def filter_empty_conv split: if_splits)
  then have "filter ?old (ps_states s') = []" by (simp add: filter_empty_conv)
  moreover have "0 \<le> cm_commit_seq (ps_meta s')"
    using assms by (auto simp: reap_retired_projector_states_def Let_def split: if_splits)
  ultimately show ?thesis by (simp add: reap_retired_projector_states_def)
qed

lemma requeue_again:
  assumes "0 \<le> cm_commit_seq (ps_meta s)" and run: "requeue_projector_states p ids t s = Inr (r, s')"
  shows "\<exists>r'. requeue_projector_states p ids t' s' = Inr (r', s')"
proof -
  define changed where "changed = filter (\<lambda>k. case state_row p k (ps_states s) of None \<Rightarrow> False | Some r \<Rightarrow> \<not> untouched r) (sort ids)"
  define Q where "Q x \<longleftrightarrow> pj_projector x = p \<and> pj_session_id x \<in> set changed" for x :: projector_row
  have upd: "state_row p k (update_where Q (requeue_row t m) (ps_states s)) =
      map_option (\<lambda>x. if Q x then requeue_row t m x else x) (state_row p k (ps_states s))" for k m
    by (rule state_row_update) (simp add: row_ops pj_key_def)
  have fresh: "untouched (requeue_row t m x)" for m x by (simp add: untouched_def row_ops)
  have rest: "untouched x" if "state_row p k (ps_states s) = Some x" "k \<in> set ids" "\<not> Q x" for k x
    using that state_row_mem[OF that(1)] by (auto simp: Q_def changed_def pj_key_def)
  consider "s' = s" | "filter (\<lambda>k. state_row p k (ps_states s) = None) (sort ids) = []"
    "ps_states s' = update_where Q (requeue_row t (next_seq s)) (ps_states s)" "0 \<le> cm_commit_seq (ps_meta s')"
    using assms unfolding Q_def changed_def by (auto simp: requeue_projector_states_def Let_def split: if_splits)
  then show ?thesis
  proof cases
    case 1
    then show ?thesis using assms(1) run[unfolded 1] by (auto simp: requeue_projector_states_def Let_def split: if_splits)
  next
    case 2
    have "filter (\<lambda>k. state_row p k (ps_states s') = None) (sort ids) = []"
      using 2(1) by (auto simp: 2(2) upd filter_empty_conv)
    moreover have "filter (\<lambda>k. case state_row p k (ps_states s') of None \<Rightarrow> False | Some r \<Rightarrow> \<not> untouched r) (sort ids) = []"
      using rest fresh by (auto simp: 2(2) upd filter_empty_conv split: option.splits if_splits)
    ultimately show ?thesis using 2(3) by (simp add: requeue_projector_states_def)
  qed
qed

lemma find_bind_store: "\<exists>b. find (\<lambda>b. sb_projector b = p) (bind_store p st gen t n bs) = Some b \<and> same_store st gen b"
proof (cases "find (\<lambda>b. sb_projector b = p) bs")
  case None
  then show ?thesis by (simp add: bind_store_def find_snoc same_store_def)
next
  case (Some b)
  have "find (\<lambda>b. sb_projector b = p) (bind_store p st gen t n bs) =
      map_option (\<lambda>b. b\<lparr>sb_store_id := st, sb_schema_generation := gen, sb_commit_seq := n, sb_updated_at := t\<rparr>)
        (find (\<lambda>b. sb_projector b = p) bs)"
    unfolding bind_store_def using Some by (simp add: find_update_same)
  then show ?thesis using Some by (simp add: same_store_def)
qed

lemma bind_again:
  assumes "0 \<le> cm_commit_seq (ps_meta s)" and "bind_projector_store p st gen t s = Inr (r, s')"
  shows "\<exists>r'. bind_projector_store p st gen t' s' = Inr (r', s')"
proof -
  have "\<exists>b. binding_of p s' = Some b \<and> same_store st gen b" "0 \<le> cm_commit_seq (ps_meta s')"
    using assms find_bind_store[of p st gen t "next_seq s" "ps_bindings s"]
    by (auto simp: bind_projector_store_def binding_of_def Let_def split: if_splits option.splits)
  then show ?thesis by (auto simp: bind_projector_store_def)
qed

interpretation projector_retry: retryable "run_projector e" "\<lambda>s. ledger_ok s \<and> 0 \<le> cm_commit_seq (ps_meta s)"
proof
  fix s q t t' r s'
  assume "ledger_ok s \<and> 0 \<le> cm_commit_seq (ps_meta s)" "run_projector e q t s = Inr (r, s')"
  then show "\<exists>r'. run_projector e q t' s' = Inr (r', s')"
    by (cases q) (auto intro: advance_again claim_again release_again complete_again fail_again reap_again requeue_again bind_again)
qed

text \<open>
  A ledger request may be sent again: once it has succeeded, repeating it at any later times
  succeeds every time and leaves the ledger as the first run left it, so a worker that lost the answer
  neither claims twice, nor completes or fails twice, nor counts a failure twice.
\<close>

theorem ledger_requests_retry_safely:
  assumes "ledger_reachable e s" and "0 \<le> cm_commit_seq (ps_meta s)" and "run_projector e q t s = Inr (reply, s')"
  shows "foldR (\<lambda>t s. bindR (run_projector e q t s) (\<lambda>(_, s'). Inr s')) (t # later) s = Inr s'"
  using projector_retry.attempts_once[of s e q t reply s' later] ledger_reachable_ok[OF assms(1)] assms(2,3)
  by (simp add: projector_retry.attempts_def)

subsection \<open>The watermark\<close>

lemma fold_min: "fold min xs x = Min (set (x # xs))" for x :: int
  by (simp only: Min.set_eq_fold)

lemma watermark_below:
  assumes "r \<in> set (ps_states s)" and "lagging p s r"
  shows "indexed_through p s < pj_desired_revision r"
proof -
  have "pj_desired_revision r \<in> set (map pj_desired_revision (filter (lagging p s) (ps_states s)))" using assms by simp
  then obtain x xs where xs: "map pj_desired_revision (filter (lagging p s) (ps_states s)) = x # xs" "pj_desired_revision r \<in> set (x # xs)"
    by (metis list.exhaust list.set_cases)
  then have "Min (set (x # xs)) \<le> pj_desired_revision r" by (simp only: Min_le finite_set)
  then show ?thesis unfolding indexed_through_def xs(1) list.case fold_min by linarith
qed

text \<open>
  (C36) The watermark is sound and tight: on a reachable ledger every session whose wanted revision is at
  or below the reported \<open>indexed_through\<close> is done up to it, unless it was deleted; and while anything
  lags, the watermark stops just below the smallest wanted revision that is not done.
\<close>

theorem watermark_is_sound:
  assumes "ledger_reachable e s" and "r \<in> set (ps_states s)" and "pj_projector r = p"
    and "map_of (ps_tombstones s) (pj_session_id r) = None"
  shows "if pj_desired_revision r \<le> indexed_through p s then pj_completed_revision r = pj_desired_revision r
    else (\<forall>x \<in> set (ps_states s). \<not> lagging p s x) \<or> (\<exists>x \<in> set (ps_states s). lagging p s x \<and> pj_desired_revision x = indexed_through p s + 1)"
proof -
  have "pj_completed_revision r \<le> pj_desired_revision r"
    using ledger_reachable_ok[OF assms(1)] assms(2) by (simp add: ledger_ok_def claim_ok_def)
  then have sound: "pj_completed_revision r = pj_desired_revision r" if "pj_desired_revision r \<le> indexed_through p s"
    using watermark_below[OF assms(2), of p] that assms(3,4) by (force simp: lagging_def)
  have tight: "\<exists>x \<in> set (ps_states s). lagging p s x \<and> pj_desired_revision x = indexed_through p s + 1"
    if y: "y \<in> set (ps_states s)" "lagging p s y" for y
  proof -
    obtain x xs where xs: "map pj_desired_revision (filter (lagging p s) (ps_states s)) = x # xs"
      using y by (cases "map pj_desired_revision (filter (lagging p s) (ps_states s))") (auto simp: filter_empty_conv)
    have "Min (set (x # xs)) \<in> set (x # xs)" by (rule Min_in) simp_all
    then have "Min (set (x # xs)) \<in> pj_desired_revision ` {x \<in> set (ps_states s). lagging p s x}" unfolding xs[symmetric] by simp
    moreover have "indexed_through p s + 1 = Min (set (x # xs))" unfolding indexed_through_def xs by (simp only: list.case fold_min)
    ultimately show ?thesis by auto
  qed
  show ?thesis using sound tight by auto
qed

subsection \<open>Examples\<close>

definition demo_claim :: "string \<Rightarrow> string \<Rightarrow> int \<Rightarrow> claim_args" where
  "demo_claim worker token now = \<lparr>ca_projector = ''search-v2'', ca_worker_id = worker, ca_claim_token = token,
     ca_now = UTC now, ca_lease_seconds = 60, ca_limit = 1\<rparr>"

definition empty_ledger :: projector_store where
  "empty_ledger = \<lparr>ps_states = [], ps_bindings = [], ps_tombstones = [], ps_meta = \<lparr>cm_commit_seq = 0, cm_updated_at = []\<rparr>\<rparr>"

definition after_run :: "projector_result \<Rightarrow> projector_store" where
  "after_run res = (case res of Inr (_, s) \<Rightarrow> s | Inl _ \<Rightarrow> empty_ledger)"

definition wanted_ledger :: projector_store where
  "wanted_ledger = after_run (run_projector ''embed'' (Advance_state ''search-v2'' ''a'' 5) (UTC 0) empty_ledger)"
definition held_ledger :: projector_store where
  "held_ledger = after_run (run_projector ''embed'' (Claim_lag (demo_claim ''w1'' ''t1'' 1000000)) (UTC 1000000) wanted_ledger)"
definition done_ledger :: projector_store where
  "done_ledger = after_run (run_projector ''embed'' (Complete_claim ''search-v2'' ''a'' ''t1'' 5) (UTC 2000000) held_ledger)"

text \<open>The three stores, computed once; the evaluations below start from these values.\<close>

lemma wanted_ledger_value [code]:
  "wanted_ledger =
     \<lparr>ps_states = [\<lparr>pj_projector = ''search-v2'', pj_session_id = ''a'', pj_desired_revision = 5,
      pj_desired_at = Some (UTC 0), pj_completed_revision = 0, pj_claimed_revision = None, pj_claim_token = None,
      pj_worker_id = None, pj_claim_expires_at = None, pj_status = ''idle'', pj_failure_count = 0,
      pj_last_error_code = None, pj_last_error_message = None, pj_retry_at = None, pj_last_completion_token = None,
      pj_last_failure_token = None, pj_commit_seq = 1, pj_created_at = UTC 0, pj_updated_at = UTC 0\<rparr>],
      ps_bindings = [], ps_tombstones = [], ps_meta = \<lparr>cm_commit_seq = 1,
      cm_updated_at = ''1970-01-01T00:00:00+00:00''\<rparr>\<rparr>"
  by code_simp

lemma held_ledger_value [code]:
  "held_ledger =
     \<lparr>ps_states = [\<lparr>pj_projector = ''search-v2'', pj_session_id = ''a'', pj_desired_revision = 5,
      pj_desired_at = Some (UTC 0), pj_completed_revision = 0, pj_claimed_revision = Some 5, pj_claim_token = Some ''t1'',
      pj_worker_id = Some ''w1'', pj_claim_expires_at = Some (UTC 61000000), pj_status = ''claimed'', pj_failure_count = 0,
      pj_last_error_code = None, pj_last_error_message = None, pj_retry_at = None, pj_last_completion_token = None,
      pj_last_failure_token = None, pj_commit_seq = 2, pj_created_at = UTC 0, pj_updated_at = UTC 1000000\<rparr>],
      ps_bindings = [], ps_tombstones = [], ps_meta = \<lparr>cm_commit_seq = 2,
      cm_updated_at = ''1970-01-01T00:00:01+00:00''\<rparr>\<rparr>"
  by code_simp

lemma done_ledger_value [code]:
  "done_ledger =
     \<lparr>ps_states = [\<lparr>pj_projector = ''search-v2'', pj_session_id = ''a'', pj_desired_revision = 5,
      pj_desired_at = Some (UTC 0), pj_completed_revision = 5, pj_claimed_revision = None, pj_claim_token = None,
      pj_worker_id = None, pj_claim_expires_at = None, pj_status = ''idle'', pj_failure_count = 0,
      pj_last_error_code = None, pj_last_error_message = None, pj_retry_at = None, pj_last_completion_token = Some ''t1'',
      pj_last_failure_token = None, pj_commit_seq = 3, pj_created_at = UTC 0, pj_updated_at = UTC 2000000\<rparr>],
      ps_bindings = [], ps_tombstones = [], ps_meta = \<lparr>cm_commit_seq = 3,
      cm_updated_at = ''1970-01-01T00:00:02+00:00''\<rparr>\<rparr>"
  by code_simp

lemma demo_ledger_runs:
  "\<exists>x. run_projector ''embed'' (Advance_state ''search-v2'' ''a'' 5) (UTC 0) empty_ledger = Inr (x, wanted_ledger)"
  "\<exists>x. run_projector ''embed'' (Claim_lag (demo_claim ''w1'' ''t1'' 1000000)) (UTC 1000000) wanted_ledger = Inr (x, held_ledger)"
  "\<exists>x. run_projector ''embed'' (Complete_claim ''search-v2'' ''a'' ''t1'' 5) (UTC 2000000) held_ledger = Inr (x, done_ledger)"
proof -
  have ok: "\<exists>x. res = Inr (x, after_run res)" if "\<not> isl res" for res :: projector_result
    using that by (cases res) (auto simp: after_run_def)
  have "\<not> isl (run_projector ''embed'' (Advance_state ''search-v2'' ''a'' 5) (UTC 0) empty_ledger)" by code_simp
  from ok[OF this] show "\<exists>x. run_projector ''embed'' (Advance_state ''search-v2'' ''a'' 5) (UTC 0) empty_ledger = Inr (x, wanted_ledger)"
    unfolding wanted_ledger_def .
  have "\<not> isl (run_projector ''embed'' (Claim_lag (demo_claim ''w1'' ''t1'' 1000000)) (UTC 1000000) wanted_ledger)" by code_simp
  from ok[OF this] show "\<exists>x. run_projector ''embed'' (Claim_lag (demo_claim ''w1'' ''t1'' 1000000)) (UTC 1000000) wanted_ledger = Inr (x, held_ledger)"
    unfolding held_ledger_def .
  have "\<not> isl (run_projector ''embed'' (Complete_claim ''search-v2'' ''a'' ''t1'' 5) (UTC 2000000) held_ledger)" by code_simp
  from ok[OF this] show "\<exists>x. run_projector ''embed'' (Complete_claim ''search-v2'' ''a'' ''t1'' 5) (UTC 2000000) held_ledger = Inr (x, done_ledger)"
    unfolding done_ledger_def .
qed

lemma demo_ledger_reachable:
  "ledger_reachable ''embed'' wanted_ledger" "ledger_reachable ''embed'' held_ledger" "ledger_reachable ''embed'' done_ledger"
proof -
  have start: "ledger_reachable ''embed'' empty_ledger" by (rule ledger_reachable.start) (simp add: empty_ledger_def)
  have step: "ledger_reachable ''embed'' s'" if "ledger_reachable ''embed'' s" "\<exists>x. run_projector ''embed'' q t s = Inr (x, s')" "wants_ok q"
    for s s' q t using that ledger_reachable.step[OF that(1)] ledger_step.request by blast
  show w: "ledger_reachable ''embed'' wanted_ledger" by (rule step[OF start demo_ledger_runs(1)]) simp
  show h: "ledger_reachable ''embed'' held_ledger" by (rule step[OF w demo_ledger_runs(2)]) simp
  show "ledger_reachable ''embed'' done_ledger" by (rule step[OF h demo_ledger_runs(3)]) simp
qed

lemma demo_ledger_rows:
  "ps_states wanted_ledger = [new_state ''search-v2'' ''a'' 5 (UTC 0) 1]"
  "ps_states held_ledger = [(new_state ''search-v2'' ''a'' 5 (UTC 0) 1)\<lparr>pj_claimed_revision := Some 5, pj_claim_token := Some ''t1'',
     pj_worker_id := Some ''w1'', pj_claim_expires_at := Some (UTC 61000000), pj_status := ''claimed'', pj_commit_seq := 2,
     pj_updated_at := UTC 1000000\<rparr>]"
  "pj_completed_revision (hd (ps_states done_ledger)) = 5"
  by code_simp+

theorem projector_ledger_invariant_witness:
  "ledger_reachable ''embed'' held_ledger \<and> pj_status (hd (ps_states held_ledger)) = ''claimed'' \<and>
   (\<exists>tok c. pj_claim_token (hd (ps_states held_ledger)) = Some tok \<and> pj_claimed_revision (hd (ps_states held_ledger)) = Some c \<and>
      c \<le> pj_desired_revision (hd (ps_states held_ledger)))"
  using projector_ledger_invariant[OF demo_ledger_reachable(2)] demo_ledger_reachable(2)
  by (simp add: demo_ledger_rows)

theorem ledger_refines_jobs_witness:
  "job_of held_ledger ''search-v2'' ''a'' = Some \<lparr>jb_wanted = 5, jb_done = 0, jb_holder = Some (''t1'', 5)\<rparr> \<and>
   job_of done_ledger ''search-v2'' ''a'' = Some \<lparr>jb_wanted = 5, jb_done = 5, jb_holder = None\<rparr> \<and>
   job_step (job_of held_ledger ''search-v2'' ''a'') (job_of done_ledger ''search-v2'' ''a'')"
proof -
  obtain x where x: "run_projector ''embed'' (Complete_claim ''search-v2'' ''a'' ''t1'' 5) (UTC 2000000) held_ledger = Inr (x, done_ledger)"
    using demo_ledger_runs(3) by blast
  have "job_of held_ledger ''search-v2'' ''a'' = Some \<lparr>jb_wanted = 5, jb_done = 0, jb_holder = Some (''t1'', 5)\<rparr>"
    "job_of done_ledger ''search-v2'' ''a'' = Some \<lparr>jb_wanted = 5, jb_done = 5, jb_holder = None\<rparr>" by code_simp+
  with ledger_refines_jobs[OF demo_ledger_reachable(2) x, of "''search-v2''" "''a''"] show ?thesis by blast
qed

theorem claims_are_exclusive_witness:
  "\<exists>x s'. run_projector ''embed'' (Complete_claim ''search-v2'' ''a'' ''t0'' 5) (UTC 2000000) held_ledger = Inr (x, s') \<and>
     hd (ps_states held_ledger) \<in> set (ps_states s')"
proof -
  let ?q = "Complete_claim ''search-v2'' ''a'' ''t0'' 5"
  have "\<not> isl (run_projector ''embed'' ?q (UTC 2000000) held_ledger)" by code_simp
  then obtain x s' where run: "run_projector ''embed'' ?q (UTC 2000000) held_ledger = Inr (x, s')"
    by (cases "run_projector ''embed'' ?q (UTC 2000000) held_ledger") auto
  have "hd (ps_states held_ledger) \<in> set (ps_states held_ledger)" "by_another ?q (hd (ps_states held_ledger))"
    by (simp_all add: demo_ledger_rows)
  from claims_are_exclusive[OF demo_ledger_reachable(2) this run] run show ?thesis by blast
qed

theorem lagging_work_gets_done_witness:
  "\<exists>s1 final s2. claim_projector_lag ''embed'' (demo_claim ''w1'' ''t1'' 1000000) (UTC 1000000) wanted_ledger = Inr s1 \<and>
     complete_projector_claim ''search-v2'' ''a'' ''t1'' 5 (UTC 2000000) (snd s1) = Inr (Finished True final, s2) \<and>
     pj_completed_revision final = 5"
proof -
  let ?a = "demo_claim ''w1'' ''t1'' 1000000" and ?r = "new_state ''search-v2'' ''a'' 5 (UTC 0) 1"
  have h: "?r \<in> set (ps_states wanted_ledger)" "workable ''embed'' ?a wanted_ledger ?r"
    "length (ahead ''embed'' ?a wanted_ledger ?r) < ca_limit ?a" "fresh_claim ?a wanted_ledger"
    "add_ms (ca_now ?a) (ca_lease_seconds ?a * 1000) = Inr (UTC 61000000)"
    by (code_simp+)
  have v: "claim_revision ''embed'' ?a wanted_ledger ?r = 5" "ca_projector ?a = ''search-v2''" "pj_session_id ?r = ''a''"
    "ca_claim_token ?a = ''t1''" by code_simp+
  from lagging_work_gets_done[OF demo_ledger_reachable(1) h, of "UTC 1000000" "UTC 2000000"] show ?thesis
    unfolding v by (metis snd_conv)
qed

theorem ledger_requests_retry_safely_witness:
  "foldR (\<lambda>t s. bindR (run_projector ''embed'' (Complete_claim ''search-v2'' ''a'' ''t1'' 5) t s) (\<lambda>(_, s'). Inr s'))
     [UTC 2000000, UTC 3000000, UTC 9000000] held_ledger = Inr done_ledger"
proof -
  obtain x where x: "run_projector ''embed'' (Complete_claim ''search-v2'' ''a'' ''t1'' 5) (UTC 2000000) held_ledger = Inr (x, done_ledger)"
    using demo_ledger_runs(3) by blast
  have "0 \<le> cm_commit_seq (ps_meta held_ledger)" by code_simp
  from ledger_requests_retry_safely[OF demo_ledger_reachable(2) this x] show ?thesis .
qed

theorem watermark_is_sound_witness:
  "indexed_through ''search-v2'' held_ledger = 4 \<and>
   (\<exists>x \<in> set (ps_states held_ledger). pj_desired_revision x = indexed_through ''search-v2'' held_ledger + 1)"
proof -
  let ?r = "hd (ps_states held_ledger)"
  have w: "indexed_through ''search-v2'' held_ledger = 4" "ps_tombstones held_ledger = []" by code_simp+
  have h: "?r \<in> set (ps_states held_ledger)" "pj_projector ?r = ''search-v2''" "map_of (ps_tombstones held_ledger) (pj_session_id ?r) = None"
    "indexed_through ''search-v2'' held_ledger = 4" "\<not> pj_desired_revision ?r \<le> indexed_through ''search-v2'' held_ledger"
    "lagging ''search-v2'' held_ledger ?r"
    by (simp_all add: w demo_ledger_rows new_state_def lagging_def)
  have "\<exists>x \<in> set (ps_states held_ledger). lagging ''search-v2'' held_ledger x \<and>
      pj_desired_revision x = indexed_through ''search-v2'' held_ledger + 1"
    using watermark_is_sound[OF demo_ledger_reachable(2) h(1-3), unfolded if_not_P[OF h(5)]] h(1,6) by meson
  then show ?thesis using h(4) by blast
qed

end
