(* ===== verification/Live_Control.thy ===== *)
theory Live_Control
  imports Py_Store Facts_Projector
begin

text \<open>
  The command-time lease check (\<open>services/live_control_catalog.py\<close>). A control command needs the connection
  that the catalog binds to the latest open run of the session, and, on the canonical path, the exact
  agreement of that binding with the fact head it names (\<open>authorize_exact_control_fact\<close>).

  The tables are the catalog's session rows, the threads, runs and connections of \<open>kernel_db\<close>, and the fact
  heads. Stored timestamps are wall clocks in UTC, as SQLite compares them.
\<close>

record control_session =
  cs_session_id :: string
  cs_provider :: string
  cs_device_id :: "string option"
  cs_closed_at :: "pydatetime option"

record control_tables =
  cb_sessions :: "control_session list"
  cb_kernel :: kernel_db
  cb_heads :: "pydict list"

record live_grant =
  gr_catalog_connection_id :: int
  gr_connection_id :: connection_ref
  gr_run_id :: string
  gr_lease_generation :: string
  gr_identity_source :: string

definition CANONICAL_AUTH_PROVIDERS :: "string list" where
  "CANONICAL_AUTH_PROVIDERS = [''codex'', ''claude'', ''opencode'', ''cursor'', ''antigravity'']"

definition DEFAULT_MANAGED_CONTROL_LEASE_TTL_MS :: int where "DEFAULT_MANAGED_CONTROL_LEASE_TTL_MS = 900000"

subsection \<open>The latest run and its connection\<close>

text \<open>Runs joined with the primary thread of the session.\<close>

definition primary_runs :: "string \<Rightarrow> kernel_db \<Rightarrow> run_row list" where
  "primary_runs sid db = filter (\<lambda>r. list_ex (\<lambda>t. th_id t = rn_thread_id r \<and> th_session_id t = sid \<and> th_is_primary t)
     (kd_threads db)) (kd_runs db)"

definition latest_run :: "string \<Rightarrow> kernel_db \<Rightarrow> run_row option" where
  "latest_run sid db = first_row (runs_newest_first (primary_runs sid db))"

definition latest_open_run :: "string \<Rightarrow> kernel_db \<Rightarrow> run_row option" where
  "latest_open_run sid db = first_row (runs_newest_first (filter (\<lambda>r. rn_ended_at r = None) (primary_runs sid db)))"

text \<open>An unreleased, attached connection that acquired control of the run.\<close>

definition controls_run :: "run_row \<Rightarrow> connection_row \<Rightarrow> bool" where
  "controls_run r c \<longleftrightarrow> cn_run_id c = rn_id r \<and> cn_acquisition_kind c \<in> set CONTROL_ACQUISITION_KINDS \<and>
     cn_state c = ''attached'' \<and> cn_released_at c = None"

text \<open>\<open>last_health_at DESC, id DESC\<close>: SQLite sorts a missing value below every other.\<close>

definition health_order :: "connection_row \<Rightarrow> int \<times> int \<times> int" where
  "health_order c = (case cn_last_health_at c of None \<Rightarrow> (0, 0, cn_id c) | Some h \<Rightarrow> (1, dt_wall h, cn_id c))"

definition grant_order :: "connection_row \<Rightarrow> int \<times> int \<times> int \<times> int" where
  "grant_order c = (if cn_adapter_connection_id c = None then 0 else 1, health_order c)"

definition stripped :: "string option \<Rightarrow> string" where
  "stripped v = (case v of None \<Rightarrow> [] | Some s \<Rightarrow> py_strip s)"

definition adapter_grant :: "connection_row \<Rightarrow> live_grant" where
  "adapter_grant c = \<lparr>gr_catalog_connection_id = cn_id c, gr_connection_id = Ref_adapter (stripped (cn_adapter_connection_id c)),
     gr_run_id = cn_run_id c, gr_lease_generation = stripped (cn_lease_generation c), gr_identity_source = ''adapter_bound''\<rparr>"

definition synthetic_grant :: "connection_row \<Rightarrow> live_grant" where
  "synthetic_grant c = \<lparr>gr_catalog_connection_id = cn_id c, gr_connection_id = Ref_id (cn_id c), gr_run_id = cn_run_id c,
     gr_lease_generation = (case normalize_utc (cn_acquired_at c) of
         None \<Rightarrow> py_str (PInt (cn_id c))
       | Some t \<Rightarrow> py_str (PInt (cn_id c)) @ '':'' @ iso_with_sep ''T'' (utc_dt t)),
     gr_identity_source = ''legacy_synthetic''\<rparr>"

definition capability_column :: "string \<Rightarrow> (connection_row \<Rightarrow> int) option" where
  "capability_column capability = map_of [(''send'', cn_can_send_input), (''interrupt'', cn_can_interrupt),
     (''terminate'', cn_can_terminate)] capability"

definition healthy_since :: "instant \<Rightarrow> connection_row \<Rightarrow> bool" where
  "healthy_since cutoff c = (case cn_last_health_at c of None \<Rightarrow> False | Some h \<Rightarrow> dt_wall h > utc_us cutoff)"

definition grant_of_row :: "connection_row \<Rightarrow> live_grant option" where
  "grant_of_row c =
     (let adapter = stripped (cn_adapter_connection_id c); generation = stripped (cn_lease_generation c) in
      if (adapter \<noteq> []) \<noteq> (generation \<noteq> []) then None
      else if adapter \<noteq> [] then Some (adapter_grant c) else Some (synthetic_grant c))"

definition get_live_control_grant :: "string \<Rightarrow> string \<Rightarrow> instant \<Rightarrow> kernel_db \<Rightarrow> live_grant option res" where
  "get_live_control_grant sid capability now db = (case capability_column capability of
       None \<Rightarrow> Inl (ValueError (''unknown live control capability: '' @ capability))
     | Some column \<Rightarrow> bindR (add_ms now (- DEFAULT_MANAGED_CONTROL_LEASE_TTL_MS)) (\<lambda>cutoff.
         Inr (case latest_open_run sid db of
                None \<Rightarrow> None
              | Some r \<Rightarrow> (case first_row (rev (sort_key grant_order
                    (filter (\<lambda>c. controls_run r c \<and> healthy_since cutoff c \<and> column c = 1) (kd_connections db)))) of
                  None \<Rightarrow> None
                | Some c \<Rightarrow> grant_of_row c))))"

definition bound_to_adapter :: "connection_row \<Rightarrow> bool" where
  "bound_to_adapter c \<longleftrightarrow> cn_adapter_connection_id c \<noteq> None \<and> cn_lease_generation c \<noteq> None"

definition get_bound_live_control_identity :: "string \<Rightarrow> kernel_db \<Rightarrow> live_grant option" where
  "get_bound_live_control_identity sid db = (case latest_open_run sid db of
       None \<Rightarrow> None
     | Some r \<Rightarrow> (case first_row (rev (sort_key health_order
           (filter (\<lambda>c. controls_run r c \<and> bound_to_adapter c) (kd_connections db)))) of
         None \<Rightarrow> None
       | Some c \<Rightarrow> (if stripped (cn_adapter_connection_id c) = [] \<or> stripped (cn_lease_generation c) = [] then None
                     else Some (adapter_grant c))))"

subsection \<open>Authorization of a command\<close>

definition live_control_command_block_reason :: "string \<Rightarrow> control_tables \<Rightarrow> string option" where
  "live_control_command_block_reason sid tb = (case find (\<lambda>s. cs_session_id s = sid) (cb_sessions tb) of
       None \<Rightarrow> Some ''control_unavailable''
     | Some s \<Rightarrow>
         (if cs_closed_at s \<noteq> None then Some ''session_closed''
          else case latest_run sid (cb_kernel tb) of
                 None \<Rightarrow> None
               | Some r \<Rightarrow> (if rn_ended_at r \<noteq> None then Some ''run_ended'' else None)))"

definition capability_operation :: "string \<Rightarrow> control_operation option" where
  "capability_operation capability = map_of [(''send'', Op_send_input), (''interrupt'', Op_interrupt), (''terminate'', Op_terminate)] capability"

definition contract_operations :: "provider_contract \<Rightarrow> string list" where
  "contract_operations c = filter (\<lambda>op. supports_contract_operation c (if op = ''resume'' then ''can_resume'' else op))
     [''send_input'', ''interrupt'', ''terminate'', ''tail_output'', ''resume'']"

definition head_text :: "pydict \<Rightarrow> string \<Rightarrow> string" where
  "head_text h k = (case dget h k of PStr s \<Rightarrow> s | _ \<Rightarrow> [])"

definition grant_connection :: "live_grant \<Rightarrow> string" where
  "grant_connection g = (case gr_connection_id g of Ref_adapter a \<Rightarrow> a | Ref_id n \<Rightarrow> py_str (PInt n))"

definition grant_target :: "string \<Rightarrow> string \<Rightarrow> control_operation \<Rightarrow> live_grant \<Rightarrow> control_target" where
  "grant_target sid provider op g = \<lparr>ct_session_id = sid, ct_run_id = gr_run_id g, ct_provider = provider,
     ct_connection_id = grant_connection g, ct_lease_generation = gr_lease_generation g, ct_operation = op\<rparr>"

definition grant_heads :: "control_target \<Rightarrow> pydict list \<Rightarrow> pydict list" where
  "grant_heads t heads = sort_key (\<lambda>h. (head_text h ''source'', head_text h ''source_epoch''))
     (filter (\<lambda>h. dget h ''family'' = PStr ''control'' \<and> dget h ''subject_key'' = PStr (target_subject t)) heads)"

type_synonym grant_answer = "live_grant option \<times> string option"

definition no_grant :: "string \<Rightarrow> grant_answer" where "no_grant reason = (None, Some reason)"

definition authorize_grant ::
  "pylib \<Rightarrow> string \<Rightarrow> string \<Rightarrow> control_operation \<Rightarrow> provider_contract \<Rightarrow> pydict list \<Rightarrow> instant \<Rightarrow> live_grant \<Rightarrow> grant_answer res" where
  "authorize_grant lib sid provider op c heads now g =
     (let t = grant_target sid provider op g in
      bindR (authorize_exact_control_fact lib t (grant_heads t heads) (contract_operations c) (utc_dt now)) (\<lambda>a.
      Inr (if au_allowed a then (Some g, None)
           else no_grant (case or_none (au_reason a) of None \<Rightarrow> ''control_unavailable'' | Some r \<Rightarrow> r))))"

definition device_differs :: "string \<Rightarrow> control_session \<Rightarrow> bool" where
  "device_differs device s \<longleftrightarrow> device \<noteq> [] \<and> stripped (cs_device_id s) \<noteq> py_strip device"

definition get_canonical_live_control_grant ::
  "pylib \<Rightarrow> registry \<Rightarrow> string \<Rightarrow> string \<Rightarrow> string \<Rightarrow> string \<Rightarrow> instant \<Rightarrow> control_tables \<Rightarrow> grant_answer res" where
  "get_canonical_live_control_grant lib reg sid provider device capability now tb =
     (let key = py_lower (py_strip provider) in
      case (capability_operation capability, contract_for_provider reg (Some key)) of
        (Some op, Some c) \<Rightarrow>
          (if key \<notin> set CANONICAL_AUTH_PROVIDERS \<or> \<not> supports_contract_operation c (operation_name op) then Inr (no_grant ''unsupported'')
           else case live_control_command_block_reason sid tb of
             Some reason \<Rightarrow> Inr (no_grant reason)
           | None \<Rightarrow>
             (case find (\<lambda>s. cs_session_id s = sid) (cb_sessions tb) of
                None \<Rightarrow> Inr (no_grant ''control_unavailable'')
              | Some s \<Rightarrow>
                (if py_lower (py_strip (cs_provider s)) \<noteq> key \<or> device_differs device s then Inr (no_grant ''identity_diverged'')
                 else case get_bound_live_control_identity sid (cb_kernel tb) of
                        None \<Rightarrow> Inr (no_grant ''identity_unbound'')
                      | Some g \<Rightarrow> authorize_grant lib sid key op c (cb_heads tb) now g)))
      | _ \<Rightarrow> Inr (no_grant ''unsupported''))"

end
