(* ===== verification/Control_Operations.thy ===== *)
theory Control_Operations
  imports Catalog_Meta Live_Control
begin

text \<open>
  The lifecycle of machine-control operations (\<open>catalogd/store.py\<close>, \<open>services/machine_control_operations.py\<close>,
  table \<open>LiveMachineControlOperation\<close>). A command is reserved as a running operation before it is sent; a
  result, an explicit finish or the end of its lease makes it terminal.

  JSON columns are kept as the value they encode. \<open>observed_at\<close> is the \<open>datetime.now\<close> of the transaction.
\<close>

record operation_row =
  op_id :: string
  op_owner_id :: "int option"
  op_session_id :: "string option"
  op_device_id :: string
  op_command_type :: string
  op_command_id :: string
  op_provider :: "string option"
  op_status :: string
  op_request :: pydict
  op_result :: "pydict option"
  op_error :: "pydict option"
  op_timeout_secs :: int
  op_created_at :: instant
  op_started_at :: "instant option"
  op_finished_at :: "instant option"
  op_updated_at :: instant
  op_expires_at :: "instant option"

record operation_store =
  os_operations :: "operation_row list"
  os_meta :: catalog_meta

definition MACHINE_OPERATION_TIMEOUT_GRACE_SECS :: int where "MACHINE_OPERATION_TIMEOUT_GRACE_SECS = 30"
definition NONTERMINAL_OPERATION_STATUSES :: "string list" where "NONTERMINAL_OPERATION_STATUSES = [''queued'', ''running'']"
definition TERMINAL_OPERATION_STATUSES :: "string list" where
  "TERMINAL_OPERATION_STATUSES = [''succeeded'', ''failed'', ''timed_out'']"

datatype operation_reply =
    Result_matched bool
  | Command_denied string
  | Command_refused string
  | Command_replayed string pydict
  | Command_allowed string pydict
  | Operation_missing
  | Operation_finished bool
  | Operations_reaped nat
  | Machine_existing bool "operation_row option"
  | Machine_busy operation_row
  | Machine_created operation_row
  | Operation_read operation_row

type_synonym operation_result = "(operation_reply \<times> operation_store) res"

definition replied :: "operation_reply \<Rightarrow> operation_store \<Rightarrow> operation_result" where
  "replied reply s = bindR (current_seq (os_meta s)) (\<lambda>_. Inr (reply, s))"

definition recorded :: "instant \<Rightarrow> operation_reply \<Rightarrow> operation_row list \<Rightarrow> operation_store \<Rightarrow> operation_result" where
  "recorded now reply rows s = Inr (reply, s\<lparr>os_operations := rows, os_meta := snd (advance_seq now (os_meta s))\<rparr>)"

definition is_terminal :: "operation_row \<Rightarrow> bool" where
  "is_terminal r \<longleftrightarrow> op_status r \<in> set TERMINAL_OPERATION_STATUSES"

definition by_command :: "string \<Rightarrow> operation_row list \<Rightarrow> operation_row option" where
  "by_command c rows = find (\<lambda>r. op_command_id r = c) rows"

subsection \<open>Reporting\<close>

definition text_or :: "pyval \<Rightarrow> string \<Rightarrow> string" where
  "text_or v d = (if truthy v then py_str v else d)"

definition result_error :: "pydict \<Rightarrow> pydict" where
  "result_error e = [(''code'', PStr (text_or (dget e ''code'') ''machine_control_operation_failed'')),
     (''message'', PStr (text_or (dget e ''message'') ''Machine Agent control command failed''))]"

text \<open>A result of the machine: its verdict, and the result or error object (empty when it sent none).\<close>

record command_result =
  cr_command_id :: string
  cr_ok :: bool
  cr_result :: pydict
  cr_error :: pydict

definition settle_operation :: "command_result \<Rightarrow> instant \<Rightarrow> operation_row \<Rightarrow> operation_row" where
  "settle_operation m now r =
     (let r1 = r\<lparr>op_finished_at := Some now, op_updated_at := now, op_expires_at := None\<rparr> in
      if cr_ok m then r1\<lparr>op_status := ''succeeded'', op_result := Some (cr_result m), op_error := None\<rparr>
      else r1\<lparr>op_status := ''failed'', op_error := Some (result_error (cr_error m))\<rparr>)"

definition apply_control_command_result ::
  "int \<Rightarrow> string \<Rightarrow> command_result \<Rightarrow> instant \<Rightarrow> operation_store \<Rightarrow> operation_result" where
  "apply_control_command_result owner device m observed_at s =
     (case find (\<lambda>r. op_command_id r = cr_command_id m \<and> op_owner_id r = Some owner \<and> op_device_id r = device) (os_operations s) of
        None \<Rightarrow> replied (Result_matched False) s
      | Some r \<Rightarrow>
          (if is_terminal r then replied (Result_matched True) s
           else recorded observed_at (Result_matched True)
                  (update_where (\<lambda>x. op_id x = op_id r) (settle_operation m observed_at) (os_operations s)) s))"

definition finish_operation ::
  "string \<Rightarrow> pydict option \<Rightarrow> pydict option \<Rightarrow> instant \<Rightarrow> operation_row \<Rightarrow> operation_row" where
  "finish_operation status result err now r = r\<lparr>op_status := status, op_result := result, op_error := err,
     op_finished_at := Some now, op_updated_at := now, op_expires_at := None\<rparr>"

definition finish_control_operation ::
  "string \<Rightarrow> string \<Rightarrow> pydict option \<Rightarrow> pydict option \<Rightarrow> instant \<Rightarrow> operation_store \<Rightarrow> operation_result" where
  "finish_control_operation i status result err observed_at s =
     (case find (\<lambda>r. op_id r = i) (os_operations s) of
        None \<Rightarrow> replied Operation_missing s
      | Some r \<Rightarrow>
          (if is_terminal r then replied (Operation_finished False) s
           else recorded observed_at (Operation_finished True)
                  (update_where (\<lambda>x. op_id x = i) (finish_operation status result err observed_at) (os_operations s)) s))"

subsection \<open>Leases that ran out\<close>

definition lease_over :: "instant \<Rightarrow> operation_row \<Rightarrow> bool" where
  "lease_over now r \<longleftrightarrow> op_status r \<in> set NONTERMINAL_OPERATION_STATUSES \<and>
     (case op_expires_at r of None \<Rightarrow> False | Some t \<Rightarrow> t \<le> now)"

definition time_out :: "instant \<Rightarrow> operation_row \<Rightarrow> operation_row" where
  "time_out now r = r\<lparr>op_status := ''timed_out'',
     op_error := Some [(''code'', PStr ''machine_control_operation_timeout''),
       (''message'', PStr ''Machine Agent did not report back before the operation lease expired'')],
     op_finished_at := (case op_expires_at r of None \<Rightarrow> Some now | Some t \<Rightarrow> Some t), op_updated_at := now,
     op_expires_at := None\<rparr>"

definition reap_rows :: "instant \<Rightarrow> operation_row list \<Rightarrow> nat \<times> operation_row list" where
  "reap_rows now rows = (length (filter (lease_over now) rows), update_where (lease_over now) (time_out now) rows)"

definition reap_stale_control_operations :: "instant \<Rightarrow> operation_store \<Rightarrow> operation_result" where
  "reap_stale_control_operations now s = (case reap_rows now (os_operations s) of (n, rows) \<Rightarrow>
     if n = 0 then replied (Operations_reaped 0) s else recorded now (Operations_reaped n) rows s)"

definition read_machine_operation :: "int \<Rightarrow> string \<Rightarrow> instant \<Rightarrow> operation_store \<Rightarrow> operation_result" where
  "read_machine_operation owner i observed_at s =
     (case find (\<lambda>r. op_id r = i \<and> op_owner_id r = Some owner) (os_operations s) of
        None \<Rightarrow> replied Operation_missing s
      | Some r \<Rightarrow>
          (if lease_over observed_at r
           then recorded observed_at (Operation_read (time_out observed_at r))
                  (update_where (\<lambda>x. op_id x = i) (time_out observed_at) (os_operations s)) s
           else replied (Operation_read r) s))"

subsection \<open>Reserving\<close>

text \<open>
  The primary key, the unique command id, and the unique index on active live proofs of one target.
\<close>

definition active_proof :: "operation_row \<Rightarrow> bool" where
  "active_proof r \<longleftrightarrow> op_status r \<in> set NONTERMINAL_OPERATION_STATUSES \<and> op_provider r \<noteq> None \<and> op_command_type r = ''provider.live_proof''"

definition clashes :: "operation_row \<Rightarrow> operation_row \<Rightarrow> bool" where
  "clashes n r \<longleftrightarrow> op_id r = op_id n \<or> op_command_id r = op_command_id n \<or>
     active_proof n \<and> active_proof r \<and> op_owner_id n \<noteq> None \<and> op_owner_id r = op_owner_id n \<and> op_device_id r = op_device_id n \<and>
     op_provider r = op_provider n \<and> op_command_type r = op_command_type n"

definition insert_operation :: "operation_row \<Rightarrow> operation_row list \<Rightarrow> operation_row list res" where
  "insert_operation n rows = (if list_ex (clashes n) rows then Inl (IntegrityError ''live_machine_control_operations'')
     else Inr (rows @ [n]))"

record operation_args =
  oa_operation_id :: string
  oa_owner_id :: int
  oa_session_id :: "string option"
  oa_device_id :: string
  oa_provider :: string
  oa_command_type :: string
  oa_command_id :: string
  oa_request :: pydict
  oa_timeout_secs :: int

definition running_operation :: "operation_args \<Rightarrow> pydict \<Rightarrow> instant \<Rightarrow> operation_row res" where
  "running_operation a request now =
     bindR (add_ms now ((oa_timeout_secs a + MACHINE_OPERATION_TIMEOUT_GRACE_SECS) * 1000)) (\<lambda>t.
     Inr \<lparr>op_id = oa_operation_id a, op_owner_id = Some (oa_owner_id a), op_session_id = oa_session_id a,
       op_device_id = oa_device_id a, op_command_type = oa_command_type a, op_command_id = oa_command_id a,
       op_provider = Some (oa_provider a), op_status = ''running'', op_request = request, op_result = None, op_error = None,
       op_timeout_secs = oa_timeout_secs a, op_created_at = now, op_started_at = Some now, op_finished_at = None,
       op_updated_at = now, op_expires_at = Some t\<rparr>)"

definition or_blank :: "string option \<Rightarrow> string" where
  "or_blank v = (case v of None \<Rightarrow> [] | Some p \<Rightarrow> p)"

text \<open>The fields both reservations compare to recognize their own request.\<close>

definition same_command :: "operation_args \<Rightarrow> operation_row \<Rightarrow> bool" where
  "same_command a r \<longleftrightarrow> op_id r = oa_operation_id a \<and> op_owner_id r = Some (oa_owner_id a) \<and> op_device_id r = oa_device_id a \<and>
     or_blank (op_provider r) = oa_provider a \<and> op_command_type r = oa_command_type a \<and>
     op_timeout_secs r = oa_timeout_secs a"

definition GRANT_KEY :: string where "GRANT_KEY = ''longhouse_control_grant''"

definition live_control_grant_payload :: "live_grant \<Rightarrow> pydict" where
  "live_control_grant_payload g = [(''connection_id'', (case gr_connection_id g of Ref_adapter a \<Rightarrow> PStr a | Ref_id n \<Rightarrow> PInt n)),
     (''catalog_connection_id'', PInt (gr_catalog_connection_id g)), (''run_id'', PStr (gr_run_id g)),
     (''lease_generation'', PStr (gr_lease_generation g)), (''identity_source'', PStr (gr_identity_source g))]"

fun is_int :: "pyval \<Rightarrow> bool" where
  "is_int (PInt n) = True"
| "is_int (PBool b) = True"
| "is_int v = False"

definition stored_live_control_grant_matches :: "pydict \<Rightarrow> pydict \<Rightarrow> bool" where
  "stored_live_control_grant_matches stored current =
     (let connection = dget stored ''connection_id'';
          legacy = (dget stored ''catalog_connection_id'' = PNone \<and> is_int connection);
          catalog = (if legacy then connection else dget stored ''catalog_connection_id'');
          source = (if legacy then ''legacy_synthetic'' else py_strip (text_or (dget stored ''identity_source'') [])) in
      is_int catalog \<and> py_eq catalog (dget current ''catalog_connection_id'') \<and>
      py_str connection = py_str (dget current ''connection_id'') \<and>
      PStr (text_or (dget stored ''run_id'') []) = dget current ''run_id'' \<and>
      PStr (text_or (dget stored ''lease_generation'') []) = dget current ''lease_generation'' \<and>
      PStr source = dget current ''identity_source'')"

text \<open>
  \<open>grant\<close> is the answer of \<open>get_canonical_live_control_grant\<close> in the same transaction; it is asked for only
  where the code calls \<open>resolve_grant\<close>.
\<close>

definition replay_command ::
  "operation_args \<Rightarrow> grant_answer res \<Rightarrow> operation_row \<Rightarrow> operation_store \<Rightarrow> operation_result" where
  "replay_command a grant r s =
     (let stored = AList.delete GRANT_KEY (op_request r) in
      case dget (op_request r) GRANT_KEY of
        PDict stored_grant \<Rightarrow>
          (if \<not> (same_command a r \<and> or_blank (op_session_id r) = or_blank (oa_session_id a) \<and> dict_eq stored (oa_request a))
           then replied (Command_refused ''idempotency_conflict'') s
           else if op_status r \<noteq> ''running'' then replied (Command_refused ''operation_finished'') s
           else bindR grant (\<lambda>(g, reason).
             case g of
               None \<Rightarrow> replied (Command_refused (case or_none reason of None \<Rightarrow> ''grant_revoked'' | Some x \<Rightarrow> x)) s
             | Some g \<Rightarrow>
                 (if stored_live_control_grant_matches stored_grant (live_control_grant_payload g)
                  then replied (Command_replayed (op_id r) (live_control_grant_payload g)) s
                  else replied (Command_refused (case or_none reason of None \<Rightarrow> ''grant_revoked'' | Some x \<Rightarrow> x)) s)))
      | _ \<Rightarrow> replied (Command_refused ''idempotency_conflict'') s)"

definition prepare_control_command ::
  "operation_args \<Rightarrow> grant_answer res \<Rightarrow> instant \<Rightarrow> operation_store \<Rightarrow> operation_result" where
  "prepare_control_command a grant observed_at s =
     (case by_command (oa_command_id a) (os_operations s) of
        Some r \<Rightarrow> replay_command a grant r s
      | None \<Rightarrow> bindR grant (\<lambda>(g, reason).
          case g of
            None \<Rightarrow> replied (Command_denied (case or_none reason of None \<Rightarrow> ''control_unavailable'' | Some x \<Rightarrow> x)) s
          | Some g \<Rightarrow>
              let payload = live_control_grant_payload g in
              bindR (running_operation a (AList.update GRANT_KEY (PDict payload) (oa_request a)) observed_at) (\<lambda>n.
              bindR (insert_operation n (os_operations s)) (\<lambda>rows.
              recorded observed_at (Command_allowed (oa_operation_id a) payload) rows s))))"

definition same_target :: "operation_args \<Rightarrow> operation_row \<Rightarrow> bool" where
  "same_target a r \<longleftrightarrow> op_owner_id r = Some (oa_owner_id a) \<and> op_device_id r = oa_device_id a \<and>
     op_provider r = Some (oa_provider a) \<and> op_command_type r = oa_command_type a \<and>
     op_status r \<in> set NONTERMINAL_OPERATION_STATUSES"

text \<open>\<open>created_at DESC\<close>: of equal times SQLite may return any; the list order stands for its choice.\<close>

definition active_operation :: "operation_args \<Rightarrow> operation_row list \<Rightarrow> operation_row option" where
  "active_operation a rows = first_row (rev (sort_key (\<lambda>r. utc_us (op_created_at r)) (filter (same_target a) rows)))"

definition reaped_answer :: "instant \<Rightarrow> nat \<Rightarrow> operation_reply \<Rightarrow> operation_row list \<Rightarrow> operation_store \<Rightarrow> operation_result" where
  "reaped_answer now n reply rows s = (if n = 0 then replied reply s else recorded now reply rows s)"

definition prepare_machine_operation :: "operation_args \<Rightarrow> instant \<Rightarrow> operation_store \<Rightarrow> operation_result" where
  "prepare_machine_operation a observed_at s = (case reap_rows observed_at (os_operations s) of (n, rows) \<Rightarrow>
     (case by_command (oa_command_id a) rows of
        Some r \<Rightarrow>
          (let replay = (same_command a r \<and> dict_eq (op_request r) (oa_request a)) in
           reaped_answer observed_at n (Machine_existing replay (if replay then Some r else None)) rows s)
      | None \<Rightarrow>
          (case active_operation a rows of
             Some r \<Rightarrow> reaped_answer observed_at n (Machine_busy r) rows s
           | None \<Rightarrow>
               bindR (running_operation a (oa_request a) observed_at) (\<lambda>new_row.
               bindR (insert_operation new_row rows) (\<lambda>rows'.
               recorded observed_at (Machine_created new_row) rows' s)))))"

end
