(* ===== verification/Operation_Properties.thy ===== *)
theory Operation_Properties
  imports Control_Operations Projector_Properties
begin

text \<open>
  Control operations over any sequence of requests: each request settles open operations or reserves one
  more. On that rest the invariant of the table, the finality of a verdict, the end of every lease, and the
  authorization behind every reserved command.
\<close>

datatype operation_request =
    Apply_result int string command_result
  | Prepare_command operation_args "grant_answer res"
  | Finish_operation string string "pydict option" "pydict option"
  | Reap_operations
  | Prepare_machine operation_args
  | Read_operation int string

fun run_operation :: "operation_request \<Rightarrow> instant \<Rightarrow> operation_store \<Rightarrow> operation_result" where
  "run_operation (Apply_result owner device m) t s = apply_control_command_result owner device m t s"
| "run_operation (Prepare_command a g) t s = prepare_control_command a g t s"
| "run_operation (Finish_operation i status res err) t s = finish_control_operation i status res err t s"
| "run_operation Reap_operations t s = reap_stale_control_operations t s"
| "run_operation (Prepare_machine a) t s = prepare_machine_operation a t s"
| "run_operation (Read_operation owner i) t s = read_machine_operation owner i t s"

text \<open>The server only lets terminal verdicts through.\<close>

fun verdict_ok :: "operation_request \<Rightarrow> bool" where
  "verdict_ok (Finish_operation i status res err) \<longleftrightarrow> status \<in> set TERMINAL_OPERATION_STATUSES"
| "verdict_ok q \<longleftrightarrow> True"

lemma replied_Inr [simp]: "replied reply s = Inr (r, s') \<longleftrightarrow> 0 \<le> cm_commit_seq (os_meta s) \<and> r = reply \<and> s' = s"
  by (auto simp: replied_def)

lemma recorded_Inr [simp]: "recorded now reply rows s = Inr (r, s') \<longleftrightarrow>
    r = reply \<and> s' = s\<lparr>os_operations := rows, os_meta := snd (advance_seq now (os_meta s))\<rparr>"
  by (auto simp: recorded_def)

lemmas statuses = TERMINAL_OPERATION_STATUSES_def NONTERMINAL_OPERATION_STATUSES_def is_terminal_def

subsection \<open>Steps\<close>

definition op_keys :: "operation_row \<Rightarrow> string \<times> string" where
  "op_keys r = (op_id r, op_command_id r)"

inductive op_step :: "operation_row \<Rightarrow> operation_row \<Rightarrow> bool" for r where
  settle: "\<not> is_terminal r \<Longrightarrow> op_step r (settle_operation m t r)"
| finish: "\<not> is_terminal r \<Longrightarrow> status \<in> set TERMINAL_OPERATION_STATUSES \<Longrightarrow> op_step r (finish_operation status res err t r)"
| time_out: "lease_over t r \<Longrightarrow> op_step r (time_out t r)"

definition op_moved :: "operation_row list \<Rightarrow> operation_row list \<Rightarrow> bool" where
  "op_moved rows rows' \<longleftrightarrow> (\<exists>g. rows' = map g rows \<and> (\<forall>r \<in> set rows. g r = r \<or> op_step r (g r)))"

definition op_change :: "operation_row list \<Rightarrow> operation_row list \<Rightarrow> bool" where
  "op_change rows rows' \<longleftrightarrow> (\<exists>mid. op_moved rows mid \<and> (rows' = mid \<or>
     (\<exists>a request now n. running_operation a request now = Inr n \<and> rows' = mid @ [n] \<and> \<not> list_ex (clashes n) mid)))"

lemma op_moved_refl [simp]: "op_moved rows rows"
  by (auto simp: op_moved_def intro!: exI[of _ id])

lemma op_moved_update: "(\<And>r. r \<in> set rows \<Longrightarrow> P r \<Longrightarrow> op_step r (f r)) \<Longrightarrow> op_moved rows (update_where P f rows)"
  unfolding op_moved_def update_where_def by (intro exI[of _ "\<lambda>r. if P r then f r else r"]) auto

lemma op_change_refl [simp]: "op_change rows rows"
  unfolding op_change_def using op_moved_refl by blast

lemma op_change_update: "(\<And>r. r \<in> set rows \<Longrightarrow> P r \<Longrightarrow> op_step r (f r)) \<Longrightarrow> op_change rows (update_where P f rows)"
  using op_moved_update unfolding op_change_def by blast

lemma op_id_unique: "distinct (map op_id rows) \<Longrightarrow> r \<in> set rows \<Longrightarrow> x \<in> set rows \<Longrightarrow> op_id x = op_id r \<Longrightarrow> x = r"
  by (auto simp: distinct_map dest: inj_onD)

lemma step_by_id:
  assumes "distinct (map op_id (os_operations s))" and "r \<in> set (os_operations s)" and "op_step r (f r)"
  shows "op_change (os_operations s) (update_where (\<lambda>x. op_id x = op_id r) f (os_operations s))"
  using op_id_unique[OF assms(1,2)] assms(3) by (intro op_change_update) auto

lemma reap_moved: "op_moved rows (snd (reap_rows now rows))"
  by (auto simp: reap_rows_def intro!: op_moved_update op_step.time_out)

lemma reserve_change:
  assumes "op_moved rows mid" and "running_operation a request now = Inr n" and "insert_operation n mid = Inr rows'"
  shows "op_change rows rows'"
  using assms unfolding op_change_def insert_operation_def by (auto split: if_splits)

lemma run_operation_change:
  assumes ids: "distinct (map op_id (os_operations s))" and "verdict_ok q" and "run_operation q t s = Inr (reply, s')"
  shows "op_change (os_operations s) (os_operations s')"
proof (cases q)
  case (Apply_result owner device m)
  show ?thesis using assms(3) step_by_id[OF ids, of _ "settle_operation m t"]
    unfolding Apply_result by (auto simp: apply_control_command_result_def split: option.splits if_splits dest!: find_mem intro: op_step.settle)
next
  case (Prepare_command a g)
  have new: "op_change (os_operations s) rows'"
    if "running_operation a request t = Inr n" "insert_operation n (os_operations s) = Inr rows'" for request n rows'
    by (rule reserve_change[OF op_moved_refl that])
  show ?thesis using assms(3) new unfolding Prepare_command
    by (auto simp: prepare_control_command_def replay_command_def Let_def split: option.splits if_splits pyval.splits)
next
  case (Finish_operation i status res err)
  show ?thesis using assms(2,3) step_by_id[OF ids, of _ "finish_operation status res err t"] unfolding Finish_operation
    by (auto simp: finish_control_operation_def split: option.splits if_splits dest!: find_mem intro: op_step.finish)
next
  case Reap_operations
  obtain n rows where reap: "reap_rows t (os_operations s) = (n, rows)" by (cases "reap_rows t (os_operations s)")
  then have "op_change (os_operations s) rows" using reap_moved[of "os_operations s" t] unfolding op_change_def by auto
  then show ?thesis using assms(3) reap unfolding Reap_operations
    by (auto simp: reap_stale_control_operations_def split: if_splits)
next
  case (Prepare_machine a)
  obtain n rows where reap: "reap_rows t (os_operations s) = (n, rows)" by (cases "reap_rows t (os_operations s)")
  have moved: "op_moved (os_operations s) rows" using reap_moved[of "os_operations s" t] reap by simp
  then have kept: "op_change (os_operations s) rows" by (auto simp: op_change_def)
  have new: "op_change (os_operations s) rows'"
    if "running_operation a request t = Inr n" "insert_operation n rows = Inr rows'" for request n rows'
    by (rule reserve_change[OF moved that])
  show ?thesis using assms(3) new kept reap unfolding Prepare_machine
    by (auto simp: prepare_machine_operation_def reaped_answer_def Let_def split: option.splits if_splits)
next
  case (Read_operation owner i)
  show ?thesis using assms(3) step_by_id[OF ids, of _ "time_out t"] unfolding Read_operation
    by (auto simp: read_machine_operation_def split: option.splits if_splits dest!: find_mem intro: op_step.time_out)
qed

text \<open>A result keeps the commit contract when it writes under a new commit or not at all.\<close>

definition committed_well :: "operation_store \<Rightarrow> operation_result \<Rightarrow> bool" where
  "committed_well s res \<longleftrightarrow> (\<forall>r s'. res = Inr (r, s') \<longrightarrow> cm_commit_seq (os_meta s') = cm_commit_seq (os_meta s) \<and> os_operations s' = os_operations s \<or>
     cm_commit_seq (os_meta s') = cm_commit_seq (os_meta s) + 1)"

lemma committed_well_simps [simp]: "committed_well s (replied reply s)" "committed_well s (recorded now reply rows s)"
  by (auto simp: committed_well_def)

lemma committed_well_bind [intro!]: "(\<And>y. x = Inr y \<Longrightarrow> committed_well s (f y)) \<Longrightarrow> committed_well s (bindR x f)"
  by (auto simp: committed_well_def)

lemma run_operation_commits: "committed_well s (run_operation q t s)"
  by (cases q) (auto simp: apply_control_command_result_def prepare_control_command_def replay_command_def finish_control_operation_def
        reap_stale_control_operations_def prepare_machine_operation_def reaped_answer_def read_machine_operation_def Let_def
        split: option.split pyval.split prod.split intro!: committed_well_bind)

interpretation operations: catalog_operation "\<lambda>(q, t). run_operation q t" "\<lambda>s. cm_commit_seq (os_meta s)" os_operations
proof
  fix qt s r s'
  assume "(case qt of (q, t) \<Rightarrow> run_operation q t) s = Inr (r, s')"
  then show "cm_commit_seq (os_meta s') = cm_commit_seq (os_meta s) \<and> os_operations s' = os_operations s \<or>
    cm_commit_seq (os_meta s') = cm_commit_seq (os_meta s) + 1"
    using run_operation_commits[of s "fst qt" "snd qt"] unfolding committed_well_def by (cases qt) simp
qed

subsection \<open>The invariant\<close>

definition op_ok :: "operation_row \<Rightarrow> bool" where
  "op_ok r \<longleftrightarrow> op_status r \<in> set (NONTERMINAL_OPERATION_STATUSES @ TERMINAL_OPERATION_STATUSES) \<and>
     (is_terminal r \<longleftrightarrow> op_finished_at r \<noteq> None) \<and> (is_terminal r \<longleftrightarrow> op_expires_at r = None)"

definition proof_key :: "operation_row \<Rightarrow> int option \<times> string \<times> string option" where
  "proof_key r = (op_owner_id r, op_device_id r, op_provider r)"

definition ops_ok :: "operation_row list \<Rightarrow> bool" where
  "ops_ok rows \<longleftrightarrow> distinct (map op_id rows) \<and> distinct (map op_command_id rows) \<and> (\<forall>r \<in> set rows. op_ok r \<and> op_owner_id r \<noteq> None) \<and>
     (\<forall>r \<in> set rows. \<forall>x \<in> set rows. active_proof r \<longrightarrow> active_proof x \<longrightarrow> proof_key x = proof_key r \<longrightarrow> x = r)"

lemma op_step_facts:
  assumes "op_step r r'" and "op_ok r"
  shows "op_id r' = op_id r \<and> op_command_id r' = op_command_id r \<and> op_owner_id r' = op_owner_id r \<and>
    op_ok r' \<and> is_terminal r' \<and> \<not> is_terminal r \<and> \<not> active_proof r'"
  using assms
  by (induction rule: op_step.induct)
    (auto simp: settle_operation_def finish_operation_def time_out_def op_ok_def active_proof_def statuses lease_over_def Let_def
      split: option.splits)

lemma moved_ok:
  assumes moved: "op_moved rows mid" and ok: "ops_ok rows"
  shows "ops_ok mid"
proof -
  obtain g where g: "mid = map g rows" "\<And>r. r \<in> set rows \<Longrightarrow> g r = r \<or> op_step r (g r)" using moved by (auto simp: op_moved_def)
  have f: "op_id (g r) = op_id r \<and> op_command_id (g r) = op_command_id r \<and> op_owner_id (g r) = op_owner_id r \<and> op_ok (g r) \<and>
      (active_proof (g r) \<longrightarrow> g r = r)" if "r \<in> set rows" for r
    using g(2)[OF that] op_step_facts[of r "g r"] ok that by (auto simp: ops_ok_def)
  have "map op_id mid = map op_id rows" "map op_command_id mid = map op_command_id rows" unfolding g(1) using f by simp_all
  moreover have "\<forall>r \<in> set mid. op_ok r \<and> op_owner_id r \<noteq> None" unfolding g(1) using f ok by (auto simp: ops_ok_def)
  moreover have "y = x" if "x \<in> set mid" "y \<in> set mid" "active_proof x" "active_proof y" "proof_key y = proof_key x" for x y
  proof -
    have "x \<in> set rows" "y \<in> set rows" using that(1-4) f unfolding g(1) by (auto, metis+)
    then show ?thesis using ok that unfolding ops_ok_def by blast
  qed
  ultimately show ?thesis using ok unfolding ops_ok_def by auto
qed

lemma running_facts:
  assumes "running_operation a request now = Inr n"
  shows "op_ok n" "op_owner_id n = Some (oa_owner_id a)" "op_status n = ''running''" "op_request n = request" "op_id n = oa_operation_id a"
    "op_started_at n = Some now"
  using assms by (auto simp: running_operation_def op_ok_def statuses)

lemma change_ok:
  assumes "op_change rows rows'" and ok: "ops_ok rows"
  shows "ops_ok rows'"
proof -
  obtain mid where mid: "op_moved rows mid" "rows' = mid \<or>
     (\<exists>a request now n. running_operation a request now = Inr n \<and> rows' = mid @ [n] \<and> \<not> list_ex (clashes n) mid)"
    using assms(1) unfolding op_change_def by blast
  have okm: "ops_ok mid" by (rule moved_ok[OF mid(1) ok])
  show ?thesis using mid(2)
  proof
    assume "\<exists>a request now n. running_operation a request now = Inr n \<and> rows' = mid @ [n] \<and> \<not> list_ex (clashes n) mid"
    then obtain a request now n where n: "running_operation a request now = Inr n" "rows' = mid @ [n]"
      and free: "\<And>r. r \<in> set mid \<Longrightarrow> \<not> clashes n r" by (auto simp: list_ex_iff)
    note nf = running_facts[OF n(1)]
    have new: "op_id r \<noteq> op_id n" "op_command_id r \<noteq> op_command_id n" "active_proof n \<and> active_proof r \<longrightarrow> proof_key r \<noteq> proof_key n"
      if "r \<in> set mid" for r
      using free[OF that] nf(2) by (auto simp: clashes_def proof_key_def active_proof_def)
    then have "distinct (map op_id rows')" "distinct (map op_command_id rows')" using okm n(2) by (force simp: ops_ok_def)+
    moreover have "\<forall>r \<in> set rows'. op_ok r \<and> op_owner_id r \<noteq> None" using okm nf n(2) by (auto simp: ops_ok_def)
    moreover have "y = x" if "x \<in> set rows'" "y \<in> set rows'" "active_proof x" "active_proof y" "proof_key y = proof_key x" for x y
      using that new(3) okm unfolding n(2) ops_ok_def by (metis UnE empty_iff insert_iff list.set set_append)
    ultimately show ?thesis unfolding ops_ok_def by blast
  qed (use okm in simp)
qed

inductive operations_reachable :: "operation_store \<Rightarrow> bool" where
  start: "os_operations s = [] \<Longrightarrow> operations_reachable s"
| step: "operations_reachable s \<Longrightarrow> run_operation q t s = Inr (reply, s') \<Longrightarrow> verdict_ok q \<Longrightarrow> operations_reachable s'"

lemma operations_reachable_ok: "operations_reachable s \<Longrightarrow> ops_ok (os_operations s)"
proof (induction rule: operations_reachable.induct)
  case (start s)
  then show ?case by (simp add: ops_ok_def)
next
  case (step s q t reply s')
  then have "distinct (map op_id (os_operations s))" by (simp add: ops_ok_def)
  from run_operation_change[OF this step.hyps(3,2)] show ?case using change_ok step.IH by blast
qed

text \<open>
  The operation table stays coherent: over any requests, operation and command ids are unique; an
  operation is open exactly as long as it has a lease and no finishing time; and one device never runs two
  live proofs of one provider for one owner at a time.
\<close>

theorem operation_table_invariant:
  assumes "operations_reachable s"
  shows "distinct (map op_id (os_operations s)) \<and> distinct (map op_command_id (os_operations s)) \<and>
    (\<forall>r \<in> set (os_operations s). if op_status r \<in> set NONTERMINAL_OPERATION_STATUSES
       then op_finished_at r = None \<and> op_expires_at r \<noteq> None
       else op_status r \<in> set TERMINAL_OPERATION_STATUSES \<and> op_finished_at r \<noteq> None \<and> op_expires_at r = None) \<and>
    (\<forall>r \<in> set (os_operations s). \<forall>x \<in> set (os_operations s). active_proof r \<longrightarrow> active_proof x \<longrightarrow>
       op_owner_id x = op_owner_id r \<longrightarrow> op_device_id x = op_device_id r \<longrightarrow> op_provider x = op_provider r \<longrightarrow> x = r)"
proof -
  have ok: "ops_ok (os_operations s)" by (rule operations_reachable_ok[OF assms])
  have "if op_status r \<in> set NONTERMINAL_OPERATION_STATUSES then op_finished_at r = None \<and> op_expires_at r \<noteq> None
       else op_status r \<in> set TERMINAL_OPERATION_STATUSES \<and> op_finished_at r \<noteq> None \<and> op_expires_at r = None" if "op_ok r" for r
    using that by (auto simp: op_ok_def statuses)
  then show ?thesis using ok unfolding ops_ok_def proof_key_def by simp
qed

text \<open>
  (C29) A verdict is final: once an operation has succeeded, failed or timed out, no request changes it
  again. A result that arrives after the lease was written off does not revive the operation.
\<close>

theorem finished_operation_is_final:
  assumes "operations_reachable s" and r: "r \<in> set (os_operations s)" "is_terminal r"
    and "run_operation q t s = Inr (reply, s')" and "verdict_ok q"
  shows "r \<in> set (os_operations s')"
proof -
  have ok: "ops_ok (os_operations s)" by (rule operations_reachable_ok[OF assms(1)])
  then have "distinct (map op_id (os_operations s))" by (simp add: ops_ok_def)
  from run_operation_change[OF this assms(5,4)] have "op_change (os_operations s) (os_operations s')" .
  then obtain mid where mid: "op_moved (os_operations s) mid" "set mid \<subseteq> set (os_operations s')"
    unfolding op_change_def by (metis Un_upper1 order_refl set_append)
  then obtain g where g: "\<forall>x \<in> set (os_operations s). g x = x \<or> op_step x (g x)" "mid = map g (os_operations s)"
    unfolding op_moved_def by blast
  have "g r = r" using bspec[OF g(1) r(1)] op_step_facts[of r "g r"] r ok unfolding ops_ok_def by blast
  then have "r \<in> set mid" using r(1) unfolding g(2) by (metis image_eqI list.set_map)
  then show ?thesis using mid(2) by blast
qed

text \<open>
  Every lease ends: after the periodic reaping at a time, every operation that is still open has a
  lease that ends later, and each operation whose lease had run out is timed out as of the end of its lease.
\<close>

theorem expired_operations_time_out:
  assumes "operations_reachable s" and "0 \<le> cm_commit_seq (os_meta s)"
  shows "\<exists>n s'. reap_stale_control_operations now s = Inr (Operations_reaped n, s') \<and>
    (\<forall>r \<in> set (os_operations s'). op_status r \<in> set NONTERMINAL_OPERATION_STATUSES \<longrightarrow> (\<exists>e. op_expires_at r = Some e \<and> now < e)) \<and>
    (\<forall>r \<in> set (os_operations s). \<forall>e. op_expires_at r = Some e \<longrightarrow> e \<le> now \<longrightarrow> time_out now r \<in> set (os_operations s') \<and>
       op_finished_at (time_out now r) = Some e)"
proof -
  let ?rows = "update_where (lease_over now) (time_out now) (os_operations s)"
  have ok: "op_ok r" if "r \<in> set (os_operations s)" for r using operations_reachable_ok[OF assms(1)] that by (auto simp: ops_ok_def)
  have "\<exists>n s'. reap_stale_control_operations now s = Inr (Operations_reaped n, s') \<and> os_operations s' = ?rows"
  proof (cases "filter (lease_over now) (os_operations s) = []")
    case True
    then have "?rows = os_operations s" by (intro update_where_id) (simp add: filter_empty_conv)
    then show ?thesis using True assms(2) by (simp add: reap_stale_control_operations_def reap_rows_def)
  next
    case False
    then show ?thesis by (simp add: reap_stale_control_operations_def reap_rows_def)
  qed
  then obtain n s' where s': "reap_stale_control_operations now s = Inr (Operations_reaped n, s')" "os_operations s' = ?rows" by blast
  have open_later: "\<exists>e. op_expires_at r = Some e \<and> now < e" if r: "r \<in> set ?rows" "op_status r \<in> set NONTERMINAL_OPERATION_STATUSES" for r
  proof -
    have "r \<in> set (os_operations s)" "\<not> lease_over now r"
      using r update_where_mem[OF r(1)] by (auto simp: time_out_def statuses)
    then show ?thesis using ok[of r] r(2) by (cases "op_expires_at r") (auto simp: lease_over_def op_ok_def statuses)
  qed
  have ended: "time_out now r \<in> set ?rows \<and> op_finished_at (time_out now r) = Some e"
    if "r \<in> set (os_operations s)" "op_expires_at r = Some e" "e \<le> now" for r e
  proof -
    have "lease_over now r" using that ok[OF that(1)] by (auto simp: lease_over_def op_ok_def statuses)
    then have "time_out now r \<in> set ?rows" using that(1) unfolding set_update_where by blast
    then show ?thesis using that(2) by (simp add: time_out_def)
  qed
  show ?thesis
  proof (intro exI conjI)
    show "reap_stale_control_operations now s = Inr (Operations_reaped n, s')" by (rule s'(1))
    show "\<forall>r \<in> set (os_operations s'). op_status r \<in> set NONTERMINAL_OPERATION_STATUSES \<longrightarrow> (\<exists>e. op_expires_at r = Some e \<and> now < e)"
      unfolding s'(2) using open_later by blast
    show "\<forall>r \<in> set (os_operations s). \<forall>e. op_expires_at r = Some e \<longrightarrow> e \<le> now \<longrightarrow> time_out now r \<in> set (os_operations s') \<and>
       op_finished_at (time_out now r) = Some e"
      unfolding s'(2) using ended by blast
  qed
qed

subsection \<open>The authorization behind a command\<close>

lemma first_row_Some: "first_row xs = Some x \<Longrightarrow> x \<in> set xs"
  by (cases xs) (auto simp: first_row_def)

lemma first_row_filter: "first_row xs = Some x \<Longrightarrow> P x \<Longrightarrow> first_row (filter P xs) = Some x"
  by (cases xs) (auto simp: first_row_def)

lemma open_run_is_latest:
  assumes "latest_open_run sid db = Some r" and "\<And>x. latest_run sid db = Some x \<Longrightarrow> rn_ended_at x = None"
  shows "latest_run sid db = Some r"
proof -
  have "r \<in> set (primary_runs sid db)" using first_row_Some[OF assms(1)[unfolded latest_open_run_def]] by (simp add: runs_newest_first_def)
  then have "set (runs_newest_first (primary_runs sid db)) \<noteq> {}" by (auto simp: runs_newest_first_def)
  then obtain x where x: "latest_run sid db = Some x"
    by (cases "runs_newest_first (primary_runs sid db)") (auto simp: latest_run_def first_row_def)
  have "latest_open_run sid db = Some x"
    using first_row_filter[OF x[unfolded latest_run_def], of "\<lambda>r. rn_ended_at r = None"] assms(2)[OF x]
    by (simp add: latest_open_run_def runs_newest_first_def filter_sort[symmetric] rev_filter[symmetric])
  then show ?thesis using assms(1) x by simp
qed

lemma bound_identity:
  assumes "get_bound_live_control_identity sid db = Some g"
  obtains r c where "latest_open_run sid db = Some r" "c \<in> set (kd_connections db)" "controls_run r c" "g = adapter_grant c"
proof -
  obtain r c where rc: "latest_open_run sid db = Some r" "g = adapter_grant c"
    "first_row (rev (sort_key health_order (filter (\<lambda>c. controls_run r c \<and> bound_to_adapter c) (kd_connections db)))) = Some c"
    using assms by (auto simp: get_bound_live_control_identity_def split: option.splits if_splits)
  from that[OF rc(1) _ _ rc(2)] first_row_Some[OF rc(3)] show ?thesis by simp
qed

lemma canonical_grant:
  assumes "get_canonical_live_control_grant lib reg sid provider device capability t tb = Inr (Some g, reason)"
  obtains op pc s where "capability_operation capability = Some op"
    "contract_for_provider reg (Some (py_lower (py_strip provider))) = Some pc"
    "live_control_command_block_reason sid tb = None" "find (\<lambda>x. cs_session_id x = sid) (cb_sessions tb) = Some s"
    "get_bound_live_control_identity sid (cb_kernel tb) = Some g"
    "authorize_grant lib sid (py_lower (py_strip provider)) op pc (cb_heads tb) t g = Inr (Some g, reason)"
proof -
  have same: "g' = g" if "authorize_grant lib sid p op pc hs t g' = Inr (Some g, reason)" for p op pc hs g'
    using that by (auto simp: authorize_grant_def no_grant_def Let_def split: if_splits)
  obtain op pc s g' where g': "capability_operation capability = Some op"
    "contract_for_provider reg (Some (py_lower (py_strip provider))) = Some pc"
    "live_control_command_block_reason sid tb = None" "find (\<lambda>x. cs_session_id x = sid) (cb_sessions tb) = Some s"
    "get_bound_live_control_identity sid (cb_kernel tb) = Some g'"
    "authorize_grant lib sid (py_lower (py_strip provider)) op pc (cb_heads tb) t g' = Inr (Some g, reason)"
    using assms by (auto simp: get_canonical_live_control_grant_def no_grant_def Let_def split: option.splits if_splits)
  show ?thesis using that g' same[OF g'(6)] by simp
qed

lemma authorize_grant_entitled:
  assumes "authorize_grant lib sid p op pc heads t g = Inr (Some g, reason)"
  shows "\<exists>head w. head \<in> set heads \<and> entitles lib (grant_target sid p op g) (contract_operations pc) t head w"
proof -
  let ?t = "grant_target sid p op g"
  obtain a where a: "authorize_exact_control_fact lib ?t (grant_heads ?t heads) (contract_operations pc) (utc_dt t) = Inr a" "au_allowed a"
    using assms by (auto simp: authorize_grant_def no_grant_def Let_def split: if_splits)
  from authorized_entitled[OF a] obtain u head w where u: "aware_utc (utc_dt t) ''now'' = Inr u"
    "head \<in> set (grant_heads ?t heads)" "entitles lib ?t (contract_operations pc) u head w" by blast
  then show ?thesis using aware_utc_dt[OF u(1)] by (auto simp: grant_heads_def)
qed

lemma granted_command:
  assumes grant: "get_canonical_live_control_grant lib reg sid provider device capability t tb = Inr (Some g, reason)"
  shows "\<exists>ses r c op pc head w. find (\<lambda>x. cs_session_id x = sid) (cb_sessions tb) = Some ses \<and> cs_closed_at ses = None \<and>
    latest_run sid (cb_kernel tb) = Some r \<and> rn_ended_at r = None \<and> c \<in> set (kd_connections (cb_kernel tb)) \<and> controls_run r c \<and>
    g = adapter_grant c \<and> capability_operation capability = Some op \<and>
    contract_for_provider reg (Some (py_lower (py_strip provider))) = Some pc \<and> head \<in> set (cb_heads tb) \<and>
    entitles lib (grant_target sid (py_lower (py_strip provider)) op g) (contract_operations pc) t head w"
proof -
  obtain op pc ses where g: "capability_operation capability = Some op"
    "contract_for_provider reg (Some (py_lower (py_strip provider))) = Some pc"
    "live_control_command_block_reason sid tb = None" "find (\<lambda>x. cs_session_id x = sid) (cb_sessions tb) = Some ses"
    "get_bound_live_control_identity sid (cb_kernel tb) = Some g"
    "authorize_grant lib sid (py_lower (py_strip provider)) op pc (cb_heads tb) t g = Inr (Some g, reason)"
    using grant by (rule canonical_grant)
  have closed: "cs_closed_at ses = None" and not_ended: "\<And>x. latest_run sid (cb_kernel tb) = Some x \<Longrightarrow> rn_ended_at x = None"
    using g(3,4) by (auto simp: live_control_command_block_reason_def split: if_splits)
  obtain r c where rc: "latest_open_run sid (cb_kernel tb) = Some r" "c \<in> set (kd_connections (cb_kernel tb))" "controls_run r c" "g = adapter_grant c"
    using g(5) by (rule bound_identity)
  have latest: "latest_run sid (cb_kernel tb) = Some r" by (rule open_run_is_latest[OF rc(1) not_ended])
  obtain head w where h: "head \<in> set (cb_heads tb)"
    "entitles lib (grant_target sid (py_lower (py_strip provider)) op g) (contract_operations pc) t head w"
    using authorize_grant_entitled[OF g(6)] by blast
  show ?thesis using g(1,2,4) closed not_ended[OF latest] rc(2-4) latest h by blast
qed

text \<open>
  (C28) A command is reserved only on a live lease: when preparing a control command succeeds, the session
  exists and is not closed, its latest run has not ended, an attached and unreleased connection controls
  that run, and a fact head of exactly that connection and lease generation entitles the caller to the
  operation at that moment. The reserved operation is running and carries that grant.
\<close>

theorem reserved_command_is_authorized:
  assumes "prepare_control_command a (get_canonical_live_control_grant lib reg sid provider device capability t tb) t s =
    Inr (Command_allowed i payload, s')"
  shows "\<exists>ses r c op pc head w n. find (\<lambda>x. cs_session_id x = sid) (cb_sessions tb) = Some ses \<and> cs_closed_at ses = None \<and>
    latest_run sid (cb_kernel tb) = Some r \<and> rn_ended_at r = None \<and> c \<in> set (kd_connections (cb_kernel tb)) \<and> controls_run r c \<and>
    capability_operation capability = Some op \<and> contract_for_provider reg (Some (py_lower (py_strip provider))) = Some pc \<and>
    head \<in> set (cb_heads tb) \<and>
    entitles lib (grant_target sid (py_lower (py_strip provider)) op (adapter_grant c)) (contract_operations pc) t head w \<and>
    payload = live_control_grant_payload (adapter_grant c) \<and> n \<in> set (os_operations s') \<and> op_id n = oa_operation_id a \<and>
    op_status n = ''running'' \<and> map_of (op_request n) GRANT_KEY = Some (PDict payload)"
proof -
  obtain g reason n rows where g: "get_canonical_live_control_grant lib reg sid provider device capability t tb = Inr (Some g, reason)"
    and payload: "payload = live_control_grant_payload g"
    and n: "running_operation a (AList.update GRANT_KEY (PDict payload) (oa_request a)) t = Inr n"
      "insert_operation n (os_operations s) = Inr rows" "os_operations s' = rows"
    using assms by (auto simp: prepare_control_command_def replay_command_def Let_def split: option.splits if_splits pyval.splits)
  have "rows = os_operations s @ [n]" using n(2) by (simp add: insert_operation_def split: if_splits)
  then have "n \<in> set (os_operations s')" using n(3) by simp
  moreover have "op_id n = oa_operation_id a" "op_status n = ''running''" "map_of (op_request n) GRANT_KEY = Some (PDict payload)"
    using running_facts[OF n(1)] by (simp_all add: update_conv')
  ultimately show ?thesis using granted_command[OF g] payload by blast
qed

end
