(* ===== verification/Input_Receipts.thy ===== *)
theory Input_Receipts
  imports Catalog_Meta
begin

text \<open>
  The queue of user inputs (\<open>services/live_session_inputs.py\<close>, table \<open>LiveSessionInputReceipt\<close> of
  \<open>models/live_store.py\<close>) and the catalog operations on it (\<open>catalogd/store.py\<close>): recording a receipt,
  taking the next one for delivery, reporting its outcome, cancelling it, and the metadata of attachments.

  Every \<open>datetime.now\<close> of an operation is an argument. Timestamps are compared as instants. JSON columns are
  kept as the value they encode. The operations that the ORM commits inside a savepoint stay done when the
  caller later rolls back: the ORM session then only drops what follows.
\<close>

record input_receipt =
  ir_id :: string
  ir_owner_id :: int
  ir_session_id :: string
  ir_thread_id :: "string option"
  ir_provider :: string
  ir_device_id :: "string option"
  ir_client_request_id :: "string option"
  ir_intent :: string
  ir_status :: string
  ir_text :: string
  ir_archive_session_input_id :: "int option"
  ir_control_command_id :: "string option"
  ir_delivery_request_id :: "string option"
  ir_delivery_attempts :: "int option"
  ir_error_json :: "pydict option"
  ir_created_at :: instant
  ir_updated_at :: instant
  ir_expires_at :: "instant option"

definition MAX_DELIVERY_AGE_ms :: int where "MAX_DELIVERY_AGE_ms = 1800000"
definition MAX_DELIVERY_ATTEMPTS :: int where "MAX_DELIVERY_ATTEMPTS = 200"
definition RECENT_FAILED_WINDOW_ms :: int where "RECENT_FAILED_WINDOW_ms = 900000"

definition receipt_by_id :: "string \<Rightarrow> input_receipt list \<Rightarrow> input_receipt option" where
  "receipt_by_id i rows = find (\<lambda>r. ir_id r = i) rows"

definition same_client_request :: "int \<Rightarrow> string \<Rightarrow> string \<Rightarrow> input_receipt \<Rightarrow> bool" where
  "same_client_request owner sid key r \<longleftrightarrow>
     ir_owner_id r = owner \<and> ir_session_id r = sid \<and> ir_client_request_id r = Some key"

definition get_live_input_receipt_by_client_request ::
  "int \<Rightarrow> string \<Rightarrow> string option \<Rightarrow> input_receipt list \<Rightarrow> input_receipt option" where
  "get_live_input_receipt_by_client_request owner sid client rows =
     (case clean client of None \<Rightarrow> None | Some key \<Rightarrow> find (same_client_request owner sid key) rows)"

subsection \<open>Recording\<close>

record receipt_args =
  rq_owner_id :: int
  rq_session_id :: string
  rq_provider :: string
  rq_text :: string
  rq_intent :: string
  rq_status :: string
  rq_client_request_id :: "string option"
  rq_device_id :: "string option"
  rq_thread_id :: "string option"
  rq_archive_session_input_id :: "int option"
  rq_control_command_id :: "string option"
  rq_delivery_request_id :: "string option"
  rq_error :: "pydict option"
  rq_expires_at :: "instant option"

definition or_default :: "string option \<Rightarrow> string \<Rightarrow> string" where
  "or_default v d = (case v of None \<Rightarrow> d | Some s \<Rightarrow> s)"

text \<open>The assignments every upsert makes, on a new row as on an existing one.\<close>

definition fill_receipt :: "receipt_args \<Rightarrow> instant \<Rightarrow> input_receipt \<Rightarrow> input_receipt" where
  "fill_receipt a now r = r\<lparr>
     ir_owner_id := rq_owner_id a, ir_session_id := rq_session_id a, ir_thread_id := clean (rq_thread_id a),
     ir_provider := or_default (clean (Some (rq_provider a))) ''unknown'', ir_device_id := clean (rq_device_id a),
     ir_client_request_id := clean (rq_client_request_id a),
     ir_intent := or_default (clean (Some (rq_intent a))) ''auto'',
     ir_status := or_default (clean (Some (rq_status a))) ''created'', ir_text := rq_text a,
     ir_archive_session_input_id := (case rq_archive_session_input_id a of None \<Rightarrow> ir_archive_session_input_id r | Some n \<Rightarrow> Some n),
     ir_control_command_id := (case rq_control_command_id a of None \<Rightarrow> ir_control_command_id r | Some c \<Rightarrow> clean (Some c)),
     ir_delivery_request_id := (case rq_delivery_request_id a of None \<Rightarrow> ir_delivery_request_id r | Some d \<Rightarrow> clean (Some d)),
     ir_error_json := rq_error a, ir_expires_at := rq_expires_at a, ir_updated_at := now\<rparr>"

text \<open>A new row takes \<open>created_at\<close> from SQLite's \<open>CURRENT_TIMESTAMP\<close>, which has whole seconds.\<close>

definition current_timestamp :: "instant \<Rightarrow> instant" where
  "current_timestamp t = UTC (utc_us t div 1000000 * 1000000)"

definition blank_receipt :: "string \<Rightarrow> instant \<Rightarrow> input_receipt" where
  "blank_receipt i now = \<lparr>ir_id = i, ir_owner_id = 0, ir_session_id = [], ir_thread_id = None, ir_provider = [],
     ir_device_id = None, ir_client_request_id = None, ir_intent = [], ir_status = [], ir_text = [],
     ir_archive_session_input_id = None, ir_control_command_id = None, ir_delivery_request_id = None,
     ir_delivery_attempts = None, ir_error_json = None, ir_created_at = current_timestamp now, ir_updated_at = now,
     ir_expires_at = None\<rparr>"

text \<open>\<open>new_id\<close> is the \<open>uuid4\<close> of a row that has to be created; the primary key refuses a used one.\<close>

definition upsert_live_input_receipt ::
  "receipt_args \<Rightarrow> string \<Rightarrow> instant \<Rightarrow> input_receipt list \<Rightarrow> (input_receipt \<times> input_receipt list) res" where
  "upsert_live_input_receipt a new_id now rows =
     (case get_live_input_receipt_by_client_request (rq_owner_id a) (rq_session_id a) (rq_client_request_id a) rows of
        Some r \<Rightarrow> Inr (fill_receipt a now r, update_where (\<lambda>x. ir_id x = ir_id r) (fill_receipt a now) rows)
      | None \<Rightarrow>
        (if receipt_by_id new_id rows \<noteq> None then Inl (IntegrityError ''live_session_input_receipts.id'')
         else let r = fill_receipt a now (blank_receipt new_id now) in Inr (r, rows @ [r])))"

subsection \<open>Expiry and delivery\<close>

definition stale_receipt :: "string \<Rightarrow> instant \<Rightarrow> input_receipt \<Rightarrow> bool" where
  "stale_receipt sid cutoff r \<longleftrightarrow> ir_session_id r = sid \<and> ir_status r = ''queued'' \<and> ir_created_at r < cutoff"

definition attempts_of :: "input_receipt \<Rightarrow> int" where
  "attempts_of r = (case ir_delivery_attempts r of None \<Rightarrow> 0 | Some n \<Rightarrow> n)"

definition failure_json :: "string \<Rightarrow> int \<Rightarrow> string \<Rightarrow> pydict" where
  "failure_json message attempts reason =
     [(''message'', PStr message), (''attempts'', PInt attempts), (''reason'', PStr reason)]"

definition expire_receipt :: "instant \<Rightarrow> input_receipt \<Rightarrow> input_receipt" where
  "expire_receipt now r = r\<lparr>ir_status := ''failed'',
     ir_error_json := Some (failure_json ''session input expired before delivery'' (attempts_of r) ''delivery_expired''),
     ir_updated_at := now\<rparr>"

definition expire_stale_live_receipts :: "string \<Rightarrow> instant \<Rightarrow> input_receipt list \<Rightarrow> (nat \<times> input_receipt list) res" where
  "expire_stale_live_receipts sid now rows = bindR (add_ms now (- MAX_DELIVERY_AGE_ms)) (\<lambda>cutoff.
     Inr (length (filter (stale_receipt sid cutoff) rows), update_where (stale_receipt sid cutoff) (expire_receipt now) rows))"

definition fresh_queued :: "string \<Rightarrow> instant \<Rightarrow> input_receipt \<Rightarrow> bool" where
  "fresh_queued sid cutoff r \<longleftrightarrow> ir_session_id r = sid \<and> ir_status r = ''queued'' \<and> cutoff \<le> ir_created_at r"

definition queue_order :: "input_receipt \<Rightarrow> int \<times> string" where
  "queue_order r = (utc_us (ir_created_at r), ir_id r)"

definition next_receipt :: "string \<Rightarrow> instant \<Rightarrow> input_receipt list \<Rightarrow> input_receipt option" where
  "next_receipt sid cutoff rows =
     (case sort_key queue_order (filter (fresh_queued sid cutoff) rows) of [] \<Rightarrow> None | r # _ \<Rightarrow> Some r)"

definition deliver_receipt :: "string \<Rightarrow> instant \<Rightarrow> input_receipt \<Rightarrow> input_receipt" where
  "deliver_receipt d now r = r\<lparr>ir_status := ''delivering'', ir_delivery_request_id := Some d, ir_updated_at := now\<rparr>"

text \<open>The three clock readings of \<open>claim_next_live_queued_receipt\<close>: expiry, age cut-off, claim.\<close>

record claim_clock =
  ck_expire :: instant
  ck_cutoff :: instant
  ck_claim :: instant

text \<open>
  The bulk update does not refresh the candidate (\<open>synchronize_session=False\<close>, \<open>expire_on_commit=False\<close>), and the
  read that follows finds it in the identity map of the session: the row that is returned has the columns the
  candidate was read with, not the ones just written.
\<close>

definition claim_next_live_queued_receipt ::
  "string \<Rightarrow> string \<Rightarrow> claim_clock \<Rightarrow> input_receipt list \<Rightarrow> (input_receipt option \<times> input_receipt list) res" where
  "claim_next_live_queued_receipt sid d ck rows =
     bindR (expire_stale_live_receipts sid (ck_expire ck) rows) (\<lambda>(_, rows1).
     bindR (add_ms (ck_cutoff ck) (- MAX_DELIVERY_AGE_ms)) (\<lambda>cutoff.
     case next_receipt sid cutoff rows1 of
       None \<Rightarrow> Inr (None, rows1)
     | Some candidate \<Rightarrow>
         let mine = (\<lambda>r. ir_id r = ir_id candidate \<and> ir_status r = ''queued'');
             rows2 = update_where mine (deliver_receipt d (ck_claim ck)) rows1
         in Inr (if length (filter mine rows1) \<noteq> 1 then None else Some candidate, rows2)))"

definition cancel_receipt_row :: "instant \<Rightarrow> input_receipt \<Rightarrow> input_receipt" where
  "cancel_receipt_row now r = r\<lparr>ir_status := ''cancelled'', ir_updated_at := now\<rparr>"

definition cancel_live_queued_receipt ::
  "string \<Rightarrow> string \<Rightarrow> instant \<Rightarrow> input_receipt list \<Rightarrow> input_receipt option \<times> input_receipt list" where
  "cancel_live_queued_receipt sid i now rows =
     (let mine = (\<lambda>r. ir_session_id r = sid \<and> ir_id r = i \<and> ir_status r = ''queued'');
          rows1 = update_where mine (cancel_receipt_row now) rows in
      if length (filter mine rows) \<noteq> 1 then (None, rows1) else (receipt_by_id i rows1, rows1))"

definition mark_live_receipt_delivered_with_projection :: "string \<Rightarrow> instant \<Rightarrow> input_receipt \<Rightarrow> input_receipt" where
  "mark_live_receipt_delivered_with_projection d now r =
     r\<lparr>ir_status := ''delivered'', ir_delivery_request_id := Some d, ir_updated_at := now\<rparr>"

definition mark_live_receipt_failed :: "string \<Rightarrow> instant \<Rightarrow> input_receipt \<Rightarrow> input_receipt" where
  "mark_live_receipt_failed err now r = r\<lparr>ir_status := ''failed'',
     ir_error_json := Some [(''message'', PStr (take 500 (if err = [] then ''session input delivery failed'' else err)))],
     ir_updated_at := now\<rparr>"

definition requeue_live_receipt :: "string \<Rightarrow> instant \<Rightarrow> input_receipt \<Rightarrow> input_receipt" where
  "requeue_live_receipt err now r =
     (let attempts = attempts_of r + 1;
          r1 = r\<lparr>ir_delivery_attempts := Some attempts, ir_updated_at := now\<rparr>;
          message = take 500 (if err = [] then ''session input delivery failed'' else err);
          aged_out = (utc_us now - utc_us (ir_created_at r) > MAX_DELIVERY_AGE_ms * 1000) in
      if aged_out \<or> attempts \<ge> MAX_DELIVERY_ATTEMPTS
      then r1\<lparr>ir_status := ''failed'',
              ir_error_json := Some (failure_json message attempts
                (if aged_out then ''delivery_expired'' else ''max_delivery_attempts''))\<rparr>
      else r1\<lparr>ir_status := ''queued'', ir_delivery_request_id := None,
              ir_error_json := Some (failure_json message attempts ''transient'')\<rparr>)"

subsection \<open>Reads\<close>

definition recent_receipt :: "string \<Rightarrow> instant \<Rightarrow> input_receipt \<Rightarrow> bool" where
  "recent_receipt sid cutoff r \<longleftrightarrow> ir_session_id r = sid \<and>
     (ir_status r = ''queued'' \<or> ir_status r = ''delivering'' \<or> ir_status r = ''failed'' \<and> cutoff \<le> ir_updated_at r)"

definition list_recent_live_input_receipts :: "string \<Rightarrow> instant \<Rightarrow> input_receipt list \<Rightarrow> input_receipt list res" where
  "list_recent_live_input_receipts sid now rows = bindR (add_ms now (- RECENT_FAILED_WINDOW_ms)) (\<lambda>cutoff.
     Inr (sort_key queue_order (filter (recent_receipt sid cutoff) rows)))"

definition count_live_queued_receipts :: "string \<Rightarrow> input_receipt list \<Rightarrow> nat" where
  "count_live_queued_receipts sid rows = length (filter (\<lambda>r. ir_session_id r = sid \<and> ir_status r = ''queued'') rows)"

end
