(* ===== verification/Input_Queue.thy ===== *)
theory Input_Queue
  imports Input_Receipts Facts_Projector
begin

text \<open>
  The catalog's transactions on the input queue (\<open>catalogd/store.py\<close>): \<open>claim_queued_input\<close> decides on the
  served projection of the session (\<open>Facts_Projector\<close>) whether the next input may be delivered.

  What the transaction reads of other tables comes as an argument (\<open>drain_view\<close>): the session row, the
  catalog facts assembled for the session, and its fact heads.
\<close>

record input_attachment =
  ia_id :: string
  ia_input_receipt_id :: string
  ia_owner_id :: int
  ia_session_id :: string
  ia_mime_type :: string
  ia_byte_size :: int
  ia_sha256 :: string
  ia_blob_path :: string
  ia_original_filename :: "string option"
  ia_original_byte_size :: "int option"
  ia_expires_at :: pydatetime
  ia_created_at :: pydatetime

record input_store =
  qs_receipts :: "input_receipt list"
  qs_attachments :: "input_attachment list"
  qs_meta :: catalog_meta

datatype input_reply =
    Input_claimed bool input_receipt
  | Not_claimed string
  | Finish_not_found
  | Finish_unchanged input_receipt
  | Not_delivering
  | Input_finished input_receipt
  | Receipt_recorded input_receipt
  | Receipt_cancelled input_receipt
  | Not_cancelled
  | Attachment_refused string "string list"
  | Attachment_exists input_attachment "string list"
  | Attachment_created input_attachment "string list"

type_synonym input_result = "(input_reply \<times> input_store) res"

definition answered :: "input_reply \<Rightarrow> input_store \<Rightarrow> input_result" where
  "answered reply s = bindR (current_seq (qs_meta s)) (\<lambda>_. Inr (reply, s))"

definition saved :: "instant \<Rightarrow> input_reply \<Rightarrow> input_store \<Rightarrow> input_result" where
  "saved now reply s = Inr (reply, s\<lparr>qs_meta := snd (advance_seq now (qs_meta s))\<rparr>)"

subsection \<open>Taking the next input\<close>

record drain_view =
  dv_provider :: "string option"
  dv_facts :: "pydict option"
  dv_fact_seq :: int
  dv_heads :: "pydict list"

definition DRAIN_OPERATIONS :: "string list" where
  "DRAIN_OPERATIONS = [''send_input'', ''interrupt'', ''terminate'', ''tail_output'', ''resume'']"

definition supported_operations :: "registry \<Rightarrow> string \<Rightarrow> string list" where
  "supported_operations reg provider = (case contract_for_provider reg (Some provider) of
       None \<Rightarrow> []
     | Some c \<Rightarrow> filter (\<lambda>op. supports_contract_operation c (if op = ''resume'' then ''can_resume'' else op)) DRAIN_OPERATIONS)"

definition unknown_transcript :: transcript_facts where
  "unknown_transcript = \<lparr>tf_convergence = Tr_unknown, tf_source_revision = None, tf_durable_revision = None,
     tf_render_revision = None, tf_last_append_at = None, tf_searchable = False, tf_live_observation = False\<rparr>"

definition unknown_host :: host_facts where
  "unknown_host = \<lparr>hf_state = Host_unknown, hf_observed_at = None\<rparr>"

definition drain_projection ::
  "pylib \<Rightarrow> registry \<Rightarrow> string \<Rightarrow> drain_view \<Rightarrow> string \<Rightarrow> instant \<Rightarrow> state_facts option res" where
  "drain_projection lib reg sid dv provider now = (case dv_facts dv of
       None \<Rightarrow> Inr None
     | Some facts \<Rightarrow> bindR (project_served_session_state_facts lib sid (dv_fact_seq dv) facts (dv_heads dv)
         (supported_operations reg provider) None unknown_transcript unknown_host (utc_dt now)) (\<lambda>p. Inr (Some p)))"

definition drainable :: "state_facts option \<Rightarrow> bool" where
  "drainable p = (case p of None \<Rightarrow> False | Some sf \<Rightarrow> af_state (sf_activity sf) \<in> {Act_quiescent, Act_blocked})"

definition can_send :: "state_facts option \<Rightarrow> bool" where
  "can_send p = (case p of None \<Rightarrow> False | Some sf \<Rightarrow> aa_state (ca_send_input (cf_actions (sf_control sf))) = Available)"

definition delivering_for :: "string \<Rightarrow> string \<Rightarrow> input_receipt \<Rightarrow> bool" where
  "delivering_for sid d r \<longleftrightarrow> ir_session_id r = sid \<and> ir_delivery_request_id r = Some d \<and> ir_status r = ''delivering''"

definition take_input ::
  "string \<Rightarrow> string \<Rightarrow> instant \<Rightarrow> claim_clock \<Rightarrow> input_store \<Rightarrow> input_result" where
  "take_input sid d observed_at ck s =
     bindR (claim_next_live_queued_receipt sid d ck (qs_receipts s)) (\<lambda>(c, rows).
     case c of
       None \<Rightarrow> answered (Not_claimed ''queue_empty'') (s\<lparr>qs_receipts := rows\<rparr>)
     | Some r \<Rightarrow> saved observed_at (Input_claimed False r) (s\<lparr>qs_receipts := rows\<rparr>))"

definition claim_queued_input ::
  "pylib \<Rightarrow> registry \<Rightarrow> string \<Rightarrow> string \<Rightarrow> drain_view \<Rightarrow> instant \<Rightarrow> claim_clock \<Rightarrow> input_store \<Rightarrow> input_result" where
  "claim_queued_input lib reg sid d dv observed_at ck s =
     bindR (expire_stale_live_receipts sid observed_at (qs_receipts s)) (\<lambda>(_, rows).
     bindR (add_ms observed_at (- MAX_DELIVERY_AGE_ms)) (\<lambda>cutoff.
     let s1 = s\<lparr>qs_receipts := rows\<rparr>;
         replay = find (delivering_for sid d) rows in
     if replay = None \<and> find (fresh_queued sid cutoff) rows = None then answered (Not_claimed ''queue_empty'') s1
     else case dv_provider dv of
       None \<Rightarrow> answered (Not_claimed ''session_not_found'') s1
     | Some provider \<Rightarrow>
         bindR (drain_projection lib reg sid dv provider observed_at) (\<lambda>p.
         if \<not> drainable p then answered (Not_claimed ''activity_not_drainable'') s1
         else if \<not> can_send p then answered (Not_claimed ''control_unavailable'') s1
         else case replay of
                Some r \<Rightarrow> answered (Input_claimed True r) s1
              | None \<Rightarrow> take_input sid d observed_at ck s1)))"

subsection \<open>Reporting the outcome\<close>

definition error_or :: "string option \<Rightarrow> string \<Rightarrow> string" where
  "error_or err d = (case err of None \<Rightarrow> d | Some e \<Rightarrow> if e = [] then d else e)"

definition outcome_row :: "string \<Rightarrow> string \<Rightarrow> string option \<Rightarrow> instant \<Rightarrow> input_receipt \<Rightarrow> input_receipt" where
  "outcome_row d status err now =
     (if status = ''delivered'' then mark_live_receipt_delivered_with_projection d now
      else if status = ''queued'' then requeue_live_receipt (error_or err ''session input delivery deferred'') now
      else mark_live_receipt_failed (error_or err ''session input delivery failed'') now)"

definition finish_queued_input ::
  "string \<Rightarrow> string \<Rightarrow> string \<Rightarrow> string option \<Rightarrow> instant \<Rightarrow> instant \<Rightarrow> input_store \<Rightarrow> input_result" where
  "finish_queued_input i d status err observed_at now s =
     (case receipt_by_id i (qs_receipts s) of
        None \<Rightarrow> answered Finish_not_found s
      | Some r \<Rightarrow>
        (if or_default (ir_delivery_request_id r) [] \<noteq> d then answered Finish_not_found s
         else if ir_status r = status then answered (Finish_unchanged r) s
         else if ir_status r \<noteq> ''delivering'' then answered Not_delivering s
         else saved observed_at (Input_finished (outcome_row d status err now r))
                (s\<lparr>qs_receipts := update_where (\<lambda>x. ir_id x = i) (outcome_row d status err now) (qs_receipts s)\<rparr>)))"

definition upsert_input_receipt :: "receipt_args \<Rightarrow> string \<Rightarrow> instant \<Rightarrow> instant \<Rightarrow> input_store \<Rightarrow> input_result" where
  "upsert_input_receipt a new_id now observed_at s =
     bindR (upsert_live_input_receipt a new_id now (qs_receipts s)) (\<lambda>(r, rows).
     saved observed_at (Receipt_recorded r) (s\<lparr>qs_receipts := rows\<rparr>))"

definition cancel_input_receipt :: "string \<Rightarrow> string \<Rightarrow> instant \<Rightarrow> instant \<Rightarrow> input_store \<Rightarrow> input_result" where
  "cancel_input_receipt sid i now observed_at s =
     (case cancel_live_queued_receipt sid i now (qs_receipts s) of
        (None, rows) \<Rightarrow> answered Not_cancelled (s\<lparr>qs_receipts := rows\<rparr>)
      | (Some r, rows) \<Rightarrow> saved observed_at (Receipt_cancelled r) (s\<lparr>qs_receipts := rows\<rparr>))"

subsection \<open>Attachments\<close>

text \<open>SQLite keeps the wall clock of a datetime and drops its zone.\<close>

definition stored_dt :: "pydatetime \<Rightarrow> pydatetime" where
  "stored_dt d = DT (dt_wall d) None"

text \<open>\<open>comparable != attachment\<close>: Python's equality on the columns, the expiry as it is read back.\<close>

definition same_attachment :: "input_attachment \<Rightarrow> input_attachment \<Rightarrow> bool" where
  "same_attachment a b \<longleftrightarrow> ia_id a = ia_id b \<and> ia_input_receipt_id a = ia_input_receipt_id b \<and> ia_owner_id a = ia_owner_id b \<and>
     ia_session_id a = ia_session_id b \<and> ia_mime_type a = ia_mime_type b \<and> ia_byte_size a = ia_byte_size b \<and>
     ia_sha256 a = ia_sha256 b \<and> ia_blob_path a = ia_blob_path b \<and> ia_original_filename a = ia_original_filename b \<and>
     ia_original_byte_size a = ia_original_byte_size b \<and> dt_eq (ia_expires_at a) (ia_expires_at b)"

definition owns_receipt :: "input_attachment \<Rightarrow> input_receipt \<Rightarrow> bool" where
  "owns_receipt a r \<longleftrightarrow> ir_id r = ia_input_receipt_id a \<and> ir_owner_id r = ia_owner_id a \<and> ir_session_id r = ia_session_id a"

definition attachment_expired :: "instant \<Rightarrow> input_attachment \<Rightarrow> bool" where
  "attachment_expired now a \<longleftrightarrow> dt_wall (ia_expires_at a) \<le> utc_us now"

definition stored_attachment :: "instant \<Rightarrow> input_attachment \<Rightarrow> input_attachment" where
  "stored_attachment now a = a\<lparr>ia_expires_at := stored_dt (ia_expires_at a), ia_created_at := stored_dt (utc_dt now)\<rparr>"

definition create_input_attachment :: "input_attachment \<Rightarrow> instant \<Rightarrow> input_store \<Rightarrow> input_result" where
  "create_input_attachment a now s =
     (let pruned = map ia_blob_path (filter (attachment_expired now) (qs_attachments s));
          s1 = s\<lparr>qs_attachments := filter (\<lambda>x. \<not> attachment_expired now x) (qs_attachments s)\<rparr> in
      if \<not> list_ex (owns_receipt a) (qs_receipts s) then answered (Attachment_refused ''input_receipt_not_found'' pruned) s1
      else case find (\<lambda>x. ia_id x = ia_id a) (qs_attachments s1) of
             Some x \<Rightarrow> (if same_attachment x a then answered (Attachment_exists x pruned) s1
                        else answered (Attachment_refused ''idempotency_conflict'' pruned) s1)
           | None \<Rightarrow> saved now (Attachment_created (stored_attachment now a) pruned)
                       (s1\<lparr>qs_attachments := qs_attachments s1 @ [stored_attachment now a]\<rparr>))"

definition read_input_attachment ::
  "int \<Rightarrow> string \<Rightarrow> string \<Rightarrow> string \<Rightarrow> instant \<Rightarrow> input_store \<Rightarrow> input_attachment option" where
  "read_input_attachment owner sid rid i now s = find (\<lambda>a. ia_id a = i \<and> ia_input_receipt_id a = rid \<and>
     ia_owner_id a = owner \<and> ia_session_id a = sid \<and> \<not> attachment_expired now a) (qs_attachments s)"

definition list_recent_input_receipts :: "string \<Rightarrow> instant \<Rightarrow> input_store \<Rightarrow> (input_receipt list \<times> nat) res" where
  "list_recent_input_receipts sid now s = bindR (list_recent_live_input_receipts sid now (qs_receipts s)) (\<lambda>rs.
     Inr (rs, count_live_queued_receipts sid (qs_receipts s)))"

end
