(* ===== verification/Input_Properties.thy ===== *)
theory Input_Properties
  imports Input_Queue Projector_Properties
begin

text \<open>
  The input queue over any sequence of requests. Every request other than a new recording moves each
  receipt along its life (\<open>receipt_life\<close>), which a measure bounds; the next input is the oldest one that is
  still worth delivering, it is handed to one delivery, and only while the session can take it.
\<close>

datatype input_request =
    Record_input receipt_args string instant
  | Claim_input string string drain_view claim_clock
  | Finish_input string string string "string option" instant
  | Cancel_input string string instant
  | Attach_input input_attachment

fun run_input :: "pylib \<Rightarrow> registry \<Rightarrow> input_request \<Rightarrow> instant \<Rightarrow> input_store \<Rightarrow> input_result" where
  "run_input lib reg (Record_input a i now) t s = upsert_input_receipt a i now t s"
| "run_input lib reg (Claim_input sid d dv ck) t s = claim_queued_input lib reg sid d dv t ck s"
| "run_input lib reg (Finish_input i d status err now) t s = finish_queued_input i d status err t now s"
| "run_input lib reg (Cancel_input sid i now) t s = cancel_input_receipt sid i now t s"
| "run_input lib reg (Attach_input a) t s = create_input_attachment a t s"

fun records :: "input_request \<Rightarrow> bool" where
  "records (Record_input a i now) \<longleftrightarrow> True"
| "records q \<longleftrightarrow> False"

lemma answered_Inr [simp]: "answered reply s = Inr (r, s') \<longleftrightarrow> 0 \<le> cm_commit_seq (qs_meta s) \<and> r = reply \<and> s' = s"
  by (auto simp: answered_def)

lemma saved_Inr [simp]: "saved now reply s = Inr (r, s') \<longleftrightarrow> r = reply \<and> s' = s\<lparr>qs_meta := snd (advance_seq now (qs_meta s))\<rparr>"
  by (auto simp: saved_def)

subsection \<open>The life of a receipt\<close>

inductive receipt_life :: "input_receipt \<Rightarrow> input_receipt \<Rightarrow> bool" for r where
  expire: "ir_status r = ''queued'' \<Longrightarrow> receipt_life r (expire_receipt now r)"
| deliver: "ir_status r = ''queued'' \<Longrightarrow> receipt_life r (deliver_receipt d now r)"
| cancel: "ir_status r = ''queued'' \<Longrightarrow> receipt_life r (cancel_receipt_row now r)"
| finish: "ir_status r = ''delivering'' \<Longrightarrow> receipt_life r (outcome_row d status err now r)"

lemmas receipt_ops = expire_receipt_def deliver_receipt_def cancel_receipt_row_def outcome_row_def
  mark_live_receipt_delivered_with_projection_def mark_live_receipt_failed_def requeue_live_receipt_def

definition client_key :: "input_receipt \<Rightarrow> int \<times> string \<times> string option" where
  "client_key r = (ir_owner_id r, ir_session_id r, ir_client_request_id r)"

definition receipt_measure :: "input_receipt \<Rightarrow> nat" where
  "receipt_measure r = nat (MAX_DELIVERY_ATTEMPTS - attempts_of r) * 3 +
     (if ir_status r = ''queued'' then 2 else if ir_status r = ''delivering'' then 1 else 0)"

lemma life_keys: "receipt_life r r' \<Longrightarrow> ir_id r' = ir_id r \<and> client_key r' = client_key r"
  by (induction rule: receipt_life.induct) (auto simp: receipt_ops client_key_def Let_def)

lemma requeue_measure:
  assumes "ir_status r = ''delivering''"
  shows "receipt_measure (requeue_live_receipt err now r) < receipt_measure r"
proof -
  have a: "attempts_of (requeue_live_receipt err now r) = attempts_of r + 1"
    by (auto simp: requeue_live_receipt_def attempts_of_def Let_def)
  have q: "ir_status (requeue_live_receipt err now r) = ''queued'' \<Longrightarrow> attempts_of r + 1 < MAX_DELIVERY_ATTEMPTS"
    "ir_status (requeue_live_receipt err now r) \<in> {''queued'', ''failed''}"
    by (auto simp: requeue_live_receipt_def Let_def split: if_splits)
  then show ?thesis using assms a unfolding receipt_measure_def by (auto simp: nat_diff_distrib')
qed

lemma life_measure: "receipt_life r r' \<Longrightarrow> receipt_measure r' < receipt_measure r"
proof (induction rule: receipt_life.induct)
  case (finish d status err now)
  then show ?case using requeue_measure[OF finish]
    by (simp add: outcome_row_def) (simp add: receipt_measure_def attempts_of_def mark_live_receipt_delivered_with_projection_def
        mark_live_receipt_failed_def)
qed (simp_all add: receipt_measure_def attempts_of_def expire_receipt_def deliver_receipt_def cancel_receipt_row_def)

text \<open>The receipts after a request: the same rows, each somewhere further in its life.\<close>

definition settled :: "input_receipt list \<Rightarrow> input_receipt list \<Rightarrow> bool" where
  "settled rows rows' \<longleftrightarrow> (\<exists>g. rows' = map g rows \<and> (\<forall>r \<in> set rows. receipt_life\<^sup>*\<^sup>* r (g r)))"

lemma settled_refl [simp]: "settled rows rows"
  by (auto simp: settled_def intro: exI[of _ id])

lemma settled_trans: "settled a b \<Longrightarrow> settled b c \<Longrightarrow> settled a c"
proof -
  assume "settled a b" "settled b c"
  then obtain g h where "b = map g a" "\<forall>r \<in> set a. receipt_life\<^sup>*\<^sup>* r (g r)" "c = map h b" "\<forall>r \<in> set b. receipt_life\<^sup>*\<^sup>* r (h r)"
    unfolding settled_def by blast
  then have "c = map (h \<circ> g) a \<and> (\<forall>r \<in> set a. receipt_life\<^sup>*\<^sup>* r ((h \<circ> g) r))" by (auto intro: rtranclp_trans)
  then show ?thesis unfolding settled_def by blast
qed

lemma settled_update:
  assumes "\<And>r. r \<in> set rows \<Longrightarrow> P r \<Longrightarrow> receipt_life r (f r)"
  shows "settled rows (update_where P f rows)"
  unfolding settled_def update_where_def using assms by (intro exI[of _ "\<lambda>r. if P r then f r else r"]) auto

lemma life_star_keys: "receipt_life\<^sup>*\<^sup>* r r' \<Longrightarrow> ir_id r' = ir_id r \<and> client_key r' = client_key r"
  by (induction rule: rtranclp_induct) (auto dest: life_keys)

lemma life_star_measure: "receipt_life\<^sup>*\<^sup>* r r' \<Longrightarrow> r' = r \<or> receipt_measure r' < receipt_measure r"
  by (induction rule: rtranclp_induct) (auto dest: life_measure)

lemma settled_by_id:
  assumes "settled rows rows'"
  shows "rel_option receipt_life\<^sup>*\<^sup>* (receipt_by_id k rows) (receipt_by_id k rows')"
proof -
  obtain g where g: "rows' = map g rows" "\<forall>r \<in> set rows. receipt_life\<^sup>*\<^sup>* r (g r)" using assms by (auto simp: settled_def)
  show ?thesis unfolding g(1) using g(2)
  proof (induction rows)
    case (Cons r rows)
    then show ?case using life_star_keys[of r "g r"] by (simp add: receipt_by_id_def)
  qed (simp add: receipt_by_id_def)
qed

definition queue_ok :: "input_receipt list \<Rightarrow> bool" where
  "queue_ok rows \<longleftrightarrow> distinct (map ir_id rows) \<and>
     (\<forall>r \<in> set rows. \<forall>x \<in> set rows. ir_client_request_id r \<noteq> None \<longrightarrow> client_key x = client_key r \<longrightarrow> x = r)"

lemma map_ok:
  assumes ok: "queue_ok rows" and k: "\<And>r. r \<in> set rows \<Longrightarrow> ir_id (g r) = ir_id r \<and> client_key (g r) = client_key r"
  shows "queue_ok (map g rows)"
proof -
  have c: "ir_client_request_id (g r) = ir_client_request_id r" if "r \<in> set rows" for r
    using k[OF that] by (simp add: client_key_def)
  have "distinct (map ir_id (map g rows))" using ok k by (simp add: queue_ok_def comp_def cong: map_cong)
  moreover have "g y = g x" if "x \<in> set rows" "y \<in> set rows" "ir_client_request_id (g x) \<noteq> None" "client_key (g y) = client_key (g x)" for x y
  proof -
    have "y = x" using ok that k[OF that(1)] k[OF that(2)] c[OF that(1)] unfolding queue_ok_def by metis
    then show ?thesis by simp
  qed
  ultimately show ?thesis unfolding queue_ok_def by auto
qed

lemma receipts_settled_ok: "settled rows rows' \<Longrightarrow> queue_ok rows \<Longrightarrow> queue_ok rows'"
  unfolding settled_def using map_ok life_star_keys by blast

subsection \<open>Every request moves receipts along their life\<close>

lemma expire_settled: "expire_stale_live_receipts sid t rows = Inr (n, rows') \<Longrightarrow> settled rows rows'"
  by (auto simp: expire_stale_live_receipts_def stale_receipt_def intro!: settled_update receipt_life.expire)

lemma claim_next_settled:
  assumes "claim_next_live_queued_receipt sid d ck rows = Inr (c, rows')"
  shows "settled rows rows'"
proof -
  obtain n rows1 where e: "expire_stale_live_receipts sid (ck_expire ck) rows = Inr (n, rows1)" and
    c: "rows' = rows1 \<or> (\<exists>i. rows' = update_where (\<lambda>r. ir_id r = i \<and> ir_status r = ''queued'') (deliver_receipt d (ck_claim ck)) rows1)"
    using assms by (auto simp: claim_next_live_queued_receipt_def Let_def split: option.splits)
  have "settled rows1 rows'" using c by (auto intro!: settled_update receipt_life.deliver)
  then show ?thesis using settled_trans expire_settled[OF e] by blast
qed

lemma claim_cases:
  assumes "claim_queued_input lib reg sid d dv t ck s = Inr (reply, s')"
  obtains (refused) n rows reason where "expire_stale_live_receipts sid t (qs_receipts s) = Inr (n, rows)"
      "reply = Not_claimed reason" "s' = s\<lparr>qs_receipts := rows\<rparr>"
  | (replayed) n rows r where "expire_stale_live_receipts sid t (qs_receipts s) = Inr (n, rows)"
      "find (delivering_for sid d) rows = Some r" "reply = Input_claimed True r" "s' = s\<lparr>qs_receipts := rows\<rparr>"
  | (taken) n rows where "expire_stale_live_receipts sid t (qs_receipts s) = Inr (n, rows)"
      "find (delivering_for sid d) rows = None" "take_input sid d t ck (s\<lparr>qs_receipts := rows\<rparr>) = Inr (reply, s')"
proof -
  obtain n rows cutoff where e: "expire_stale_live_receipts sid t (qs_receipts s) = Inr (n, rows)"
    and c: "add_ms t (- MAX_DELIVERY_AGE_ms) = Inr cutoff"
    using assms by (auto simp: claim_queued_input_def)
  show ?thesis using assms e c replayed[OF e] refused[OF e] taken[OF e]
    by (auto simp: claim_queued_input_def Let_def split: if_splits option.splits)
qed

lemma take_input_cases:
  assumes "take_input sid d t ck s = Inr (reply, s')"
  obtains rows where "claim_next_live_queued_receipt sid d ck (qs_receipts s) = Inr (None, rows)"
      "reply = Not_claimed ''queue_empty''" "s' = s\<lparr>qs_receipts := rows\<rparr>"
  | r rows where "claim_next_live_queued_receipt sid d ck (qs_receipts s) = Inr (Some r, rows)" "reply = Input_claimed False r"
      "s' = s\<lparr>qs_receipts := rows, qs_meta := snd (advance_seq t (qs_meta s))\<rparr>"
  using assms by (auto simp: take_input_def split: option.splits)

lemma claim_settled:
  assumes "claim_queued_input lib reg sid d dv t ck s = Inr (reply, s')"
  shows "settled (qs_receipts s) (qs_receipts s')"
  using assms
proof (cases rule: claim_cases)
  case (taken n rows)
  then obtain c rows' where "claim_next_live_queued_receipt sid d ck rows = Inr (c, rows')" "qs_receipts s' = rows'"
    by (auto elim!: take_input_cases)
  then show ?thesis using expire_settled[OF taken(1)] claim_next_settled settled_trans by metis
qed (auto dest: expire_settled)

lemma by_id_unique: "distinct (map ir_id rows) \<Longrightarrow> receipt_by_id i rows = Some r \<Longrightarrow> x \<in> set rows \<Longrightarrow> ir_id x = i \<Longrightarrow> x = r"
  by (induction rows) (auto simp: receipt_by_id_def split: if_splits)

lemma finish_settled:
  assumes ok: "queue_ok (qs_receipts s)" and run: "finish_queued_input i d status err t now s = Inr (reply, s')"
  shows "settled (qs_receipts s) (qs_receipts s')"
proof (cases "receipt_by_id i (qs_receipts s)")
  case (Some r)
  have "receipt_life x (outcome_row d status err now x)"
    if "x \<in> set (qs_receipts s)" "ir_id x = i" "ir_status r = ''delivering''" for x
    using by_id_unique[OF _ Some that(1,2)] that(3) ok by (auto simp: queue_ok_def intro: receipt_life.finish)
  then show ?thesis using run Some
    by (auto simp: finish_queued_input_def split: if_splits intro!: settled_update)
qed (use run in \<open>auto simp: finish_queued_input_def\<close>)

lemma cancel_settled:
  assumes "cancel_input_receipt sid i now t s = Inr (reply, s')"
  shows "settled (qs_receipts s) (qs_receipts s')"
  using assms by (auto simp: cancel_input_receipt_def cancel_live_queued_receipt_def Let_def split: if_splits option.splits
      intro!: settled_update receipt_life.cancel)

lemma attach_receipts: "create_input_attachment a t s = Inr (reply, s') \<Longrightarrow> qs_receipts s' = qs_receipts s"
  by (auto simp: create_input_attachment_def Let_def split: if_splits option.splits)

lemma run_input_settled:
  assumes "queue_ok (qs_receipts s)" and "\<not> records q" and "run_input lib reg q t s = Inr (reply, s')"
  shows "settled (qs_receipts s) (qs_receipts s')"
  using assms by (cases q) (auto dest: claim_settled cancel_settled attach_receipts finish_settled)

subsection \<open>The invariant\<close>

lemma fill_keys:
  "ir_id (fill_receipt a now r) = ir_id r"
  "client_key (fill_receipt a now r) = (rq_owner_id a, rq_session_id a, clean (rq_client_request_id a))"
  by (simp_all add: fill_receipt_def client_key_def)

lemma receipt_upsert_ok:
  assumes ok: "queue_ok rows" and up: "upsert_live_input_receipt a i now rows = Inr (r, rows')"
  shows "queue_ok rows'"
proof (cases "get_live_input_receipt_by_client_request (rq_owner_id a) (rq_session_id a) (rq_client_request_id a) rows")
  case None
  then have new: "i \<notin> ir_id ` set rows" and rows': "rows' = rows @ [fill_receipt a now (blank_receipt i now)]"
    using up by (auto simp: upsert_live_input_receipt_def Let_def receipt_by_id_def find_None_iff split: if_splits)
  have other: "clean (rq_client_request_id a) = None"
    if "x \<in> set rows" "client_key x = (rq_owner_id a, rq_session_id a, clean (rq_client_request_id a))" for x
    using None that by (cases "clean (rq_client_request_id a)")
      (auto simp: get_live_input_receipt_by_client_request_def find_None_iff same_client_request_def client_key_def)
  define n where "n = fill_receipt a now (blank_receipt i now)"
  have n: "ir_id n = i" "client_key n = (rq_owner_id a, rq_session_id a, clean (rq_client_request_id a))"
    "ir_client_request_id n = clean (rq_client_request_id a)"
    by (simp_all add: n_def fill_keys blank_receipt_def) (simp add: fill_receipt_def)
  have "ir_client_request_id x = None" if "x \<in> set rows" "client_key x = client_key n" for x
    using other[OF that(1)] that(2) n(2) by (simp add: client_key_def)
  moreover have "ir_client_request_id n = None" if "x \<in> set rows" "client_key n = client_key x" for x
    using other[OF that(1)] that(2) n by simp
  ultimately have "x = r" if "r \<in> set (rows @ [n])" "x \<in> set (rows @ [n])" "ir_client_request_id r \<noteq> None" "client_key x = client_key r" for x r
    using ok that unfolding queue_ok_def by (metis UnE empty_iff insert_iff list.set set_append)
  then show ?thesis using ok new n(1) unfolding rows' n_def[symmetric] queue_ok_def by auto
next
  case (Some x)
  then obtain key where key: "clean (rq_client_request_id a) = Some key" "x \<in> set rows" "same_client_request (rq_owner_id a) (rq_session_id a) key x"
    by (auto simp: get_live_input_receipt_by_client_request_def split: option.splits dest: find_mem)
  have rows': "rows' = update_where (\<lambda>y. ir_id y = ir_id x) (fill_receipt a now) rows"
    using up Some by (simp add: upsert_live_input_receipt_def)
  define g where "g y = (if ir_id y = ir_id x then fill_receipt a now y else y)" for y
  have xk: "client_key x = (rq_owner_id a, rq_session_id a, clean (rq_client_request_id a))"
    using key by (simp add: client_key_def same_client_request_def)
  have same: "y = x" if "y \<in> set rows" "ir_id y = ir_id x" for y using ok that key(2) by (auto simp: queue_ok_def distinct_map dest: inj_onD)
  have g: "ir_id (g y) = ir_id y" "client_key (g y) = client_key y" if "y \<in> set rows" for y
    using same[OF that] xk by (auto simp: g_def fill_keys)
  have map: "rows' = map g rows" unfolding rows' update_where_def g_def by simp
  show ?thesis unfolding map by (rule map_ok[OF ok]) (simp add: g)
qed

inductive queue_reachable :: "pylib \<Rightarrow> registry \<Rightarrow> input_store \<Rightarrow> bool" for lib reg where
  start: "qs_receipts s = [] \<Longrightarrow> queue_reachable lib reg s"
| step: "queue_reachable lib reg s \<Longrightarrow> run_input lib reg q t s = Inr (reply, s') \<Longrightarrow> queue_reachable lib reg s'"

lemma run_input_ok:
  assumes "queue_ok (qs_receipts s)" and "run_input lib reg q t s = Inr (reply, s')"
  shows "queue_ok (qs_receipts s')"
proof (cases "records q")
  case True
  then show ?thesis using assms by (cases q) (auto simp: upsert_input_receipt_def dest: receipt_upsert_ok)
next
  case False
  then show ?thesis using assms run_input_settled receipts_settled_ok by blast
qed

lemma queue_reachable_ok: "queue_reachable lib reg s \<Longrightarrow> queue_ok (qs_receipts s)"
  by (induction rule: queue_reachable.induct) (auto simp: queue_ok_def[of "[]"] intro: run_input_ok)

end
