(* ===== verification/Input_Guarantees.thy ===== *)
theory Input_Guarantees
  imports Input_Properties
begin

text \<open>
  What a sender and a delivery worker rely on: inputs are unique, taken in order and in time, handed to one
  delivery, only to a session that can take them, and never tried forever. Two properties state where the
  code departs from its own contracts.
\<close>

text \<open>
  The queue never duplicates an input: over any requests, receipt ids are unique, and two receipts
  of one owner and session never carry the same client request id.
\<close>

theorem input_queue_invariant:
  assumes "queue_reachable lib reg s"
  shows "distinct (map ir_id (qs_receipts s)) \<and>
    (\<forall>r \<in> set (qs_receipts s). \<forall>x \<in> set (qs_receipts s). ir_owner_id x = ir_owner_id r \<longrightarrow> ir_session_id x = ir_session_id r \<longrightarrow>
       ir_client_request_id r \<noteq> None \<longrightarrow> ir_client_request_id x = ir_client_request_id r \<longrightarrow> x = r)"
  using queue_reachable_ok[OF assms] unfolding queue_ok_def client_key_def by simp

subsection \<open>The next input\<close>

definition over_age :: "instant \<Rightarrow> input_receipt \<Rightarrow> bool" where
  "over_age now r \<longleftrightarrow> utc_us now - utc_us (ir_created_at r) > MAX_DELIVERY_AGE_ms * 1000"

lemma cutoff_age:
  assumes "add_ms now (- MAX_DELIVERY_AGE_ms) = Inr cutoff"
  shows "ir_created_at r < cutoff \<longleftrightarrow> over_age now r" "cutoff \<le> ir_created_at r \<longleftrightarrow> \<not> over_age now r"
  using add_ms_value[OF assms] by (auto simp: over_age_def less_instant_def less_eq_instant_def)

lemma expire_cases:
  assumes "expire_stale_live_receipts sid now rows = Inr (n, rows')"
  shows "rows' = update_where (\<lambda>r. ir_session_id r = sid \<and> ir_status r = ''queued'' \<and> over_age now r) (expire_receipt now) rows"
  using assms cutoff_age by (auto simp: expire_stale_live_receipts_def stale_receipt_def update_where_def)

definition aged :: "string \<Rightarrow> instant \<Rightarrow> input_receipt \<Rightarrow> bool" where
  "aged sid now r \<longleftrightarrow> ir_session_id r = sid \<and> ir_status r = ''queued'' \<and> over_age now r"

lemma expire_mem:
  assumes e: "expire_stale_live_receipts sid now rows = Inr (n, rows')"
  shows "x \<in> set rows \<Longrightarrow> (if aged sid now x then expire_receipt now x else x) \<in> set rows'"
    "y \<in> set rows' \<Longrightarrow> ir_status y = ''queued'' \<Longrightarrow> y \<in> set rows"
  unfolding expire_cases[OF e] aged_def by (auto simp: set_update_where expire_receipt_def)

lemma next_receipt_Some:
  assumes "next_receipt sid cutoff rows = Some c"
  shows "c \<in> set rows \<and> fresh_queued sid cutoff c \<and> (\<forall>x \<in> set rows. fresh_queued sid cutoff x \<longrightarrow> queue_order c \<le> queue_order x)"
proof -
  let ?f = "filter (fresh_queued sid cutoff) rows"
  obtain xs where s: "sort_key queue_order ?f = c # xs" using assms by (auto simp: next_receipt_def split: list.splits)
  have m: "set (c # xs) = set ?f" using s by (metis set_sort)
  have "sorted (map queue_order (c # xs))" using s by (metis sorted_sort_key)
  then have "\<forall>x \<in> set (c # xs). queue_order c \<le> queue_order x" by simp
  then show ?thesis using m by auto
qed

lemma claim_next_Some:
  assumes "claim_next_live_queued_receipt sid d ck rows = Inr (Some c, rows')" and "distinct (map ir_id rows)"
  obtains n rows1 cutoff where "expire_stale_live_receipts sid (ck_expire ck) rows = Inr (n, rows1)"
    "add_ms (ck_cutoff ck) (- MAX_DELIVERY_AGE_ms) = Inr cutoff" "next_receipt sid cutoff rows1 = Some c"
    "rows' = update_where (\<lambda>x. x = c) (deliver_receipt d (ck_claim ck)) rows1"
proof -
  obtain n rows1 cutoff where e: "expire_stale_live_receipts sid (ck_expire ck) rows = Inr (n, rows1)"
    and cut: "add_ms (ck_cutoff ck) (- MAX_DELIVERY_AGE_ms) = Inr cutoff" and c: "next_receipt sid cutoff rows1 = Some c"
    and rows': "rows' = update_where (\<lambda>x. ir_id x = ir_id c \<and> ir_status x = ''queued'') (deliver_receipt d (ck_claim ck)) rows1"
    using assms(1) by (auto simp: claim_next_live_queued_receipt_def Let_def split: option.splits if_splits)
  have ids: "distinct (map ir_id rows1)" using assms(2) expire_cases[OF e] by (simp add: map_update_where expire_receipt_def)
  have mem: "c \<in> set rows1" "ir_status c = ''queued''" using next_receipt_Some[OF c] by (auto simp: fresh_queued_def)
  have only: "ir_id x = ir_id c \<and> ir_status x = ''queued'' \<longleftrightarrow> x = c" if "x \<in> set rows1" for x
    using ids that mem by (auto simp: distinct_map dest: inj_onD)
  have upd: "rows' = update_where (\<lambda>x. x = c) (deliver_receipt d (ck_claim ck)) rows1"
    unfolding rows' update_where_def using only by auto
  then show ?thesis using that e cut c by blast
qed

lemma claim_taken:
  assumes "claim_queued_input lib reg sid d dv t ck s = Inr (Input_claimed False r, s')"
  obtains n rows rows' where "expire_stale_live_receipts sid t (qs_receipts s) = Inr (n, rows)" "find (delivering_for sid d) rows = None"
    "claim_next_live_queued_receipt sid d ck rows = Inr (Some r, rows')" "qs_receipts s' = rows'"
  using assms by (cases rule: claim_cases) (auto elim!: take_input_cases)

text \<open>
  The next input is the right one: a fresh claim hands out a queued receipt of the session, as it was read,
  that is at most thirty minutes old and comes first by creation and id among those, marks exactly that one as
  being delivered for the request, and changes another receipt only to expire it when it is over age.
\<close>

theorem claimed_input_is_next:
  assumes "queue_reachable lib reg s" and claim: "claim_queued_input lib reg sid d dv t ck s = Inr (Input_claimed False r, s')"
  shows "r \<in> set (qs_receipts s) \<and> deliver_receipt d (ck_claim ck) r \<in> set (qs_receipts s') \<and>
    ir_session_id r = sid \<and> ir_status r = ''queued'' \<and> \<not> over_age (ck_cutoff ck) r \<and>
    (\<forall>x \<in> set (qs_receipts s). x = r \<or>
      x \<in> set (qs_receipts s') \<and> (ir_session_id x = sid \<and> ir_status x = ''queued'' \<and> \<not> over_age (ck_cutoff ck) x \<longrightarrow>
         queue_order r \<le> queue_order x) \<or>
      (\<exists>now \<in> {t, ck_expire ck}. aged sid now x \<and> expire_receipt now x \<in> set (qs_receipts s')))"
proof -
  obtain n rows rows' where e: "expire_stale_live_receipts sid t (qs_receipts s) = Inr (n, rows)"
    and next_one: "claim_next_live_queued_receipt sid d ck rows = Inr (Some r, rows')" and s': "qs_receipts s' = rows'"
    using claim by (rule claim_taken)
  have ids: "distinct (map ir_id rows)"
    using receipts_settled_ok[OF expire_settled[OF e]] queue_reachable_ok[OF assms(1)] by (simp add: queue_ok_def)
  obtain n' rows1 cutoff where e1: "expire_stale_live_receipts sid (ck_expire ck) rows = Inr (n', rows1)"
    and cut: "add_ms (ck_cutoff ck) (- MAX_DELIVERY_AGE_ms) = Inr cutoff" and c: "next_receipt sid cutoff rows1 = Some r"
    and rows': "rows' = update_where (\<lambda>x. x = r) (deliver_receipt d (ck_claim ck)) rows1"
    using claim_next_Some[OF next_one ids] by metis
  note first = next_receipt_Some[OF c, unfolded fresh_queued_def cutoff_age(2)[OF cut]]
  have keep: "x \<in> set rows'" if "x \<in> set rows1" "x \<noteq> r" for x using that unfolding rows' by (auto simp: set_update_where)
  have queued: "ir_status r = ''queued''" using first by blast
  have failed: "expire_receipt now x \<noteq> r" "\<not> aged sid now' (expire_receipt now x)" for now now' x
    using queued by (auto simp: expire_receipt_def aged_def)
  have "r \<in> set (qs_receipts s)" using expire_mem(2)[OF e expire_mem(2)[OF e1]] first by blast
  moreover have "deliver_receipt d (ck_claim ck) r \<in> set rows'" using first unfolding rows' by (auto simp: set_update_where)
  moreover have "x = r \<or> x \<in> set rows' \<and> (ir_session_id x = sid \<and> ir_status x = ''queued'' \<and> \<not> over_age (ck_cutoff ck) x \<longrightarrow>
         queue_order r \<le> queue_order x) \<or> (\<exists>now \<in> {t, ck_expire ck}. aged sid now x \<and> expire_receipt now x \<in> set rows')"
    if x: "x \<in> set (qs_receipts s)" for x
  proof (cases "aged sid t x")
    case True
    have "expire_receipt t x \<in> set rows1" using expire_mem(1)[OF e1 expire_mem(1)[OF e x]] True failed(2) by simp
    then show ?thesis using True keep failed(1) by blast
  next
    case False
    have x1: "(if aged sid (ck_expire ck) x then expire_receipt (ck_expire ck) x else x) \<in> set rows1"
      using expire_mem(1)[OF e1, of x] expire_mem(1)[OF e x] False by simp
    show ?thesis
    proof (cases "aged sid (ck_expire ck) x")
      case True
      then show ?thesis using x1 keep failed(1) by auto
    next
      case False
      then have "x \<in> set rows1" using x1 by simp
      then show ?thesis using keep first by blast
    qed
  qed
  ultimately show ?thesis using first unfolding s' by blast
qed

subsection \<open>One delivery, one input\<close>






text \<open>A request that creates no second delivery of \<open>d\<close>: rows that answer to it afterwards answered to it unchanged before.\<close>

definition no_new_delivery :: "string \<Rightarrow> string \<Rightarrow> input_receipt list \<Rightarrow> input_receipt list \<Rightarrow> bool" where
  "no_new_delivery sid d rows rows' \<longleftrightarrow> (\<exists>g added. rows' = map g rows @ added \<and>
     (\<forall>y \<in> set rows. delivering_for sid d (g y) \<longrightarrow> g y = y) \<and> (\<forall>y \<in> set added. \<not> delivering_for sid d y))"

lemma no_new_refl [simp]: "no_new_delivery sid d rows rows"
  unfolding no_new_delivery_def by (intro exI[of _ id] exI[of _ "[]"]) simp










subsection \<open>Only to a session that can take it\<close>

lemma claim_gate:
  assumes "claim_queued_input lib reg sid d dv t ck s = Inr (Input_claimed b r, s')"
  obtains provider p where "dv_provider dv = Some provider" "drain_projection lib reg sid dv provider t = Inr p" "drainable p" "can_send p"
  using assms by (auto simp: claim_queued_input_def Let_def split: if_splits option.splits)

text \<open>
  (C25) An input reaches only a session that can take it: whenever a claim is granted, the state served
  for the session at that moment shows it quiescent or blocked, and outside Console mode a fresh, bound
  control head of the session grants \<open>send_input\<close> on a connected lease of a provider that supports it.
\<close>

theorem input_needs_ready_session:
  assumes "claim_queued_input lib reg sid d dv t ck s = Inr (Input_claimed b r, s')"
  shows "\<exists>provider facts sf. dv_provider dv = Some provider \<and> dv_facts dv = Some facts \<and>
    project_served_session_state_facts lib sid (dv_fact_seq dv) facts (dv_heads dv) (supported_operations reg provider) None
      unknown_transcript unknown_host (utc_dt t) = Inr sf \<and>
    af_state (sf_activity sf) \<in> {Act_quiescent, Act_blocked} \<and>
    (sf_mode sf = Mode_console \<or> (\<exists>w ops. control_backed lib sid facts (dv_heads dv) t (sf_control sf) w \<and>
       cf_connection (sf_control sf) = Conn_connected \<and> ''send_input'' \<in> set (supported_operations reg provider) \<and>
       validated_grants (wn_value w) = Inr ops \<and> ''send_input'' \<in> set ops))"
proof -
  obtain provider p where p: "dv_provider dv = Some provider" "drain_projection lib reg sid dv provider t = Inr p" "drainable p" "can_send p"
    using assms by (rule claim_gate)
  then obtain facts sf where sf: "dv_facts dv = Some facts"
    "project_served_session_state_facts lib sid (dv_fact_seq dv) facts (dv_heads dv) (supported_operations reg provider) None
      unknown_transcript unknown_host (utc_dt t) = Inr sf"
    "af_state (sf_activity sf) \<in> {Act_quiescent, Act_blocked}" "aa_state (operation_action Op_send_input (cf_actions (sf_control sf))) = Available"
    by (auto simp: drain_projection_def drainable_def can_send_def split: option.splits)
  show ?thesis
  proof (cases "sf_mode sf = Mode_console")
    case False
    then show ?thesis using served_control_backed[OF sf(2) False sf(4)] p(1) sf(1-3) by (auto dest!: aware_utc_dt)
  qed (use p(1) sf in blast)
qed

subsection \<open>No input is tried forever\<close>

lemma eventually_constant:
  fixes m :: "nat \<Rightarrow> nat"
  assumes "\<And>i. x (Suc i) = x i \<or> m (Suc i) < m i" and "\<And>i. x (Suc i) = x i \<Longrightarrow> m (Suc i) = m i"
  shows "\<exists>N. \<forall>i \<ge> N. x i = x N"
proof -
  obtain N where N: "\<And>i. m N \<le> m i" using ex_has_least_nat[of "\<lambda>_. True" 0 m] by auto
  have "x i = x N \<and> m i = m N" if "N \<le> i" for i
    using that
  proof (induction rule: dec_induct)
    case (step i)
    then show ?case using assms[of i] N[of "Suc i"] by auto
  qed simp
  then show ?thesis by blast
qed

text \<open>
  (C27) No input is tried forever: in every infinite run of requests that does not record the inputs
  again, each receipt changes only finitely often. However often claims, transient failures, expiries and
  cancellations follow each other, it ends up delivered, failed, cancelled, or simply untouched.
\<close>

theorem delivery_settles:
  assumes "queue_reachable lib reg (f 0)"
    and run: "\<And>i. \<exists>q t reply. \<not> records q \<and> run_input lib reg q t (f i) = Inr (reply, f (Suc i))"
  shows "\<exists>N. \<forall>i \<ge> N. receipt_by_id k (qs_receipts (f i)) = receipt_by_id k (qs_receipts (f N))"
proof -
  have ok: "queue_ok (qs_receipts (f i))" for i
  proof (induction i)
    case 0
    show ?case by (rule queue_reachable_ok[OF assms(1)])
  next
    case (Suc i)
    then show ?case using run[of i] run_input_ok by blast
  qed
  define x where "x i = receipt_by_id k (qs_receipts (f i))" for i
  define m where "m i = (case x i of None \<Rightarrow> 0 | Some r \<Rightarrow> receipt_measure r)" for i
  have "x (Suc i) = x i \<or> m (Suc i) < m i" for i
  proof -
    have "settled (qs_receipts (f i)) (qs_receipts (f (Suc i)))" using run[of i] run_input_settled[OF ok] by blast
    from settled_by_id[OF this, of k] show ?thesis
      by (auto simp: x_def m_def option_rel_Some1 rel_option_iff split: option.splits dest: life_star_measure)
  qed
  moreover have "m (Suc i) = m i" if "x (Suc i) = x i" for i using that by (simp add: m_def)
  ultimately have "\<exists>N. \<forall>i \<ge> N. x i = x N" by (rule eventually_constant)
  then show ?thesis unfolding x_def .
qed

subsection \<open>Retries of the outcome\<close>

interpretation finish_commit: catalog_operation "\<lambda>(i, d, status, err, now, t). finish_queued_input i d status err t now"
  "\<lambda>s. cm_commit_seq (qs_meta s)" "\<lambda>s. (qs_receipts s, qs_attachments s)"
  by unfold_locales (auto simp: finish_queued_input_def split: option.splits if_splits)

lemma outcome_status:
  "ir_status r = ''delivering'' \<Longrightarrow> status \<noteq> ''delivering'' \<Longrightarrow> ir_status (outcome_row d status err now r) \<noteq> ''delivering''"
  by (auto simp: receipt_ops Let_def)

lemma by_id_update:
  assumes "receipt_by_id i rows = Some r" and "\<And>x. ir_id (f x) = ir_id x"
  shows "receipt_by_id i (update_where (\<lambda>x. ir_id x = i) f rows) = Some (f r)"
  using assms find_update_same[of "\<lambda>x. ir_id x = i" f rows] by (simp add: receipt_by_id_def)

lemma finish_again:
  assumes "0 \<le> cm_commit_seq (qs_meta s)" and run: "finish_queued_input i d status err t now s = Inr (reply, s')"
  shows "\<exists>reply'. finish_queued_input i d status err t' now' s' = Inr (reply', s')"
proof (cases "receipt_by_id i (qs_receipts s)")
  case None
  then show ?thesis using assms by (auto simp: finish_queued_input_def)
next
  case (Some r)
  have id: "ir_id (outcome_row d status err now x) = ir_id x" for x by (simp add: receipt_ops Let_def)
  note moved = by_id_update[OF Some, of "outcome_row d status err now", OF id]
  show ?thesis using assms Some moved outcome_status[of r status d err now]
    by (auto simp: finish_queued_input_def split: if_splits)
qed

interpretation finish_retry: retryable "\<lambda>(i, d, status, err) (t, now). finish_queued_input i d status err t now"
  "\<lambda>s. 0 \<le> cm_commit_seq (qs_meta s)"
  by unfold_locales (auto intro: finish_again)

text \<open>
  The outcome of a delivery may be reported again: once a report (delivered, failed or to be
  queued again) has been taken, repeating it at any later times is answered every time and changes
  nothing, so an attempt is counted once.
\<close>

theorem outcome_reports_retry_safely:
  assumes "0 \<le> cm_commit_seq (qs_meta s)" and "finish_queued_input i d status err t now s = Inr (reply, s')"
  shows "foldR (\<lambda>(t, now) s. bindR (finish_queued_input i d status err t now s) (\<lambda>(_, s'). Inr s')) ((t, now) # later) s = Inr s'"
  using finish_retry.attempts_once[of s "(i, d, status, err)" "(t, now)" reply s' later] assms
  unfolding finish_retry.attempts_def by (simp add: case_prod_unfold)

subsection \<open>Where the code departs from its contracts\<close>

lemma expired_gone:
  assumes "expire_stale_live_receipts sid t rows = Inr (n, rows')" and "aged sid t r"
  shows "r \<notin> set rows'"
proof
  assume "r \<in> set rows'"
  then have "r \<in> (\<lambda>y. if aged sid t y then expire_receipt t y else y) ` set rows"
    unfolding expire_cases[OF assms(1)] update_where_def aged_def by simp
  then obtain y where y: "r = (if aged sid t y then expire_receipt t y else y)" by blast
  have "ir_status (expire_receipt t y) \<noteq> ''queued''" by (simp add: expire_receipt_def)
  then show False using assms(2) y by (cases "aged sid t y") (auto simp: aged_def)
qed

lemma taken_still_queued:
  assumes "claim_next_live_queued_receipt sid d ck rows = Inr (c, rows')" and "r \<in> set rows'" and "ir_status r = ''queued''"
  shows "r \<in> set rows"
proof -
  obtain n rows1 where e: "expire_stale_live_receipts sid (ck_expire ck) rows = Inr (n, rows1)" and
    c: "rows' = rows1 \<or> (\<exists>P. rows' = update_where P (deliver_receipt d (ck_claim ck)) rows1)"
    using assms(1) by (auto simp: claim_next_live_queued_receipt_def Let_def split: option.splits)
  have "ir_status (deliver_receipt d (ck_claim ck) y) \<noteq> ''queued''" for y by (simp add: deliver_receipt_def)
  then have "r \<in> set rows1" using c assms(2,3) by (auto simp: set_update_where)
  then show ?thesis by (rule expire_mem(2)[OF e _ assms(3)])
qed

lemma expired_some:
  assumes "expire_stale_live_receipts sid t rows = Inr (n, rows')" and "0 < n"
  obtains r where "r \<in> set rows" "aged sid t r"
proof -
  obtain cutoff where cut: "add_ms t (- MAX_DELIVERY_AGE_ms) = Inr cutoff" "n = length (filter (stale_receipt sid cutoff) rows)"
    using assms(1) by (auto simp: expire_stale_live_receipts_def)
  then obtain r where r: "r \<in> set rows" "stale_receipt sid cutoff r" using assms(2) by (auto simp: filter_empty_conv)
  have "aged sid t r" using r(2) cutoff_age(1)[OF cut(1), of r] by (simp add: stale_receipt_def aged_def)
  then show ?thesis by (rule that[OF r(1)])
qed

text \<open>
  (C34) A refused claim can write without a commit: the expiry of stale receipts is committed with the savepoint it
  runs in, so whenever a claim finds a receipt to expire and is then refused, for whatever reason (no input left, no
  session, not drainable, no control), the receipts have changed although the commit counter that clients cache by
  has not moved.
\<close>

theorem refused_claim_writes_silently:
  assumes e: "expire_stale_live_receipts sid t (qs_receipts s) = Inr (n, rows)" and "0 < n"
    and refused: "claim_queued_input lib reg sid d dv t ck s = Inr (Not_claimed reason, s')"
  shows "qs_receipts s' \<noteq> qs_receipts s \<and> cm_commit_seq (qs_meta s') = cm_commit_seq (qs_meta s)"
proof -
  obtain r where r: "r \<in> set (qs_receipts s)" "aged sid t r" using expired_some[OF e assms(2)] by blast
  have gone: "r \<notin> set rows" by (rule expired_gone[OF e r(2)])
  have queued: "ir_status r = ''queued''" using r(2) by (simp add: aged_def)
  have "r \<notin> set (qs_receipts s') \<and> qs_meta s' = qs_meta s" using refused
  proof (cases rule: claim_cases)
    case (taken n' rows')
    then obtain rows1 where next_one: "claim_next_live_queued_receipt sid d ck rows = Inr (None, rows1)" and
      s': "qs_receipts s' = rows1" "qs_meta s' = qs_meta s" using e by (auto elim!: take_input_cases)
    then show ?thesis using taken_still_queued[OF next_one _ queued] gone by auto
  qed (use e gone in auto)
  then show ?thesis using r(1) by auto
qed

text \<open>
  (C35) A retried attachment is refused: after an attachment has been created, the identical request
  sent again while it is still valid is answered as an idempotency conflict. The stored expiry is read
  back without its zone, and Python never finds it equal to the zoned value of the request.
\<close>

theorem attachment_retry_conflicts:
  assumes "create_input_attachment a t s = Inr (Attachment_created x pruned, s')" and "dt_tz (ia_expires_at a) = Some off"
    and "\<not> attachment_expired t' a" and "0 \<le> cm_commit_seq (qs_meta s)"
  shows "\<exists>pruned' s''. create_input_attachment a t' s' = Inr (Attachment_refused ''idempotency_conflict'' pruned', s'')"
proof -
  let ?x = "stored_attachment t a" and ?live = "filter (\<lambda>x. \<not> attachment_expired t x) (qs_attachments s)"
  have new: "find (\<lambda>x. ia_id x = ia_id a) ?live = None" and s': "qs_receipts s' = qs_receipts s" "qs_attachments s' = ?live @ [?x]"
    "list_ex (owns_receipt a) (qs_receipts s)" "0 \<le> cm_commit_seq (qs_meta s')"
    using assms(1,4) by (auto simp: create_input_attachment_def Let_def split: if_splits option.splits)
  have "\<not> attachment_expired t' ?x" using assms(3) by (simp add: attachment_expired_def stored_attachment_def stored_dt_def)
  moreover have "find (\<lambda>x. ia_id x = ia_id a) (filter (\<lambda>x. \<not> attachment_expired t' x) ?live) = None"
    using new by (auto simp: find_None_iff)
  ultimately have found: "find (\<lambda>x. ia_id x = ia_id a) (filter (\<lambda>x. \<not> attachment_expired t' x) (qs_attachments s')) = Some ?x"
    unfolding s'(2) filter_append by (simp add: find_snoc) (simp add: stored_attachment_def)
  have "\<not> same_attachment ?x a"
    using assms(2) by (cases "ia_expires_at a") (simp add: same_attachment_def stored_attachment_def stored_dt_def)
  then show ?thesis using found s' by (simp add: create_input_attachment_def)
qed

end
