(* ===== verification/Input_Samples.thy ===== *)
theory Input_Samples
  imports Input_Guarantees Projector_Samples
begin

text \<open>A queue with one input for the Helm session of \<open>Projector_Samples\<close>, and the properties applied to it.\<close>

definition sender_contract :: provider_contract where
  "sender_contract = \<lparr>pc_provider = ''codex'', pc_control_plane = ''codex_bridge'', pc_control_plane_aliases = [],
     pc_support_tier = ''full'', pc_launch_local = False, pc_run_once = False, pc_reattach = False, pc_send_input = True,
     pc_interrupt = False, pc_steer_active_turn = False, pc_answer_pause = False, pc_terminate = False, pc_tail_output = False,
     pc_runtime_phase = False, pc_transcript_binding = False, pc_can_resume = False, pc_turn_start = False,
     pc_live_proof = False, pc_machine_control_supports = []\<rparr>"

definition sender_registry :: registry where
  "sender_registry = (case build_registry [sender_contract] of Inr r \<Rightarrow> r)"

definition ready_view :: drain_view where
  "ready_view = \<lparr>dv_provider = Some ''codex'', dv_facts = Some helm_facts, dv_fact_seq = 3, dv_heads = [activity_head, control_head]\<rparr>"

definition gone_view :: drain_view where
  "gone_view = ready_view\<lparr>dv_provider := None\<rparr>"

definition noon_clock :: claim_clock where
  "noon_clock = \<lparr>ck_expire = utc_noon, ck_cutoff = utc_noon, ck_claim = utc_noon\<rparr>"

definition hello :: receipt_args where
  "hello = \<lparr>rq_owner_id = 1, rq_session_id = ''s1'', rq_provider = ''codex'', rq_text = ''hello'', rq_intent = ''auto'',
     rq_status = ''queued'', rq_client_request_id = Some ''c1'', rq_device_id = None, rq_thread_id = None,
     rq_archive_session_input_id = None, rq_control_command_id = None, rq_delivery_request_id = None, rq_error = None,
     rq_expires_at = None\<rparr>"

definition empty_queue :: input_store where
  "empty_queue = \<lparr>qs_receipts = [], qs_attachments = [], qs_meta = \<lparr>cm_commit_seq = 0, cm_updated_at = []\<rparr>\<rparr>"

definition hello_row :: input_receipt where "hello_row = fill_receipt hello utc_noon (blank_receipt ''i1'' utc_noon)"

definition one_queued :: input_store where
  "one_queued = empty_queue\<lparr>qs_receipts := [hello_row], qs_meta := snd (advance_seq utc_noon (qs_meta empty_queue))\<rparr>"

definition one_delivering :: input_store where
  "one_delivering = one_queued\<lparr>qs_receipts := [deliver_receipt ''d1'' utc_noon hello_row],
     qs_meta := snd (advance_seq utc_noon (qs_meta one_queued))\<rparr>"

lemma hello_recorded:
  "run_input lib reg (Record_input hello ''i1'' utc_noon) utc_noon empty_queue = Inr (Receipt_recorded hello_row, one_queued)"
  by (simp add: upsert_input_receipt_def upsert_live_input_receipt_def get_live_input_receipt_by_client_request_def
      receipt_by_id_def empty_queue_def one_queued_def hello_row_def Let_def saved_def split: option.splits)

lemma one_queued_reachable: "queue_reachable lib reg one_queued"
  by (rule queue_reachable.step[OF queue_reachable.start hello_recorded]) (simp add: empty_queue_def)

lemma sender_operations: "supported_operations sender_registry ''codex'' = [''send_input'']"
  by code_simp

lemma ready_projection:
  "\<exists>sf. drain_projection sample_lib sender_registry ''s1'' ready_view ''codex'' utc_noon = Inr (Some sf) \<and>
     drainable (Some sf) \<and> can_send (Some sf)"
proof -
  have "map_of ACTIVITY_STATE (str_or_blank (dget activity_value ''kind'')) = Some Act_quiescent" by code_simp
  then have act: "af_state (sp_activity helm_shadow) = Act_quiescent" by (simp add: helm_shadow_def project_activity_def Let_def)
  have "served_resume sample_lib ''s1'' helm_facts helm_shadow unknown_host [activity_head, control_head] [''send_input''] utc_noon
      = Inr (unavailable ''unsupported'')"
    by (simp add: served_resume_def resume_action_availability_def helm_shadow_def Let_def)
  moreover obtain c where "served_control (sp_control helm_shadow) (sp_mode helm_shadow) helm_facts [''send_input'']
      (unavailable ''unsupported'') = Inr c" and c: "aa_state (operation_action Op_send_input (cf_actions c)) = Available"
    using helm_served_control by blast
  moreover have "dget (mapping_of (dget helm_facts ''catalog'')) ''last_console_result_at'' = PNone"
    "dget (mapping_of (dget helm_facts ''catalog'')) ''last_read_at'' = PNone"
    by (simp_all add: helm_facts_def mapping_of_def)
  ultimately obtain sf where sf: "project_served_session_state_facts sample_lib ''s1'' 3 helm_facts
       [activity_head, control_head] [''send_input''] None unknown_transcript unknown_host noon = Inr sf"
      "sf_control sf = c" "sf_activity sf = sp_activity helm_shadow"
    using served_exists[OF helm_shadow_projected noon_aware] by metis
  have "Liveness_Facts.utc_dt utc_noon = noon" by (simp add: noon_def utc_noon_def Liveness_Facts.utc_dt_def)
  then show ?thesis using sf c act
    by (simp add: drain_projection_def ready_view_def sender_operations drainable_def can_send_def)
qed

lemma hello_fields:
  "ir_id hello_row = ''i1''" "ir_session_id hello_row = ''s1''" "ir_status hello_row = ''queued''"
  "ir_created_at hello_row = UTC 1714521601000000" "ir_delivery_request_id hello_row = None"
  by code_simp+

lemma noon_cutoff: "add_ms utc_noon (- MAX_DELIVERY_AGE_ms) = Inr (UTC 1714519801000000)"
  by code_simp

lemma expire_noon: "expire_stale_live_receipts ''s1'' utc_noon [hello_row] = Inr (0, [hello_row])"
  by (simp add: expire_stale_live_receipts_def noon_cutoff stale_receipt_def update_where_def hello_fields)

lemma hello_claimed:
  "claim_queued_input sample_lib sender_registry ''s1'' ''d1'' ready_view utc_noon noon_clock one_queued =
     Inr (Input_claimed False hello_row, one_delivering)"
proof -
  have next_one: "claim_next_live_queued_receipt ''s1'' ''d1'' noon_clock [hello_row] =
      Inr (Some hello_row, [deliver_receipt ''d1'' utc_noon hello_row])"
    by (simp add: claim_next_live_queued_receipt_def noon_clock_def expire_noon noon_cutoff next_receipt_def fresh_queued_def
        hello_fields update_where_def Let_def)
  obtain sf where sf: "drain_projection sample_lib sender_registry ''s1'' ready_view ''codex'' utc_noon = Inr (Some sf)"
    "drainable (Some sf)" "can_send (Some sf)" using ready_projection by blast
  have view: "dv_provider ready_view = Some ''codex''" by (simp add: ready_view_def)
  have rows: "qs_receipts one_queued = [hello_row]" by (simp add: one_queued_def)
  show ?thesis
    by (simp add: claim_queued_input_def rows expire_noon noon_cutoff view sf fresh_queued_def hello_fields delivering_for_def
        take_input_def next_one saved_def one_delivering_def Let_def)
qed

theorem input_queue_invariant_witness:
  "queue_reachable sample_lib sender_registry one_queued \<and> distinct (map ir_id (qs_receipts one_queued)) \<and> qs_receipts one_queued = [hello_row]"
proof -
  have "qs_receipts one_queued = [hello_row]" by (simp add: one_queued_def)
  then show ?thesis using input_queue_invariant[OF one_queued_reachable] one_queued_reachable by blast
qed

theorem claimed_input_is_next_witness:
  "deliver_receipt ''d1'' utc_noon hello_row \<in> set (qs_receipts one_delivering) \<and> \<not> over_age (ck_cutoff noon_clock) hello_row"
  using claimed_input_is_next[OF one_queued_reachable hello_claimed] by (simp add: noon_clock_def)



theorem input_needs_ready_session_witness:
  "\<exists>facts sf. dv_facts ready_view = Some facts \<and> af_state (sf_activity sf) \<in> {Act_quiescent, Act_blocked} \<and>
     project_served_session_state_facts sample_lib ''s1'' (dv_fact_seq ready_view) facts (dv_heads ready_view)
       (supported_operations sender_registry ''codex'') None unknown_transcript unknown_host (Liveness_Facts.utc_dt utc_noon) = Inr sf"
proof -
  have view: "dv_provider ready_view = Some ''codex''" by (simp add: ready_view_def)
  from input_needs_ready_session[OF hello_claimed] show ?thesis unfolding view by blast
qed

text \<open>The input is cancelled; after that every further cancellation is answered and nothing changes.\<close>

definition cancelled_queue :: input_store where
  "cancelled_queue = one_queued\<lparr>qs_receipts := [cancel_receipt_row utc_noon hello_row],
     qs_meta := snd (advance_seq utc_noon (qs_meta one_queued))\<rparr>"

lemma cancel_runs:
  "run_input lib reg (Cancel_input ''s1'' ''i1'' utc_noon) utc_noon one_queued =
     Inr (Receipt_cancelled (cancel_receipt_row utc_noon hello_row), cancelled_queue)"
  "run_input lib reg (Cancel_input ''s1'' ''i1'' utc_noon) utc_noon cancelled_queue = Inr (Not_cancelled, cancelled_queue)"
proof -
  have rows: "qs_receipts one_queued = [hello_row]" "qs_receipts cancelled_queue = [cancel_receipt_row utc_noon hello_row]"
    by (simp_all add: one_queued_def cancelled_queue_def)
  have seq: "0 \<le> cm_commit_seq (qs_meta cancelled_queue)" by (simp add: cancelled_queue_def one_queued_def empty_queue_def)
  have "cancel_live_queued_receipt ''s1'' ''i1'' utc_noon [hello_row] =
      (Some (cancel_receipt_row utc_noon hello_row), [cancel_receipt_row utc_noon hello_row])"
    by (simp add: cancel_live_queued_receipt_def hello_fields update_where_def receipt_by_id_def)
      (simp add: cancel_receipt_row_def hello_fields)
  then show "run_input lib reg (Cancel_input ''s1'' ''i1'' utc_noon) utc_noon one_queued =
     Inr (Receipt_cancelled (cancel_receipt_row utc_noon hello_row), cancelled_queue)"
    by (simp add: cancel_input_receipt_def rows saved_def cancelled_queue_def)
  have "cancel_live_queued_receipt ''s1'' ''i1'' utc_noon [cancel_receipt_row utc_noon hello_row] =
      (None, [cancel_receipt_row utc_noon hello_row])"
    by (simp add: cancel_live_queued_receipt_def update_where_def cancel_receipt_row_def)
  then show "run_input lib reg (Cancel_input ''s1'' ''i1'' utc_noon) utc_noon cancelled_queue = Inr (Not_cancelled, cancelled_queue)"
    using seq rows(2) by (simp add: cancel_input_receipt_def)
qed

definition cancel_run :: "nat \<Rightarrow> input_store" where
  "cancel_run i = (if i = 0 then one_queued else cancelled_queue)"

theorem delivery_settles_witness:
  "\<exists>N. \<forall>i. receipt_by_id ''i1'' (qs_receipts (cancel_run (N + i))) = receipt_by_id ''i1'' (qs_receipts (cancel_run N))"
proof -
  have start: "queue_reachable sample_lib sender_registry (cancel_run 0)" using one_queued_reachable by (simp add: cancel_run_def)
  let ?q = "Cancel_input ''s1'' ''i1'' utc_noon"
  have run: "\<exists>reply. run_input sample_lib sender_registry ?q utc_noon (cancel_run i) = Inr (reply, cancel_run (Suc i))" for i
    by (cases i) (simp_all add: cancel_run_def cancel_runs del: run_input.simps)
  have "\<exists>q t reply. \<not> records q \<and> run_input sample_lib sender_registry q t (cancel_run i) = Inr (reply, cancel_run (Suc i))" for i
    by (rule exI[of _ ?q], rule exI[of _ utc_noon]) (simp only: records.simps not_False_eq_True simp_thms run)
  from delivery_settles[OF start this] obtain N where
    N: "\<forall>i \<ge> N. receipt_by_id ''i1'' (qs_receipts (cancel_run i)) = receipt_by_id ''i1'' (qs_receipts (cancel_run N))" ..
  have "receipt_by_id ''i1'' (qs_receipts (cancel_run (N + i))) = receipt_by_id ''i1'' (qs_receipts (cancel_run N))" for i
    by (rule N[rule_format]) (rule le_add1)
  then show ?thesis by (intro exI[of _ N] allI)
qed

theorem outcome_reports_retry_safely_witness:
  "\<exists>s'. foldR (\<lambda>(t, now) s. bindR (finish_queued_input ''i1'' ''d1'' ''queued'' None t now s) (\<lambda>(_, s'). Inr s'))
     [(utc_noon, utc_noon), (utc_noon, utc_noon), (utc_noon, utc_noon)] one_delivering = Inr s' \<and>
     map ir_delivery_attempts (qs_receipts s') = [Some 1]"
proof -
  have rows: "qs_receipts one_delivering = [deliver_receipt ''d1'' utc_noon hello_row]" by (simp add: one_delivering_def)
  have seq: "0 \<le> cm_commit_seq (qs_meta one_delivering)" by (simp add: one_delivering_def one_queued_def empty_queue_def)
  let ?f = "outcome_row ''d1'' ''queued'' None utc_noon"
  have att: "ir_delivery_attempts (?f (deliver_receipt ''d1'' utc_noon hello_row)) = Some 1" by code_simp
  have fields: "ir_id (deliver_receipt ''d1'' utc_noon hello_row) = ''i1''"
    "ir_delivery_request_id (deliver_receipt ''d1'' utc_noon hello_row) = Some ''d1''"
    "ir_status (deliver_receipt ''d1'' utc_noon hello_row) = ''delivering''"
    by (simp_all add: deliver_receipt_def hello_fields)
  obtain reply s' where run: "finish_queued_input ''i1'' ''d1'' ''queued'' None utc_noon utc_noon one_delivering = Inr (reply, s')"
    "qs_receipts s' = [?f (deliver_receipt ''d1'' utc_noon hello_row)]"
    by (simp add: finish_queued_input_def rows receipt_by_id_def fields or_default_def saved_def update_where_def)
  from outcome_reports_retry_safely[OF seq run(1), of "[(utc_noon, utc_noon), (utc_noon, utc_noon)]"] run(2) att
  show ?thesis by auto
qed

definition next_day :: instant where "next_day = UTC 1714608001000000"

theorem refused_claim_writes_silently_witness:
  "\<exists>s'. claim_queued_input sample_lib sender_registry ''s1'' ''d1'' gone_view next_day noon_clock one_queued =
     Inr (Not_claimed ''queue_empty'', s') \<and> qs_receipts s' \<noteq> qs_receipts one_queued \<and>
     cm_commit_seq (qs_meta s') = cm_commit_seq (qs_meta one_queued)"
proof -
  have rows: "qs_receipts one_queued = [hello_row]" by (simp add: one_queued_def)
  have cut: "add_ms next_day (- MAX_DELIVERY_AGE_ms) = Inr (UTC 1714606201000000)" by code_simp
  have e: "expire_stale_live_receipts ''s1'' next_day (qs_receipts one_queued) = Inr (1, [expire_receipt next_day hello_row])"
    by (simp add: expire_stale_live_receipts_def cut rows stale_receipt_def update_where_def hello_fields)
  have seq: "0 \<le> cm_commit_seq (qs_meta one_queued)" by (simp add: one_queued_def empty_queue_def)
  have "\<exists>s'. claim_queued_input sample_lib sender_registry ''s1'' ''d1'' gone_view next_day noon_clock one_queued =
      Inr (Not_claimed ''queue_empty'', s')"
    using e seq by (simp add: claim_queued_input_def cut delivering_for_def fresh_queued_def expire_receipt_def Let_def)
  then show ?thesis using refused_claim_writes_silently[OF e zero_less_one] by blast
qed

definition picture :: input_attachment where
  "picture = \<lparr>ia_id = ''a1'', ia_input_receipt_id = ''i1'', ia_owner_id = 1, ia_session_id = ''s1'', ia_mime_type = ''image/png'',
     ia_byte_size = 67, ia_sha256 = ''00'', ia_blob_path = ''s1/a1.bin'', ia_original_filename = None,
     ia_original_byte_size = None, ia_expires_at = DT 1714608001000000 (Some 0), ia_created_at = DT 0 None\<rparr>"

theorem attachment_retry_conflicts_witness:
  "\<exists>x pruned s' pruned' s''. create_input_attachment picture utc_noon one_queued = Inr (Attachment_created x pruned, s') \<and>
     create_input_attachment picture utc_noon s' = Inr (Attachment_refused ''idempotency_conflict'' pruned', s'')"
proof -
  have rows: "qs_receipts one_queued = [hello_row]" "qs_attachments one_queued = []" by (simp_all add: one_queued_def empty_queue_def)
  have "ir_owner_id hello_row = 1" by code_simp
  then obtain x pruned s' where run: "create_input_attachment picture utc_noon one_queued = Inr (Attachment_created x pruned, s')"
    by (simp add: create_input_attachment_def rows owns_receipt_def hello_fields picture_def saved_def)
  have seq: "0 \<le> cm_commit_seq (qs_meta one_queued)" by (simp add: one_queued_def empty_queue_def)
  have "dt_tz (ia_expires_at picture) = Some 0" "\<not> attachment_expired utc_noon picture"
    by (simp_all add: picture_def attachment_expired_def utc_noon_def)
  from attachment_retry_conflicts[OF run this seq] run show ?thesis by blast
qed

end
