(* ===== verification/Operation_Samples.thy ===== *)
theory Operation_Samples
  imports Operation_Properties Input_Samples
begin

text \<open>One control command on the Helm session of \<open>Projector_Samples\<close>, and the properties applied to it.\<close>

definition helm_connection :: connection_row where
  "helm_connection = \<lparr>cn_id = 7, cn_run_id = ''r1'', cn_control_plane = ''codex_bridge'', cn_acquisition_kind = ''spawned_control'',
     cn_state = ''attached'', cn_can_send_input = 1, cn_can_interrupt = 0, cn_can_terminate = 0, cn_can_tail_output = 0,
     cn_can_resume = 0, cn_acquired_at = None, cn_released_at = None, cn_last_health_at = Some noon,
     cn_adapter_connection_id = Some ''c1'', cn_lease_generation = Some ''g1''\<rparr>"

definition helm_kernel :: kernel_db where
  "helm_kernel = \<lparr>kd_threads = [\<lparr>th_id = ''t1'', th_session_id = ''s1'', th_is_primary = True, th_created_at = 0\<rparr>],
       kd_runs = [\<lparr>rn_id = ''r1'', rn_thread_id = ''t1'', rn_started_at = noon, rn_ended_at = None, rn_exit_status = None\<rparr>],
       kd_connections = [helm_connection]\<rparr>"

definition helm_tables :: control_tables where
  "helm_tables = \<lparr>cb_sessions = [\<lparr>cs_session_id = ''s1'', cs_provider = ''codex'', cs_device_id = Some ''m1'', cs_closed_at = None\<rparr>],
     cb_kernel = helm_kernel, cb_heads = [activity_head, control_head]\<rparr>"

definition send_command :: operation_args where
  "send_command = \<lparr>oa_operation_id = ''o1'', oa_owner_id = 1, oa_session_id = Some ''s1'', oa_device_id = ''m1'', oa_provider = ''codex'',
     oa_command_type = ''session.send_text'', oa_command_id = ''managed-control:1'', oa_request = [], oa_timeout_secs = 60\<rparr>"

definition empty_operations :: operation_store where
  "empty_operations = \<lparr>os_operations = [], os_meta = \<lparr>cm_commit_seq = 0, cm_updated_at = []\<rparr>\<rparr>"

lemma helm_identity: "get_bound_live_control_identity ''s1'' helm_kernel = Some (adapter_grant helm_connection)"
  by code_simp

lemma helm_target: "grant_target ''s1'' ''codex'' Op_send_input (adapter_grant helm_connection) = sample_target"
proof -
  have "stripped (Some ''c1'') = ''c1''" "stripped (Some ''g1'') = ''g1''" by code_simp+
  then show ?thesis by (simp add: grant_target_def grant_connection_def adapter_grant_def helm_connection_def sample_target_def)
qed

lemma helm_heads: "exact_heads sample_target (grant_heads sample_target [activity_head, control_head]) = [control_head]"
  using sample_exact by (simp add: grant_heads_def exact_heads_def)

lemma authorize_exact_only:
  "exact_heads t hs = exact_heads t hs' \<Longrightarrow>
     authorize_exact_control_fact lib t hs supported now = authorize_exact_control_fact lib t hs' supported now"
  by (simp add: authorize_exact_control_fact_def)

lemma helm_grant:
  "get_canonical_live_control_grant sample_lib sender_registry ''s1'' ''codex'' ''m1'' ''send'' utc_noon helm_tables =
     Inr (Some (adapter_grant helm_connection), None)"
proof -
  have ops: "contract_operations sender_contract = [''send_input'']" by code_simp
  have key: "py_lower (py_strip ''codex'') = ''codex''" by code_simp
  have contract: "contract_for_provider sender_registry (Some ''codex'') = Some sender_contract" by code_simp
  have now: "Liveness_Facts.utc_dt utc_noon = noon" by (simp add: noon_def utc_noon_def Liveness_Facts.utc_dt_def)
  have "authorize_exact_control_fact sample_lib sample_target (grant_heads sample_target [activity_head, control_head]) [''send_input''] noon =
      Inr (decide_operation Op_send_input (winner_for control_head control_value) sample_control_facts)"
    using authorize_exact_only[of sample_target "grant_heads sample_target [activity_head, control_head]" "[activity_head, control_head]"]
      helm_heads sample_exact sample_authorized by simp
  moreover have "au_allowed (decide_operation Op_send_input (winner_for control_head control_value) sample_control_facts)"
    using sample_send_available by (simp add: decide_operation_def Let_def)
  ultimately have "authorize_grant sample_lib ''s1'' ''codex'' Op_send_input sender_contract [activity_head, control_head] utc_noon
      (adapter_grant helm_connection) = Inr (Some (adapter_grant helm_connection), None)"
    by (simp add: authorize_grant_def helm_target ops now Let_def)
  moreover have "latest_run ''s1'' helm_kernel = Some \<lparr>rn_id = ''r1'', rn_thread_id = ''t1'', rn_started_at = noon, rn_ended_at = None,
      rn_exit_status = None\<rparr>" by code_simp
  then have "live_control_command_block_reason ''s1'' helm_tables = None"
    by (simp add: live_control_command_block_reason_def helm_tables_def)
  moreover have "supports_contract_operation sender_contract (operation_name Op_send_input)" "''codex'' \<in> set CANONICAL_AUTH_PROVIDERS"
    "capability_operation ''send'' = Some Op_send_input" "stripped (Some ''m1'') = ''m1''" "py_strip ''m1'' = ''m1''" by code_simp+
  moreover have "cb_heads helm_tables = [activity_head, control_head]" "cb_kernel helm_tables = helm_kernel"
    "cb_sessions helm_tables = [\<lparr>cs_session_id = ''s1'', cs_provider = ''codex'', cs_device_id = Some ''m1'', cs_closed_at = None\<rparr>]"
    by (simp_all add: helm_tables_def)
  ultimately show ?thesis
    by (simp add: get_canonical_live_control_grant_def key contract helm_identity device_differs_def Let_def)
qed

definition command_row :: operation_row where
  "command_row = (case running_operation send_command (AList.update GRANT_KEY (PDict (live_control_grant_payload (adapter_grant helm_connection))) []) utc_noon of
     Inr r \<Rightarrow> r)"

definition one_running :: operation_store where
  "one_running = empty_operations\<lparr>os_operations := [command_row], os_meta := snd (advance_seq utc_noon (os_meta empty_operations))\<rparr>"

lemma command_allowed:
  "prepare_control_command send_command (get_canonical_live_control_grant sample_lib sender_registry ''s1'' ''codex'' ''m1'' ''send'' utc_noon helm_tables)
     utc_noon empty_operations = Inr (Command_allowed ''o1'' (live_control_grant_payload (adapter_grant helm_connection)), one_running)"
proof -
  have "add_ms utc_noon 90000 = Inr (UTC 1714521691000000)" by code_simp
  then show ?thesis
    by (simp add: helm_grant prepare_control_command_def by_command_def empty_operations_def insert_operation_def one_running_def command_row_def
        running_operation_def send_command_def MACHINE_OPERATION_TIMEOUT_GRACE_SECS_def recorded_def Let_def)
qed

lemma one_running_reachable: "operations_reachable one_running"
proof -
  have "run_operation (Prepare_command send_command (Inr (Some (adapter_grant helm_connection), None))) utc_noon empty_operations =
      Inr (Command_allowed ''o1'' (live_control_grant_payload (adapter_grant helm_connection)), one_running)"
    using command_allowed by (simp add: helm_grant)
  moreover have "operations_reachable empty_operations" by (rule operations_reachable.start) (simp add: empty_operations_def)
  ultimately show ?thesis using operations_reachable.step by fastforce
qed

lemma command_row_fields:
  "op_id command_row = ''o1''" "op_status command_row = ''running''" "op_expires_at command_row = Some (UTC 1714521691000000)"
  "op_owner_id command_row = Some 1"
  by code_simp+

theorem reserved_command_is_authorized_witness:
  "\<exists>head w. head \<in> set (cb_heads helm_tables) \<and>
     entitles sample_lib (grant_target ''s1'' (py_lower (py_strip ''codex'')) Op_send_input (adapter_grant helm_connection))
       (contract_operations sender_contract) utc_noon head w"
proof -
  have op: "capability_operation ''send'' = Some Op_send_input" by code_simp
  have pc: "contract_for_provider sender_registry (Some (py_lower (py_strip ''codex''))) = Some sender_contract" by code_simp
  have c: "set (kd_connections (cb_kernel helm_tables)) = {helm_connection}" by (simp add: helm_tables_def helm_kernel_def)
  from reserved_command_is_authorized[OF command_allowed] show ?thesis
    unfolding op pc c by (metis option.inject singletonD)
qed

theorem operation_table_invariant_witness:
  "operations_reachable one_running \<and> distinct (map op_command_id (os_operations one_running)) \<and> os_operations one_running = [command_row]"
proof -
  have "os_operations one_running = [command_row]" by (simp add: one_running_def)
  then show ?thesis using operation_table_invariant[OF one_running_reachable] one_running_reachable by blast
qed

text \<open>The lease ends, the operation is timed out, and the result that arrives later changes nothing.\<close>

definition late :: instant where "late = UTC 1714521700000000"

definition one_timed_out :: operation_store where
  "one_timed_out = one_running\<lparr>os_operations := [time_out late command_row], os_meta := snd (advance_seq late (os_meta one_running))\<rparr>"

lemma reaped: "reap_stale_control_operations late one_running = Inr (Operations_reaped 1, one_timed_out)"
proof -
  have "lease_over late command_row" by (simp add: lease_over_def command_row_fields NONTERMINAL_OPERATION_STATUSES_def late_def)
  moreover have "os_operations one_running = [command_row]" by (simp add: one_running_def)
  ultimately show ?thesis
    by (simp add: reap_stale_control_operations_def reap_rows_def update_where_def recorded_def one_timed_out_def)
qed

theorem expired_operations_time_out_witness:
  "\<exists>n s'. reap_stale_control_operations late one_running = Inr (Operations_reaped n, s') \<and> time_out late command_row \<in> set (os_operations s')"
proof -
  have "0 \<le> cm_commit_seq (os_meta one_running)" by (simp add: one_running_def empty_operations_def)
  moreover have "command_row \<in> set (os_operations one_running)" by (simp add: one_running_def)
  moreover have "UTC 1714521691000000 \<le> late" by (simp add: late_def)
  ultimately show ?thesis using expired_operations_time_out[OF one_running_reachable, of late] command_row_fields(3) by blast
qed

definition late_result :: command_result where
  "late_result = \<lparr>cr_command_id = ''managed-control:1'', cr_ok = True, cr_result = [], cr_error = []\<rparr>"

theorem finished_operation_is_final_witness:
  "\<exists>reply s'. run_operation (Apply_result 1 ''m1'' late_result) late one_timed_out = Inr (reply, s') \<and>
     time_out late command_row \<in> set (os_operations s')"
proof -
  have "run_operation Reap_operations late one_running = Inr (Operations_reaped 1, one_timed_out)" using reaped by simp
  then have reach: "operations_reachable one_timed_out" by (rule operations_reachable.step[OF one_running_reachable]) simp
  have row: "time_out late command_row \<in> set (os_operations one_timed_out)" by (simp add: one_timed_out_def)
  have final: "is_terminal (time_out late command_row)" by (simp add: is_terminal_def time_out_def TERMINAL_OPERATION_STATUSES_def)
  have "0 \<le> cm_commit_seq (os_meta one_timed_out)" by (simp add: one_timed_out_def one_running_def empty_operations_def)
  moreover have "os_operations one_timed_out = [time_out late command_row]" by (simp add: one_timed_out_def)
  ultimately have "\<not> isl (run_operation (Apply_result 1 ''m1'' late_result) late one_timed_out)"
    using final by (simp add: apply_control_command_result_def replied_def current_seq_def)
  then obtain reply s' where run: "run_operation (Apply_result 1 ''m1'' late_result) late one_timed_out = Inr (reply, s')"
    by (cases "run_operation (Apply_result 1 ''m1'' late_result) late one_timed_out") auto
  have "verdict_ok (Apply_result 1 ''m1'' late_result)" by simp
  from finished_operation_is_final[OF reach row final run this] run show ?thesis by blast
qed

end
