(* ===== verification/Console_Turns.thy ===== *)
theory Console_Turns
  imports Input_Receipts Kernel_Capabilities
begin

text \<open>
  Console turns (\<open>catalogd/store.py\<close>, table \<open>LiveConsoleTurn\<close> of \<open>models/live_store.py\<close>): a message accepted
  for a Console session waits in the queue of the session's primary thread until no other turn of the thread
  executes, and a turn that ends hands the thread to the next one.

  Tables are the lists of their rows, with the columns these operations read or write; JSON columns are kept
  as the value they encode. The \<open>uuid4\<close> values of an operation are arguments, and a primary key or a
  unique column refuses a used one.
\<close>

record console_turn =
  ct_id :: string
  ct_session_id :: string
  ct_thread_id :: string
  ct_receipt_id :: string
  ct_run_id :: "string option"
  ct_state :: string
  ct_provider :: string
  ct_device_id :: string
  ct_cwd :: string
  ct_resume_provider_thread_id :: "string option"
  ct_error :: "string option"
  ct_created_at :: instant
  ct_updated_at :: instant
  ct_terminal_at :: "instant option"

record console_thread =
  tt_id :: string
  tt_device_id :: "string option"
  tt_cwd :: "string option"
  tt_provider_config :: pydict

record thread_alias =
  al_id :: int
  al_thread_id :: string
  al_provider :: string
  al_kind :: string
  al_value :: string
  al_first_seen_at :: instant
  al_last_seen_at :: instant

record console_run =
  cr_id :: string
  cr_thread_id :: string
  cr_provider :: string
  cr_host_id :: "string option"
  cr_cwd :: "string option"
  cr_launch_origin :: string
  cr_started_at :: instant
  cr_ended_at :: "instant option"
  cr_exit_status :: "string option"

record console_session =
  sc_session_id :: string
  sc_provider :: string
  sc_primary_thread_id :: "string option"
  sc_origin_kind :: "string option"
  sc_last_console_result_at :: "instant option"
  sc_last_console_result_outcome :: "string option"
  sc_updated_at :: instant

text \<open>The owner columns of \<open>LiveSession\<close>, \<open>StorageSession\<close> and of the outbox rows, by session.\<close>

record owner_tables =
  ot_users :: "(int \<times> bool) list"
  ot_live :: "(string \<times> string option) list"
  ot_storage :: "(string \<times> string option) list"
  ot_outbox :: "(string \<times> string option) list"

record console_store =
  ks_sessions :: "console_session list"
  ks_owners :: owner_tables
  ks_threads :: "console_thread list"
  ks_aliases :: "thread_alias list"
  ks_runs :: "console_run list"
  ks_receipts :: "input_receipt list"
  ks_turns :: "console_turn list"
  ks_meta :: catalog_meta

definition owner_in :: "(string \<times> string option) list \<Rightarrow> string \<Rightarrow> string option" where
  "owner_in rows sid = (case map_of rows sid of None \<Rightarrow> None | Some v \<Rightarrow> v)"

definition session_belongs_to_owner :: "console_store \<Rightarrow> string \<Rightarrow> int \<Rightarrow> bool" where
  "session_belongs_to_owner s sid owner =
     (let o_t = ks_owners s; owner_text = py_str (PInt owner) in
      if \<not> list_ex (\<lambda>(i, active). i = owner \<and> active) (ot_users o_t) then False
      else case owner_in (ot_live o_t) sid of
        Some w \<Rightarrow> w = owner_text
      | None \<Rightarrow> (case owner_in (ot_storage o_t) sid of
          Some w \<Rightarrow> w = owner_text
        | None \<Rightarrow> (case find (\<lambda>c. sc_session_id c = sid) (ks_sessions s) of
            None \<Rightarrow> False
          | Some c \<Rightarrow> if sc_origin_kind c = Some ''console''
                      then owner_in (ot_outbox o_t) sid = Some owner_text else True)))"

subsection \<open>What the operations answer\<close>

record turn_dto =
  td_turn_id :: string
  td_session_id :: string
  td_thread_id :: string
  td_run_id :: "string option"
  td_state :: string
  td_provider :: string
  td_device_id :: string
  td_cwd :: string
  td_message :: "string option"
  td_client_request_id :: "string option"
  td_provider_config :: pydict
  td_resume_provider_thread_id :: "string option"
  td_error :: "string option"

definition live_console_turn_dto :: "console_turn \<Rightarrow> string option \<Rightarrow> string option \<Rightarrow> pydict \<Rightarrow> turn_dto" where
  "live_console_turn_dto t message client config = \<lparr>td_turn_id = ct_id t, td_session_id = ct_session_id t,
     td_thread_id = ct_thread_id t, td_run_id = ct_run_id t, td_state = ct_state t, td_provider = ct_provider t,
     td_device_id = ct_device_id t, td_cwd = ct_cwd t, td_message = message, td_client_request_id = client,
     td_provider_config = config, td_resume_provider_thread_id = ct_resume_provider_thread_id t, td_error = ct_error t\<rparr>"

text \<open>The full payload of a turn: with the text and request id of its receipt and its thread's configuration.\<close>

definition thread_by_id :: "string \<Rightarrow> console_store \<Rightarrow> console_thread option" where
  "thread_by_id i s = find (\<lambda>t. tt_id t = i) (ks_threads s)"

definition full_dto :: "console_store \<Rightarrow> console_turn \<Rightarrow> turn_dto" where
  "full_dto s t = (let r = receipt_by_id (ct_receipt_id t) (ks_receipts s) in
     live_console_turn_dto t (map_option ir_text r) (Option.bind r ir_client_request_id)
       (case thread_by_id (ct_thread_id t) s of None \<Rightarrow> [] | Some th \<Rightarrow> tt_provider_config th))"

definition brief_dto :: "console_store \<Rightarrow> console_turn \<Rightarrow> turn_dto" where
  "brief_dto s t = live_console_turn_dto t None
     (Option.bind (receipt_by_id (ct_receipt_id t) (ks_receipts s)) ir_client_request_id) []"

datatype turn_reply =
    Turn_not_found
  | Turn_unavailable string
  | Turn_conflict
  | Turn_exists turn_dto
  | Turn_accepted turn_dto
  | Turn_stale turn_dto
  | Turn_replayed turn_dto "turn_dto option"
  | Turn_updated turn_dto "turn_dto option"
  | Turn_invalid string

type_synonym turn_result = "(turn_reply \<times> console_store) res"

definition turn_read :: "turn_reply \<Rightarrow> console_store \<Rightarrow> turn_result" where
  "turn_read reply s = bindR (current_seq (ks_meta s)) (\<lambda>_. Inr (reply, s))"

definition turn_saved :: "instant \<Rightarrow> turn_reply \<Rightarrow> console_store \<Rightarrow> turn_result" where
  "turn_saved now reply s = Inr (reply, s\<lparr>ks_meta := snd (advance_seq now (ks_meta s))\<rparr>)"

subsection \<open>The queue of a thread\<close>

definition EXECUTING_STATES :: "string list" where
  "EXECUTING_STATES = [''starting'', ''active'', ''draining'']"

definition TERMINAL_STATES :: "string list" where
  "TERMINAL_STATES = [''completed'', ''failed'', ''cancelled'']"

definition executing :: "string \<Rightarrow> console_turn \<Rightarrow> bool" where
  "executing tid t \<longleftrightarrow> ct_thread_id t = tid \<and> ct_state t \<in> set EXECUTING_STATES"

definition waiting :: "string \<Rightarrow> console_turn \<Rightarrow> bool" where
  "waiting tid t \<longleftrightarrow> ct_thread_id t = tid \<and> ct_state t = ''queued''"

definition turn_order :: "console_turn \<Rightarrow> int \<times> string" where
  "turn_order t = (utc_us (ct_created_at t), ct_id t)"

definition next_waiting :: "string \<Rightarrow> console_turn list \<Rightarrow> console_turn option" where
  "next_waiting tid rows = first_row (sort_key turn_order (filter (waiting tid) rows))"

text \<open>\<open>last_seen_at DESC, first_seen_at DESC, id DESC\<close>\<close>

definition alias_order :: "thread_alias \<Rightarrow> int \<times> int \<times> int" where
  "alias_order a = (- utc_us (al_last_seen_at a), - utc_us (al_first_seen_at a), - al_id a)"

definition resume_alias :: "string \<Rightarrow> string \<Rightarrow> thread_alias list \<Rightarrow> string option" where
  "resume_alias tid provider rows = map_option al_value (first_row (sort_key alias_order
     (filter (\<lambda>a. al_thread_id a = tid \<and> al_provider a = provider \<and> al_kind a = ''provider_session_id'') rows)))"

text \<open>A new run; its id is also the delivery id of the receipt.\<close>

definition console_run_for :: "string \<Rightarrow> console_turn \<Rightarrow> instant \<Rightarrow> console_run" where
  "console_run_for run_id t now = \<lparr>cr_id = run_id, cr_thread_id = ct_thread_id t, cr_provider = ct_provider t,
     cr_host_id = Some (ct_device_id t), cr_cwd = Some (ct_cwd t), cr_launch_origin = ''longhouse_spawned'',
     cr_started_at = now, cr_ended_at = None, cr_exit_status = None\<rparr>"

definition run_id_used :: "string \<Rightarrow> console_store \<Rightarrow> bool" where
  "run_id_used i s \<longleftrightarrow> list_ex (\<lambda>r. cr_id r = i) (ks_runs s) \<or> list_ex (\<lambda>t. ct_run_id t = Some i) (ks_turns s)"

subsection \<open>Accepting a message\<close>

record turn_request =
  tq_session_id :: string
  tq_owner_id :: int
  tq_message :: string
  tq_client_request_id :: string

record turn_ids =
  ti_receipt :: string
  ti_turn :: string
  ti_run :: string

definition new_receipt :: "turn_request \<Rightarrow> string \<Rightarrow> console_session \<Rightarrow> console_thread \<Rightarrow> instant \<Rightarrow> input_receipt" where
  "new_receipt q i c th now = (blank_receipt i now)\<lparr>ir_owner_id := tq_owner_id q, ir_session_id := tq_session_id q,
     ir_thread_id := Some (tt_id th), ir_provider := sc_provider c, ir_device_id := tt_device_id th,
     ir_client_request_id := Some (tq_client_request_id q), ir_intent := ''auto'', ir_status := ''queued'',
     ir_text := tq_message q, ir_created_at := now, ir_updated_at := now\<rparr>"

definition new_turn ::
  "turn_request \<Rightarrow> turn_ids \<Rightarrow> console_session \<Rightarrow> string \<Rightarrow> string \<Rightarrow> string \<Rightarrow> thread_alias list \<Rightarrow> instant \<Rightarrow> console_turn" where
  "new_turn q ids c tid device cwd aliases now = \<lparr>ct_id = ti_turn ids, ct_session_id = tq_session_id q, ct_thread_id = tid,
     ct_receipt_id = ti_receipt ids, ct_run_id = None, ct_state = ''queued'', ct_provider = sc_provider c,
     ct_device_id = device, ct_cwd = cwd, ct_resume_provider_thread_id = resume_alias tid (sc_provider c) aliases,
     ct_error = None, ct_created_at = now, ct_updated_at = now, ct_terminal_at = None\<rparr>"

text \<open>
  The idle thread: the turn starts at once. The receipt was already written when its status changes, so its
  \<open>updated_at\<close> takes the column's \<open>onupdate\<close>, the database's clock \<open>db_now\<close>.
\<close>

definition claim_turn :: "string \<Rightarrow> console_turn \<Rightarrow> console_turn" where
  "claim_turn run_id t = t\<lparr>ct_run_id := Some run_id, ct_state := ''starting''\<rparr>"

definition accept_turn ::
  "turn_request \<Rightarrow> turn_ids \<Rightarrow> instant \<Rightarrow> console_turn \<Rightarrow> input_receipt \<Rightarrow> instant \<Rightarrow> console_store \<Rightarrow> turn_result" where
  "accept_turn q ids db_now t r now s =
     (if receipt_by_id (ct_receipt_id t) (ks_receipts s) \<noteq> None then Inl (IntegrityError ''live_session_input_receipts.id'')
      else if list_ex (\<lambda>x. ct_id x = ct_id t) (ks_turns s) then Inl (IntegrityError ''live_console_turns.id'')
      else if list_ex (\<lambda>x. ct_receipt_id x = ct_receipt_id t) (ks_turns s)
      then Inl (IntegrityError ''live_console_turns.receipt_id'')
      else if find (executing (ct_thread_id t)) (ks_turns s) \<noteq> None then
        (let s1 = s\<lparr>ks_receipts := ks_receipts s @ [r], ks_turns := ks_turns s @ [t]\<rparr>
         in turn_saved now (Turn_accepted (full_dto s1 t)) s1)
      else if run_id_used (ti_run ids) s then Inl (IntegrityError ''live_session_runs.id'')
      else
        (let t1 = claim_turn (ti_run ids) t;
             r1 = r\<lparr>ir_status := ''delivering'', ir_delivery_request_id := Some (ti_run ids),
                    ir_updated_at := current_timestamp db_now\<rparr>;
             s1 = s\<lparr>ks_receipts := ks_receipts s @ [r1], ks_turns := ks_turns s @ [t1],
                    ks_runs := ks_runs s @ [console_run_for (ti_run ids) t1 now]\<rparr>
         in turn_saved now (Turn_accepted (full_dto s1 t1)) s1))"

text \<open>A replayed request: the turn of the receipt that has its client request id.\<close>

definition replay_enqueue :: "turn_request \<Rightarrow> input_receipt \<Rightarrow> console_thread \<Rightarrow> console_store \<Rightarrow> turn_result" where
  "replay_enqueue q r th s = (case find (\<lambda>t. ct_receipt_id t = ir_id r) (ks_turns s) of
       None \<Rightarrow> Inl (NoResultFound ''No row was found when one was required'')
     | Some t \<Rightarrow>
         (if ir_text r = tq_message q
          then Inr (Turn_exists (live_console_turn_dto t (Some (ir_text r)) (ir_client_request_id r) (tt_provider_config th)), s)
          else Inr (Turn_conflict, s)))"

definition enqueue_console_turn :: "turn_request \<Rightarrow> turn_ids \<Rightarrow> instant \<Rightarrow> instant \<Rightarrow> console_store \<Rightarrow> turn_result" where
  "enqueue_console_turn q ids db_now now s =
     (case find (\<lambda>c. sc_session_id c = tq_session_id q) (ks_sessions s) of
        None \<Rightarrow> Inr (Turn_not_found, s)
      | Some c \<Rightarrow>
        (case or_none (sc_primary_thread_id c) of
           None \<Rightarrow> Inr (Turn_not_found, s)
         | Some tid \<Rightarrow>
           (if \<not> session_belongs_to_owner s (tq_session_id q) (tq_owner_id q) then Inr (Turn_not_found, s)
            else case thread_by_id tid s of
              None \<Rightarrow> Inr (Turn_unavailable ''execution_target_missing'', s)
            | Some th \<Rightarrow>
              (case (or_none (tt_device_id th), or_none (tt_cwd th)) of
                 (Some device, Some cwd) \<Rightarrow>
                   bindR (one_or_none (same_client_request (tq_owner_id q) (tq_session_id q) (tq_client_request_id q)) (ks_receipts s)) (\<lambda>e.
                   case e of
                     Some r \<Rightarrow> replay_enqueue q r th s
                   | None \<Rightarrow> accept_turn q ids db_now (new_turn q ids c (tt_id th) device cwd (ks_aliases s) now)
                               (new_receipt q (ti_receipt ids) c th now) now s)
               | _ \<Rightarrow> Inr (Turn_unavailable ''execution_target_missing'', s)))))"

subsection \<open>Reporting progress\<close>

record turn_update =
  tu_run_id :: string
  tu_session_id :: string
  tu_thread_id :: string
  tu_provider :: string
  tu_device_id :: string
  tu_owner_id :: int
  tu_turn_id :: "string option"
  tu_expected_state :: "string option"
  tu_state :: string
  tu_error :: "string option"
  tu_error_code :: "string option"

definition update_matches :: "turn_update \<Rightarrow> console_store \<Rightarrow> console_turn \<Rightarrow> bool" where
  "update_matches u s t \<longleftrightarrow> ct_run_id t = Some (tu_run_id u) \<and> ct_session_id t = tu_session_id u \<and>
     ct_thread_id t = tu_thread_id u \<and> ct_provider t = tu_provider u \<and> ct_device_id t = tu_device_id u \<and>
     list_ex (\<lambda>r. ir_id r = ct_receipt_id t \<and> ir_owner_id r = tu_owner_id u) (ks_receipts s)"

definition advance_turn :: "turn_update \<Rightarrow> instant \<Rightarrow> console_turn \<Rightarrow> console_turn" where
  "advance_turn u now t = t\<lparr>ct_state := tu_state u, ct_updated_at := now, ct_error := tu_error u,
     ct_terminal_at := (if tu_state u \<in> set TERMINAL_STATES then Some now else ct_terminal_at t)\<rparr>"

definition advance_receipt :: "turn_update \<Rightarrow> instant \<Rightarrow> input_receipt \<Rightarrow> input_receipt" where
  "advance_receipt u now r = r\<lparr>
     ir_status := (if tu_state u \<in> {''active'', ''completed''} then ''delivered''
                   else if tu_state u \<in> {''failed'', ''cancelled''} then ''failed'' else ir_status r),
     ir_error_json := (case or_none (tu_error u) of None \<Rightarrow> None
       | Some e \<Rightarrow> Some [(''code'', opt_str (tu_error_code u)), (''message'', PStr e)]),
     ir_updated_at := now\<rparr>"

definition stamp_session :: "string \<Rightarrow> instant \<Rightarrow> console_session \<Rightarrow> console_session" where
  "stamp_session outcome now c = c\<lparr>sc_last_console_result_at := Some now, sc_last_console_result_outcome := Some outcome,
     sc_updated_at := now\<rparr>"

definition end_run :: "turn_update \<Rightarrow> instant \<Rightarrow> console_run \<Rightarrow> console_run" where
  "end_run u now r = r\<lparr>cr_ended_at := Some now,
     cr_exit_status := Some (case or_none (tu_error_code u) of Some e \<Rightarrow> e | None \<Rightarrow> tu_state u)\<rparr>"

definition progress_turn :: "turn_update \<Rightarrow> instant \<Rightarrow> console_turn \<Rightarrow> console_store \<Rightarrow> console_store" where
  "progress_turn u now t s = s\<lparr>
     ks_turns := update_where (\<lambda>x. ct_id x = ct_id t) (advance_turn u now) (ks_turns s),
     ks_receipts := update_where (\<lambda>r. ir_id r = ct_receipt_id t) (advance_receipt u now) (ks_receipts s)\<rparr>"

definition close_turn :: "turn_update \<Rightarrow> instant \<Rightarrow> console_turn \<Rightarrow> console_store \<Rightarrow> console_store" where
  "close_turn u now t s = s\<lparr>
     ks_sessions := update_where (\<lambda>c. sc_session_id c = ct_session_id t) (stamp_session (tu_state u) now) (ks_sessions s),
     ks_runs := update_where (\<lambda>r. Some (cr_id r) = ct_run_id t) (end_run u now) (ks_runs s)\<rparr>"

text \<open>The next turn of the thread, claimed with a run of its own.\<close>

definition hand_over :: "string \<Rightarrow> instant \<Rightarrow> console_turn \<Rightarrow> console_store \<Rightarrow> console_turn \<times> console_store" where
  "hand_over run_id now n s =
     (let n1 = (claim_turn run_id n)\<lparr>ct_resume_provider_thread_id := resume_alias (ct_thread_id n) (ct_provider n) (ks_aliases s),
                  ct_updated_at := now\<rparr>
      in (n1, s\<lparr>ks_turns := update_where (\<lambda>x. ct_id x = ct_id n) (\<lambda>_. n1) (ks_turns s),
                ks_receipts := update_where (\<lambda>r. ir_id r = ct_receipt_id n) (deliver_receipt run_id now) (ks_receipts s),
                ks_runs := ks_runs s @ [console_run_for run_id n1 now]\<rparr>))"

definition starting_turn :: "string \<Rightarrow> console_turn list \<Rightarrow> console_turn option" where
  "starting_turn tid rows = first_row (sort_key turn_order (filter (\<lambda>t. ct_thread_id t = tid \<and> ct_state t = ''starting'') rows))"

definition apply_update :: "turn_update \<Rightarrow> string \<Rightarrow> instant \<Rightarrow> console_turn \<Rightarrow> console_store \<Rightarrow> turn_result" where
  "apply_update u next_run_id now t s =
     (let s1 = progress_turn u now t s; t1 = advance_turn u now t in
      if tu_state u \<notin> set TERMINAL_STATES then turn_saved now (Turn_updated (brief_dto s1 t1) None) s1
      else let s2 = close_turn u now t s1 in
        case next_waiting (ct_thread_id t) (ks_turns s2) of
          None \<Rightarrow> turn_saved now (Turn_updated (brief_dto s2 t1) None) s2
        | Some n \<Rightarrow>
            (if run_id_used next_run_id s2 then Inl (IntegrityError ''live_session_runs.id'')
             else case hand_over next_run_id now n s2 of
               (n1, s3) \<Rightarrow> turn_saved now (Turn_updated (brief_dto s3 t1) (Some (full_dto s3 n1))) s3))"

definition update_console_turn :: "turn_update \<Rightarrow> string \<Rightarrow> instant \<Rightarrow> console_store \<Rightarrow> turn_result" where
  "update_console_turn u next_run_id now s =
     bindR (one_or_none (update_matches u s) (ks_turns s)) (\<lambda>m.
     case m of
       None \<Rightarrow> Inr (Turn_not_found, s)
     | Some t \<Rightarrow>
       (if \<not> (or_none (tu_turn_id u) = None \<or> tu_turn_id u = Some (ct_id t)) then Inr (Turn_not_found, s)
        else if \<not> (tu_expected_state u = None \<or> tu_expected_state u = Some (ct_state t)) then turn_read (Turn_stale (full_dto s t)) s
        else if ct_state t \<in> set TERMINAL_STATES then
          (if tu_state u \<noteq> ct_state t then turn_read (Turn_stale (brief_dto s t)) s
           else turn_read (Turn_replayed (brief_dto s t)
                  (map_option (full_dto s) (starting_turn (ct_thread_id t) (ks_turns s)))) s)
        else apply_update u next_run_id now t s))"

subsection \<open>Reads\<close>

definition list_starting_console_turns_for_device :: "int \<Rightarrow> string \<Rightarrow> console_store \<Rightarrow> turn_dto list res" where
  "list_starting_console_turns_for_device owner device s = bindR (current_seq (ks_meta s)) (\<lambda>_. Inr
     (map (full_dto s) (take 100 (sort_key turn_order (filter (\<lambda>t. ct_state t = ''starting'' \<and> ct_device_id t = device \<and>
        list_ex (\<lambda>r. ir_id r = ct_receipt_id t \<and> ir_owner_id r = owner) (ks_receipts s) \<and>
        thread_by_id (ct_thread_id t) s \<noteq> None) (ks_turns s))))))"

definition read_current_console_turn :: "string \<Rightarrow> int \<Rightarrow> console_store \<Rightarrow> turn_dto option option" where
  "read_current_console_turn sid owner s =
     (if \<not> session_belongs_to_owner s sid owner then None
      else Some (map_option (\<lambda>t. live_console_turn_dto t None None []) (first_row (sort_key turn_order
        (filter (\<lambda>t. ct_session_id t = sid \<and> ct_state t \<in> set EXECUTING_STATES) (ks_turns s))))))"

subsection \<open>The request handler\<close>

text \<open>\<open>_update_console_turn\<close> of \<open>catalogd/server.py\<close>, after the parameters have been parsed.\<close>

definition is_string :: "nat \<Rightarrow> string \<Rightarrow> bool" where
  "is_string maximum v \<longleftrightarrow> v \<noteq> [] \<and> length v \<le> maximum"

definition serve_update_console_turn :: "turn_update \<Rightarrow> string \<Rightarrow> instant \<Rightarrow> console_store \<Rightarrow> turn_result" where
  "serve_update_console_turn u next_run_id now s =
     (if tu_owner_id u \<le> 0 then Inr (Turn_invalid ''console turn owner_id must be positive'', s)
      else if \<not> is_string 64 (tu_provider u) then Inr (Turn_invalid ''console turn provider is invalid'', s)
      else if \<not> is_string 255 (tu_device_id u) then Inr (Turn_invalid ''console turn device_id is invalid'', s)
      else if tu_state u \<notin> {''starting'', ''active'', ''completed'', ''failed'', ''cancelled''}
      then Inr (Turn_invalid ''console turn state is invalid'', s)
      else if \<not> (case tu_expected_state u of None \<Rightarrow> True | Some e \<Rightarrow> e \<in> {''starting'', ''active'', ''draining''})
      then Inr (Turn_invalid ''console turn expected_state is invalid'', s)
      else if \<not> (case tu_error_code u of None \<Rightarrow> True | Some e \<Rightarrow> py_strip e \<noteq> [] \<and> length e \<le> 64)
      then Inr (Turn_invalid ''console turn error_code is invalid'', s)
      else update_console_turn u next_run_id now s)"

end
