(* ===== verification/Turn_Lanes.thy ===== *)
theory Turn_Lanes
  imports Py_Prelude
begin

text \<open>
  What the Console promises about the turns of one thread: a lane with at most one running turn and a queue
  ordered by acceptance time. A message is admitted to the lane, the end of the running turn releases it. The
  locale \<open>turn_lanes\<close> is the contract of a store that keeps such lanes; inside it, a waiting turn is shown to
  leave the queue once the lane has been released as often as there are turns not behind it.
\<close>

record lane =
  ln_running :: "string option"
  ln_queue :: "(int \<times> string) list"

definition lane_admit :: "int \<times> string \<Rightarrow> lane \<Rightarrow> lane" where
  "lane_admit k l = (if ln_running l = None then l\<lparr>ln_running := Some (snd k)\<rparr> else l\<lparr>ln_queue := insort k (ln_queue l)\<rparr>)"

definition lane_release :: "lane \<Rightarrow> lane" where
  "lane_release l = (case ln_queue l of [] \<Rightarrow> l\<lparr>ln_running := None\<rparr> | k # ks \<Rightarrow> \<lparr>ln_running = Some (snd k), ln_queue = ks\<rparr>)"

datatype lane_event = Quiet | Admit string "int \<times> string" | Release string

definition lane_step :: "lane_event \<Rightarrow> string \<Rightarrow> lane \<Rightarrow> lane" where
  "lane_step e tid l = (case e of Quiet \<Rightarrow> l
     | Admit tid' k \<Rightarrow> if tid' = tid then lane_admit k l else l
     | Release tid' \<Rightarrow> if tid' = tid then lane_release l else l)"

definition lane_steps :: "lane_event list \<Rightarrow> string \<Rightarrow> lane \<Rightarrow> lane" where
  "lane_steps es tid l = fold (\<lambda>e. lane_step e tid) es l"

fun event_runs :: "('c \<Rightarrow> 's \<Rightarrow> (lane_event \<times> 's) res) \<Rightarrow> 'c list \<Rightarrow> 's \<Rightarrow> (lane_event list \<times> 's) res" where
  "event_runs run [] s = Inr ([], s)"
| "event_runs run (c # cs) s = bindR (run c s) (\<lambda>(e, t). bindR (event_runs run cs t) (\<lambda>(es, u). Inr (e # es, u)))"

text \<open>The turns of a lane that go first: those whose key is not after \<open>k\<close>.\<close>

definition not_after :: "int \<times> string \<Rightarrow> lane \<Rightarrow> nat" where
  "not_after k l = length (filter (\<lambda>x. x \<le> k) (ln_queue l))"

definition releases :: "string \<Rightarrow> lane_event list \<Rightarrow> nat" where
  "releases tid es = length (filter (\<lambda>e. e = Release tid) es)"

definition admits_later :: "int \<times> string \<Rightarrow> string \<Rightarrow> lane_event \<Rightarrow> bool" where
  "admits_later k tid e = (case e of Admit tid' k' \<Rightarrow> tid' = tid \<longrightarrow> k < k' | _ \<Rightarrow> True)"

lemma step_sorted: "sorted (ln_queue l) \<Longrightarrow> sorted (ln_queue (lane_step e tid l))"
  by (auto simp: lane_step_def lane_admit_def lane_release_def sorted_insort split: lane_event.splits list.splits)

lemma filter_insort_later: "k < k' \<Longrightarrow> filter (\<lambda>x. x \<le> k) (insort k' xs) = filter (\<lambda>x. x \<le> k) xs" for k :: "'k :: linorder"
  by (induction xs) auto

lemma not_after_step:
  assumes "sorted (ln_queue l)" and "admits_later k tid e"
  shows "not_after k (lane_step e tid l) = not_after k l - (if e = Release tid then 1 else 0)"
proof (cases e)
  case (Release tid')
  show ?thesis
  proof (cases "ln_queue l")
    case (Cons q qs)
    have "\<not> q \<le> k \<Longrightarrow> filter (\<lambda>x. x \<le> k) qs = []" using assms(1) Cons by (auto simp: filter_empty_conv)
    then show ?thesis using Release Cons by (auto simp: lane_step_def lane_release_def not_after_def)
  qed (use Release in \<open>auto simp: lane_step_def lane_release_def not_after_def\<close>)
qed (use assms(2) in \<open>auto simp: lane_step_def lane_admit_def not_after_def admits_later_def filter_insort_later\<close>)

lemma not_after_steps:
  "sorted (ln_queue l) \<Longrightarrow> list_all (admits_later k tid) es \<Longrightarrow> not_after k (lane_steps es tid l) = not_after k l - releases tid es"
proof (induction es arbitrary: l)
  case (Cons e es)
  then show ?case using not_after_step[of l k tid e] step_sorted[of l e tid] by (auto simp: lane_steps_def releases_def)
qed (simp add: lane_steps_def releases_def)

lemma not_after_0: "not_after k l = 0 \<Longrightarrow> k \<notin> set (ln_queue l)"
  by (auto simp: not_after_def filter_empty_conv)

locale turn_lanes =
  fixes run :: "'c \<Rightarrow> 's \<Rightarrow> (lane_event \<times> 's) res"
    and lane :: "string \<Rightarrow> 's \<Rightarrow> lane"
    and inv :: "'s \<Rightarrow> bool"
  assumes keeps: "inv s \<Longrightarrow> run c s = Inr (e, s') \<Longrightarrow> inv s'"
    and refines: "inv s \<Longrightarrow> run c s = Inr (e, s') \<Longrightarrow> lane tid s' = lane_step e tid (lane tid s)"
    and ordered: "inv s \<Longrightarrow> sorted (ln_queue (lane tid s))"
    and busy: "inv s \<Longrightarrow> ln_queue (lane tid s) \<noteq> [] \<Longrightarrow> ln_running (lane tid s) \<noteq> None"
begin

lemma runs_keep: "inv s \<Longrightarrow> event_runs run cs s = Inr (es, s') \<Longrightarrow> inv s'"
  by (induction cs arbitrary: s es) (auto intro: keeps)

lemma runs_lane: "inv s \<Longrightarrow> event_runs run cs s = Inr (es, s') \<Longrightarrow> lane tid s' = lane_steps es tid (lane tid s)"
proof (induction cs arbitrary: s es)
  case (Cons c cs)
  then obtain e t es' where r: "run c s = Inr (e, t)" "event_runs run cs t = Inr (es', s')" "es = e # es'" by auto
  show ?case using Cons.IH[OF keeps[OF Cons.prems(1) r(1)] r(2)] refines[OF Cons.prems(1) r(1)] r(3) by (simp add: lane_steps_def)
qed (simp add: lane_steps_def)

lemma leaves_queue:
  assumes "inv s" and "event_runs run cs s = Inr (es, s')" and "list_all (admits_later k tid) es"
    and "not_after k (lane tid s) \<le> releases tid es"
  shows "k \<notin> set (ln_queue (lane tid s'))"
  using not_after_steps[OF ordered[OF assms(1)] assms(3)] assms(4)
  by (intro not_after_0) (simp add: runs_lane[OF assms(1,2)])

lemma next_in_line:
  assumes "inv s" and "run c s = Inr (Release tid, s')" and "ln_queue (lane tid s) = k # ks"
  shows "ln_running (lane tid s') = Some (snd k) \<and> ln_queue (lane tid s') = ks"
  using refines[OF assms(1,2), of tid] assms(3) by (simp add: lane_step_def lane_release_def)

end

end
