(* ===== verification/Turn_Properties.thy ===== *)
theory Turn_Properties
  imports Console_Turns Turn_Lanes
begin

text \<open>
  Console turns over any sequence of requests. Every request changes the turns of one thread in one of a few
  ways (\<open>turn_change\<close>); on that rest the invariant of the table, the refinement of a lane with one running
  turn and a queue, the finality of an outcome and the progress of a waiting turn.
\<close>

datatype turn_call =
    Enqueue turn_request turn_ids instant
  | Report turn_update string

fun run_turn :: "turn_call \<Rightarrow> instant \<Rightarrow> console_store \<Rightarrow> turn_result" where
  "run_turn (Enqueue q ids db_now) now s = enqueue_console_turn q ids db_now now s"
| "run_turn (Report u rid) now s = serve_update_console_turn u rid now s"

lemma turn_read_Inr [simp]: "turn_read reply s = Inr (r, s') \<longleftrightarrow> 0 \<le> cm_commit_seq (ks_meta s) \<and> r = reply \<and> s' = s"
  by (auto simp: turn_read_def)

lemma turn_saved_Inr [simp]:
  "turn_saved now reply s = Inr (r, s') \<longleftrightarrow> r = reply \<and> s' = s\<lparr>ks_meta := snd (advance_seq now (ks_meta s))\<rparr>"
  by (auto simp: turn_saved_def)

lemmas turn_states = EXECUTING_STATES_def TERMINAL_STATES_def executing_def waiting_def

lemma progress_simps [simp]:
  "ks_turns (progress_turn u now t s) = update_where (\<lambda>x. ct_id x = ct_id t) (advance_turn u now) (ks_turns s)"
  "ks_runs (progress_turn u now t s) = ks_runs s" "ks_sessions (progress_turn u now t s) = ks_sessions s"
  "ks_receipts (progress_turn u now t s) = update_where (\<lambda>r. ir_id r = ct_receipt_id t) (advance_receipt u now) (ks_receipts s)"
  "ks_threads (progress_turn u now t s) = ks_threads s" "ks_aliases (progress_turn u now t s) = ks_aliases s"
  by (simp_all add: progress_turn_def)

lemma close_simps [simp]:
  "ks_turns (close_turn u now t s) = ks_turns s" "ks_receipts (close_turn u now t s) = ks_receipts s"
  "ks_runs (close_turn u now t s) = update_where (\<lambda>r. Some (cr_id r) = ct_run_id t) (end_run u now) (ks_runs s)"
  "ks_sessions (close_turn u now t s) =
     update_where (\<lambda>c. sc_session_id c = ct_session_id t) (stamp_session (tu_state u) now) (ks_sessions s)"
  "ks_threads (close_turn u now t s) = ks_threads s" "ks_aliases (close_turn u now t s) = ks_aliases s"
  by (simp_all add: close_turn_def)

text \<open>The row of a turn that takes over.\<close>

definition taken_over :: "string \<Rightarrow> instant \<Rightarrow> string option \<Rightarrow> console_turn \<Rightarrow> console_turn" where
  "taken_over rid now resume n = (claim_turn rid n)\<lparr>ct_resume_provider_thread_id := resume, ct_updated_at := now\<rparr>"

subsection \<open>The ways a request changes the table\<close>

fun call_event :: "turn_call \<Rightarrow> instant \<Rightarrow> turn_reply \<Rightarrow> lane_event" where
  "call_event (Enqueue q ids db_now) now (Turn_accepted d) = Admit (td_thread_id d) (utc_us now, td_turn_id d)"
| "call_event (Report u rid) now (Turn_updated d n) = (if tu_state u \<in> set TERMINAL_STATES then Release (td_thread_id d) else Quiet)"
| "call_event _ _ _ = Quiet"

inductive turn_change :: "console_turn list \<Rightarrow> lane_event \<Rightarrow> console_turn list \<Rightarrow> bool" for rows where
  same: "turn_change rows Quiet rows"
| wait: "ct_id t \<notin> ct_id ` set rows \<Longrightarrow> ct_state t = ''queued'' \<Longrightarrow> ct_run_id t = None \<Longrightarrow> ct_terminal_at t = None \<Longrightarrow>
     x \<in> set rows \<Longrightarrow> executing (ct_thread_id t) x \<Longrightarrow> turn_change rows (Admit (ct_thread_id t) (turn_order t)) (rows @ [t])"
| start: "ct_id t \<notin> ct_id ` set rows \<Longrightarrow> ct_state t = ''queued'' \<Longrightarrow> ct_terminal_at t = None \<Longrightarrow> (\<forall>x \<in> set rows. \<not> executing (ct_thread_id t) x) \<Longrightarrow>
     Some rid \<notin> ct_run_id ` set rows \<Longrightarrow> turn_change rows (Admit (ct_thread_id t) (turn_order t)) (rows @ [claim_turn rid t])"
| progress: "t \<in> set rows \<Longrightarrow> ct_run_id t \<noteq> None \<Longrightarrow> ct_state t \<notin> set TERMINAL_STATES \<Longrightarrow> tu_state u \<in> {''starting'', ''active''} \<Longrightarrow>
     turn_change rows Quiet (update_where (\<lambda>x. ct_id x = ct_id t) (advance_turn u now) rows)"
| finish: "t \<in> set rows \<Longrightarrow> ct_run_id t \<noteq> None \<Longrightarrow> ct_state t \<notin> set TERMINAL_STATES \<Longrightarrow> tu_state u \<in> set TERMINAL_STATES \<Longrightarrow>
     mid = update_where (\<lambda>x. ct_id x = ct_id t) (advance_turn u now) rows \<Longrightarrow> next_waiting (ct_thread_id t) mid = None \<Longrightarrow>
     turn_change rows (Release (ct_thread_id t)) mid"
| pass: "t \<in> set rows \<Longrightarrow> ct_run_id t \<noteq> None \<Longrightarrow> ct_state t \<notin> set TERMINAL_STATES \<Longrightarrow> tu_state u \<in> set TERMINAL_STATES \<Longrightarrow>
     mid = update_where (\<lambda>x. ct_id x = ct_id t) (advance_turn u now) rows \<Longrightarrow> next_waiting (ct_thread_id t) mid = Some n \<Longrightarrow>
     Some rid \<notin> ct_run_id ` set mid \<Longrightarrow>
     turn_change rows (Release (ct_thread_id t)) (update_where (\<lambda>x. ct_id x = ct_id n) (\<lambda>_. taken_over rid now resume n) mid)"

lemma full_dto_simps [simp]:
  "td_turn_id (full_dto s t) = ct_id t" "td_thread_id (full_dto s t) = ct_thread_id t" "td_run_id (full_dto s t) = ct_run_id t"
  "td_state (full_dto s t) = ct_state t"
  by (simp_all add: full_dto_def live_console_turn_dto_def Let_def)

lemma dto_meta [simp]:
  "full_dto (s\<lparr>ks_meta := m\<rparr>) t = full_dto s t" "brief_dto (s\<lparr>ks_meta := m\<rparr>) t = brief_dto s t" for s :: console_store
  by (simp_all add: full_dto_def brief_dto_def thread_by_id_def Let_def)

lemma brief_dto_simps [simp]:
  "td_turn_id (brief_dto s t) = ct_id t" "td_thread_id (brief_dto s t) = ct_thread_id t" "td_state (brief_dto s t) = ct_state t"
  by (simp_all add: brief_dto_def live_console_turn_dto_def)

lemma advance_simps [simp]:
  "ct_id (advance_turn u now t) = ct_id t" "ct_thread_id (advance_turn u now t) = ct_thread_id t"
  "ct_run_id (advance_turn u now t) = ct_run_id t" "ct_state (advance_turn u now t) = tu_state u"
  "ct_created_at (advance_turn u now t) = ct_created_at t" "ct_receipt_id (advance_turn u now t) = ct_receipt_id t"
  by (simp_all add: advance_turn_def)

lemma claim_simps [simp]:
  "ct_id (claim_turn rid t) = ct_id t" "ct_thread_id (claim_turn rid t) = ct_thread_id t"
  "ct_run_id (claim_turn rid t) = Some rid" "ct_state (claim_turn rid t) = ''starting''"
  "ct_created_at (claim_turn rid t) = ct_created_at t" "ct_receipt_id (claim_turn rid t) = ct_receipt_id t"
  "ct_terminal_at (claim_turn rid t) = ct_terminal_at t"
  by (simp_all add: claim_turn_def)

lemma accept_change:
  assumes "accept_turn q ids db_now t r now s = Inr (reply, s')" and "ct_state t = ''queued''" and "ct_run_id t = None"
    and "ct_terminal_at t = None" and "ct_created_at t = now"
  shows "turn_change (ks_turns s) (call_event (Enqueue q ids db_now) now reply) (ks_turns s')"
proof (cases "find (executing (ct_thread_id t)) (ks_turns s)")
  case None
  then have idle: "\<forall>x \<in> set (ks_turns s). \<not> executing (ct_thread_id t) x" by (simp add: find_None_iff)
  have new: "ct_id t \<notin> ct_id ` set (ks_turns s)" "Some (ti_run ids) \<notin> ct_run_id ` set (ks_turns s)"
    and s': "ks_turns s' = ks_turns s @ [claim_turn (ti_run ids) t]"
    using assms(1) None by (auto simp: accept_turn_def run_id_used_def list_ex_iff Let_def split: if_splits)
  have "call_event (Enqueue q ids db_now) now reply = Admit (ct_thread_id t) (turn_order t)"
    using assms(1,5) None by (auto simp: accept_turn_def turn_order_def Let_def split: if_splits)
  then show ?thesis using turn_change.start[OF new(1) assms(2,4) idle new(2)] s' by simp
next
  case (Some x)
  then have x: "x \<in> set (ks_turns s)" "executing (ct_thread_id t) x" by (auto dest: find_mem)
  have new: "ct_id t \<notin> ct_id ` set (ks_turns s)" and s': "ks_turns s' = ks_turns s @ [t]"
    using assms(1) Some by (auto simp: accept_turn_def list_ex_iff Let_def split: if_splits)
  have "call_event (Enqueue q ids db_now) now reply = Admit (ct_thread_id t) (turn_order t)"
    using assms(1,5) Some by (auto simp: accept_turn_def turn_order_def Let_def split: if_splits)
  then show ?thesis using turn_change.wait[OF new assms(2-4) x] s' by simp
qed

lemma new_turn_simps [simp]:
  "ct_state (new_turn q ids c tid device cwd al now) = ''queued''" "ct_run_id (new_turn q ids c tid device cwd al now) = None"
  "ct_id (new_turn q ids c tid device cwd al now) = ti_turn ids" "ct_thread_id (new_turn q ids c tid device cwd al now) = tid"
  "ct_created_at (new_turn q ids c tid device cwd al now) = now" "ct_receipt_id (new_turn q ids c tid device cwd al now) = ti_receipt ids"
  "ct_session_id (new_turn q ids c tid device cwd al now) = tq_session_id q"
  "ct_terminal_at (new_turn q ids c tid device cwd al now) = None"
  by (simp_all add: new_turn_def)

text \<open>What accepting a message comes down to.\<close>

lemma enqueue_cases:
  assumes "enqueue_console_turn q ids db_now now s = Inr (reply, s')"
  obtains (unchanged) "s' = s" "\<forall>d. reply \<noteq> Turn_accepted d"
  | (accepted) c th device cwd where "find (\<lambda>c. sc_session_id c = tq_session_id q) (ks_sessions s) = Some c"
      "thread_by_id (the (sc_primary_thread_id c)) s = Some th"
      "one_or_none (same_client_request (tq_owner_id q) (tq_session_id q) (tq_client_request_id q)) (ks_receipts s) = Inr None"
      "accept_turn q ids db_now (new_turn q ids c (tt_id th) device cwd (ks_aliases s) now)
         (new_receipt q (ti_receipt ids) c th now) now s = Inr (reply, s')"
  using assms
  by (auto simp: enqueue_console_turn_def replay_enqueue_def or_none_def split: option.splits if_splits)

lemma enqueue_change:
  assumes "enqueue_console_turn q ids db_now now s = Inr (reply, s')"
  shows "turn_change (ks_turns s) (call_event (Enqueue q ids db_now) now reply) (ks_turns s')"
  using assms
proof (cases rule: enqueue_cases)
  case unchanged
  then have "call_event (Enqueue q ids db_now) now reply = Quiet" by (cases reply) simp_all
  then show ?thesis using unchanged(1) by (simp add: turn_change.same)
next
  case (accepted c th device cwd)
  then show ?thesis by (intro accept_change[OF accepted(4)]) simp_all
qed

text \<open>A report that is applied: the turn it names, and how its state moves.\<close>

lemma update_cases:
  assumes "update_console_turn u rid now s = Inr (reply, s')"
  obtains (unchanged) "s' = s" "\<forall>d n. reply \<noteq> Turn_updated d n"
  | (applied) t where "t \<in> set (ks_turns s)" "update_matches u s t" "ct_state t \<notin> set TERMINAL_STATES"
      "apply_update u rid now t s = Inr (reply, s')" "tu_expected_state u \<in> {None, Some (ct_state t)}"
proof -
  show thesis
  proof (cases "one_or_none (update_matches u s) (ks_turns s)")
    case (Inl e)
    with assms show thesis by (simp add: update_console_turn_def)
  next
    case (Inr m)
    show thesis
    proof (cases m)
      case None
      with Inr assms show thesis by (intro unchanged) (simp_all add: update_console_turn_def)
    next
      case (Some t)
      with Inr have hit: "one_or_none (update_matches u s) (ks_turns s) = Inr (Some t)" by simp
      note t = one_or_none_Some[OF hit, THEN conjunct1] one_or_none_Some[OF hit, THEN conjunct2, THEN conjunct1]
      have "s' = s \<and> (\<forall>d n. reply \<noteq> Turn_updated d n) \<or> ct_state t \<notin> set TERMINAL_STATES \<and> apply_update u rid now t s = Inr (reply, s') \<and>
          tu_expected_state u \<in> {None, Some (ct_state t)}"
        using assms hit unfolding update_console_turn_def by (simp split: if_splits)
      then show thesis using unchanged applied[OF t] by blast
    qed
  qed
qed

lemma apply_turns:
  assumes "apply_update u rid now t s = Inr (reply, s')"
  defines "mid \<equiv> update_where (\<lambda>x. ct_id x = ct_id t) (advance_turn u now) (ks_turns s)"
  obtains (progress) "tu_state u \<notin> set TERMINAL_STATES" "ks_turns s' = mid" "ks_runs s' = ks_runs s"
      "ks_sessions s' = ks_sessions s" "\<exists>d. reply = Turn_updated d None \<and> td_thread_id d = ct_thread_id t"
  | (finish) "tu_state u \<in> set TERMINAL_STATES" "next_waiting (ct_thread_id t) mid = None" "ks_turns s' = mid"
      "ks_runs s' = ks_runs (close_turn u now t s)" "ks_sessions s' = ks_sessions (close_turn u now t s)"
      "\<exists>d. reply = Turn_updated d None \<and> td_thread_id d = ct_thread_id t"
  | (pass) n resume where "tu_state u \<in> set TERMINAL_STATES" "next_waiting (ct_thread_id t) mid = Some n"
      "Some rid \<notin> ct_run_id ` set mid" "rid \<notin> cr_id ` set (ks_runs s)"
      "ks_turns s' = update_where (\<lambda>x. ct_id x = ct_id n) (\<lambda>_. taken_over rid now resume n) mid"
      "ks_runs s' = ks_runs (close_turn u now t s) @ [console_run_for rid (taken_over rid now resume n) now]"
      "ks_sessions s' = ks_sessions (close_turn u now t s)"
      "reply = Turn_updated (brief_dto s' (advance_turn u now t)) (Some (full_dto s' (taken_over rid now resume n)))"
proof (cases "tu_state u \<in> set TERMINAL_STATES")
  case False
  then show thesis using assms(1) progress by (simp add: apply_update_def Let_def mid_def)
next
  case over: True
  show thesis
  proof (cases "next_waiting (ct_thread_id t) mid")
    case None
    then show thesis using assms(1) over finish by (simp add: apply_update_def Let_def mid_def)
  next
    case (Some n)
    let ?s2 = "close_turn u now t (progress_turn u now t s)"
    define resume where "resume = resume_alias (ct_thread_id n) (ct_provider n) (ks_aliases s)"
    have free: "\<not> run_id_used rid ?s2" using assms(1) over Some by (simp add: apply_update_def Let_def mid_def split: if_splits)
    have runs: "cr_id ` set (update_where P (end_run u now) rows) = cr_id ` set rows" for P rows
      by (simp flip: set_map add: map_update_where end_run_def)
    have "Some rid \<notin> ct_run_id ` set mid"
      using free by (simp add: run_id_used_def list_ex_iff mid_def) (simp add: image_iff eq_commute)
    moreover have "rid \<notin> cr_id ` set (update_where (\<lambda>r. Some (cr_id r) = ct_run_id t) (end_run u now) (ks_runs s))"
      using free by (simp add: run_id_used_def list_ex_iff) (simp add: image_iff eq_commute)
    then have "rid \<notin> cr_id ` set (ks_runs s)" by (simp only: runs not_False_eq_True)
    moreover have "ks_turns s' = update_where (\<lambda>x. ct_id x = ct_id n) (\<lambda>_. taken_over rid now resume n) mid"
      "ks_runs s' = ks_runs (close_turn u now t s) @ [console_run_for rid (taken_over rid now resume n) now]"
      "ks_sessions s' = ks_sessions (close_turn u now t s)"
      "reply = Turn_updated (brief_dto s' (advance_turn u now t)) (Some (full_dto s' (taken_over rid now resume n)))"
      using assms(1) over Some free
      by (simp_all add: apply_update_def Let_def mid_def hand_over_def taken_over_def resume_def split: if_splits)
    ultimately show thesis by (rule pass[OF over Some])
  qed
qed

lemma run_turn_change:
  assumes "run_turn c now s = Inr (reply, s')"
  shows "turn_change (ks_turns s) (call_event c now reply) (ks_turns s')"
proof (cases c)
  case (Enqueue q ids db_now)
  then show ?thesis using assms enqueue_change by simp
next
  case (Report u rid)
  have quiet: "turn_change (ks_turns s) (call_event c now reply) (ks_turns s)" if "\<forall>d n. reply \<noteq> Turn_updated d n"
  proof -
    have "call_event c now reply = Quiet" using that unfolding Report by (cases reply) simp_all
    then show ?thesis by (simp add: turn_change.same)
  qed
  consider "s' = s" "\<forall>d n. reply \<noteq> Turn_updated d n"
    | "tu_state u \<in> {''starting'', ''active'', ''completed'', ''failed'', ''cancelled''}"
      "update_console_turn u rid now s = Inr (reply, s')"
    using assms unfolding Report by (auto simp: serve_update_console_turn_def split: if_splits)
  then show ?thesis
  proof cases
    case 2
    then have state: "tu_state u \<notin> set TERMINAL_STATES \<Longrightarrow> tu_state u \<in> {''starting'', ''active''}"
      by (auto simp: TERMINAL_STATES_def)
    from 2(2) show ?thesis
    proof (cases rule: update_cases)
      case (applied t)
      have run: "ct_run_id t \<noteq> None" using applied(2) by (simp add: update_matches_def)
      from applied(4) show ?thesis
      proof (cases rule: apply_turns)
        case progress
        then have e: "call_event c now reply = Quiet" unfolding Report by auto
        show ?thesis unfolding progress(2) e by (rule turn_change.progress[OF applied(1) run applied(3) state[OF progress(1)]])
      next
        case finish
        then have e: "call_event c now reply = Release (ct_thread_id t)" unfolding Report by auto
        show ?thesis unfolding finish(3) e by (rule turn_change.finish[OF applied(1) run applied(3) finish(1) refl finish(2)])
      next
        case (pass n resume)
        then have e: "call_event c now reply = Release (ct_thread_id t)" unfolding Report by auto
        show ?thesis unfolding pass(5) e by (rule turn_change.pass[OF applied(1) run applied(3) pass(1) refl pass(2,3)])
      qed
    qed (simp add: quiet)
  qed (simp add: quiet)
qed

subsection \<open>The invariant of the table\<close>

lemma replace_set:
  assumes "distinct (map k rows)" and "t \<in> set rows"
  shows "set (update_where (\<lambda>x. k x = k t) f rows) = insert (f t) (set rows - {t})"
proof -
  have "{x \<in> set rows. k x = k t} = {t}" "{x \<in> set rows. k x \<noteq> k t} = set rows - {t}"
    using assms by (auto simp: distinct_map dest: inj_onD)
  then show ?thesis by (simp add: set_update_where)
qed

definition TURN_STATES :: "string list" where
  "TURN_STATES = ''queued'' # EXECUTING_STATES @ TERMINAL_STATES"

definition row_ok :: "console_turn \<Rightarrow> bool" where
  "row_ok t \<longleftrightarrow> ct_state t \<in> set TURN_STATES \<and> (ct_run_id t = None \<longleftrightarrow> ct_state t = ''queued'') \<and>
     (ct_terminal_at t = None \<longleftrightarrow> ct_state t \<notin> set TERMINAL_STATES)"

definition turns_ok :: "console_turn list \<Rightarrow> bool" where
  "turns_ok rows \<longleftrightarrow> distinct (map ct_id rows) \<and> (\<forall>t \<in> set rows. row_ok t) \<and>
     (\<forall>t \<in> set rows. \<forall>x \<in> set rows. ct_run_id t \<noteq> None \<longrightarrow> ct_run_id x = ct_run_id t \<longrightarrow> x = t) \<and>
     (\<forall>t \<in> set rows. \<forall>x \<in> set rows. executing (ct_thread_id t) t \<longrightarrow> executing (ct_thread_id t) x \<longrightarrow> x = t) \<and>
     (\<forall>t \<in> set rows. waiting (ct_thread_id t) t \<longrightarrow> list_ex (executing (ct_thread_id t)) rows)"

lemma taken_simps [simp]:
  "ct_id (taken_over rid now resume n) = ct_id n" "ct_thread_id (taken_over rid now resume n) = ct_thread_id n"
  "ct_run_id (taken_over rid now resume n) = Some rid" "ct_state (taken_over rid now resume n) = ''starting''"
  "ct_created_at (taken_over rid now resume n) = ct_created_at n" "ct_receipt_id (taken_over rid now resume n) = ct_receipt_id n"
  "ct_terminal_at (taken_over rid now resume n) = ct_terminal_at n"
  by (simp_all add: taken_over_def)

lemma first_row_eq_Some: "first_row xs = Some x \<longleftrightarrow> (\<exists>ys. xs = x # ys)"
  by (auto simp: first_row_def split: list.splits)

lemma first_row_None: "first_row xs = None \<longleftrightarrow> xs = []"
  by (auto simp: first_row_def split: list.splits)

lemma next_waiting_Some:
  assumes "next_waiting tid rows = Some n"
  shows "n \<in> set rows" "waiting tid n" "\<forall>x \<in> set rows. waiting tid x \<longrightarrow> turn_order n \<le> turn_order x"
proof -
  obtain ys where q: "sort_key turn_order (filter (waiting tid) rows) = n # ys"
    using assms by (auto simp: next_waiting_def first_row_eq_Some)
  then have set: "set (filter (waiting tid) rows) = insert n (set ys)" by (metis list.simps(15) set_sort)
  then show "n \<in> set rows" "waiting tid n" by auto
  have "sorted (map turn_order (n # ys))" by (metis q sorted_sort_key)
  then show "\<forall>x \<in> set rows. waiting tid x \<longrightarrow> turn_order n \<le> turn_order x" using set by auto
qed

lemma next_waiting_None: "next_waiting tid rows = None \<longleftrightarrow> (\<forall>x \<in> set rows. \<not> waiting tid x)"
  by (simp add: next_waiting_def first_row_None flip: set_empty) blast

lemma running_row: "row_ok t \<Longrightarrow> ct_run_id t \<noteq> None \<Longrightarrow> ct_state t \<notin> set TERMINAL_STATES \<Longrightarrow> executing (ct_thread_id t) t"
  by (auto simp: row_ok_def TURN_STATES_def executing_def)

lemma terminal_row: "ct_state t \<in> set TERMINAL_STATES \<Longrightarrow> \<not> executing tid t \<and> \<not> waiting tid t"
  by (auto simp: turn_states)

lemma waiting_row: "waiting tid t \<Longrightarrow> \<not> executing tid' t"
  by (auto simp: turn_states)

lemma executing_thread: "executing tid t \<Longrightarrow> ct_thread_id t = tid"
  by (simp add: executing_def)

lemma advance_row_ok:
  "row_ok t \<Longrightarrow> executing (ct_thread_id t) t \<Longrightarrow> tu_state u \<in> set TURN_STATES - {''queued''} \<Longrightarrow> row_ok (advance_turn u now t)"
  by (auto simp: row_ok_def advance_turn_def turn_states)

lemma turns_okD:
  assumes "turns_ok rows"
  shows "distinct (map ct_id rows)" and "t \<in> set rows \<Longrightarrow> row_ok t"
    and "t \<in> set rows \<Longrightarrow> x \<in> set rows \<Longrightarrow> ct_run_id t = Some r \<Longrightarrow> ct_run_id x = Some r \<Longrightarrow> x = t"
    and "t \<in> set rows \<Longrightarrow> x \<in> set rows \<Longrightarrow> executing tid t \<Longrightarrow> executing tid x \<Longrightarrow> x = t"
    and "t \<in> set rows \<Longrightarrow> waiting tid t \<Longrightarrow> \<exists>x \<in> set rows. executing tid x"
proof -
  show "distinct (map ct_id rows)" using assms by (simp add: turns_ok_def)
  show "t \<in> set rows \<Longrightarrow> row_ok t" using assms by (simp add: turns_ok_def)
  show "t \<in> set rows \<Longrightarrow> x \<in> set rows \<Longrightarrow> ct_run_id t = Some r \<Longrightarrow> ct_run_id x = Some r \<Longrightarrow> x = t"
    using assms by (simp add: turns_ok_def)
  show "x = t" if "t \<in> set rows" "x \<in> set rows" "executing tid t" "executing tid x"
  proof -
    have "ct_thread_id t = tid" using that(3) by (simp add: executing_def)
    then show ?thesis using assms that unfolding turns_ok_def by blast
  qed
  show "\<exists>x \<in> set rows. executing tid x" if "t \<in> set rows" "waiting tid t"
  proof -
    have "ct_thread_id t = tid" using that(2) by (simp add: waiting_def)
    then show ?thesis using assms that unfolding turns_ok_def list_ex_iff by blast
  qed
qed

lemma turns_okI:
  assumes "distinct (map ct_id rows)" and "\<And>t. t \<in> set rows \<Longrightarrow> row_ok t"
    and "\<And>t x r. t \<in> set rows \<Longrightarrow> x \<in> set rows \<Longrightarrow> ct_run_id t = Some r \<Longrightarrow> ct_run_id x = Some r \<Longrightarrow> x = t"
    and "\<And>t x tid. t \<in> set rows \<Longrightarrow> x \<in> set rows \<Longrightarrow> executing tid t \<Longrightarrow> executing tid x \<Longrightarrow> x = t"
    and "\<And>t tid. t \<in> set rows \<Longrightarrow> waiting tid t \<Longrightarrow> \<exists>x \<in> set rows. executing tid x"
  shows "turns_ok rows"
proof -
  have "x = t" if "t \<in> set rows" "x \<in> set rows" "ct_run_id t \<noteq> None" "ct_run_id x = ct_run_id t" for t x
    using assms(3)[OF that(1,2)] that(3,4) by auto
  then show ?thesis unfolding turns_ok_def list_ex_iff using assms(1,2,4,5) by blast
qed

text \<open>A running turn replaced by one that has ended, or by one that still runs.\<close>

lemma replaced_ids: "(\<And>x. P x \<Longrightarrow> ct_id (f x) = ct_id x) \<Longrightarrow> map ct_id (update_where P f rows) = map ct_id rows"
  by (rule map_update_where)

lemma progress_ok:
  assumes ok: "turns_ok rows" and t: "t \<in> set rows" "ct_run_id t \<noteq> None" "ct_state t \<notin> set TERMINAL_STATES"
    and u: "tu_state u \<in> {''starting'', ''active''}"
  shows "turns_ok (update_where (\<lambda>x. ct_id x = ct_id t) (advance_turn u now) rows)" (is "turns_ok ?rows")
proof -
  note D = turns_okD[OF ok]
  have set: "set ?rows = insert (advance_turn u now t) (set rows - {t})" by (rule replace_set[OF D(1) t(1)])
  have run: "executing (ct_thread_id t) t" by (rule running_row[OF D(2)[OF t(1)] t(2,3)])
  have now': "executing tid (advance_turn u now t) \<longleftrightarrow> tid = ct_thread_id t" "\<not> waiting tid (advance_turn u now t)" for tid
    using u by (auto simp: turn_states)
  show ?thesis
  proof (rule turns_okI)
    show "distinct (map ct_id ?rows)" using D(1) by (simp add: replaced_ids)
    show "row_ok x" if "x \<in> set ?rows" for x
      using that advance_row_ok[OF D(2)[OF t(1)] run, of u now] D(2) u unfolding set by (auto simp: TURN_STATES_def EXECUTING_STATES_def)
    show "y = x" if "x \<in> set ?rows" "y \<in> set ?rows" "ct_run_id x = Some r" "ct_run_id y = Some r" for x y r
      using that D(3) t(1) unfolding set by auto
    show "y = x" if "x \<in> set ?rows" "y \<in> set ?rows" "executing tid x" "executing tid y" for x y tid
      using that D(4) t(1) run now' unfolding set by auto
    show "\<exists>y \<in> set ?rows. executing tid y" if "x \<in> set ?rows" "waiting tid x" for x tid
      using that D(5)[of x tid] now' unfolding set by (metis Diff_iff insert_iff executing_thread singletonD)
  qed
qed

text \<open>The table once the running turn of a thread has ended, before the next one takes over.\<close>

lemma ended_rows:
  assumes ok: "turns_ok rows" and t: "t \<in> set rows" "ct_run_id t \<noteq> None" "ct_state t \<notin> set TERMINAL_STATES"
    and u: "tu_state u \<in> set TERMINAL_STATES"
    and mid_def: "mid = update_where (\<lambda>x. ct_id x = ct_id t) (advance_turn u now) rows"
  shows "set mid = insert (advance_turn u now t) (set rows - {t})" and "distinct (map ct_id mid)"
    and "x \<in> set mid \<Longrightarrow> row_ok x"
    and "x \<in> set mid \<Longrightarrow> y \<in> set mid \<Longrightarrow> ct_run_id x = Some r \<Longrightarrow> ct_run_id y = Some r \<Longrightarrow> y = x"
    and "x \<in> set mid \<Longrightarrow> y \<in> set mid \<Longrightarrow> executing tid x \<Longrightarrow> executing tid y \<Longrightarrow> y = x"
    and "x \<in> set mid \<Longrightarrow> \<not> executing (ct_thread_id t) x"
    and "x \<in> set mid \<Longrightarrow> waiting tid x \<Longrightarrow> tid \<noteq> ct_thread_id t \<Longrightarrow> \<exists>y \<in> set mid. executing tid y"
proof -
  note D = turns_okD[OF ok]
  show set: "set mid = insert (advance_turn u now t) (set rows - {t})" unfolding mid_def by (rule replace_set[OF D(1) t(1)])
  have run: "executing (ct_thread_id t) t" by (rule running_row[OF D(2)[OF t(1)] t(2,3)])
  have new: "row_ok (advance_turn u now t)"
    using advance_row_ok[OF D(2)[OF t(1)] run] u by (auto simp: TURN_STATES_def TERMINAL_STATES_def)
  have over: "\<not> executing tid (advance_turn u now t)" "\<not> waiting tid (advance_turn u now t)" for tid
    using terminal_row[of "advance_turn u now t" tid] u by simp_all
  show "distinct (map ct_id mid)" using D(1) by (simp add: mid_def replaced_ids)
  show "x \<in> set mid \<Longrightarrow> row_ok x" using new D(2) unfolding set by blast
  show "x \<in> set mid \<Longrightarrow> y \<in> set mid \<Longrightarrow> ct_run_id x = Some r \<Longrightarrow> ct_run_id y = Some r \<Longrightarrow> y = x"
    using D(3) t(1) unfolding set by auto
  show "x \<in> set mid \<Longrightarrow> y \<in> set mid \<Longrightarrow> executing tid x \<Longrightarrow> executing tid y \<Longrightarrow> y = x"
    using D(4) over unfolding set by blast
  show "x \<in> set mid \<Longrightarrow> \<not> executing (ct_thread_id t) x"
    using D(4)[OF t(1) _ run] over unfolding set by blast
  show "\<exists>y \<in> set mid. executing tid y" if x: "x \<in> set mid" "waiting tid x" "tid \<noteq> ct_thread_id t"
  proof -
    have "x \<in> set rows" using x over unfolding set by blast
    then obtain y where y: "y \<in> set rows" "executing tid y" using D(5) x(2) by blast
    then have "y \<noteq> t" using x(3) by (auto simp: executing_def)
    then show ?thesis using y unfolding set by blast
  qed
qed

lemma turn_change_ok:
  assumes "turn_change rows e rows'" and ok: "turns_ok rows"
  shows "turns_ok rows'"
  using assms(1)
proof cases
  case (wait t x)
  note D = turns_okD[OF ok]
  have new: "\<not> executing tid t" "row_ok t" for tid
    using wait by (auto simp: turn_states row_ok_def TURN_STATES_def)
  show ?thesis unfolding wait(2)
  proof (rule turns_okI)
    show "distinct (map ct_id (rows @ [t]))" using D(1) wait(3) by simp
    show "\<exists>x \<in> set (rows @ [t]). executing tid x" if "y \<in> set (rows @ [t])" "waiting tid y" for y tid
      using that D(5)[of y tid] wait(7,8) by (auto simp: waiting_def)
  qed (use D(2,3,4) new wait(5) in auto)
next
  case (start t rid)
  note D = turns_okD[OF ok]
  have new: "executing tid (claim_turn rid t) \<longleftrightarrow> tid = ct_thread_id t" "\<not> waiting tid (claim_turn rid t)" "row_ok (claim_turn rid t)" for tid
    using start(4,5) by (auto simp: turn_states row_ok_def TURN_STATES_def)
  have other: "ct_run_id x \<noteq> Some rid" if "x \<in> set rows" for x using start(7) that by (metis image_eqI)
  show ?thesis unfolding start(2)
  proof (rule turns_okI)
    show "distinct (map ct_id (rows @ [claim_turn rid t]))" using D(1) start(3) by simp
    show "\<exists>x \<in> set (rows @ [claim_turn rid t]). executing tid x" if "y \<in> set (rows @ [claim_turn rid t])" "waiting tid y" for y tid
      using that D(5)[of y tid] new by auto
  qed (use D(2,3,4) new other start(6) in auto)
next
  case (finish t u now)
  note E = ended_rows[OF ok finish(2-6)]
  show ?thesis
  proof (rule turns_okI)
    show "\<exists>x \<in> set rows'. executing tid x" if "y \<in> set rows'" "waiting tid y" for y tid
      using that E(7)[of y tid] finish(7) unfolding next_waiting_None by blast
  qed (use E in blast)+
next
  case (pass t u mid now n rid resume)
  note E = ended_rows[OF ok pass(3,4,5,6,7)]
  note n = next_waiting_Some[OF pass(8)]
  let ?n = "taken_over rid now resume n"
  have set: "set rows' = insert ?n (set mid - {n})" unfolding pass(2) by (rule replace_set[OF E(2) n(1)])
  have new: "executing tid ?n \<longleftrightarrow> tid = ct_thread_id t" "\<not> waiting tid ?n" "row_ok ?n" for tid
    using n(2) E(3)[OF n(1)] by (auto simp: turn_states row_ok_def TURN_STATES_def)
  have other: "ct_run_id x \<noteq> Some rid" if "x \<in> set mid" for x using pass(9) that by (metis image_eqI)
  show ?thesis
  proof (rule turns_okI)
    show "distinct (map ct_id rows')" using E(2) unfolding pass(2) by (subst map_update_where) auto
    show "row_ok x" if "x \<in> set rows'" for x using that new E(3) unfolding set by blast
    show "y = x" if "x \<in> set rows'" "y \<in> set rows'" "ct_run_id x = Some r" "ct_run_id y = Some r" for x y r
      using that E(4)[of x y r] other[of x] other[of y] unfolding set by auto
    show "y = x" if "x \<in> set rows'" "y \<in> set rows'" "executing tid x" "executing tid y" for x y tid
      using that E(5)[of x y tid] E(6)[of x] E(6)[of y] new(1)[of tid] unfolding set by auto
    show "\<exists>x \<in> set rows'. executing tid x" if y: "y \<in> set rows'" "waiting tid y" for y tid
    proof (cases "tid = ct_thread_id t")
      case True
      then show ?thesis using new(1)[of tid] unfolding set by blast
    next
      case False
      then have "y \<in> set mid" using y new(2) unfolding set by blast
      then obtain z where "z \<in> set mid" "executing tid z" using E(7) y(2) False by blast
      then show ?thesis using waiting_row[OF n(2)] unfolding set by blast
    qed
  qed
qed (use ok progress_ok in simp_all)

subsection \<open>One running turn and a queue per thread\<close>

definition lane_of :: "string \<Rightarrow> console_turn list \<Rightarrow> lane" where
  "lane_of tid rows = \<lparr>ln_running = map_option ct_id (find (executing tid) rows),
     ln_queue = sort (map turn_order (filter (waiting tid) rows))\<rparr>"

lemma queue_as_set:
  assumes "distinct (map ct_id rows)"
  shows "ln_queue (lane_of tid rows) = sorted_list_of_set (turn_order ` {t \<in> set rows. waiting tid t})"
proof -
  have "inj_on ct_id (set rows)" "distinct rows" using assms by (simp_all add: distinct_map)
  then have "inj_on turn_order (set rows)" by (auto simp: inj_on_def turn_order_def)
  then have "distinct (map turn_order (filter (waiting tid) rows))"
    using \<open>distinct rows\<close> by (simp add: distinct_map inj_on_subset[of _ "set rows"])
  then have "sort (map turn_order (filter (waiting tid) rows)) = sorted_list_of_set (set (map turn_order (filter (waiting tid) rows)))"
    by (simp only: sorted_list_of_set_sort_remdups distinct_remdups_id)
  then show ?thesis by (simp add: lane_of_def)
qed

lemma running_of:
  assumes "turns_ok rows" and "x \<in> set rows" and "executing tid x"
  shows "ln_running (lane_of tid rows) = Some (ct_id x)"
proof -
  obtain y where y: "find (executing tid) rows = Some y" using assms(2,3) by (meson find_None_iff not_None_eq)
  then have "y = x" using turns_okD(4)[OF assms(1,2)] assms(3) find_mem by metis
  with y show ?thesis by (simp add: lane_of_def)
qed

lemma running_none: "(\<And>x. x \<in> set rows \<Longrightarrow> \<not> executing tid x) \<Longrightarrow> ln_running (lane_of tid rows) = None"
  by (simp add: lane_of_def find_None_iff)

lemma lane_eqI:
  assumes "turns_ok rows" and "ln_queue l = sorted_list_of_set (turn_order ` {t \<in> set rows. waiting tid t})"
    and "set_option (ln_running l) = ct_id ` {t \<in> set rows. executing tid t}"
  shows "lane_of tid rows = l"
proof (rule lane.equality)
  show "ln_queue (lane_of tid rows) = ln_queue l" using assms(2) by (simp add: queue_as_set[OF turns_okD(1)[OF assms(1)]])
  show "ln_running (lane_of tid rows) = ln_running l"
  proof (cases "ln_running l")
    case None
    then show ?thesis using assms(3) running_none[of rows tid] by auto
  next
    case (Some i)
    then have "i \<in> ct_id ` {t \<in> set rows. executing tid t}" using assms(3) by auto
    then obtain x where "x \<in> set rows" "executing tid x" "ct_id x = i" by blast
    then show ?thesis using running_of[OF assms(1)] Some by simp
  qed
qed simp

lemma lane_sets:
  assumes "turns_ok rows"
  shows "ln_queue (lane_of tid rows) = sorted_list_of_set (turn_order ` {t \<in> set rows. waiting tid t})"
    and "set_option (ln_running (lane_of tid rows)) = ct_id ` {t \<in> set rows. executing tid t}"
proof -
  show "ln_queue (lane_of tid rows) = sorted_list_of_set (turn_order ` {t \<in> set rows. waiting tid t})"
    by (rule queue_as_set[OF turns_okD(1)[OF assms]])
  show "set_option (ln_running (lane_of tid rows)) = ct_id ` {t \<in> set rows. executing tid t}"
  proof (cases "\<exists>x \<in> set rows. executing tid x")
    case True
    then obtain x where x: "x \<in> set rows" "executing tid x" by blast
    then have "{t \<in> set rows. executing tid t} = {x}" using turns_okD(4)[OF assms x(1)] by blast
    then show ?thesis using running_of[OF assms x] by simp
  next
    case False
    then show ?thesis using running_none[of rows tid] by auto
  qed
qed

lemma lane_same:
  assumes "turns_ok rows" and "turns_ok rows'"
    and "ct_id ` {t \<in> set rows'. executing tid t} = ct_id ` {t \<in> set rows. executing tid t}"
    and "turn_order ` {t \<in> set rows'. waiting tid t} = turn_order ` {t \<in> set rows. waiting tid t}"
  shows "lane_of tid rows' = lane_of tid rows"
  by (rule lane_eqI[OF assms(2)]) (simp_all only: assms(3,4) lane_sets[OF assms(1)])

lemma admit_lane:
  assumes "turns_ok rows" and "turns_ok (rows @ [t])" and "ct_id t \<notin> ct_id ` set rows" and "ct_thread_id t = tid"
    and "if ln_running (lane_of tid rows) = None then executing tid t else waiting tid t"
  shows "lane_of tid (rows @ [t]) = lane_admit (turn_order t) (lane_of tid rows)"
proof (rule lane_eqI[OF assms(2)])
  note L = lane_sets[OF assms(1), of tid]
  have new: "turn_order t \<notin> turn_order ` {x \<in> set rows. waiting tid x}" using assms(3) by (auto simp: turn_order_def)
  have queue: "ln_running (lane_of tid rows) = None \<Longrightarrow> \<not> waiting tid t" using assms(5) waiting_row by auto
  have run: "ln_running (lane_of tid rows) \<noteq> None \<Longrightarrow> \<not> executing tid t" using assms(5) waiting_row by auto
  have "{x \<in> set (rows @ [t]). P x} = (if P t then insert t {x \<in> set rows. P x} else {x \<in> set rows. P x})" for P by auto
  note split = this
  show "ln_queue (lane_admit (turn_order t) (lane_of tid rows)) = sorted_list_of_set (turn_order ` {x \<in> set (rows @ [t]). waiting tid x})"
    unfolding split using assms(5) queue new by (auto simp: lane_admit_def L(1) sorted_list_of_set_insert_remove)
  show "set_option (ln_running (lane_admit (turn_order t) (lane_of tid rows))) = ct_id ` {x \<in> set (rows @ [t]). executing tid x}"
    unfolding split using assms(5) run L(2) by (auto simp: lane_admit_def turn_order_def split: if_splits)
qed

lemma snd_order: "snd (turn_order t) = ct_id t"
  by (simp add: turn_order_def)

lemma start_order: "turn_order (claim_turn rid t) = turn_order t"
  by (simp add: turn_order_def)

lemma taken_order: "turn_order (taken_over rid now resume n) = turn_order n"
  by (simp add: turn_order_def)

text \<open>The thread is released: nobody waits, or the first one in the queue takes over.\<close>

lemma release_empty:
  assumes ok: "turns_ok rows" "turns_ok mid" and t: "t \<in> set rows"
    and set: "set mid = insert t' (set rows - {t})" and over: "\<And>tid. \<not> executing tid t' \<and> \<not> waiting tid t'"
    and run: "executing tid t" and none: "\<And>x. x \<in> set mid \<Longrightarrow> \<not> waiting tid x"
  shows "lane_of tid mid = lane_release (lane_of tid rows)"
proof (rule lane_eqI[OF ok(2)])
  have "{x \<in> set rows. waiting tid x} = {}" using none waiting_row[of tid t tid] run unfolding set by auto
  then have queue: "ln_queue (lane_of tid rows) = []" by (simp add: lane_sets(1)[OF ok(1)])
  have "{x \<in> set mid. executing tid x} = {}" using turns_okD(4)[OF ok(1) t _ run] over unfolding set by blast
  then show "set_option (ln_running (lane_release (lane_of tid rows))) = ct_id ` {x \<in> set mid. executing tid x}"
    by (simp add: lane_release_def queue)
  have nobody: "{x \<in> set mid. waiting tid x} = {}" using none by auto
  show "ln_queue (lane_release (lane_of tid rows)) = sorted_list_of_set (turn_order ` {x \<in> set mid. waiting tid x})"
    unfolding nobody by (simp add: lane_release_def queue)
qed

lemma least_first:
  assumes "finite A" and "k \<in> A" and "\<And>x. x \<in> A \<Longrightarrow> k \<le> x"
  shows "sorted_list_of_set A = k # sorted_list_of_set (A - {k})"
proof -
  have "Min A = k" using assms by (intro Min_eqI) auto
  then show ?thesis using sorted_list_of_set_nonempty[OF assms(1)] assms(2) by auto
qed

lemma release_next:
  assumes ok: "turns_ok rows" "turns_ok rows'" and t: "t \<in> set rows"
    and set: "set mid = insert t' (set rows - {t})" and over: "\<And>tid. \<not> executing tid t' \<and> \<not> waiting tid t'"
    and run: "executing tid t" and n: "next_waiting tid mid = Some n"
    and set': "set rows' = insert n' (set mid - {n})" and n': "ct_id n' = ct_id n" "executing tid n'"
  shows "lane_of tid rows' = lane_release (lane_of tid rows)"
proof (rule lane_eqI[OF ok(2)])
  note N = next_waiting_Some[OF n]
  have W: "{x \<in> set mid. waiting tid x} = {x \<in> set rows. waiting tid x}"
    using over waiting_row[of tid t tid] run unfolding set by auto
  let ?A = "turn_order ` {x \<in> set rows. waiting tid x}"
  have least: "sorted_list_of_set ?A = turn_order n # sorted_list_of_set (?A - {turn_order n})"
    by (rule least_first) (use N W in auto)
  have "inj_on ct_id (set rows)" using turns_okD(1)[OF ok(1)] by (simp add: distinct_map)
  then have inj: "inj_on turn_order (set rows)" by (auto simp: inj_on_def turn_order_def)
  have "{x \<in> set rows'. waiting tid x} = {x \<in> set rows. waiting tid x} - {n}"
    using W waiting_row[of tid n' tid] n'(2) unfolding set' by auto
  moreover have "turn_order ` ({x \<in> set rows. waiting tid x} - {n}) = ?A - {turn_order n}"
    using inj N(1,2) W by (subst inj_on_image_set_diff[of turn_order "set rows"]) auto
  ultimately show "ln_queue (lane_release (lane_of tid rows)) = sorted_list_of_set (turn_order ` {x \<in> set rows'. waiting tid x})"
    by (simp add: lane_release_def lane_sets(1)[OF ok(1)] least)
  have "{x \<in> set rows'. executing tid x} = {n'}"
    using turns_okD(4)[OF ok(1) t _ run] over n'(2) unfolding set' set by blast
  then show "set_option (ln_running (lane_release (lane_of tid rows))) = ct_id ` {x \<in> set rows'. executing tid x}"
    by (simp add: lane_release_def lane_sets(1)[OF ok(1)] least n'(1) snd_order)
qed

lemma lane_other:
  assumes "turns_ok rows" and "turns_ok rows'"
    and same: "{x \<in> set rows'. ct_thread_id x = tid} = {x \<in> set rows. ct_thread_id x = tid}"
  shows "lane_of tid rows' = lane_of tid rows"
proof (rule lane_same[OF assms(1,2)])
  have e: "{x \<in> set rows'. executing tid x} = {x \<in> set rows. executing tid x}" using same unfolding executing_def by blast
  have w: "{x \<in> set rows'. waiting tid x} = {x \<in> set rows. waiting tid x}" using same unfolding waiting_def by blast
  show "ct_id ` {t \<in> set rows'. executing tid t} = ct_id ` {t \<in> set rows. executing tid t}" by (simp only: e)
  show "turn_order ` {t \<in> set rows'. waiting tid t} = turn_order ` {t \<in> set rows. waiting tid t}" by (simp only: w)
qed

lemma progress_lane:
  assumes ok: "turns_ok rows" and t: "t \<in> set rows" "ct_run_id t \<noteq> None" "ct_state t \<notin> set TERMINAL_STATES"
    and u: "tu_state u \<in> {''starting'', ''active''}" and rows': "rows' = update_where (\<lambda>x. ct_id x = ct_id t) (advance_turn u now) rows"
  shows "lane_of tid rows' = lane_of tid rows"
proof (rule lane_same[OF ok])
  show "turns_ok rows'" unfolding rows' by (rule progress_ok[OF ok t u])
  have run: "executing (ct_thread_id t) t" by (rule running_row[OF turns_okD(2)[OF ok t(1)] t(2,3)])
  have set: "set rows' = insert (advance_turn u now t) (set rows - {t})"
    unfolding rows' by (rule replace_set[OF turns_okD(1)[OF ok] t(1)])
  have e: "executing tid (advance_turn u now t) = executing tid t" "\<not> waiting tid (advance_turn u now t)" "\<not> waiting tid t"
    using u run by (auto simp: turn_states)
  show "ct_id ` {t \<in> set rows'. executing tid t} = ct_id ` {t \<in> set rows. executing tid t}"
  proof (cases "executing tid t")
    case True
    have "{x \<in> set rows. executing tid x} = {t}" using turns_okD(4)[OF ok t(1) _ True] t(1) True by blast
    moreover have "{x \<in> set rows'. executing tid x} = {advance_turn u now t}"
      using turns_okD(4)[OF ok t(1) _ True] e(1) True unfolding set by blast
    ultimately show ?thesis by simp
  next
    case False
    have "{x \<in> set rows'. executing tid x} = {x \<in> set rows. executing tid x}" using e(1) False unfolding set by blast
    then show ?thesis by (simp only:)
  qed
  have w: "{x \<in> set rows'. waiting tid x} = {x \<in> set rows. waiting tid x}" using e(2,3) unfolding set by blast
  show "turn_order ` {t \<in> set rows'. waiting tid t} = turn_order ` {t \<in> set rows. waiting tid t}" by (simp only: w)
qed

lemma finish_lane:
  assumes ok: "turns_ok rows" "turns_ok mid" and t: "t \<in> set rows" "ct_run_id t \<noteq> None" "ct_state t \<notin> set TERMINAL_STATES"
    and u: "tu_state u \<in> set TERMINAL_STATES" and mid: "mid = update_where (\<lambda>x. ct_id x = ct_id t) (advance_turn u now) rows"
    and none: "next_waiting (ct_thread_id t) mid = None"
  shows "lane_of tid mid = lane_step (Release (ct_thread_id t)) tid (lane_of tid rows)"
proof (cases "ct_thread_id t = tid")
  case True
  have run: "executing (ct_thread_id t) t" by (rule running_row[OF turns_okD(2)[OF ok(1) t(1)] t(2,3)])
  have over: "\<not> executing i (advance_turn u now t) \<and> \<not> waiting i (advance_turn u now t)" for i
    using terminal_row[of "advance_turn u now t"] u by simp
  have "lane_of tid mid = lane_release (lane_of tid rows)"
    by (rule release_empty[OF ok t(1) ended_rows(1)[OF ok(1) t u mid] over]) (use run True none in \<open>auto simp: next_waiting_None\<close>)
  then show ?thesis using True by (simp add: lane_step_def)
next
  case False
  have "lane_of tid mid = lane_of tid rows"
    by (rule lane_other[OF ok]) (use False in \<open>auto simp: ended_rows(1)[OF ok(1) t u mid]\<close>)
  then show ?thesis using False by (simp add: lane_step_def)
qed

lemma pass_lane:
  assumes ok: "turns_ok rows" "turns_ok rows'" and t: "t \<in> set rows" "ct_run_id t \<noteq> None" "ct_state t \<notin> set TERMINAL_STATES"
    and u: "tu_state u \<in> set TERMINAL_STATES" and mid: "mid = update_where (\<lambda>x. ct_id x = ct_id t) (advance_turn u now) rows"
    and n: "next_waiting (ct_thread_id t) mid = Some n"
    and rows': "rows' = update_where (\<lambda>x. ct_id x = ct_id n) (\<lambda>_. taken_over rid now resume n) mid"
  shows "lane_of tid rows' = lane_step (Release (ct_thread_id t)) tid (lane_of tid rows)"
proof -
  note E = ended_rows[OF ok(1) t u mid]
  note N = next_waiting_Some[OF n]
  have set: "set rows' = insert (taken_over rid now resume n) (set mid - {n})"
    unfolding rows' by (rule replace_set[OF E(2) N(1)])
  have thread: "ct_thread_id n = ct_thread_id t" using N(2) by (simp add: waiting_def)
  show ?thesis
  proof (cases "ct_thread_id t = tid")
    case True
    have run: "executing (ct_thread_id t) t" by (rule running_row[OF turns_okD(2)[OF ok(1) t(1)] t(2,3)])
    have over: "\<not> executing i (advance_turn u now t) \<and> \<not> waiting i (advance_turn u now t)" for i
      using terminal_row[of "advance_turn u now t"] u by simp
    have "lane_of tid rows' = lane_release (lane_of tid rows)"
      by (rule release_next[OF ok t(1) E(1) over _ _ set])
         (use run True n thread in \<open>auto simp: executing_def EXECUTING_STATES_def\<close>)
    then show ?thesis using True by (simp add: lane_step_def)
  next
    case False
    have "lane_of tid rows' = lane_of tid rows" by (rule lane_other[OF ok]) (use False thread in \<open>auto simp: E(1) set\<close>)
    then show ?thesis using False by (simp add: lane_step_def)
  qed
qed

lemma appended_lane:
  assumes ok: "turns_ok rows" "turns_ok (rows @ [t])" and new: "ct_id t \<notin> ct_id ` set rows"
    and fit: "if ln_running (lane_of (ct_thread_id t) rows) = None then executing (ct_thread_id t) t else waiting (ct_thread_id t) t"
  shows "lane_of tid (rows @ [t]) = lane_step (Admit (ct_thread_id t) (turn_order t)) tid (lane_of tid rows)"
proof (cases "ct_thread_id t = tid")
  case True
  then show ?thesis using admit_lane[OF ok new True fit[unfolded True]] by (simp add: lane_step_def)
next
  case False
  have "lane_of tid (rows @ [t]) = lane_of tid rows" by (rule lane_other[OF ok]) (use False in auto)
  then show ?thesis using False by (simp add: lane_step_def)
qed

lemma change_lane:
  assumes change: "turn_change rows e rows'" and ok: "turns_ok rows"
  shows "lane_of tid rows' = lane_step e tid (lane_of tid rows)"
proof -
  have ok': "turns_ok rows'" by (rule turn_change_ok[OF change ok])
  from change show ?thesis
  proof cases
    case same
    then show ?thesis by (simp add: lane_step_def)
  next
    case (wait t x)
    have "ln_running (lane_of (ct_thread_id t) rows) \<noteq> None" "waiting (ct_thread_id t) t"
      using running_of[OF ok wait(7,8)] wait(4) by (simp_all add: waiting_def)
    then show ?thesis unfolding wait(1,2) by (intro appended_lane[OF ok ok'[unfolded wait(2)] wait(3)]) auto
  next
    case (start t rid)
    have "ln_running (lane_of (ct_thread_id t) rows) = None" using running_none start(6) by blast
    then have fit: "if ln_running (lane_of (ct_thread_id (claim_turn rid t)) rows) = None
        then executing (ct_thread_id (claim_turn rid t)) (claim_turn rid t) else waiting (ct_thread_id (claim_turn rid t)) (claim_turn rid t)"
      by (simp add: turn_states)
    have "ct_id (claim_turn rid t) \<notin> ct_id ` set rows" using start(3) by simp
    then show ?thesis unfolding start(1,2) using appended_lane[OF ok ok'[unfolded start(2)] _ fit] by (simp add: start_order)
  next
    case (progress t u now)
    then show ?thesis using progress_lane[OF ok progress(3-6) progress(2)] by (simp add: lane_step_def)
  next
    case (finish t u now)
    show ?thesis unfolding finish(1) by (rule finish_lane[OF ok ok' finish(2-7)])
  next
    case (pass t u mid now n rid resume)
    show ?thesis unfolding pass(1) by (rule pass_lane[OF ok ok' pass(3-8) pass(2)])
  qed
qed

end
