(* ===== verification/Turn_Guarantees.thy ===== *)
theory Turn_Guarantees
  imports Turn_Properties
begin

text \<open>
  The guarantees of Console turns: the catalog's store keeps lanes (an interpretation of \<open>turn_lanes\<close>), an
  outcome is final, a message is accepted once, an ended turn is closed in every table, and a waiting turn gets
  its run.
\<close>

definition turn_event :: "turn_call \<times> instant \<Rightarrow> console_store \<Rightarrow> (lane_event \<times> console_store) res" where
  "turn_event cn s = (case cn of (c, now) \<Rightarrow> bindR (run_turn c now s) (\<lambda>(reply, s'). Inr (call_event c now reply, s')))"

lemma turn_event_Inr:
  "turn_event cn s = Inr (e, s') \<longleftrightarrow> (\<exists>reply. run_turn (fst cn) (snd cn) s = Inr (reply, s') \<and> e = call_event (fst cn) (snd cn) reply)"
  by (auto simp: turn_event_def split: prod.splits)

lemma event_change: "turn_event cn s = Inr (e, s') \<Longrightarrow> turn_change (ks_turns s) e (ks_turns s')"
  by (auto simp: turn_event_Inr intro: run_turn_change)

interpretation catalog_lanes: turn_lanes turn_event "\<lambda>tid s. lane_of tid (ks_turns s)" "\<lambda>s. turns_ok (ks_turns s)"
proof
  fix s s' :: console_store and c e tid
  assume ok: "turns_ok (ks_turns s)"
  show "turn_event c s = Inr (e, s') \<Longrightarrow> turns_ok (ks_turns s')" by (rule turn_change_ok[OF event_change ok])
  show "turn_event c s = Inr (e, s') \<Longrightarrow> lane_of tid (ks_turns s') = lane_step e tid (lane_of tid (ks_turns s))"
    by (rule change_lane[OF event_change ok])
  show "sorted (ln_queue (lane_of tid (ks_turns s)))" by (simp add: lane_of_def)
  show "ln_running (lane_of tid (ks_turns s)) \<noteq> None" if "ln_queue (lane_of tid (ks_turns s)) \<noteq> []"
  proof -
    have "filter (waiting tid) (ks_turns s) \<noteq> []" using that by (auto simp: lane_of_def)
    then obtain t where "t \<in> set (ks_turns s)" "waiting tid t" by (auto simp: filter_empty_conv)
    then obtain x where "x \<in> set (ks_turns s)" "executing tid x" using turns_okD(5)[OF ok] by blast
    then show ?thesis using running_of[OF ok] by simp
  qed
qed

text \<open>
  Whatever messages are accepted and whatever progress is reported, in any order: turn and run ids stay
  unique, a turn has a run exactly when it is not queued and an end time exactly when it has ended, no thread
  executes two turns, and no turn waits on a thread that executes none.
\<close>

theorem console_turn_invariant:
  assumes "turns_ok (ks_turns s)" and "event_runs turn_event calls s = Inr (es, s')"
  shows "turns_ok (ks_turns s')"
  by (rule catalog_lanes.runs_keep[OF assms])

text \<open>
  (C15) The store implements lanes: an accepted message is admitted to its thread's lane, a terminal report
  releases it to the first turn in the queue, every other answer leaves all lanes as they are.
\<close>

theorem turns_refine_lanes:
  assumes "turns_ok (ks_turns s)" and "run_turn c now s = Inr (reply, s')"
  shows "lane_of tid (ks_turns s') = lane_step (call_event c now reply) tid (lane_of tid (ks_turns s))"
  using change_lane[OF run_turn_change[OF assms(2)] assms(1)] .

subsection \<open>Persistence\<close>

lemma change_persists:
  assumes "turn_change rows e rows'" and ok: "turns_ok rows" and y: "y \<in> set rows"
  shows "\<exists>x \<in> set rows'. ct_thread_id x = ct_thread_id y \<and> turn_order x = turn_order y"
proof -
  have step: "\<exists>x \<in> set b. ct_thread_id x = ct_thread_id y \<and> turn_order x = turn_order y"
    if "y \<in> set a" "set b = insert t' (set a - {t})" "ct_thread_id t' = ct_thread_id t" "turn_order t' = turn_order t" for a b t t' y
    using that by (cases "y = t") auto
  from assms(1) show ?thesis
  proof cases
    case (progress t u now)
    show ?thesis unfolding progress(2)
      by (rule step[OF y replace_set[OF turns_okD(1)[OF ok] progress(3)]]) (simp_all add: turn_order_def)
  next
    case (finish t u now)
    show ?thesis by (rule step[OF y ended_rows(1)[OF ok finish(2-6)]]) (simp_all add: turn_order_def)
  next
    case (pass t u mid now n rid resume)
    note E = ended_rows[OF ok pass(3-7)]
    obtain z where z: "z \<in> set mid" "ct_thread_id z = ct_thread_id y" "turn_order z = turn_order y"
      using step[OF y E(1)] by (auto simp: turn_order_def)
    have "\<exists>x \<in> set rows'. ct_thread_id x = ct_thread_id z \<and> turn_order x = turn_order z"
      unfolding pass(2)
      by (rule step[OF z(1) replace_set[OF E(2) next_waiting_Some(1)[OF pass(8)]]]) (simp_all add: turn_order_def)
    then show ?thesis using z by simp
  qed (use y in auto)
qed

lemma runs_persist:
  "turns_ok (ks_turns s) \<Longrightarrow> event_runs turn_event calls s = Inr (es, s') \<Longrightarrow> y \<in> set (ks_turns s) \<Longrightarrow>
     \<exists>x \<in> set (ks_turns s'). ct_thread_id x = ct_thread_id y \<and> turn_order x = turn_order y"
proof (induction calls arbitrary: s es y)
  case (Cons c cs)
  then obtain e t es' where r: "turn_event c s = Inr (e, t)" "event_runs turn_event cs t = Inr (es', s')" by auto
  obtain z where z: "z \<in> set (ks_turns t)" "ct_thread_id z = ct_thread_id y" "turn_order z = turn_order y"
    using change_persists[OF event_change[OF r(1)] Cons.prems(1,3)] by blast
  show ?case using Cons.IH[OF catalog_lanes.keeps[OF Cons.prems(1) r(1)] r(2) z(1)] z(2,3) by simp
qed auto

text \<open>
  (C17) A waiting turn gets its run: once its thread has been released as often as there are turns not behind it,
  and only later messages came in meanwhile, the turn has left the queue with a run of its own.
\<close>

theorem waiting_turn_is_started:
  assumes "turns_ok (ks_turns s)" and "t \<in> set (ks_turns s)" and "waiting tid t"
    and "event_runs turn_event calls s = Inr (es, s')" and "list_all (admits_later (turn_order t) tid) es"
    and "not_after (turn_order t) (lane_of tid (ks_turns s)) \<le> releases tid es"
  shows "\<exists>x \<in> set (ks_turns s'). ct_id x = ct_id t \<and> ct_run_id x \<noteq> None"
proof -
  obtain x where x: "x \<in> set (ks_turns s')" "ct_thread_id x = ct_thread_id t" "turn_order x = turn_order t"
    using runs_persist[OF assms(1,4,2)] by blast
  have "turn_order x \<notin> set (ln_queue (lane_of tid (ks_turns s')))"
    using catalog_lanes.leaves_queue[OF assms(1,4-6)] x(3) by simp
  then have "\<not> waiting tid x" using x(1) by (auto simp: lane_of_def)
  then have "ct_state x \<noteq> ''queued''" using x(2) assms(3) by (simp add: waiting_def)
  then have "ct_run_id x \<noteq> None"
    using turns_okD(2)[OF catalog_lanes.runs_keep[OF assms(1,4)] x(1)] by (simp add: row_ok_def)
  moreover have "ct_id x = ct_id t" using x(3) snd_order by metis
  ultimately show ?thesis using x(1) by blast
qed

lemma change_keeps_finished:
  assumes "turn_change rows e rows'" and ok: "turns_ok rows" and t: "t \<in> set rows" "ct_state t \<in> set TERMINAL_STATES"
  shows "t \<in> set rows'"
  using assms(1)
proof cases
  case (progress x u now)
  show ?thesis unfolding progress(2) replace_set[OF turns_okD(1)[OF ok] progress(3)] using t progress(5) by auto
next
  case (finish x u now)
  show ?thesis unfolding ended_rows(1)[OF ok finish(2-6)] using t finish(4) by auto
next
  case (pass x u mid now n rid resume)
  note E = ended_rows[OF ok pass(3-7)] and N = next_waiting_Some[OF pass(8)]
  have "t \<in> set mid" unfolding E(1) using t pass(5) by auto
  moreover have "t \<noteq> n" using N(2) t(2) terminal_row by blast
  ultimately show ?thesis unfolding pass(2) replace_set[OF E(2) N(1)] by simp
qed (use t in simp_all)

text \<open>
  (C18) An outcome is final: a turn that has completed, failed or been cancelled is never written again, neither
  by a late report of its machine nor by the next turns of its thread.
\<close>

theorem finished_turn_is_final:
  assumes "turns_ok (ks_turns s)" and "t \<in> set (ks_turns s)" and "ct_state t \<in> set TERMINAL_STATES"
    and "run_turn c now s = Inr (reply, s')"
  shows "t \<in> set (ks_turns s')"
  by (rule change_keeps_finished[OF run_turn_change[OF assms(4)] assms(1-3)])

subsection \<open>Accepting once\<close>

lemma accept_tables:
  assumes "accept_turn q ids db_now t r now s = Inr (reply, s')" and "ir_id r = ct_receipt_id t"
  obtains t' r' where "ks_turns s' = ks_turns s @ [t']" "ks_receipts s' = ks_receipts s @ [r']" "reply = Turn_accepted (full_dto s' t')"
    "ct_receipt_id t' = ct_receipt_id t" "ct_thread_id t' = ct_thread_id t" "ir_id r' = ct_receipt_id t" "ir_text r' = ir_text r"
    "ir_client_request_id r' = ir_client_request_id r" "ir_owner_id r' = ir_owner_id r" "ir_session_id r' = ir_session_id r"
    "ks_sessions s' = ks_sessions s" "ks_threads s' = ks_threads s" "ks_owners s' = ks_owners s"
    "receipt_by_id (ct_receipt_id t) (ks_receipts s) = None" "\<forall>x \<in> set (ks_turns s). ct_receipt_id x \<noteq> ct_receipt_id t"
proof -
  have free: "receipt_by_id (ct_receipt_id t) (ks_receipts s) = None" "\<forall>x \<in> set (ks_turns s). ct_receipt_id x \<noteq> ct_receipt_id t"
    using assms(1) by (auto simp: accept_turn_def list_ex_iff split: if_splits)
  show thesis
  proof (cases "find (executing (ct_thread_id t)) (ks_turns s) = None")
    case True
    then show thesis using assms free
      by (intro that[of "claim_turn (ti_run ids) t" "r\<lparr>ir_status := ''delivering'', ir_delivery_request_id := Some (ti_run ids),
            ir_updated_at := current_timestamp db_now\<rparr>"])
         (auto simp: accept_turn_def Let_def split: if_splits)
  next
    case False
    then show thesis using assms free by (intro that[of t r]) (auto simp: accept_turn_def Let_def split: if_splits)
  qed
qed

lemma new_receipt_simps [simp]:
  "ir_id (new_receipt q i c th now) = i" "ir_text (new_receipt q i c th now) = tq_message q"
  "ir_client_request_id (new_receipt q i c th now) = Some (tq_client_request_id q)"
  "ir_owner_id (new_receipt q i c th now) = tq_owner_id q" "ir_session_id (new_receipt q i c th now) = tq_session_id q"
  by (simp_all add: new_receipt_def blank_receipt_def)

lemma find_id: "find (\<lambda>x. k x = i) xs = Some x \<Longrightarrow> k x = i"
  by (auto simp: find_Some_iff)

lemma belongs_cong:
  assumes "ks_owners s' = ks_owners s" and "ks_sessions s' = ks_sessions s"
  shows "session_belongs_to_owner s' sid w = session_belongs_to_owner s sid w"
  unfolding session_belongs_to_owner_def assms ..

text \<open>
  (C19) A message is accepted once: sent again under the same client request id, whenever, it is answered with the
  turn it already is, and nothing is written.
\<close>

theorem message_accepted_once:
  assumes "enqueue_console_turn q ids db_now now s = Inr (Turn_accepted d, s')"
  shows "enqueue_console_turn q ids' db_now' now' s' = Inr (Turn_exists d, s')"
  using assms
proof (cases rule: enqueue_cases)
  case unchanged
  then show ?thesis by simp
next
  case (accepted c th device cwd)
  let ?mine = "same_client_request (tq_owner_id q) (tq_session_id q) (tq_client_request_id q)"
  obtain tid where tid: "or_none (sc_primary_thread_id c) = Some tid" "session_belongs_to_owner s (tq_session_id q) (tq_owner_id q)"
      "or_none (tt_device_id th) \<noteq> None" "or_none (tt_cwd th) \<noteq> None" "tid = the (sc_primary_thread_id c)"
    using assms accepted(1,2) by (auto simp: enqueue_console_turn_def or_none_def split: option.splits if_splits)
  have th: "tt_id th = tid" using accepted(2) tid(5) unfolding thread_by_id_def by (auto dest: find_id)
  obtain t r where S: "ks_turns s' = ks_turns s @ [t]" "ks_receipts s' = ks_receipts s @ [r]" "d = full_dto s' t"
      "ct_receipt_id t = ti_receipt ids" "ct_thread_id t = tid" "ir_id r = ti_receipt ids" "ir_text r = tq_message q"
      "ir_client_request_id r = Some (tq_client_request_id q)" "ir_owner_id r = tq_owner_id q" "ir_session_id r = tq_session_id q"
      "ks_sessions s' = ks_sessions s" "ks_threads s' = ks_threads s" "ks_owners s' = ks_owners s"
      "receipt_by_id (ti_receipt ids) (ks_receipts s) = None" "\<forall>x \<in> set (ks_turns s). ct_receipt_id x \<noteq> ti_receipt ids"
    using accept_tables[OF accepted(4)] th by simp metis
  have "\<forall>x \<in> set (ks_receipts s). \<not> ?mine x" using one_or_none_None[OF accepted(3)] by blast
  then have mine: "one_or_none ?mine (ks_receipts s') = Inr (Some r)"
    using S(2,8-10) by (simp add: one_or_none_def same_client_request_def filter_empty_conv[THEN iffD2])
  have turn: "find (\<lambda>x. ct_receipt_id x = ir_id r) (ks_turns s') = Some t"
    using S(1,4,6,15) by (simp add: find_snoc find_None_iff[THEN iffD2])
  have "receipt_by_id (ti_receipt ids) (ks_receipts s') = Some r" using S(2,6,14) by (simp add: receipt_by_id_def find_snoc)
  then have dto: "live_console_turn_dto t (Some (ir_text r)) (ir_client_request_id r) (tt_provider_config th) = d"
    using S(3-5,12) accepted(2) tid(5) by (simp add: full_dto_def thread_by_id_def Let_def)
  have "thread_by_id tid s' = Some th" using accepted(2) tid(5) S(12) by (simp add: thread_by_id_def)
  then show ?thesis using accepted(1) tid mine turn dto S(7,11) belongs_cong[OF S(13,11)]
    by (auto simp: enqueue_console_turn_def replay_enqueue_def)
qed

subsection \<open>Turns and runs\<close>

definition has_run :: "console_run list \<Rightarrow> console_turn \<Rightarrow> bool" where
  "has_run runs t = (case ct_run_id t of None \<Rightarrow> True
     | Some rid \<Rightarrow> list_ex (\<lambda>r. cr_id r = rid \<and> cr_thread_id r = ct_thread_id t \<and>
         (cr_ended_at r = None \<longleftrightarrow> ct_state t \<in> set EXECUTING_STATES)) runs)"

definition runs_ok :: "console_store \<Rightarrow> bool" where
  "runs_ok s \<longleftrightarrow> turns_ok (ks_turns s) \<and> distinct (map cr_id (ks_runs s)) \<and> list_all (has_run (ks_runs s)) (ks_turns s)"

lemma has_run_more: "has_run runs t \<Longrightarrow> has_run (runs @ added) t"
  by (auto simp: has_run_def split: option.splits)

lemma has_run_other: "has_run runs t \<Longrightarrow> ct_run_id t \<noteq> ct_run_id x \<Longrightarrow>
    has_run (update_where (\<lambda>r. Some (cr_id r) = ct_run_id x) f runs) t"
  by (auto simp: has_run_def list_ex_iff update_where_def split: option.splits)

lemma has_run_ended:
  assumes "has_run runs t" and "ct_run_id t' = ct_run_id t" and "ct_thread_id t' = ct_thread_id t"
    and "ct_state t' \<notin> set EXECUTING_STATES"
  shows "has_run (update_where (\<lambda>r. Some (cr_id r) = ct_run_id t) (end_run u now) runs) t'"
proof (cases "ct_run_id t")
  case (Some rid)
  then obtain r where r: "r \<in> set runs" "cr_id r = rid" "cr_thread_id r = ct_thread_id t"
    using assms(1) by (auto simp: has_run_def list_ex_iff)
  then have "end_run u now r \<in> set (update_where (\<lambda>r. Some (cr_id r) = ct_run_id t) (end_run u now) runs)"
    using Some by (auto simp: set_update_where)
  moreover have "cr_id (end_run u now r) = rid" "cr_thread_id (end_run u now r) = ct_thread_id t'" "cr_ended_at (end_run u now r) \<noteq> None"
    using r(2,3) assms(3) by (simp_all add: end_run_def)
  ultimately show ?thesis using assms(2,4) Some unfolding has_run_def list_ex_iff by auto
qed (use assms(2) in \<open>simp add: has_run_def\<close>)

lemma ended_run_ids: "map cr_id (update_where P (end_run u now) runs) = map cr_id runs"
  by (rule map_update_where) (simp add: end_run_def)

lemma accept_runs:
  assumes ok: "runs_ok s" and ok': "turns_ok (ks_turns s')" and acc: "accept_turn q ids db_now t r now s = Inr (reply, s')"
    and t: "ct_run_id t = None"
  shows "runs_ok s'"
proof (cases "find (executing (ct_thread_id t)) (ks_turns s) = None")
  case True
  let ?t = "claim_turn (ti_run ids) t"
  have s': "ks_turns s' = ks_turns s @ [?t]" "ks_runs s' = ks_runs s @ [console_run_for (ti_run ids) ?t now]"
    and new: "\<forall>r \<in> set (ks_runs s). cr_id r \<noteq> ti_run ids"
    using acc True by (auto simp: accept_turn_def run_id_used_def list_ex_iff Let_def split: if_splits)
  have "has_run (ks_runs s') ?t" unfolding s' by (simp add: has_run_def console_run_for_def EXECUTING_STATES_def)
  then show ?thesis using ok ok' s' new by (auto simp: runs_ok_def list_all_iff console_run_for_def has_run_more)
next
  case False
  then have "ks_turns s' = ks_turns s @ [t]" "ks_runs s' = ks_runs s"
    using acc by (auto simp: accept_turn_def Let_def split: if_splits)
  then show ?thesis using ok ok' t by (auto simp: runs_ok_def list_all_iff has_run_def)
qed

lemma apply_runs:
  assumes ok: "runs_ok s" and ok': "turns_ok (ks_turns s')" and t: "t \<in> set (ks_turns s)" "ct_run_id t \<noteq> None"
    and live: "ct_state t \<notin> set TERMINAL_STATES" and app: "apply_update u rid now t s = Inr (reply, s')"
    and state: "tu_state u \<notin> set TERMINAL_STATES \<Longrightarrow> tu_state u \<in> {''starting'', ''active''}"
  shows "runs_ok s'"
proof -
  have T: "turns_ok (ks_turns s)" and runs: "distinct (map cr_id (ks_runs s))" and H: "\<And>x. x \<in> set (ks_turns s) \<Longrightarrow> has_run (ks_runs s) x"
    using ok by (auto simp: runs_ok_def list_all_iff)
  have other: "ct_run_id x \<noteq> ct_run_id t" if "x \<in> set (ks_turns s) - {t}" for x
    using turns_okD(3)[OF T, of x t] that t by (cases "ct_run_id t") auto
  from app show ?thesis
  proof (cases rule: apply_turns)
    case progress
    have run: "executing (ct_thread_id t) t" by (rule running_row[OF turns_okD(2)[OF T t(1)] t(2) live])
    have "has_run (ks_runs s) (advance_turn u now t)"
      using H[OF t(1)] run state[OF progress(1)] by (auto simp: has_run_def executing_def EXECUTING_STATES_def split: option.splits)
    then show ?thesis using ok' runs H unfolding runs_ok_def progress(2,3) list_all_iff replace_set[OF turns_okD(1)[OF T] t(1)] by blast
  next
    case finish
    have "has_run (ks_runs s') x" if "x \<in> set (ks_turns s')" for x
      using that has_run_ended[OF H[OF t(1)], of "advance_turn u now t" u now] has_run_other[OF H other, of x "end_run u now"] finish(1)
      unfolding finish(3,4) close_simps replace_set[OF turns_okD(1)[OF T] t(1)] by (auto simp: EXECUTING_STATES_def TERMINAL_STATES_def)
    then show ?thesis using ok' runs finish(4) by (simp add: runs_ok_def list_all_iff ended_run_ids)
  next
    case (pass n resume)
    let ?mid = "update_where (\<lambda>x. ct_id x = ct_id t) (advance_turn u now) (ks_turns s)"
    note E = ended_rows[OF T t live pass(1) refl] and N = next_waiting_Some[OF pass(2)]
    have mid: "has_run (ks_runs (close_turn u now t s)) x" if "x \<in> set ?mid" for x
      using that has_run_ended[OF H[OF t(1)], of "advance_turn u now t" u now] has_run_other[OF H other, of x "end_run u now"] pass(1)
      unfolding E(1) close_simps by (auto simp: EXECUTING_STATES_def TERMINAL_STATES_def)
    have "has_run (ks_runs s') (taken_over rid now resume n)" unfolding pass(6) by (simp add: has_run_def console_run_for_def EXECUTING_STATES_def)
    then have "has_run (ks_runs s') x" if "x \<in> set (ks_turns s')" for x
      using that has_run_more[OF mid, of x] unfolding pass(5,6) replace_set[OF E(2) N(1)] by auto
    moreover have "distinct (map cr_id (ks_runs s'))"
      unfolding pass(6) using runs pass(4) by (simp add: ended_run_ids console_run_for_def flip: set_map)
    ultimately show ?thesis using ok' by (simp add: runs_ok_def list_all_iff)
  qed
qed

lemma served_update:
  assumes "serve_update_console_turn u rid now s = Inr (reply, s')"
  obtains (refused) m where "s' = s" "reply = Turn_invalid m"
  | (passed) "update_console_turn u rid now s = Inr (reply, s')"
      "tu_state u \<notin> set TERMINAL_STATES \<Longrightarrow> tu_state u \<in> {''starting'', ''active''}"
  using assms by (auto simp: serve_update_console_turn_def TERMINAL_STATES_def split: if_splits)

lemma run_turn_runs:
  assumes ok: "runs_ok s" and run: "run_turn c now s = Inr (reply, s')"
  shows "runs_ok s'"
proof -
  have ok': "turns_ok (ks_turns s')" using turn_change_ok[OF run_turn_change[OF run]] ok by (simp add: runs_ok_def)
  show ?thesis
  proof (cases c)
    case (Enqueue q ids db_now)
    with run have "enqueue_console_turn q ids db_now now s = Inr (reply, s')" by simp
    then show ?thesis
    proof (cases rule: enqueue_cases)
      case (accepted c th device cwd)
      then show ?thesis by (intro accept_runs[OF ok ok' accepted(4)]) simp
    qed (use ok in simp)
  next
    case (Report u rid)
    with run have "serve_update_console_turn u rid now s = Inr (reply, s')" by simp
    then show ?thesis
    proof (cases rule: served_update)
      case passed
      from passed(1) show ?thesis
      proof (cases rule: update_cases)
        case (applied t)
        have "ct_run_id t \<noteq> None" using applied(2) by (simp add: update_matches_def)
        then show ?thesis by (intro apply_runs[OF ok ok' applied(1) _ applied(3,4) passed(2)]) simp_all
      qed (use ok in simp)
    qed (use ok in simp)
  qed
qed

text \<open>
  Every turn that has left the queue has its run, on the thread of the turn, and the run is open exactly
  while the turn executes; so an idle thread has no open Console run.
\<close>

theorem runs_follow_turns:
  assumes "runs_ok s" and "event_runs turn_event calls s = Inr (es, s')"
  shows "runs_ok s'"
  using assms
proof (induction calls arbitrary: s es)
  case (Cons c cs)
  then obtain e t es' where r: "turn_event c s = Inr (e, t)" "event_runs turn_event cs t = Inr (es', s')" by auto
  then have "runs_ok t" using run_turn_runs[OF Cons.prems(1)] by (auto simp: turn_event_Inr)
  then show ?case using Cons.IH r(2) by blast
qed simp

lemma find_end: "ct_run_id t = Some i \<Longrightarrow>
    find (\<lambda>r. cr_id r = i) (update_where (\<lambda>r. Some (cr_id r) = ct_run_id t) (end_run u now) runs) =
    map_option (end_run u now) (find (\<lambda>r. cr_id r = i) runs)"
  using find_update_same[of "\<lambda>r. cr_id r = i" "end_run u now"] by (simp add: end_run_def)

lemma find_stamp: "find (\<lambda>c. sc_session_id c = i) (update_where (\<lambda>c. sc_session_id c = i) (stamp_session outcome now) rows) =
    map_option (stamp_session outcome now) (find (\<lambda>c. sc_session_id c = i) rows)"
  by (rule find_update_same) (simp add: stamp_session_def)

text \<open>
  (C23) A turn that ends is closed everywhere at once: the turn carries its outcome, its error and its end time,
  its run exists and has ended at that moment with the error code, or the outcome when there is none, as exit
  status, and the session row carries the time and the outcome of the result that the unread marker reads.
\<close>

theorem terminal_report_closes:
  assumes ok: "runs_ok s" and served: "serve_update_console_turn u rid now s = Inr (Turn_updated d nxt, s')"
    and over: "tu_state u \<in> set TERMINAL_STATES"
  shows "list_ex (\<lambda>t. ct_run_id t = Some (tu_run_id u) \<and> ct_state t = tu_state u \<and> ct_error t = tu_error u \<and>
      ct_terminal_at t = Some now) (ks_turns s') \<and>
    (\<exists>r. find (\<lambda>r. cr_id r = tu_run_id u) (ks_runs s') = Some r \<and> cr_ended_at r = Some now \<and>
      cr_exit_status r = Some (case or_none (tu_error_code u) of Some e \<Rightarrow> e | None \<Rightarrow> tu_state u)) \<and>
    find (\<lambda>c. sc_session_id c = tu_session_id u) (ks_sessions s') =
      map_option (\<lambda>c. c\<lparr>sc_last_console_result_at := Some now, sc_last_console_result_outcome := Some (tu_state u),
        sc_updated_at := now\<rparr>) (find (\<lambda>c. sc_session_id c = tu_session_id u) (ks_sessions s))"
proof -
  have T: "turns_ok (ks_turns s)" using ok by (simp add: runs_ok_def)
  have "update_console_turn u rid now s = Inr (Turn_updated d nxt, s')" using served_update[OF served] by blast
  then obtain t where t: "t \<in> set (ks_turns s)" "update_matches u s t" "ct_state t \<notin> set TERMINAL_STATES"
      "apply_update u rid now t s = Inr (Turn_updated d nxt, s')" by (rule update_cases) simp_all
  have m: "ct_run_id t = Some (tu_run_id u)" "ct_session_id t = tu_session_id u" using t(2) by (simp_all add: update_matches_def)
  have "has_run (ks_runs s) t" using ok t(1) by (simp add: runs_ok_def list_all_iff)
  then obtain r where r: "find (\<lambda>r. cr_id r = tu_run_id u) (ks_runs s) = Some r"
    using m(1) by (cases "find (\<lambda>r. cr_id r = tu_run_id u) (ks_runs s)") (auto simp: has_run_def list_ex_iff find_None_iff)
  have ended: "cr_ended_at (end_run u now r) = Some now"
    "cr_exit_status (end_run u now r) = Some (case or_none (tu_error_code u) of Some e \<Rightarrow> e | None \<Rightarrow> tu_state u)"
    by (simp_all add: end_run_def)
  let ?t = "advance_turn u now t"
  have row: "ct_run_id ?t = Some (tu_run_id u)" "ct_terminal_at ?t = Some now" "ct_error ?t = tu_error u"
    using m over by (simp_all add: advance_turn_def)
  have closed: "?t \<in> set (ks_turns s') \<Longrightarrow>
      list_ex (\<lambda>t. ct_run_id t = Some (tu_run_id u) \<and> ct_state t = tu_state u \<and> ct_error t = tu_error u \<and>
        ct_terminal_at t = Some now) (ks_turns s')"
    unfolding list_ex_iff using row by (intro bexI[of _ ?t]) simp_all
  note E = ended_rows[OF T t(1) _ t(3) over refl]
  from t(4) show ?thesis
  proof (cases rule: apply_turns)
    case finish
    have "?t \<in> set (ks_turns s')" unfolding finish(3) using E(1) m(1) by simp
    then show ?thesis using closed ended unfolding finish(4,5) close_simps m(2) find_end[OF m(1)] find_stamp r
      by (simp add: stamp_session_def[abs_def])
  next
    case (pass n resume)
    note N = next_waiting_Some[OF pass(2)]
    have "?t \<noteq> n" using N(2) terminal_row[of ?t] over by auto
    then have "?t \<in> set (ks_turns s')" unfolding pass(5) using replace_set[OF E(2) N(1)] E(1) m(1) by simp
    moreover have "rid \<noteq> tu_run_id u" using pass(3) E(1) m(1) row(1) by (auto simp: image_iff)
    ultimately show ?thesis using closed ended unfolding pass(6,7) close_simps m(2) find_snoc find_end[OF m(1)] find_stamp r
      by (simp add: console_run_for_def stamp_session_def[abs_def] split: option.splits)
  qed (use over in simp)
qed

end
