(* ===== verification/Turn_Dispatch.thy ===== *)
theory Turn_Dispatch
  imports Turn_Guarantees Pause_Requests "HOL-Library.AList"
begin

text \<open>
  The Console service on the live catalog (\<open>services/console_turns.py\<close>): a message is enqueued in the catalog,
  the turn that may start is sent to its machine as a command whose id is the run id, and the outcome is reported
  back; a report that ends a turn returns the next one, which is dispatched in turn.

  The machine channel, the clock and the supply of ids are parameters (\<open>control_world\<close>) over a state of their
  own: what they answer may depend on everything that happened. Errors of a catalog call are raised by the
  client; what earlier calls wrote stays written, so an outcome comes with the store it leaves.
\<close>

record machine_command =
  mc_owner_id :: int
  mc_device_id :: string
  mc_session_id :: string
  mc_command_type :: string
  mc_payload :: pydict
  mc_command_id :: string

record machine_reply =
  mr_transport_ok :: bool
  mr_message :: pydict
  mr_error :: "string option"

record 'w control_world =
  cw_supports :: "int \<Rightarrow> string \<Rightarrow> string \<Rightarrow> 'w \<Rightarrow> bool"
  cw_send :: "machine_command \<Rightarrow> 'w \<Rightarrow> machine_reply \<times> 'w"
  cw_uuid :: "'w \<Rightarrow> string \<times> 'w"
  cw_now :: "'w \<Rightarrow> instant \<times> 'w"

record dispatched =
  cd_turn_id :: string
  cd_run_id :: "string option"
  cd_state :: string
  cd_created :: bool
  cd_error_code :: "string option"
  cd_error :: "string option"

type_synonym ('a, 'w) outcome = "'a res \<times> 'w \<times> console_store"

definition CONSOLE_TURN_START_COMMAND :: string where "CONSOLE_TURN_START_COMMAND = ''session.turn.start''"

subsection \<open>Catalog calls\<close>

text \<open>An invalid request is an error response, which the client raises.\<close>

definition raised :: "turn_result \<Rightarrow> 'w \<Rightarrow> console_store \<Rightarrow> (turn_reply, 'w) outcome" where
  "raised r w s = (case r of
       Inl e \<Rightarrow> (Inl e, w, s)
     | Inr (Turn_invalid m, s') \<Rightarrow> (Inl (RuntimeError m), w, s)
     | Inr (reply, s') \<Rightarrow> (Inr reply, w, s'))"

definition call_update :: "'w control_world \<Rightarrow> turn_update \<Rightarrow> 'w \<Rightarrow> console_store \<Rightarrow> (turn_reply, 'w) outcome" where
  "call_update W u w s = (case cw_now W w of (now, w1) \<Rightarrow> case cw_uuid W w1 of (rid, w2) \<Rightarrow>
     raised (serve_update_console_turn u rid now s) w2 s)"

definition turn_report :: "int \<Rightarrow> turn_dto \<Rightarrow> string \<Rightarrow> string \<Rightarrow> string option \<Rightarrow> string option \<Rightarrow> turn_update" where
  "turn_report owner d rid state error_code error = \<lparr>tu_run_id = rid, tu_session_id = td_session_id d,
     tu_thread_id = td_thread_id d, tu_provider = td_provider d, tu_device_id = td_device_id d, tu_owner_id = owner,
     tu_turn_id = Some (td_turn_id d), tu_expected_state = Some ''starting'', tu_state = state, tu_error = error,
     tu_error_code = error_code\<rparr>"

definition mark_catalog_start_outcome_unknown ::
  "'w control_world \<Rightarrow> int \<Rightarrow> turn_dto \<Rightarrow> string \<Rightarrow> string \<Rightarrow> 'w \<Rightarrow> console_store \<Rightarrow> (turn_reply, 'w) outcome" where
  "mark_catalog_start_outcome_unknown W owner d rid error =
     call_update W (turn_report owner d rid ''starting'' (Some ''turn_start_outcome_unknown'') (Some error))"

subsection \<open>The start command\<close>

definition py_update :: "pydict \<Rightarrow> pydict \<Rightarrow> pydict" where
  "py_update d e = fold (\<lambda>(k, v). AList.update k v) e d"

definition opt_text :: "string option \<Rightarrow> string" where
  "opt_text v = (case v of None \<Rightarrow> [] | Some s \<Rightarrow> s)"

text \<open>The fields between \<open>launch_surface\<close> and the provider configuration are the enqueueing call's timestamps.\<close>

definition start_payload :: "turn_dto \<Rightarrow> string \<Rightarrow> string \<Rightarrow> string \<Rightarrow> pydict \<Rightarrow> pydict" where
  "start_payload d rid client message stamps =
     (let base = py_update ([(''run_id'', PStr rid), (''thread_id'', PStr (td_thread_id d)), (''turn_id'', PStr (td_turn_id d)),
            (''client_request_id'', PStr client), (''provider'', PStr (td_provider d)), (''cwd'', PStr (td_cwd d)),
            (''message'', PStr message), (''launch_actor'', PStr ''user''), (''launch_surface'', PStr ''console'')] @ stamps)
            (td_provider_config d)
      in case or_none (td_resume_provider_thread_id d) of None \<Rightarrow> base
         | Some r \<Rightarrow> py_update base [(''resume_provider_thread_id'', PStr r)])"

definition start_command :: "int \<Rightarrow> turn_dto \<Rightarrow> string \<Rightarrow> pydict \<Rightarrow> machine_command" where
  "start_command owner d rid payload = \<lparr>mc_owner_id = owner, mc_device_id = td_device_id d, mc_session_id = td_session_id d,
     mc_command_type = CONSOLE_TURN_START_COMMAND, mc_payload = payload, mc_command_id = rid\<rparr>"

definition error_detail :: "pydict \<Rightarrow> pydict" where
  "error_detail message = (case dget message ''error'' of PDict e \<Rightarrow> e | _ \<Rightarrow> [])"

definition start_failure :: "machine_reply \<Rightarrow> string" where
  "start_failure resp = (if truthy (dget (error_detail (mr_message resp)) ''message'')
     then py_str (dget (error_detail (mr_message resp)) ''message'')
     else case or_none (mr_error resp) of Some e \<Rightarrow> e | None \<Rightarrow> ''Console turn dispatch failed'')"

definition code_or :: "pyval \<Rightarrow> string \<Rightarrow> string" where
  "code_or v d = (if truthy v then py_str v else d)"

definition unknown_error :: "machine_reply \<Rightarrow> string" where
  "unknown_error resp = (case or_none (mr_error resp) of Some e \<Rightarrow> e | None \<Rightarrow> ''Console turn dispatch outcome is unknown'')"

subsection \<open>Reporting a start\<close>

text \<open>A call that was not applied: the persisted turn is what the caller sees.\<close>

definition dispatched_as :: "turn_dto \<Rightarrow> string \<Rightarrow> bool \<Rightarrow> string \<Rightarrow> string option \<Rightarrow> string option \<Rightarrow> dispatched" where
  "dispatched_as d rid created state code err = \<lparr>cd_turn_id = td_turn_id d, cd_run_id = Some rid, cd_state = state,
     cd_created = created, cd_error_code = code, cd_error = err\<rparr>"

definition persisted :: "turn_dto \<Rightarrow> string \<Rightarrow> bool \<Rightarrow> turn_dto \<Rightarrow> dispatched" where
  "persisted d rid created p = dispatched_as d rid created (td_state p) None (or_none (td_error p))"

definition report_start ::
  "'w control_world \<Rightarrow> int \<Rightarrow> turn_dto \<Rightarrow> string \<Rightarrow> bool \<Rightarrow> string option \<Rightarrow> string option \<Rightarrow> 'w \<Rightarrow> console_store \<Rightarrow>
   (dispatched \<times> turn_dto option, 'w) outcome" where
  "report_start W owner d rid created code err w s =
     (let state = (if or_none err = None then ''active'' else ''failed'') in
      case call_update W (turn_report owner d rid state code err) w s of
        (Inl e, w', s') \<Rightarrow> (Inl e, w', s')
      | (Inr reply, w', s') \<Rightarrow> (case reply of
            Turn_stale p \<Rightarrow> (Inr (persisted d rid created p, None), w', s')
          | Turn_replayed p n \<Rightarrow> (Inr (persisted d rid created p, None), w', s')
          | Turn_updated p n \<Rightarrow> (Inr (dispatched_as d rid created (td_state p) code err, n), w', s')
          | _ \<Rightarrow> (Inr (dispatched_as d rid created state code err, None), w', s')))"

definition report_unknown ::
  "'w control_world \<Rightarrow> int \<Rightarrow> turn_dto \<Rightarrow> string \<Rightarrow> bool \<Rightarrow> string \<Rightarrow> 'w \<Rightarrow> console_store \<Rightarrow> (dispatched, 'w) outcome" where
  "report_unknown W owner d rid created error w s =
     (case mark_catalog_start_outcome_unknown W owner d rid error w s of
        (Inl e, w', s') \<Rightarrow> (Inl e, w', s')
      | (Inr reply, w', s') \<Rightarrow> (Inr (case reply of
            Turn_stale p \<Rightarrow> persisted d rid created p
          | Turn_replayed p n \<Rightarrow> persisted d rid created p
          | Turn_updated p n \<Rightarrow> dispatched_as d rid created (td_state p) (Some ''turn_start_outcome_unknown'') (Some error)
          | _ \<Rightarrow> dispatched_as d rid created ''starting'' (Some ''turn_start_outcome_unknown'') (Some error)), w', s'))"

text \<open>
  One start: the capability check, the command, the report. \<open>build\<close> assembles the command's payload, which may
  read the clock; \<open>code\<close> turns a refusal into the error code.
\<close>

definition start_turn ::
  "'w control_world \<Rightarrow> int \<Rightarrow> turn_dto \<Rightarrow> string \<Rightarrow> bool \<Rightarrow> (pyval \<Rightarrow> string) \<Rightarrow> ('w \<Rightarrow> pydict \<times> 'w) \<Rightarrow> 'w \<Rightarrow> console_store \<Rightarrow>
   (dispatched \<times> turn_dto option, 'w) outcome" where
  "start_turn W owner d rid created code build w s =
     (let capability = td_provider d @ ''.turn_start'' in
      if \<not> cw_supports W owner (td_device_id d) capability w
      then report_start W owner d rid created (Some ''adapter_unavailable'') (Some (''Machine Agent does not advertise '' @ capability)) w s
      else case build w of (payload, w0) \<Rightarrow> case cw_send W (start_command owner d rid payload) w0 of (resp, w1) \<Rightarrow>
        if \<not> mr_transport_ok resp
        then (case report_unknown W owner d rid created (unknown_error resp) w1 s of
                (Inl e, w', s') \<Rightarrow> (Inl e, w', s') | (Inr r, w', s') \<Rightarrow> (Inr (r, None), w', s'))
        else if dget (mr_message resp) ''ok'' \<noteq> PBool True
        then report_start W owner d rid created (Some (code (dget (error_detail (mr_message resp)) ''code''))) (Some (start_failure resp)) w1 s
        else report_start W owner d rid created None None w1 s)"

subsection \<open>Dispatching until nobody takes over\<close>

lemma filter_update_le:
  "(\<And>x. P x \<Longrightarrow> \<not> Q (f x)) \<Longrightarrow> length (filter Q (update_where P f xs)) \<le> length (filter Q xs)"
  by (induction xs) (auto simp: update_where_def)

lemma filter_update_less:
  assumes "\<And>x. P x \<Longrightarrow> \<not> Q (f x)" and "x \<in> set xs" and "P x" and "Q x"
  shows "length (filter Q (update_where P f xs)) < length (filter Q xs)"
  using assms(2)
proof (induction xs)
  case (Cons y ys)
  then show ?case
  proof (cases "y = x")
    case True
    have "length (filter Q (update_where P f ys)) \<le> length (filter Q ys)" by (rule filter_update_le) (rule assms(1))
    then show ?thesis using True assms(1,3,4) by (simp add: update_where_def)
  next
    case False
    then have "length (filter Q (update_where P f ys)) < length (filter Q ys)" using Cons by auto
    then show ?thesis using assms(1) by (auto simp: update_where_def)
  qed
qed simp

definition waiting_count :: "console_store \<Rightarrow> nat" where
  "waiting_count s = length (filter (\<lambda>t. ct_state t = ''queued'') (ks_turns s))"

text \<open>A report that hands the thread over leaves one turn less waiting.\<close>

lemma hand_over_count:
  assumes "serve_update_console_turn u rid now s = Inr (Turn_updated p (Some n), s')"
  shows "waiting_count s' < waiting_count s"
proof -
  have "update_console_turn u rid now s = Inr (Turn_updated p (Some n), s')" using served_update[OF assms] by blast
  then obtain t where t: "t \<in> set (ks_turns s)" "apply_update u rid now t s = Inr (Turn_updated p (Some n), s')"
    by (rule update_cases) simp_all
  let ?mid = "update_where (\<lambda>x. ct_id x = ct_id t) (advance_turn u now) (ks_turns s)"
  have queued: "tu_state u \<in> set TERMINAL_STATES \<Longrightarrow> tu_state u \<noteq> ''queued''" by (auto simp: TERMINAL_STATES_def)
  from t(2) show ?thesis
  proof (cases rule: apply_turns)
    case (pass m resume)
    note N = next_waiting_Some[OF pass(2)]
    have "length (filter (\<lambda>t. ct_state t = ''queued'') ?mid) \<le> waiting_count s"
      unfolding waiting_count_def using queued[OF pass(1)] by (intro filter_update_le) simp
    moreover have "waiting_count s' < length (filter (\<lambda>t. ct_state t = ''queued'') ?mid)"
      unfolding waiting_count_def pass(5) using N(1,2) by (intro filter_update_less[of _ _ _ m]) (auto simp: waiting_def)
    ultimately show ?thesis by simp
  qed auto
qed

lemma call_update_count:
  assumes "call_update W u w s = (Inr (Turn_updated p (Some n)), w', s')"
  shows "waiting_count s' < waiting_count s"
proof -
  obtain now w1 rid w2 where w: "cw_now W w = (now, w1)" "cw_uuid W w1 = (rid, w2)" by (meson surj_pair)
  have "serve_update_console_turn u rid now s = Inr (Turn_updated p (Some n), s')"
    using assms w by (auto simp: call_update_def raised_def split: sum.splits turn_reply.splits)
  then show ?thesis by (rule hand_over_count)
qed

lemma report_start_count:
  assumes "report_start W owner d rid created code err w s = (Inr (r, Some n), w', s')"
  shows "waiting_count s' < waiting_count s"
  using assms call_update_count[of W _ w s]
  by (auto simp: report_start_def Let_def split: prod.splits sum.splits turn_reply.splits)

lemma start_turn_count:
  assumes "start_turn W owner d rid created code build w s = (Inr (r, Some n), w', s')"
  shows "waiting_count s' < waiting_count s"
  using assms report_start_count[of W owner d rid created]
  by (auto simp: start_turn_def Let_def split: prod.splits sum.splits if_splits)

definition launch_code :: "pyval \<Rightarrow> string" where
  "launch_code v = code_or v ''provider_launch_failed''"

definition start_claimed ::
  "'w control_world \<Rightarrow> int \<Rightarrow> turn_dto \<Rightarrow> string \<Rightarrow> 'w \<Rightarrow> console_store \<Rightarrow> (dispatched \<times> turn_dto option, 'w) outcome" where
  "start_claimed W owner d rid w s = start_turn W owner d rid True launch_code
     (Pair (start_payload d rid (opt_text (td_client_request_id d)) (opt_text (td_message d)) [])) w s"

lemma start_claimed_count: "start_claimed W owner d rid w s = (Inr (r, Some n), w', s') \<Longrightarrow> waiting_count s' < waiting_count s"
  unfolding start_claimed_def by (rule start_turn_count)

text \<open>
  \<open>dispatch_catalog_claimed_turn\<close>. A turn without a run id makes \<open>UUID(str(None))\<close> raise. The recursion ends
  because every hand-over takes one turn out of the queue.
\<close>

function dispatch_catalog_claimed_turn ::
  "'w control_world \<Rightarrow> int \<Rightarrow> turn_dto \<Rightarrow> 'w \<Rightarrow> console_store \<Rightarrow> (dispatched, 'w) outcome" where
  "dispatch_catalog_claimed_turn W owner d w s = (case td_run_id d of
       None \<Rightarrow> (Inl (ValueError ''badly formed hexadecimal UUID string''), w, s)
     | Some rid \<Rightarrow>
       (case start_claimed W owner d rid w s of
          (Inl e, w', s') \<Rightarrow> (Inl e, w', s')
        | (Inr (r, None), w', s') \<Rightarrow> (Inr r, w', s')
        | (Inr (r, Some n), w', s') \<Rightarrow>
            (case dispatch_catalog_claimed_turn W owner n w' s' of
               (Inl e, w'', s'') \<Rightarrow> (Inl e, w'', s'')
             | (Inr _, w'', s'') \<Rightarrow> (Inr r, w'', s''))))"
  by pat_completeness auto
termination
  by (relation "measure (\<lambda>(W, owner, d, w, s). waiting_count s)") (auto dest: start_claimed_count[OF sym])

declare dispatch_catalog_claimed_turn.simps [simp del]

lemma dispatch_without_run: "td_run_id d = None \<Longrightarrow>
    dispatch_catalog_claimed_turn W owner d w s = (Inl (ValueError ''badly formed hexadecimal UUID string''), w, s)"
  by (simp add: dispatch_catalog_claimed_turn.simps)

lemma dispatch_stops: "td_run_id d = Some rid \<Longrightarrow> start_claimed W owner d rid w s = (Inr (r, None), w', s') \<Longrightarrow>
    dispatch_catalog_claimed_turn W owner d w s = (Inr r, w', s')"
  by (simp add: dispatch_catalog_claimed_turn.simps)

lemma dispatch_raises: "td_run_id d = Some rid \<Longrightarrow> start_claimed W owner d rid w s = (Inl e, w', s') \<Longrightarrow>
    dispatch_catalog_claimed_turn W owner d w s = (Inl e, w', s')"
  by (simp add: dispatch_catalog_claimed_turn.simps)

lemma dispatch_goes_on: "td_run_id d = Some rid \<Longrightarrow> start_claimed W owner d rid w s = (Inr (r, Some n), w', s') \<Longrightarrow>
    dispatch_catalog_claimed_turn W owner n w' s' = (v, w'', s'') \<Longrightarrow>
    dispatch_catalog_claimed_turn W owner d w s = (map_sum id (\<lambda>_. r) v, w'', s'')"
  by (simp add: dispatch_catalog_claimed_turn.simps[of W owner d] split: sum.splits)

text \<open>Whatever a start establishes and every further start keeps, holds when the dispatch is over.\<close>

lemma dispatch_induct [consumes 2, case_names none start more]:
  assumes "dispatch_catalog_claimed_turn W owner d w s = (v, w', s')" and "Q d w s"
    and none: "\<And>d w s. Q d w s \<Longrightarrow> td_run_id d = None \<Longrightarrow> P w s"
    and start: "\<And>d w s rid v1 w1 s1. Q d w s \<Longrightarrow> td_run_id d = Some rid \<Longrightarrow> start_claimed W owner d rid w s = (v1, w1, s1) \<Longrightarrow> P w1 s1"
    and more: "\<And>d w s rid r n w1 s1. Q d w s \<Longrightarrow> td_run_id d = Some rid \<Longrightarrow>
      start_claimed W owner d rid w s = (Inr (r, Some n), w1, s1) \<Longrightarrow> Q n w1 s1"
  shows "P w' s'"
  using assms(1,2)
proof (induction "waiting_count s" arbitrary: d w s v w' s' rule: less_induct)
  case less
  show ?case
  proof (cases "td_run_id d")
    case None
    then show ?thesis using less.prems none dispatch_without_run[OF None, of W owner w s] by auto
  next
    case (Some rid)
    obtain v1 w1 s1 where st: "start_claimed W owner d rid w s = (v1, w1, s1)" by (metis prod_cases3)
    have P1: "P w1 s1" by (rule start[OF less.prems(2) Some st])
    show ?thesis
    proof (cases "\<exists>r n. v1 = Inr (r, Some n)")
      case True
      then obtain r n where v1: "v1 = Inr (r, Some n)" by blast
      obtain v2 w2 s2 where d2: "dispatch_catalog_claimed_turn W owner n w1 s1 = (v2, w2, s2)" by (metis prod_cases3)
      have "P w2 s2"
        by (rule less.hyps[OF start_claimed_count[OF st[unfolded v1]] d2 more[OF less.prems(2) Some st[unfolded v1]]])
      then show ?thesis using dispatch_goes_on[OF Some st[unfolded v1] d2] less.prems(1) by simp
    next
      case False
      then consider e where "v1 = Inl e" | r where "v1 = Inr (r, None)" by (metis sum.exhaust option.exhaust surj_pair)
      then show ?thesis using dispatch_raises[OF Some, of W owner w s] dispatch_stops[OF Some, of W owner w s] st less.prems(1) P1 by cases auto
    qed
  qed
qed

subsection \<open>Enqueueing a message\<close>

definition call_enqueue :: "'w control_world \<Rightarrow> turn_request \<Rightarrow> 'w \<Rightarrow> console_store \<Rightarrow> (turn_reply, 'w) outcome" where
  "call_enqueue W q w s = (case cw_now W w of (now, w1) \<Rightarrow> case cw_uuid W w1 of (i, w2) \<Rightarrow> case cw_uuid W w2 of (j, w3) \<Rightarrow>
     case cw_uuid W w3 of (k, w4) \<Rightarrow> case cw_now W w4 of (db_now, w5) \<Rightarrow>
     raised (enqueue_console_turn q \<lparr>ti_receipt = i, ti_turn = j, ti_run = k\<rparr> db_now now s) w5 s)"

definition refusal_code :: "pyval \<Rightarrow> string" where
  "refusal_code v = (case clean (Some (code_or v [])) of None \<Rightarrow> ''provider_launch_failed'' | Some c \<Rightarrow> c)"

text \<open>\<open>int(time.time() * 1000)\<close>\<close>

definition wall_ms :: "instant \<Rightarrow> int" where
  "wall_ms t = utc_us t div 1000"

definition timed_payload ::
  "'w control_world \<Rightarrow> turn_request \<Rightarrow> int \<Rightarrow> turn_dto \<Rightarrow> string \<Rightarrow> 'w \<Rightarrow> pydict \<times> 'w" where
  "timed_payload W q accepted_ms d rid w = (case cw_now W w of (dispatch_at, w1) \<Rightarrow>
     (start_payload d rid (case or_none (td_client_request_id d) of Some c \<Rightarrow> c | None \<Rightarrow> tq_client_request_id q)
        (case or_none (td_message d) of Some m \<Rightarrow> m | None \<Rightarrow> tq_message q)
        [(''server_accepted_at_ms'', PInt accepted_ms), (''server_dispatched_at_ms'', PInt (wall_ms dispatch_at))], w1))"

definition start_enqueued ::
  "'w control_world \<Rightarrow> turn_request \<Rightarrow> int \<Rightarrow> bool \<Rightarrow> turn_dto \<Rightarrow> 'w \<Rightarrow> console_store \<Rightarrow> (dispatched, 'w) outcome" where
  "start_enqueued W q accepted_ms created d w s =
     (case td_run_id d of
        Some rid \<Rightarrow>
          (if td_state d \<noteq> ''starting'' then (Inr (dispatched_as d rid created (td_state d) None None), w, s)
           else (case start_turn W (tq_owner_id q) d rid created refusal_code (timed_payload W q accepted_ms d rid) w s of
                (Inl e, w', s') \<Rightarrow> (Inl e, w', s')
              | (Inr (r, None), w', s') \<Rightarrow> (Inr r, w', s')
              | (Inr (r, Some n), w', s') \<Rightarrow>
                  (case dispatch_catalog_claimed_turn W (tq_owner_id q) n w' s' of
                     (Inl e, w'', s'') \<Rightarrow> (Inl e, w'', s'')
                   | (Inr _, w'', s'') \<Rightarrow> (Inr r, w'', s''))))
      | None \<Rightarrow> (Inr \<lparr>cd_turn_id = td_turn_id d, cd_run_id = None, cd_state = td_state d, cd_created = created,
                       cd_error_code = None, cd_error = None\<rparr>, w, s))"

definition enqueue_catalog_console_turn :: "'w control_world \<Rightarrow> turn_request \<Rightarrow> 'w \<Rightarrow> console_store \<Rightarrow> (dispatched, 'w) outcome" where
  "enqueue_catalog_console_turn W q w s = (case cw_now W w of (accepted, w0) \<Rightarrow>
     (case call_enqueue W q w0 s of
        (Inl e, w', s') \<Rightarrow> (Inl e, w', s')
      | (Inr reply, w', s') \<Rightarrow> (case reply of
            Turn_conflict \<Rightarrow> (Inl (RuntimeError ''client_request_id was reused with different text''), w', s')
          | Turn_unavailable code \<Rightarrow> (Inl (RuntimeError ''Console execution target is unavailable''), w', s')
          | Turn_exists d \<Rightarrow> start_enqueued W q (wall_ms accepted) False d w' s'
          | Turn_accepted d \<Rightarrow> start_enqueued W q (wall_ms accepted) True d w' s'
          | _ \<Rightarrow> (Inl (RuntimeError ''Console session was not found''), w', s'))))"

subsection \<open>Reconnect\<close>

text \<open>\<open>reconcile_starting_console_turns_for_device\<close> with the live catalog enabled.\<close>

fun reconcile_turns :: "'w control_world \<Rightarrow> int \<Rightarrow> string \<Rightarrow> turn_dto list \<Rightarrow> 'w \<Rightarrow> console_store \<Rightarrow> (dispatched list, 'w) outcome" where
  "reconcile_turns W owner device [] w s = (Inr [], w, s)"
| "reconcile_turns W owner device (d # ds) w s =
     (let capability = td_provider d @ ''.turn_start'';
          one = (if \<not> cw_supports W owner device capability w
                 then (case td_run_id d of
                         None \<Rightarrow> (Inl (ValueError ''badly formed hexadecimal UUID string''), w, s)
                       | Some rid \<Rightarrow> report_unknown W owner d rid False
                           (''Machine Agent reconnected without advertising '' @ capability @ ''; launch outcome remains unknown'') w s)
                 else dispatch_catalog_claimed_turn W owner d w s)
      in case one of
           (Inl e, w', s') \<Rightarrow> (Inl e, w', s')
         | (Inr r, w', s') \<Rightarrow> (case reconcile_turns W owner device ds w' s' of
               (Inl e, w'', s'') \<Rightarrow> (Inl e, w'', s'')
             | (Inr rs, w'', s'') \<Rightarrow> (Inr (r # rs), w'', s'')))"

definition reconcile_starting_console_turns_for_device ::
  "'w control_world \<Rightarrow> int \<Rightarrow> string \<Rightarrow> 'w \<Rightarrow> console_store \<Rightarrow> (dispatched list, 'w) outcome" where
  "reconcile_starting_console_turns_for_device W owner device w s =
     (case list_starting_console_turns_for_device owner device s of
        Inl e \<Rightarrow> (Inl e, w, s)
      | Inr ds \<Rightarrow> reconcile_turns W owner device ds w s)"

subsection \<open>Terminal signals\<close>

text \<open>
  \<open>ingest_runtime_events\<close> (\<open>routers/runtime.py\<close>) reports a terminal signal of a run to the catalog and
  dispatches the turn that takes over; signals of runs that are not Console turns are not found there. The report
  carries the time of the event, which the catalog only accepts with an offset.
\<close>

definition event_outcome :: "runtime_event \<Rightarrow> string option" where
  "event_outcome ev =
     (let terminal_state = code_or (dget (ev_payload ev) ''terminal_state'') [] in
      if ev_kind ev \<noteq> Terminal_signal \<or> ev_run_id ev = None \<or> ev_session_id ev = None \<or> ev_thread_id ev = None \<or>
         ev_device_id ev = None \<or> terminal_state \<notin> {''run_completed'', ''run_failed'', ''run_cancelled''} then None
      else Some (if terminal_state = ''run_completed'' then ''completed''
                 else if terminal_state = ''run_cancelled'' then ''cancelled'' else ''failed''))"

definition event_report :: "int \<Rightarrow> runtime_event \<Rightarrow> string \<Rightarrow> turn_update" where
  "event_report owner ev outcome = \<lparr>tu_run_id = opt_text (ev_run_id ev), tu_session_id = opt_text (ev_session_id ev),
     tu_thread_id = opt_text (ev_thread_id ev), tu_provider = ev_provider ev, tu_device_id = opt_text (ev_device_id ev),
     tu_owner_id = owner, tu_turn_id = None, tu_expected_state = None, tu_state = outcome,
     tu_error = (if outcome = ''completed'' then None else Some (code_or (dget (ev_payload ev) ''terminal_state'') [])),
     tu_error_code = None\<rparr>"

definition parse_datetime :: "string \<Rightarrow> pydatetime \<Rightarrow> instant res" where
  "parse_datetime field d = (case dt_tz d of
       None \<Rightarrow> Inl (RuntimeError (field @ '' must include a UTC offset''))
     | Some off \<Rightarrow> astimezone (dt_wall d) off)"

definition report_event :: "'w control_world \<Rightarrow> int \<Rightarrow> runtime_event \<Rightarrow> string \<Rightarrow> 'w \<Rightarrow> console_store \<Rightarrow> (turn_reply, 'w) outcome" where
  "report_event W owner ev outcome w s = (case parse_datetime ''console turn.updated_at'' (ev_occurred_at ev) of
       Inl e \<Rightarrow> (Inl e, w, s)
     | Inr now \<Rightarrow> (case cw_uuid W w of (rid, w1) \<Rightarrow>
         raised (serve_update_console_turn (event_report owner ev outcome) rid now s) w1 s))"

definition reply_next :: "turn_reply \<Rightarrow> turn_dto option" where
  "reply_next r = (case r of Turn_replayed p n \<Rightarrow> n | Turn_updated p n \<Rightarrow> n | _ \<Rightarrow> None)"

definition wake_after_event :: "'w control_world \<Rightarrow> int \<Rightarrow> runtime_event \<Rightarrow> 'w \<Rightarrow> console_store \<Rightarrow> (unit, 'w) outcome" where
  "wake_after_event W owner ev w s = (case event_outcome ev of
       None \<Rightarrow> (Inr (), w, s)
     | Some outcome \<Rightarrow> (case report_event W owner ev outcome w s of
           (Inl e, w', s') \<Rightarrow> (Inl e, w', s')
         | (Inr reply, w', s') \<Rightarrow> (case reply_next reply of
               None \<Rightarrow> (Inr (), w', s')
             | Some n \<Rightarrow> (case dispatch_catalog_claimed_turn W owner n w' s' of
                 (v, w'', s'') \<Rightarrow> (map_sum id (\<lambda>_. ()) v, w'', s'')))))"

fun wake_after_events :: "'w control_world \<Rightarrow> int \<Rightarrow> runtime_event list \<Rightarrow> 'w \<Rightarrow> console_store \<Rightarrow> (unit, 'w) outcome" where
  "wake_after_events W owner [] w s = (Inr (), w, s)"
| "wake_after_events W owner (ev # evs) w s = (case wake_after_event W owner ev w s of
       (Inl e, w', s') \<Rightarrow> (Inl e, w', s')
     | (Inr _, w', s') \<Rightarrow> wake_after_events W owner evs w' s')"

end
