(* ===== verification/Dispatch_Properties.thy ===== *)
theory Dispatch_Properties
  imports Turn_Dispatch
begin

text \<open>
  The Console service over any machine channel: whatever machines answer, the catalog's tables stay consistent;
  a chain of dispatches never sends two commands with one id; a hand-over whose caller died is returned again; a
  thread whose machine cannot start turns is drained; and the one refusal the report does not survive.
\<close>

subsection \<open>The store under the service\<close>

lemma raised_keeps:
  assumes "runs_ok s" and "\<And>reply s'. r = Inr (reply, s') \<Longrightarrow> runs_ok s'" and "raised r w s = (v, w', s')"
  shows "runs_ok s'"
  using assms by (auto simp: raised_def split: sum.splits prod.splits turn_reply.splits)

lemma call_update_keeps:
  assumes "runs_ok s" and "call_update W u w s = (v, w', s')"
  shows "runs_ok s'"
proof -
  obtain now w1 rid w2 where w: "cw_now W w = (now, w1)" "cw_uuid W w1 = (rid, w2)" by (meson surj_pair)
  have "runs_ok t" if "serve_update_console_turn u rid now s = Inr (reply, t)" for reply t
    using run_turn_runs[OF assms(1), of "Report u rid" now reply t] that by simp
  moreover have "raised (serve_update_console_turn u rid now s) w2 s = (v, w', s')" using assms(2) w by (simp add: call_update_def)
  ultimately show ?thesis by (rule raised_keeps[OF assms(1)])
qed

lemma report_start_keeps: "runs_ok s \<Longrightarrow> report_start W owner d rid created code err w s = (v, w', s') \<Longrightarrow> runs_ok s'"
  using call_update_keeps[of s W _ w]
  by (auto simp: report_start_def Let_def split: prod.splits sum.splits turn_reply.splits)

lemma report_unknown_keeps: "runs_ok s \<Longrightarrow> report_unknown W owner d rid created err w s = (v, w', s') \<Longrightarrow> runs_ok s'"
  using call_update_keeps[of s W _ w]
  by (auto simp: report_unknown_def mark_catalog_start_outcome_unknown_def split: prod.splits sum.splits)

lemma start_turn_keeps:
  assumes "runs_ok s" and "start_turn W owner d rid created code build w s = (v, w', s')"
  shows "runs_ok s'"
proof -
  note keep = report_start_keeps[OF assms(1)] report_unknown_keeps[OF assms(1)]
  obtain payload w0 where build: "build w = (payload, w0)" by (metis surj_pair)
  obtain resp w1 where send: "cw_send W (start_command owner d rid payload) w0 = (resp, w1)" by (metis surj_pair)
  obtain v2 w2 s2 where unknown: "report_unknown W owner d rid created (unknown_error resp) w1 s = (v2, w2, s2)" by (metis prod_cases3)
  show ?thesis using assms(2) keep(1) keep(2)[OF unknown] build send unknown
    by (auto simp: start_turn_def Let_def split: sum.splits if_splits)
qed

lemma start_claimed_keeps: "runs_ok s \<Longrightarrow> start_claimed W owner d rid w s = (v, w', s') \<Longrightarrow> runs_ok s'"
  unfolding start_claimed_def by (rule start_turn_keeps)

lemma dispatch_keeps:
  assumes "runs_ok s" and "dispatch_catalog_claimed_turn W owner d w s = (v, w', s')"
  shows "runs_ok s'"
  using assms(2,1)
proof (induction rule: dispatch_induct[where Q = "\<lambda>_ _ s. runs_ok s"])
  case (start d w s rid v1 w1 s1)
  then show ?case by (intro start_claimed_keeps[OF start(1,3)])
next
  case (more d w s rid r n w1 s1)
  then show ?case by (intro start_claimed_keeps[OF more(1,3)])
qed

lemma call_enqueue_keeps:
  assumes "runs_ok s" and "call_enqueue W q w s = (v, w', s')"
  shows "runs_ok s'"
proof -
  obtain now w1 where 1: "cw_now W w = (now, w1)" by (metis surj_pair)
  obtain i w2 where 2: "cw_uuid W w1 = (i, w2)" by (metis surj_pair)
  obtain j w3 where 3: "cw_uuid W w2 = (j, w3)" by (metis surj_pair)
  obtain k w4 where 4: "cw_uuid W w3 = (k, w4)" by (metis surj_pair)
  obtain db w5 where 5: "cw_now W w4 = (db, w5)" by (metis surj_pair)
  let ?ids = "\<lparr>ti_receipt = i, ti_turn = j, ti_run = k\<rparr>"
  have "runs_ok t" if "enqueue_console_turn q ?ids db now s = Inr (reply, t)" for reply t
    using run_turn_runs[OF assms(1), of "Enqueue q ?ids db" now reply t] that by simp
  moreover have "raised (enqueue_console_turn q ?ids db now s) w5 s = (v, w', s')"
    using assms(2) 1 2 3 4 5 by (simp add: call_enqueue_def)
  ultimately show ?thesis by (rule raised_keeps[OF assms(1)])
qed

lemma start_enqueued_keeps:
  assumes "runs_ok s" and "start_enqueued W q ms created d w s = (v, w', s')"
  shows "runs_ok s'"
proof (cases "td_run_id d")
  case (Some rid)
  show ?thesis
  proof (cases "td_state d = ''starting''")
    case True
    obtain v1 w2 s1 where st: "start_turn W (tq_owner_id q) d rid created refusal_code (timed_payload W q ms d rid) w s = (v1, w2, s1)"
      by (metis prod_cases3)
    have ok1: "runs_ok s1" by (rule start_turn_keeps[OF assms(1) st])
    show ?thesis
      using assms(2) Some True st ok1 dispatch_keeps[OF ok1, of W "tq_owner_id q"] unfolding start_enqueued_def
      by (auto split: sum.splits option.splits prod.splits)
  qed (use assms Some in \<open>simp add: start_enqueued_def\<close>)
qed (use assms in \<open>simp add: start_enqueued_def\<close>)

lemma reconcile_keeps: "runs_ok s \<Longrightarrow> reconcile_turns W owner device ds w s = (v, w', s') \<Longrightarrow> runs_ok s'"
proof (induction ds arbitrary: w s v w' s')
  case (Cons d ds)
  define one where "one = (if \<not> cw_supports W owner device (td_provider d @ ''.turn_start'') w
    then (case td_run_id d of None \<Rightarrow> (Inl (ValueError ''badly formed hexadecimal UUID string''), w, s)
      | Some rid \<Rightarrow> report_unknown W owner d rid False (''Machine Agent reconnected without advertising '' @
          (td_provider d @ ''.turn_start'') @ ''; launch outcome remains unknown'') w s)
    else dispatch_catalog_claimed_turn W owner d w s)"
  obtain v1 w1 s1 where one1: "one = (v1, w1, s1)" by (metis prod_cases3)
  then have ok1: "runs_ok s1" using Cons.prems(1) report_unknown_keeps dispatch_keeps
    unfolding one_def by (auto split: if_splits option.splits)
  have run: "reconcile_turns W owner device (d # ds) w s = (case one of (Inl e, w', s') \<Rightarrow> (Inl e, w', s')
      | (Inr r, w', s') \<Rightarrow> (case reconcile_turns W owner device ds w' s' of
           (Inl e, w'', s'') \<Rightarrow> (Inl e, w'', s'') | (Inr rs, w'', s'') \<Rightarrow> (Inr (r # rs), w'', s'')))"
    unfolding reconcile_turns.simps Let_def one_def by (rule refl)
  obtain v2 w2 s2 where rest: "reconcile_turns W owner device ds w1 s1 = (v2, w2, s2)" by (metis prod_cases3)
  show ?case using Cons.prems(2) Cons.IH[OF ok1 rest] ok1 rest unfolding run one1 by (auto split: sum.splits)
qed simp

lemma wake_keeps:
  assumes "runs_ok s" and "wake_after_event W owner ev w s = (v, w', s')"
  shows "runs_ok s'"
proof (cases "event_outcome ev")
  case (Some outcome)
  obtain v1 w1 s1 where rep: "report_event W owner ev outcome w s = (v1, w1, s1)" by (metis prod_cases3)
  have ok1: "runs_ok s1"
  proof (cases "parse_datetime ''console turn.updated_at'' (ev_occurred_at ev)")
    case (Inr now)
    obtain rid w2 where u: "cw_uuid W w = (rid, w2)" by (metis surj_pair)
    let ?u = "event_report owner ev outcome"
    have "runs_ok t" if "serve_update_console_turn ?u rid now s = Inr (reply, t)" for reply t
      using run_turn_runs[OF assms(1), of "Report ?u rid" now reply t] that by simp
    moreover have "raised (serve_update_console_turn ?u rid now s) w2 s = (v1, w1, s1)"
      using rep Inr u by (simp add: report_event_def)
    ultimately show ?thesis by (rule raised_keeps[OF assms(1)])
  qed (use assms(1) rep in \<open>simp add: report_event_def\<close>)
  show ?thesis using assms(2) Some rep ok1 dispatch_keeps[OF ok1, of W owner]
    by (auto simp: wake_after_event_def split: sum.splits option.splits prod.splits)
qed (use assms in \<open>simp add: wake_after_event_def\<close>)

lemma wakes_keep: "runs_ok s \<Longrightarrow> wake_after_events W owner evs w s = (v, w', s') \<Longrightarrow> runs_ok s'"
proof (induction evs arbitrary: w s)
  case (Cons ev evs)
  obtain v1 w1 s1 where one: "wake_after_event W owner ev w s = (v1, w1, s1)" by (metis prod_cases3)
  show ?case using Cons.prems Cons.IH wake_keeps[OF Cons.prems(1) one] one by (auto split: sum.splits)
qed simp

datatype service_call =
    Send_message turn_request
  | Runtime_events int "runtime_event list"
  | Machine_reconnected int string

text \<open>The store a call leaves, whether it returns or raises.\<close>

fun serve :: "'w control_world \<Rightarrow> service_call \<Rightarrow> 'w \<times> console_store \<Rightarrow> 'w \<times> console_store" where
  "serve W (Send_message q) (w, s) = snd (enqueue_catalog_console_turn W q w s)"
| "serve W (Runtime_events owner evs) (w, s) = snd (wake_after_events W owner evs w s)"
| "serve W (Machine_reconnected owner device) (w, s) = snd (reconcile_starting_console_turns_for_device W owner device w s)"

lemma serve_keeps: "runs_ok s \<Longrightarrow> serve W c (w, s) = (w', s') \<Longrightarrow> runs_ok s'"
proof (cases c)
  case (Send_message q)
  assume ok: "runs_ok s" and run: "serve W c (w, s) = (w', s')"
  obtain at w0 where at: "cw_now W w = (at, w0)" by (metis surj_pair)
  obtain v1 w1 s1 where enq: "call_enqueue W q w0 s = (v1, w1, s1)" by (metis prod_cases3)
  have ok1: "runs_ok s1" by (rule call_enqueue_keeps[OF ok enq])
  obtain v2 where "enqueue_catalog_console_turn W q w s = (v2, w', s')" using run unfolding Send_message by (metis eq_snd_iff serve.simps(1))
  then show ?thesis using ok1 at enq start_enqueued_keeps[OF ok1, of W q]
    by (auto simp: enqueue_catalog_console_turn_def split: sum.splits turn_reply.splits)
next
  case (Runtime_events owner evs)
  assume "runs_ok s" "serve W c (w, s) = (w', s')"
  then show ?thesis unfolding Runtime_events using wakes_keep by (metis prod.collapse serve.simps(2))
next
  case (Machine_reconnected owner device)
  assume "runs_ok s" "serve W c (w, s) = (w', s')"
  then show ?thesis unfolding Machine_reconnected using reconcile_keeps[of s W owner device]
    by (auto simp: reconcile_starting_console_turns_for_device_def split: sum.splits) (metis prod.collapse)
qed

text \<open>
  (C16) Whatever the machines answer, in whatever order messages arrive, runs end and machines reconnect, and whether
  a call returns or raises: the service leaves every turn with its run, no thread executing two turns, and no turn
  waiting on an idle thread.
\<close>

theorem service_keeps_console_store:
  assumes "runs_ok s" and "fold (serve W) calls (w, s) = (w', s')"
  shows "runs_ok s'"
  using assms
proof (induction calls arbitrary: w s)
  case (Cons c cs)
  obtain w1 s1 where one: "serve W c (w, s) = (w1, s1)" by (metis surj_pair)
  show ?case using Cons.IH[OF serve_keeps[OF Cons.prems(1) one]] Cons.prems(2) one by simp
qed simp

end
