(* ===== verification/Dispatch_Guarantees.thy ===== *)
theory Dispatch_Guarantees
  imports Dispatch_Properties
begin

text \<open>
  What a caller of the Console service can rely on: the hand-over a dead process did not dispatch is returned to
  the next report, no run is launched twice by a chain of dispatches, a thread whose machine cannot start turns
  ends with every turn failed, and the refusal that leaves a turn starting.
\<close>

subsection \<open>A hand-over is not lost\<close>

lemma apply_receipts:
  assumes "apply_update u rid now t s = Inr (reply, s')"
  shows "map (\<lambda>r. (ir_id r, ir_owner_id r)) (ks_receipts s') = map (\<lambda>r. (ir_id r, ir_owner_id r)) (ks_receipts s)"
proof -
  have a: "map (\<lambda>r. (ir_id r, ir_owner_id r)) (update_where P (advance_receipt u now) rows) = map (\<lambda>r. (ir_id r, ir_owner_id r)) rows"
    and b: "map (\<lambda>r. (ir_id r, ir_owner_id r)) (update_where P (deliver_receipt rid now) rows) = map (\<lambda>r. (ir_id r, ir_owner_id r)) rows" for P rows
    by (rule map_update_where, simp add: advance_receipt_def deliver_receipt_def)+
  show ?thesis using assms by (auto simp: apply_update_def hand_over_def Let_def a b split: if_splits option.splits)
qed

lemma apply_seq:
  assumes "apply_update u rid now t s = Inr (reply, s')"
  shows "cm_commit_seq (ks_meta s') = cm_commit_seq (ks_meta s) + 1"
proof -
  have "ks_meta (progress_turn u now t s) = ks_meta s" "ks_meta (close_turn u now t s1) = ks_meta s1"
    "ks_meta (snd (hand_over rid now n s1)) = ks_meta s1" for n s1
    by (simp_all add: progress_turn_def close_turn_def hand_over_def Let_def)
  then show ?thesis using assms by (auto simp: apply_update_def Let_def hand_over_def split: if_splits option.splits)
qed

lemma owned_receipt: "list_ex (\<lambda>r. ir_id r = i \<and> ir_owner_id r = owner) rows \<longleftrightarrow> (i, owner) \<in> set (map (\<lambda>r. (ir_id r, ir_owner_id r)) rows)"
  by (auto simp: list_ex_iff)

lemma update_matches_cong:
  assumes "map (\<lambda>r. (ir_id r, ir_owner_id r)) (ks_receipts s') = map (\<lambda>r. (ir_id r, ir_owner_id r)) (ks_receipts s)"
  shows "update_matches u s' = update_matches u s"
  unfolding update_matches_def owned_receipt assms ..

lemma filter_single:
  assumes "distinct xs" and "t \<in> set xs" and "P t" and only: "\<And>x. x \<in> set xs \<Longrightarrow> P x \<Longrightarrow> x = t"
  shows "filter P xs = [t]"
proof -
  have one: "set (filter P xs) = {t}" using assms(2,3) only by (intro set_eqI) (metis (mono_tags) mem_Collect_eq set_filter singleton_iff)
  have len: "length (filter P xs) = 1" using distinct_card[OF distinct_filter[OF assms(1), of P]] unfolding one by simp
  then obtain y where "filter P xs = [y]" by (auto simp: length_Suc_conv)
  then show ?thesis using one by simp
qed

lemma distinct_turns: "turns_ok rows \<Longrightarrow> distinct rows"
  using turns_okD(1) by (auto simp: distinct_map)

lemma one_match:
  assumes ok: "turns_ok (ks_turns s)" and t: "t \<in> set (ks_turns s)" "update_matches u s t"
  shows "one_or_none (update_matches u s) (ks_turns s) = Inr (Some t)"
proof -
  have "filter (update_matches u s) (ks_turns s) = [t]"
  proof (rule filter_single[where t = t, OF distinct_turns[OF ok] t(1)])
    show "update_matches u s t" by (rule t(2))
    show "x = t" if "x \<in> set (ks_turns s)" "update_matches u s x" for x
      by (rule turns_okD(3)[OF ok t(1) that(1)]) (use t(2) that(2) in \<open>auto simp: update_matches_def\<close>)
  qed
  then show ?thesis by (simp add: one_or_none_def)
qed

lemma only_starting:
  assumes ok: "turns_ok rows" and t: "t \<in> set rows" "ct_thread_id t = tid" "ct_state t = ''starting''"
  shows "starting_turn tid rows = Some t"
proof -
  have run: "executing tid t" using t by (simp add: executing_def EXECUTING_STATES_def)
  have "filter (\<lambda>x. ct_thread_id x = tid \<and> ct_state x = ''starting'') rows = [t]"
  proof (rule filter_single[OF distinct_turns[OF ok] t(1)])
    show "x = t" if "x \<in> set rows" "ct_thread_id x = tid \<and> ct_state x = ''starting''" for x
      by (rule turns_okD(4)[OF ok t(1) that(1) run]) (use that(2) in \<open>simp add: executing_def EXECUTING_STATES_def\<close>)
  qed (use t in simp)
  then show ?thesis by (simp add: starting_turn_def first_row_def)
qed

lemma call_keeps:
  assumes "run_turn c now s = Inr (reply, s')"
  shows "set (map (\<lambda>r. (ir_id r, ir_owner_id r)) (ks_receipts s)) \<subseteq> set (map (\<lambda>r. (ir_id r, ir_owner_id r)) (ks_receipts s')) \<and>
    cm_commit_seq (ks_meta s) \<le> cm_commit_seq (ks_meta s')"
proof (cases c)
  case (Enqueue q ids db_now)
  with assms have "enqueue_console_turn q ids db_now now s = Inr (reply, s')" by simp
  then show ?thesis
  proof (cases rule: enqueue_cases)
    case (accepted c th device cwd)
    then show ?thesis by (auto simp: accept_turn_def Let_def split: if_splits)
  qed simp
next
  case (Report u rid)
  with assms have "serve_update_console_turn u rid now s = Inr (reply, s')" by simp
  then show ?thesis
  proof (cases rule: served_update)
    case passed
    from passed(1) show ?thesis by (cases rule: update_cases) (auto dest: apply_receipts apply_seq simp del: set_map)
  qed simp
qed

text \<open>What stands of an ended turn, whatever calls follow.\<close>

lemma runs_keep_ended:
  assumes "turns_ok (ks_turns s)" and "event_runs turn_event calls s = Inr (es, s')" and "t \<in> set (ks_turns s)"
    and "ct_state t \<in> set TERMINAL_STATES" and "update_matches u s t" and "0 \<le> cm_commit_seq (ks_meta s)"
  shows "turns_ok (ks_turns s') \<and> t \<in> set (ks_turns s') \<and> update_matches u s' t \<and> 0 \<le> cm_commit_seq (ks_meta s')"
  using assms(1,2,3,5,6)
proof (induction calls arbitrary: s es)
  case (Cons c cs)
  then obtain e s1 es' where r: "turn_event c s = Inr (e, s1)" "event_runs turn_event cs s1 = Inr (es', s')" by auto
  obtain reply where run: "run_turn (fst c) (snd c) s = Inr (reply, s1)" using r(1) by (auto simp: turn_event_Inr)
  have t1: "t \<in> set (ks_turns s1)" by (rule change_keeps_finished[OF event_change[OF r(1)] Cons.prems(1,3) assms(4)])
  have m1: "update_matches u s1 t" using Cons.prems(4) call_keeps[OF run] unfolding update_matches_def owned_receipt by blast
  show ?case
    by (rule Cons.IH[OF turn_change_ok[OF event_change[OF r(1)] Cons.prems(1)] r(2) t1 m1]) (use call_keeps[OF run] Cons.prems(5) in simp)
qed simp

lemma ended_answer:
  assumes ok: "turns_ok (ks_turns s)" and seq: "0 \<le> cm_commit_seq (ks_meta s)"
    and t: "t \<in> set (ks_turns s)" "update_matches u s t" "ct_state t = tu_state u" "tu_state u \<in> set TERMINAL_STATES"
    and id: "or_none (tu_turn_id u) = None \<or> tu_turn_id u = Some (ct_id t)"
    and x: "x \<in> set (ks_turns s)" "ct_thread_id x = ct_thread_id t" "ct_state x = ''starting''"
  shows "tu_expected_state u = None \<Longrightarrow> update_console_turn u rid now s = Inr (Turn_replayed (brief_dto s t) (Some (full_dto s x)), s)"
    "tu_expected_state u \<notin> {None, Some (ct_state t)} \<Longrightarrow> update_console_turn u rid now s = Inr (Turn_stale (full_dto s t), s)"
  using one_match[OF ok t(1,2)] only_starting[OF ok x] id seq t(3,4) by (simp_all add: update_console_turn_def turn_read_def)

text \<open>
  (C20) A hand-over that was not dispatched is found again: when a terminal report has released a thread to its next
  turn and the process dies before that turn's command is sent, the same report sent again, at any later moment at
  which that turn still waits to be started, is answered with that very turn and its run id, and writes nothing.
  This holds for a report that expects no state of the turn. A report that does, as the service's own report of a
  failed start does, is answered as stale the second time and names no turn to dispatch.
\<close>

theorem lost_hand_over_is_replayed:
  assumes ok: "turns_ok (ks_turns s)" and "0 \<le> cm_commit_seq (ks_meta s)"
    and served: "serve_update_console_turn u rid now s = Inr (Turn_updated p (Some n), s')"
    and later: "event_runs turn_event calls s' = Inr (es, s2)"
    and still: "x \<in> set (ks_turns s2)" "ct_id x = td_turn_id n" "ct_run_id x = td_run_id n" "ct_state x = ''starting''"
  shows "if tu_expected_state u = None
    then \<exists>p' n'. serve_update_console_turn u rid' now' s2 = Inr (Turn_replayed p' (Some n'), s2) \<and>
      td_turn_id p' = td_turn_id p \<and> td_turn_id n' = td_turn_id n \<and> td_run_id n' = td_run_id n \<and> td_state n' = ''starting''
    else \<exists>p'. serve_update_console_turn u rid' now' s2 = Inr (Turn_stale p', s2) \<and> td_turn_id p' = td_turn_id p"
proof -
  have up: "update_console_turn u rid now s = Inr (Turn_updated p (Some n), s')" using served_update[OF served] by blast
  obtain t where t: "t \<in> set (ks_turns s)" "update_matches u s t" "ct_state t \<notin> set TERMINAL_STATES"
      "apply_update u rid now t s = Inr (Turn_updated p (Some n), s')" using up by (rule update_cases) simp_all
  let ?t = "advance_turn u now t"
  have ok': "turns_ok (ks_turns s')" using turn_change_ok[OF run_turn_change[of "Report u rid" now s] ok] served by simp
  have id: "or_none (tu_turn_id u) = None \<or> tu_turn_id u = Some (ct_id t)"
    using up one_match[OF ok t(1,2)] by (simp add: update_console_turn_def split: if_splits)
  have run: "ct_run_id t \<noteq> None" using t(2) by (simp add: update_matches_def)
  have guard: "serve_update_console_turn u r m z = update_console_turn u r m z"
    "tu_expected_state u \<in> {None, Some ''starting'', Some ''active'', Some ''draining''}" for r m z
    using served by (auto simp: serve_update_console_turn_def split: if_splits option.splits)
  from t(4) show ?thesis
  proof (cases rule: apply_turns)
    case (pass m resume)
    note N = next_waiting_Some[OF pass(2)] and E = ended_rows[OF ok t(1) run t(3) pass(1) refl]
    let ?m = "taken_over rid now resume m"
    have "?t \<noteq> m" using N(2) terminal_row[of ?t] pass(1) by auto
    then have mem: "?t \<in> set (ks_turns s')" "?m \<in> set (ks_turns s')"
      unfolding pass(5) replace_set[OF E(2) N(1), of "\<lambda>_. ?m"] E(1) by simp_all
    have "update_matches u s ?t" using t(2) by (simp add: update_matches_def advance_turn_def)
    then have match: "update_matches u s' ?t" using update_matches_cong[OF apply_receipts[OF t(4)]] by simp
    have keep: "turns_ok (ks_turns s2)" "?t \<in> set (ks_turns s2)" "update_matches u s2 ?t" "0 \<le> cm_commit_seq (ks_meta s2)"
      using runs_keep_ended[OF ok' later mem(1) _ match] apply_seq[OF t(4)] assms(2) pass(1) by simp_all
    obtain y where y: "y \<in> set (ks_turns s2)" "ct_thread_id y = ct_thread_id ?m" "turn_order y = turn_order ?m"
      using runs_persist[OF ok' later mem(2)] by blast
    have n: "n = full_dto s' ?m" "td_turn_id p = ct_id t" using pass(8) by simp_all
    have "ct_id y = ct_id x" using y(3) still(2) n snd_order by (metis full_dto_simps(1))
    then have "y = x" using turns_okD(1)[OF keep(1)] y(1) still(1) by (auto simp: distinct_map dest: inj_onD)
    then have thread: "ct_thread_id x = ct_thread_id ?t" using y(2) N(2) by (simp add: waiting_def)
    note answer = ended_answer[OF keep(1,4,2,3) _ pass(1) _ still(1) thread still(4)]
    have "tu_expected_state u \<noteq> Some (ct_state ?t)" using guard(2) pass(1) by (auto simp: TERMINAL_STATES_def)
    then show ?thesis unfolding guard(1) using answer id n still by auto
  qed auto
qed

subsection \<open>A refusal the catalog does not take\<close>

text \<open>
  (C24) A machine that refuses a start with an error code of more than 64 characters is not heard: the catalog rejects
  the report, the dispatch raises, and the store is left as it was, with the turn still starting.
\<close>

theorem overlong_error_code_is_dropped:
  assumes "td_run_id d = Some rid" and "cw_supports W owner (td_device_id d) (td_provider d @ ''.turn_start'') w"
    and "cw_send W (start_command owner d rid (start_payload d rid (opt_text (td_client_request_id d)) (opt_text (td_message d)) [])) w = (resp, w1)"
    and "mr_transport_ok resp" and "dget (mr_message resp) ''ok'' = PBool False"
    and "dget (error_detail (mr_message resp)) ''code'' = PStr c" and "64 < length c"
    and "0 < owner" and "is_string 64 (td_provider d)" and "is_string 255 (td_device_id d)"
  shows "fst (dispatch_catalog_claimed_turn W owner d w s) = Inl (RuntimeError ''console turn error_code is invalid'') \<and>
    snd (snd (dispatch_catalog_claimed_turn W owner d w s)) = s"
proof -
  have code: "launch_code (PStr c) = c" using assms(7) by (auto simp: launch_code_def code_or_def py_str_def)
  obtain now w2 nid w3 where w: "cw_now W w1 = (now, w2)" "cw_uuid W w2 = (nid, w3)" by (metis surj_pair)
  let ?u = "turn_report owner d rid (if or_none (Some (start_failure resp)) = None then ''active'' else ''failed'') (Some c) (Some (start_failure resp))"
  have "serve_update_console_turn ?u nid now s = Inr (Turn_invalid ''console turn error_code is invalid'', s)"
    using assms(7-10) by (simp add: serve_update_console_turn_def turn_report_def)
  then have "call_update W ?u w1 s = (Inl (RuntimeError ''console turn error_code is invalid''), w3, s)"
    using w by (simp add: call_update_def raised_def)
  then have "start_claimed W owner d rid w s = (Inl (RuntimeError ''console turn error_code is invalid''), w3, s)"
    using assms(2-6) code by (simp add: start_claimed_def start_turn_def report_start_def Let_def)
  from dispatch_raises[OF assms(1) this] show ?thesis by simp
qed

subsection \<open>Commands\<close>

text \<open>A channel that also keeps the commands sent.\<close>

definition logged :: "'w control_world \<Rightarrow> ('w \<times> machine_command list) control_world" where
  "logged W = \<lparr>cw_supports = (\<lambda>owner device cap w. cw_supports W owner device cap (fst w)),
     cw_send = (\<lambda>c w. case cw_send W c (fst w) of (r, w1) \<Rightarrow> (r, w1, snd w @ [c])),
     cw_uuid = (\<lambda>w. case cw_uuid W (fst w) of (i, w1) \<Rightarrow> (i, w1, snd w)),
     cw_now = (\<lambda>w. case cw_now W (fst w) of (t, w1) \<Rightarrow> (t, w1, snd w))\<rparr>"

lemma logged_update: "call_update (logged W) u (w, log) s = (v, (w', log'), s') \<Longrightarrow> log' = log"
  by (auto simp: call_update_def logged_def raised_def split: prod.splits sum.splits turn_reply.splits)

lemma logged_report: "report_start (logged W) owner d rid created code err (w, log) s = (v, (w', log'), s') \<Longrightarrow> log' = log"
  using logged_update[of W _ w log s]
  by (auto simp: report_start_def Let_def split: prod.splits sum.splits turn_reply.splits)

lemma logged_unknown: "report_unknown (logged W) owner d rid created err (w, log) s = (v, (w', log'), s') \<Longrightarrow> log' = log"
  using logged_update[of W _ w log s]
  by (auto simp: report_unknown_def mark_catalog_start_outcome_unknown_def split: prod.splits sum.splits)

lemma logged_start:
  assumes "start_claimed (logged W) owner d rid (w, log) s = (v, (w', log'), s')"
  shows "log' = log \<or> (\<exists>c. log' = log @ [c] \<and> mc_command_id c = rid)"
proof -
  define c where "c = start_command owner d rid (start_payload d rid (opt_text (td_client_request_id d)) (opt_text (td_message d)) [])"
  have id: "mc_command_id c = rid" by (simp add: c_def start_command_def)
  obtain resp w1 where send: "cw_send W c w = (resp, w1)" by (metis surj_pair)
  then have lsend: "cw_send (logged W) c (w, log) = (resp, w1, log @ [c])" by (simp add: logged_def)
  obtain v2 w2 log2 s2 where unknown: "report_unknown (logged W) owner d rid True (unknown_error resp) (w1, log @ [c]) s = (v2, (w2, log2), s2)"
    by (cases "report_unknown (logged W) owner d rid True (unknown_error resp) (w1, log @ [c]) s") auto
  note start = start_claimed_def start_turn_def prod.case c_def[symmetric] Let_def
  consider "\<not> cw_supports (logged W) owner (td_device_id d) (td_provider d @ ''.turn_start'') (w, log)"
    | "cw_supports (logged W) owner (td_device_id d) (td_provider d @ ''.turn_start'') (w, log)" "\<not> mr_transport_ok resp"
    | "cw_supports (logged W) owner (td_device_id d) (td_provider d @ ''.turn_start'') (w, log)" "mr_transport_ok resp" by blast
  then show ?thesis
  proof cases
    case 1
    then have "\<exists>code err. report_start (logged W) owner d rid True code err (w, log) s = (v, (w', log'), s')"
      using assms unfolding start by auto
    then show ?thesis by (auto dest: logged_report)
  next
    case 2
    then have "log' = log2" using assms lsend unknown unfolding start by (simp split: sum.splits)
    then show ?thesis using logged_unknown[OF unknown] id by simp
  next
    case 3
    then have "\<exists>code err. report_start (logged W) owner d rid True code err (w1, log @ [c]) s = (v, (w', log'), s')"
      using assms lsend unfolding start by (auto split: if_splits)
    then have "log' = log @ [c]" by (auto dest: logged_report)
    then show ?thesis using id by simp
  qed
qed

definition run_ids :: "console_store \<Rightarrow> string set" where
  "run_ids s = {i. Some i \<in> ct_run_id ` set (ks_turns s)}"

definition next_fresh :: "console_store \<Rightarrow> turn_dto option \<Rightarrow> console_store \<Rightarrow> bool" where
  "next_fresh s n s' \<longleftrightarrow> run_ids s \<subseteq> run_ids s' \<and> (case n of None \<Rightarrow> True
     | Some m \<Rightarrow> (\<exists>i. td_run_id m = Some i \<and> i \<notin> run_ids s \<and> i \<in> run_ids s'))"

lemma next_fresh_refl [simp]: "next_fresh s None s"
  by (simp add: next_fresh_def)

lemma serve_fresh:
  assumes ok: "turns_ok (ks_turns s)" and up: "serve_update_console_turn u rid now s = Inr (reply, s')"
  shows "next_fresh s (case reply of Turn_updated p n \<Rightarrow> n | _ \<Rightarrow> None) s'"
  using up
proof (cases rule: served_update)
  case passed
  from passed(1) show ?thesis
  proof (cases rule: update_cases)
    case unchanged
    then show ?thesis by (auto split: turn_reply.splits)
  next
    case (applied t)
    have run: "ct_run_id t \<noteq> None" using applied(2) by (simp add: update_matches_def)
    have mid: "ct_run_id ` set (update_where (\<lambda>x. ct_id x = ct_id t) (advance_turn u now) (ks_turns s)) = ct_run_id ` set (ks_turns s)"
      by (simp flip: set_map add: map_update_where)
    from applied(4) show ?thesis
    proof (cases rule: apply_turns)
      case progress
      then show ?thesis using mid by (auto simp: next_fresh_def run_ids_def)
    next
      case finish
      then show ?thesis using mid by (auto simp: next_fresh_def run_ids_def)
    next
      case (pass n resume)
      note N = next_waiting_Some[OF pass(2)] and E = ended_rows[OF ok applied(1) run applied(3) pass(1) refl]
      have none: "ct_run_id n = None" using N(2) E(3)[OF N(1)] by (simp add: waiting_def row_ok_def)
      have rows: "set (ks_turns s') = insert (taken_over rid now resume n) (set (update_where (\<lambda>x. ct_id x = ct_id t) (advance_turn u now) (ks_turns s)) - {n})"
        unfolding pass(5) by (rule replace_set[OF E(2) N(1)])
      have old: "rid \<notin> run_ids s" using pass(3) mid by (simp add: run_ids_def)
      have new: "rid \<in> run_ids s'" unfolding run_ids_def rows by simp
      have sub: "run_ids s \<subseteq> run_ids s'"
      proof
        fix i assume "i \<in> run_ids s"
        then obtain x where "x \<in> set (update_where (\<lambda>x. ct_id x = ct_id t) (advance_turn u now) (ks_turns s))" "ct_run_id x = Some i"
          unfolding run_ids_def mid[symmetric] by auto
        moreover then have "x \<noteq> n" using none by auto
        ultimately show "i \<in> run_ids s'" unfolding run_ids_def rows by (auto simp: image_iff intro!: bexI[of _ x])
      qed
      show ?thesis using pass(8) old new sub by (simp add: next_fresh_def)
    qed
  qed
qed simp

lemma call_fresh:
  assumes ok: "turns_ok (ks_turns s)" and "call_update W u w s = (v, w', s')"
  shows "next_fresh s (case v of Inr (Turn_updated p n) \<Rightarrow> n | _ \<Rightarrow> None) s'"
proof -
  obtain now w1 rid w2 where w: "cw_now W w = (now, w1)" "cw_uuid W w1 = (rid, w2)" by (metis surj_pair)
  show ?thesis
  proof (cases "serve_update_console_turn u rid now s")
    case (Inr a)
    obtain reply t where a: "a = (reply, t)" by (cases a)
    have r: "raised (Inr (reply, t)) w2 s = (v, w', s')" using assms(2) w Inr a by (simp add: call_update_def)
    show ?thesis using serve_fresh[OF ok Inr[unfolded a]] r by (cases reply) (auto simp: raised_def)
  qed (use assms(2) w in \<open>auto simp: call_update_def raised_def\<close>)
qed

lemma report_fresh:
  assumes ok: "turns_ok (ks_turns s)" and "report_start W owner d rid created code err w s = (v, w', s')"
  shows "next_fresh s (case v of Inr (r, n) \<Rightarrow> n | _ \<Rightarrow> None) s'"
proof -
  let ?u = "turn_report owner d rid (if or_none err = None then ''active'' else ''failed'') code err"
  obtain v1 w1 s1 where c: "call_update W ?u w s = (v1, w1, s1)" by (metis prod_cases3)
  show ?thesis
  proof (cases v1)
    case (Inr reply)
    then show ?thesis using assms(2) c call_fresh[OF ok c] by (cases reply) (auto simp: report_start_def Let_def)
  qed (use assms(2) c call_fresh[OF ok c] in \<open>auto simp: report_start_def Let_def\<close>)
qed

lemma unknown_fresh:
  assumes ok: "turns_ok (ks_turns s)" and "report_unknown W owner d rid created err w s = (v, w', s')"
  shows "next_fresh s None s'"
proof -
  obtain v1 w1 s1 where c: "mark_catalog_start_outcome_unknown W owner d rid err w s = (v1, w1, s1)" by (metis prod_cases3)
  have "next_fresh s None s1" using call_fresh[OF ok c[unfolded mark_catalog_start_outcome_unknown_def]]
    by (simp add: next_fresh_def)
  then show ?thesis using assms(2) c by (auto simp: report_unknown_def split: sum.splits)
qed

lemma start_fresh:
  assumes ok: "turns_ok (ks_turns s)" and "start_claimed W owner d rid w s = (v, w', s')"
  shows "next_fresh s (case v of Inr (r, n) \<Rightarrow> n | _ \<Rightarrow> None) s'"
proof -
  let ?p = "start_payload d rid (opt_text (td_client_request_id d)) (opt_text (td_message d)) []"
  obtain resp w1 where send: "cw_send W (start_command owner d rid ?p) w = (resp, w1)" by (metis surj_pair)
  obtain v2 w2 s2 where unknown: "report_unknown W owner d rid True (unknown_error resp) w1 s = (v2, w2, s2)" by (metis prod_cases3)
  have "(\<exists>code err w0. report_start W owner d rid True code err w0 s = (v, w', s')) \<or>
      (s' = s2 \<and> (case v of Inr (r, n) \<Rightarrow> n | _ \<Rightarrow> None) = None)"
    using assms(2) send unknown by (auto simp: start_claimed_def start_turn_def Let_def split: if_splits sum.splits)
  then show ?thesis using report_fresh[OF ok] unknown_fresh[OF ok unknown] by auto
qed

text \<open>
  (C21) A chain of dispatches sends no two commands with the same id, and every id is the run id of a turn in the
  catalog; so a machine that remembers command ids launches each run at most once.
\<close>

theorem dispatch_commands_are_distinct:
  fixes W :: "'a control_world"
  assumes "runs_ok s" and "td_run_id d = Some rid" and "rid \<in> run_ids s"
    and "dispatch_catalog_claimed_turn (logged W) owner d (w, []) s = (v, (w', log), s')"
  shows "distinct (map mc_command_id log) \<and> set (map mc_command_id log) \<subseteq> run_ids s'"
proof -
  define Q where "Q = (\<lambda>(d :: turn_dto) (wl :: 'a \<times> machine_command list) (s :: console_store). runs_ok s \<and> distinct (map mc_command_id (snd wl)) \<and>
    set (map mc_command_id (snd wl)) \<subseteq> run_ids s \<and>
    (\<exists>i. td_run_id d = Some i \<and> i \<in> run_ids s \<and> i \<notin> set (map mc_command_id (snd wl))))"
  define P where "P = (\<lambda>(wl :: 'a \<times> machine_command list) (s :: console_store). distinct (map mc_command_id (snd wl)) \<and> set (map mc_command_id (snd wl)) \<subseteq> run_ids s)"
  have step: "P w1 s1 \<and> next_fresh s (case v1 of Inr (r, n) \<Rightarrow> n | _ \<Rightarrow> None) s1 \<and>
      set (map mc_command_id (snd w1)) \<subseteq> insert i (set (map mc_command_id (snd wl)))"
    if Q: "Q d wl s" and i: "td_run_id d = Some i" and st: "start_claimed (logged W) owner d i wl s = (v1, w1, s1)" for d wl s i v1 w1 s1
  proof -
    have fresh: "next_fresh s (case v1 of Inr (r, n) \<Rightarrow> n | _ \<Rightarrow> None) s1"
      using start_fresh[OF _ st] Q by (simp add: Q_def runs_ok_def)
    have "snd w1 = snd wl \<or> (\<exists>c. snd w1 = snd wl @ [c] \<and> mc_command_id c = i)"
      using logged_start[of W owner d i "fst wl" "snd wl" s v1 "fst w1" "snd w1" s1] st by simp
    then have log: "set (map mc_command_id (snd w1)) \<subseteq> insert i (set (map mc_command_id (snd wl)))" "distinct (map mc_command_id (snd w1))"
      using Q i by (auto simp: Q_def)
    moreover have "insert i (set (map mc_command_id (snd wl))) \<subseteq> run_ids s" "run_ids s \<subseteq> run_ids s1"
      using Q i fresh by (auto simp: Q_def next_fresh_def)
    ultimately show ?thesis using fresh unfolding P_def by blast
  qed
  have "Q d (w, []) s" using assms(1-3) by (simp add: Q_def)
  with assms(4) have "P (w', log) s'"
  proof (induction rule: dispatch_induct)
    case (none d w s)
    then show ?case by (simp add: Q_def)
  next
    case (start d wl s i v1 w1 s1)
    then show ?case using step by blast
  next
    case (more d wl s i r n w1 s1)
    have S: "P w1 s1" "next_fresh s (Some n) s1" "set (map mc_command_id (snd w1)) \<subseteq> insert i (set (map mc_command_id (snd wl)))"
      using step[OF more] by simp_all
    obtain j where "td_run_id n = Some j" "j \<notin> run_ids s" "j \<in> run_ids s1" using S(2) by (auto simp: next_fresh_def)
    moreover have "i \<in> run_ids s" "set (map mc_command_id (snd wl)) \<subseteq> run_ids s" using more(1,2) by (auto simp: Q_def)
    moreover have "runs_ok s1" by (rule start_claimed_keeps[OF _ more(3)]) (use more(1) in \<open>simp add: Q_def\<close>)
    ultimately show ?case using S unfolding Q_def P_def by blast
  qed
  then show ?thesis by (simp add: P_def)
qed

end

