(* ===== verification/Dispatch_Liveness.thy ===== *)
theory Dispatch_Liveness
  imports Dispatch_Guarantees
begin

text \<open>
  Progress of the Console service without a machine: when the machine does not advertise the capability, every
  turn of the thread is failed in order until nobody waits, so no message stays queued for an adapter that is
  not there. The supply of ids is assumed fresh, as \<open>uuid4\<close> is.
\<close>

definition next_world :: "'w control_world \<Rightarrow> 'w \<Rightarrow> 'w" where
  "next_world W w = snd (cw_uuid W (snd (cw_now W w)))"

definition uuid_at :: "'w control_world \<Rightarrow> 'w \<Rightarrow> nat \<Rightarrow> string" where
  "uuid_at W w n = fst (cw_uuid W (snd (cw_now W ((next_world W ^^ n) w))))"

definition fresh_supply :: "'w control_world \<Rightarrow> 'w \<Rightarrow> console_store \<Rightarrow> bool" where
  "fresh_supply W w s \<longleftrightarrow> (\<forall>n. \<not> run_id_used (uuid_at W w n) s) \<and> inj (uuid_at W w)"

definition no_machine :: "'w control_world \<Rightarrow> bool" where
  "no_machine W \<longleftrightarrow> (\<forall>owner device cap w. \<not> cw_supports W owner device cap w)"

definition startable :: "int \<Rightarrow> console_store \<Rightarrow> console_turn \<Rightarrow> bool" where
  "startable owner s t \<longleftrightarrow> is_string 64 (ct_provider t) \<and> is_string 255 (ct_device_id t) \<and>
     list_ex (\<lambda>r. ir_id r = ct_receipt_id t \<and> ir_owner_id r = owner) (ks_receipts s)"

definition thread_startable :: "int \<Rightarrow> string \<Rightarrow> console_store \<Rightarrow> bool" where
  "thread_startable owner tid s \<longleftrightarrow> (\<forall>t \<in> set (ks_turns s). ct_thread_id t = tid \<longrightarrow> startable owner s t)"

definition drained :: "string \<Rightarrow> console_turn list \<Rightarrow> bool" where
  "drained tid rows \<longleftrightarrow> list_all (\<lambda>t. ct_thread_id t = tid \<longrightarrow> ct_state t \<in> set TERMINAL_STATES) rows"

lemma uuid_Suc: "uuid_at W (next_world W w) n = uuid_at W w (Suc n)"
  by (simp add: uuid_at_def funpow_swap1)

lemma fresh_next:
  assumes "fresh_supply W w s" and "\<And>i. run_id_used i s' \<Longrightarrow> run_id_used i s \<or> i = uuid_at W w 0"
  shows "fresh_supply W (next_world W w) s'"
proof -
  have "uuid_at W w (Suc n) \<noteq> uuid_at W w 0" for n using assms(1) by (auto simp: fresh_supply_def dest: injD)
  then have "\<not> run_id_used (uuid_at W w (Suc n)) s'" for n using assms by (auto simp: fresh_supply_def)
  moreover have "inj (\<lambda>n. uuid_at W w (Suc n))" using assms(1) by (auto simp: fresh_supply_def inj_def)
  ultimately show ?thesis unfolding fresh_supply_def uuid_Suc by simp
qed

lemma target_simps [simp]:
  "ct_provider (advance_turn u now t) = ct_provider t" "ct_device_id (advance_turn u now t) = ct_device_id t"
  "ct_provider (taken_over rid now resume t) = ct_provider t" "ct_device_id (taken_over rid now resume t) = ct_device_id t"
  by (simp_all add: advance_turn_def taken_over_def claim_turn_def)

lemma kept_run_ids:
  "ct_run_id ` set (update_where P (advance_turn u now) rows) = ct_run_id ` set rows"
  "cr_id ` set (update_where R (end_run u now) runs) = cr_id ` set runs"
  by (simp_all flip: set_map add: map_update_where ended_run_ids)

lemma run_id_used_iff: "run_id_used i s \<longleftrightarrow> i \<in> cr_id ` set (ks_runs s) \<or> Some i \<in> ct_run_id ` set (ks_turns s)"
proof -
  have "list_ex (\<lambda>r. cr_id r = i) (ks_runs s) \<longleftrightarrow> i \<in> cr_id ` set (ks_runs s)" by (auto simp: list_ex_iff)
  moreover have "list_ex (\<lambda>t. ct_run_id t = Some i) (ks_turns s) \<longleftrightarrow> Some i \<in> ct_run_id ` set (ks_turns s)" by (force simp: list_ex_iff)
  ultimately show ?thesis by (simp only: run_id_used_def)
qed

lemma apply_total:
  assumes "\<not> run_id_used rid s"
  obtains reply s' where "apply_update u rid now t s = Inr (reply, s')"
proof -
  have "\<not> run_id_used rid (close_turn u now t (progress_turn u now t s))" using assms unfolding run_id_used_iff by (simp add: kept_run_ids)
  then have "\<not> isl (apply_update u rid now t s)"
    by (auto simp: apply_update_def turn_saved_def hand_over_def Let_def split: option.splits)
  then show thesis using that by (cases "apply_update u rid now t s") auto
qed

lemma used_after:
  assumes "apply_update u rid now t s = Inr (reply, s')" and "run_id_used i s'"
  shows "run_id_used i s \<or> i = rid"
proof -
  have more: "ct_run_id ` set (update_where P (\<lambda>_. taken_over rid now resume n) rows) \<subseteq> insert (Some rid) (ct_run_id ` set rows)" for P resume n rows
    by (auto simp: set_update_where)
  from assms(1) show ?thesis
  proof (cases rule: apply_turns)
    case (pass n resume)
    let ?mid = "update_where (\<lambda>x. ct_id x = ct_id t) (advance_turn u now) (ks_turns s)"
    have "Some i \<in> ct_run_id ` set (ks_turns s') \<Longrightarrow> Some i \<in> insert (Some rid) (ct_run_id ` set ?mid)" unfolding pass(5) using more by blast
    moreover have "i \<in> cr_id ` set (ks_runs s') \<Longrightarrow> i \<in> insert rid (cr_id ` set (ks_runs s))"
      unfolding pass(6) by (simp add: kept_run_ids console_run_for_def)
    ultimately show ?thesis using assms(2) unfolding run_id_used_iff kept_run_ids by blast
  qed (use assms(2) in \<open>simp_all add: run_id_used_iff kept_run_ids\<close>)
qed

lemma full_dto_target [simp]:
  "td_session_id (full_dto s t) = ct_session_id t" "td_provider (full_dto s t) = ct_provider t" "td_device_id (full_dto s t) = ct_device_id t"
  by (simp_all add: full_dto_def live_console_turn_dto_def Let_def)

lemma apply_startable:
  assumes ok: "turns_ok (ks_turns s)" and t: "t \<in> set (ks_turns s)" "ct_run_id t \<noteq> None" "ct_state t \<notin> set TERMINAL_STATES"
    and u: "tu_state u \<in> set TERMINAL_STATES" and app: "apply_update u rid now t s = Inr (reply, s')"
    and all: "thread_startable owner tid s"
  shows "thread_startable owner tid s'"
proof -
  note E = ended_rows[OF ok t u refl]
  have keep: "startable owner s' x = startable owner s y"
    if "ct_provider x = ct_provider y" "ct_device_id x = ct_device_id y" "ct_receipt_id x = ct_receipt_id y" for x y
    unfolding startable_def that owned_receipt apply_receipts[OF app] ..
  have mid: "startable owner s' x"
    if "x \<in> set (update_where (\<lambda>x. ct_id x = ct_id t) (advance_turn u now) (ks_turns s))" "ct_thread_id x = tid" for x
  proof (cases "x = advance_turn u now t")
    case True
    then show ?thesis using keep[of x t] all t(1) that(2) by (simp add: thread_startable_def)
  next
    case False
    then show ?thesis using keep[of x x] all that unfolding E(1) by (simp add: thread_startable_def)
  qed
  from app show ?thesis
  proof (cases rule: apply_turns)
    case finish
    show ?thesis unfolding thread_startable_def finish(3) using mid by blast
  next
    case (pass n resume)
    note N = next_waiting_Some[OF pass(2)]
    have "startable owner s' (taken_over rid now resume n)" if "ct_thread_id n = tid"
      using mid[OF N(1) that] keep[of "taken_over rid now resume n" n] keep[of n n] by simp
    then show ?thesis unfolding thread_startable_def pass(5) replace_set[OF E(2) N(1)] using mid by auto
  qed (use u in simp)
qed

lemma apply_state: "apply_update u rid now t s = Inr (reply, s') \<Longrightarrow> \<exists>p nxt. reply = Turn_updated p nxt \<and> td_state p = tu_state u"
  by (auto simp: apply_update_def hand_over_def Let_def split: if_splits option.splits)

lemma ended_thread:
  assumes ok: "turns_ok (ks_turns s)" "turns_ok (ks_turns s')"
    and t: "t \<in> set (ks_turns s)" "ct_run_id t \<noteq> None" "ct_state t \<notin> set TERMINAL_STATES"
    and u: "tu_state u \<in> set TERMINAL_STATES" and app: "apply_update u rid now t s = Inr (Turn_updated p nxt, s')"
  shows "case nxt of None \<Rightarrow> drained (ct_thread_id t) (ks_turns s')
    | Some m \<Rightarrow> (\<exists>n \<in> set (ks_turns s'). m = full_dto s' n \<and> ct_state n = ''starting'' \<and> ct_thread_id n = ct_thread_id t)"
proof -
  note E = ended_rows[OF ok(1) t u refl]
  from app show ?thesis
  proof (cases rule: apply_turns)
    case finish
    have "ct_state x \<in> set TERMINAL_STATES" if "x \<in> set (ks_turns s')" "ct_thread_id x = ct_thread_id t" for x
    proof -
      have "\<not> executing (ct_thread_id t) x" "\<not> waiting (ct_thread_id t) x"
        using E(6)[of x] finish(2) that unfolding next_waiting_None finish(3) by blast+
      then show ?thesis using turns_okD(2)[OF ok(2) that(1)] that(2) by (auto simp: row_ok_def TURN_STATES_def executing_def waiting_def)
    qed
    then show ?thesis using finish(6) by (auto simp: drained_def list_all_iff)
  next
    case (pass n resume)
    note N = next_waiting_Some[OF pass(2)]
    have "taken_over rid now resume n \<in> set (ks_turns s')" unfolding pass(5) using replace_set[OF E(2) N(1)] by simp
    then show ?thesis using pass(8) N(2) by (auto simp: waiting_def)
  qed (use u in simp)
qed

text \<open>One failed start: the turn ends, and either the thread is drained or the next turn is starting.\<close>

lemma failed_start:
  assumes ok: "turns_ok (ks_turns s)" and owner: "0 < owner" and none: "no_machine W" and fresh: "fresh_supply W w s"
    and t: "t \<in> set (ks_turns s)" "ct_state t = ''starting''" "ct_thread_id t = tid" and all: "thread_startable owner tid s"
  obtains rid r nxt s' where "ct_run_id t = Some rid"
    "start_claimed W owner (full_dto s t) rid w s = (Inr (r, nxt), next_world W w, s')" "cd_state r = ''failed''"
    "fresh_supply W (next_world W w) s'" "thread_startable owner tid s'" "turns_ok (ks_turns s')"
    "case nxt of None \<Rightarrow> drained tid (ks_turns s')
     | Some m \<Rightarrow> (\<exists>n \<in> set (ks_turns s'). m = full_dto s' n \<and> ct_state n = ''starting'' \<and> ct_thread_id n = tid)"
proof -
  obtain rid where rid: "ct_run_id t = Some rid" using turns_okD(2)[OF ok t(1)] t(2) by (auto simp: row_ok_def)
  have live: "ct_state t \<notin> set TERMINAL_STATES" using t(2) by (simp add: TERMINAL_STATES_def)
  let ?d = "full_dto s t"
  let ?err = "''Machine Agent does not advertise '' @ ct_provider t @ ''.turn_start''"
  let ?u = "turn_report owner ?d rid ''failed'' (Some ''adapter_unavailable'') (Some ?err)"
  have u: "tu_state ?u \<in> set TERMINAL_STATES" by (simp add: turn_report_def TERMINAL_STATES_def)
  obtain now w1 nid w2 where w: "cw_now W w = (now, w1)" "cw_uuid W w1 = (nid, w2)" by (metis surj_pair)
  have nid: "nid = uuid_at W w 0" "w2 = next_world W w" using w by (simp_all add: uuid_at_def next_world_def)
  have st: "startable owner s t" using all t(1,3) by (simp add: thread_startable_def)
  have match: "update_matches ?u s t" using st rid by (simp add: update_matches_def turn_report_def startable_def)
  have "\<not> run_id_used nid s" using fresh nid(1) by (simp add: fresh_supply_def)
  then obtain reply s' where app: "apply_update ?u nid now t s = Inr (reply, s')" by (rule apply_total)
  have "update_console_turn ?u nid now s = Inr (reply, s')"
    using one_match[OF ok t(1) match] app live t(2) by (simp add: update_console_turn_def turn_report_def)
  then have served: "serve_update_console_turn ?u nid now s = Inr (reply, s')"
    using owner st by (simp add: serve_update_console_turn_def turn_report_def startable_def py_strip_def is_space_def)
  have ok': "turns_ok (ks_turns s')" using turn_change_ok[OF run_turn_change[of "Report ?u nid" now s] ok] served by simp
  obtain p nxt where reply: "reply = Turn_updated p nxt" "td_state p = ''failed''"
    using apply_state[OF app] by (auto simp: turn_report_def)
  have "call_update W ?u w s = (Inr reply, w2, s')" using served w reply by (simp add: call_update_def raised_def)
  then have start: "start_claimed W owner ?d rid w s =
      (Inr (dispatched_as ?d rid True ''failed'' (Some ''adapter_unavailable'') (Some ?err), nxt), next_world W w, s')"
    using none reply nid(2) by (simp add: start_claimed_def start_turn_def no_machine_def report_start_def or_none_def Let_def)
  have fresh': "fresh_supply W (next_world W w) s'" using fresh_next[OF fresh] used_after[OF app] nid(1) by blast
  show thesis
  proof (rule that[OF rid start _ fresh' apply_startable[OF ok t(1) _ live u app all] ok'])
    show "cd_state (dispatched_as ?d rid True ''failed'' (Some ''adapter_unavailable'') (Some ?err)) = ''failed''"
      by (simp add: dispatched_as_def)
    show "case nxt of None \<Rightarrow> drained tid (ks_turns s')
      | Some m \<Rightarrow> (\<exists>n \<in> set (ks_turns s'). m = full_dto s' n \<and> ct_state n = ''starting'' \<and> ct_thread_id n = tid)"
      unfolding t(3)[symmetric] using ended_thread[OF ok ok' t(1) _ live u app[unfolded reply(1)]] rid by simp
  qed (use rid in simp)
qed

text \<open>
  (C22) Without a machine that can start turns, no message stays queued: the dispatch returns, its turn has failed, and
  so has every turn that was waiting behind it on the thread.
\<close>

theorem unsupported_thread_drains:
  assumes "turns_ok (ks_turns s)" and "0 < owner" and "no_machine W" and "fresh_supply W w s"
    and "t \<in> set (ks_turns s)" and "ct_state t = ''starting''" and "ct_thread_id t = tid" and "thread_startable owner tid s"
  shows "\<exists>r w' s'. dispatch_catalog_claimed_turn W owner (full_dto s t) w s = (Inr r, w', s') \<and> cd_state r = ''failed'' \<and>
    drained tid (ks_turns s')"
  using assms(1,4-8)
proof (induction "waiting_count s" arbitrary: s w t rule: less_induct)
  case less
  obtain rid r nxt s1 where st: "ct_run_id t = Some rid"
      "start_claimed W owner (full_dto s t) rid w s = (Inr (r, nxt), next_world W w, s1)" "cd_state r = ''failed''"
      "fresh_supply W (next_world W w) s1" "thread_startable owner tid s1" "turns_ok (ks_turns s1)"
      "case nxt of None \<Rightarrow> drained tid (ks_turns s1)
       | Some m \<Rightarrow> (\<exists>n \<in> set (ks_turns s1). m = full_dto s1 n \<and> ct_state n = ''starting'' \<and> ct_thread_id n = tid)"
    by (rule failed_start[OF less.prems(1) assms(2,3) less.prems(2-6)])
  have run: "td_run_id (full_dto s t) = Some rid" using st(1) by simp
  show ?case
  proof (cases nxt)
    case None
    then have "drained tid (ks_turns s1)" using st(7) by simp
    then show ?thesis using dispatch_stops[OF run st(2)[unfolded None]] st(3) by blast
  next
    case (Some m)
    then obtain n where n: "n \<in> set (ks_turns s1)" "m = full_dto s1 n" "ct_state n = ''starting''" "ct_thread_id n = tid" using st(7) by auto
    have less': "waiting_count s1 < waiting_count s" by (rule start_claimed_count[OF st(2)[unfolded Some]])
    obtain r2 w2 s2 where d2: "dispatch_catalog_claimed_turn W owner m (next_world W w) s1 = (Inr r2, w2, s2)" "drained tid (ks_turns s2)"
      using less.hyps[OF less' st(6,4) n(1,3,4) st(5)] n(2) by blast
    have "dispatch_catalog_claimed_turn W owner (full_dto s t) w s = (Inr r, w2, s2)"
      using dispatch_goes_on[OF run st(2)[unfolded Some] d2(1)] by simp
    then show ?thesis using st(3) d2(2) by blast
  qed
qed

end
