(* ===== verification/Turn_Samples.thy ===== *)
theory Turn_Samples
  imports Dispatch_Liveness
begin

text \<open>A Console thread with one starting and one queued turn, and the properties of Console turns applied to it.\<close>

definition sample_receipt :: "string \<Rightarrow> string \<Rightarrow> input_receipt" where
  "sample_receipt i status = (blank_receipt i (UTC 0))\<lparr>ir_owner_id := 7, ir_session_id := ''s1'', ir_status := status,
     ir_text := ''hi'', ir_client_request_id := Some i\<rparr>"

definition sample_turn :: "string \<Rightarrow> string option \<Rightarrow> string \<Rightarrow> int \<Rightarrow> console_turn" where
  "sample_turn i run state at = \<lparr>ct_id = i, ct_session_id = ''s1'', ct_thread_id = ''t1'', ct_receipt_id = i, ct_run_id = run,
     ct_state = state, ct_provider = ''codex'', ct_device_id = ''mac'', ct_cwd = ''/w'', ct_resume_provider_thread_id = None,
     ct_error = None, ct_created_at = UTC at, ct_updated_at = UTC at, ct_terminal_at = None\<rparr>"

definition turn_a :: console_turn where "turn_a = sample_turn ''a'' (Some ''r1'') ''starting'' 10"
definition turn_b :: console_turn where "turn_b = sample_turn ''b'' None ''queued'' 20"

definition two_turns :: console_store where
  "two_turns = \<lparr>
     ks_sessions = [\<lparr>sc_session_id = ''s1'', sc_provider = ''codex'', sc_primary_thread_id = Some ''t1'', sc_origin_kind = Some ''console'',
       sc_last_console_result_at = None, sc_last_console_result_outcome = None, sc_updated_at = UTC 0\<rparr>],
     ks_owners = \<lparr>ot_users = [(7, True)], ot_live = [(''s1'', Some ''7'')], ot_storage = [], ot_outbox = []\<rparr>,
     ks_threads = [\<lparr>tt_id = ''t1'', tt_device_id = Some ''mac'', tt_cwd = Some ''/w'', tt_provider_config = []\<rparr>],
     ks_aliases = [],
     ks_runs = [console_run_for ''r1'' turn_a (UTC 10)],
     ks_receipts = [sample_receipt ''a'' ''delivering'', sample_receipt ''b'' ''queued''],
     ks_turns = [turn_a, turn_b],
     ks_meta = \<lparr>cm_commit_seq = 5, cm_updated_at = []\<rparr>\<rparr>"

definition a_done :: turn_update where
  "a_done = \<lparr>tu_run_id = ''r1'', tu_session_id = ''s1'', tu_thread_id = ''t1'', tu_provider = ''codex'', tu_device_id = ''mac'',
     tu_owner_id = 7, tu_turn_id = None, tu_expected_state = None, tu_state = ''completed'', tu_error = None, tu_error_code = None\<rparr>"

definition done_answer :: "turn_reply \<times> console_store" where
  "done_answer = projr (serve_update_console_turn a_done ''r2'' (UTC 30) two_turns)"

text \<open>The answer, computed once; the evaluations below start from this value.\<close>

lemma done_answer_value [code]:
  "done_answer =
     (Turn_updated \<lparr>td_turn_id = ''a'', td_session_id = ''s1'', td_thread_id = ''t1'', td_run_id = Some ''r1'',
      td_state = ''completed'', td_provider = ''codex'', td_device_id = ''mac'', td_cwd = ''/w'', td_message = None,
      td_client_request_id = Some ''a'', td_provider_config = [], td_resume_provider_thread_id = None,
      td_error = None\<rparr> (Some \<lparr>td_turn_id = ''b'', td_session_id = ''s1'', td_thread_id = ''t1'',
      td_run_id = Some ''r2'', td_state = ''starting'', td_provider = ''codex'', td_device_id = ''mac'', td_cwd = ''/w'',
      td_message = Some ''hi'', td_client_request_id = Some ''b'', td_provider_config = [],
      td_resume_provider_thread_id = None, td_error = None\<rparr>), \<lparr>ks_sessions = [\<lparr>sc_session_id = ''s1'',
      sc_provider = ''codex'', sc_primary_thread_id = Some ''t1'', sc_origin_kind = Some ''console'',
      sc_last_console_result_at = Some (UTC 30), sc_last_console_result_outcome = Some ''completed'',
      sc_updated_at = UTC 30\<rparr>], ks_owners = \<lparr>ot_users = [(7, True)], ot_live = [(''s1'', Some ''7'')],
      ot_storage = [], ot_outbox = []\<rparr>, ks_threads = [\<lparr>tt_id = ''t1'', tt_device_id = Some ''mac'',
      tt_cwd = Some ''/w'', tt_provider_config = []\<rparr>], ks_aliases = [], ks_runs = [\<lparr>cr_id = ''r1'',
      cr_thread_id = ''t1'', cr_provider = ''codex'', cr_host_id = Some ''mac'', cr_cwd = Some ''/w'',
      cr_launch_origin = ''longhouse_spawned'', cr_started_at = UTC 10, cr_ended_at = Some (UTC 30),
      cr_exit_status = Some ''completed''\<rparr>, \<lparr>cr_id = ''r2'', cr_thread_id = ''t1'', cr_provider = ''codex'',
      cr_host_id = Some ''mac'', cr_cwd = Some ''/w'', cr_launch_origin = ''longhouse_spawned'', cr_started_at = UTC 30,
      cr_ended_at = None, cr_exit_status = None\<rparr>], ks_receipts = [\<lparr>ir_id = ''a'', ir_owner_id = 7,
      ir_session_id = ''s1'', ir_thread_id = None, ir_provider = [], ir_device_id = None, ir_client_request_id = Some ''a'',
      ir_intent = [], ir_status = ''delivered'', ir_text = ''hi'', ir_archive_session_input_id = None,
      ir_control_command_id = None, ir_delivery_request_id = None, ir_delivery_attempts = None, ir_error_json = None,
      ir_created_at = UTC 0, ir_updated_at = UTC 30, ir_expires_at = None\<rparr>, \<lparr>ir_id = ''b'', ir_owner_id = 7,
      ir_session_id = ''s1'', ir_thread_id = None, ir_provider = [], ir_device_id = None, ir_client_request_id = Some ''b'',
      ir_intent = [], ir_status = ''delivering'', ir_text = ''hi'', ir_archive_session_input_id = None,
      ir_control_command_id = None, ir_delivery_request_id = Some ''r2'', ir_delivery_attempts = None, ir_error_json = None,
      ir_created_at = UTC 0, ir_updated_at = UTC 30, ir_expires_at = None\<rparr>], ks_turns = [\<lparr>ct_id = ''a'',
      ct_session_id = ''s1'', ct_thread_id = ''t1'', ct_receipt_id = ''a'', ct_run_id = Some ''r1'',
      ct_state = ''completed'', ct_provider = ''codex'', ct_device_id = ''mac'', ct_cwd = ''/w'',
      ct_resume_provider_thread_id = None, ct_error = None, ct_created_at = UTC 10, ct_updated_at = UTC 30,
      ct_terminal_at = Some (UTC 30)\<rparr>, \<lparr>ct_id = ''b'', ct_session_id = ''s1'', ct_thread_id = ''t1'',
      ct_receipt_id = ''b'', ct_run_id = Some ''r2'', ct_state = ''starting'', ct_provider = ''codex'',
      ct_device_id = ''mac'', ct_cwd = ''/w'', ct_resume_provider_thread_id = None, ct_error = None, ct_created_at = UTC 20,
      ct_updated_at = UTC 30, ct_terminal_at = None\<rparr>], ks_meta = \<lparr>cm_commit_seq = 6,
      cm_updated_at = ''1970-01-01T00:00:00.000030+00:00''\<rparr>\<rparr>)"
  by code_simp

definition a_answer :: turn_dto where
  "a_answer = (case fst done_answer of Turn_updated p n \<Rightarrow> p)"

definition b_started :: turn_dto where
  "b_started = (case fst done_answer of Turn_updated p (Some n) \<Rightarrow> n)"

definition b_running :: console_store where
  "b_running = snd done_answer"

lemma a_done_served: "serve_update_console_turn a_done ''r2'' (UTC 30) two_turns = Inr (Turn_updated a_answer (Some b_started), b_running)"
  by code_simp

lemma b_running_turns: "ks_turns b_running = [advance_turn a_done (UTC 30) turn_a, taken_over ''r2'' (UTC 30) None turn_b]"
  by code_simp

lemma two_turns_ok: "runs_ok two_turns"
  by code_simp

lemma a_done_run: "run_turn (Report a_done ''r2'') (UTC 30) two_turns = Inr (Turn_updated a_answer (Some b_started), b_running)"
  using a_done_served by simp

lemma two_turns_turns: "turns_ok (ks_turns two_turns)" "turns_ok (ks_turns b_running)"
  using two_turns_ok run_turn_runs[OF two_turns_ok a_done_run] by (simp_all add: runs_ok_def)

theorem turns_refine_lanes_witness:
  "lane_of ''t1'' (ks_turns b_running) =
     lane_step (call_event (Report a_done ''r2'') (UTC 30) (Turn_updated a_answer (Some b_started))) ''t1'' (lane_of ''t1'' (ks_turns two_turns))"
  by (rule turns_refine_lanes[OF two_turns_turns(1) a_done_run])

theorem waiting_turn_is_started_witness:
  "\<exists>x. x \<in> set (ks_turns b_running) \<and> ct_id x = ''b'' \<and> ct_run_id x \<noteq> None"
proof -
  have "turn_event (Report a_done ''r2'', UTC 30) two_turns = Inr (Release ''t1'', b_running)"
  proof -
    have "td_thread_id a_answer = ''t1''" "tu_state a_done \<in> set TERMINAL_STATES" by code_simp+
    then show ?thesis using a_done_run by (simp add: turn_event_def)
  qed
  then have run: "event_runs turn_event [(Report a_done ''r2'', UTC 30)] two_turns = Inr ([Release ''t1''], b_running)" by simp
  have hyps: "turn_b \<in> set (ks_turns two_turns)" "waiting ''t1'' turn_b" "list_all (admits_later (turn_order turn_b) ''t1'') [Release ''t1'']"
    "not_after (turn_order turn_b) (lane_of ''t1'' (ks_turns two_turns)) \<le> releases ''t1'' [Release ''t1'']" "ct_id turn_b = ''b''"
    by code_simp+
  show ?thesis using waiting_turn_is_started[OF two_turns_turns(1) hyps(1,2) run hyps(3,4)] hyps(5) by auto
qed

theorem finished_turn_is_final_witness:
  "advance_turn a_done (UTC 30) turn_a \<in> set (ks_turns b_running)"
proof -
  define late where "late = a_done\<lparr>tu_state := ''active'', tu_expected_state := Some ''starting''\<rparr>"
  have hyps: "advance_turn a_done (UTC 30) turn_a \<in> set (ks_turns b_running)"
    "ct_state (advance_turn a_done (UTC 30) turn_a) \<in> set TERMINAL_STATES" by code_simp+
  have "\<exists>reply. run_turn (Report late ''r3'') (UTC 31) b_running = Inr (reply, b_running)"
  proof -
    have "run_turn (Report late ''r3'') (UTC 31) b_running =
        Inr (Turn_stale (full_dto b_running (advance_turn a_done (UTC 30) turn_a)), b_running)"
      unfolding late_def by code_simp
    then show ?thesis by blast
  qed
  then obtain reply where "run_turn (Report late ''r3'') (UTC 31) b_running = Inr (reply, b_running)" by blast
  then show ?thesis by (rule finished_turn_is_final[OF two_turns_turns(2) hyps])
qed

theorem terminal_report_closes_witness:
  "\<exists>r. find (\<lambda>r. cr_id r = ''r1'') (ks_runs b_running) = Some r \<and> cr_ended_at r = Some (UTC 30) \<and> cr_exit_status r = Some ''completed''"
proof -
  have hyp: "tu_state a_done \<in> set TERMINAL_STATES" by code_simp
  have v: "tu_run_id a_done = ''r1''" "tu_state a_done = ''completed''" "or_none (tu_error_code a_done) = None" by code_simp+
  from terminal_report_closes[OF two_turns_ok a_done_served hyp] show ?thesis unfolding v option.case by blast
qed

text \<open>The report of the first turn is sent again after the second turn has been handed the thread.\<close>

theorem lost_hand_over_is_replayed_witness:
  "\<exists>p n. serve_update_console_turn a_done ''r3'' (UTC 60) b_running = Inr (Turn_replayed p (Some n), b_running) \<and>
     td_turn_id n = td_turn_id b_started \<and> td_run_id n = td_run_id b_started"
proof -
  let ?x = "taken_over ''r2'' (UTC 30) None turn_b"
  have b: "td_turn_id b_started = ''b''" "td_run_id b_started = Some ''r2''" by code_simp+
  have x: "?x \<in> set (ks_turns b_running)" "ct_id ?x = td_turn_id b_started" "ct_run_id ?x = td_run_id b_started" "ct_state ?x = ''starting''"
    by (simp_all add: b_running_turns b turn_b_def sample_turn_def)
  have seq: "0 \<le> cm_commit_seq (ks_meta two_turns)" by (simp add: two_turns_def)
  have later: "event_runs turn_event [] b_running = Inr ([], b_running)" by simp
  have none: "tu_expected_state a_done = None" by (simp add: a_done_def)
  show ?thesis
    using lost_hand_over_is_replayed[OF two_turns_turns(1) seq a_done_served later x, of "''r3''" "UTC 60"]
    unfolding if_P[OF none] by (elim exE conjE) (intro exI conjI)
qed

definition third :: turn_request where
  "third = \<lparr>tq_session_id = ''s1'', tq_owner_id = 7, tq_message = ''and?'', tq_client_request_id = ''c''\<rparr>"

definition third_ids :: turn_ids where
  "third_ids = \<lparr>ti_receipt = ''c'', ti_turn = ''c'', ti_run = ''r9''\<rparr>"

definition third_answer :: "turn_reply \<times> console_store" where
  "third_answer = projr (enqueue_console_turn third third_ids (UTC 40) (UTC 40) two_turns)"

definition third_dto :: turn_dto where
  "third_dto = (case fst third_answer of Turn_accepted d \<Rightarrow> d)"

theorem message_accepted_once_witness:
  "enqueue_console_turn third \<lparr>ti_receipt = ''d'', ti_turn = ''d'', ti_run = ''d''\<rparr> (UTC 50) (UTC 50) (snd third_answer) =
     Inr (Turn_exists third_dto, snd third_answer)"
proof -
  have "enqueue_console_turn third third_ids (UTC 40) (UTC 40) two_turns = Inr (Turn_accepted third_dto, snd third_answer)" by code_simp
  then show ?thesis by (rule message_accepted_once)
qed

subsection \<open>The service\<close>

text \<open>Worlds that count: ids are words of growing length; machines are absent, refuse, or accept.\<close>

definition counting_world :: "bool \<Rightarrow> machine_reply \<Rightarrow> nat control_world" where
  "counting_world present reply = \<lparr>cw_supports = (\<lambda>_ _ _ _. present), cw_send = (\<lambda>_ w. (reply, w)),
     cw_uuid = (\<lambda>w. (replicate (w + 10) CHR ''u'', Suc w)), cw_now = (\<lambda>w. (UTC 100, w))\<rparr>"

definition refusing :: machine_reply where
  "refusing = \<lparr>mr_transport_ok = True,
     mr_message = [(''ok'', PBool False), (''error'', PDict [(''code'', PStr (replicate 65 CHR ''x''))])], mr_error = None\<rparr>"

theorem service_keeps_console_store_witness:
  "runs_ok (snd (fold (serve (counting_world True refusing)) [Send_message third, Machine_reconnected 7 ''mac''] (0, two_turns)))"
  by (rule service_keeps_console_store[OF two_turns_ok surjective_pairing])

theorem dispatch_commands_are_distinct_witness:
  "distinct (map mc_command_id (snd (fst (snd (dispatch_catalog_claimed_turn (logged (counting_world True refusing)) 7
     (full_dto two_turns turn_a) (0, []) two_turns)))))"
proof -
  have "td_run_id (full_dto two_turns turn_a) = Some ''r1''" by (simp add: turn_a_def sample_turn_def)
  moreover have "''r1'' \<in> run_ids two_turns" by (simp add: run_ids_def two_turns_def turn_a_def sample_turn_def)
  ultimately show ?thesis
    using dispatch_commands_are_distinct[OF two_turns_ok, of _ _ "counting_world True refusing" 7 0] by (metis prod.collapse)
qed

theorem overlong_error_code_is_dropped_witness:
  "snd (snd (dispatch_catalog_claimed_turn (counting_world True refusing) 7 (full_dto two_turns turn_a) 0 two_turns)) = two_turns"
proof -
  have hyps: "td_run_id (full_dto two_turns turn_a) = Some ''r1''" "mr_transport_ok refusing"
    "dget (mr_message refusing) ''ok'' = PBool False"
    "dget (error_detail (mr_message refusing)) ''code'' = PStr (replicate 65 CHR ''x'')" "64 < length (replicate 65 CHR ''x'')"
    "is_string 64 (td_provider (full_dto two_turns turn_a))" "is_string 255 (td_device_id (full_dto two_turns turn_a))"
    by (simp_all add: refusing_def turn_a_def sample_turn_def error_detail_def is_string_def)
  show ?thesis
    using overlong_error_code_is_dropped[OF hyps(1) _ _ hyps(2-5) _ hyps(6,7), of "counting_world True refusing" 7 0 0 two_turns]
    by (simp add: counting_world_def)
qed

lemma counting_uuid: "uuid_at (counting_world present reply) w n = replicate (w + n + 10) CHR ''u''"
proof -
  have "(next_world (counting_world present reply) ^^ n) w = w + n" by (induction n) (simp_all add: next_world_def counting_world_def)
  then show ?thesis by (simp add: uuid_at_def counting_world_def)
qed

theorem unsupported_thread_drains_witness:
  "\<exists>r w' s'. dispatch_catalog_claimed_turn (counting_world False refusing) 7 (full_dto two_turns turn_a) 0 two_turns = (Inr r, w', s') \<and>
     cd_state r = ''failed'' \<and> drained ''t1'' (ks_turns s')"
proof (rule unsupported_thread_drains[OF two_turns_turns(1)])
  have ids: "replicate (n + 10) CHR ''u'' = CHR ''u'' # replicate (n + 9) CHR ''u''" for n by (simp flip: replicate_Suc)
  have "\<not> run_id_used (CHR ''u'' # v) two_turns" for v
    by (simp add: run_id_used_def two_turns_def turn_a_def turn_b_def sample_turn_def console_run_for_def)
  then have "\<not> run_id_used (replicate (n + 10) CHR ''u'') two_turns" for n unfolding ids .
  moreover have "inj (\<lambda>n. replicate (n + 10) CHR ''u'')" by (intro injI) (simp only: replicate_eq_replicate add_right_cancel)
  moreover have "uuid_at (counting_world False refusing) 0 = (\<lambda>n. replicate (n + 10) CHR ''u'')"
    by (rule ext) (simp only: counting_uuid add_0)
  ultimately show "fresh_supply (counting_world False refusing) 0 two_turns" unfolding fresh_supply_def by simp
  show "thread_startable 7 ''t1'' two_turns" by code_simp
  show "no_machine (counting_world False refusing)" by (simp add: no_machine_def counting_world_def)
  show "turn_a \<in> set (ks_turns two_turns)" by (simp add: two_turns_def)
qed (simp_all add: turn_a_def sample_turn_def)

end
