(* ===== verification/Spec2Isabelle.thy ===== *)
theory Spec2Isabelle
  imports Fact_Samples Fact_Reads Projector_Samples Runtime_Display Live_Samples Refresh_Properties
    Claim_Guarantees Operation_Samples Turn_Samples
begin

text \<open>
  Longhouse records the coding-agent sessions of a user's machines and serves their state to clients. This
  library verifies the server's state core (\<open>src/server/zerg\<close>): how machine evidence and runtime events
  become stored rows, how stored rows become the state a client sees, how control of a session is
  authorized, and how the catalog daemon hands out work, inputs, commands and logins.

  \<^bold>\<open>Parts and theories.\<close>

  \<^item> \<open>Py_Prelude\<close>, \<open>Py_Store\<close>: exceptions as values (\<open>res\<close>), JSON values (\<open>pyval\<close>), ASCII strings with Python's
    methods, timestamps as microseconds, tables as lists of rows (\<open>find\<close>, \<open>update_where\<close>, \<open>one_or_none\<close>), and
    the interfaces \<open>best_choice\<close> (choosing one row out of many) and \<open>loop_simulation\<close> (one loop implements
    another) as locales.
  \<^item> \<open>Console_Control\<close>, \<open>Provider_Contracts\<close>, \<open>Kernel_Capabilities\<close>: \<open>services/console_control_projection.py\<close>,
    \<open>services/managed_provider_contracts.py\<close>, \<open>services/agents/kernel_capabilities.py\<close>. What may be done with a
    session, from its threads, runs and connections and the contract of its provider.
  \<^item> \<open>Pause_Requests\<close>, \<open>Pause_Lifecycle\<close>: \<open>services/session_pause_requests.py\<close>. Questions to the user: announcing,
    superseding, answering and expiring them, and the step relation of the table.
  \<^item> \<open>Session_Runtime\<close>, \<open>Runtime_Reducer\<close>, \<open>Runtime_Invariants\<close>, \<open>Runtime_Properties\<close>, \<open>Runtime_Samples\<close>:
    \<open>services/session_runtime.py\<close>. The read side (runtime views, freshness, the merge of two lanes) and the event
    reducer with everything a terminal event settles.
  \<^item> \<open>Live_Previews\<close>, \<open>Live_Ingest\<close>, \<open>Live_Samples\<close>: \<open>services/session_live_previews.py\<close>,
    \<open>services/live_session_state.py\<close>. Provisional text and the index of active sessions.
  \<^item> \<open>Liveness_Facts\<close>, \<open>Runtime_Display\<close>, \<open>State_Contract\<close>, \<open>State_Presentation\<close>:
    \<open>services/session_liveness_facts.py\<close>, \<open>services/session_runtime_display.py\<close>,
    \<open>services/session_state_contract.py\<close>. The orthogonal axes of a session and the one presentation policy.
  \<^item> \<open>Sha256\<close>, \<open>Machine_Evidence\<close>: \<open>machine_evidence.py\<close>. Canonical JSON, content hash and the validation of
    the identities a machine attaches to its facts.
  \<^item> \<open>Fact_Store\<close>, \<open>Fact_Reducer\<close>, \<open>Fact_Setwise\<close>, \<open>Fact_Reads\<close>: \<open>catalogd/fact_reducer.py\<close>. The tables, the
    row-wise reference reducer, the set-wise production reducer and the reads. \<open>Fact_Retention\<close>,
    \<open>Fact_Equivalence\<close>, \<open>Fact_Invariants\<close>, \<open>Fact_Steps\<close>, \<open>Fact_Properties\<close>, \<open>Fact_Samples\<close>: proofs about them.
  \<^item> \<open>Facts_Projector\<close>, \<open>Projector_Properties\<close>, \<open>Projector_Samples\<close>: \<open>services/session_state_facts_projector.py\<close>.
    The projection of stored heads and durable rows, and the authorization of control operations.
  \<^item> \<open>Catalog_Meta\<close>: the commit counter of \<open>catalogd/store.py\<close> and the two contracts of its transactions as
    locales: \<open>catalog_operation\<close> (no write without a new commit) and \<open>retryable\<close> (a repeated request answers
    and changes nothing). The components below interpret them.
  \<^item> \<open>Refresh_Sessions\<close>, \<open>Refresh_Properties\<close>: browser refresh tokens (\<open>create_\<close>, \<open>rotate_refresh_session\<close>,
    \<open>revoke_refresh_family\<close>).
  \<^item> \<open>Projector_Claims\<close>, \<open>Claim_Properties\<close>, \<open>Claim_Guarantees\<close>: the work ledger of the storage projectors
    (\<open>advance_\<close>, \<open>claim_\<close>, \<open>complete_\<close>, \<open>fail_\<close>, \<open>requeue_projector_...\<close>) and the abstract job it implements.
  \<^item> \<open>Input_Receipts\<close>, \<open>Input_Queue\<close>, \<open>Input_Properties\<close>, \<open>Input_Guarantees\<close>, \<open>Input_Samples\<close>:
    \<open>services/live_session_inputs.py\<close> and the queue transactions of the catalog.
  \<^item> \<open>Live_Control\<close>, \<open>Control_Operations\<close>, \<open>Operation_Properties\<close>, \<open>Operation_Samples\<close>:
    \<open>services/live_control_catalog.py\<close>, \<open>services/machine_control_operations.py\<close> and the operation transactions
    of the catalog.
  \<^item> \<open>Turn_Lanes\<close>: the specification of a Console thread, a lane with one running turn and an ordered queue, and
    the locale \<open>turn_lanes\<close> of a store that keeps lanes. \<open>Console_Turns\<close>: the turn transactions of the catalog and
    their request handler. \<open>Turn_Properties\<close>, \<open>Turn_Guarantees\<close>: the store keeps lanes (an interpretation), and
    what follows. \<open>Turn_Dispatch\<close>: \<open>services/console_turns.py\<close> on the live catalog and the part of
    \<open>routers/runtime.py\<close> that reports terminal signals, over any machine channel, clock and supply of ids
    (\<open>control_world\<close>). \<open>Dispatch_Properties\<close>, \<open>Dispatch_Guarantees\<close>, \<open>Dispatch_Liveness\<close>, \<open>Turn_Samples\<close>: proofs
    about the service.

  \<^bold>\<open>How the parts interact.\<close> A machine sends evidence; \<open>validate_machine_evidence_identities\<close> binds each fact to
  its hash and subject; \<open>reduce_fact_batch_setwise\<close> folds the facts into heads, receipts and conflicts under one
  commit; the reads return bounded snapshots; \<open>project_served_session_state_facts\<close> turns a snapshot into the
  axes that \<open>assemble_session_state_facts\<close> presents; \<open>authorize_exact_control_fact\<close> decides a control operation
  on the exact head. \<open>claim_queued_input\<close> asks that projection whether the next input may be delivered, and
  \<open>prepare_control_command\<close> asks that authorization before it reserves a command. The older path builds the same
  axes from runtime rows and kernel capabilities (\<open>build_session_state_facts\<close>); a terminal runtime event ends
  the run and the connections those capabilities are read from, and expires its pause requests. A Console message
  becomes a turn and an input receipt; the turn that may start is sent to its machine, and the terminal signal of
  its run ends the turn and starts the next one.

  \<^bold>\<open>What is shown.\<close> The two reducers are equal; tables stay well formed and bounded; heads never go back; valid
  batches are always reduced; the order of a batch does not matter; batched projections equal their one-session
  forms; control is claimed only on fresh, bound evidence, and authorization is sound and complete; closing a
  session is final, an ended run reopens only for a new one and takes its control with it; questions are
  answered once and in time; refresh tokens are used once and a stolen one kills its family; projector claims are exclusive,
  implement the abstract job, get done and may be retried; inputs are delivered in order, in time, one at a time to
  a delivery, only to a session that can take them, and never tried forever; commands are reserved only on an authorized lease
  and their verdicts are final. The Console store refines its lanes: a message is accepted once, waiting turns are started
  in order, outcomes are final and closed in every table; under any behaviour of the machines the service keeps the
  store consistent, sends every run id once per dispatch, finds a lost hand-over again when the terminal report of its
  machine is repeated, and leaves no message waiting for a missing adapter. Four properties state where the code departs from what it means to do: the end of a new run
  dropped as a replay, a refused claim that writes without a commit, attachments whose retry is refused, and a
  refusal with a long error code that leaves its turn starting. Two more bound a promise: the answer to a fresh
  claim shows the receipt as it was before the claim, and a report that expects a state is not replayed.

  \<^bold>\<open>Conventions.\<close> State is passed explicitly; a raised exception is \<open>Inl\<close>; loops are folds over lists, and the one
  open recursion (the dispatch of the next turn) ends because each hand-over shortens the queue, so no fuel
  is needed. Strings are ASCII, so byte and character lengths agree. A transaction that raises has no result
  store. Every reading of the clock is an argument, and so is what a transaction reads of tables that another
  part owns. \<open>pylib\<close> holds what Python's library supplies and the model does not fix: \<open>datetime.fromisoformat\<close>,
  \<open>json.loads\<close> and the local UTC offset.

  \<^bold>\<open>Not modelled.\<close> Logging, metrics, pydantic serialization, HTTP and RPC transport, the SQL engine beyond the
  statements written out (an ORM session's identity map is modelled where a stale row is returned), and the components listed as not modelled in the manifest (archive turns and input
  queue, the remaining operations of the catalog, views, clients, the Rust engine).
\<close>

end
